(* ===== verification/Rounding.thy ===== *)
theory Rounding
  imports Float64
begin

text \<open>
  What rounding guarantees: \<open>rnd\<close> is monotone, odd, exact on representable values and always
  yields one; hence the comparison lemmas the component theories use.
\<close>

named_theorems f64_simps \<open>evaluation of float operations on finite arguments\<close>

section \<open>The binary exponent\<close>

lemma powi_le_iff: "(2::rat) powi a \<le> 2 powi b \<longleftrightarrow> a \<le> b"
  by (meson less_le_not_le linorder_not_le one_less_numeral_iff power_int_increasing
      power_int_strict_increasing semiring_norm(76) order_less_imp_le)

lemma powi_less_iff: "(2::rat) powi a < 2 powi b \<longleftrightarrow> a < b"
  using powi_le_iff [of b a] by linarith

lemma powi_pos: "0 < (2::rat) powi k"
  by simp

lemma powi_nat: "0 \<le> k \<Longrightarrow> (2::rat) powi k = 2 ^ nat k"
  by (simp add: power_int_def)

lemma expo_ge1:
  assumes "1 \<le> q"
  shows "2 powi expo q \<le> q" and "q < 2 powi (expo q + 1)"
proof -
  let ?n = "\<lfloor>q\<rfloor>"
  have n: "1 \<le> ?n" using assms by linarith
  then have b: "2 ^ nat (bitlen ?n - 1) \<le> ?n" "?n < 2 ^ nat (bitlen ?n)"
    using bitlen_bounds [of ?n] by auto
  have l: "1 \<le> bitlen ?n" using n bitlen_eq_zero_iff [of ?n] bitlen_nonneg [of ?n] by linarith
  have "(2::rat) powi expo q = of_int (2 ^ nat (bitlen ?n - 1))"
    using assms l by (simp add: expo_def powi_nat)
  also have "\<dots> \<le> of_int ?n" using b by linarith
  also have "\<dots> \<le> q" by simp
  finally show "2 powi expo q \<le> q" .
  have "q < of_int (?n + 1)" by linarith
  also have "\<dots> \<le> of_int (2 ^ nat (bitlen ?n))" using b by linarith
  also have "\<dots> = 2 powi (expo q + 1)" using assms l by (simp add: expo_def powi_nat)
  finally show "q < 2 powi (expo q + 1)" .
qed

lemma expo_lt1:
  assumes "0 < q" and "q < 1"
  shows "2 powi expo q \<le> q" and "q < 2 powi (expo q + 1)"
proof -
  let ?c = "\<lceil>1 / q\<rceil>"
  let ?t = "bitlen (?c - 1)"
  have "1 < 1 / q" using assms by simp
  then have c: "1 \<le> ?c - 1" by linarith
  then have b: "2 ^ nat (?t - 1) \<le> ?c - 1" "?c - 1 < 2 ^ nat ?t"
    using bitlen_bounds [of "?c - 1"] by auto
  have t: "1 \<le> ?t" using c bitlen_eq_zero_iff [of "?c - 1"] bitlen_nonneg [of "?c - 1"] by linarith
  have e: "expo q = - ?t" using assms by (simp add: expo_def)
  have "1 / q \<le> of_int ?c" by (rule le_of_int_ceiling)
  also have "\<dots> \<le> of_int (2 ^ nat ?t)" using b by linarith
  also have "\<dots> = 2 powi ?t" using t by (simp add: powi_nat)
  finally have "1 / q \<le> 2 powi ?t" .
  then have "1 / 2 powi ?t \<le> q" using assms powi_pos [of ?t] by (simp add: field_simps)
  then show "2 powi expo q \<le> q" by (simp add: e power_int_minus divide_inverse)
  have "(2::rat) powi (?t - 1) = of_int (2 ^ nat (?t - 1))" using t by (simp add: powi_nat)
  also have "\<dots> \<le> of_int (?c - 1)" using b by linarith
  also have "\<dots> < 1 / q" by linarith
  finally have "q < 1 / 2 powi (?t - 1)" using assms powi_pos [of "?t - 1"] by (simp add: field_simps)
  also have "\<dots> = 2 powi (expo q + 1)" by (simp add: e power_int_minus [symmetric] divide_inverse)
  finally show "q < 2 powi (expo q + 1)" .
qed

lemma expo_bounds:
  assumes "0 < q"
  shows "2 powi expo q \<le> q" and "q < 2 powi (expo q + 1)"
  using assms expo_ge1 [of q] expo_lt1 [of q] by (meson linorder_not_less)+

lemma expo_le: "0 < q \<Longrightarrow> q < 2 powi (k + 1) \<Longrightarrow> expo q \<le> k"
  using expo_bounds(1) [of q] powi_less_iff [of "expo q" "k + 1"] by linarith

lemma expo_mono:
  assumes "0 < p" and "p \<le> q"
  shows "expo p \<le> expo q"
  using assms expo_bounds(2) [of q] by (intro expo_le) auto

lemma kexp_mono: "0 < p \<Longrightarrow> p \<le> q \<Longrightarrow> kexp p \<le> kexp q"
  using expo_mono [of p q] by (simp add: kexp_def)

section \<open>Rounding to an integer\<close>

lemma rne_of_int [simp]: "rne (of_int n) = n"
proof -
  have "\<lfloor>(of_int n :: rat) + 1 / 2\<rfloor> = n" by linarith
  then show ?thesis by (simp add: rne_def)
qed

lemma rne_mono:
  assumes "x \<le> y"
  shows "rne x \<le> rne y"
proof (cases "x - of_int \<lfloor>x\<rfloor> = 1 / 2 \<and> y - of_int \<lfloor>y\<rfloor> = 1 / 2 \<and> \<lfloor>x\<rfloor> = \<lfloor>y\<rfloor>")
  case True
  then have "x = y" by linarith
  then show ?thesis by simp
next
  case False
  have f: "\<lfloor>x\<rfloor> \<le> \<lfloor>y\<rfloor>" using assms by linarith
  show ?thesis
  proof (cases "y - of_int \<lfloor>y\<rfloor> = 1 / 2 \<and> even \<lfloor>y\<rfloor>")
    case y: True
    then have "rne y = \<lfloor>y\<rfloor>" by (simp add: rne_def)
    moreover have "\<lfloor>x + 1 / 2\<rfloor> \<le> \<lfloor>y\<rfloor>"
      if nx: "\<not> (x - of_int \<lfloor>x\<rfloor> = 1 / 2 \<and> even \<lfloor>x\<rfloor>)"
    proof (cases "\<lfloor>x\<rfloor> = \<lfloor>y\<rfloor>")
      case True
      with nx y have "x - of_int \<lfloor>x\<rfloor> \<noteq> 1 / 2" by simp
      moreover have "x - of_int \<lfloor>x\<rfloor> \<le> 1 / 2" using y True assms by linarith
      ultimately have "x + 1 / 2 < of_int (\<lfloor>x\<rfloor> + 1)" by simp
      then show ?thesis using True by linarith
    next
      case False
      then show ?thesis using f by linarith
    qed
    ultimately show ?thesis using f by (auto simp: rne_def)
  next
    case y: False
    then have "rne y = \<lfloor>y + 1 / 2\<rfloor>" by (auto simp: rne_def)
    moreover have "\<lfloor>x\<rfloor> \<le> \<lfloor>y + 1 / 2\<rfloor>" and "\<lfloor>x + 1 / 2\<rfloor> \<le> \<lfloor>y + 1 / 2\<rfloor>"
      using assms by linarith+
    ultimately show ?thesis by (simp add: rne_def)
  qed
qed

section \<open>Rounding a magnitude\<close>

lemma scaled_below: "0 < q \<Longrightarrow> q / 2 powi kexp q < 2 powi 53"
proof -
  assume q: "0 < q"
  have "q < 2 powi (expo q + 1)" by (rule expo_bounds(2) [OF q])
  also have "\<dots> \<le> 2 powi (kexp q + 53)" by (subst powi_le_iff) (simp add: kexp_def)
  also have "\<dots> = 2 powi kexp q * 2 powi 53" by (simp add: power_int_add)
  finally show ?thesis by (simp add: divide_less_eq mult.commute)
qed

lemma mant_nonneg: "0 < q \<Longrightarrow> 0 \<le> mant q"
  using rne_mono [of 0 "q / 2 powi kexp q"] rne_of_int [of 0] by (simp add: mant_def)

lemma mant_le: "0 < q \<Longrightarrow> mant q \<le> 2 ^ 53"
  using rne_mono [OF less_imp_le [OF scaled_below [of q]]] rne_of_int [of "2 ^ 53"]
  by (simp add: mant_def)

text \<open>The rounded magnitude stays on the same side of any multiple of its own last bit.\<close>

lemma magr_upper:
  assumes "0 < q" and "q \<le> of_int n * 2 powi kexp q"
  shows "of_int (mant q) * 2 powi kexp q \<le> of_int n * (2::rat) powi kexp q"
proof -
  have "q / 2 powi kexp q \<le> of_int n" using assms by (simp add: divide_le_eq)
  then have "mant q \<le> n" using rne_mono [of _ "of_int n"] by (simp add: mant_def)
  then show ?thesis by (simp add: mult_right_mono)
qed

lemma magr_lower:
  assumes "0 < q" and "of_int n * 2 powi kexp q \<le> q"
  shows "of_int n * (2::rat) powi kexp q \<le> of_int (mant q) * 2 powi kexp q"
proof -
  have "of_int n \<le> q / 2 powi kexp q" using assms by (simp add: le_divide_eq)
  then have "n \<le> mant q" using rne_mono [of "of_int n"] by (simp add: mant_def)
  then show ?thesis by (simp add: mult_right_mono)
qed

lemma mant_mono:
  assumes "0 < p" and "p \<le> q" and "kexp p = kexp q"
  shows "mant p \<le> mant q"
  using assms by (auto simp: mant_def intro!: rne_mono divide_right_mono)

lemma magr_mono:
  assumes p: "0 < p" and pq: "p \<le> q"
  shows "of_int (mant p) * 2 powi kexp p \<le> of_int (mant q) * (2::rat) powi kexp q"
proof (cases "kexp p = kexp q")
  case True
  then show ?thesis using mant_mono [OF p pq] by (simp add: mult_right_mono)
next
  case False
  then have k: "kexp p < kexp q" using kexp_mono [OF p pq] by simp
  then have kq: "kexp q = expo q - 52" and e: "expo p < expo q" by (auto simp: kexp_def)
  have q: "0 < q" using p pq by simp
  have B: "(2::rat) powi expo q = of_int (2 ^ nat (expo q - kexp p)) * 2 powi kexp p"
    using k kq by (simp add: powi_nat [symmetric] power_int_add [symmetric])
  have "p < 2 powi (expo p + 1)" by (rule expo_bounds(2) [OF p])
  also have "\<dots> \<le> 2 powi expo q" using e by (simp add: powi_le_iff)
  finally have "of_int (mant p) * 2 powi kexp p \<le> (2::rat) powi expo q"
    using magr_upper [OF p, of "2 ^ nat (expo q - kexp p)"] B by simp
  also have "\<dots> \<le> of_int (mant q) * 2 powi kexp q"
  proof -
    have "(2::rat) powi expo q = 2 powi (52 + kexp q)" using kq by simp
    also have "\<dots> = of_int (2 ^ 52) * 2 powi kexp q" by (subst power_int_add) simp_all
    finally have "(2::rat) powi expo q = of_int (2 ^ 52) * 2 powi kexp q" .
    then show ?thesis using magr_lower [OF q, of "2 ^ 52"] expo_bounds(1) [OF q] by simp
  qed
  finally show ?thesis .
qed

lemma overflows_mono: "0 < p \<Longrightarrow> p \<le> q \<Longrightarrow> overflows p \<Longrightarrow> overflows q"
  using kexp_mono [of p q] mant_mono [of p q] by (auto simp: overflows_def)

section \<open>Monotonicity of rounding\<close>

lemma key_simps [simp]:
  "key (Fin q) = (0, q)" "key NZero = (0, 0)" "key PInf = (1, 0)" "key NInf = (- 1, 0)"
  by (simp_all add: key_def)

lemma key_mag_mono:
  assumes "0 < p" and "p \<le> q"
  shows "key (mag p) \<le> key (mag q)"
  using magr_mono [OF assms] overflows_mono [OF assms] by (simp add: mag_def)

lemma mag_nonneg: "0 < q \<Longrightarrow> (0, 0) \<le> key (mag q)"
  using mant_nonneg [of q] by (simp add: mag_def)

lemma mag_not_NaN [simp]: "mag q \<noteq> NaN" "mag q \<noteq> NInf" "mag q \<noteq> NZero"
  by (simp_all add: mag_def)

lemma key_fneg: "x \<noteq> NaN \<Longrightarrow> key (fneg x) = (- fst (key x), - snd (key x))"
  by (cases x) auto

lemma fneg_eq_NaN [simp]: "fneg x = NaN \<longleftrightarrow> x = NaN"
  by (cases x) auto

lemma fneg_fneg [simp]: "fneg (fneg x) = x"
  by (cases x) auto

lemma key_fneg_le: "x \<noteq> NaN \<Longrightarrow> y \<noteq> NaN \<Longrightarrow> key (fneg x) \<le> key (fneg y) \<longleftrightarrow> key y \<le> key x"
  by (cases "key x"; cases "key y") (auto simp: key_fneg)

lemma rnd_not_NaN [simp]: "rnd q \<noteq> NaN"
  by (simp add: rnd_def)

lemma rnd_0 [simp]: "rnd 0 = Fin 0"
  by (simp add: rnd_def)

lemma rnd_uminus: "q \<noteq> 0 \<Longrightarrow> rnd (- q) = fneg (rnd q)"
  by (simp add: rnd_def)

lemma key_rnd_nonneg: "0 \<le> q \<Longrightarrow> (0, 0) \<le> key (rnd q)"
  using mag_nonneg [of q] by (auto simp: rnd_def)

lemma key_rnd_nonpos: "q \<le> 0 \<Longrightarrow> key (rnd q) \<le> (0, 0)"
proof (cases "q = 0")
  case False
  assume "q \<le> 0"
  with False have "key (fneg (mag (- q))) \<le> key (fneg NZero)"
    by (subst key_fneg_le) (use mag_nonneg [of "- q"] in auto)
  with False \<open>q \<le> 0\<close> show ?thesis by (simp add: rnd_def)
qed simp

theorem rnd_mono: "p \<le> q \<Longrightarrow> key (rnd p) \<le> key (rnd q)"
proof (cases "0 < p \<or> q < 0")
  case True
  assume pq: "p \<le> q"
  show ?thesis
  proof (cases "0 < p")
    case True
    then show ?thesis using pq key_mag_mono [of p q] by (simp add: rnd_def)
  next
    case False
    with \<open>0 < p \<or> q < 0\<close> pq show ?thesis
      using key_mag_mono [of "- q" "- p"] by (simp add: rnd_def key_fneg_le)
  qed
next
  case False
  assume "p \<le> q"
  with False show ?thesis using key_rnd_nonpos [of p] key_rnd_nonneg [of q] by force
qed

section \<open>Representable values\<close>

text \<open>At most 53 significant bits, the last one between \<open>2 powi -1074\<close> and \<open>2 powi 971\<close>.\<close>

definition repr :: "rat \<Rightarrow> bool" where
  "repr q \<longleftrightarrow> (\<exists>m k. q = of_int m * 2 powi k \<and> \<bar>m\<bar> < 2 ^ 53 \<and> - 1074 \<le> k \<and> k \<le> 971)"

lemma repr_uminus [simp]: "repr (- q) \<longleftrightarrow> repr q"
proof -
  have "repr (- q)" if "repr q" for q
  proof -
    from that obtain m k where "q = of_int m * 2 powi k" "\<bar>m\<bar> < 2 ^ 53" "- 1074 \<le> k" "k \<le> 971"
      unfolding repr_def by blast
    then show ?thesis unfolding repr_def by (intro exI [of _ "- m"] exI [of _ k]) simp
  qed
  from this [of q] this [of "- q"] show ?thesis by auto
qed

lemma repr_0 [simp]: "repr 0"
  unfolding repr_def by (intro exI [of _ 0] exI [of _ 0]) simp

lemma repr_of_int: "\<bar>n\<bar> < 2 ^ 53 \<Longrightarrow> repr (of_int n)"
  unfolding repr_def by (intro exI [of _ n] exI [of _ 0]) simp

lemma repr_numeral: "(numeral n :: int) < 2 ^ 53 \<Longrightarrow> repr (numeral n)"
  using repr_of_int [of "numeral n"] by simp

lemma repr_1 [simp]: "repr 1"
  using repr_of_int [of 1] by simp

lemma repr_half: "\<bar>n\<bar> < 2 ^ 53 \<Longrightarrow> repr (of_int n / 2)"
proof -
  assume n: "\<bar>n\<bar> < 2 ^ 53"
  have "of_int n / 2 = of_int n * (2::rat) powi - 1"
    by (simp only: power_int_minus power_int_1_right divide_inverse)
  moreover have "- 1074 \<le> (- 1 :: int)" and "(- 1 :: int) \<le> 971" by simp_all
  ultimately show ?thesis using n unfolding repr_def by blast
qed

lemma mag_exact:
  assumes "0 < q" and "repr q"
  shows "mag q = Fin q"
proof -
  from assms(2) obtain m k where q: "q = of_int m * 2 powi k"
    and m: "\<bar>m\<bar> < 2 ^ 53" and k: "- 1074 \<le> k" "k \<le> 971"
    unfolding repr_def by blast
  have "of_int m < (2::rat) ^ 53" using m of_int_less_iff [where ?'a = rat, of m "2 ^ 53"] by simp
  then have "q < 2 ^ 53 * 2 powi k" by (simp add: q)
  also have "(2::rat) ^ 53 * 2 powi k = 2 powi 53 * 2 powi k" by (simp add: powi_nat)
  also have "\<dots> = 2 powi (53 + k)" by (rule power_int_add [symmetric]) simp
  also have "53 + k = (k + 52) + 1" by simp
  finally have "q < 2 powi ((k + 52) + 1)" .
  from expo_le [OF assms(1) this] have kk: "kexp q \<le> k" using k by (simp add: kexp_def)
  have "(2::rat) powi k = 2 powi (k - kexp q) * 2 powi kexp q" by (simp flip: power_int_add)
  then have eq: "q = of_int (m * 2 ^ nat (k - kexp q)) * 2 powi kexp q"
    using kk by (simp add: q powi_nat)
  then have "q / 2 powi kexp q = of_int (m * 2 ^ nat (k - kexp q))"
    by (metis nonzero_mult_div_cancel_right powi_pos less_irrefl)
  then have me: "mant q = m * 2 ^ nat (k - kexp q)" by (simp only: mant_def rne_of_int)
  have "mant q < 2 ^ 53" if "kexp q = 971"
    using that me m k kk by simp
  then have "\<not> overflows q" using k kk by (auto simp: overflows_def)
  then show ?thesis using me eq by (simp add: mag_def)
qed

lemma mag_repr:
  assumes "0 < q" and "mag q = Fin r"
  shows "repr r"
proof -
  from assms(2) have r: "r = of_int (mant q) * 2 powi kexp q" and o: "\<not> overflows q"
    by (auto simp: mag_def split: if_splits)
  have k: "- 1074 \<le> kexp q" by (simp add: kexp_def)
  show ?thesis
  proof (cases "mant q = 2 ^ 53")
    case True
    then have "r = of_int (2 ^ 52) * (2 * 2 powi kexp q)" by (simp add: r)
    also have "2 * 2 powi kexp q = (2::rat) powi 1 * 2 powi kexp q" by simp
    also have "\<dots> = 2 powi (1 + kexp q)" by (rule power_int_add [symmetric]) simp
    finally have "r = of_int (2 ^ 52) * 2 powi (1 + kexp q)" .
    moreover have "1 + kexp q \<le> 971" using o True by (simp add: overflows_def)
    moreover have "- 1074 \<le> 1 + kexp q" using k by simp
    moreover have "\<bar>2 ^ 52 :: int\<bar> < 2 ^ 53" by simp
    ultimately show ?thesis unfolding repr_def by blast
  next
    case False
    have "\<bar>mant q\<bar> < 2 ^ 53" using False mant_le [OF assms(1)] mant_nonneg [OF assms(1)] by linarith
    moreover have "kexp q \<le> 971" using o by (simp add: overflows_def)
    ultimately show ?thesis using k r unfolding repr_def by blast
  qed
qed

theorem rnd_exact: "repr q \<Longrightarrow> rnd q = Fin q"
  using mag_exact [of q] mag_exact [of "- q"] by (auto simp: rnd_def)

theorem rnd_repr:
  assumes "rnd q = Fin r"
  shows "repr r"
proof (cases "0 < q \<or> q = 0")
  case True
  then show ?thesis using assms mag_repr [of q r] by (auto simp: rnd_def)
next
  case False
  then have "fneg (mag (- q)) = Fin r" using assms by (simp add: rnd_def)
  then obtain t where "mag (- q) = Fin t" "r = - t \<or> r = 0"
    by (cases "mag (- q)") (auto split: if_splits)
  then show ?thesis using False mag_repr [of "- q" t] by auto
qed

lemma is_f64_Fin: "is_f64 (Fin q) \<longleftrightarrow> repr q"
  using rnd_exact rnd_repr by (auto simp: is_f64_def)

lemma is_f64_simps [simp]: "is_f64 NaN" "is_f64 PInf" "is_f64 NInf" "is_f64 NZero"
  by (simp_all add: is_f64_def)

lemma is_f64_rnd [simp]: "is_f64 (rnd q)"
  using rnd_repr by (cases "rnd q") (auto simp: is_f64_Fin)

lemma is_f64_fneg [simp]: "is_f64 (fneg x) \<longleftrightarrow> is_f64 x"
  by (cases x) (auto simp: is_f64_Fin)

lemma is_f64_zero_of [simp]: "is_f64 (zero_of b)" and is_f64_inf_of [simp]: "is_f64 (inf_of b)"
  by (simp_all add: zero_of_def inf_of_def is_f64_Fin)

text \<open>Every operation yields a representable value.\<close>

lemma isInf_fneg [simp]: "isInf (fneg x) \<longleftrightarrow> isInf x"
  by (cases x) (simp_all add: isInf_def)

lemma is_f64_isInf: "isInf x \<Longrightarrow> is_f64 x"
  by (auto simp: isInf_def)

lemma is_f64_ops [simp]:
  "is_f64 (x + y)" "is_f64 (x - y)" "is_f64 (x * y)" "is_f64 (x / y)"
  by (simp_all add: plus_f64_def minus_f64_def times_f64_def divide_f64_def is_f64_isInf)

lemma is_f64_abs [simp]: "is_f64 x \<Longrightarrow> is_f64 \<bar>x\<bar>"
  by (simp add: abs_f64_def)

lemma is_f64_lit [simp]: "is_f64 (lit q)" and is_f64_of_int [simp]: "is_f64 (f64_of_int n)"
  by (simp_all add: lit_def f64_of_int_def)

section \<open>Order\<close>

text \<open>Comparisons of two numbers, as the automation sees them.\<close>

lemma le_Fin [simp, f64_simps]: "Fin p \<le> Fin q \<longleftrightarrow> p \<le> q"
  and less_Fin [simp, f64_simps]: "Fin p < Fin q \<longleftrightarrow> p < q"
  and feq_Fin [simp, f64_simps]: "feq (Fin p) (Fin q) \<longleftrightarrow> p = q"
  by (simp_all add: less_eq_f64_def less_f64_def feq_def)

lemma NaN_cmp [simp]:
  "\<not> NaN \<le> x" "\<not> x \<le> NaN" "\<not> NaN < x" "\<not> x < NaN" "\<not> feq NaN x" "\<not> feq x NaN"
  by (simp_all add: less_eq_f64_def less_f64_def feq_def)

lemma NZero_cmp [simp]:
  "NZero \<le> Fin q \<longleftrightarrow> 0 \<le> q" "Fin q \<le> NZero \<longleftrightarrow> q \<le> 0"
  "NZero < Fin q \<longleftrightarrow> 0 < q" "Fin q < NZero \<longleftrightarrow> q < 0"
  "NZero \<le> NZero" "\<not> NZero < NZero"
  by (auto simp: less_eq_f64_def less_f64_def)

lemma Inf_cmp [simp]:
  "Fin q \<le> PInf" "Fin q < PInf" "\<not> PInf \<le> Fin q" "\<not> PInf < x"
  "NInf \<le> Fin q" "NInf < Fin q" "\<not> Fin q \<le> NInf" "\<not> x < NInf"
  "NZero \<le> PInf" "NZero < PInf" "\<not> PInf \<le> NZero"
  "NInf \<le> NZero" "NInf < NZero" "\<not> NZero \<le> NInf"
  "PInf \<le> PInf" "NInf \<le> NInf" "NInf \<le> PInf" "NInf < PInf" "\<not> PInf \<le> NInf"
  by (cases x; simp add: less_eq_f64_def less_f64_def)+

lemma f64_le_trans [trans]: "x \<le> y \<Longrightarrow> y \<le> z \<Longrightarrow> x \<le> (z :: f64)"
  and f64_less_le_trans [trans]: "x < y \<Longrightarrow> y \<le> z \<Longrightarrow> x < (z :: f64)"
  and f64_le_less_trans [trans]: "x \<le> y \<Longrightarrow> y < z \<Longrightarrow> x < (z :: f64)"
  and f64_less_trans [trans]: "x < y \<Longrightarrow> y < z \<Longrightarrow> x < (z :: f64)"
  unfolding less_eq_f64_def less_f64_def
  by (blast intro: order_trans less_le_trans le_less_trans less_trans)+

lemma f64_less_imp_le: "x < y \<Longrightarrow> x \<le> (y :: f64)"
  unfolding less_eq_f64_def less_f64_def by auto

lemma f64_less_irrefl [simp]: "\<not> x < (x :: f64)"
  by (simp add: less_f64_def)

lemma f64_le_refl: "x \<noteq> NaN \<Longrightarrow> x \<le> (x :: f64)"
  by (simp add: less_eq_f64_def)

lemma f64_not_less: "x \<noteq> NaN \<Longrightarrow> y \<noteq> NaN \<Longrightarrow> \<not> x < y \<longleftrightarrow> y \<le> (x :: f64)"
  and f64_not_le: "x \<noteq> NaN \<Longrightarrow> y \<noteq> NaN \<Longrightarrow> \<not> x \<le> y \<longleftrightarrow> y < (x :: f64)"
  unfolding less_eq_f64_def less_f64_def by auto

lemma f64_less_asym: "x < y \<Longrightarrow> \<not> y \<le> (x :: f64)"
  unfolding less_eq_f64_def less_f64_def by auto

lemma f64_le_less: "x \<le> y \<longleftrightarrow> x < y \<or> feq x y"
  unfolding less_eq_f64_def less_f64_def feq_def by auto

lemma cmp_not_NaN: "x \<le> y \<Longrightarrow> x \<noteq> NaN \<and> y \<noteq> NaN" "x < y \<Longrightarrow> x \<noteq> NaN \<and> y \<noteq> NaN"
  by auto

lemma feq_refl: "x \<noteq> NaN \<Longrightarrow> feq x x"
  by (simp add: feq_def)

lemma feq_sym: "feq x y \<Longrightarrow> feq y x"
  by (simp add: feq_def)

lemma is_fin_simps [simp]:
  "is_fin (Fin q)" "is_fin NZero" "\<not> is_fin NaN" "\<not> is_fin PInf" "\<not> is_fin NInf"
  "isInf PInf" "isInf NInf" "\<not> isInf NaN" "\<not> isInf NZero" "\<not> isInf (Fin q)"
  "isNaN NaN" "\<not> isNaN PInf" "\<not> isNaN NInf" "\<not> isNaN NZero" "\<not> isNaN (Fin q)"
  by (simp_all add: is_fin_def isInf_def isNaN_def)

lemma is_finE:
  assumes "is_fin x"
  obtains "x = NZero" | q where "x = Fin q"
  using assms by (cases x) auto

section \<open>Bounds that survive an operation\<close>

lemma rnd_le: "p \<le> c \<Longrightarrow> repr c \<Longrightarrow> rnd p \<le> Fin c"
  using rnd_mono [of p c] by (simp add: rnd_exact less_eq_f64_def)

lemma rnd_ge: "c \<le> p \<Longrightarrow> repr c \<Longrightarrow> Fin c \<le> rnd p"
  using rnd_mono [of c p] by (simp add: rnd_exact less_eq_f64_def)

lemma rnd_mono_le: "p \<le> q \<Longrightarrow> rnd p \<le> rnd q"
  using rnd_mono [of p q] by (simp add: less_eq_f64_def)

lemma plus_Fin [simp, f64_simps]: "Fin p + Fin q = rnd (p + q)"
  and plus_Fin_NZero [simp, f64_simps]: "Fin p + NZero = rnd p" "NZero + Fin p = rnd p"
  and plus_NZero [simp]: "NZero + NZero = NZero"
  and plus_NaN [simp]: "NaN + x = NaN" "x + NaN = NaN"
  and plus_PInf [simp]: "PInf + Fin q = PInf" "Fin q + PInf = PInf" "PInf + NZero = PInf"
    "NZero + PInf = PInf" "PInf + PInf = PInf" "PInf + NInf = NaN" "NInf + PInf = NaN"
  and plus_NInf [simp]: "NInf + Fin q = NInf" "Fin q + NInf = NInf" "NInf + NZero = NInf"
    "NZero + NInf = NInf" "NInf + NInf = NInf"
  by (simp_all add: plus_f64_def zero_of_def)

lemma minus_f64_plus: "x - y = x + fneg y"
  by (simp add: minus_f64_def)

lemma minus_Fin [simp, f64_simps]: "Fin p - Fin q = rnd (p - q)"
  by (simp add: minus_f64_def)

lemma times_Fin [f64_simps]:
  "Fin p * Fin q = (if p * q = 0 then zero_of ((p < 0) \<noteq> (q < 0)) else rnd (p * q))"
  by (simp add: times_f64_def)

lemma divide_Fin [f64_simps]:
  "Fin p / Fin q =
    (if q = 0 then if p = 0 then NaN else inf_of (p < 0)
     else if p = 0 then zero_of (q < 0) else rnd (p / q))"
  by (simp add: divide_f64_def)

lemma NaN_ops [simp]: "NaN * x = NaN" "x * NaN = NaN" "NaN / x = NaN" "x / NaN = NaN"
    "NaN - x = NaN" "x - NaN = NaN" "\<bar>NaN\<bar> = NaN"
  by (simp_all add: times_f64_def divide_f64_def minus_f64_def abs_f64_def)

lemma plus_not_NaN: "is_fin x \<Longrightarrow> is_fin y \<Longrightarrow> x + y \<noteq> NaN"
  by (elim is_finE) simp_all

lemma minus_not_NaN: "is_fin x \<Longrightarrow> is_fin y \<Longrightarrow> x - y \<noteq> NaN"
  by (elim is_finE) (simp_all add: minus_f64_def)

lemma times_not_NaN: "is_fin x \<Longrightarrow> is_fin y \<Longrightarrow> x * y \<noteq> NaN"
  by (elim is_finE) (simp_all add: times_f64_def zero_of_def)

lemma plus_mono:
  assumes "a \<le> b" and "c \<le> d" and "a + c \<noteq> NaN" and "b + d \<noteq> NaN"
  shows "a + c \<le> b + (d :: f64)"
proof (cases "is_fin a \<and> is_fin b \<and> is_fin c \<and> is_fin d")
  case True
  then have "a + c \<le> b + d \<longleftrightarrow> rnd (val a + val c) \<le> rnd (val b + val d)"
    by (elim conjE is_finE) (simp_all add: less_eq_f64_def)
  moreover have "val a + val c \<le> val b + val d"
    using True assms(1,2) by (elim conjE is_finE) auto
  ultimately show ?thesis by (simp add: rnd_mono_le)
next
  case False
  have pinf: "x \<le> PInf \<longleftrightarrow> x \<noteq> NaN" and ninf: "NInf \<le> x \<longleftrightarrow> x \<noteq> NaN" for x
    by (cases x; simp)+
  from False assms show ?thesis
    by (cases a; cases b; cases c; cases d) (simp_all add: pinf ninf)
qed

lemma rnd_id: "is_f64 (Fin q) \<Longrightarrow> rnd q = Fin q"
  by (simp add: is_f64_def)

lemma plus_nonneg:
  assumes "Fin 0 \<le> x" and "Fin 0 \<le> y"
  shows "Fin 0 \<le> x + y"
  using assms by (cases x; cases y) (simp_all add: rnd_ge)

lemma le_plus:
  assumes "is_f64 x" and "x \<noteq> NaN" and "x \<noteq> NInf" and "Fin 0 \<le> y"
  shows "x \<le> x + y"
proof (cases x)
  case (Fin p)
  then have "repr p" using assms(1) by (simp add: is_f64_Fin)
  with Fin assms(4) show ?thesis by (cases y) (simp_all add: rnd_ge)
next
  case NZero
  with assms(4) show ?thesis by (cases y) (simp_all add: rnd_ge [of 0, simplified] less_eq_f64_def key_rnd_nonneg)
next
  case PInf
  with assms(4) show ?thesis by (cases y) simp_all
qed (use assms in simp_all)

lemma abs_nonneg: "x \<noteq> NaN \<Longrightarrow> Fin 0 \<le> \<bar>x\<bar>"
  by (cases x) (simp_all add: abs_f64_def)

lemma abs_not_NaN [simp]: "\<bar>x\<bar> = NaN \<longleftrightarrow> x = NaN"
  by (simp add: abs_f64_def)

lemma times_nonneg:
  assumes "Fin 0 \<le> x" and "Fin 0 \<le> y" and "x * y \<noteq> NaN"
  shows "Fin 0 \<le> x * y"
  using assms
  by (cases x; cases y) (auto simp: times_f64_def zero_of_def inf_of_def rnd_ge)

lemma divide_nonneg:
  assumes "Fin 0 \<le> x" and "Fin 0 < y" and "x / y \<noteq> NaN"
  shows "Fin 0 \<le> x / y"
  using assms
  by (cases x; cases y) (auto simp: divide_f64_def zero_of_def inf_of_def rnd_ge)

lemma math_Max_ge:
  assumes "x \<noteq> NaN" and "y \<noteq> NaN"
  shows "x \<le> math_Max x y" and "y \<le> math_Max x y"
  using assms by (cases x; cases y; simp add: math_Max_def)+

lemma math_Min_le:
  assumes "x \<noteq> NaN" and "y \<noteq> NaN"
  shows "math_Min x y \<le> x" and "math_Min x y \<le> y"
  using assms by (cases x; cases y; simp add: math_Min_def)+

lemma math_Min_cases: "math_Min x y = NaN \<or> math_Min x y = x \<or> math_Min x y = y"
  and math_Max_cases: "math_Max x y = NaN \<or> math_Max x y = x \<or> math_Max x y = y"
  by (auto simp: math_Min_def math_Max_def)

lemma math_Max_eq_NaN: "math_Max x y = NaN \<longleftrightarrow> (x = NaN \<or> y = NaN) \<and> x \<noteq> PInf \<and> y \<noteq> PInf"
  and math_Min_eq_NaN: "math_Min x y = NaN \<longleftrightarrow> (x = NaN \<or> y = NaN) \<and> x \<noteq> NInf \<and> y \<noteq> NInf"
  by (auto simp: math_Max_def math_Min_def)

section \<open>Division and subtraction in a range\<close>

lemma divide_le_self:
  assumes "Fin 0 \<le> x" and "is_f64 x" and "Fin 1 \<le> y" and "x / y \<noteq> NaN"
  shows "x / y \<le> x"
proof (cases x; cases y)
  fix p q assume x: "x = Fin p" and y: "y = Fin q"
  have pq: "0 \<le> p" "1 \<le> q" using assms x y by simp_all
  have "p / q \<le> p" using mult_left_mono [OF pq(2) pq(1)] pq by (simp add: divide_le_eq)
  then show ?thesis
    using assms(2) pq x y by (auto simp: divide_Fin zero_of_def is_f64_Fin intro!: rnd_le)
qed (use assms in \<open>auto simp: divide_f64_def zero_of_def inf_of_def\<close>)

lemma minus_range:
  assumes "Fin 0 \<le> z" and "z \<le> Fin c" and "repr c"
  shows "Fin 0 \<le> Fin c - z" and "Fin c - z \<le> Fin c"
  using assms
  by (cases z; auto simp: minus_f64_def intro!: rnd_le rnd_ge split: if_splits)+

lemma is_fin_Fin_range:
  assumes "Fin 0 \<le> x" and "x \<le> Fin c"
  shows "is_fin x"
  using assms by (cases x) auto

lemma neg_nonneg: "\<not> Fin 0 < x \<Longrightarrow> x \<noteq> NaN \<Longrightarrow> Fin 0 \<le> - x"
  by (cases x) (auto simp: uminus_f64_def)

lemma f64_of_int_nonneg: "0 \<le> n \<Longrightarrow> Fin 0 \<le> f64_of_int n"
  by (simp add: f64_of_int_def rnd_ge)

lemma f64_of_int_ge1: "1 \<le> n \<Longrightarrow> Fin 1 \<le> f64_of_int n"
  by (simp add: f64_of_int_def rnd_ge)

lemma f64_of_int_not_NaN [simp]: "f64_of_int n \<noteq> NaN"
  by (simp add: f64_of_int_def)

lemma lit_not_NaN [simp]: "lit q \<noteq> NaN"
  by (simp add: lit_def)

end
