(* ===== verification/FloatEval.thy ===== *)
theory FloatEval
  imports Rounding
begin

text \<open>
  Code equations that let the simplifier evaluate rounding on concrete numbers: integer division
  instead of rational powers. They change no definition.
\<close>

function pow2 :: "int \<Rightarrow> int" where
  "pow2 k = (if k \<le> 0 then 1
             else let h = pow2 (k div 2) in if k mod 2 = 0 then h * h else 2 * (h * h))"
  by auto
termination by (relation "measure nat") auto

declare pow2.simps [simp del]

lemma pow2_eq: "pow2 k = 2 ^ nat k"
proof (induction k rule: pow2.induct)
  case (1 k)
  show ?case
  proof (cases "k \<le> 0")
    case False
    define n where "n = nat (k div 2)"
    have "nat k = 2 * n + nat (k mod 2)"
      unfolding n_def using False by (simp add: nat_div_distrib nat_mod_distrib)
    then have "nat k = (if k mod 2 = 0 then n + n else Suc (n + n))" by auto
    moreover have "pow2 (k div 2) = 2 ^ n" using 1 False by (simp add: n_def)
    ultimately show ?thesis using False by (subst pow2.simps) (simp add: power_add Let_def)
  qed (simp add: pow2.simps)
qed

lemma pow2_pos: "0 < pow2 k"
  by (simp add: pow2_eq)

lemma powi_pow2: "(2::rat) powi k = (if 0 \<le> k then of_int (pow2 k) else 1 / of_int (pow2 (- k)))"
  by (simp add: pow2_eq power_int_def inverse_eq_divide power_one_over)

text \<open>The nearest integer to \<open>a / b\<close>, ties to even.\<close>

definition rne_div :: "int \<Rightarrow> int \<Rightarrow> int" where
  "rne_div a b =
    (let d = a div b; r = 2 * (a mod b)
     in if r < b then d else if b < r then d + 1 else if d mod 2 = 0 then d else d + 1)"

lemma rne_div_eq:
  assumes b: "0 < b"
  shows "rne (of_int a / of_int b) = rne_div a b"
proof -
  let ?x = "(of_int a / of_int b :: rat)" and ?d = "a div b" and ?r = "a mod b"
  have f: "\<lfloor>?x\<rfloor> = ?d" by (simp add: floor_divide_of_int_eq)
  have "of_int a = (of_int (?d * b + ?r) :: rat)" by simp
  then have x: "?x = of_int ?d + of_int ?r / of_int b"
    using b by (simp only: of_int_add of_int_mult add_divide_distrib) simp
  have half: "?x - of_int ?d = 1 / 2 \<longleftrightarrow> 2 * ?r = b"
  proof -
    have "?x - of_int ?d = 1 / 2 \<longleftrightarrow> (of_int (2 * ?r) :: rat) = of_int b"
      using b x by (auto simp: field_simps)
    then show ?thesis by (simp only: of_int_eq_iff)
  qed
  have h: "\<lfloor>?x + 1 / 2\<rfloor> = (2 * a + b) div (2 * b)"
  proof -
    have "?x + 1 / 2 = of_int (2 * a + b) / of_int (2 * b)" using b by (simp add: field_simps)
    then show ?thesis by (simp only: floor_divide_of_int_eq)
  qed
  have "2 * a + b = 2 * (b * ?d + ?r) + b" by simp
  then have "2 * a + b = (2 * ?r + b) + ?d * (2 * b)" by (simp only: algebra_simps)
  then have "(2 * a + b) div (2 * b) = ?d + (2 * ?r + b) div (2 * b)"
    using div_mult_self1 [of "2 * b" "2 * ?r + b" ?d] b by (simp only: mult_eq_0_iff) simp
  also have "(2 * ?r + b) div (2 * b) = (if 2 * ?r < b then 0 else 1)"
  proof (cases "2 * ?r < b")
    case True
    then show ?thesis using b by (simp add: div_pos_pos_trivial)
  next
    case False
    have "?r < b" using b by simp
    with False have "(2 * ?r + b) = 2 * b * 1 + (2 * ?r - b)" "0 \<le> 2 * ?r - b" "2 * ?r - b < 2 * b"
      using b by linarith+
    then have "(2 * ?r + b) div (2 * b) = 1" using int_div_pos_eq by blast
    then show ?thesis using False by simp
  qed
  finally have "\<lfloor>?x + 1 / 2\<rfloor> = ?d + (if 2 * ?r < b then 0 else 1)" using h by simp
  then show ?thesis
    unfolding rne_def rne_div_def f half Let_def by (auto simp: even_iff_mod_2_eq_zero)
qed

definition expo_div :: "int \<Rightarrow> int \<Rightarrow> int" where
  "expo_div a b = (if b \<le> a then bitlen (a div b) - 1 else - bitlen ((b - 1) div a))"

lemma expo_div_eq:
  assumes "0 < a" and "0 < b"
  shows "expo (of_int a / of_int b) = expo_div a b"
proof -
  have le: "1 \<le> (of_int a / of_int b :: rat) \<longleftrightarrow> b \<le> a"
    using assms by (simp add: le_divide_eq)
  have c: "\<lceil>(of_int b / of_int a :: rat)\<rceil> - 1 = (b - 1) div a"
  proof -
    define d where "d = (b - 1) div a"
    have "b - 1 = d * a + (b - 1) mod a" by (simp add: d_def)
    moreover have "0 \<le> (b - 1) mod a" "(b - 1) mod a < a" using assms by simp_all
    ultimately have "d * a < b" "b \<le> (d + 1) * a" by (simp_all add: algebra_simps)
    then have "(of_int (d * a) :: rat) < of_int b" "(of_int b :: rat) \<le> of_int ((d + 1) * a)"
      by (simp_all only: of_int_less_iff of_int_le_iff)
    then have "\<lceil>(of_int b / of_int a :: rat)\<rceil> = d + 1"
      using assms by (intro ceiling_unique) (simp_all add: field_simps)
    then show ?thesis by (simp add: d_def)
  qed
  show ?thesis by (simp add: expo_def expo_div_def le c floor_divide_of_int_eq)
qed

text \<open>Halve away common factors of two, so that the result is a small fraction.\<close>

definition strip :: "int \<Rightarrow> int \<times> int \<Rightarrow> int \<times> int" where
  "strip c p = (let (m, k) = p; d = pow2 c in if c \<le> k \<and> m mod d = 0 then (m div d, k - c) else p)"

definition fraction2 :: "int \<Rightarrow> int \<Rightarrow> rat" where
  "fraction2 m k =
    (let (m', k') = strip 1 (strip 2 (strip 4 (strip 8 (strip 16 (strip 32 (m, k))))))
     in Fract m' (pow2 k'))"

lemma strip_value:
  assumes "0 \<le> c" and "0 \<le> snd p"
  shows "Fract (fst (strip c p)) (pow2 (snd (strip c p))) = Fract (fst p) (pow2 (snd p))"
    and "0 \<le> snd (strip c p)"
proof -
  obtain m k where p: "p = (m, k)" by (cases p)
  have "Fract (m div pow2 c) (pow2 (k - c)) = Fract m (pow2 k)" if "c \<le> k" "m mod pow2 c = 0"
  proof -
    have m: "m = m div pow2 c * pow2 c" using that(2) by auto
    have "pow2 k = pow2 (k - c) * pow2 c"
      using that(1) assms(1) by (simp add: pow2_eq flip: power_add nat_add_distrib)
    then show ?thesis
      by (subst m, subst (2) m) (simp add: eq_rat pow2_eq)
  qed
  then show "Fract (fst (strip c p)) (pow2 (snd (strip c p))) = Fract (fst p) (pow2 (snd p))"
    by (simp add: strip_def p Let_def)
  show "0 \<le> snd (strip c p)" using assms by (simp add: strip_def p Let_def)
qed

lemma fraction2_eq:
  assumes "0 \<le> k"
  shows "fraction2 m k = Fract m (2 ^ nat k)"
proof -
  let ?p1 = "strip 32 (m, k)"
  let ?p2 = "strip 16 ?p1"
  let ?p3 = "strip 8 ?p2"
  let ?p4 = "strip 4 ?p3"
  let ?p5 = "strip 2 ?p4"
  let ?p6 = "strip 1 ?p5"
  have 1: "0 \<le> snd ?p1" by (rule strip_value(2)) (simp_all add: assms)
  have 2: "0 \<le> snd ?p2" by (rule strip_value(2)) (simp_all add: 1)
  have 3: "0 \<le> snd ?p3" by (rule strip_value(2)) (simp_all add: 2)
  have 4: "0 \<le> snd ?p4" by (rule strip_value(2)) (simp_all add: 3)
  have 5: "0 \<le> snd ?p5" by (rule strip_value(2)) (simp_all add: 4)
  have "fraction2 m k = Fract (fst ?p6) (pow2 (snd ?p6))"
    by (simp add: fraction2_def case_prod_beta)
  also have "\<dots> = Fract (fst ?p5) (pow2 (snd ?p5))" by (rule strip_value(1)) (simp_all add: 5)
  also have "\<dots> = Fract (fst ?p4) (pow2 (snd ?p4))" by (rule strip_value(1)) (simp_all add: 4)
  also have "\<dots> = Fract (fst ?p3) (pow2 (snd ?p3))" by (rule strip_value(1)) (simp_all add: 3)
  also have "\<dots> = Fract (fst ?p2) (pow2 (snd ?p2))" by (rule strip_value(1)) (simp_all add: 2)
  also have "\<dots> = Fract (fst ?p1) (pow2 (snd ?p1))" by (rule strip_value(1)) (simp_all add: 1)
  also have "\<dots> = Fract m (pow2 k)" using strip_value(1) [of 32 "(m, k)"] assms by simp
  finally show ?thesis by (simp add: pow2_eq)
qed

text \<open>Rounding the magnitude \<open>a / b\<close>.\<close>

definition mag_div :: "int \<Rightarrow> int \<Rightarrow> f64" where
  "mag_div a b =
    (let k = max (- 1074) (expo_div a b - 52);
         m = (if k < 0 then rne_div (a * pow2 (- k)) b else rne_div a (b * pow2 k))
     in if 971 < k \<or> k = 971 \<and> pow2 53 \<le> m then PInf
        else Fin (if k < 0 then fraction2 m (- k) else of_int (m * pow2 k)))"

lemma mag_div_eq:
  assumes a: "0 < a" and b: "0 < b"
  shows "mag (of_int a / of_int b) = mag_div a b"
proof -
  let ?q = "(of_int a / of_int b :: rat)"
  define k where "k = kexp ?q"
  have k: "max (- 1074) (expo_div a b - 52) = k"
    by (simp add: k_def kexp_def expo_div_eq [OF a b])
  have m: "mant ?q = (if k < 0 then rne_div (a * pow2 (- k)) b else rne_div a (b * pow2 k))"
  proof (cases "k < 0")
    case True
    have "?q / 2 powi k = of_int (a * pow2 (- k)) / of_int b"
      using True pow2_pos [of "- k"] by (simp add: powi_pow2 field_simps)
    then show ?thesis
      using True rne_div_eq [OF b, of "a * pow2 (- k)"] by (simp only: mant_def k_def [symmetric] if_True)
  next
    case False
    have "?q / 2 powi k = of_int a / of_int (b * pow2 k)"
      using False by (simp add: powi_pow2)
    moreover have "0 < b * pow2 k" using b pow2_pos [of k] by simp
    ultimately show ?thesis
      using False rne_div_eq [of "b * pow2 k" a] by (simp only: mant_def k_def [symmetric] if_False)
  qed
  have v: "of_int (mant ?q) * 2 powi k =
      (if k < 0 then fraction2 (mant ?q) (- k) else of_int (mant ?q * pow2 k))"
    using pow2_pos [of "- k"]
    by (simp add: powi_pow2 fraction2_eq Fract_of_int_quotient pow2_eq)
  show ?thesis
    unfolding mag_def overflows_def mag_div_def Let_def k k_def [symmetric] m [symmetric] v
    by (simp add: pow2_eq)
qed

lemma rnd_code [code]:
  "rnd q =
    (let (a, b) = quotient_of q
     in if a = 0 then Fin 0 else if 0 < a then mag_div a b else fneg (mag_div (- a) b))"
proof -
  obtain a b where q: "quotient_of q = (a, b)" by fastforce
  have b: "0 < b" using quotient_of_denom_pos [OF q] .
  have v: "q = of_int a / of_int b" by (rule quotient_of_div [OF q])
  have "q = 0 \<longleftrightarrow> a = 0" "0 < q \<longleftrightarrow> 0 < a" using b by (simp_all add: v zero_less_divide_iff)
  moreover have "mag (- q) = mag_div (- a) b" if "a < 0"
    using mag_div_eq [of "- a" b] that b by (simp add: v)
  ultimately show ?thesis
    using mag_div_eq [of a b] b by (auto simp: rnd_def q v [symmetric] not_less le_less)
qed

end
