(* ===== verification/Prelude.thy ===== *)
theory Prelude
  imports FloatEval "HOL-Library.AList" "HOL-Library.Multiset"
begin

text \<open>
  What the component theories share: Go's fixed-width integers and times, maps as association
  lists together with the loops that range over them, decimal printing of identifiers, and the
  lemmas about them that the automation uses.
\<close>

named_theorems go_simps \<open>evaluation of the Go library functions the source uses\<close>

section \<open>Integers and times\<close>

text \<open>A result of \<open>int\<close>/\<open>int64\<close> arithmetic, wrapped to 64 bits.\<close>

definition wrap64 :: "int \<Rightarrow> int" where
  "wrap64 n = (n + 2 ^ 63) mod 2 ^ 64 - 2 ^ 63"

lemma wrap64_id [simp, go_simps]: "- (2 ^ 63) \<le> n \<Longrightarrow> n < 2 ^ 63 \<Longrightarrow> wrap64 n = n"
  by (simp add: wrap64_def)

lemma wrap64_range: "- (2 ^ 63) \<le> wrap64 n" "wrap64 n < 2 ^ 63"
  by (simp_all add: wrap64_def)

text \<open>
  \<open>time.Time\<close> is a count of nanoseconds; \<open>time.Time{}\<close> is \<open>zero_time\<close>, far before any reading of
  the clock. \<open>Sub\<close> saturates at the range of \<open>time.Duration\<close>.
\<close>

type_synonym time = int
type_synonym duration = int

definition zero_time :: time where
  "zero_time = - 62135596800 * 10 ^ 9"

definition IsZero :: "time \<Rightarrow> bool" where
  "IsZero t \<longleftrightarrow> t = zero_time"

definition time_sub :: "time \<Rightarrow> time \<Rightarrow> duration" where
  "time_sub a b = max (- (2 ^ 63)) (min (2 ^ 63 - 1) (a - b))"

definition seconds :: "int \<Rightarrow> duration" where
  "seconds n = n * 10 ^ 9"

definition minutes :: "int \<Rightarrow> duration" where
  "minutes n = seconds (60 * n)"

text \<open>\<open>time.Duration(n) * time.Second\<close> on a configured integer, and \<open>time.Since\<close>.\<close>

definition seconds_of :: "int \<Rightarrow> duration" where
  "seconds_of n = wrap64 (seconds n)"

definition minutes_of :: "int \<Rightarrow> duration" where
  "minutes_of n = wrap64 (minutes n)"

definition since :: "time \<Rightarrow> time \<Rightarrow> duration" where
  "since now t = time_sub now t"

lemma time_sub_mono: "a \<le> b \<Longrightarrow> time_sub a c \<le> time_sub b c"
  by (simp add: time_sub_def)

section \<open>Maps\<close>

text \<open>
  A Go map with string keys is an association list. \<open>range\<close> visits the keys in an order that the
  runtime chooses and that an iteration may not rely on; every loop over a map takes that choice
  as an argument \<open>ord\<close>, a list of keys to be visited first, and \<open>iter_keys ord m\<close> is then an
  arbitrary enumeration of the keys of \<open>m\<close>. An entry deleted before it is reached is not
  visited.
\<close>

type_synonym 'v gomap = "(string \<times> 'v) list"

definition iter_keys :: "string list \<Rightarrow> 'v gomap \<Rightarrow> string list" where
  "iter_keys ord m = remdups ([k \<leftarrow> ord. k \<in> fst ` set m] @ List.map fst m)"

lemma set_iter_keys [simp]: "set (iter_keys ord m) = fst ` set m"
  by (auto simp: iter_keys_def)

lemma distinct_iter_keys [simp]: "distinct (iter_keys ord m)"
  by (simp add: iter_keys_def)

lemma iter_keys_mset:
  assumes "distinct (map fst m)"
  shows "mset (iter_keys ord m) = mset (map fst m)"
  using assms by (intro set_eq_iff_mset_eq_distinct [THEN iffD1]) simp_all

fun range_map :: "('s \<Rightarrow> 'v gomap) \<Rightarrow> (string \<Rightarrow> 'v \<Rightarrow> 's \<Rightarrow> 's) \<Rightarrow> string list \<Rightarrow> 's \<Rightarrow> 's" where
  "range_map get body [] s = s"
| "range_map get body (k # ks) s =
    (case map_of (get s) k of
       None \<Rightarrow> range_map get body ks s
     | Some v \<Rightarrow> range_map get body ks (body k v s))"

lemma range_map_inv:
  assumes "P s"
    and "\<And>k v s. P s \<Longrightarrow> k \<in> set ks \<Longrightarrow> map_of (get s) k = Some v \<Longrightarrow> P (body k v s)"
  shows "P (range_map get body ks s)"
  using assms by (induction get body ks s rule: range_map.induct) (auto split: option.split)

lemma map_of_update [simp]: "map_of (AList.update k v m) = (map_of m)(k \<mapsto> v)"
  by (rule update_conv')

lemma map_of_delete [simp]: "map_of (AList.delete k m) = (map_of m)(k := None)"
  by (rule delete_conv')

section \<open>Decimal printing\<close>

text \<open>\<open>%d\<close> of an integer, as the identifiers of the source are built.\<close>

definition digit :: "nat \<Rightarrow> char" where
  "digit n = char_of (48 + n)"

fun show_nat :: "nat \<Rightarrow> string" where
  "show_nat n = (if n < 10 then [digit n] else show_nat (n div 10) @ [digit (n mod 10)])"

declare show_nat.simps [simp del]

definition show_int :: "int \<Rightarrow> string" where
  "show_int i = (if i < 0 then CHR ''-'' # show_nat (nat (- i)) else show_nat (nat i))"

definition read_nat :: "string \<Rightarrow> nat" where
  "read_nat s = foldl (\<lambda>a c. 10 * a + (of_char c - 48)) 0 s"

lemma of_char_digit: "n < 10 \<Longrightarrow> of_char (digit n) = (48 + n :: nat)"
  by (simp add: digit_def of_char_of)

lemma read_show_nat: "read_nat (show_nat n) = n"
proof (induction n rule: show_nat.induct)
  case (1 n)
  show ?case
  proof (cases "n < 10")
    case True
    then show ?thesis by (subst show_nat.simps) (simp add: read_nat_def of_char_digit)
  next
    case False
    then show ?thesis using 1
      by (subst show_nat.simps) (simp add: read_nat_def of_char_digit)
  qed
qed

lemma show_nat_inj [simp]: "show_nat m = show_nat n \<longleftrightarrow> m = n"
  by (metis read_show_nat)

lemma show_int_inj_nonneg: "0 \<le> i \<Longrightarrow> 0 \<le> j \<Longrightarrow> show_int i = show_int j \<longleftrightarrow> i = j"
  by (auto simp: show_int_def)

section \<open>Lists and options\<close>

lemma filter_id: "(\<And>x. x \<in> set xs \<Longrightarrow> P x) \<Longrightarrow> filter P xs = xs"
  by (simp add: filter_id_conv)

lemma foldl_invariant:
  assumes "P a" and "\<And>a x. P a \<Longrightarrow> x \<in> set xs \<Longrightarrow> P (f a x)"
  shows "P (foldl f a xs)"
  using assms by (induction xs arbitrary: a) auto

text \<open>A conditional slice element: \<open>if c { xs = append(xs, x) }\<close>.\<close>

definition append_if :: "bool \<Rightarrow> 'a \<Rightarrow> 'a list \<Rightarrow> 'a list" where
  "append_if c x xs = (if c then xs @ [x] else xs)"

text \<open>\<open>if c { reasons = append(reasons, code) }\<close> in a sequence of checks.\<close>

definition code_if :: "bool \<Rightarrow> 'a \<Rightarrow> 'a list" where
  "code_if c code = (if c then [code] else [])"

lemma code_if_Nil [simp]: "code_if c x = [] \<longleftrightarrow> \<not> c"
  by (simp add: code_if_def)

lemma in_code_if [simp]: "x \<in> set (code_if c y) \<longleftrightarrow> c \<and> x = y"
  by (auto simp: code_if_def)

lemma append_if_Nil [simp]: "append_if c x xs = [] \<longleftrightarrow> \<not> c \<and> xs = []"
  by (simp add: append_if_def)

lemma set_append_if [simp]: "set (append_if c x xs) = (if c then insert x (set xs) else set xs)"
  by (simp add: append_if_def)

section \<open>Results\<close>

text \<open>\<open>if err != nil { return zero, err }\<close>: a Go result pair is an error or a value.\<close>

definition ebind :: "'e + 'a \<Rightarrow> ('a \<Rightarrow> 'e + 'b) \<Rightarrow> 'e + 'b" where
  "ebind m f = (case m of Inl e \<Rightarrow> Inl e | Inr x \<Rightarrow> f x)"

definition guard_err :: "bool \<Rightarrow> 'e \<Rightarrow> 'e + 'b \<Rightarrow> 'e + 'b" where
  "guard_err c e k = (if c then Inl e else k)"

lemma ebind_Inr [simp]: "ebind m f = Inr y \<longleftrightarrow> (\<exists>x. m = Inr x \<and> f x = Inr y)"
  by (cases m) (simp_all add: ebind_def)

lemma guard_err_Inr [simp]: "guard_err c e k = Inr y \<longleftrightarrow> \<not> c \<and> k = Inr y"
  by (simp add: guard_err_def)

section \<open>Sorting\<close>

text \<open>
  The insertion sort that Go's \<open>sort.Slice\<close> and \<open>sort.Float64s\<close> run on slices of up to twelve
  elements: each element moves left past the elements it is less than. The sorted prefix is kept
  reversed.
\<close>

fun insert_left :: "('a \<Rightarrow> 'a \<Rightarrow> bool) \<Rightarrow> 'a \<Rightarrow> 'a list \<Rightarrow> 'a list" where
  "insert_left lt x [] = [x]"
| "insert_left lt x (y # ys) = (if lt x y then y # insert_left lt x ys else x # y # ys)"

definition insertion_sort :: "('a \<Rightarrow> 'a \<Rightarrow> bool) \<Rightarrow> 'a list \<Rightarrow> 'a list" where
  "insertion_sort lt xs = rev (foldl (\<lambda>acc x. insert_left lt x acc) [] xs)"

lemma mset_insert_left [simp]: "mset (insert_left lt x ys) = add_mset x (mset ys)"
  by (induction ys) auto

lemma mset_insertion_sort [simp]: "mset (insertion_sort lt xs) = mset xs"
proof -
  have "mset (foldl (\<lambda>acc x. insert_left lt x acc) acc xs) = mset acc + mset xs" for acc
    by (induction xs arbitrary: acc) auto
  then show ?thesis by (simp add: insertion_sort_def)
qed

lemma set_insertion_sort [simp]: "set (insertion_sort lt xs) = set xs"
  by (metis mset_insertion_sort set_mset_mset)

lemma length_insertion_sort [simp]: "length (insertion_sort lt xs) = length xs"
  by (metis mset_insertion_sort size_mset)

lemma insert_left_sorted:
  assumes "\<And>a b. a \<in> S \<Longrightarrow> b \<in> S \<Longrightarrow> lt a b \<Longrightarrow> \<not> lt b a"
    and "\<And>a b c. a \<in> S \<Longrightarrow> b \<in> S \<Longrightarrow> c \<in> S \<Longrightarrow> \<not> lt a b \<Longrightarrow> \<not> lt b c \<Longrightarrow> \<not> lt a c"
    and "x \<in> S" "set ys \<subseteq> S" "sorted_wrt (\<lambda>a b. \<not> lt a b) ys"
  shows "sorted_wrt (\<lambda>a b. \<not> lt a b) (insert_left lt x ys)"
proof -
  have s: "set (insert_left lt x ys) = insert x (set ys)" for ys
    by (metis mset_insert_left set_mset_add_mset_insert set_mset_mset)
  from assms(3-5) show ?thesis
  proof (induction ys)
    case (Cons y ys)
    show ?case
    proof (cases "lt x y")
      case True
      with Cons.prems assms(1) [of x y] have "\<not> lt y x" by simp
      with Cons True show ?thesis by (simp add: s)
    next
      case False
      have "\<not> lt x z" if "z \<in> set ys" for z
        using assms(2) [of x y z] Cons.prems False that by auto
      with Cons.prems False show ?thesis by simp
    qed
  qed simp
qed

lemma insertion_sort_sorted:
  assumes "\<And>a b. a \<in> S \<Longrightarrow> b \<in> S \<Longrightarrow> lt a b \<Longrightarrow> \<not> lt b a"
    and "\<And>a b c. a \<in> S \<Longrightarrow> b \<in> S \<Longrightarrow> c \<in> S \<Longrightarrow> \<not> lt a b \<Longrightarrow> \<not> lt b c \<Longrightarrow> \<not> lt a c"
    and "set xs \<subseteq> S"
  shows "sorted_wrt (\<lambda>a b. \<not> lt b a) (insertion_sort lt xs)"
proof -
  have "set acc \<subseteq> S \<Longrightarrow> sorted_wrt (\<lambda>a b. \<not> lt a b) acc \<Longrightarrow>
      sorted_wrt (\<lambda>a b. \<not> lt a b) (foldl (\<lambda>acc x. insert_left lt x acc) acc xs)" for acc
    using assms(3)
  proof (induction xs arbitrary: acc)
    case (Cons x xs)
    have "set (insert_left lt x acc) = insert x (set acc)"
      by (metis mset_insert_left set_mset_add_mset_insert set_mset_mset)
    with Cons insert_left_sorted [of S lt x acc, OF assms(1,2)] show ?case by simp
  qed simp
  from this [of "[]"] show ?thesis by (simp add: insertion_sort_def sorted_wrt_rev)
qed

definition float_less :: "f64 \<Rightarrow> f64 \<Rightarrow> bool" where
  "float_less x y \<longleftrightarrow> x < y \<or> isNaN x \<and> \<not> isNaN y"

text \<open>\<open>xs[len(xs)-n:]\<close>.\<close>

definition last_n :: "int \<Rightarrow> 'a list \<Rightarrow> 'a list" where
  "last_n n xs = drop (length xs - nat n) xs"

lemma set_last_n: "set (last_n n xs) \<subseteq> set xs"
  by (simp add: last_n_def set_drop_subset)

lemma length_last_n: "nat n \<le> length xs \<Longrightarrow> length (last_n n xs) = nat n"
  by (simp add: last_n_def)

section \<open>Defaults and checks\<close>

text \<open>\<open>if v <= 0 { v = d }\<close> on an integer and on a float, and \<open>if v == 0 { v = d }\<close>.\<close>

definition default_int :: "int \<Rightarrow> int \<Rightarrow> int" where
  "default_int d v = (if v \<le> 0 then d else v)"

definition default_f64 :: "f64 \<Rightarrow> f64 \<Rightarrow> f64" where
  "default_f64 d v = (if v \<le> Fin 0 then d else v)"

definition default_if_zero :: "f64 \<Rightarrow> f64 \<Rightarrow> f64" where
  "default_if_zero d v = (if feq v (Fin 0) then d else v)"

definition default_str :: "string \<Rightarrow> string \<Rightarrow> string" where
  "default_str d v = (if v = [] then d else v)"

lemma default_int_pos: "0 < d \<Longrightarrow> 0 < default_int d v"
  by (simp add: default_int_def)

lemma default_f64_pos: "Fin 0 < d \<Longrightarrow> Fin 0 < default_f64 d v \<or> default_f64 d v = NaN"
  using f64_not_less [of "Fin 0" v] by (auto simp: default_f64_def)

lemma default_f64_idem: "Fin 0 < d \<Longrightarrow> default_f64 d (default_f64 d v) = default_f64 d v"
  using f64_less_asym by (auto simp: default_f64_def)

lemma default_int_idem: "0 < d \<Longrightarrow> default_int d (default_int d v) = default_int d v"
  by (simp add: default_int_def)

text \<open>A sequence of \<open>if c { return err }\<close>: the first failing check decides.\<close>

definition fail_if :: "bool \<Rightarrow> 'e \<Rightarrow> 'e option" where
  "fail_if c e = (if c then Some e else None)"

fun first_err :: "'e option list \<Rightarrow> 'e option" where
  "first_err [] = None"
| "first_err (None # cs) = first_err cs"
| "first_err (Some e # cs) = Some e"

lemma fail_if_None [simp]: "fail_if c e = None \<longleftrightarrow> \<not> c"
  by (simp add: fail_if_def)

lemma first_err_None [simp]: "first_err cs = None \<longleftrightarrow> (\<forall>c\<in>set cs. c = None)"
  by (induction cs rule: first_err.induct) auto

lemma first_err_Some: "first_err cs = Some e \<Longrightarrow> Some e \<in> set cs"
  by (induction cs rule: first_err.induct) auto

text \<open>\<open>math.IsNaN(v) || math.IsInf(v, 0)\<close> and the positivity tests built on it.\<close>

definition not_finite :: "f64 \<Rightarrow> bool" where
  "not_finite x \<longleftrightarrow> isNaN x \<or> isInf x"

definition isFinitePositive :: "f64 \<Rightarrow> bool" where
  "isFinitePositive v \<longleftrightarrow> \<not> isNaN v \<and> \<not> isInf v \<and> Fin 0 < v"

definition isFiniteNonNegative :: "f64 \<Rightarrow> bool" where
  "isFiniteNonNegative v \<longleftrightarrow> \<not> isNaN v \<and> \<not> isInf v \<and> Fin 0 \<le> v"

lemma isFinitePositive_iff: "isFinitePositive v \<longleftrightarrow> (\<exists>q. v = Fin q \<and> 0 < q)"
  by (cases v) (auto simp: isFinitePositive_def isNaN_def isInf_def)

section \<open>Strings\<close>

text \<open>\<open>strings.ToLower\<close>, \<open>ToUpper\<close> and \<open>TrimSpace\<close> on ASCII text, \<open>HasPrefix\<close> and \<open>Contains\<close>.\<close>

definition lower_char :: "char \<Rightarrow> char" where
  "lower_char c = (let n = of_char c :: nat in if 65 \<le> n \<and> n \<le> 90 then char_of (n + 32) else c)"

definition upper_char :: "char \<Rightarrow> char" where
  "upper_char c = (let n = of_char c :: nat in if 97 \<le> n \<and> n \<le> 122 then char_of (n - 32) else c)"

definition ToLower :: "string \<Rightarrow> string" where
  "ToLower = map lower_char"

definition ToUpper :: "string \<Rightarrow> string" where
  "ToUpper = map upper_char"

definition space_char :: "char \<Rightarrow> bool" where
  "space_char c \<longleftrightarrow> (of_char c :: nat) \<in> {9, 10, 11, 12, 13, 32}"

definition TrimSpace :: "string \<Rightarrow> string" where
  "TrimSpace s = rev (dropWhile space_char (rev (dropWhile space_char s)))"

definition HasPrefix :: "string \<Rightarrow> string \<Rightarrow> bool" where
  "HasPrefix s p \<longleftrightarrow> take (length p) s = p"

definition HasSuffix :: "string \<Rightarrow> string \<Rightarrow> bool" where
  "HasSuffix s p \<longleftrightarrow> length p \<le> length s \<and> drop (length s - length p) s = p"

fun Contains :: "string \<Rightarrow> string \<Rightarrow> bool" where
  "Contains [] p = (p = [])"
| "Contains (c # s) p = (HasPrefix (c # s) p \<or> Contains s p)"

end
