(* ===== verification/Domain.thy ===== *)
theory Domain
  imports Prelude
begin

text \<open>
  The shared data of the program (\<open>internal/domain/domain.go\<close>): every Go struct is a record whose
  fields carry a prefix, every string enumeration a datatype with one constructor per declared
  constant and one for any other string, since Go does not close such a type. A pointer field is
  an option.
\<close>

section \<open>Enumerations\<close>

datatype side = SideLong | SideShort | OtherSide string

datatype entry_type = EntryTypeMarket | EntryTypeLimitRetest | OtherEntryType string

datatype order_side = OrderSideBuy | OrderSideSell | OtherOrderSide string

datatype order_type =
  OrderTypeMarket | OrderTypeLimit | OrderTypeStopMarket | OrderTypeTakeProfitMarket
  | OtherOrderType string

datatype order_status =
  OrderStatusPending | OrderStatusFilled | OrderStatusPartiallyFilled | OrderStatusCancelled
  | OrderStatusRejected | OtherOrderStatus string

datatype position_status = PositionStatusOpen | PositionStatusClosed | OtherPositionStatus string

section \<open>Structs\<close>

record candle =
  c_Symbol :: string
  c_Timeframe :: string
  c_OpenTime :: int
  c_Open :: f64
  c_High :: f64
  c_Low :: f64
  c_Close :: f64
  c_Volume :: f64
  c_TurnOver :: f64
  c_Confirmed :: bool

record symbol_info =
  si_Symbol :: string
  si_Status :: string
  si_QuoteAsset :: string
  si_BaseAsset :: string
  si_MinNotional :: f64
  si_TickSize :: f64
  si_LotSize :: f64
  si_MaxLeverage :: f64

record universe_symbol = symbol_info +
  us_Blacklist :: bool
  us_ForceInclude :: bool
  us_LiquidityScore :: f64
  us_LastScanAt :: time

record proposed_trade =
  t_Symbol :: string
  t_Side :: side
  t_SetupType :: string
  t_Regime :: string
  t_EntryType :: entry_type
  t_ProposedEntry :: f64
  t_ProposedStopLoss :: f64
  t_ProposedTakeProfit :: f64
  t_StopLossPct :: f64
  t_TakeProfitPct :: f64
  t_RR :: f64
  t_InvalidationLevel :: f64
  t_ReasonCodes :: "string list"
  t_SetupScore :: f64
  t_ExpectedMove :: f64
  t_EstimatedTotalCost :: f64

record candidate = proposed_trade +
  cand_CycleID :: string
  cand_CandidateScore :: f64
  cand_LiquidityScore :: f64
  cand_ExecutionScore :: f64
  cand_VolatilityScore :: f64
  cand_LLMEligible :: bool
  cand_LLMRoutingReasonCodes :: "string list"

record llm_decision =
  ld_Decision :: string
  ld_Confidence :: f64
  ld_SizeMultiplier :: f64
  ld_Regime :: string
  ld_ReasonCodes :: "string list"
  ld_RiskFlags :: "string list"
  ld_Notes :: string
  ld_RawResponse :: string
  ld_ValidationStatus :: string
  ld_CandidateID :: int

record risk_decision =
  rd_ID :: int
  rd_CandidateID :: int
  rd_CycleID :: string
  rd_Approved :: bool
  rd_FinalPositionNotional :: f64
  rd_RequiredMargin :: f64
  rd_EstimatedLoss :: f64
  rd_ReasonCodes :: "string list"
  rd_PortfolioRank :: int
  rd_PortfolioRejectReason :: string
  rd_CreatedAt :: time

record broker_order =
  o_ID :: int
  o_BrokerOrderID :: string
  o_PositionID :: "int option"
  o_Symbol :: string
  o_Side :: order_side
  o_OrderType :: order_type
  o_Qty :: f64
  o_Price :: "f64 option"
  o_StopPrice :: "f64 option"
  o_Status :: order_status
  o_CreatedAt :: time
  o_UpdatedAt :: time
  o_IntendedSL :: f64
  o_IntendedTP :: f64

record position =
  p_ID :: int
  p_Symbol :: string
  p_Side :: side
  p_EntryPrice :: f64
  p_Size :: f64
  p_Leverage :: f64
  p_Margin :: f64
  p_StopLoss :: f64
  p_TakeProfit :: f64
  p_SLOrderID :: "int option"
  p_TPOrderID :: "int option"
  p_UnrealizedPnL :: f64
  p_RealizedPnL :: f64
  p_Status :: position_status
  p_Source :: string
  p_OpenedAt :: time
  p_ClosedAt :: "time option"

record execution =
  x_ID :: int
  x_OrderID :: int
  x_Symbol :: string
  x_Side :: order_side
  x_Qty :: f64
  x_Price :: f64
  x_Fee :: f64
  x_Slippage :: f64
  x_ExecutedAt :: time

record account_state =
  a_ID :: int
  a_Balance :: f64
  a_AvailableBalance :: f64
  a_UsedMargin :: f64
  a_Equity :: f64
  a_RealizedPnL :: f64
  a_UnrealizedPnL :: f64
  a_TotalFees :: f64
  a_TotalSlippage :: f64
  a_DailyLoss :: f64
  a_RecordedAt :: time

record bot_state =
  bot_Mode :: string
  bot_Running :: bool
  bot_LastCycleAt :: "time option"
  bot_DailyResetAt :: "time option"
  bot_Halted :: bool
  bot_HaltReason :: string

record market_data_health =
  h_Symbol :: string
  h_Healthy :: bool
  h_LastUpdate :: time
  h_StaleReason :: string
  h_CandlesHealthy :: bool
  h_OrderBookHealthy :: bool
  h_PriceHealthy :: bool

record order_book_level =
  obl_Price :: f64
  obl_Size :: f64

record order_book_summary =
  ob_Symbol :: string
  ob_BestBid :: f64
  ob_BestAsk :: f64
  ob_SpreadBps :: f64
  ob_BidDepth :: f64
  ob_AskDepth :: f64
  ob_DepthToPositionSizeRatio :: f64
  ob_EstimatedSlippageBps :: f64
  ob_LastUpdate :: time
  ob_Stale :: bool

record public_trade =
  pt_Symbol :: string
  pt_Price :: f64
  pt_Size :: f64
  pt_Side :: string
  pt_Timestamp :: time

record trade_flow =
  tf_Symbol :: string
  tf_WindowSeconds :: int
  tf_BuyVolume :: f64
  tf_SellVolume :: f64
  tf_BuySellRatio :: f64
  tf_TradeCount :: int
  tf_LastUpdate :: time
  tf_Stale :: bool

record cycle =
  cy_ID :: int
  cy_CycleID :: string
  cy_StartedAt :: time
  cy_EndedAt :: "time option"
  cy_Status :: string
  cy_ReasonCodes :: "string list"

record llm_usage_state =
  lu_UsageDate :: time
  lu_Calls :: int
  lu_CostUSD :: f64
  lu_UpdatedAt :: time

record decision_log =
  dl_DecisionID :: string
  dl_CycleID :: string
  dl_Timestamp :: time
  dl_Mode :: string
  dl_Symbol :: string
  dl_Timeframe :: string
  dl_CandleCount :: int
  dl_DataValidationResult :: string
  dl_IndicatorSnapshot :: string
  dl_RegimeSnapshot :: string
  dl_StrategyAttempted :: string
  dl_Candidate :: string
  dl_ScoreBreakdown :: string
  dl_NearMisses :: string
  dl_RiskValidation :: string
  dl_SafetyValidation :: string
  dl_OrderPlan :: string
  dl_LLMReview :: string
  dl_LLMModeActive :: bool
  dl_FinalAction :: string
  dl_FinalActionReason :: string
  dl_EngineVersion :: string
  dl_ScoringVersion :: string
  dl_RiskConfigVersion :: string
  dl_LLMPromptVersion :: string

text \<open>
  The take-profit column of an outcome is JSON text. \<open>JsonFloats\<close> is the text that \<open>encoding/json\<close> prints
  for a slice of finite floats and reads back unchanged; \<open>JsonText\<close> is any text that is not such an array.
\<close>

datatype json_floats = JsonFloats "f64 list" | JsonText string

record candidate_outcome =
  co_DecisionID :: string
  co_Symbol :: string
  co_Side :: side
  co_EntryPrice :: f64
  co_StopLoss :: f64
  co_TakeProfits :: json_floats
  co_PriceAt15m :: "f64 option"
  co_PriceAt1h :: "f64 option"
  co_PriceAt4h :: "f64 option"
  co_PriceAt24h :: "f64 option"
  co_MaxFavorableExcursion24h :: "f64 option"
  co_MaxAdverseExcursion24h :: "f64 option"
  co_WouldHaveHitTP1 :: bool
  co_WouldHaveHitSL :: bool
  co_WouldHaveOutcome :: string
  co_ResultInR :: f64
  co_TrackedUntil :: time
  co_Status :: string

record paper_trade =
  tr_PaperTradeID :: string
  tr_DecisionID :: string
  tr_OpenedAt :: time
  tr_ClosedAt :: "time option"
  tr_Symbol :: string
  tr_Side :: side
  tr_Qty :: f64
  tr_Leverage :: f64
  tr_EntryPrice :: f64
  tr_ExitPrice :: "f64 option"
  tr_StopLoss :: f64
  tr_TakeProfit :: f64
  tr_FeesPaid :: f64
  tr_FundingPaid :: f64
  tr_PnLGross :: "f64 option"
  tr_PnLNet :: "f64 option"
  tr_RMultiple :: "f64 option"
  tr_ExitReason :: string

record paper_account_state =
  pas_ID :: int
  pas_StartingEquity :: f64
  pas_CurrentEquity :: f64
  pas_TotalTrades :: int
  pas_Wins :: int
  pas_Losses :: int
  pas_RealizedPnL :: f64
  pas_ConsecutiveLosses :: int
  pas_UpdatedAt :: time

end
