(* ===== verification/ConfigTypes.thy ===== *)
theory ConfigTypes
  imports Prelude
begin

text \<open>
  The configuration tree (the structs of \<open>internal/app/config.go\<close>, in dependency order). The YAML
  decoder that fills it is a library; a component takes the section it is constructed with.
\<close>

record app_config =
  app_Mode :: string
  app_LogLevel :: string
  app_JSONLogs :: bool
  app_CycleIntervalSeconds :: int
  app_MaxCycleOverlap :: bool
  app_Timezone :: string
  app_LiveConfirmed :: bool

record pool_config =
  pool_MaxOpenConns :: int
  pool_MaxIdleConns :: int
  pool_ConnMaxLifetime :: int

record database_config =
  db_Driver :: string
  db_DSN :: string
  db_Pool :: pool_config

record symbols_config =
  sy_Mode :: string
  sy_ExplicitList :: "string list"

record market_data_config =
  md_Provider :: string
  md_Symbols :: symbols_config
  md_WSURL :: string
  md_RESTURL :: string
  md_ReconnectIntervalSeconds :: int
  md_StaleDataThresholdSeconds :: int
  md_BackfillCandles :: int
  md_StartTimeoutSeconds :: int
  md_Timeframes :: "string list"
  md_OrderbookDepth :: int
  md_TradeFlowWindows :: "int list"

record data_validation_config =
  dv_MinCandles :: int
  dv_MaxDataAgeSeconds :: "int gomap"

record hard_blocks_config =
  hb_MaxSpreadPct :: f64
  hb_MaxFundingAbsPct :: f64
  hb_BTCFlashCrash5mPct :: f64
  hb_DailyMaxLossPct :: f64
  hb_MaxConsecutiveLosses :: int
  hb_CooldownAfterLossMin :: int
  hb_CooldownAfterWinMin :: int

record indicator_engine_config =
  ie_EMA20Period :: int
  ie_EMA50Period :: int
  ie_EMA200Period :: int
  ie_RSIPeriod :: int
  ie_MACDFastPeriod :: int
  ie_MACDSlowPeriod :: int
  ie_MACDSignalPeriod :: int
  ie_ATRPeriod :: int
  ie_VolumeMAPeriod :: int
  ie_SwingLookback :: int
  ie_RecentSwingCount :: int
  ie_SupportResistanceATRTol :: f64

record relative_strength_config =
  rsc_StrongOutperformPct :: f64
  rsc_StrongUnderperformPct :: f64
  rsc_NeutralBandPct :: f64
  rsc_SmoothedEMAPeriod :: int

record btc5m_staleness_config =
  bs_WarnCycles :: int
  bs_CriticalCycles :: int

record market_regime_config =
  mr_BTCDumpShortPct :: f64
  mr_BTCDumpMediumPct :: f64
  mr_BTCNearLevelATRBuffer :: f64
  mr_BTCDRisingFastPct :: f64
  mr_RelativeStrength :: relative_strength_config
  mr_Btc5mStaleness :: btc5m_staleness_config
  mr_RangingATRMultiplier :: f64
  mr_RangingLookbackCandles :: int
  mr_ReduceNewPositionsWhenRanging :: bool

record scoring_threshold_config =
  th_AllowMarket :: f64
  th_AllowRetestOnly :: f64
  th_ReduceSize :: f64

record scoring_config =
  sc_Mode :: string
  sc_ScoringVersion :: string
  sc_Balanced :: scoring_threshold_config
  sc_Aggressive :: scoring_threshold_config

record paper_config =
  pc_StartingBalanceUSD :: f64
  pc_FeeMakerBps :: f64
  pc_FeeTakerBps :: f64
  pc_SlippageModel :: string
  pc_SlippageBps :: f64
  pc_DefaultLeverage :: f64

record broker_config =
  bk_Provider :: string
  bk_Paper :: paper_config

record external_signal_watchlist_config =
  xw_Enabled :: bool
  xw_TTLHours :: int

record universe_filters_config =
  uf_Min24hVolumeUSD :: f64
  uf_MaxSpreadBps :: f64
  uf_MinATRHealthScore :: f64

record universe_config =
  un_Mode :: string
  un_RefreshIntervalMinutes :: int
  un_LightScanMaxSymbols :: int
  un_QualityFilterMaxSymbols :: int
  un_SetupScanMaxSymbols :: int
  un_CoreSymbols :: "string list"
  un_ForceIncludeSymbols :: "string list"
  un_Blacklist :: "string list"
  un_ExternalSignalWatchlist :: external_signal_watchlist_config
  un_Filters :: universe_filters_config

record timeframes_config =
  tm_Context :: string
  tm_Setup :: string
  tm_Execution :: string

record indicators_config =
  ic_ATRPeriod :: int
  ic_EMA200Period :: int
  ic_VolumeSMAPeriod :: int
  ic_RangeCandles :: int
  ic_MinVolumeRatio :: f64
  ic_MaxBreakoutExtensionATR :: f64
  ic_MaxDistanceFromBreakoutATR :: f64
  ic_MinRR :: f64
  ic_ExpectedMoveCostMultiplier :: f64
  ic_MinSLDistanceATRMultiplier :: f64
  ic_MinSLDistancePct :: f64

record regime_config =
  rg_TrendUpMinDistanceFromEMAPct :: f64
  rg_TrendDownMaxDistanceFromEMAPct :: f64
  rg_RangeMaxDistanceFromEMAPct :: f64

record strategy_config =
  sg_Enabled :: bool
  sg_Timeframes :: timeframes_config
  sg_Indicators :: indicators_config
  sg_Regime :: regime_config
  sg_EntryTypes :: "string list"
  sg_LimitRetestTTLMinutes :: int

record llm_routing_config =
  lr_Mode :: string
  lr_MinCandidateScore :: f64
  lr_MaxCallsPerCycle :: int
  lr_MaxCallsPerDay :: int
  lr_MaxCostUSDPerDay :: f64
  lr_RequireExecutionOk :: bool
  lr_RequireLiquidityOk :: bool
  lr_HardCapCandidatesPerCycle :: int

record llm_budget_config =
  lb_MaxCostUSDPerDay :: f64
  lb_FallbackDecision :: string

record llm_config =
  lm_Enabled :: bool
  lm_Provider :: string
  lm_BaseURL :: string
  lm_Model :: string
  lm_Temperature :: f64
  lm_TimeoutSeconds :: int
  lm_MaxTokens :: int
  lm_Budget :: llm_budget_config

record llm_review_config =
  lv_Mode :: string
  lv_Provider :: string
  lv_Model :: string
  lv_BaseURL :: string
  lv_TimeoutSeconds :: int
  lv_MaxInputTokens :: int
  lv_MaxOutputTokens :: int
  lv_DailyCostCapUSD :: f64
  lv_PromptVersion :: string
  lv_LogRawResponses :: bool

record cooldown_config =
  cd_Enabled :: bool
  cd_ConsecutiveLosses :: int
  cd_CooldownMinutes :: int

record per_symbol_sl_cooldown_config =
  ps_Enabled :: bool
  ps_CooldownMinutes :: int

record portfolio_risk_config =
  pr_MaxOpenPositions :: int
  pr_MaxNewPositionsPerCycle :: int
  pr_MaxTotalExposureUSD :: f64
  pr_MaxTotalMarginUsedPct :: f64
  pr_MaxRiskPerTradePct :: f64
  pr_MaxDailyLossPct :: f64
  pr_MaxSameDirectionPositions :: int
  pr_MaxCorrelatedAltPositions :: int
  pr_MaxPerSymbolPosition :: int
  pr_MarginPerTradeUSD :: f64
  pr_MaxLeverage :: f64
  pr_MinNotionalUSD :: f64
  pr_CooldownAfterLosses :: cooldown_config
  pr_PerSymbolSLCooldown :: per_symbol_sl_cooldown_config

record sizing_config =
  sz_Method :: string
  sz_MarginPerTradeUSD :: f64
  sz_MaxLeverage :: f64
  sz_MaxRiskPerTradePct :: f64

record risk_config =
  rc_BaseRiskPerTradePct :: f64
  rc_MaxRiskPerTradePct :: f64
  rc_MaxLeverage :: f64
  rc_PreferredLeverage :: f64
  rc_MinRR :: f64
  rc_MaxOpenPositions :: int
  rc_MaxCorrelatedPositions :: int
  rc_DailyMaxLossPct :: f64
  rc_WeeklyMaxLossPct :: f64
  rc_MinRiskPerTradePct :: f64
  rc_RiskConfigVersion :: string

record telegram_config =
  tg_BotToken :: string
  tg_ChatID :: string

record webhook_config =
  wh_URL :: string

record alerts_config =
  al_Enabled :: bool
  al_Provider :: string
  al_Telegram :: telegram_config
  al_Webhook :: webhook_config
  al_Events :: "string list"

record backtest_config =
  bt_DefaultFrom :: string
  bt_DefaultTo :: string
  bt_LLMMode :: string

record fibonacci_config =
  fb_Enabled :: bool
  fb_LookbackCandles :: int
  fb_ZoneTolerancePct :: f64
  fb_ScoringWeight :: f64

record narrative_config =
  na_ActiveSectors :: "string list"
  na_SymbolSectors :: "string gomap"

record marketcap_config =
  mk_SymbolClasses :: "string gomap"

record watchlist_context_config =
  wc_Enabled :: bool
  wc_Fibonacci :: fibonacci_config
  wc_Narrative :: narrative_config
  wc_Marketcap :: marketcap_config

record user_config =
  uc_App :: app_config
  uc_Database :: database_config
  uc_MarketData :: market_data_config
  uc_DataValidation :: data_validation_config
  uc_HardBlocks :: hard_blocks_config
  uc_IndicatorEngine :: indicator_engine_config
  uc_MarketRegime :: market_regime_config
  uc_Scoring :: scoring_config
  uc_Broker :: broker_config
  uc_Universe :: universe_config
  uc_Strategy :: strategy_config
  uc_LLMRouting :: llm_routing_config
  uc_LLM :: llm_config
  uc_LLMReview :: llm_review_config
  uc_PortfolioRisk :: portfolio_risk_config
  uc_Sizing :: sizing_config
  uc_Risk :: risk_config
  uc_Alerts :: alerts_config
  uc_Backtest :: backtest_config
  uc_WatchlistContext :: watchlist_context_config

end
