(* ===== verification/Broker.thy ===== *)
theory Broker
  imports Domain ConfigTypes
begin

text \<open>
  The paper broker (\<open>internal/broker/paper.go\<close>, \<open>internal/broker/broker.go\<close>): account, open
  positions and resting orders, and every operation that changes them. Each exported method holds
  the broker's mutex from its first to its last statement, so it is one function of the state;
  \<open>now\<close> is the handler's reading of the clock and \<open>ord\<close> the runtime's choice of iteration order.
  The repositories and the alert sender are the ones \<open>bot simulate\<close> leaves unset; the calls made
  to them are kept, in order, in \<open>pb_log\<close>.
\<close>

section \<open>State\<close>

record order_request =
  rq_Symbol :: string
  rq_Side :: order_side
  rq_OrderType :: order_type
  rq_Qty :: f64
  rq_Price :: "f64 option"
  rq_StopPrice :: "f64 option"
  rq_ReduceOnly :: bool
  rq_StopLoss :: f64
  rq_TakeProfit :: f64

datatype broker_error =
    QtyNotPositive
  | SymbolRequired
  | BrokerHalted string
  | StopLossRequired
  | NoPriceAvailable string
  | LongStopLossNotBelow f64 f64
  | ShortStopLossNotAbove f64 f64
  | InsufficientMargin f64 f64
  | PositionRejected side
  | StopPriceRequired order_type
  | LimitPriceRequired
  | OrderNotFound string
  | NoOpenPosition string
  | StopLossNotPositive
  | LongSLNotBelowEntry
  | ShortSLNotAboveEntry
  | LongTPNotAboveEntry
  | ShortTPNotBelowEntry
  | CreateSLOrder broker_error

datatype pb_event =
    SaveOrder broker_order
  | UpdateOrder broker_order
  | SaveProtectiveOrders position
  | SavePosition position
  | UpdatePosition position
  | UpsertPosition position
  | SaveExecution execution
  | SaveAccountSnapshot
  | AlertPositionClosed string string side f64
  | AlertEmergencyClose nat nat

record paper_broker =
  pb_cfg :: paper_config
  pb_startingBalance :: f64
  pb_balance :: f64
  pb_usedMargin :: f64
  pb_realizedPnL :: f64
  pb_unrealizedPnL :: f64
  pb_totalFees :: f64
  pb_totalSlippage :: f64
  pb_dailyLoss :: f64
  pb_openPositions :: "position gomap"
  pb_openOrders :: "broker_order gomap"
  pb_closedPositions :: "position list"
  pb_nextOrderID :: int
  pb_nextPositionID :: int
  pb_nextExecID :: int
  pb_prices :: "f64 gomap"
  pb_halted :: bool
  pb_haltReason :: string
  pb_log :: "pb_event list"

definition NewPaperBroker :: "paper_config \<Rightarrow> paper_broker" where
  "NewPaperBroker cfg =
    \<lparr> pb_cfg = cfg, pb_startingBalance = pc_StartingBalanceUSD cfg,
      pb_balance = pc_StartingBalanceUSD cfg, pb_usedMargin = Fin 0, pb_realizedPnL = Fin 0,
      pb_unrealizedPnL = Fin 0, pb_totalFees = Fin 0, pb_totalSlippage = Fin 0,
      pb_dailyLoss = Fin 0, pb_openPositions = [], pb_openOrders = [], pb_closedPositions = [],
      pb_nextOrderID = 1, pb_nextPositionID = 1, pb_nextExecID = 1, pb_prices = [],
      pb_halted = False, pb_haltReason = '''', pb_log = [] \<rparr>"

definition emit :: "pb_event \<Rightarrow> paper_broker \<Rightarrow> paper_broker" where
  "emit e pb = pb\<lparr>pb_log := pb_log pb @ [e]\<rparr>"

text \<open>\<open>fmt.Sprintf("paper-%d", id)\<close>, the key of an order in \<open>openOrders\<close>.\<close>

definition paper_key :: "int \<Rightarrow> string" where
  "paper_key n = ''paper-'' @ show_int n"

definition put_order :: "broker_order \<Rightarrow> paper_broker \<Rightarrow> paper_broker" where
  "put_order o' pb = pb\<lparr>pb_openOrders := AList.update (o_BrokerOrderID o') o' (pb_openOrders pb)\<rparr>"

definition del_order :: "string \<Rightarrow> paper_broker \<Rightarrow> paper_broker" where
  "del_order k pb = pb\<lparr>pb_openOrders := AList.delete k (pb_openOrders pb)\<rparr>"

definition put_position :: "position \<Rightarrow> paper_broker \<Rightarrow> paper_broker" where
  "put_position p pb = pb\<lparr>pb_openPositions := AList.update (p_Symbol p) p (pb_openPositions pb)\<rparr>"

definition zero_order :: broker_order where
  "zero_order =
    \<lparr> o_ID = 0, o_BrokerOrderID = '''', o_PositionID = None, o_Symbol = '''',
      o_Side = OtherOrderSide '''', o_OrderType = OtherOrderType '''', o_Qty = Fin 0,
      o_Price = None, o_StopPrice = None, o_Status = OtherOrderStatus '''',
      o_CreatedAt = zero_time, o_UpdatedAt = zero_time, o_IntendedSL = Fin 0,
      o_IntendedTP = Fin 0 \<rparr>"

definition zero_position :: position where
  "zero_position =
    \<lparr> p_ID = 0, p_Symbol = '''', p_Side = OtherSide '''', p_EntryPrice = Fin 0, p_Size = Fin 0,
      p_Leverage = Fin 0, p_Margin = Fin 0, p_StopLoss = Fin 0, p_TakeProfit = Fin 0,
      p_SLOrderID = None, p_TPOrderID = None, p_UnrealizedPnL = Fin 0, p_RealizedPnL = Fin 0,
      p_Status = OtherPositionStatus '''', p_Source = '''', p_OpenedAt = zero_time,
      p_ClosedAt = None \<rparr>"

section \<open>Reading the account\<close>

definition GetAccountState :: "time \<Rightarrow> paper_broker \<Rightarrow> account_state" where
  "GetAccountState now pb =
    \<lparr> a_ID = 0, a_Balance = pb_balance pb,
      a_AvailableBalance = pb_balance pb - pb_usedMargin pb,
      a_UsedMargin = pb_usedMargin pb, a_Equity = pb_balance pb + pb_unrealizedPnL pb,
      a_RealizedPnL = pb_realizedPnL pb, a_UnrealizedPnL = pb_unrealizedPnL pb,
      a_TotalFees = pb_totalFees pb, a_TotalSlippage = pb_totalSlippage pb,
      a_DailyLoss = pb_dailyLoss pb, a_RecordedAt = now \<rparr>"

definition GetOpenPositions :: "string list \<Rightarrow> paper_broker \<Rightarrow> position list" where
  "GetOpenPositions ord pb =
    List.map_filter (map_of (pb_openPositions pb)) (iter_keys ord (pb_openPositions pb))"

definition GetOpenOrders :: "string list \<Rightarrow> paper_broker \<Rightarrow> broker_order list" where
  "GetOpenOrders ord pb =
    List.map_filter (map_of (pb_openOrders pb)) (iter_keys ord (pb_openOrders pb))"

definition SetHalted :: "string \<Rightarrow> paper_broker \<Rightarrow> paper_broker" where
  "SetHalted reason pb = pb\<lparr>pb_halted := True, pb_haltReason := reason\<rparr>"

definition SetSymbolPrice :: "string \<Rightarrow> f64 \<Rightarrow> paper_broker \<Rightarrow> paper_broker" where
  "SetSymbolPrice symbol price pb = pb\<lparr>pb_prices := AList.update symbol price (pb_prices pb)\<rparr>"

definition ResetDailyLoss :: "paper_broker \<Rightarrow> paper_broker" where
  "ResetDailyLoss pb = pb\<lparr>pb_dailyLoss := Fin 0\<rparr>"

text \<open>The price the order handlers accept: present and not \<open><= 0\<close>.\<close>

definition usable_price :: "string \<Rightarrow> paper_broker \<Rightarrow> f64 option" where
  "usable_price symbol pb =
    (case map_of (pb_prices pb) symbol of
       None \<Rightarrow> None
     | Some price \<Rightarrow> if price \<le> Fin 0 then None else Some price)"

section \<open>Closing a position\<close>

definition derefInt64 :: "int option \<Rightarrow> int" where
  "derefInt64 p = (case p of None \<Rightarrow> - 1 | Some i \<Rightarrow> i)"

definition is_sibling :: "position \<Rightarrow> broker_order \<Rightarrow> bool" where
  "is_sibling pos order \<longleftrightarrow>
    o_Symbol order = p_Symbol pos \<and>
    (o_ID order = derefInt64 (p_SLOrderID pos) \<or> o_ID order = derefInt64 (p_TPOrderID pos))"

definition cancelSiblingOrders ::
  "string list \<Rightarrow> time \<Rightarrow> position \<Rightarrow> paper_broker \<Rightarrow> paper_broker" where
  "cancelSiblingOrders ord now pos pb =
    range_map pb_openOrders
      (\<lambda>id order pb.
        if is_sibling pos order then
          del_order id
            (emit (UpdateOrder (order\<lparr>o_Status := OrderStatusCancelled, o_UpdatedAt := now\<rparr>)) pb)
        else pb)
      (iter_keys ord (pb_openOrders pb)) pb"

definition severityForPnL :: "f64 \<Rightarrow> string" where
  "severityForPnL pnl =
    (if Fin 0 \<le> pnl then ''info'' else if Fin (- 10) < pnl then ''warning'' else ''danger'')"

text \<open>Exit price after slippage, the slippage itself, the exit fee and the profit net of it.\<close>

definition exit_slippage :: "paper_config \<Rightarrow> f64 \<Rightarrow> f64" where
  "exit_slippage cfg exitPrice = exitPrice * pc_SlippageBps cfg / Fin 10000"

definition exit_price :: "paper_config \<Rightarrow> position \<Rightarrow> f64 \<Rightarrow> f64" where
  "exit_price cfg pos exitPrice =
    (if p_Side pos = SideLong then exitPrice - exit_slippage cfg exitPrice
     else exitPrice + exit_slippage cfg exitPrice)"

definition exit_fee :: "paper_config \<Rightarrow> position \<Rightarrow> f64 \<Rightarrow> f64" where
  "exit_fee cfg pos exitPrice =
    exit_price cfg pos exitPrice * p_Size pos * pc_FeeTakerBps cfg / Fin 10000"

definition exit_pnl :: "paper_config \<Rightarrow> position \<Rightarrow> f64 \<Rightarrow> f64" where
  "exit_pnl cfg pos exitPrice =
    (if p_Side pos = SideLong then (exit_price cfg pos exitPrice - p_EntryPrice pos) * p_Size pos
     else (p_EntryPrice pos - exit_price cfg pos exitPrice) * p_Size pos)
    - exit_fee cfg pos exitPrice"

definition add_daily_loss :: "f64 \<Rightarrow> f64 \<Rightarrow> f64" where
  "add_daily_loss pnl loss = (if pnl < Fin 0 then loss + \<bar>pnl\<bar> else loss)"

definition opposite_side :: "position \<Rightarrow> order_side" where
  "opposite_side pos = (if p_Side pos = SideShort then OrderSideBuy else OrderSideSell)"

definition closed_position :: "time \<Rightarrow> f64 \<Rightarrow> position \<Rightarrow> position" where
  "closed_position now pnl pos =
    pos\<lparr>p_RealizedPnL := pnl, p_UnrealizedPnL := Fin 0, p_Status := PositionStatusClosed,
        p_ClosedAt := Some now\<rparr>"

text \<open>The account bookkeeping of a close, then its closing execution.\<close>

definition settle_close ::
  "time \<Rightarrow> position \<Rightarrow> f64 \<Rightarrow> paper_broker \<Rightarrow> paper_broker" where
  "settle_close now pos exitPrice pb =
    (let cfg = pb_cfg pb;
         slippageAmt = exit_slippage cfg exitPrice;
         fee = exit_fee cfg pos exitPrice;
         pnl = exit_pnl cfg pos exitPrice
     in pb\<lparr>pb_balance := pb_balance pb + pnl,
           pb_usedMargin := pb_usedMargin pb - p_Margin pos,
           pb_realizedPnL := pb_realizedPnL pb + pnl,
           pb_totalFees := pb_totalFees pb + fee,
           pb_totalSlippage := pb_totalSlippage pb + slippageAmt * p_Size pos,
           pb_dailyLoss := add_daily_loss pnl (pb_dailyLoss pb),
           pb_openPositions := AList.delete (p_Symbol pos) (pb_openPositions pb),
           pb_closedPositions := pb_closedPositions pb @ [closed_position now pnl pos]\<rparr>)"

definition synthetic_order :: "time \<Rightarrow> position \<Rightarrow> int \<Rightarrow> broker_order" where
  "synthetic_order now pos n =
    zero_order\<lparr>o_ID := n, o_BrokerOrderID := paper_key n, o_Symbol := p_Symbol pos,
      o_Side := opposite_side pos, o_OrderType := OrderTypeMarket, o_Qty := p_Size pos,
      o_Status := OrderStatusFilled, o_CreatedAt := now, o_UpdatedAt := now\<rparr>"

definition closing_order_id ::
  "time \<Rightarrow> position \<Rightarrow> broker_order option \<Rightarrow> paper_broker \<Rightarrow> paper_broker \<times> int" where
  "closing_order_id now pos closingOrder pb =
    (case closingOrder of
       Some order \<Rightarrow> (pb, o_ID order)
     | None \<Rightarrow>
         (let n = pb_nextOrderID pb
          in (emit (SaveOrder (synthetic_order now pos n)) (pb\<lparr>pb_nextOrderID := n + 1\<rparr>), n)))"

definition closePositionInternalWithOrder ::
  "string list \<Rightarrow> time \<Rightarrow> position \<Rightarrow> f64 \<Rightarrow> broker_order option \<Rightarrow> paper_broker \<Rightarrow> paper_broker" where
  "closePositionInternalWithOrder ord now pos exitPrice closingOrder pb =
    (let cfg = pb_cfg pb;
         pnl = exit_pnl cfg pos exitPrice;
         pb1 = settle_close now pos exitPrice (cancelSiblingOrders ord now pos pb);
         (pb2, closeOrderID) = closing_order_id now pos closingOrder pb1;
         pb3 = emit (SaveExecution
                 \<lparr> x_ID = pb_nextExecID pb2, x_OrderID = closeOrderID, x_Symbol = p_Symbol pos,
                   x_Side = opposite_side pos, x_Qty = p_Size pos,
                   x_Price = exit_price cfg pos exitPrice, x_Fee = exit_fee cfg pos exitPrice,
                   x_Slippage = exit_slippage cfg exitPrice, x_ExecutedAt = now \<rparr>) pb2;
         pb4 = pb3\<lparr>pb_nextExecID := pb_nextExecID pb3 + 1\<rparr>
     in emit (AlertPositionClosed (severityForPnL pnl) (p_Symbol pos) (p_Side pos) pnl)
          (emit SaveAccountSnapshot (emit (UpsertPosition (closed_position now pnl pos)) pb4)))"

text \<open>\<open>side\<close> is the order's side, which the code does not compare with the position's.\<close>

definition reducePosition ::
  "string list \<Rightarrow> time \<Rightarrow> position \<Rightarrow> f64 \<Rightarrow> f64 \<Rightarrow> f64 \<Rightarrow> f64 \<Rightarrow> paper_broker \<Rightarrow> paper_broker" where
  "reducePosition ord now pos qty fillPrice fee slippageAmt pb =
    (if p_Size pos \<le> qty then closePositionInternalWithOrder ord now pos fillPrice None pb
     else
       let pnl = (if p_Side pos = SideLong then (fillPrice - p_EntryPrice pos) * qty
                  else (p_EntryPrice pos - fillPrice) * qty) - fee;
           marginFreed = p_Margin pos * (qty / p_Size pos)
       in (put_position (pos\<lparr>p_Size := p_Size pos - qty, p_Margin := p_Margin pos - marginFreed,
                             p_RealizedPnL := p_RealizedPnL pos + pnl\<rparr>) pb)
            \<lparr>pb_balance := pb_balance pb + pnl,
             pb_usedMargin := pb_usedMargin pb - marginFreed,
             pb_realizedPnL := pb_realizedPnL pb + pnl,
             pb_totalFees := pb_totalFees pb + fee,
             pb_totalSlippage := pb_totalSlippage pb + slippageAmt * qty,
             pb_dailyLoss := add_daily_loss pnl (pb_dailyLoss pb)\<rparr>)"

section \<open>Protective orders\<close>

definition validateStopLoss :: "order_side \<Rightarrow> f64 \<Rightarrow> f64 \<Rightarrow> broker_error option" where
  "validateStopLoss sd entryPrice slPrice =
    (if sd = OrderSideBuy then
       (if entryPrice \<le> slPrice then Some (LongStopLossNotBelow slPrice entryPrice) else None)
     else
       (if slPrice \<le> entryPrice then Some (ShortStopLossNotAbove slPrice entryPrice) else None))"

definition protective_order ::
  "time \<Rightarrow> position \<Rightarrow> order_type \<Rightarrow> f64 \<Rightarrow> int \<Rightarrow> broker_order" where
  "protective_order now pos typ price n =
    zero_order\<lparr>o_ID := n, o_BrokerOrderID := paper_key n, o_Symbol := p_Symbol pos,
      o_Side := opposite_side pos, o_OrderType := typ, o_Qty := p_Size pos,
      o_StopPrice := Some price, o_Status := OrderStatusPending, o_CreatedAt := now,
      o_UpdatedAt := now\<rparr>"

definition invalid_SL_side :: "position \<Rightarrow> f64 \<Rightarrow> bool" where
  "invalid_SL_side pos slPrice \<longleftrightarrow>
    p_Side pos = SideLong \<and> p_EntryPrice pos \<le> slPrice \<or>
    p_Side pos = SideShort \<and> slPrice \<le> p_EntryPrice pos"

definition invalid_TP_side :: "position \<Rightarrow> f64 \<Rightarrow> bool" where
  "invalid_TP_side pos tpPrice \<longleftrightarrow>
    p_Side pos = SideLong \<and> tpPrice \<le> p_EntryPrice pos \<or>
    p_Side pos = SideShort \<and> p_EntryPrice pos \<le> tpPrice"

text \<open>
  The position is a pointer into \<open>openPositions\<close>: the order identifiers set on it are stored
  there, and the caller reads the position back under its symbol.
\<close>

definition add_SL :: "time \<Rightarrow> position \<Rightarrow> f64 \<Rightarrow> paper_broker \<Rightarrow> paper_broker \<times> position" where
  "add_SL now pos slPrice pb =
    (if Fin 0 < slPrice then
       let n = pb_nextOrderID pb;
           pos' = pos\<lparr>p_SLOrderID := Some n\<rparr>
       in (put_position pos'
             (put_order (protective_order now pos OrderTypeStopMarket slPrice n)
               (pb\<lparr>pb_nextOrderID := n + 1\<rparr>)), pos')
     else (pb, pos))"

definition add_TP :: "time \<Rightarrow> position \<Rightarrow> f64 \<Rightarrow> paper_broker \<Rightarrow> paper_broker \<times> position" where
  "add_TP now pos tpPrice pb =
    (if Fin 0 < tpPrice then
       let n = pb_nextOrderID pb;
           pos' = pos\<lparr>p_TPOrderID := Some n\<rparr>
       in (put_position pos'
             (put_order (protective_order now pos OrderTypeTakeProfitMarket tpPrice n)
               (pb\<lparr>pb_nextOrderID := n + 1\<rparr>)), pos')
     else (pb, pos))"

definition createProtectiveOrdersForPosition ::
  "string list \<Rightarrow> time \<Rightarrow> position \<Rightarrow> f64 \<Rightarrow> f64 \<Rightarrow> paper_broker \<Rightarrow> paper_broker \<times> position \<times> bool" where
  "createProtectiveOrdersForPosition ord now pos slPrice tpPrice pb =
    (if slPrice \<le> Fin 0 \<and> tpPrice \<le> Fin 0 then (pb, pos, True)
     else if Fin 0 < slPrice \<and> invalid_SL_side pos slPrice then
       (closePositionInternalWithOrder ord now pos (p_EntryPrice pos) None pb, pos, False)
     else
       let tpPrice' = (if Fin 0 < tpPrice \<and> invalid_TP_side pos tpPrice then Fin 0 else tpPrice);
           (pb1, pos1) = add_SL now pos slPrice pb;
           (pb2, pos2) = add_TP now pos1 tpPrice' pb1
       in (pb2, pos2, True))"

section \<open>Placing an order\<close>

definition is_entry_type :: "order_type \<Rightarrow> bool" where
  "is_entry_type t \<longleftrightarrow> t = OrderTypeMarket \<or> t = OrderTypeLimit"

definition sideFromOrderSide :: "order_side \<Rightarrow> side" where
  "sideFromOrderSide os = (if os = OrderSideBuy then SideLong else SideShort)"

text \<open>The checks made before an identifier is allocated.\<close>

definition place_guard :: "order_request \<Rightarrow> paper_broker \<Rightarrow> broker_error option" where
  "place_guard req pb =
    (if rq_Qty req \<le> Fin 0 then Some QtyNotPositive
     else if rq_Symbol req = '''' then Some SymbolRequired
     else if pb_halted pb \<and> rq_StopPrice req = None \<and> \<not> rq_ReduceOnly req
             \<and> is_entry_type (rq_OrderType req) then Some (BrokerHalted (pb_haltReason pb))
     else if \<not> rq_ReduceOnly req \<and> is_entry_type (rq_OrderType req) \<and> rq_StopLoss req \<le> Fin 0
       then Some StopLossRequired
     else None)"

definition new_order :: "time \<Rightarrow> order_request \<Rightarrow> int \<Rightarrow> broker_order" where
  "new_order now req n =
    \<lparr> o_ID = n, o_BrokerOrderID = paper_key n, o_PositionID = None, o_Symbol = rq_Symbol req,
      o_Side = rq_Side req, o_OrderType = rq_OrderType req, o_Qty = rq_Qty req,
      o_Price = rq_Price req, o_StopPrice = rq_StopPrice req, o_Status = OrderStatusPending,
      o_CreatedAt = now, o_UpdatedAt = now, o_IntendedSL = rq_StopLoss req,
      o_IntendedTP = rq_TakeProfit req \<rparr>"

definition new_position ::
  "time \<Rightarrow> paper_config \<Rightarrow> int \<Rightarrow> string \<Rightarrow> order_side \<Rightarrow> f64 \<Rightarrow> f64 \<Rightarrow> f64 \<Rightarrow> position" where
  "new_position now cfg n symbol sd fillPrice qty margin =
    zero_position\<lparr>p_ID := n, p_Symbol := symbol, p_Side := sideFromOrderSide sd,
      p_EntryPrice := fillPrice, p_Size := qty, p_Leverage := pc_DefaultLeverage cfg,
      p_Margin := margin, p_Status := PositionStatusOpen, p_Source := ''paper'',
      p_OpenedAt := now\<rparr>"

text \<open>Register a new position, charging its margin and its fee.\<close>

definition register_position ::
  "position \<Rightarrow> f64 \<Rightarrow> f64 \<Rightarrow> paper_broker \<Rightarrow> paper_broker" where
  "register_position pos fee slip pb =
    (put_position pos pb)
      \<lparr>pb_nextPositionID := pb_nextPositionID pb + 1,
       pb_usedMargin := pb_usedMargin pb + p_Margin pos,
       pb_balance := pb_balance pb - fee,
       pb_totalFees := pb_totalFees pb + fee,
       pb_totalSlippage := pb_totalSlippage pb + slip\<rparr>"

definition entry_execution ::
  "time \<Rightarrow> int \<Rightarrow> broker_order \<Rightarrow> f64 \<Rightarrow> f64 \<Rightarrow> f64 \<Rightarrow> execution" where
  "entry_execution now n order fillPrice fee slippageAmt =
    \<lparr> x_ID = n, x_OrderID = o_ID order, x_Symbol = o_Symbol order, x_Side = o_Side order,
      x_Qty = o_Qty order, x_Price = fillPrice, x_Fee = fee, x_Slippage = slippageAmt,
      x_ExecutedAt = now \<rparr>"

text \<open>The persistence calls after a fill, and the execution counter.\<close>

definition persist_entry ::
  "time \<Rightarrow> pb_event \<Rightarrow> broker_order \<Rightarrow> position \<Rightarrow> f64 \<Rightarrow> f64 \<Rightarrow> f64 \<Rightarrow> paper_broker \<Rightarrow> paper_broker" where
  "persist_entry now ev order pos fillPrice fee slippageAmt pb =
    emit SaveAccountSnapshot
      ((\<lambda>pb. pb\<lparr>pb_nextExecID := pb_nextExecID pb + 1\<rparr>)
        (emit (SaveExecution (entry_execution now (pb_nextExecID pb) order fillPrice fee slippageAmt))
          (emit (SavePosition pos) (emit (SaveProtectiveOrders pos) (emit ev pb)))))"

definition market_slippage :: "paper_config \<Rightarrow> f64 \<Rightarrow> f64" where
  "market_slippage cfg price = price * pc_SlippageBps cfg / Fin 10000"

definition market_fill_price :: "paper_config \<Rightarrow> order_side \<Rightarrow> f64 \<Rightarrow> f64" where
  "market_fill_price cfg sd price =
    (if sd = OrderSideBuy then price + market_slippage cfg price
     else price - market_slippage cfg price)"

text \<open>The branch that opens a position, once the previous one of the symbol is closed.\<close>

definition open_market_position ::
  "string list \<Rightarrow> time \<Rightarrow> order_request \<Rightarrow> broker_order \<Rightarrow> f64 \<Rightarrow> f64 \<Rightarrow> f64 \<Rightarrow> f64
   \<Rightarrow> paper_broker \<Rightarrow> paper_broker \<times> broker_order \<times> broker_error option" where
  "open_market_position ord now req order fillPrice fee margin slippageAmt pb =
    (let pos = new_position now (pb_cfg pb) (pb_nextPositionID pb) (rq_Symbol req) (rq_Side req)
                 fillPrice (rq_Qty req) margin;
         pb1 = register_position pos fee (slippageAmt * rq_Qty req) pb;
         (pb2, pos2, ok) =
           (if Fin 0 < rq_StopLoss req \<or> Fin 0 < rq_TakeProfit req then
              createProtectiveOrdersForPosition ord now pos (rq_StopLoss req) (rq_TakeProfit req) pb1
            else (pb1, pos, True))
     in if \<not> ok then
          (let order' = order\<lparr>o_Status := OrderStatusRejected\<rparr>
           in (emit (SaveOrder order') pb2, order', Some (PositionRejected (p_Side pos))))
        else
          (let pos3 = pos2\<lparr>p_StopLoss := rq_StopLoss req, p_TakeProfit := rq_TakeProfit req\<rparr>;
               order' = order\<lparr>o_Status := OrderStatusFilled, o_UpdatedAt := now\<rparr>
           in (persist_entry now (SaveOrder order') order' pos3 fillPrice fee slippageAmt
                 (put_position pos3 pb2), order', None)))"

definition place_market ::
  "string list \<Rightarrow> time \<Rightarrow> order_request \<Rightarrow> broker_order
   \<Rightarrow> paper_broker \<Rightarrow> paper_broker \<times> broker_order \<times> broker_error option" where
  "place_market ord now req order pb =
    (case usable_price (rq_Symbol req) pb of
       None \<Rightarrow> (pb, zero_order, Some (NoPriceAvailable (rq_Symbol req)))
     | Some price \<Rightarrow>
         let cfg = pb_cfg pb;
             slippageAmt = market_slippage cfg price;
             fillPrice = market_fill_price cfg (rq_Side req) price;
             rejected = order\<lparr>o_Status := OrderStatusRejected\<rparr>;
             bad_sl = (if \<not> rq_ReduceOnly req \<and> Fin 0 < rq_StopLoss req
                       then validateStopLoss (rq_Side req) fillPrice (rq_StopLoss req) else None);
             notional = fillPrice * rq_Qty req;
             fee = notional * pc_FeeTakerBps cfg / Fin 10000;
             margin = notional / pc_DefaultLeverage cfg
         in case bad_sl of
              Some e \<Rightarrow> (pb, rejected, Some e)
            | None \<Rightarrow>
                if pb_balance pb - pb_usedMargin pb < margin + fee then
                  (pb, rejected,
                   Some (InsufficientMargin (margin + fee) (pb_balance pb - pb_usedMargin pb)))
                else
                  (case map_of (pb_openPositions pb) (rq_Symbol req) of
                     Some pos \<Rightarrow>
                       if rq_ReduceOnly req then
                         (reducePosition ord now pos (rq_Qty req) fillPrice fee slippageAmt pb, order, None)
                       else
                         open_market_position ord now req order fillPrice fee margin slippageAmt
                           (closePositionInternalWithOrder ord now pos fillPrice None pb)
                   | None \<Rightarrow>
                       open_market_position ord now req order fillPrice fee margin slippageAmt pb))"

definition PlaceOrder ::
  "string list \<Rightarrow> time \<Rightarrow> order_request
   \<Rightarrow> paper_broker \<Rightarrow> paper_broker \<times> broker_order \<times> broker_error option" where
  "PlaceOrder ord now req pb =
    (case place_guard req pb of
       Some e \<Rightarrow> (pb, zero_order, Some e)
     | None \<Rightarrow>
         let order = new_order now req (pb_nextOrderID pb);
             pb1 = pb\<lparr>pb_nextOrderID := pb_nextOrderID pb + 1\<rparr>
         in case rq_OrderType req of
              OrderTypeMarket \<Rightarrow> place_market ord now req order pb1
            | OrderTypeLimit \<Rightarrow>
                (case rq_Price req of
                   None \<Rightarrow> (pb1, zero_order, Some LimitPriceRequired)
                 | Some price \<Rightarrow>
                     if price \<le> Fin 0 then (pb1, zero_order, Some LimitPriceRequired)
                     else (emit (SaveOrder order) (put_order order pb1), order, None))
            | OtherOrderType t \<Rightarrow> (pb1, order, None)
            | t \<Rightarrow>
                (case rq_StopPrice req of
                   None \<Rightarrow> (pb1, zero_order, Some (StopPriceRequired t))
                 | Some price \<Rightarrow>
                     if price \<le> Fin 0 then (pb1, zero_order, Some (StopPriceRequired t))
                     else (put_order order pb1, order, None)))"

section \<open>Cancelling and closing\<close>

definition CancelOrder :: "time \<Rightarrow> string \<Rightarrow> paper_broker \<Rightarrow> paper_broker \<times> broker_error option" where
  "CancelOrder now orderID pb =
    (case map_of (pb_openOrders pb) orderID of
       None \<Rightarrow> (pb, Some (OrderNotFound orderID))
     | Some order \<Rightarrow>
         (del_order orderID
            (emit (UpdateOrder (order\<lparr>o_Status := OrderStatusCancelled, o_UpdatedAt := now\<rparr>)) pb), None))"

definition ClosePosition ::
  "string list \<Rightarrow> time \<Rightarrow> string \<Rightarrow> paper_broker \<Rightarrow> paper_broker \<times> broker_error option" where
  "ClosePosition ord now symbol pb =
    (case map_of (pb_openPositions pb) symbol of
       None \<Rightarrow> (pb, Some (NoOpenPosition symbol))
     | Some pos \<Rightarrow>
         (case usable_price symbol pb of
            None \<Rightarrow> (pb, Some (NoPriceAvailable symbol))
          | Some price \<Rightarrow> (closePositionInternalWithOrder ord now pos price None pb, None)))"

definition emergency_price :: "string \<Rightarrow> position \<Rightarrow> paper_broker \<Rightarrow> f64" where
  "emergency_price symbol pos pb =
    (case usable_price symbol pb of None \<Rightarrow> p_EntryPrice pos | Some price \<Rightarrow> price)"

definition EmergencyCloseAll :: "string list \<Rightarrow> time \<Rightarrow> paper_broker \<Rightarrow> paper_broker" where
  "EmergencyCloseAll ord now pb =
    (let cancelledCount = length (pb_openOrders pb);
         closedCount = length (pb_openPositions pb);
         pb1 = range_map pb_openOrders (\<lambda>id order pb. del_order id pb)
                 (iter_keys ord (pb_openOrders pb)) pb;
         pb2 = range_map pb_openPositions
                 (\<lambda>symbol pos pb.
                   closePositionInternalWithOrder ord now pos (emergency_price symbol pos pb) None pb)
                 (iter_keys ord (pb_openPositions pb1)) pb1
     in emit (AlertEmergencyClose closedCount cancelledCount) pb2)"

section \<open>Price updates\<close>

definition updatePositionPnL :: "position \<Rightarrow> f64 \<Rightarrow> position" where
  "updatePositionPnL pos price =
    pos\<lparr>p_UnrealizedPnL :=
      (if p_Side pos = SideLong then (price - p_EntryPrice pos) * p_Size pos
       else (p_EntryPrice pos - price) * p_Size pos)\<rparr>"

definition refreshed_position :: "paper_broker \<Rightarrow> position \<Rightarrow> position" where
  "refreshed_position pb pos =
    (case map_of (pb_prices pb) (p_Symbol pos) of
       None \<Rightarrow> pos | Some price \<Rightarrow> updatePositionPnL pos price)"

text \<open>One iteration: refresh the position in place and add its profit to the running total.\<close>

definition refresh_one :: "position \<Rightarrow> paper_broker \<times> f64 \<Rightarrow> paper_broker \<times> f64" where
  "refresh_one pos s =
    (let pos' = refreshed_position (fst s) pos
     in (put_position pos' (fst s), snd s + p_UnrealizedPnL pos'))"

definition updateUnrealizedPnLLocked :: "string list \<Rightarrow> paper_broker \<Rightarrow> paper_broker" where
  "updateUnrealizedPnLLocked ord pb =
    (let s = range_map (\<lambda>s. pb_openPositions (fst s)) (\<lambda>symbol. refresh_one)
               (iter_keys ord (pb_openPositions pb)) (pb, Fin 0)
     in (fst s)\<lparr>pb_unrealizedPnL := snd s\<rparr>)"

definition shouldTriggerSL :: "broker_order \<Rightarrow> f64 \<Rightarrow> paper_broker \<Rightarrow> bool" where
  "shouldTriggerSL order price pb =
    (case o_StopPrice order of
       None \<Rightarrow> False
     | Some stop \<Rightarrow>
         (case map_of (pb_openPositions pb) (o_Symbol order) of
            None \<Rightarrow> False
          | Some pos \<Rightarrow> if p_Side pos = SideLong then price \<le> stop else stop \<le> price))"

definition shouldTriggerTP :: "broker_order \<Rightarrow> f64 \<Rightarrow> paper_broker \<Rightarrow> bool" where
  "shouldTriggerTP order price pb =
    (case o_StopPrice order of
       None \<Rightarrow> False
     | Some stop \<Rightarrow>
         (case map_of (pb_openPositions pb) (o_Symbol order) of
            None \<Rightarrow> False
          | Some pos \<Rightarrow> if p_Side pos = SideLong then stop \<le> price else price \<le> stop))"

definition triggerProtectiveOrder ::
  "string list \<Rightarrow> time \<Rightarrow> broker_order \<Rightarrow> f64 \<Rightarrow> paper_broker \<Rightarrow> paper_broker" where
  "triggerProtectiveOrder ord now order triggerPrice pb =
    (case map_of (pb_openPositions pb) (o_Symbol order) of
       None \<Rightarrow> pb
     | Some pos \<Rightarrow>
         emit (UpdateOrder (order\<lparr>o_Status := OrderStatusFilled, o_UpdatedAt := now\<rparr>))
           (closePositionInternalWithOrder ord now pos triggerPrice (Some order) pb))"

definition should_trigger :: "broker_order \<Rightarrow> f64 \<Rightarrow> paper_broker \<Rightarrow> bool" where
  "should_trigger order price pb \<longleftrightarrow>
    o_OrderType order = OrderTypeStopMarket \<and> shouldTriggerSL order price pb \<or>
    o_OrderType order = OrderTypeTakeProfitMarket \<and> shouldTriggerTP order price pb"

definition checkProtectiveOrders ::
  "string list \<Rightarrow> string \<Rightarrow> f64 \<Rightarrow> time \<Rightarrow> paper_broker \<Rightarrow> paper_broker" where
  "checkProtectiveOrders ord symbol price now pb =
    range_map pb_openOrders
      (\<lambda>id order pb.
        if o_Symbol order = symbol \<and> should_trigger order price pb
        then del_order id (triggerProtectiveOrder ord now order price pb)
        else pb)
      (iter_keys ord (pb_openOrders pb)) pb"

definition UpdatePrice ::
  "string list \<Rightarrow> time \<Rightarrow> string \<Rightarrow> f64 \<Rightarrow> paper_broker \<Rightarrow> paper_broker" where
  "UpdatePrice ord now symbol price pb =
    checkProtectiveOrders ord symbol price now
      (updateUnrealizedPnLLocked ord (SetSymbolPrice symbol price pb))"

section \<open>Candles\<close>

definition candleCrossesPrice :: "candle \<Rightarrow> f64 \<Rightarrow> bool" where
  "candleCrossesPrice c price \<longleftrightarrow> c_Low c \<le> price \<and> price \<le> c_High c"

definition stop_crossed :: "candle \<Rightarrow> broker_order \<Rightarrow> bool" where
  "stop_crossed c order =
    (case o_StopPrice order of None \<Rightarrow> False | Some stop \<Rightarrow> candleCrossesPrice c stop)"

definition stop_of :: "broker_order \<Rightarrow> f64" where
  "stop_of order = (case o_StopPrice order of None \<Rightarrow> Fin 0 | Some stop \<Rightarrow> stop)"

text \<open>One pass over the resting orders of a type; the flag records that one was triggered.\<close>

definition candle_step ::
  "string list \<Rightarrow> order_type \<Rightarrow> string \<Rightarrow> candle \<Rightarrow> time \<Rightarrow> string \<Rightarrow> broker_order
   \<Rightarrow> paper_broker \<times> bool \<Rightarrow> paper_broker \<times> bool" where
  "candle_step ord typ symbol c now k order s =
    (if o_Symbol order = symbol \<and> o_OrderType order = typ \<and> stop_crossed c order
     then (del_order k (triggerProtectiveOrder ord now order (stop_of order) (fst s)), True)
     else s)"

definition candle_pass ::
  "string list \<Rightarrow> order_type \<Rightarrow> string \<Rightarrow> candle \<Rightarrow> time \<Rightarrow> paper_broker \<Rightarrow> paper_broker \<times> bool" where
  "candle_pass ord typ symbol c now pb =
    range_map (\<lambda>s. pb_openOrders (fst s)) (candle_step ord typ symbol c now)
      (iter_keys ord (pb_openOrders pb)) (pb, False)"

definition checkProtectiveOrdersCandle ::
  "string list \<Rightarrow> string \<Rightarrow> candle \<Rightarrow> time \<Rightarrow> paper_broker \<Rightarrow> paper_broker" where
  "checkProtectiveOrdersCandle ord symbol c now pb =
    (let (pb1, slTriggered) = candle_pass ord OrderTypeStopMarket symbol c now pb
     in if slTriggered then pb1
        else fst (candle_pass ord OrderTypeTakeProfitMarket symbol c now pb1))"

definition wouldLimitFill :: "broker_order \<Rightarrow> candle \<Rightarrow> bool" where
  "wouldLimitFill order c =
    (case o_Price order of
       None \<Rightarrow> False
     | Some price \<Rightarrow> if o_Side order = OrderSideBuy then c_Low c \<le> price else price \<le> c_High c)"

definition reject_limit :: "time \<Rightarrow> broker_order \<Rightarrow> paper_broker \<Rightarrow> paper_broker" where
  "reject_limit now order pb =
    emit (UpdateOrder (order\<lparr>o_Status := OrderStatusRejected, o_UpdatedAt := now\<rparr>)) pb"

text \<open>The part of a limit fill after the stop-loss and margin checks.\<close>

definition open_limit_position ::
  "string list \<Rightarrow> time \<Rightarrow> broker_order \<Rightarrow> f64 \<Rightarrow> f64 \<Rightarrow> f64 \<Rightarrow> paper_broker \<Rightarrow> paper_broker" where
  "open_limit_position ord now order fillPrice fee margin pb =
    (let pos = new_position now (pb_cfg pb) (pb_nextPositionID pb) (o_Symbol order) (o_Side order)
                 fillPrice (o_Qty order) margin;
         pb0 = (put_position pos pb)
                 \<lparr>pb_nextPositionID := pb_nextPositionID pb + 1,
                  pb_usedMargin := pb_usedMargin pb + margin,
                  pb_balance := pb_balance pb - fee,
                  pb_totalFees := pb_totalFees pb + fee\<rparr>
     in if Fin 0 < o_IntendedSL order \<or> Fin 0 < o_IntendedTP order then
          (let (pb1, pos1, ok) = createProtectiveOrdersForPosition ord now pos
                                   (o_IntendedSL order) (o_IntendedTP order) pb0
           in if \<not> ok then reject_limit now order pb1
              else
                let pos2 = pos1\<lparr>p_StopLoss := o_IntendedSL order, p_TakeProfit := o_IntendedTP order\<rparr>;
                    order' = order\<lparr>o_Status := OrderStatusFilled, o_UpdatedAt := now\<rparr>
                in persist_entry now (UpdateOrder order') order' pos2 fillPrice fee (Fin 0)
                     (put_position pos2 pb1))
        else
          reject_limit now order
            (closePositionInternalWithOrder ord now pos fillPrice None pb0))"

definition fillLimitOrder ::
  "string list \<Rightarrow> time \<Rightarrow> broker_order \<Rightarrow> paper_broker \<Rightarrow> paper_broker" where
  "fillLimitOrder ord now order pb =
    (case o_Price order of
       None \<Rightarrow> pb
     | Some fillPrice \<Rightarrow>
         if Fin 0 < o_IntendedSL order \<and>
            validateStopLoss (o_Side order) fillPrice (o_IntendedSL order) \<noteq> None
         then reject_limit now order pb
         else
           let cfg = pb_cfg pb;
               notional = fillPrice * o_Qty order;
               fee = notional * pc_FeeMakerBps cfg / Fin 10000;
               margin = notional / pc_DefaultLeverage cfg
           in if pb_balance pb - pb_usedMargin pb < margin + fee then reject_limit now order pb
              else open_limit_position ord now order fillPrice fee margin pb)"

definition limit_pass :: "string list \<Rightarrow> candle \<Rightarrow> time \<Rightarrow> paper_broker \<Rightarrow> paper_broker" where
  "limit_pass ord c now pb =
    range_map pb_openOrders
      (\<lambda>id order pb.
        if o_Symbol order = c_Symbol c \<and> o_OrderType order = OrderTypeLimit \<and> wouldLimitFill order c
        then del_order id (fillLimitOrder ord now order pb)
        else pb)
      (iter_keys ord (pb_openOrders pb)) pb"

definition ProcessCandle :: "string list \<Rightarrow> time \<Rightarrow> candle \<Rightarrow> paper_broker \<Rightarrow> paper_broker" where
  "ProcessCandle ord now c pb =
    checkProtectiveOrdersCandle ord (c_Symbol c) c now
      (limit_pass ord c now (SetSymbolPrice (c_Symbol c) (c_Close c) pb))"

section \<open>Replacing the protective orders\<close>

definition protective_request ::
  "string \<Rightarrow> position \<Rightarrow> order_type \<Rightarrow> f64 \<Rightarrow> order_request" where
  "protective_request symbol pos typ price =
    \<lparr> rq_Symbol = symbol, rq_Side = opposite_side pos, rq_OrderType = typ, rq_Qty = p_Size pos,
      rq_Price = None, rq_StopPrice = Some price, rq_ReduceOnly = False,
      rq_StopLoss = Fin 0, rq_TakeProfit = Fin 0 \<rparr>"

definition protective_levels_error :: "position \<Rightarrow> f64 \<Rightarrow> f64 \<Rightarrow> broker_error option" where
  "protective_levels_error pos slPrice tpPrice =
    (if p_Side pos = SideLong \<and> p_EntryPrice pos \<le> slPrice then Some LongSLNotBelowEntry
     else if p_Side pos = SideShort \<and> slPrice \<le> p_EntryPrice pos then Some ShortSLNotAboveEntry
     else if Fin 0 < tpPrice \<and> p_Side pos = SideLong \<and> tpPrice \<le> p_EntryPrice pos
       then Some LongTPNotAboveEntry
     else if Fin 0 < tpPrice \<and> p_Side pos = SideShort \<and> p_EntryPrice pos \<le> tpPrice
       then Some ShortTPNotBelowEntry
     else None)"

text \<open>The linking step: only if the position is still there with the same identifier.\<close>

definition link_protective ::
  "string \<Rightarrow> int \<Rightarrow> (position \<Rightarrow> position) \<Rightarrow> paper_broker \<Rightarrow> paper_broker" where
  "link_protective symbol posID f pb =
    (case map_of (pb_openPositions pb) symbol of
       None \<Rightarrow> pb
     | Some p \<Rightarrow>
         if p_ID p = posID then emit (UpdatePosition (f p)) (put_position (f p) pb) else pb)"

definition place_protective ::
  "string list \<Rightarrow> time \<Rightarrow> string \<Rightarrow> position \<Rightarrow> f64 \<Rightarrow> f64
   \<Rightarrow> paper_broker \<Rightarrow> paper_broker \<times> broker_error option" where
  "place_protective ord now symbol pos slPrice tpPrice pb1 =
    (let (pb2, slOrder, err) =
           PlaceOrder ord now (protective_request symbol pos OrderTypeStopMarket slPrice) pb1
     in case err of
          Some e \<Rightarrow> (pb2, Some (CreateSLOrder e))
        | None \<Rightarrow>
            if Fin 0 < tpPrice then
              let (pb3, tpOrder, err') = PlaceOrder ord now
                    (protective_request symbol pos OrderTypeTakeProfitMarket tpPrice) pb2
              in case err' of
                   Some e \<Rightarrow> (pb3, None)
                 | None \<Rightarrow>
                     (link_protective symbol (p_ID pos)
                        (\<lambda>p. p\<lparr>p_SLOrderID := Some (o_ID slOrder), p_TPOrderID := Some (o_ID tpOrder),
                               p_StopLoss := slPrice, p_TakeProfit := tpPrice\<rparr>) pb3, None)
            else
              (link_protective symbol (p_ID pos)
                 (\<lambda>p. p\<lparr>p_SLOrderID := Some (o_ID slOrder), p_StopLoss := slPrice\<rparr>) pb2, None))"

definition SetProtectiveOrders ::
  "string list \<Rightarrow> time \<Rightarrow> string \<Rightarrow> f64 \<Rightarrow> f64 \<Rightarrow> paper_broker \<Rightarrow> paper_broker \<times> broker_error option" where
  "SetProtectiveOrders ord now symbol slPrice tpPrice pb =
    (if slPrice \<le> Fin 0 then (pb, Some StopLossNotPositive)
     else
       case map_of (pb_openPositions pb) symbol of
         None \<Rightarrow> (pb, Some (NoOpenPosition symbol))
       | Some pos \<Rightarrow>
           let pb1 = cancelSiblingOrders ord now pos pb
           in case protective_levels_error pos slPrice tpPrice of
                Some e \<Rightarrow> (pb1, Some e)
              | None \<Rightarrow> place_protective ord now symbol pos slPrice tpPrice pb1)"

end
