(* ===== verification/BrokerInv.thy ===== *)
theory BrokerInv
  imports Broker
begin

text \<open>
  What the paper broker guarantees: how each internal step acts on the maps and the account, the
  well-formedness of its state, and the protection invariant (every open position has a pending
  stop-loss order on the right side of its entry price).
\<close>

named_theorems pb_simps \<open>effect of the internal steps of the broker on its fields\<close>

section \<open>Effect on the fields\<close>

lemma emit_sel [simp]:
  "pb_cfg (emit e pb) = pb_cfg pb" "pb_balance (emit e pb) = pb_balance pb"
  "pb_usedMargin (emit e pb) = pb_usedMargin pb" "pb_realizedPnL (emit e pb) = pb_realizedPnL pb"
  "pb_unrealizedPnL (emit e pb) = pb_unrealizedPnL pb" "pb_totalFees (emit e pb) = pb_totalFees pb"
  "pb_dailyLoss (emit e pb) = pb_dailyLoss pb"
  "pb_openPositions (emit e pb) = pb_openPositions pb" "pb_openOrders (emit e pb) = pb_openOrders pb"
  "pb_closedPositions (emit e pb) = pb_closedPositions pb"
  "pb_nextOrderID (emit e pb) = pb_nextOrderID pb"
  "pb_nextPositionID (emit e pb) = pb_nextPositionID pb"
  "pb_nextExecID (emit e pb) = pb_nextExecID pb" "pb_prices (emit e pb) = pb_prices pb"
  "pb_halted (emit e pb) = pb_halted pb" "pb_haltReason (emit e pb) = pb_haltReason pb"
  "pb_log (emit e pb) = pb_log pb @ [e]"
  by (simp_all add: emit_def)

lemma put_del_sel [simp]:
  "pb_openOrders (put_order o' pb) = AList.update (o_BrokerOrderID o') o' (pb_openOrders pb)"
  "pb_openPositions (put_order o' pb) = pb_openPositions pb"
  "pb_nextOrderID (put_order o' pb) = pb_nextOrderID pb"
  "pb_nextPositionID (put_order o' pb) = pb_nextPositionID pb"
  "pb_closedPositions (put_order o' pb) = pb_closedPositions pb"
  "pb_halted (put_order o' pb) = pb_halted pb" "pb_haltReason (put_order o' pb) = pb_haltReason pb"
  "pb_dailyLoss (put_order o' pb) = pb_dailyLoss pb" "pb_prices (put_order o' pb) = pb_prices pb"
  "pb_cfg (put_order o' pb) = pb_cfg pb" "pb_log (put_order o' pb) = pb_log pb"
  "pb_nextExecID (put_order o' pb) = pb_nextExecID pb"
  "pb_openOrders (del_order k pb) = AList.delete k (pb_openOrders pb)"
  "pb_openPositions (del_order k pb) = pb_openPositions pb"
  "pb_nextOrderID (del_order k pb) = pb_nextOrderID pb"
  "pb_nextPositionID (del_order k pb) = pb_nextPositionID pb"
  "pb_closedPositions (del_order k pb) = pb_closedPositions pb"
  "pb_halted (del_order k pb) = pb_halted pb" "pb_haltReason (del_order k pb) = pb_haltReason pb"
  "pb_dailyLoss (del_order k pb) = pb_dailyLoss pb" "pb_prices (del_order k pb) = pb_prices pb"
  "pb_cfg (del_order k pb) = pb_cfg pb" "pb_log (del_order k pb) = pb_log pb"
  "pb_nextExecID (del_order k pb) = pb_nextExecID pb"
  "pb_openPositions (put_position p pb) = AList.update (p_Symbol p) p (pb_openPositions pb)"
  "pb_openOrders (put_position p pb) = pb_openOrders pb"
  "pb_nextOrderID (put_position p pb) = pb_nextOrderID pb"
  "pb_nextPositionID (put_position p pb) = pb_nextPositionID pb"
  "pb_closedPositions (put_position p pb) = pb_closedPositions pb"
  "pb_halted (put_position p pb) = pb_halted pb"
  "pb_haltReason (put_position p pb) = pb_haltReason pb"
  "pb_dailyLoss (put_position p pb) = pb_dailyLoss pb" "pb_prices (put_position p pb) = pb_prices pb"
  "pb_cfg (put_position p pb) = pb_cfg pb" "pb_log (put_position p pb) = pb_log pb"
  "pb_nextExecID (put_position p pb) = pb_nextExecID pb"
  by (simp_all add: put_order_def del_order_def put_position_def)

text \<open>The state without its resting orders and its log, which cancelling does not touch.\<close>

definition pb_core :: "paper_broker \<Rightarrow> paper_broker" where
  "pb_core pb = pb\<lparr>pb_openOrders := [], pb_log := []\<rparr>"

lemma pb_core_cancel: "pb_core (cancelSiblingOrders ord now pos pb) = pb_core pb"
  unfolding cancelSiblingOrders_def
  by (rule range_map_inv) (simp_all add: pb_core_def emit_def del_order_def)

lemma cancel_sel [simp]:
  "pb_cfg (cancelSiblingOrders ord now pos pb) = pb_cfg pb"
  "pb_balance (cancelSiblingOrders ord now pos pb) = pb_balance pb"
  "pb_usedMargin (cancelSiblingOrders ord now pos pb) = pb_usedMargin pb"
  "pb_dailyLoss (cancelSiblingOrders ord now pos pb) = pb_dailyLoss pb"
  "pb_openPositions (cancelSiblingOrders ord now pos pb) = pb_openPositions pb"
  "pb_closedPositions (cancelSiblingOrders ord now pos pb) = pb_closedPositions pb"
  "pb_nextOrderID (cancelSiblingOrders ord now pos pb) = pb_nextOrderID pb"
  "pb_nextPositionID (cancelSiblingOrders ord now pos pb) = pb_nextPositionID pb"
  "pb_nextExecID (cancelSiblingOrders ord now pos pb) = pb_nextExecID pb"
  "pb_prices (cancelSiblingOrders ord now pos pb) = pb_prices pb"
  "pb_halted (cancelSiblingOrders ord now pos pb) = pb_halted pb"
  "pb_haltReason (cancelSiblingOrders ord now pos pb) = pb_haltReason pb"
  "pb_unrealizedPnL (cancelSiblingOrders ord now pos pb) = pb_unrealizedPnL pb"
  "pb_realizedPnL (cancelSiblingOrders ord now pos pb) = pb_realizedPnL pb"
  using pb_core_cancel [of ord now pos pb]
  by (cases "cancelSiblingOrders ord now pos pb"; cases pb; simp add: pb_core_def)+

text \<open>Deleting the entries that satisfy a test, in whatever order they are visited.\<close>

lemma range_map_delete:
  "map_of (pb_openOrders
     (range_map pb_openOrders (\<lambda>id v s. if P v then del_order id (emit (g v) s) else s) ks s)) k =
   (if k \<in> set ks then
      (case map_of (pb_openOrders s) k of
         None \<Rightarrow> None | Some v \<Rightarrow> if P v then None else Some v)
    else map_of (pb_openOrders s) k)"
  by (induction ks arbitrary: s) (auto split: option.split)

lemma in_iter_keys: "k \<in> set (iter_keys ord m) \<longleftrightarrow> map_of m k \<noteq> None"
  by (simp add: map_of_eq_None_iff)

lemma orders_cancel [simp]:
  "map_of (pb_openOrders (cancelSiblingOrders ord now pos pb)) k =
   (case map_of (pb_openOrders pb) k of
      None \<Rightarrow> None | Some v \<Rightarrow> if is_sibling pos v then None else Some v)"
  unfolding cancelSiblingOrders_def range_map_delete in_iter_keys
  by (auto split: option.split)

lemma settle_sel [simp]:
  "pb_cfg (settle_close now pos x pb) = pb_cfg pb"
  "pb_dailyLoss (settle_close now pos x pb) =
     add_daily_loss (exit_pnl (pb_cfg pb) pos x) (pb_dailyLoss pb)"
  "pb_openPositions (settle_close now pos x pb) = AList.delete (p_Symbol pos) (pb_openPositions pb)"
  "pb_openOrders (settle_close now pos x pb) = pb_openOrders pb"
  "pb_closedPositions (settle_close now pos x pb) =
     pb_closedPositions pb @ [closed_position now (exit_pnl (pb_cfg pb) pos x) pos]"
  "pb_nextOrderID (settle_close now pos x pb) = pb_nextOrderID pb"
  "pb_nextPositionID (settle_close now pos x pb) = pb_nextPositionID pb"
  "pb_nextExecID (settle_close now pos x pb) = pb_nextExecID pb"
  "pb_prices (settle_close now pos x pb) = pb_prices pb"
  "pb_halted (settle_close now pos x pb) = pb_halted pb"
  "pb_haltReason (settle_close now pos x pb) = pb_haltReason pb"
  "pb_balance (settle_close now pos x pb) = pb_balance pb + exit_pnl (pb_cfg pb) pos x"
  "pb_realizedPnL (settle_close now pos x pb) = pb_realizedPnL pb + exit_pnl (pb_cfg pb) pos x"
  "pb_usedMargin (settle_close now pos x pb) = pb_usedMargin pb - p_Margin pos"
  "pb_unrealizedPnL (settle_close now pos x pb) = pb_unrealizedPnL pb"
  by (simp_all add: settle_close_def Let_def)

lemma close_sel [simp]:
  "pb_cfg (closePositionInternalWithOrder ord now pos x co pb) = pb_cfg pb"
  "pb_dailyLoss (closePositionInternalWithOrder ord now pos x co pb) =
     add_daily_loss (exit_pnl (pb_cfg pb) pos x) (pb_dailyLoss pb)"
  "pb_openPositions (closePositionInternalWithOrder ord now pos x co pb) =
     AList.delete (p_Symbol pos) (pb_openPositions pb)"
  "pb_closedPositions (closePositionInternalWithOrder ord now pos x co pb) =
     pb_closedPositions pb @ [closed_position now (exit_pnl (pb_cfg pb) pos x) pos]"
  "pb_nextOrderID (closePositionInternalWithOrder ord now pos x co pb) =
     pb_nextOrderID pb + (if co = None then 1 else 0)"
  "pb_nextPositionID (closePositionInternalWithOrder ord now pos x co pb) = pb_nextPositionID pb"
  "pb_nextExecID (closePositionInternalWithOrder ord now pos x co pb) = pb_nextExecID pb + 1"
  "pb_prices (closePositionInternalWithOrder ord now pos x co pb) = pb_prices pb"
  "pb_halted (closePositionInternalWithOrder ord now pos x co pb) = pb_halted pb"
  "pb_haltReason (closePositionInternalWithOrder ord now pos x co pb) = pb_haltReason pb"
  "pb_unrealizedPnL (closePositionInternalWithOrder ord now pos x co pb) = pb_unrealizedPnL pb"
  "pb_openOrders (closePositionInternalWithOrder ord now pos x co pb) =
     pb_openOrders (cancelSiblingOrders ord now pos pb)"
  "pb_balance (closePositionInternalWithOrder ord now pos x co pb) =
     pb_balance pb + exit_pnl (pb_cfg pb) pos x"
  "pb_realizedPnL (closePositionInternalWithOrder ord now pos x co pb) =
     pb_realizedPnL pb + exit_pnl (pb_cfg pb) pos x"
  by (cases co;
      simp add: closePositionInternalWithOrder_def closing_order_id_def Let_def emit_def)+

section \<open>Well-formed states\<close>

lemma paper_key_inj: "0 \<le> i \<Longrightarrow> 0 \<le> j \<Longrightarrow> paper_key i = paper_key j \<longleftrightarrow> i = j"
  by (simp add: paper_key_def show_int_inj_nonneg)

text \<open>A resting order sits under its own key, below the next identifier; a resting limit order
  carries a stop-loss.\<close>

definition order_wf :: "int \<Rightarrow> string \<Rightarrow> broker_order \<Rightarrow> bool" where
  "order_wf n k order \<longleftrightarrow>
    k = paper_key (o_ID order) \<and> o_BrokerOrderID order = k \<and> 1 \<le> o_ID order \<and> o_ID order < n \<and>
    (o_OrderType order = OrderTypeLimit \<longrightarrow> Fin 0 < o_IntendedSL order \<and> o_Symbol order \<noteq> '''')"

definition orders_wf :: "paper_broker \<Rightarrow> bool" where
  "orders_wf pb \<longleftrightarrow> 1 \<le> pb_nextOrderID pb \<and>
    (\<forall>k order. map_of (pb_openOrders pb) k = Some order \<longrightarrow> order_wf (pb_nextOrderID pb) k order)"

definition position_wf :: "int \<Rightarrow> string \<Rightarrow> position \<Rightarrow> bool" where
  "position_wf n s p \<longleftrightarrow>
    p_Symbol p = s \<and> s \<noteq> '''' \<and> p_Side p \<in> {SideLong, SideShort} \<and> p_ID p < n"

definition positions_wf :: "paper_broker \<Rightarrow> bool" where
  "positions_wf pb \<longleftrightarrow>
    (\<forall>s p. map_of (pb_openPositions pb) s = Some p \<longrightarrow> position_wf (pb_nextPositionID pb) s p)"

lemma order_wf_mono: "order_wf n k order \<Longrightarrow> n \<le> m \<Longrightarrow> order_wf m k order"
  by (auto simp: order_wf_def)

lemma position_wf_mono: "position_wf n s p \<Longrightarrow> n \<le> m \<Longrightarrow> position_wf m s p"
  by (auto simp: position_wf_def)

text \<open>A pending stop order of the position's own, on the closing side, at a positive price that is
  not on the wrong side of the entry price.\<close>

definition stop_for :: "position \<Rightarrow> broker_order \<Rightarrow> bool" where
  "stop_for p order \<longleftrightarrow>
    o_Symbol order = p_Symbol p \<and> o_OrderType order = OrderTypeStopMarket \<and>
    o_Status order = OrderStatusPending \<and> o_Side order = opposite_side p \<and>
    (\<exists>stop. o_StopPrice order = Some stop \<and> Fin 0 < stop \<and> \<not> invalid_SL_side p stop)"

definition protected :: "paper_broker \<Rightarrow> position \<Rightarrow> bool" where
  "protected pb p \<longleftrightarrow>
    (\<exists>i order. p_SLOrderID p = Some i \<and> map_of (pb_openOrders pb) (paper_key i) = Some order \<and>
               o_ID order = i \<and> stop_for p order)"

text \<open>The invariant, except for the positions of the symbols in \<open>S\<close> being set up.\<close>

definition brk_inv :: "string set \<Rightarrow> paper_broker \<Rightarrow> bool" where
  "brk_inv S pb \<longleftrightarrow> orders_wf pb \<and> positions_wf pb \<and>
    (\<forall>s p. map_of (pb_openPositions pb) s = Some p \<longrightarrow> s \<notin> S \<longrightarrow> protected pb p)"

lemma brk_invI:
  assumes "orders_wf pb" and "positions_wf pb"
    and "\<And>s p. map_of (pb_openPositions pb) s = Some p \<Longrightarrow> s \<notin> S \<Longrightarrow> protected pb p"
  shows "brk_inv S pb"
  using assms by (simp add: brk_inv_def)

lemma brk_invD:
  assumes "brk_inv S pb"
  shows "orders_wf pb" and "positions_wf pb"
    and "map_of (pb_openPositions pb) s = Some p \<Longrightarrow> s \<notin> S \<Longrightarrow> protected pb p"
  using assms by (simp_all add: brk_inv_def)

lemma positions_wfD:
  "positions_wf pb \<Longrightarrow> map_of (pb_openPositions pb) s = Some p \<Longrightarrow> p_Symbol p = s"
  by (simp add: positions_wf_def position_wf_def)

lemma orders_wfD:
  "orders_wf pb \<Longrightarrow> map_of (pb_openOrders pb) k = Some order \<Longrightarrow> order_wf (pb_nextOrderID pb) k order"
  by (simp add: orders_wf_def)

text \<open>Steps that leave both maps and the counters alone keep the invariant.\<close>

lemma brk_inv_cong:
  assumes "pb_openOrders pb' = pb_openOrders pb" "pb_openPositions pb' = pb_openPositions pb"
    "pb_nextOrderID pb' = pb_nextOrderID pb" "pb_nextPositionID pb' = pb_nextPositionID pb"
  shows "brk_inv S pb' \<longleftrightarrow> brk_inv S pb"
  by (simp add: brk_inv_def orders_wf_def positions_wf_def protected_def assms)

lemma brk_inv_emit [simp]: "brk_inv S (emit e pb) \<longleftrightarrow> brk_inv S pb"
  by (rule brk_inv_cong) simp_all

lemma brk_inv_account [simp]:
  "brk_inv S (pb\<lparr>pb_balance := x\<rparr>) \<longleftrightarrow> brk_inv S pb"
  "brk_inv S (pb\<lparr>pb_usedMargin := x\<rparr>) \<longleftrightarrow> brk_inv S pb"
  "brk_inv S (pb\<lparr>pb_realizedPnL := x\<rparr>) \<longleftrightarrow> brk_inv S pb"
  "brk_inv S (pb\<lparr>pb_unrealizedPnL := x\<rparr>) \<longleftrightarrow> brk_inv S pb"
  "brk_inv S (pb\<lparr>pb_totalFees := x\<rparr>) \<longleftrightarrow> brk_inv S pb"
  "brk_inv S (pb\<lparr>pb_totalSlippage := x\<rparr>) \<longleftrightarrow> brk_inv S pb"
  "brk_inv S (pb\<lparr>pb_dailyLoss := x\<rparr>) \<longleftrightarrow> brk_inv S pb"
  "brk_inv S (pb\<lparr>pb_prices := m\<rparr>) \<longleftrightarrow> brk_inv S pb"
  "brk_inv S (pb\<lparr>pb_halted := h\<rparr>) \<longleftrightarrow> brk_inv S pb"
  "brk_inv S (pb\<lparr>pb_haltReason := r\<rparr>) \<longleftrightarrow> brk_inv S pb"
  by (rule brk_inv_cong; simp)+

section \<open>Internal steps keep the invariant\<close>

lemma brk_inv_mono: "brk_inv S pb \<Longrightarrow> S \<subseteq> T \<Longrightarrow> brk_inv T pb"
  by (auto simp: brk_inv_def)

text \<open>Orders may disappear as long as no protected position loses its stop.\<close>

lemma brk_inv_delete_orders:
  assumes inv: "brk_inv S pb"
    and sub: "\<And>k order. map_of (pb_openOrders pb') k = Some order \<Longrightarrow>
                map_of (pb_openOrders pb) k = Some order"
    and keep: "\<And>k order s p. map_of (pb_openOrders pb) k = Some order \<Longrightarrow>
                map_of (pb_openPositions pb') s = Some p \<Longrightarrow> s \<notin> T \<Longrightarrow> stop_for p order \<Longrightarrow>
                map_of (pb_openOrders pb') k = Some order"
    and pos: "\<And>s p. map_of (pb_openPositions pb') s = Some p \<Longrightarrow>
                map_of (pb_openPositions pb) s = Some p \<and> (s \<notin> T \<longrightarrow> s \<notin> S)"
    and n: "pb_nextOrderID pb \<le> pb_nextOrderID pb'" "pb_nextPositionID pb' = pb_nextPositionID pb"
  shows "brk_inv T pb'"
proof (rule brk_invI)
  show "orders_wf pb'"
    using brk_invD(1) [OF inv] sub n unfolding orders_wf_def by (auto intro: order_wf_mono [where n = "pb_nextOrderID pb"])
  show "positions_wf pb'"
    using brk_invD(2) [OF inv] pos n unfolding positions_wf_def by metis
  show "protected pb' p" if "map_of (pb_openPositions pb') s = Some p" "s \<notin> T" for s p
  proof -
    have "protected pb p" using brk_invD(3) [OF inv] pos that by blast
    then show ?thesis unfolding protected_def using keep [OF _ that] by blast
  qed
qed

lemma brk_inv_close:
  assumes inv: "brk_inv S pb" and p: "map_of (pb_openPositions pb) (p_Symbol pos) = Some p"
    and S: "S \<subseteq> {p_Symbol pos}"
  shows "brk_inv {} (closePositionInternalWithOrder ord now pos x co pb)"
proof (rule brk_inv_delete_orders [OF inv])
  let ?pb = "closePositionInternalWithOrder ord now pos x co pb"
  show "map_of (pb_openOrders pb) k = Some order"
    if "map_of (pb_openOrders ?pb) k = Some order" for k order
    using that by (auto split: option.splits if_splits)
  show "map_of (pb_openOrders ?pb) k = Some order"
    if k: "map_of (pb_openOrders pb) k = Some order" and s: "map_of (pb_openPositions ?pb) s = Some q"
      and "stop_for q order" for k order s q
  proof -
    have "s \<noteq> p_Symbol pos" "map_of (pb_openPositions pb) s = Some q"
      using s by (auto split: if_splits)
    then have "o_Symbol order \<noteq> p_Symbol pos"
      using \<open>stop_for q order\<close> positions_wfD [OF brk_invD(2) [OF inv]] by (simp add: stop_for_def)
    then show ?thesis using k by (simp add: is_sibling_def)
  qed
qed (use S in \<open>auto split: if_splits\<close>)

lemma orders_close_sub:
  "map_of (pb_openOrders (closePositionInternalWithOrder ord now pos x co pb)) k = Some order \<Longrightarrow>
   map_of (pb_openOrders pb) k = Some order"
  by (auto split: option.splits if_splits)

text \<open>Adding an order under a fresh key.\<close>

lemma brk_inv_put_order:
  assumes inv: "brk_inv S pb" and wf: "order_wf (pb_nextOrderID pb + 1) (o_BrokerOrderID order) order"
    and id: "o_ID order = pb_nextOrderID pb"
  shows "brk_inv S (put_order order (pb\<lparr>pb_nextOrderID := pb_nextOrderID pb + 1\<rparr>))"
proof (rule brk_invI)
  let ?pb = "put_order order (pb\<lparr>pb_nextOrderID := pb_nextOrderID pb + 1\<rparr>)"
  have o: "orders_wf pb" by (rule brk_invD(1) [OF inv])
  show "orders_wf ?pb"
    using o wf unfolding orders_wf_def by (auto intro: order_wf_mono [where n = "pb_nextOrderID pb"])
  show "positions_wf ?pb" using brk_invD(2) [OF inv] by (simp add: positions_wf_def)
  show "protected ?pb p" if "map_of (pb_openPositions ?pb) s = Some p" "s \<notin> S" for s p
  proof -
    have "protected pb p" using that brk_invD(3) [OF inv] by simp
    then obtain i order' where i: "p_SLOrderID p = Some i" "o_ID order' = i" "stop_for p order'"
      and m: "map_of (pb_openOrders pb) (paper_key i) = Some order'" by (auto simp: protected_def)
    have "1 \<le> i" "i < pb_nextOrderID pb" using orders_wfD [OF o m] i(2) by (auto simp: order_wf_def)
    then have "paper_key i \<noteq> o_BrokerOrderID order"
      using wf id by (auto simp: order_wf_def paper_key_inj)
    then show ?thesis unfolding protected_def using i m by (intro exI [of _ i] exI [of _ order']) simp
  qed
qed

text \<open>Rewriting a position without touching what its protection depends on.\<close>

lemma protected_cong:
  assumes "p_SLOrderID q = p_SLOrderID p" "p_Symbol q = p_Symbol p" "p_Side q = p_Side p"
    "p_EntryPrice q = p_EntryPrice p"
  shows "protected pb q \<longleftrightarrow> protected pb p"
  by (simp add: protected_def stop_for_def opposite_side_def invalid_SL_side_def assms)

lemma brk_inv_put_position:
  assumes inv: "brk_inv S pb" and p: "map_of (pb_openPositions pb) (p_Symbol q) = Some p"
    and "p_ID q = p_ID p" "p_Side q = p_Side p"
    and q: "p_Symbol q \<notin> T \<Longrightarrow> protected pb q" and ST: "S - {p_Symbol q} \<subseteq> T"
  shows "brk_inv T (put_position q pb)"
proof (rule brk_invI)
  show "orders_wf (put_position q pb)" using brk_invD(1) [OF inv] by (simp add: orders_wf_def)
  show "positions_wf (put_position q pb)"
    using brk_invD(2) [OF inv] assms(3,4) p by (auto simp: positions_wf_def position_wf_def)
  show "protected (put_position q pb) r"
    if "map_of (pb_openPositions (put_position q pb)) s = Some r" "s \<notin> T" for s r
  proof -
    have "protected pb r" using that q brk_invD(3) [OF inv, of s r] ST by (auto split: if_splits)
    then show ?thesis by (simp add: protected_def)
  qed
qed

text \<open>A new position, not yet protected.\<close>

lemma brk_inv_register:
  assumes inv: "brk_inv S pb" and "p_Symbol pos \<noteq> ''''" "p_Side pos \<in> {SideLong, SideShort}"
    and "p_ID pos = pb_nextPositionID pb" and "S \<subseteq> {p_Symbol pos}"
    and pb': "pb_openOrders pb' = pb_openOrders pb" "pb_nextOrderID pb' = pb_nextOrderID pb"
      "pb_openPositions pb' = AList.update (p_Symbol pos) pos (pb_openPositions pb)"
      "pb_nextPositionID pb' = pb_nextPositionID pb + 1"
  shows "brk_inv {p_Symbol pos} pb'"
proof (rule brk_invI)
  show "orders_wf pb'" using brk_invD(1) [OF inv] by (simp add: orders_wf_def pb')
  show "positions_wf pb'"
    using brk_invD(2) [OF inv] assms(2-4) unfolding positions_wf_def pb'
    by (auto intro: position_wf_mono [where n = "pb_nextPositionID pb"] simp: position_wf_def [of _ "p_Symbol pos"])
  show "protected pb' r" if "map_of (pb_openPositions pb') s = Some r" "s \<notin> {p_Symbol pos}" for s r
  proof -
    have "protected pb r" using that brk_invD(3) [OF inv, of s r] assms(5) by (auto simp: pb')
    then show ?thesis by (simp add: protected_def pb')
  qed
qed

section \<open>Opening a position\<close>

text \<open>The fields of a position that attaching orders and levels to it leaves alone.\<close>

definition same_position :: "position \<Rightarrow> position \<Rightarrow> bool" where
  "same_position q p \<longleftrightarrow>
    p_ID q = p_ID p \<and> p_Symbol q = p_Symbol p \<and> p_Side q = p_Side p \<and>
    p_EntryPrice q = p_EntryPrice p \<and> p_Size q = p_Size p \<and> p_Margin q = p_Margin p"

lemma protective_order_wf:
  "1 \<le> n \<Longrightarrow> t \<noteq> OrderTypeLimit \<Longrightarrow>
   order_wf (n + 1) (o_BrokerOrderID (protective_order now pos t x n)) (protective_order now pos t x n)"
  by (simp add: order_wf_def protective_order_def)

lemma stop_for_protective_order:
  "Fin 0 < x \<Longrightarrow> \<not> invalid_SL_side pos x \<Longrightarrow>
   stop_for pos (protective_order now pos OrderTypeStopMarket x n)"
  by (simp add: stop_for_def protective_order_def)

lemma stop_for_cong:
  "same_position q p \<Longrightarrow> stop_for q order \<longleftrightarrow> stop_for p order"
  by (simp add: stop_for_def same_position_def opposite_side_def invalid_SL_side_def)

lemma brk_inv_add_SL:
  assumes inv: "brk_inv S pb" and S: "S \<subseteq> {p_Symbol pos}"
    and p: "map_of (pb_openPositions pb) (p_Symbol pos) = Some pos"
    and sl: "Fin 0 < slPrice" "\<not> invalid_SL_side pos slPrice"
    and e: "add_SL now pos slPrice pb = (pb', pos')"
  shows "brk_inv {} pb'" and "map_of (pb_openPositions pb') (p_Symbol pos) = Some pos'"
    and "same_position pos' pos"
proof -
  let ?n = "pb_nextOrderID pb" and ?o = "protective_order now pos OrderTypeStopMarket slPrice (pb_nextOrderID pb)"
  let ?pb1 = "put_order ?o (pb\<lparr>pb_nextOrderID := ?n + 1\<rparr>)"
  have n: "1 \<le> ?n" using brk_invD(1) [OF inv] by (simp add: orders_wf_def)
  have pos': "pos' = pos\<lparr>p_SLOrderID := Some ?n\<rparr>" and pb': "pb' = put_position pos' ?pb1"
    using e sl by (auto simp: add_SL_def Let_def)
  have same: "same_position pos' pos" by (simp add: pos' same_position_def)
  show "same_position pos' pos" by (rule same)
  show "map_of (pb_openPositions pb') (p_Symbol pos) = Some pos'" by (simp add: pb' pos')
  have inv1: "brk_inv S ?pb1"
    by (rule brk_inv_put_order [OF inv protective_order_wf [OF n]]) (simp_all add: protective_order_def)
  have "protected ?pb1 pos'"
    unfolding protected_def
    using stop_for_protective_order [OF sl, of now ?n] stop_for_cong [OF same]
    by (intro exI [of _ ?n] exI [of _ ?o]) (simp add: pos' protective_order_def)
  then show "brk_inv {} pb'"
    unfolding pb' using S p
    by (intro brk_inv_put_position [OF inv1, of _ pos]) (simp_all add: pos')
qed

lemma brk_inv_add_TP:
  assumes inv: "brk_inv {} pb"
    and p: "map_of (pb_openPositions pb) (p_Symbol pos) = Some pos"
    and e: "add_TP now pos tpPrice pb = (pb', pos')"
  shows "brk_inv {} pb'" and "map_of (pb_openPositions pb') (p_Symbol pos) = Some pos'"
    and "same_position pos' pos" and "p_SLOrderID pos' = p_SLOrderID pos"
proof -
  let ?n = "pb_nextOrderID pb"
  let ?o = "protective_order now pos OrderTypeTakeProfitMarket tpPrice (pb_nextOrderID pb)"
  let ?pb1 = "put_order ?o (pb\<lparr>pb_nextOrderID := ?n + 1\<rparr>)"
  have n: "1 \<le> ?n" using brk_invD(1) [OF inv] by (simp add: orders_wf_def)
  have inv1: "brk_inv {} ?pb1"
    by (rule brk_inv_put_order [OF inv protective_order_wf [OF n]]) (simp_all add: protective_order_def)
  have prot: "protected ?pb1 pos" using brk_invD(3) [OF inv1] p by simp
  have "brk_inv {} (put_position (pos\<lparr>p_TPOrderID := Some ?n\<rparr>) ?pb1)"
    using prot p by (intro brk_inv_put_position [OF inv1, of _ pos])
      (simp_all add: protected_cong [of "pos\<lparr>p_TPOrderID := Some ?n\<rparr>" pos])
  with inv e show "brk_inv {} pb'" by (auto simp: add_TP_def Let_def split: if_splits)
  show "map_of (pb_openPositions pb') (p_Symbol pos) = Some pos'" "same_position pos' pos"
    "p_SLOrderID pos' = p_SLOrderID pos"
    using e p by (auto simp: add_TP_def Let_def same_position_def split: if_splits)
qed

lemma same_position_trans: "same_position r q \<Longrightarrow> same_position q p \<Longrightarrow> same_position r p"
  by (simp add: same_position_def)

lemma same_position_refl [simp]: "same_position p p"
  by (simp add: same_position_def)

lemma brk_inv_createProtective:
  assumes inv: "brk_inv {p_Symbol pos} pb"
    and p: "map_of (pb_openPositions pb) (p_Symbol pos) = Some pos"
    and sl: "Fin 0 < slPrice"
    and e: "createProtectiveOrdersForPosition ord now pos slPrice tpPrice pb = (pb', pos', ok)"
  shows "brk_inv {} pb'"
    and "ok \<Longrightarrow> map_of (pb_openPositions pb') (p_Symbol pos) = Some pos' \<and> same_position pos' pos"
    and "ok \<longleftrightarrow> \<not> invalid_SL_side pos slPrice"
proof -
  have sl': "\<not> slPrice \<le> Fin 0" using f64_less_asym [OF sl] by simp
  let ?tp = "if Fin 0 < tpPrice \<and> invalid_TP_side pos tpPrice then Fin 0 else tpPrice"
  have "brk_inv {} pb' \<and> (ok \<longleftrightarrow> \<not> invalid_SL_side pos slPrice) \<and>
    (ok \<longrightarrow> map_of (pb_openPositions pb') (p_Symbol pos) = Some pos' \<and> same_position pos' pos)"
  proof (cases "invalid_SL_side pos slPrice")
    case True
    then show ?thesis
      using e sl sl' brk_inv_close [OF inv p subset_refl]
      by (auto simp: createProtectiveOrdersForPosition_def)
  next
    case False
    obtain pb1 pos1 where 1: "add_SL now pos slPrice pb = (pb1, pos1)" by fastforce
    obtain pb2 pos2 where 2: "add_TP now pos1 ?tp pb1 = (pb2, pos2)" by fastforce
    note s = brk_inv_add_SL [OF inv subset_refl p sl False 1]
    have "p_Symbol pos1 = p_Symbol pos" using s(3) by (simp add: same_position_def)
    then have p1: "map_of (pb_openPositions pb1) (p_Symbol pos1) = Some pos1" using s(2) by simp
    note t = brk_inv_add_TP [OF s(1) p1 2]
    have "pb' = pb2" "pos' = pos2" "ok"
      using e False sl' 1 2 by (auto simp: createProtectiveOrdersForPosition_def)
    then show ?thesis
      using t s False \<open>p_Symbol pos1 = p_Symbol pos\<close> same_position_trans [OF t(3) s(3)] by simp
  qed
  then show "brk_inv {} pb'"
    and "ok \<Longrightarrow> map_of (pb_openPositions pb') (p_Symbol pos) = Some pos' \<and> same_position pos' pos"
    and "ok \<longleftrightarrow> \<not> invalid_SL_side pos slPrice" by simp_all
qed

text \<open>Writing the levels into a protected position.\<close>

lemma brk_inv_set_levels:
  assumes inv: "brk_inv {} pb" and p: "map_of (pb_openPositions pb) (p_Symbol pos) = Some pos"
  shows "brk_inv {} (put_position (pos\<lparr>p_StopLoss := a, p_TakeProfit := b\<rparr>) pb)"
  using brk_invD(3) [OF inv p] p
  by (intro brk_inv_put_position [OF inv, of _ pos])
    (simp_all add: protected_cong [of "pos\<lparr>p_StopLoss := a, p_TakeProfit := b\<rparr>" pos])

lemma brk_inv_persist_entry [simp]:
  "brk_inv S (persist_entry now ev order pos f fee sl pb) \<longleftrightarrow> brk_inv S pb"
  by (rule brk_inv_cong) (simp_all add: persist_entry_def emit_def)

lemma new_position_sel [simp]:
  "p_ID (new_position now cfg n symbol sd f q m) = n"
  "p_Symbol (new_position now cfg n symbol sd f q m) = symbol"
  "p_Side (new_position now cfg n symbol sd f q m) = sideFromOrderSide sd"
  "p_EntryPrice (new_position now cfg n symbol sd f q m) = f"
  "p_Size (new_position now cfg n symbol sd f q m) = q"
  "p_Margin (new_position now cfg n symbol sd f q m) = m"
  by (simp_all add: new_position_def)

lemma sideFromOrderSide_cases: "sideFromOrderSide sd \<in> {SideLong, SideShort}"
  by (simp add: sideFromOrderSide_def)

lemma brk_inv_open_market:
  assumes inv: "brk_inv S pb" and S: "S \<subseteq> {rq_Symbol req}" and sym: "rq_Symbol req \<noteq> ''''"
    and sl: "Fin 0 < rq_StopLoss req"
    and e: "open_market_position ord now req order f fee m slip pb = (pb', order', err)"
  shows "brk_inv {} pb'"
proof -
  define pos where "pos = new_position now (pb_cfg pb) (pb_nextPositionID pb) (rq_Symbol req)
      (rq_Side req) f (rq_Qty req) m"
  let ?pb1 = "register_position pos fee (slip * rq_Qty req) pb"
  have s: "p_Symbol pos = rq_Symbol req" by (simp add: pos_def)
  have reg: "brk_inv {p_Symbol pos} ?pb1"
    by (rule brk_inv_register [OF inv])
      (use S sym sideFromOrderSide_cases in \<open>simp_all add: register_position_def pos_def\<close>)
  have p: "map_of (pb_openPositions ?pb1) (p_Symbol pos) = Some pos"
    by (simp add: register_position_def)
  obtain pb2 pos2 ok where c: "createProtectiveOrdersForPosition ord now pos (rq_StopLoss req)
      (rq_TakeProfit req) ?pb1 = (pb2, pos2, ok)" by (metis prod_cases3)
  note r = brk_inv_createProtective [OF reg p sl c]
  have "brk_inv {} (put_position (pos2\<lparr>p_StopLoss := a, p_TakeProfit := b\<rparr>) pb2)" if ok for a b
    by (rule brk_inv_set_levels [OF r(1)]) (use r(2) [OF that] in \<open>simp add: same_position_def\<close>)
  with r(1) e sl c show ?thesis
    by (auto simp: open_market_position_def pos_def [symmetric] Let_def split: if_splits)
qed

lemma brk_inv_next [simp]:
  "brk_inv S pb \<Longrightarrow> brk_inv S (pb\<lparr>pb_nextOrderID := pb_nextOrderID pb + 1\<rparr>)"
  unfolding brk_inv_def orders_wf_def positions_wf_def protected_def
  by (auto intro: order_wf_mono [where n = "pb_nextOrderID pb"])

lemma brk_inv_reduce:
  assumes inv: "brk_inv {} pb" and p: "map_of (pb_openPositions pb) s = Some pos"
  shows "brk_inv {} (reducePosition ord now pos q f fee slip pb)"
proof -
  have s: "p_Symbol pos = s" by (rule positions_wfD [OF brk_invD(2) [OF inv] p])
  show ?thesis
  proof (cases "p_Size pos \<le> q")
    case True
    then show ?thesis using brk_inv_close [OF inv, of pos pos] p s by (simp add: reducePosition_def)
  next
    case False
    have "brk_inv {} (put_position (pos\<lparr>p_Size := a, p_Margin := b, p_RealizedPnL := c\<rparr>) pb)" for a b c
      using brk_invD(3) [OF inv p] p s
      by (intro brk_inv_put_position [OF inv, of _ pos])
        (simp_all add: protected_cong [of "pos\<lparr>p_Size := a, p_Margin := b, p_RealizedPnL := c\<rparr>" pos])
    then show ?thesis using False by (simp add: reducePosition_def Let_def)
  qed
qed

text \<open>What the safe use of \<open>PlaceOrder\<close> asks of an entry request: a stop-loss that is a number, and
  no reduce-only request except a market order on an open position.\<close>

definition safe_request :: "order_request \<Rightarrow> paper_broker \<Rightarrow> bool" where
  "safe_request req pb \<longleftrightarrow>
    (is_entry_type (rq_OrderType req) \<longrightarrow>
       (if rq_ReduceOnly req
        then rq_OrderType req = OrderTypeMarket \<and> map_of (pb_openPositions pb) (rq_Symbol req) \<noteq> None
        else rq_StopLoss req \<noteq> NaN))"

lemma not_NaN_pos: "x \<noteq> NaN \<Longrightarrow> \<not> x \<le> Fin 0 \<Longrightarrow> Fin 0 < x"
  using f64_not_le [of x "Fin 0"] by simp

lemma brk_inv_place_market:
  assumes inv: "brk_inv {} pb" and sym: "rq_Symbol req \<noteq> ''''"
    and r: "rq_ReduceOnly req \<Longrightarrow> map_of (pb_openPositions pb) (rq_Symbol req) \<noteq> None"
    and sl: "\<not> rq_ReduceOnly req \<Longrightarrow> Fin 0 < rq_StopLoss req"
    and e: "place_market ord now req order pb = (pb', order', err)"
  shows "brk_inv {} pb'"
proof -
  have c: "brk_inv {} (closePositionInternalWithOrder ord now pos f None pb)"
    if "map_of (pb_openPositions pb) (rq_Symbol req) = Some pos" for pos f
    using brk_inv_close [OF inv, of pos pos] that positions_wfD [OF brk_invD(2) [OF inv] that] by simp
  show ?thesis
    using e inv r sl brk_inv_reduce [OF inv]
      brk_inv_open_market [OF c _ sym sl] brk_inv_open_market [OF inv _ sym sl]
    by (auto simp: place_market_def Let_def split: option.splits if_splits)
qed

theorem brk_inv_PlaceOrder:
  assumes inv: "brk_inv {} pb" and safe: "safe_request req pb"
    and e: "PlaceOrder ord now req pb = (pb', order', err)"
  shows "brk_inv {} pb'"
proof (cases "place_guard req pb")
  case (Some a)
  then show ?thesis using e inv by (simp add: PlaceOrder_def)
next
  case None
  let ?n = "pb_nextOrderID pb"
  let ?o = "new_order now req ?n" and ?pb1 = "pb\<lparr>pb_nextOrderID := ?n + 1\<rparr>"
  have n: "1 \<le> ?n" using brk_invD(1) [OF inv] by (simp add: orders_wf_def)
  have g: "rq_Symbol req \<noteq> ''''"
    "is_entry_type (rq_OrderType req) \<Longrightarrow> \<not> rq_ReduceOnly req \<Longrightarrow> \<not> rq_StopLoss req \<le> Fin 0"
    using None by (auto simp: place_guard_def split: if_splits)
  have sl: "Fin 0 < rq_StopLoss req" if "is_entry_type (rq_OrderType req)" "\<not> rq_ReduceOnly req"
    using not_NaN_pos g(2) that safe by (auto simp: safe_request_def)
  have inv1: "brk_inv {} ?pb1" by (rule brk_inv_next [OF inv])
  have put: "brk_inv {} (put_order ?o ?pb1)"
    if "rq_OrderType req = OrderTypeLimit \<Longrightarrow> Fin 0 < rq_StopLoss req"
    by (rule brk_inv_put_order [OF inv]) (use n g that in \<open>simp_all add: order_wf_def new_order_def\<close>)
  show ?thesis
  proof (cases "rq_OrderType req")
    case OrderTypeMarket
    have "place_market ord now req ?o ?pb1 = (pb', order', err)"
      using e None OrderTypeMarket by (simp add: PlaceOrder_def Let_def)
    moreover have "is_entry_type (rq_OrderType req)"
      using OrderTypeMarket by (simp add: is_entry_type_def)
    ultimately show ?thesis
      using brk_inv_place_market [OF inv1 g(1), of ord now ?o pb' order' err] sl safe
      by (cases "rq_ReduceOnly req") (auto simp: safe_request_def)
  next
    case OrderTypeLimit
    then have "Fin 0 < rq_StopLoss req"
      using sl safe by (auto simp: safe_request_def is_entry_type_def split: if_splits)
    then show ?thesis using e None OrderTypeLimit inv1 put
      by (auto simp: PlaceOrder_def Let_def split: option.splits if_splits)
  qed (use e None inv1 put in \<open>auto simp: PlaceOrder_def Let_def split: option.splits if_splits\<close>)
qed

section \<open>Filling, triggering and refreshing\<close>

text \<open>Every order of the later state is an earlier one or has a newly allocated key.\<close>

definition orders_grow :: "paper_broker \<Rightarrow> paper_broker \<Rightarrow> bool" where
  "orders_grow pb pb' \<longleftrightarrow> pb_nextOrderID pb \<le> pb_nextOrderID pb' \<and>
    (\<forall>k order. map_of (pb_openOrders pb') k = Some order \<longrightarrow>
       map_of (pb_openOrders pb) k = Some order \<or> (\<exists>i\<ge>pb_nextOrderID pb. k = paper_key i))"

lemma orders_grow_trans: "orders_grow a b \<Longrightarrow> orders_grow b c \<Longrightarrow> orders_grow a c"
  unfolding orders_grow_def by (meson order_trans)

lemma orders_grow_cong:
  "pb_openOrders c = pb_openOrders b \<Longrightarrow> pb_nextOrderID c = pb_nextOrderID b \<Longrightarrow>
   orders_grow a c \<longleftrightarrow> orders_grow a b"
  by (simp add: orders_grow_def)

lemma orders_grow_refl [simp]: "orders_grow pb pb"
  by (simp add: orders_grow_def)

lemma orders_grow_emit [simp]: "orders_grow a (emit e pb) \<longleftrightarrow> orders_grow a pb"
  and orders_grow_put_position [simp]: "orders_grow a (put_position p pb) \<longleftrightarrow> orders_grow a pb"
  and orders_grow_persist [simp]:
    "orders_grow a (persist_entry now ev order pos f fee sl pb) \<longleftrightarrow> orders_grow a pb"
  by (rule orders_grow_cong; simp add: persist_entry_def emit_def)+

lemma orders_grow_close: "orders_grow pb (closePositionInternalWithOrder ord now pos x co pb)"
  unfolding orders_grow_def by (auto split: option.splits if_splits)

lemma orders_grow_new:
  "orders_grow pb (put_order (protective_order now pos t x (pb_nextOrderID pb))
     (pb\<lparr>pb_nextOrderID := pb_nextOrderID pb + 1\<rparr>))"
  unfolding orders_grow_def by (auto simp: protective_order_def)

lemma orders_grow_add:
  "orders_grow pb (fst (add_SL now pos x pb))" "orders_grow pb (fst (add_TP now pos x pb))"
  by (simp_all add: add_SL_def add_TP_def Let_def orders_grow_new)

lemma orders_grow_createProtective:
  "orders_grow pb (fst (createProtectiveOrdersForPosition ord now pos sl tp pb))"
proof -
  obtain pb1 pos1 where 1: "add_SL now pos sl pb = (pb1, pos1)" by fastforce
  have "orders_grow pb (fst (add_TP now pos1 x pb1))" for x
    using orders_grow_trans [OF orders_grow_add(1) [of pb now pos sl] orders_grow_add(2)] 1 by simp
  then show ?thesis
    by (simp add: createProtectiveOrdersForPosition_def Let_def orders_grow_close 1 case_prod_beta)
qed

lemma orders_grow_open_limit: "orders_grow pb (open_limit_position ord now order f fee m pb)"
proof -
  define pos where "pos = new_position now (pb_cfg pb) (pb_nextPositionID pb) (o_Symbol order)
      (o_Side order) f (o_Qty order) m"
  define pb0 where "pb0 = (put_position pos pb)\<lparr>pb_nextPositionID := pb_nextPositionID pb + 1,
      pb_usedMargin := pb_usedMargin pb + m, pb_balance := pb_balance pb - fee,
      pb_totalFees := pb_totalFees pb + fee\<rparr>"
  have pb0: "orders_grow pb pb0" by (simp add: orders_grow_def pb0_def)
  obtain pb1 pos1 ok where c: "createProtectiveOrdersForPosition ord now pos (o_IntendedSL order)
      (o_IntendedTP order) pb0 = (pb1, pos1, ok)" by (metis prod_cases3)
  have "orders_grow pb pb1"
    using orders_grow_trans [OF pb0 orders_grow_createProtective, of ord now pos "o_IntendedSL order"
        "o_IntendedTP order"] c by simp
  moreover note orders_grow_trans [OF pb0 orders_grow_close]
  ultimately show ?thesis
    using c by (simp add: open_limit_position_def pos_def [symmetric] pb0_def [symmetric] Let_def
        reject_limit_def)
qed

lemma orders_grow_fillLimit: "orders_grow pb (fillLimitOrder ord now order pb)"
  by (auto simp: fillLimitOrder_def Let_def reject_limit_def orders_grow_open_limit
      split: option.split)

lemma brk_inv_open_limit:
  assumes inv: "brk_inv {} pb" and sym: "o_Symbol order \<noteq> ''''" and sl: "Fin 0 < o_IntendedSL order"
  shows "brk_inv {} (open_limit_position ord now order f fee m pb)"
proof -
  define pos where "pos = new_position now (pb_cfg pb) (pb_nextPositionID pb) (o_Symbol order)
      (o_Side order) f (o_Qty order) m"
  define pb0 where "pb0 = (put_position pos pb)\<lparr>pb_nextPositionID := pb_nextPositionID pb + 1,
      pb_usedMargin := pb_usedMargin pb + m, pb_balance := pb_balance pb - fee,
      pb_totalFees := pb_totalFees pb + fee\<rparr>"
  have reg: "brk_inv {p_Symbol pos} pb0"
    by (rule brk_inv_register [OF inv])
      (use sym sideFromOrderSide_cases in \<open>simp_all add: pb0_def pos_def\<close>)
  have p: "map_of (pb_openPositions pb0) (p_Symbol pos) = Some pos" by (simp add: pb0_def)
  obtain pb1 pos1 ok where c: "createProtectiveOrdersForPosition ord now pos (o_IntendedSL order)
      (o_IntendedTP order) pb0 = (pb1, pos1, ok)" by (metis prod_cases3)
  note r = brk_inv_createProtective [OF reg p sl c]
  have "brk_inv {} (put_position (pos1\<lparr>p_StopLoss := a, p_TakeProfit := b\<rparr>) pb1)" if ok for a b
    by (rule brk_inv_set_levels [OF r(1)]) (use r(2) [OF that] in \<open>simp add: same_position_def\<close>)
  with r(1) sl c show ?thesis
    by (simp add: open_limit_position_def pos_def [symmetric] pb0_def [symmetric] Let_def
        reject_limit_def)
qed

lemma brk_inv_del_order:
  assumes inv: "brk_inv {} pb"
    and k: "\<And>order. map_of (pb_openOrders pb) k = Some order \<Longrightarrow>
      o_OrderType order \<noteq> OrderTypeStopMarket \<or> map_of (pb_openPositions pb) (o_Symbol order) = None"
  shows "brk_inv {} (del_order k pb)"
proof (rule brk_inv_delete_orders [OF inv])
  show "map_of (pb_openOrders (del_order k pb)) k' = Some order"
    if "map_of (pb_openOrders pb) k' = Some order" "map_of (pb_openPositions (del_order k pb)) s = Some p"
      "stop_for p order" for k' order s p
    using that k positions_wfD [OF brk_invD(2) [OF inv], of s p] by (auto simp: stop_for_def)
qed (auto split: if_splits)

lemma brk_inv_limit_step:
  assumes inv: "brk_inv {} pb" and k: "map_of (pb_openOrders pb) k = Some order"
    and lim: "o_OrderType order = OrderTypeLimit"
  shows "brk_inv {} (del_order k (fillLimitOrder ord now order pb))"
proof (rule brk_inv_del_order)
  have wf: "order_wf (pb_nextOrderID pb) k order" by (rule orders_wfD [OF brk_invD(1) [OF inv] k])
  then show "brk_inv {} (fillLimitOrder ord now order pb)"
    using lim inv by (auto simp: fillLimitOrder_def order_wf_def Let_def reject_limit_def
        brk_inv_open_limit split: option.split)
  have "k \<noteq> paper_key i" if "pb_nextOrderID pb \<le> i" for i
    using wf that by (auto simp: order_wf_def paper_key_inj)
  then show "o_OrderType order' \<noteq> OrderTypeStopMarket \<or>
      map_of (pb_openPositions (fillLimitOrder ord now order pb)) (o_Symbol order') = None"
    if "map_of (pb_openOrders (fillLimitOrder ord now order pb)) k = Some order'" for order'
    using orders_grow_fillLimit [of pb ord now order] that k lim unfolding orders_grow_def by fastforce
qed

lemma brk_inv_trigger:
  assumes inv: "brk_inv {} pb" and k: "map_of (pb_openOrders pb) k = Some order"
  shows "brk_inv {} (del_order k (triggerProtectiveOrder ord now order x pb))"
proof (rule brk_inv_del_order)
  show "brk_inv {} (triggerProtectiveOrder ord now order x pb)"
    using inv brk_inv_close [OF inv] positions_wfD [OF brk_invD(2) [OF inv]]
    by (auto simp: triggerProtectiveOrder_def split: option.split)
  show "o_OrderType order' \<noteq> OrderTypeStopMarket \<or>
      map_of (pb_openPositions (triggerProtectiveOrder ord now order x pb)) (o_Symbol order') = None"
    if "map_of (pb_openOrders (triggerProtectiveOrder ord now order x pb)) k = Some order'" for order'
    using that k positions_wfD [OF brk_invD(2) [OF inv]]
    by (auto simp: triggerProtectiveOrder_def split: option.splits if_splits)
qed

section \<open>The exported operations keep the invariant\<close>

theorem brk_inv_UpdatePnL: "brk_inv {} pb \<Longrightarrow> brk_inv {} (updateUnrealizedPnLLocked ord pb)"
proof -
  assume inv: "brk_inv {} pb"
  have step: "brk_inv {} (fst (refresh_one p s))"
    if "brk_inv {} (fst s)" "map_of (pb_openPositions (fst s)) k = Some p" for k p and s :: "paper_broker \<times> f64"
  proof -
    have r: "p_ID (refreshed_position (fst s) p) = p_ID p"
      "p_Symbol (refreshed_position (fst s) p) = p_Symbol p"
      "p_Side (refreshed_position (fst s) p) = p_Side p"
      "p_EntryPrice (refreshed_position (fst s) p) = p_EntryPrice p"
      "p_SLOrderID (refreshed_position (fst s) p) = p_SLOrderID p"
      by (simp_all add: refreshed_position_def updatePositionPnL_def split: option.split)
    have pr: "protected pb (refreshed_position (fst s) p) = protected pb p" for pb
      by (rule protected_cong) (simp_all add: r)
    have "p_Symbol p = k" using positions_wfD [OF brk_invD(2) [OF that(1)] that(2)] .
    then show ?thesis
      using that brk_invD(3) [OF that(1,2)]
      by (auto simp: refresh_one_def Let_def r pr intro!: brk_inv_put_position [OF that(1), of _ p])
  qed
  have "brk_inv {} (fst (range_map (\<lambda>s. pb_openPositions (fst s)) (\<lambda>symbol. refresh_one)
      (iter_keys ord (pb_openPositions pb)) (pb, Fin 0)))"
    by (rule range_map_inv) (use inv step in auto)
  then show ?thesis by (simp add: updateUnrealizedPnLLocked_def Let_def)
qed

lemma brk_inv_SetSymbolPrice [simp]: "brk_inv S (SetSymbolPrice s x pb) \<longleftrightarrow> brk_inv S pb"
  and brk_inv_SetHalted [simp]: "brk_inv S (SetHalted r pb) \<longleftrightarrow> brk_inv S pb"
  and brk_inv_ResetDailyLoss [simp]: "brk_inv S (ResetDailyLoss pb) \<longleftrightarrow> brk_inv S pb"
  by (simp_all add: SetSymbolPrice_def SetHalted_def ResetDailyLoss_def)

lemma brk_inv_checkProtective:
  "brk_inv {} pb \<Longrightarrow> brk_inv {} (checkProtectiveOrders ord s x now pb)"
  unfolding checkProtectiveOrders_def by (rule range_map_inv) (auto intro: brk_inv_trigger)

theorem brk_inv_UpdatePrice: "brk_inv {} pb \<Longrightarrow> brk_inv {} (UpdatePrice ord now s x pb)"
  by (simp add: UpdatePrice_def brk_inv_checkProtective brk_inv_UpdatePnL)

lemma brk_inv_candle_pass:
  "brk_inv {} pb \<Longrightarrow> brk_inv {} (fst (candle_pass ord t s c now pb))"
  unfolding candle_pass_def
  by (rule range_map_inv [where P = "\<lambda>s. brk_inv {} (fst s)"])
    (auto simp: candle_step_def intro: brk_inv_trigger)

theorem brk_inv_ProcessCandle: "brk_inv {} pb \<Longrightarrow> brk_inv {} (ProcessCandle ord now c pb)"
proof -
  assume inv: "brk_inv {} pb"
  have l: "brk_inv {} (limit_pass ord c now pb')" if "brk_inv {} pb'" for pb'
    unfolding limit_pass_def by (rule range_map_inv) (use that in \<open>auto intro: brk_inv_limit_step\<close>)
  have c: "brk_inv {} (checkProtectiveOrdersCandle ord s c now pb')" if "brk_inv {} pb'" for s pb'
    using brk_inv_candle_pass [OF that, of ord OrderTypeStopMarket s c now] brk_inv_candle_pass
    by (auto simp: checkProtectiveOrdersCandle_def split: prod.split)
  show ?thesis unfolding ProcessCandle_def by (intro c l) (simp add: inv)
qed

theorem brk_inv_ClosePosition:
  "brk_inv {} pb \<Longrightarrow> brk_inv {} (fst (ClosePosition ord now s pb))"
  using brk_inv_close [of "{}" pb] positions_wfD [OF brk_invD(2), of "{}" pb]
  by (auto simp: ClosePosition_def split: option.split)

text \<open>The last loop of \<open>EmergencyCloseAll\<close> and the one before it empty their maps.\<close>

lemma range_map_clears:
  assumes "P s" and "\<And>k v s. P s \<Longrightarrow> map_of (get s) k = Some v \<Longrightarrow>
      P (body k v s) \<and> map_of (get (body k v s)) = (map_of (get s))(k := None)"
  shows "P (range_map get body ks s) \<and>
    map_of (get (range_map get body ks s)) k = (if k \<in> set ks then None else map_of (get s) k)"
  using assms
proof (induction ks arbitrary: s)
  case (Cons a ks)
  show ?case
  proof (cases "map_of (get s) a")
    case None
    with Cons show ?thesis by simp
  next
    case (Some v)
    with Cons.prems have "P (body a v s)" "map_of (get (body a v s)) = (map_of (get s))(a := None)"
      by blast+
    with Cons.IH [of "body a v s"] Cons.prems(2) Some show ?thesis by simp
  qed
qed simp

lemma map_of_Nil_iff: "(\<And>k. map_of m k = None) \<Longrightarrow> m = []"
  by (cases m) (auto split: if_splits, metis not_Some_eq)

lemma range_map_clears_all:
  assumes "P s" and "\<And>k v s. P s \<Longrightarrow> map_of (get s) k = Some v \<Longrightarrow>
      P (body k v s) \<and> map_of (get (body k v s)) = (map_of (get s))(k := None)"
  shows "P (range_map get body (iter_keys ord (get s)) s)"
    and "get (range_map get body (iter_keys ord (get s)) s) = []"
proof -
  note r = range_map_clears [of P s get body, OF assms, of "iter_keys ord (get s)"]
  show "P (range_map get body (iter_keys ord (get s)) s)" using r by simp
  show "get (range_map get body (iter_keys ord (get s)) s) = []"
    by (rule map_of_Nil_iff) (use r in \<open>auto simp: map_of_eq_None_iff\<close>)
qed

lemma positions_wf_close:
  "positions_wf pb \<Longrightarrow> positions_wf (closePositionInternalWithOrder ord now pos x co pb)"
  by (auto simp: positions_wf_def split: if_splits)

text \<open>What survives a loop of closes: nothing rests, and identifiers only grow.\<close>

definition clearing :: "paper_broker \<Rightarrow> paper_broker \<Rightarrow> bool" where
  "clearing pb0 pb \<longleftrightarrow> positions_wf pb \<and> pb_openOrders pb = [] \<and>
    pb_nextOrderID pb0 \<le> pb_nextOrderID pb \<and> pb_halted pb = pb_halted pb0"

lemma orders_close_empty:
  "pb_openOrders pb = [] \<Longrightarrow> pb_openOrders (closePositionInternalWithOrder ord now pos x co pb) = []"
  by (rule map_of_Nil_iff) simp

lemma EmergencyCloseAll_clears:
  assumes "positions_wf pb"
  shows "pb_openPositions (EmergencyCloseAll ord now pb) = []"
    and "clearing pb (EmergencyCloseAll ord now pb)"
proof -
  define pb1 where "pb1 = range_map pb_openOrders (\<lambda>id order pb. del_order id pb)
      (iter_keys ord (pb_openOrders pb)) pb"
  let ?P = "\<lambda>s. positions_wf s \<and> pb_nextOrderID s = pb_nextOrderID pb \<and> pb_halted s = pb_halted pb"
  have step1: "?P (del_order k s) \<and>
      map_of (pb_openOrders (del_order k s)) = (map_of (pb_openOrders s))(k := None)"
    if "?P s" "map_of (pb_openOrders s) k = Some v" for k v s
    using that by (simp add: positions_wf_def)
  have 1: "clearing pb pb1"
    using range_map_clears_all [of ?P pb pb_openOrders "\<lambda>id order pb. del_order id pb" ord]
      step1 assms unfolding pb1_def clearing_def by simp
  define pb2 where "pb2 = range_map pb_openPositions
      (\<lambda>symbol pos pb.
        closePositionInternalWithOrder ord now pos (emergency_price symbol pos pb) None pb)
      (iter_keys ord (pb_openPositions pb1)) pb1"
  have step2: "clearing pb (closePositionInternalWithOrder ord now p x None s) \<and>
      map_of (pb_openPositions (closePositionInternalWithOrder ord now p x None s)) =
        (map_of (pb_openPositions s))(k := None)"
    if "clearing pb s" "map_of (pb_openPositions s) k = Some p" for k p x s
    using that positions_wf_close [of s ord now p x None] orders_close_empty [of s ord now p x None]
      positions_wfD [of s k p] by (simp add: clearing_def)
  have "clearing pb pb2" "pb_openPositions pb2 = []"
    using range_map_clears_all [of "clearing pb" pb1 pb_openPositions
        "\<lambda>symbol pos pb. closePositionInternalWithOrder ord now pos (emergency_price symbol pos pb) None pb"
        ord, OF 1 step2] unfolding pb2_def by simp_all
  then show "pb_openPositions (EmergencyCloseAll ord now pb) = []"
    and "clearing pb (EmergencyCloseAll ord now pb)"
    by (simp_all add: EmergencyCloseAll_def pb1_def [symmetric] pb2_def [symmetric] Let_def
        clearing_def positions_wf_def)
qed

theorem brk_inv_EmergencyCloseAll: "brk_inv {} pb \<Longrightarrow> brk_inv {} (EmergencyCloseAll ord now pb)"
proof -
  assume inv: "brk_inv {} pb"
  note c = EmergencyCloseAll_clears [OF brk_invD(2) [OF inv], of ord now]
  have "1 \<le> pb_nextOrderID pb" using brk_invD(1) [OF inv] by (simp add: orders_wf_def)
  with c show ?thesis by (simp add: brk_inv_def orders_wf_def clearing_def)
qed

lemma brk_inv_cancel:
  assumes inv: "brk_inv {} pb" and p: "map_of (pb_openPositions pb) (p_Symbol pos) = Some pos"
  shows "brk_inv {p_Symbol pos} (cancelSiblingOrders ord now pos pb)"
proof (rule brk_inv_delete_orders [OF inv])
  show "map_of (pb_openOrders (cancelSiblingOrders ord now pos pb)) k = Some order"
    if "map_of (pb_openOrders pb) k = Some order" "s \<notin> {p_Symbol pos}"
      "map_of (pb_openPositions (cancelSiblingOrders ord now pos pb)) s = Some q" "stop_for q order"
    for k order s q
    using that positions_wfD [OF brk_invD(2) [OF inv], of s q]
    by (auto simp: stop_for_def is_sibling_def)
qed (auto split: option.splits if_splits)

lemma PlaceOrder_protective:
  assumes "\<not> p_Size pos \<le> Fin 0" and "s \<noteq> ''''" and "\<not> x \<le> Fin 0"
    and "t = OrderTypeStopMarket \<or> t = OrderTypeTakeProfitMarket"
  shows "PlaceOrder ord now (protective_request s pos t x) pb =
    (let order = new_order now (protective_request s pos t x) (pb_nextOrderID pb)
     in (put_order order (pb\<lparr>pb_nextOrderID := pb_nextOrderID pb + 1\<rparr>), order, None))"
  using assms by (auto simp: PlaceOrder_def place_guard_def protective_request_def is_entry_type_def Let_def)

lemma brk_inv_place_protective:
  assumes inv: "brk_inv {p_Symbol pos} pb"
    and p: "map_of (pb_openPositions pb) (p_Symbol pos) = Some pos"
    and sl: "Fin 0 < slPrice" "\<not> invalid_SL_side pos slPrice" and q: "\<not> p_Size pos \<le> Fin 0"
  shows "brk_inv {} (fst (place_protective ord now (p_Symbol pos) pos slPrice tpPrice pb))"
    and "snd (place_protective ord now (p_Symbol pos) pos slPrice tpPrice pb) = None"
proof -
  let ?s = "p_Symbol pos" and ?n = "pb_nextOrderID pb"
  define so where "so = new_order now (protective_request ?s pos OrderTypeStopMarket slPrice) ?n"
  define pb2 where "pb2 = put_order so (pb\<lparr>pb_nextOrderID := ?n + 1\<rparr>)"
  define tpo where "tpo = new_order now (protective_request ?s pos OrderTypeTakeProfitMarket tpPrice) (?n + 1)"
  define pb3 where "pb3 = put_order tpo (pb2\<lparr>pb_nextOrderID := ?n + 1 + 1\<rparr>)"
  have n: "1 \<le> ?n" using brk_invD(1) [OF inv] by (simp add: orders_wf_def)
  have "position_wf (pb_nextPositionID pb) ?s pos"
    using brk_invD(2) [OF inv] p unfolding positions_wf_def by blast
  then have sym: "?s \<noteq> ''''" unfolding position_wf_def by blast
  have pl: "PlaceOrder ord now (protective_request ?s pos OrderTypeStopMarket slPrice) pb = (pb2, so, None)"
    using q sym f64_less_asym [OF sl(1)] by (simp add: PlaceOrder_protective pb2_def so_def Let_def)
  have n2: "pb_nextOrderID pb2 = ?n + 1" by (simp add: pb2_def)
  have pl2: "PlaceOrder ord now (protective_request ?s pos OrderTypeTakeProfitMarket tpPrice) pb2 = (pb3, tpo, None)"
    if "Fin 0 < tpPrice"
    using q sym f64_less_asym [OF that] by (simp add: PlaceOrder_protective pb3_def tpo_def Let_def n2)
  have inv2: "brk_inv {?s} pb2"
    unfolding pb2_def
    by (rule brk_inv_put_order [OF inv]) (use n in \<open>simp_all add: so_def order_wf_def new_order_def protective_request_def\<close>)
  have inv3: "brk_inv {?s} pb3"
    unfolding pb3_def n2 [symmetric]
    by (rule brk_inv_put_order [OF inv2]) (use n n2 in \<open>simp_all add: tpo_def order_wf_def new_order_def protective_request_def\<close>)
  have st: "stop_for pos so" "o_ID so = ?n"
    using sl by (simp_all add: stop_for_def so_def new_order_def protective_request_def)
  have k: "map_of (pb_openOrders pb2) (paper_key ?n) = Some so"
    "map_of (pb_openOrders pb3) (paper_key ?n) = Some so"
    using n by (simp_all add: pb2_def pb3_def so_def tpo_def new_order_def paper_key_inj)
  have p23: "map_of (pb_openPositions pb2) ?s = Some pos" "map_of (pb_openPositions pb3) ?s = Some pos"
    using p by (simp_all add: pb2_def pb3_def)
  have link: "brk_inv {} (link_protective ?s (p_ID pos) f pb')"
    if "brk_inv {?s} pb'" "map_of (pb_openPositions pb') ?s = Some pos"
      "map_of (pb_openOrders pb') (paper_key ?n) = Some so"
      "same_position (f pos) pos" "p_SLOrderID (f pos) = Some ?n" for f pb'
  proof -
    have "protected pb' (f pos)"
      unfolding protected_def using that st stop_for_cong [OF that(4)] by (intro exI [of _ ?n] exI [of _ so]) simp
    then show ?thesis using that
      by (auto simp: link_protective_def same_position_def intro!: brk_inv_put_position [of "{?s}" pb' "f pos" pos])
  qed
  have l2: "brk_inv {} (link_protective ?s (p_ID pos)
      (\<lambda>p. p\<lparr>p_SLOrderID := Some (o_ID so), p_StopLoss := slPrice\<rparr>) pb2)"
    by (rule link [OF inv2 p23(1) k(1)]) (simp_all add: same_position_def st)
  have l3: "brk_inv {} (link_protective ?s (p_ID pos)
      (\<lambda>p. p\<lparr>p_SLOrderID := Some (o_ID so), p_TPOrderID := Some (o_ID tpo), p_StopLoss := slPrice,
             p_TakeProfit := tpPrice\<rparr>) pb3)"
    by (rule link [OF inv3 p23(2) k(2)]) (simp_all add: same_position_def st)
  show "brk_inv {} (fst (place_protective ord now ?s pos slPrice tpPrice pb))"
    using l2 l3 pl2 by (simp add: place_protective_def pl Let_def)
  show "snd (place_protective ord now ?s pos slPrice tpPrice pb) = None"
    using pl2 by (simp add: place_protective_def pl Let_def)
qed

theorem brk_inv_SetProtectiveOrders:
  assumes inv: "brk_inv {} pb" and p: "map_of (pb_openPositions pb) s = Some pos"
    and sl: "Fin 0 < slPrice" and ok: "protective_levels_error pos slPrice tpPrice = None"
    and q: "\<not> p_Size pos \<le> Fin 0"
  shows "brk_inv {} (fst (SetProtectiveOrders ord now s slPrice tpPrice pb))"
    and "snd (SetProtectiveOrders ord now s slPrice tpPrice pb) = None"
proof -
  have s: "p_Symbol pos = s" by (rule positions_wfD [OF brk_invD(2) [OF inv] p])
  have v: "\<not> invalid_SL_side pos slPrice"
    using ok by (auto simp: protective_levels_error_def invalid_SL_side_def split: if_splits)
  let ?pb1 = "cancelSiblingOrders ord now pos pb"
  have inv1: "brk_inv {p_Symbol pos} ?pb1" by (rule brk_inv_cancel) (use inv p s in simp_all)
  have p1: "map_of (pb_openPositions ?pb1) (p_Symbol pos) = Some pos" using p s by simp
  note r = brk_inv_place_protective [OF inv1 p1 sl v q, of ord now tpPrice]
  have "SetProtectiveOrders ord now s slPrice tpPrice pb =
      place_protective ord now (p_Symbol pos) pos slPrice tpPrice ?pb1"
    using f64_less_asym [OF sl] p ok s by (simp add: SetProtectiveOrders_def Let_def)
  with r show "brk_inv {} (fst (SetProtectiveOrders ord now s slPrice tpPrice pb))"
    and "snd (SetProtectiveOrders ord now s slPrice tpPrice pb) = None" by simp_all
qed

theorem brk_inv_CancelOrder:
  assumes "brk_inv {} pb"
    and "\<And>order. map_of (pb_openOrders pb) k = Some order \<Longrightarrow>
      o_OrderType order \<noteq> OrderTypeStopMarket \<or> map_of (pb_openPositions pb) (o_Symbol order) = None"
  shows "brk_inv {} (fst (CancelOrder now k pb))"
  using brk_inv_del_order [of "emit e pb" k for e] assms
  by (auto simp: CancelOrder_def split: option.split)

lemma brk_inv_New: "brk_inv {} (NewPaperBroker cfg)"
  by (simp add: NewPaperBroker_def brk_inv_def orders_wf_def positions_wf_def)

end
