(* ===== verification/BrokerFrame.thy ===== *)
theory BrokerFrame
  imports BrokerInv "HOL-Library.Sublist"
begin

text \<open>
  What no call on the broker can do. A relation between broker states that the primitive updates
  respect (an account entry, a map entry, a counter, an appended record) is respected by every
  exported operation: proved once in the locale \<open>broker_frame\<close> and its extensions \<open>broker_calls\<close> and \<open>broker_steps\<close>, then
  interpreted for the halt flag, for the daily loss and for the audit trail.
\<close>

section \<open>Calls on the broker\<close>

text \<open>Any call a client can make, with any argument. Price feeds, candles, orders, closes, level
  replacements, halts and resets of the daily loss arrive in any order.\<close>

inductive broker_step :: "paper_broker \<Rightarrow> paper_broker \<Rightarrow> bool" where
  step_place: "broker_step pb (fst (PlaceOrder ord now req pb))"
| step_cancel: "broker_step pb (fst (CancelOrder now k pb))"
| step_close: "broker_step pb (fst (ClosePosition ord now s pb))"
| step_emergency: "broker_step pb (EmergencyCloseAll ord now pb)"
| step_price: "broker_step pb (UpdatePrice ord now s x pb)"
| step_set_price: "broker_step pb (SetSymbolPrice s x pb)"
| step_candle: "broker_step pb (ProcessCandle ord now c pb)"
| step_protect: "broker_step pb (fst (SetProtectiveOrders ord now s sl tp pb))"
| step_halt: "broker_step pb (SetHalted reason pb)"
| step_reset: "broker_step pb (ResetDailyLoss pb)"

section \<open>Relations respected by the primitive updates\<close>

locale broker_frame =
  fixes R :: "paper_broker \<Rightarrow> paper_broker \<Rightarrow> bool"
  assumes R_refl: "R pb pb"
    and R_trans: "R a b \<Longrightarrow> R b c \<Longrightarrow> R a c"
    and R_orders: "R pb (pb\<lparr>pb_openOrders := orders\<rparr>)"
    and R_positions: "R pb (pb\<lparr>pb_openPositions := positions\<rparr>)"
    and R_prices: "R pb (pb\<lparr>pb_prices := prices\<rparr>)"
    and R_log: "R pb (pb\<lparr>pb_log := pb_log pb @ es\<rparr>)"
    and R_closed: "R pb (pb\<lparr>pb_closedPositions := pb_closedPositions pb @ ps\<rparr>)"
    and R_orderID: "R pb (pb\<lparr>pb_nextOrderID := pb_nextOrderID pb + 1\<rparr>)"
    and R_positionID: "R pb (pb\<lparr>pb_nextPositionID := pb_nextPositionID pb + 1\<rparr>)"
    and R_execID: "R pb (pb\<lparr>pb_nextExecID := pb_nextExecID pb + 1\<rparr>)"
    and R_balance: "R pb (pb\<lparr>pb_balance := x\<rparr>)"
    and R_margin: "R pb (pb\<lparr>pb_usedMargin := x\<rparr>)"
    and R_realized: "R pb (pb\<lparr>pb_realizedPnL := x\<rparr>)"
    and R_unrealized: "R pb (pb\<lparr>pb_unrealizedPnL := x\<rparr>)"
    and R_fees: "R pb (pb\<lparr>pb_totalFees := x\<rparr>)"
    and R_slippage: "R pb (pb\<lparr>pb_totalSlippage := x\<rparr>)"
    and R_loss: "R pb (pb\<lparr>pb_dailyLoss := add_daily_loss pnl (pb_dailyLoss pb)\<rparr>)"
begin

lemma R_log': "R a b \<Longrightarrow> l = pb_log b \<Longrightarrow> R a (b\<lparr>pb_log := l @ es\<rparr>)"
  and R_closed': "R a b \<Longrightarrow> cs = pb_closedPositions b \<Longrightarrow> R a (b\<lparr>pb_closedPositions := cs @ ps\<rparr>)"
  and R_orderID': "R a b \<Longrightarrow> n = pb_nextOrderID b \<Longrightarrow> R a (b\<lparr>pb_nextOrderID := n + 1\<rparr>)"
  and R_positionID': "R a b \<Longrightarrow> n = pb_nextPositionID b \<Longrightarrow> R a (b\<lparr>pb_nextPositionID := n + 1\<rparr>)"
  and R_execID': "R a b \<Longrightarrow> n = pb_nextExecID b \<Longrightarrow> R a (b\<lparr>pb_nextExecID := n + 1\<rparr>)"
  and R_loss': "R a b \<Longrightarrow> d = pb_dailyLoss b \<Longrightarrow> R a (b\<lparr>pb_dailyLoss := add_daily_loss pnl d\<rparr>)"
  by (simp_all add: R_trans [OF _ R_log] R_trans [OF _ R_closed] R_trans [OF _ R_orderID]
      R_trans [OF _ R_positionID] R_trans [OF _ R_execID] R_trans [OF _ R_loss])

lemmas R_updates =
  R_trans [OF _ R_orders] R_trans [OF _ R_positions] R_trans [OF _ R_prices]
  R_trans [OF _ R_balance] R_trans [OF _ R_margin] R_trans [OF _ R_realized]
  R_trans [OF _ R_unrealized] R_trans [OF _ R_fees] R_trans [OF _ R_slippage]
  R_log' R_closed' R_orderID' R_positionID' R_execID' R_loss'

lemma R_emit: "R a b \<Longrightarrow> R a (emit e b)"
  and R_put_order: "R a b \<Longrightarrow> R a (put_order order b)"
  and R_del_order: "R a b \<Longrightarrow> R a (del_order k b)"
  and R_put_position: "R a b \<Longrightarrow> R a (put_position p b)"
  by (simp_all add: emit_def put_order_def del_order_def put_position_def R_updates)

lemmas R_steps = R_emit R_put_order R_del_order R_put_position R_updates

lemma R_range_map:
  assumes "\<And>k v s. R (f s) (f (body k v s))"
  shows "R (f s) (f (range_map get body ks s))"
  by (rule range_map_inv [where P = "\<lambda>s'. R (f s) (f s')"]) (auto intro: R_refl R_trans assms)

lemma R_cancel: "R pb (cancelSiblingOrders ord now pos pb)"
  unfolding cancelSiblingOrders_def
  by (rule R_range_map [where f = "\<lambda>s. s"]) (auto intro!: R_steps R_refl)

lemma R_close: "R pb (closePositionInternalWithOrder ord now pos x co pb)"
proof -
  have "R pb (settle_close now pos x (cancelSiblingOrders ord now pos pb))"
    unfolding settle_close_def Let_def by (intro R_updates R_cancel) simp_all
  then show ?thesis
    by (cases co)
      (auto simp: closePositionInternalWithOrder_def closing_order_id_def Let_def intro!: R_steps)
qed

lemma R_reduce: "R pb (reducePosition ord now pos q f fee slip pb)"
  unfolding reducePosition_def Let_def by (auto intro!: R_steps R_close R_refl)

lemma R_add: "R pb (fst (add_SL now pos x pb))" "R pb (fst (add_TP now pos x pb))"
  by (auto simp: add_SL_def add_TP_def Let_def intro!: R_steps R_refl)

lemma R_createProtective: "R pb (fst (createProtectiveOrdersForPosition ord now pos sl tp pb))"
  by (auto simp: createProtectiveOrdersForPosition_def Let_def case_prod_beta
      intro: R_refl R_close R_trans [OF R_add(1) R_add(2)])

lemma R_persist: "R a b \<Longrightarrow> R a (persist_entry now ev order pos f fee sl b)"
  unfolding persist_entry_def by (intro R_steps) simp_all

lemma R_open_market:
  "R pb (fst (open_market_position ord now req order f fee m slip pb))"
proof -
  have reg: "R pb (register_position pos c d pb)" for pos c d
    unfolding register_position_def by (intro R_steps R_refl) simp_all
  show ?thesis
    using R_trans [OF reg R_createProtective]
    by (auto simp: open_market_position_def Let_def case_prod_beta intro!: R_persist R_steps reg)
qed

lemma R_place_market: "R pb (fst (place_market ord now req order pb))"
  by (auto simp: place_market_def Let_def split: option.split
      intro: R_refl R_reduce R_open_market R_trans [OF R_close R_open_market])

lemma R_PlaceOrder: "R pb (fst (PlaceOrder ord now req pb))"
proof -
  have n: "R pb (pb\<lparr>pb_nextOrderID := pb_nextOrderID pb + 1\<rparr>)" by (rule R_orderID)
  show ?thesis
    by (auto simp: PlaceOrder_def Let_def split: option.split order_type.split
        intro!: R_refl R_trans [OF n R_place_market] R_steps)
qed

lemma R_CancelOrder: "R pb (fst (CancelOrder now k pb))"
  by (auto simp: CancelOrder_def split: option.split intro!: R_steps R_refl)

lemma R_ClosePosition: "R pb (fst (ClosePosition ord now s pb))"
  by (auto simp: ClosePosition_def split: option.split intro: R_refl R_close)

lemma R_EmergencyCloseAll: "R pb (EmergencyCloseAll ord now pb)"
proof -
  define pb1 where "pb1 = range_map pb_openOrders (\<lambda>id order pb. del_order id pb)
      (iter_keys ord (pb_openOrders pb)) pb"
  have 1: "R pb pb1"
    unfolding pb1_def by (rule R_range_map [where f = "\<lambda>s. s"]) (auto intro!: R_steps R_refl)
  have "R pb1 (range_map pb_openPositions
      (\<lambda>symbol pos pb.
        closePositionInternalWithOrder ord now pos (emergency_price symbol pos pb) None pb) ks pb1)" for ks
    by (rule R_range_map [where f = "\<lambda>s. s"]) (rule R_close)
  then show ?thesis
    unfolding EmergencyCloseAll_def Let_def pb1_def [symmetric] by (intro R_emit R_trans [OF 1])
qed

lemma R_SetSymbolPrice: "R a b \<Longrightarrow> R a (SetSymbolPrice s x b)"
  unfolding SetSymbolPrice_def by (intro R_updates)

lemma R_trigger: "R pb (triggerProtectiveOrder ord now order x pb)"
  by (auto simp: triggerProtectiveOrder_def split: option.split intro!: R_emit R_close R_refl)

lemma R_UpdatePrice: "R pb (UpdatePrice ord now s x pb)"
proof -
  have "R b (fst (range_map (\<lambda>s. pb_openPositions (fst s)) (\<lambda>symbol. refresh_one) ks (b, y)))" for b ks y
    using R_range_map [where f = fst and s = "(b, y)" and body = "\<lambda>symbol. refresh_one"]
    by (simp add: refresh_one_def Let_def R_steps R_refl)
  then have u: "R b (updateUnrealizedPnLLocked ord b)" for b
    unfolding updateUnrealizedPnLLocked_def Let_def by (intro R_updates)
  have c: "R b (checkProtectiveOrders ord s x now b)" for b
    unfolding checkProtectiveOrders_def
    by (rule R_range_map [where f = "\<lambda>s. s"]) (auto intro!: R_steps R_trigger R_refl)
  show ?thesis
    unfolding UpdatePrice_def by (rule R_trans [OF R_trans [OF R_SetSymbolPrice [OF R_refl] u] c])
qed

lemma R_fillLimit: "R pb (fillLimitOrder ord now order pb)"
proof -
  have "R pb (open_limit_position ord now order f fee m pb)" for f fee m
  proof -
    let ?pos = "new_position now (pb_cfg pb) (pb_nextPositionID pb) (o_Symbol order) (o_Side order)
        f (o_Qty order) m"
    let ?pb0 = "(put_position ?pos pb)\<lparr>pb_nextPositionID := pb_nextPositionID pb + 1,
        pb_usedMargin := pb_usedMargin pb + m, pb_balance := pb_balance pb - fee,
        pb_totalFees := pb_totalFees pb + fee\<rparr>"
    have 0: "R pb ?pb0" by (intro R_steps R_refl) simp_all
    show ?thesis
      using R_trans [OF 0 R_createProtective] R_trans [OF 0 R_close]
      by (simp add: open_limit_position_def Let_def case_prod_beta reject_limit_def R_steps R_persist)
  qed
  then show ?thesis
    by (auto simp: fillLimitOrder_def Let_def reject_limit_def split: option.split intro!: R_refl R_emit)
qed

lemma R_candle_pass: "R pb (fst (candle_pass ord t s c now pb))"
  using R_range_map [where f = fst and s = "(pb, False)" and body = "candle_step ord t s c now"]
  by (simp add: candle_pass_def candle_step_def R_steps R_trigger R_refl)

lemma R_ProcessCandle: "R pb (ProcessCandle ord now c pb)"
proof -
  have l: "R b (limit_pass ord c now b)" for b
    unfolding limit_pass_def
    by (rule R_range_map [where f = "\<lambda>s. s"]) (auto intro!: R_steps R_fillLimit R_refl)
  have "R b (checkProtectiveOrdersCandle ord s c now b)" for s b
    by (simp add: checkProtectiveOrdersCandle_def case_prod_beta R_candle_pass
        R_trans [OF R_candle_pass R_candle_pass])
  then show ?thesis
    unfolding ProcessCandle_def using R_trans [OF R_trans [OF R_SetSymbolPrice [OF R_refl] l]] by blast
qed

lemma R_SetProtectiveOrders: "R pb (fst (SetProtectiveOrders ord now s sl tp pb))"
proof -
  have link: "R a b \<Longrightarrow> R a (link_protective s i g b)" for a b i g
    by (auto simp: link_protective_def split: option.split intro!: R_steps)
  have "R b (fst (place_protective ord now s pos sl tp b))" for pos b
    by (auto simp: place_protective_def Let_def case_prod_beta split: option.split
        intro!: link R_PlaceOrder R_trans [OF R_PlaceOrder R_PlaceOrder])
  then show ?thesis
    by (auto simp: SetProtectiveOrders_def Let_def split: option.split
        intro: R_refl R_cancel R_trans [OF R_cancel])
qed

end

text \<open>
  Relations that halting the broker respects too are respected by every step but the reset of the daily loss, and by
  every step when the reset respects them.
\<close>

locale broker_calls = broker_frame +
  assumes R_halt: "R pb (pb\<lparr>pb_halted := True, pb_haltReason := reason\<rparr>)"
begin

lemma R_SetHalted: "R pb (SetHalted reason pb)"
  by (simp add: SetHalted_def R_halt)

lemma R_broker_call: "broker_step pb pb' \<Longrightarrow> R pb pb' \<or> pb' = ResetDailyLoss pb"
  by (induction rule: broker_step.induct)
    (auto intro: R_PlaceOrder R_CancelOrder R_ClosePosition R_EmergencyCloseAll R_UpdatePrice
      R_SetSymbolPrice R_ProcessCandle R_SetProtectiveOrders R_SetHalted R_refl)

end

locale broker_steps = broker_calls +
  assumes R_reset: "R pb (ResetDailyLoss pb)"
begin

lemma R_broker_step: "broker_step pb pb' \<Longrightarrow> R pb pb'"
  using R_broker_call R_reset by blast

lemma R_broker_steps: "broker_step\<^sup>*\<^sup>* pb pb' \<Longrightarrow> R pb pb'"
  by (induction rule: rtranclp_induct) (auto intro: R_refl R_trans R_broker_step)

end

section \<open>Interpretations\<close>

text \<open>The halt flag is never cleared.\<close>

definition keeps_halt :: "paper_broker \<Rightarrow> paper_broker \<Rightarrow> bool" where
  "keeps_halt a b \<longleftrightarrow> (pb_halted a \<longrightarrow> pb_halted b)"

interpretation halt: broker_steps keeps_halt
  by unfold_locales (simp_all add: keeps_halt_def ResetDailyLoss_def)

text \<open>No operation but \<open>SetHalted\<close> sets it.\<close>

definition same_halt :: "paper_broker \<Rightarrow> paper_broker \<Rightarrow> bool" where
  "same_halt a b \<longleftrightarrow> pb_halted b = pb_halted a"

interpretation unhalted: broker_frame same_halt
  by unfold_locales (simp_all add: same_halt_def)

text \<open>The daily loss is a number that only grows.\<close>

definition loss_grows :: "paper_broker \<Rightarrow> paper_broker \<Rightarrow> bool" where
  "loss_grows a b \<longleftrightarrow>
    (is_f64 (pb_dailyLoss a) \<and> Fin 0 \<le> pb_dailyLoss a \<longrightarrow>
     is_f64 (pb_dailyLoss b) \<and> pb_dailyLoss a \<le> pb_dailyLoss b)"

lemma add_daily_loss_ge:
  assumes "is_f64 l" and "Fin 0 \<le> l"
  shows "is_f64 (add_daily_loss x l)" and "l \<le> add_daily_loss x l"
proof -
  have l: "l \<noteq> NaN" "l \<noteq> NInf" using assms(2) by auto
  have "l \<le> l + \<bar>x\<bar>" if "x < Fin 0"
    by (rule le_plus [OF assms(1) l abs_nonneg]) (use that in auto)
  then show "is_f64 (add_daily_loss x l)" and "l \<le> add_daily_loss x l"
    using assms(1) l by (simp_all add: add_daily_loss_def f64_le_refl)
qed

lemma loss_grows_same: "pb_dailyLoss b = pb_dailyLoss a \<Longrightarrow> loss_grows a b"
  by (auto simp: loss_grows_def intro!: f64_le_refl)

interpretation loss: broker_calls loss_grows
proof
  show "loss_grows a b \<Longrightarrow> loss_grows b c \<Longrightarrow> loss_grows a c" for a b c
    unfolding loss_grows_def by (meson f64_le_trans)
  show "loss_grows pb (pb\<lparr>pb_dailyLoss := add_daily_loss pnl (pb_dailyLoss pb)\<rparr>)" for pb pnl
    by (simp add: loss_grows_def add_daily_loss_ge)
qed (simp_all add: loss_grows_same)

text \<open>Closed positions and persistence calls are never rewritten, and identifiers are not reused.\<close>

definition audit_grows :: "paper_broker \<Rightarrow> paper_broker \<Rightarrow> bool" where
  "audit_grows a b \<longleftrightarrow>
    prefix (pb_closedPositions a) (pb_closedPositions b) \<and> prefix (pb_log a) (pb_log b) \<and>
    pb_nextOrderID a \<le> pb_nextOrderID b \<and> pb_nextPositionID a \<le> pb_nextPositionID b \<and>
    pb_nextExecID a \<le> pb_nextExecID b"

interpretation audit: broker_steps audit_grows
  by unfold_locales (auto simp: audit_grows_def ResetDailyLoss_def)

end
