(* ===== verification/BrokerSpec.thy ===== *)
theory BrokerSpec
  imports BrokerFrame
begin

text \<open>
  The contract of the paper broker: the steps its callers take, the states they can reach, and the
  properties of those states and of single operations.
\<close>

section \<open>Steps\<close>

text \<open>
  The steps of a careful caller: entries carry a stop-loss that is a number, reduce-only requests
  are market orders on an open position, a stop order is cancelled only through the operations
  that close or re-protect its position, and levels are replaced by valid ones.
\<close>

inductive safe_step :: "paper_broker \<Rightarrow> paper_broker \<Rightarrow> bool" where
  safe_place: "safe_request req pb \<Longrightarrow> safe_step pb (fst (PlaceOrder ord now req pb))"
| safe_cancel:
    "(\<And>order. map_of (pb_openOrders pb) k = Some order \<Longrightarrow> o_OrderType order \<noteq> OrderTypeStopMarket) \<Longrightarrow>
     safe_step pb (fst (CancelOrder now k pb))"
| safe_close: "safe_step pb (fst (ClosePosition ord now s pb))"
| safe_emergency: "safe_step pb (EmergencyCloseAll ord now pb)"
| safe_price: "safe_step pb (UpdatePrice ord now s x pb)"
| safe_set_price: "safe_step pb (SetSymbolPrice s x pb)"
| safe_candle: "safe_step pb (ProcessCandle ord now c pb)"
| safe_protect:
    "map_of (pb_openPositions pb) s = Some pos \<Longrightarrow> Fin 0 < sl \<Longrightarrow>
     protective_levels_error pos sl tp = None \<Longrightarrow> \<not> p_Size pos \<le> Fin 0 \<Longrightarrow>
     safe_step pb (fst (SetProtectiveOrders ord now s sl tp pb))"
| safe_halt: "safe_step pb (SetHalted reason pb)"
| safe_reset: "safe_step pb (ResetDailyLoss pb)"

inductive safe_reachable :: "paper_config \<Rightarrow> paper_broker \<Rightarrow> bool" for cfg where
  safe_init: "safe_reachable cfg (NewPaperBroker cfg)"
| safe_next: "safe_reachable cfg pb \<Longrightarrow> safe_step pb pb' \<Longrightarrow> safe_reachable cfg pb'"

lemma safe_step_inv: "safe_step pb pb' \<Longrightarrow> brk_inv {} pb \<Longrightarrow> brk_inv {} pb'"
proof (induction rule: safe_step.induct)
  case (safe_place req pb ord now)
  then show ?case using brk_inv_PlaceOrder by (metis prod_cases3 fst_conv)
next
  case (safe_cancel pb k now)
  then show ?case by (blast intro: brk_inv_CancelOrder)
next
  case (safe_protect pb s pos sl tp ord now)
  then show ?case by (intro brk_inv_SetProtectiveOrders(1))
qed (simp_all add: brk_inv_ClosePosition brk_inv_EmergencyCloseAll brk_inv_UpdatePrice
      brk_inv_ProcessCandle)

lemma safe_reachable_inv: "safe_reachable cfg pb \<Longrightarrow> brk_inv {} pb"
  by (induction rule: safe_reachable.induct) (auto intro: brk_inv_New safe_step_inv)

section \<open>A concrete run for the witnesses\<close>

definition demo_cfg :: paper_config where
  "demo_cfg =
    \<lparr> pc_StartingBalanceUSD = Fin 1000, pc_FeeMakerBps = Fin 2, pc_FeeTakerBps = Fin 5,
      pc_SlippageModel = ''fixed'', pc_SlippageBps = Fin 625, pc_DefaultLeverage = Fin 4 \<rparr>"

definition demo_entry :: order_request where
  "demo_entry =
    \<lparr> rq_Symbol = ''BTCUSDT'', rq_Side = OrderSideBuy, rq_OrderType = OrderTypeMarket,
      rq_Qty = Fin 2, rq_Price = None, rq_StopPrice = None, rq_ReduceOnly = False,
      rq_StopLoss = Fin 90, rq_TakeProfit = Fin 120 \<rparr>"

definition demo_priced :: paper_broker where
  "demo_priced = SetSymbolPrice ''BTCUSDT'' (Fin 100) (NewPaperBroker demo_cfg)"

definition demo_open :: paper_broker where
  "demo_open = fst (PlaceOrder [] 0 demo_entry demo_priced)"

definition demo_position :: position where
  "demo_position =
    \<lparr> p_ID = 1, p_Symbol = ''BTCUSDT'', p_Side = SideLong, p_EntryPrice = Fin (425 / 4),
      p_Size = Fin 2, p_Leverage = Fin 4, p_Margin = Fin (425 / 8), p_StopLoss = Fin 90,
      p_TakeProfit = Fin 120, p_SLOrderID = Some 2, p_TPOrderID = Some 3, p_UnrealizedPnL = Fin 0,
      p_RealizedPnL = Fin 0, p_Status = PositionStatusOpen, p_Source = ''paper'', p_OpenedAt = 0,
      p_ClosedAt = None \<rparr>"

definition demo_order :: "int \<Rightarrow> order_type \<Rightarrow> f64 \<Rightarrow> broker_order" where
  "demo_order n t stop =
    \<lparr> o_ID = n, o_BrokerOrderID = paper_key n, o_PositionID = None, o_Symbol = ''BTCUSDT'',
      o_Side = OrderSideSell, o_OrderType = t, o_Qty = Fin 2, o_Price = None,
      o_StopPrice = Some stop, o_Status = OrderStatusPending, o_CreatedAt = 0, o_UpdatedAt = 0,
      o_IntendedSL = Fin 0, o_IntendedTP = Fin 0 \<rparr>"

definition demo_stop :: broker_order where
  "demo_stop = demo_order 2 OrderTypeStopMarket (Fin 90)"

lemma demo_open_maps:
  "pb_openPositions demo_open = [(''BTCUSDT'', demo_position)]"
  "pb_openOrders demo_open =
    [(''paper-2'', demo_stop), (''paper-3'', demo_order 3 OrderTypeTakeProfitMarket (Fin 120))]"
  by code_simp+

lemma demo_open_position:
  "map_of (pb_openPositions demo_open) ''BTCUSDT'' = Some demo_position"
  by (simp add: demo_open_maps)

lemma demo_open_reachable: "safe_reachable demo_cfg demo_open"
proof -
  have "safe_reachable demo_cfg demo_priced"
    unfolding demo_priced_def by (intro safe_next [OF safe_init] safe_set_price)
  moreover have "safe_request demo_entry demo_priced"
    by (simp add: safe_request_def demo_entry_def)
  ultimately show ?thesis unfolding demo_open_def by (blast intro: safe_next safe_place)
qed

section \<open>No position without a stop\<close>

text \<open>
  C1: in every state that a careful caller can reach, through any sequence of market and limit
  entries, reductions, candles, price updates, closes, level replacements and halts, every open
  position has a pending stop order of its own, on the closing side, at a positive price that is
  not on the wrong side of the entry price.
\<close>

theorem open_positions_protected:
  assumes "safe_reachable cfg pb" and "map_of (pb_openPositions pb) s = Some p"
  shows "\<exists>k order stop. map_of (pb_openOrders pb) k = Some order \<and> o_Symbol order = s \<and>
           o_OrderType order = OrderTypeStopMarket \<and> o_Status order = OrderStatusPending \<and>
           p_SLOrderID p = Some (o_ID order) \<and> o_Side order = opposite_side p \<and>
           o_StopPrice order = Some stop \<and> Fin 0 < stop \<and>
           (p_Side p = SideLong \<longrightarrow> \<not> p_EntryPrice p \<le> stop) \<and>
           (p_Side p = SideShort \<longrightarrow> \<not> stop \<le> p_EntryPrice p)"
proof -
  have inv: "brk_inv {} pb" by (rule safe_reachable_inv) fact
  have "p_Symbol p = s" using positions_wfD [OF brk_invD(2) [OF inv]] assms(2) .
  with brk_invD(3) [OF inv assms(2)] show ?thesis
    unfolding protected_def stop_for_def invalid_SL_side_def by blast
qed

theorem open_positions_protected_witness:
  "\<exists>k order stop. map_of (pb_openOrders demo_open) k = Some order \<and> o_Symbol order = ''BTCUSDT'' \<and>
     o_OrderType order = OrderTypeStopMarket \<and> o_StopPrice order = Some stop \<and> Fin 0 < stop"
  using open_positions_protected [OF demo_open_reachable demo_open_position] by blast

lemma PlaceOrder_error_state:
  assumes "PlaceOrder ord now req pb = (pb', order, Some e)" and "\<not> rq_ReduceOnly req"
  shows "pb' = pb \<or> pb' = pb\<lparr>pb_nextOrderID := pb_nextOrderID pb + 1\<rparr>"
proof (rule ccontr)
  let ?pb1 = "pb\<lparr>pb_nextOrderID := pb_nextOrderID pb + 1\<rparr>"
  assume ne: "\<not> ?thesis"
  have sl: "snd (snd (createProtectiveOrdersForPosition ord now
      (new_position now c n s (rq_Side req) f q m) (rq_StopLoss req) tp b))"
    if "Fin 0 < rq_StopLoss req \<Longrightarrow> validateStopLoss (rq_Side req) f (rq_StopLoss req) = None"
    for c n s f q m tp b
    using that by (auto simp: createProtectiveOrdersForPosition_def invalid_SL_side_def Let_def
        sideFromOrderSide_def validateStopLoss_def split: if_splits prod.splits)
  have "place_market ord now req o1 ?pb1 \<noteq> (pb', order, Some e)" for o1
  proof
    assume p: "place_market ord now req o1 ?pb1 = (pb', order, Some e)"
    have "snd (snd (open_market_position ord now req o1 f fee m sp b)) = None"
      if "Fin 0 < rq_StopLoss req \<Longrightarrow> validateStopLoss (rq_Side req) f (rq_StopLoss req) = None"
      for f fee m sp b
      using sl [OF that] by (simp add: open_market_position_def Let_def case_prod_beta)
    with p ne assms(2) show False
      by (auto simp: place_market_def Let_def split: option.splits if_splits)
        (metis option.distinct(1) snd_conv)+
  qed
  with assms(1) ne show False
    by (auto simp: PlaceOrder_def Let_def split: option.splits order_type.splits if_splits)
qed

text \<open>
  C2: a request that does not reduce and that \<open>PlaceOrder\<close> answers with an error changes nothing
  but, at most, the order counter: no fee is charged, no position opened or closed, no order left
  resting. The branch that closes a position it has just opened is never taken.
\<close>

theorem PlaceOrder_error_atomic:
  assumes "PlaceOrder ord now req pb = (pb', order, Some e)" and "\<not> rq_ReduceOnly req"
  shows "pb' = pb \<or> pb' = pb\<lparr>pb_nextOrderID := pb_nextOrderID pb + 1\<rparr>"
  using assms by (rule PlaceOrder_error_state)

theorem PlaceOrder_error_atomic_witness:
  "fst (PlaceOrder [] 0 (demo_entry\<lparr>rq_StopLoss := Fin 110\<rparr>) demo_priced) = demo_priced \<or>
   fst (PlaceOrder [] 0 (demo_entry\<lparr>rq_StopLoss := Fin 110\<rparr>) demo_priced) =
     demo_priced\<lparr>pb_nextOrderID := pb_nextOrderID demo_priced + 1\<rparr>"
proof (rule PlaceOrder_error_atomic [where order = "fst (snd (PlaceOrder [] 0 (demo_entry\<lparr>rq_StopLoss := Fin 110\<rparr>) demo_priced))"
      and e = "the (snd (snd (PlaceOrder [] 0 (demo_entry\<lparr>rq_StopLoss := Fin 110\<rparr>) demo_priced)))"])
  have "snd (snd (PlaceOrder [] 0 (demo_entry\<lparr>rq_StopLoss := Fin 110\<rparr>) demo_priced)) \<noteq> None"
    by code_simp
  then show "PlaceOrder [] 0 (demo_entry\<lparr>rq_StopLoss := Fin 110\<rparr>) demo_priced =
      (fst (PlaceOrder [] 0 (demo_entry\<lparr>rq_StopLoss := Fin 110\<rparr>) demo_priced),
       fst (snd (PlaceOrder [] 0 (demo_entry\<lparr>rq_StopLoss := Fin 110\<rparr>) demo_priced)),
       Some (the (snd (snd (PlaceOrder [] 0 (demo_entry\<lparr>rq_StopLoss := Fin 110\<rparr>) demo_priced)))))"
    by (simp add: prod_eq_iff)
qed (simp add: demo_entry_def)

section \<open>Halting\<close>

text \<open>
  C3: once the broker is halted it stays halted whatever is called on it, in any order, resets of the daily
  loss included, and from then on every market or limit entry request that carries no stop price is refused and
  leaves the broker as it is. (A stop price on such a request gets it past the halt: see below.)
\<close>

theorem halted_blocks_entries:
  assumes "pb_halted pb" and "broker_step\<^sup>*\<^sup>* pb pb'"
    and "is_entry_type (rq_OrderType req)" and "\<not> rq_ReduceOnly req" and "rq_StopPrice req = None"
  shows "pb_halted pb' \<and> (\<exists>e. PlaceOrder ord now req pb' = (pb', zero_order, Some e))"
proof -
  have "pb_halted pb'" using halt.R_broker_steps [OF assms(2)] assms(1) by (simp add: keeps_halt_def)
  then show ?thesis using assms(3-5) by (simp add: PlaceOrder_def place_guard_def)
qed

theorem halted_blocks_entries_witness:
  "\<exists>e. PlaceOrder [] 5 demo_entry (ResetDailyLoss (EmergencyCloseAll [] 4 (SetHalted ''kill switch'' demo_open))) =
     (ResetDailyLoss (EmergencyCloseAll [] 4 (SetHalted ''kill switch'' demo_open)), zero_order, Some e)"
proof -
  let ?h = "SetHalted ''kill switch'' demo_open"
  have "broker_step\<^sup>*\<^sup>* ?h (ResetDailyLoss (EmergencyCloseAll [] 4 ?h))"
    by (rule rtranclp.rtrancl_into_rtrancl [OF r_into_rtranclp]) (rule step_emergency step_reset)+
  from halted_blocks_entries [OF _ this, of demo_entry "[]" 5] show ?thesis
    by (simp add: SetHalted_def demo_entry_def is_entry_type_def)
qed

text \<open>The same market entry with a stop price on it is filled by a halted broker.\<close>

lemma halted_fills_entry_with_stop_price:
  "snd (snd (PlaceOrder [] 5 (demo_entry\<lparr>rq_StopPrice := Some (Fin 90)\<rparr>) (SetHalted ''kill switch'' demo_priced))) = None"
  "map_of (pb_openPositions (fst (PlaceOrder [] 5 (demo_entry\<lparr>rq_StopPrice := Some (Fin 90)\<rparr>)
     (SetHalted ''kill switch'' demo_priced)))) ''BTCUSDT'' \<noteq> None"
  by code_simp+

section \<open>Emergency close\<close>

text \<open>Every position of an earlier state is still open or recorded as closed.\<close>

definition accounted :: "paper_broker \<Rightarrow> paper_broker \<Rightarrow> bool" where
  "accounted pb0 pb \<longleftrightarrow>
    (\<forall>s p. map_of (pb_openPositions pb0) s = Some p \<longrightarrow>
       map_of (pb_openPositions pb) s = Some p \<or>
       (\<exists>q \<in> set (pb_closedPositions pb). p_ID q = p_ID p \<and> p_Symbol q = s \<and> p_Status q = PositionStatusClosed))"

lemma accounted_close:
  assumes "accounted pb0 pb" and "positions_wf pb" and "map_of (pb_openPositions pb) k = Some pos"
  shows "accounted pb0 (closePositionInternalWithOrder ord now pos x co pb)"
proof -
  have k: "p_Symbol pos = k" by (rule positions_wfD) fact+
  show ?thesis
    unfolding accounted_def
  proof (intro allI impI)
    fix s p assume "map_of (pb_openPositions pb0) s = Some p"
    then have "map_of (pb_openPositions pb) s = Some p \<or>
        (\<exists>q \<in> set (pb_closedPositions pb). p_ID q = p_ID p \<and> p_Symbol q = s \<and> p_Status q = PositionStatusClosed)"
      using assms(1) by (auto simp: accounted_def)
    then show "map_of (pb_openPositions (closePositionInternalWithOrder ord now pos x co pb)) s = Some p \<or>
        (\<exists>q \<in> set (pb_closedPositions (closePositionInternalWithOrder ord now pos x co pb)).
           p_ID q = p_ID p \<and> p_Symbol q = s \<and> p_Status q = PositionStatusClosed)"
      using k assms(3) by (cases "s = k") (auto simp: closed_position_def)
  qed
qed

lemma EmergencyCloseAll_accounts:
  assumes wf: "positions_wf pb"
  shows "accounted pb (EmergencyCloseAll ord now pb)"
proof -
  define pb1 where "pb1 = range_map pb_openOrders (\<lambda>id order pb. del_order id pb)
      (iter_keys ord (pb_openOrders pb)) pb"
  have 1: "accounted pb pb1 \<and> positions_wf pb1"
    unfolding pb1_def by (rule range_map_inv) (use wf in \<open>auto simp: accounted_def positions_wf_def\<close>)
  have "accounted pb (range_map pb_openPositions
      (\<lambda>symbol pos pb.
        closePositionInternalWithOrder ord now pos (emergency_price symbol pos pb) None pb) ks pb1) \<and>
      positions_wf (range_map pb_openPositions
      (\<lambda>symbol pos pb.
        closePositionInternalWithOrder ord now pos (emergency_price symbol pos pb) None pb) ks pb1)" for ks
    by (rule range_map_inv) (use 1 in \<open>auto intro: accounted_close positions_wf_close\<close>)
  then show ?thesis
    by (simp add: EmergencyCloseAll_def Let_def pb1_def [symmetric] accounted_def)
qed

text \<open>
  C4: after \<open>EmergencyCloseAll\<close>, in any iteration order, no position is open and no order rests,
  every position that was open is recorded as closed, and the halt is kept.
\<close>

theorem emergency_close_all_flat:
  assumes "safe_reachable cfg pb"
  shows "pb_openPositions (EmergencyCloseAll ord now pb) = [] \<and>
         pb_openOrders (EmergencyCloseAll ord now pb) = [] \<and>
         pb_halted (EmergencyCloseAll ord now pb) = pb_halted pb \<and>
         (\<forall>s p. map_of (pb_openPositions pb) s = Some p \<longrightarrow>
            (\<exists>q \<in> set (pb_closedPositions (EmergencyCloseAll ord now pb)).
               p_ID q = p_ID p \<and> p_Symbol q = s \<and> p_Status q = PositionStatusClosed))"
proof -
  have wf: "positions_wf pb" using brk_invD(2) [OF safe_reachable_inv [OF assms]] .
  then show ?thesis
    using EmergencyCloseAll_clears [OF wf, of ord now] EmergencyCloseAll_accounts [OF wf, of ord now]
    by (auto simp: clearing_def accounted_def)
qed

theorem emergency_close_all_flat_witness:
  "pb_openPositions demo_open \<noteq> [] \<and> pb_openPositions (EmergencyCloseAll [] 1 demo_open) = []"
  using emergency_close_all_flat [OF demo_open_reachable, of "[]" 1] demo_open_position by auto

section \<open>Daily loss and audit trail\<close>

lemma safe_step_cases: "safe_step pb pb' \<Longrightarrow> broker_step pb pb'"
  by (induction rule: safe_step.induct) (blast intro: broker_step.intros)+

lemma safe_reachable_loss:
  "safe_reachable cfg pb \<Longrightarrow> is_f64 (pb_dailyLoss pb) \<and> Fin 0 \<le> pb_dailyLoss pb"
proof (induction rule: safe_reachable.induct)
  case safe_init
  then show ?case by (simp add: NewPaperBroker_def is_f64_Fin)
next
  case (safe_next pb pb')
  from loss.R_broker_call [OF safe_step_cases [OF safe_next.hyps(2)]] show ?case
  proof
    assume "loss_grows pb pb'"
    then show ?thesis using safe_next.IH by (auto simp: loss_grows_def intro: f64_le_trans)
  qed (simp add: ResetDailyLoss_def is_f64_Fin)
qed

text \<open>
  Between two resets the daily loss never decreases, whatever is called on the broker and in
  whatever order; it is a non-negative number (not NaN) in every reachable state.
\<close>

theorem daily_loss_monotone:
  assumes "safe_reachable cfg pb" and "(\<lambda>a b. broker_step a b \<and> b \<noteq> ResetDailyLoss a)\<^sup>*\<^sup>* pb pb'"
  shows "Fin 0 \<le> pb_dailyLoss pb \<and> pb_dailyLoss pb \<le> pb_dailyLoss pb'"
proof -
  from assms(2) have "loss_grows pb pb'"
    by (induction rule: rtranclp_induct) (auto intro: loss.R_refl loss.R_trans dest: loss.R_broker_call)
  then show ?thesis using safe_reachable_loss [OF assms(1)] by (simp add: loss_grows_def)
qed

text \<open>
  No call rewrites the audit trail. Closed positions and the calls made to the repositories are
  only appended, and the order, position and execution counters never go back, so no identifier is
  given out twice.
\<close>

theorem audit_trail_append_only:
  assumes "broker_step\<^sup>*\<^sup>* pb pb'"
  shows "prefix (pb_closedPositions pb) (pb_closedPositions pb') \<and> prefix (pb_log pb) (pb_log pb') \<and>
    pb_nextOrderID pb \<le> pb_nextOrderID pb' \<and> pb_nextPositionID pb \<le> pb_nextPositionID pb' \<and>
    pb_nextExecID pb \<le> pb_nextExecID pb'"
  using audit.R_broker_steps [OF assms] by (simp add: audit_grows_def)

theorem audit_trail_append_only_witness:
  "prefix (pb_log demo_open) (pb_log (fst (ClosePosition [] 9 ''BTCUSDT'' demo_open)))"
  using audit_trail_append_only [of demo_open "fst (ClosePosition [] 9 ''BTCUSDT'' demo_open)"]
  by (blast intro: step_close)

section \<open>Stops and candles\<close>

text \<open>A loop in which a single entry acts, and after which nothing is left to act on.\<close>

lemma range_map_once:
  assumes "k0 \<in> set ks" and "map_of (get s) k0 = Some v0"
    and "\<And>k v. map_of (get s) k = Some v \<Longrightarrow> k \<noteq> k0 \<Longrightarrow> body k v s = s"
    and "\<And>k v. map_of (get (body k0 v0 s)) k = Some v \<Longrightarrow> body k v (body k0 v0 s) = body k0 v0 s"
  shows "range_map get body ks s = body k0 v0 s"
proof -
  have id: "range_map get body ks' (body k0 v0 s) = body k0 v0 s" for ks'
    using assms(4) by (induction ks') (auto split: option.split)
  show ?thesis
    using assms(1-3)
  proof (induction ks)
    case (Cons k ks)
    then show ?case
      by (cases "k = k0") (auto simp: id split: option.split)
  qed simp
qed

lemma range_map_id:
  assumes "\<And>k v. map_of (get s) k = Some v \<Longrightarrow> body k v s = s"
  shows "range_map get body ks s = s"
  using assms by (induction ks) (auto split: option.split)

text \<open>No limit order of the candle's symbol rests.\<close>

definition no_limit_orders :: "string \<Rightarrow> paper_broker \<Rightarrow> bool" where
  "no_limit_orders s pb \<longleftrightarrow>
    (\<forall>k order. map_of (pb_openOrders pb) k = Some order \<longrightarrow> o_Symbol order = s \<longrightarrow>
       o_OrderType order \<noteq> OrderTypeLimit)"

lemma limit_pass_id:
  "no_limit_orders (c_Symbol c) pb \<Longrightarrow> limit_pass ord c now pb = pb"
  unfolding limit_pass_def by (rule range_map_id) (auto simp: no_limit_orders_def)

lemma SetSymbolPrice_sel [simp]:
  "pb_openOrders (SetSymbolPrice s x pb) = pb_openOrders pb"
  "pb_openPositions (SetSymbolPrice s x pb) = pb_openPositions pb"
  "pb_closedPositions (SetSymbolPrice s x pb) = pb_closedPositions pb"
  "pb_cfg (SetSymbolPrice s x pb) = pb_cfg pb"
  by (simp_all add: SetSymbolPrice_def)

lemma candle_pass_stop:
  assumes k: "map_of (pb_openOrders pb) k = Some order" and p: "map_of (pb_openPositions pb) s = Some p"
    and wf: "p_Symbol p = s"
    and ord: "o_Symbol order = s" "o_OrderType order = OrderTypeStopMarket" "stop_crossed c order"
    and uniq: "\<And>k' order'. map_of (pb_openOrders pb) k' = Some order' \<Longrightarrow> o_Symbol order' = s \<Longrightarrow>
        o_OrderType order' = OrderTypeStopMarket \<Longrightarrow> k' = k"
  shows "candle_pass ord' OrderTypeStopMarket s c now pb =
    (del_order k (triggerProtectiveOrder ord' now order (stop_of order) pb), True)"
proof -
  let ?s1 = "(del_order k (triggerProtectiveOrder ord' now order (stop_of order) pb), True)"
  have sub: "map_of (pb_openOrders pb) k' = Some order' \<and> k' \<noteq> k"
    if "map_of (pb_openOrders (fst ?s1)) k' = Some order'" for k' order'
    using that p ord by (auto simp: triggerProtectiveOrder_def split: option.splits if_splits)
  have step: "candle_step ord' OrderTypeStopMarket s c now k order (pb, False) = ?s1"
    using ord by (simp add: candle_step_def)
  have "range_map (\<lambda>s. pb_openOrders (fst s)) (candle_step ord' OrderTypeStopMarket s c now)
      (iter_keys ord' (pb_openOrders pb)) (pb, False) =
      candle_step ord' OrderTypeStopMarket s c now k order (pb, False)"
  proof (rule range_map_once)
    show "k \<in> set (iter_keys ord' (pb_openOrders pb))" using k unfolding in_iter_keys by simp
    show "map_of (pb_openOrders (fst (pb, False))) k = Some order" using k by simp
    show "candle_step ord' OrderTypeStopMarket s c now k' v (pb, False) = (pb, False)"
      if "map_of (pb_openOrders (fst (pb, False))) k' = Some v" "k' \<noteq> k" for k' v
    proof -
      have "\<not> (o_Symbol v = s \<and> o_OrderType v = OrderTypeStopMarket \<and> stop_crossed c v)"
        using that uniq [of k' v] by auto
      then show ?thesis unfolding candle_step_def by (rule if_not_P)
    qed
    show "candle_step ord' OrderTypeStopMarket s c now k' v
        (candle_step ord' OrderTypeStopMarket s c now k order (pb, False)) =
        candle_step ord' OrderTypeStopMarket s c now k order (pb, False)"
      if "map_of (pb_openOrders (fst (candle_step ord' OrderTypeStopMarket s c now k order (pb, False)))) k' = Some v"
      for k' v
    proof -
      have "\<not> (o_Symbol v = s \<and> o_OrderType v = OrderTypeStopMarket \<and> stop_crossed c v)"
        using that sub [of k' v] uniq [of k' v] unfolding step by blast
      then show ?thesis unfolding step unfolding candle_step_def by (rule if_not_P)
    qed
  qed
  then show ?thesis by (simp add: candle_pass_def step)
qed

text \<open>
  When a candle's range covers the stop of a position, the position is closed at the stop and
  at nothing else, even if the candle covers its take-profit too: the exit is the first thing that
  happens, in any iteration order, and the account is settled with it.
\<close>

theorem candle_stop_loss_first:
  assumes "safe_reachable cfg pb" and "map_of (pb_openPositions pb) (c_Symbol c) = Some p"
    and "map_of (pb_openOrders pb) k = Some order" and "o_Symbol order = c_Symbol c"
    and "o_OrderType order = OrderTypeStopMarket"
    and "\<forall>k' order'. map_of (pb_openOrders pb) k' = Some order' \<longrightarrow> o_Symbol order' = c_Symbol c \<longrightarrow>
        o_OrderType order' = OrderTypeStopMarket \<longrightarrow> k' = k"
    and "no_limit_orders (c_Symbol c) pb"
    and "o_StopPrice order = Some stop" and "c_Low c \<le> stop" and "stop \<le> c_High c"
  shows "map_of (pb_openPositions (ProcessCandle ord now c pb)) (c_Symbol c) = None \<and>
    pb_closedPositions (ProcessCandle ord now c pb) =
      pb_closedPositions pb @ [closed_position now (exit_pnl (pb_cfg pb) p stop) p] \<and>
    pb_balance (ProcessCandle ord now c pb) = pb_balance pb + exit_pnl (pb_cfg pb) p stop"
proof -
  let ?pb0 = "SetSymbolPrice (c_Symbol c) (c_Close c) pb"
  have ps: "p_Symbol p = c_Symbol c"
    using positions_wfD [OF brk_invD(2) [OF safe_reachable_inv [OF assms(1)]] assms(2)] .
  have l: "limit_pass ord c now ?pb0 = ?pb0"
    using assms(7) by (intro limit_pass_id) (simp add: no_limit_orders_def)
  have x: "stop_crossed c order" "stop_of order = stop"
    using assms(8-10) by (simp_all add: stop_crossed_def stop_of_def candleCrossesPrice_def)
  have cp: "candle_pass ord OrderTypeStopMarket (c_Symbol c) c now ?pb0 =
      (del_order k (triggerProtectiveOrder ord now order (stop_of order) ?pb0), True)"
  proof (rule candle_pass_stop)
    show "map_of (pb_openOrders ?pb0) k = Some order" using assms(3) by simp
    show "map_of (pb_openPositions ?pb0) (c_Symbol c) = Some p" using assms(2) by simp
    show "k' = k" if "map_of (pb_openOrders ?pb0) k' = Some order'" "o_Symbol order' = c_Symbol c"
      "o_OrderType order' = OrderTypeStopMarket" for k' order'
      using that assms(6) unfolding SetSymbolPrice_sel by blast
  qed (fact ps assms(4) assms(5) x(1))+
  have "ProcessCandle ord now c pb = del_order k (triggerProtectiveOrder ord now order stop ?pb0)"
    by (simp add: ProcessCandle_def l checkProtectiveOrdersCandle_def cp x)
  then show ?thesis
    using assms(2,4) ps
    by (simp add: triggerProtectiveOrder_def del_order_def) (simp add: SetSymbolPrice_def)
qed

lemma demo_stop_sel:
  "o_Symbol demo_stop = ''BTCUSDT''" "o_OrderType demo_stop = OrderTypeStopMarket"
  "o_StopPrice demo_stop = Some (Fin 90)" "o_ID demo_stop = 2"
  by (simp_all add: demo_stop_def demo_order_def)

definition demo_candle :: "f64 \<Rightarrow> f64 \<Rightarrow> candle" where
  "demo_candle lo hi =
    \<lparr> c_Symbol = ''BTCUSDT'', c_Timeframe = ''5m'', c_OpenTime = 0, c_Open = Fin 100, c_High = hi,
      c_Low = lo, c_Close = lo, c_Volume = Fin 10, c_TurnOver = Fin 1000, c_Confirmed = True \<rparr>"

lemma demo_stop_key: "map_of (pb_openOrders demo_open) ''paper-2'' = Some demo_stop"
  by (simp add: demo_open_maps)

lemma demo_orders_quantified:
  "\<forall>k' order'. map_of (pb_openOrders demo_open) k' = Some order' \<longrightarrow> o_Symbol order' = s \<longrightarrow>
     o_OrderType order' = OrderTypeStopMarket \<longrightarrow> k' = ''paper-2''"
  "no_limit_orders s demo_open"
  by (auto simp: no_limit_orders_def demo_open_maps demo_stop_def demo_order_def)

theorem candle_stop_loss_first_witness:
  "map_of (pb_openPositions (ProcessCandle [''paper-3''] 7 (demo_candle (Fin 85) (Fin 125)) demo_open))
     ''BTCUSDT'' = None"
proof -
  let ?c = "demo_candle (Fin 85) (Fin 125)"
  have c: "c_Symbol ?c = ''BTCUSDT''" "c_Low ?c = Fin 85" "c_High ?c = Fin 125"
    by (simp_all add: demo_candle_def)
  have "Fin 85 \<le> Fin 90" and "Fin 90 \<le> Fin 125" by simp_all
  from candle_stop_loss_first [of demo_cfg demo_open ?c demo_position "''paper-2''" demo_stop "Fin 90"
      "[''paper-3'']" 7, unfolded c, OF demo_open_reachable demo_open_position demo_stop_key
      demo_stop_sel(1,2) demo_orders_quantified demo_stop_sel(3) this]
  show ?thesis by (rule conjunct1)
qed

text \<open>
  A candle that opens beyond a stop does not trigger it. When the whole range of the candle is
  on the far side of every resting stop and take-profit of its symbol (below the stop of a long
  position, for instance), nothing happens but the price update: the position stays open at a
  price its stop should have prevented.
\<close>

theorem gapped_candle_skips_stop:
  assumes "no_limit_orders (c_Symbol c) pb"
    and "\<forall>k order stop. map_of (pb_openOrders pb) k = Some order \<longrightarrow> o_Symbol order = c_Symbol c \<longrightarrow>
        o_StopPrice order = Some stop \<longrightarrow> c_High c < stop"
  shows "ProcessCandle ord now c pb = SetSymbolPrice (c_Symbol c) (c_Close c) pb"
proof -
  let ?pb0 = "SetSymbolPrice (c_Symbol c) (c_Close c) pb"
  have l: "limit_pass ord c now ?pb0 = ?pb0"
    using assms(1) by (intro limit_pass_id) (simp add: no_limit_orders_def)
  have nc: "\<not> (o_Symbol order = c_Symbol c \<and> stop_crossed c order)"
    if "map_of (pb_openOrders pb) k = Some order" for k order
  proof (cases "o_StopPrice order")
    case (Some stop)
    show ?thesis
    proof
      assume "o_Symbol order = c_Symbol c \<and> stop_crossed c order"
      then have "stop \<le> c_High c" "c_High c < stop"
        using assms(2) that Some by (auto simp: stop_crossed_def candleCrossesPrice_def)
      then show False using f64_less_asym by blast
    qed
  qed (simp add: stop_crossed_def)
  have p: "candle_pass ord t (c_Symbol c) c now ?pb0 = (?pb0, False)" for t
    unfolding candle_pass_def
    by (rule range_map_id) (use nc in \<open>auto simp: candle_step_def\<close>)
  show ?thesis by (simp add: ProcessCandle_def l checkProtectiveOrdersCandle_def p)
qed

theorem gapped_candle_skips_stop_witness:
  "ProcessCandle [] 7 (demo_candle (Fin 60) (Fin 70)) demo_open =
     SetSymbolPrice ''BTCUSDT'' (Fin 60) demo_open"
proof -
  have "\<forall>k order stop. map_of (pb_openOrders demo_open) k = Some order \<longrightarrow>
      o_Symbol order = c_Symbol (demo_candle (Fin 60) (Fin 70)) \<longrightarrow>
      o_StopPrice order = Some stop \<longrightarrow> c_High (demo_candle (Fin 60) (Fin 70)) < stop"
    by (auto simp: demo_open_maps demo_stop_def demo_order_def demo_candle_def)
  from gapped_candle_skips_stop [OF demo_orders_quantified(2) this, of "[]" 7]
  show ?thesis by (simp add: demo_candle_def)
qed

section \<open>Fills\<close>

lemma createProtective_position:
  assumes "createProtectiveOrdersForPosition ord now pos sl tp pb = (pb', pos', True)"
    and "map_of (pb_openPositions pb) (p_Symbol pos) = Some pos"
  shows "same_position pos' pos \<and> p_OpenedAt pos' = p_OpenedAt pos \<and> p_Status pos' = p_Status pos"
  using assms
  by (auto simp: createProtectiveOrdersForPosition_def add_SL_def add_TP_def Let_def
      same_position_def split: if_splits)

text \<open>The account after a close of the symbol's previous position, if there is one.\<close>

definition after_replacement ::
  "string list \<Rightarrow> time \<Rightarrow> string \<Rightarrow> f64 \<Rightarrow> paper_broker \<Rightarrow> paper_broker" where
  "after_replacement ord now s fillPrice pb =
    (case map_of (pb_openPositions pb) s of
       None \<Rightarrow> pb
     | Some pos \<Rightarrow> closePositionInternalWithOrder ord now pos fillPrice None pb)"

text \<open>
  A market entry that succeeds opens exactly the position asked for: at the last price worsened
  by the configured slippage in the order's direction, of the requested size, with the margin that
  price and the leverage imply and the requested levels, in place of any previous position of the
  symbol, which is closed at the same price first.
\<close>

theorem market_entry_fills:
  assumes "PlaceOrder ord now req pb = (pb', order, None)" and "rq_OrderType req = OrderTypeMarket"
    and "\<not> rq_ReduceOnly req"
  shows "\<exists>price p. usable_price (rq_Symbol req) pb = Some price \<and>
    map_of (pb_openPositions pb') (rq_Symbol req) = Some p \<and>
    p_EntryPrice p = market_fill_price (pb_cfg pb) (rq_Side req) price \<and>
    p_Side p = sideFromOrderSide (rq_Side req) \<and> p_Size p = rq_Qty req \<and>
    p_Margin p = p_EntryPrice p * rq_Qty req / pc_DefaultLeverage (pb_cfg pb) \<and>
    p_StopLoss p = rq_StopLoss req \<and> p_TakeProfit p = rq_TakeProfit req \<and>
    p_Symbol p = rq_Symbol req \<and> o_Status order = OrderStatusFilled \<and> o_ID order = pb_nextOrderID pb \<and>
    prefix (pb_closedPositions (after_replacement ord now (rq_Symbol req) (p_EntryPrice p) pb))
      (pb_closedPositions pb')"
proof -
  let ?pb1 = "pb\<lparr>pb_nextOrderID := pb_nextOrderID pb + 1\<rparr>"
  let ?o = "new_order now req (pb_nextOrderID pb)"
  have pm: "place_market ord now req ?o ?pb1 = (pb', order, None)"
    using assms(1,2) by (simp add: PlaceOrder_def Let_def split: option.splits)
  then obtain price where pr: "usable_price (rq_Symbol req) ?pb1 = Some price"
    by (cases "usable_price (rq_Symbol req) ?pb1") (auto simp: place_market_def)
  define f where "f = market_fill_price (pb_cfg pb) (rq_Side req) price"
  define m where "m = f * rq_Qty req / pc_DefaultLeverage (pb_cfg pb)"
  define b where "b = after_replacement ord now (rq_Symbol req) f ?pb1"
  obtain fee slip where om: "open_market_position ord now req ?o f fee m slip b = (pb', order, None)"
    using pm pr assms(3)
    by (auto simp: place_market_def Let_def f_def m_def b_def after_replacement_def
        split: option.splits if_splits)
  define pos where "pos = new_position now (pb_cfg b) (pb_nextPositionID b) (rq_Symbol req)
      (rq_Side req) f (rq_Qty req) m"
  let ?b1 = "register_position pos fee (slip * rq_Qty req) b"
  obtain b2 p2 ok where c: "(if Fin 0 < rq_StopLoss req \<or> Fin 0 < rq_TakeProfit req
      then createProtectiveOrdersForPosition ord now pos (rq_StopLoss req) (rq_TakeProfit req) ?b1
      else (?b1, pos, True)) = (b2, p2, ok)" by (metis prod_cases3)
  have ok: "ok" and order: "order = ?o\<lparr>o_Status := OrderStatusFilled, o_UpdatedAt := now\<rparr>"
    and pb': "pb' = persist_entry now (SaveOrder order) order
        (p2\<lparr>p_StopLoss := rq_StopLoss req, p_TakeProfit := rq_TakeProfit req\<rparr>) f fee slip
        (put_position (p2\<lparr>p_StopLoss := rq_StopLoss req, p_TakeProfit := rq_TakeProfit req\<rparr>) b2)"
    using om c unfolding open_market_position_def pos_def [symmetric] Let_def by (auto split: if_splits)
  have p2: "same_position p2 pos"
    using c ok createProtective_position [of ord now pos "rq_StopLoss req" "rq_TakeProfit req" ?b1 b2 p2]
    by (auto simp: register_position_def split: if_splits)
  have "audit_grows b pb'"
    using audit.R_open_market [of b ord now req ?o f fee m slip] om by simp
  moreover have "pb_closedPositions b = pb_closedPositions (after_replacement ord now (rq_Symbol req) f pb)"
    by (simp add: b_def after_replacement_def split: option.split)
  ultimately show ?thesis
    using pr p2 unfolding audit_grows_def
    by (intro exI [of _ price] exI [of _ "p2\<lparr>p_StopLoss := rq_StopLoss req, p_TakeProfit := rq_TakeProfit req\<rparr>"])
      (simp add: pb' order persist_entry_def same_position_def pos_def f_def m_def usable_price_def new_order_def)
qed

lemma demo_open_PlaceOrder: "PlaceOrder [] 0 demo_entry demo_priced =
    (demo_open, fst (snd (PlaceOrder [] 0 demo_entry demo_priced)), None)"
proof -
  have "snd (snd (PlaceOrder [] 0 demo_entry demo_priced)) = None" by code_simp
  then show ?thesis by (simp add: demo_open_def prod_eq_iff)
qed

theorem market_entry_fills_witness:
  "\<exists>price p. usable_price ''BTCUSDT'' demo_priced = Some price \<and>
    map_of (pb_openPositions demo_open) ''BTCUSDT'' = Some p \<and>
    p_EntryPrice p = market_fill_price demo_cfg OrderSideBuy price \<and> p_Size p = Fin 2"
  using market_entry_fills [OF demo_open_PlaceOrder]
  by (auto simp: demo_entry_def demo_priced_def SetSymbolPrice_def NewPaperBroker_def)

section \<open>Gaps in the protection\<close>

text \<open>
  A reduce-only market order on a symbol without a position is not refused and does not
  reduce anything: it opens a position, with no stop-loss and no order to protect it.
\<close>

theorem reduce_only_opens_naked_position:
  assumes "rq_ReduceOnly req" and "rq_OrderType req = OrderTypeMarket"
    and "rq_StopLoss req = Fin 0" and "rq_TakeProfit req = Fin 0"
    and "\<not> rq_Qty req \<le> Fin 0" and "rq_Symbol req \<noteq> ''''"
    and "map_of (pb_openPositions pb) (rq_Symbol req) = None"
    and "usable_price (rq_Symbol req) pb = Some price"
    and "notional = market_fill_price (pb_cfg pb) (rq_Side req) price * rq_Qty req"
    and "\<not> pb_balance pb - pb_usedMargin pb
          < notional / pc_DefaultLeverage (pb_cfg pb) + notional * pc_FeeTakerBps (pb_cfg pb) / Fin 10000"
  shows "\<exists>pb' order p. PlaceOrder ord now req pb = (pb', order, None) \<and>
    map_of (pb_openPositions pb') (rq_Symbol req) = Some p \<and> p_SLOrderID p = None \<and>
    p_StopLoss p = Fin 0 \<and> pb_openOrders pb' = pb_openOrders pb"
proof -
  have pr: "map_of (pb_prices pb) (rq_Symbol req) = Some price" "\<not> price \<le> Fin 0"
    using assms(8) by (auto simp: usable_price_def split: option.splits if_splits)
  have g: "place_guard req pb = None"
    using assms(1,2,5,6) by (simp add: place_guard_def)
  show ?thesis
    using assms(1-4,7,10) pr
    by (simp add: PlaceOrder_def g Let_def place_market_def usable_price_def open_market_position_def
        assms(9) [symmetric] register_position_def persist_entry_def new_position_def zero_position_def)
qed

theorem reduce_only_opens_naked_position_witness:
  "\<exists>pb' order p. PlaceOrder [] 1 (demo_entry\<lparr>rq_ReduceOnly := True, rq_StopLoss := Fin 0,
      rq_TakeProfit := Fin 0\<rparr>) demo_priced = (pb', order, None) \<and>
    map_of (pb_openPositions pb') ''BTCUSDT'' = Some p \<and> p_SLOrderID p = None"
proof -
  have "\<not> pb_balance demo_priced - pb_usedMargin demo_priced
      < Fin (425 / 4) * Fin 2 / pc_DefaultLeverage demo_cfg
        + Fin (425 / 4) * Fin 2 * pc_FeeTakerBps demo_cfg / Fin 10000" by code_simp
  moreover have "market_fill_price demo_cfg OrderSideBuy (Fin 100) = Fin (425 / 4)" by code_simp
  ultimately show ?thesis
    using reduce_only_opens_naked_position [of "demo_entry\<lparr>rq_ReduceOnly := True, rq_StopLoss := Fin 0,
        rq_TakeProfit := Fin 0\<rparr>" demo_priced "Fin 100" "Fin (425 / 4) * Fin 2" "[]" 1]
    by (auto simp: demo_entry_def demo_priced_def SetSymbolPrice_def NewPaperBroker_def usable_price_def)
qed

text \<open>
  Replacing the levels of a long position by a stop that is not below its entry price is
  answered with an error, but only after the old stop and take-profit have been cancelled: the
  position stays open and no order of its own protects it any more.
\<close>

theorem SetProtectiveOrders_error_strips_stop:
  assumes "map_of (pb_openPositions pb) s = Some p" and "p_Symbol p = s" and "p_Side p = SideLong"
    and "Fin 0 < sl" and "p_EntryPrice p \<le> sl"
    and "SetProtectiveOrders ord now s sl tp pb = (pb', err)"
  shows "err = Some LongSLNotBelowEntry \<and> map_of (pb_openPositions pb') s = Some p \<and>
    (\<forall>k order. map_of (pb_openOrders pb') k = Some order \<longrightarrow> o_Symbol order = s \<longrightarrow>
       p_SLOrderID p \<noteq> Some (o_ID order) \<and> p_TPOrderID p \<noteq> Some (o_ID order))"
proof -
  have "pb' = cancelSiblingOrders ord now p pb" "err = Some LongSLNotBelowEntry"
    using assms f64_less_asym [OF assms(4)]
    by (simp_all add: SetProtectiveOrders_def protective_levels_error_def Let_def)
  then show ?thesis
    using assms(1,2) by (auto simp: is_sibling_def derefInt64_def split: option.splits if_splits)
qed

theorem SetProtectiveOrders_error_strips_stop_witness:
  "\<exists>pb' err. SetProtectiveOrders [] 1 ''BTCUSDT'' (Fin 107) (Fin 0) demo_open = (pb', err) \<and>
     map_of (pb_openPositions pb') ''BTCUSDT'' = Some demo_position \<and>
     (\<forall>k order. map_of (pb_openOrders pb') k = Some order \<longrightarrow> o_Symbol order = ''BTCUSDT'' \<longrightarrow>
        p_SLOrderID demo_position \<noteq> Some (o_ID order))"
proof -
  obtain pb' err where r: "SetProtectiveOrders [] 1 ''BTCUSDT'' (Fin 107) (Fin 0) demo_open = (pb', err)"
    by fastforce
  from SetProtectiveOrders_error_strips_stop [OF demo_open_position _ _ _ _ r]
  show ?thesis using r by (auto simp: demo_position_def)
qed

text \<open>
  Closing a position books its result into the balance but leaves the unrealized profit as the
  last price update computed it, with the position in it: the equity the account reports counts
  the closed position twice.
\<close>

theorem close_counts_pnl_twice:
  assumes "ClosePosition ord now s pb = (pb', None)" and "map_of (pb_openPositions pb) s = Some p"
    and "usable_price s pb = Some price"
  shows "a_Equity (GetAccountState now pb') =
      (pb_balance pb + exit_pnl (pb_cfg pb) p price) + pb_unrealizedPnL pb \<and>
    a_UnrealizedPnL (GetAccountState now pb') = a_UnrealizedPnL (GetAccountState now pb)"
  using assms by (auto simp: ClosePosition_def GetAccountState_def)

theorem close_counts_pnl_twice_witness:
  "\<exists>pb'. ClosePosition [] 1 ''BTCUSDT'' (UpdatePrice [] 1 ''BTCUSDT'' (Fin 100) demo_open) = (pb', None) \<and>
     pb_openPositions pb' = [] \<and> a_UnrealizedPnL (GetAccountState 1 pb') = Fin (- (25 / 2))"
proof -
  let ?b = "UpdatePrice [] 1 ''BTCUSDT'' (Fin 100) demo_open"
  have b: "map_of (pb_openPositions ?b) ''BTCUSDT'' \<noteq> None \<and> usable_price ''BTCUSDT'' ?b = Some (Fin 100) \<and>
      pb_unrealizedPnL ?b = Fin (- (25 / 2)) \<and> length (pb_openPositions ?b) = 1" by code_simp
  obtain p where p: "map_of (pb_openPositions ?b) ''BTCUSDT'' = Some p" using b by auto
  have l: "pb_openPositions ?b = [(''BTCUSDT'', p)]"
    using b p by (cases "pb_openPositions ?b") (auto split: if_splits)
  have inv: "p_Symbol p = ''BTCUSDT''"
    using positions_wfD [OF brk_invD(2) [OF brk_inv_UpdatePrice [OF safe_reachable_inv [OF demo_open_reachable]]] p] .
  let ?r = "fst (ClosePosition [] 1 ''BTCUSDT'' ?b)"
  have r: "ClosePosition [] 1 ''BTCUSDT'' ?b = (?r, None)" using b p by (simp add: ClosePosition_def)
  have "a_UnrealizedPnL (GetAccountState 1 ?r) = pb_unrealizedPnL ?b"
    using close_counts_pnl_twice [OF r p, of "Fin 100"] b by (simp add: GetAccountState_def)
  moreover have "pb_openPositions ?r = []" using b p inv l by (simp add: ClosePosition_def)
  ultimately show ?thesis using r b by auto
qed

end
