(* ===== verification/Indicators.thy ===== *)
theory Indicators
  imports Domain
begin

text \<open>
  Technical indicators (\<open>internal/indicator\<close>): the candle validation every indicator starts with,
  EMA, RSI, MACD, ATR, volume average, swing points and the support and resistance levels
  clustered from them, Fibonacci context, and the snapshot that combines them. An \<open>error\<close> result
  of the code is an \<open>Inl\<close>.
\<close>

section \<open>Validation\<close>

datatype ind_error =
    EmptyCandleInput
  | InvalidCandleValues nat
  | NonMonotonicTimestamps nat
  | PeriodNotPositive string
  | InsufficientCandles string int int
  | MacdFastNotBelowSlow
  | InvalidCandleSpacing
  | SnapshotNotFinite

definition invalid :: "f64 \<Rightarrow> bool" where
  "invalid v \<longleftrightarrow> isNaN v \<or> isInf v \<or> v \<le> Fin 0"

definition invalid_candle :: "candle \<Rightarrow> bool" where
  "invalid_candle c \<longleftrightarrow>
    invalid (c_Open c) \<or> invalid (c_High c) \<or> invalid (c_Low c) \<or> invalid (c_Close c)
    \<or> invalid (c_Volume c)"

fun validate_from :: "nat \<Rightarrow> int \<Rightarrow> candle list \<Rightarrow> ind_error option" where
  "validate_from i prev [] = None"
| "validate_from i prev (c # cs) =
    (if invalid_candle c then Some (InvalidCandleValues i)
     else if 0 < i \<and> c_OpenTime c \<le> prev then Some (NonMonotonicTimestamps i)
     else validate_from (i + 1) (c_OpenTime c) cs)"

definition validateCandles :: "candle list \<Rightarrow> ind_error option" where
  "validateCandles candles =
    (case candles of [] \<Rightarrow> Some EmptyCandleInput
     | c # _ \<Rightarrow> validate_from 0 (c_OpenTime c) candles)"

definition with_valid :: "candle list \<Rightarrow> (ind_error + 'a) \<Rightarrow> ind_error + 'a" where
  "with_valid candles k = (case validateCandles candles of Some e \<Rightarrow> Inl e | None \<Rightarrow> k)"

abbreviation closes :: "candle list \<Rightarrow> f64 list" where
  "closes candles \<equiv> map c_Close candles"

section \<open>Moving averages\<close>

text \<open>\<open>ema = (x-ema)*mult + ema\<close> over the remaining values.\<close>

definition ema_step :: "f64 \<Rightarrow> f64 \<Rightarrow> f64 \<Rightarrow> f64" where
  "ema_step m ema x = (x - ema) * m + ema"

definition ComputeEMA :: "candle list \<Rightarrow> int \<Rightarrow> ind_error + f64" where
  "ComputeEMA candles period =
    guard_err (period \<le> 0) (PeriodNotPositive ''ema'')
    (guard_err (int (length candles) < period)
       (InsufficientCandles ''ema'' (int (length candles)) period)
    (with_valid candles
      (let seed = fsum (take (nat period) (closes candles)) / f64_of_int period;
           m = Fin 2 / f64_of_int (period + 1)
       in Inr (foldl (ema_step m) seed (drop (nat period) (closes candles))))))"

record volume_ma_result =
  vm_Period :: int
  vm_CurrentVolume :: f64
  vm_MA :: f64
  vm_Ratio :: f64

definition ComputeVolumeMA :: "candle list \<Rightarrow> int \<Rightarrow> ind_error + volume_ma_result" where
  "ComputeVolumeMA candles period =
    guard_err (period \<le> 0) (PeriodNotPositive ''volume ma'')
    (guard_err (int (length candles) < period)
       (InsufficientCandles ''volume ma'' (int (length candles)) period)
    (with_valid candles
      (let ma = fsum (map c_Volume (last_n period candles)) / f64_of_int period;
           current = c_Volume (last candles)
       in Inr \<lparr> vm_Period = period, vm_CurrentVolume = current, vm_MA = ma,
                vm_Ratio = (if Fin 0 < ma then current / ma else Fin 0) \<rparr>)))"

section \<open>ATR\<close>

definition max_step :: "f64 \<Rightarrow> f64 \<Rightarrow> f64" where
  "max_step tr v = (if tr < v then v else tr)"

definition trueRange :: "candle \<Rightarrow> f64 \<Rightarrow> f64" where
  "trueRange c prevClose =
    max_step (max_step (c_High c - c_Low c) \<bar>c_High c - prevClose\<bar>) \<bar>c_Low c - prevClose\<bar>"

text \<open>The true ranges of the last \<open>period\<close> candles, each against the close before it.\<close>

definition true_ranges :: "candle list \<Rightarrow> int \<Rightarrow> f64 list" where
  "true_ranges candles period =
    map2 (\<lambda>prev c. trueRange c (c_Close prev)) (last_n (period + 1) candles) (last_n period candles)"

definition ComputeATR :: "candle list \<Rightarrow> int \<Rightarrow> ind_error + f64" where
  "ComputeATR candles period =
    guard_err (period \<le> 0) (PeriodNotPositive ''atr'')
    (guard_err (int (length candles) < period + 1)
       (InsufficientCandles ''atr'' (int (length candles)) (period + 1))
    (with_valid candles
      (Inr (fsum (true_ranges candles period) / f64_of_int period))))"

section \<open>RSI\<close>

definition gain :: "f64 \<Rightarrow> f64" where
  "gain delta = (if Fin 0 < delta then delta else Fin 0)"

definition loss :: "f64 \<Rightarrow> f64" where
  "loss delta = (if Fin 0 < delta then Fin 0 else - delta)"

text \<open>First loop: only the branch taken adds to its sum.\<close>

definition rsi_sum :: "f64 \<times> f64 \<Rightarrow> f64 \<Rightarrow> f64 \<times> f64" where
  "rsi_sum s delta =
    (if Fin 0 < delta then (fst s + delta, snd s) else (fst s, snd s + - delta))"

text \<open>Second loop: Wilder's smoothing.\<close>

definition rsi_smooth :: "int \<Rightarrow> f64 \<times> f64 \<Rightarrow> f64 \<Rightarrow> f64 \<times> f64" where
  "rsi_smooth period s delta =
    ((fst s * f64_of_int (period - 1) + gain delta) / f64_of_int period,
     (snd s * f64_of_int (period - 1) + loss delta) / f64_of_int period)"

fun deltas :: "f64 list \<Rightarrow> f64 list" where
  "deltas (x # y # zs) = (y - x) # deltas (y # zs)"
| "deltas _ = []"

definition rsi_value :: "f64 \<Rightarrow> f64 \<Rightarrow> f64" where
  "rsi_value avgGain avgLoss =
    (if feq avgLoss (Fin 0) then (if feq avgGain (Fin 0) then Fin 50 else Fin 100)
     else Fin 100 - Fin 100 / (Fin 1 + avgGain / avgLoss))"

definition ComputeRSI :: "candle list \<Rightarrow> int \<Rightarrow> ind_error + f64" where
  "ComputeRSI candles period =
    guard_err (period \<le> 0) (PeriodNotPositive ''rsi'')
    (guard_err (int (length candles) < period + 1)
       (InsufficientCandles ''rsi'' (int (length candles)) (period + 1))
    (with_valid candles
      (let start = length candles - nat period - 1;
           ds = deltas (closes (drop start candles));
           acc = foldl rsi_sum (Fin 0, Fin 0) (take (nat period) ds);
           avg = (fst acc / f64_of_int period, snd acc / f64_of_int period);
           smoothed = foldl (rsi_smooth period) avg (drop (nat period) ds)
       in Inr (rsi_value (fst smoothed) (snd smoothed)))))"

section \<open>MACD\<close>

fun ema_run :: "f64 \<Rightarrow> f64 \<Rightarrow> f64 list \<Rightarrow> f64 list" where
  "ema_run m ema [] = []"
| "ema_run m ema (x # xs) = (let e = ema_step m ema x in e # ema_run m e xs)"

definition emaSeries :: "f64 list \<Rightarrow> int \<Rightarrow> f64 list" where
  "emaSeries values period =
    (if values = [] then []
     else if period \<le> 1 then values
     else
       let warm = min (nat period) (length values);
           ema = fsum (take warm values) / f64_of_int (int warm)
       in replicate warm ema @ ema_run (Fin 2 / f64_of_int (period + 1)) ema (drop warm values))"

record macd_result =
  mc_Line :: f64
  mc_Signal :: f64
  mc_Histogram :: f64
  mc_HistogramDirection :: string

definition histogram_direction :: "f64 \<Rightarrow> f64 \<Rightarrow> string" where
  "histogram_direction hist prevHist =
    (if prevHist < hist then ''up'' else if hist < prevHist then ''down'' else ''flat'')"

definition ComputeMACD :: "candle list \<Rightarrow> int \<Rightarrow> int \<Rightarrow> int \<Rightarrow> ind_error + macd_result" where
  "ComputeMACD candles fastPeriod slowPeriod signalPeriod =
    guard_err (fastPeriod \<le> 0 \<or> slowPeriod \<le> 0 \<or> signalPeriod \<le> 0) (PeriodNotPositive ''macd'')
    (guard_err (slowPeriod \<le> fastPeriod) MacdFastNotBelowSlow
    (guard_err (int (length candles) < slowPeriod + signalPeriod)
       (InsufficientCandles ''macd'' (int (length candles)) (slowPeriod + signalPeriod))
    (with_valid candles
      (let cs = closes candles;
           macdSeries = map2 (-) (emaSeries cs fastPeriod) (emaSeries cs slowPeriod);
           signalSeries = emaSeries macdSeries signalPeriod;
           n = length macdSeries;
           line = macdSeries ! (n - 1);
           signal = signalSeries ! (n - 1);
           hist = line - signal;
           prevHist = macdSeries ! (n - 2) - signalSeries ! (n - 2)
       in Inr \<lparr> mc_Line = line, mc_Signal = signal, mc_Histogram = hist,
                mc_HistogramDirection = histogram_direction hist prevHist \<rparr>))))"

section \<open>Swings, support and resistance\<close>

record swing_point =
  sw_Price :: f64
  sw_Timestamp :: time
  sw_Type :: string

definition unix_milli :: "int \<Rightarrow> time" where
  "unix_milli ms = ms * 10 ^ 6"

text \<open>Strict local extremum over the window of \<open>lookback\<close> candles on each side.\<close>

definition is_swing_high :: "candle list \<Rightarrow> nat \<Rightarrow> nat \<Rightarrow> bool" where
  "is_swing_high cs lb i \<longleftrightarrow>
    list_all (\<lambda>j. j = i \<or> \<not> c_High (cs ! i) \<le> c_High (cs ! j)) [i - lb..<i + lb + 1]"

definition is_swing_low :: "candle list \<Rightarrow> nat \<Rightarrow> nat \<Rightarrow> bool" where
  "is_swing_low cs lb i \<longleftrightarrow>
    list_all (\<lambda>j. j = i \<or> \<not> c_Low (cs ! j) \<le> c_Low (cs ! i)) [i - lb..<i + lb + 1]"

definition swings_at :: "candle list \<Rightarrow> nat \<Rightarrow> nat \<Rightarrow> swing_point list" where
  "swings_at cs lb i =
    (let ts = unix_milli (c_OpenTime (cs ! i))
     in (if is_swing_high cs lb i
         then [\<lparr> sw_Price = c_High (cs ! i), sw_Timestamp = ts, sw_Type = ''high'' \<rparr>] else []) @
        (if is_swing_low cs lb i
         then [\<lparr> sw_Price = c_Low (cs ! i), sw_Timestamp = ts, sw_Type = ''low'' \<rparr>] else []))"

definition DetectSwings :: "candle list \<Rightarrow> int \<Rightarrow> int \<Rightarrow> ind_error + swing_point list" where
  "DetectSwings candles lookback recentCount =
    guard_err (lookback \<le> 0) (PeriodNotPositive ''swing lookback'')
    (guard_err (recentCount \<le> 0) (PeriodNotPositive ''swing recent count'')
    (guard_err (int (length candles) < lookback * 2 + 1)
       (InsufficientCandles ''swing'' (int (length candles)) (lookback * 2 + 1))
    (with_valid candles
      (let lb = nat lookback;
           points = concat (map (swings_at candles lb) [lb..<length candles - lb])
       in Inr (last_n recentCount points)))))"

text \<open>A cluster is its sum, its size and its last level.\<close>

fun add_cluster :: "f64 \<Rightarrow> (f64 \<times> int \<times> f64) list \<Rightarrow> f64 \<Rightarrow> (f64 \<times> int \<times> f64) list" where
  "add_cluster tol [] level = [(level, 1, level)]"
| "add_cluster tol ((s, n, lst) # rest) level =
    (if \<bar>level - lst\<bar> \<le> tol then (s + level, n + 1, level) # rest
     else (level, 1, level) # (s, n, lst) # rest)"

text \<open>The current cluster is kept first, so the list is reversed at the end.\<close>

definition clusterLevels :: "f64 list \<Rightarrow> f64 \<Rightarrow> f64 list" where
  "clusterLevels levels tolerance =
    map (\<lambda>(s, n, lst). s / f64_of_int n)
      (rev (foldl (add_cluster tolerance) [] (insertion_sort float_less levels)))"

definition nearest_first :: "f64 \<Rightarrow> f64 list \<Rightarrow> f64 list" where
  "nearest_first lastPrice levels =
    take 3 (insertion_sort (\<lambda>x y. \<bar>lastPrice - x\<bar> < \<bar>lastPrice - y\<bar>) levels)"

definition BuildSupportResistance ::
  "swing_point list \<Rightarrow> f64 \<Rightarrow> f64 \<Rightarrow> f64 \<Rightarrow> f64 list \<times> f64 list" where
  "BuildSupportResistance swings lastPrice atr toleranceATR =
    (if swings = [] \<or> lastPrice \<le> Fin 0 \<or> atr \<le> Fin 0 then ([], [])
     else
       let tolATR = (if toleranceATR \<le> Fin 0 then Fin 1 else toleranceATR);
           tol = atr * tolATR
       in if tol \<le> Fin 0 then ([], [])
          else
            let prices = [x \<leftarrow> map sw_Price swings. \<not> x \<le> Fin 0];
                below = [x \<leftarrow> prices. x \<le> lastPrice];
                above = [x \<leftarrow> prices. \<not> x \<le> lastPrice]
            in (nearest_first lastPrice (clusterLevels below tol),
                nearest_first lastPrice (clusterLevels above tol)))"

section \<open>Fibonacci context\<close>

record fibonacci_context =
  fc_SwingHigh :: f64
  fc_SwingLow :: f64
  fc_ImpulseDirection :: string
  fc_Fib05 :: f64
  fc_Fib0618 :: f64
  fc_Fib0786 :: f64
  fc_CurrentPrice :: f64
  fc_ZoneLabel :: string
  fc_DistanceToNearestFibPct :: f64
  fc_Valid :: bool
  fc_ReasonCodes :: "string list"

definition invalid_fibonacci :: "string \<Rightarrow> fibonacci_context" where
  "invalid_fibonacci code =
    \<lparr> fc_SwingHigh = Fin 0, fc_SwingLow = Fin 0, fc_ImpulseDirection = '''', fc_Fib05 = Fin 0,
      fc_Fib0618 = Fin 0, fc_Fib0786 = Fin 0, fc_CurrentPrice = Fin 0, fc_ZoneLabel = '''',
      fc_DistanceToNearestFibPct = Fin 0, fc_Valid = False, fc_ReasonCodes = [code] \<rparr>"

definition round2 :: "f64 \<Rightarrow> f64" where
  "round2 v = math_Round (v * Fin 100) / Fin 100"

text \<open>The nearest level so far: absolute distance, percentage distance, name.\<close>

definition nearest_step :: "f64 \<Rightarrow> f64 \<times> f64 \<times> string \<Rightarrow> f64 \<times> string \<Rightarrow> f64 \<times> f64 \<times> string" where
  "nearest_step price best level =
    (let dist = \<bar>price - fst level\<bar>
     in if dist < fst best then (dist, dist / price * Fin 100, snd level) else best)"

definition assignFibZone ::
  "f64 \<Rightarrow> f64 \<Rightarrow> f64 \<Rightarrow> f64 \<Rightarrow> side \<Rightarrow> f64 \<Rightarrow> string \<times> f64" where
  "assignFibZone price fib05 fib0618 fib0786 sd tolerancePct =
    (let (minDistAbs, minDistPct, nearest) =
           foldl (nearest_step price) (math_MaxFloat64, Fin 0, '''')
             [(fib05, ''in_0_5_zone''), (fib0618, ''in_0_618_zone''), (fib0786, ''in_0_786_zone'')];
         (highest, lowest) = (if sd = SideLong then (fib05, fib0786) else (fib0786, fib05))
     in if minDistPct \<le> tolerancePct then (nearest, minDistPct)
        else if highest < price then (''above_pullback_zone'', minDistPct)
        else if price < lowest then (''below_pullback_zone'', minDistPct)
        else (''unknown'', minDistPct))"

definition swing_range :: "candle list \<Rightarrow> f64 \<times> f64" where
  "swing_range window =
    foldl (\<lambda>(h, l) c. (max_step h (c_High c), if c_Low c < l then c_Low c else l))
      (Fin 0, math_MaxFloat64) window"

definition ComputeFibonacciContext ::
  "candle list \<Rightarrow> side \<Rightarrow> int \<Rightarrow> f64 \<Rightarrow> fibonacci_context" where
  "ComputeFibonacciContext candles sd lookback0 zoneTolerancePct0 =
    (let lookback = (if lookback0 \<le> 0 then 80 else lookback0);
         zoneTolerancePct = (if zoneTolerancePct0 < Fin 0 then Fin 0 else zoneTolerancePct0);
         confirmed = [c \<leftarrow> candles. c_Confirmed c]
     in if int (length confirmed) < lookback then invalid_fibonacci ''insufficient_closed_candles''
        else if validateCandles confirmed \<noteq> None then invalid_fibonacci ''invalid_candles''
        else
          let window = last_n lookback confirmed;
              (swingHigh, swingLow) = swing_range window
          in if invalid swingHigh \<or> invalid swingLow \<or> swingHigh \<le> swingLow
             then invalid_fibonacci ''flat_range''
             else
               let currentPrice = c_Close (last window)
               in if invalid currentPrice then invalid_fibonacci ''invalid_current_price''
                  else
                    let rangeVal = swingHigh - swingLow;
                        level = (\<lambda>r. if sd = SideLong then swingHigh - rangeVal * lit r
                                     else swingLow + rangeVal * lit r);
                        fib05 = level (1 / 2);
                        fib0618 = level (618 / 1000);
                        fib0786 = level (786 / 1000);
                        (zoneLabel, distPct) =
                          assignFibZone currentPrice fib05 fib0618 fib0786 sd zoneTolerancePct
                    in \<lparr> fc_SwingHigh = round2 swingHigh, fc_SwingLow = round2 swingLow,
                         fc_ImpulseDirection = (if sd = SideLong then ''up'' else ''down''),
                         fc_Fib05 = round2 fib05, fc_Fib0618 = round2 fib0618,
                         fc_Fib0786 = round2 fib0786, fc_CurrentPrice = round2 currentPrice,
                         fc_ZoneLabel = zoneLabel, fc_DistanceToNearestFibPct = round2 distPct,
                         fc_Valid = True, fc_ReasonCodes = [] \<rparr>)"

section \<open>The indicator snapshot\<close>

record snapshot_config =
  sn_EMA20Period :: int
  sn_EMA50Period :: int
  sn_EMA200Period :: int
  sn_RSIPeriod :: int
  sn_MACDFastPeriod :: int
  sn_MACDSlowPeriod :: int
  sn_MACDSignalPeriod :: int
  sn_ATRPeriod :: int
  sn_VolumeMAPeriod :: int
  sn_SwingLookback :: int
  sn_RecentSwingCount :: int
  sn_SupportResistanceATRTol :: f64

record ema_alignment =
  ea_EMA20AboveEMA50 :: bool
  ea_EMA50AboveEMA200 :: bool
  ea_PriceAboveEMA20 :: bool
  ea_PriceAboveEMA50 :: bool
  ea_PriceAboveEMA200 :: bool

record indicator_snapshot =
  is_Symbol :: string
  is_Timeframe :: string
  is_LastCloseTime :: time
  is_LastClosePrice :: f64
  is_EMA20 :: f64
  is_EMA50 :: f64
  is_EMA200 :: f64
  is_EMAAlignment :: ema_alignment
  is_RSI14 :: f64
  is_RSIState :: string
  is_MACD :: macd_result
  is_ATR14 :: f64
  is_ATRPct :: f64
  is_VolumeCurrent :: f64
  is_VolumeMA20 :: f64
  is_VolumeRatio :: f64
  is_RecentSwings :: "swing_point list"
  is_SupportLevels :: "f64 list"
  is_ResistanceLevels :: "f64 list"

definition DefaultSnapshotConfig :: snapshot_config where
  "DefaultSnapshotConfig =
    \<lparr> sn_EMA20Period = 20, sn_EMA50Period = 50, sn_EMA200Period = 200, sn_RSIPeriod = 14,
      sn_MACDFastPeriod = 12, sn_MACDSlowPeriod = 26, sn_MACDSignalPeriod = 9, sn_ATRPeriod = 14,
      sn_VolumeMAPeriod = 20, sn_SwingLookback = 3, sn_RecentSwingCount = 5,
      sn_SupportResistanceATRTol = Fin 1 \<rparr>"

definition snapshot_withDefaults :: "snapshot_config \<Rightarrow> snapshot_config" where
  "snapshot_withDefaults cfg =
    \<lparr> sn_EMA20Period = default_int 20 (sn_EMA20Period cfg),
      sn_EMA50Period = default_int 50 (sn_EMA50Period cfg),
      sn_EMA200Period = default_int 200 (sn_EMA200Period cfg),
      sn_RSIPeriod = default_int 14 (sn_RSIPeriod cfg),
      sn_MACDFastPeriod = default_int 12 (sn_MACDFastPeriod cfg),
      sn_MACDSlowPeriod = default_int 26 (sn_MACDSlowPeriod cfg),
      sn_MACDSignalPeriod = default_int 9 (sn_MACDSignalPeriod cfg),
      sn_ATRPeriod = default_int 14 (sn_ATRPeriod cfg),
      sn_VolumeMAPeriod = default_int 20 (sn_VolumeMAPeriod cfg),
      sn_SwingLookback = default_int 3 (sn_SwingLookback cfg),
      sn_RecentSwingCount = default_int 5 (sn_RecentSwingCount cfg),
      sn_SupportResistanceATRTol = default_f64 (Fin 1) (sn_SupportResistanceATRTol cfg) \<rparr>"

definition classifyRSI :: "f64 \<Rightarrow> string" where
  "classifyRSI v =
    (if v < Fin 30 then ''oversold''
     else if v < Fin 45 then ''neutral_bearish''
     else if Fin 70 < v then ''overbought''
     else if Fin 55 < v then ''neutral_bullish''
     else ''neutral'')"

definition pct :: "f64 \<Rightarrow> f64 \<Rightarrow> f64" where
  "pct x y = (if feq y (Fin 0) then Fin 0 else x / y * Fin 100)"

definition inferTimeframeDuration :: "candle list \<Rightarrow> ind_error + duration" where
  "inferTimeframeDuration candles =
    guard_err (length candles < 2) (InsufficientCandles ''timeframe'' (int (length candles)) 2)
    (let d = c_OpenTime (candles ! (length candles - 1)) - c_OpenTime (candles ! (length candles - 2))
     in guard_err (d \<le> 0) InvalidCandleSpacing (Inr (wrap64 (d * 10 ^ 6))))"

definition snapshot_values :: "indicator_snapshot \<Rightarrow> f64 list" where
  "snapshot_values s =
    [is_LastClosePrice s, is_EMA20 s, is_EMA50 s, is_EMA200 s, is_RSI14 s,
     mc_Line (is_MACD s), mc_Signal (is_MACD s), mc_Histogram (is_MACD s),
     is_ATR14 s, is_ATRPct s, is_VolumeCurrent s, is_VolumeMA20 s, is_VolumeRatio s]"

definition validateSnapshotFinite :: "indicator_snapshot \<Rightarrow> bool" where
  "validateSnapshotFinite s \<longleftrightarrow> list_all is_fin (snapshot_values s)"

definition ema_alignment_of :: "f64 \<Rightarrow> f64 \<Rightarrow> f64 \<Rightarrow> f64 \<Rightarrow> ema_alignment" where
  "ema_alignment_of price ema20 ema50 ema200 =
    \<lparr> ea_EMA20AboveEMA50 = (ema50 < ema20), ea_EMA50AboveEMA200 = (ema200 < ema50),
      ea_PriceAboveEMA20 = (ema20 < price), ea_PriceAboveEMA50 = (ema50 < price),
      ea_PriceAboveEMA200 = (ema200 < price) \<rparr>"

definition BuildSnapshot ::
  "string \<Rightarrow> string \<Rightarrow> candle list \<Rightarrow> snapshot_config \<Rightarrow> ind_error + indicator_snapshot" where
  "BuildSnapshot symbol timeframe candles cfg0 =
    with_valid candles
    (let cfg = snapshot_withDefaults cfg0 in
     ebind (ComputeEMA candles (sn_EMA20Period cfg)) (\<lambda>ema20.
     ebind (ComputeEMA candles (sn_EMA50Period cfg)) (\<lambda>ema50.
     ebind (ComputeEMA candles (sn_EMA200Period cfg)) (\<lambda>ema200.
     ebind (ComputeRSI candles (sn_RSIPeriod cfg)) (\<lambda>rsi14.
     ebind (ComputeMACD candles (sn_MACDFastPeriod cfg) (sn_MACDSlowPeriod cfg)
              (sn_MACDSignalPeriod cfg)) (\<lambda>macd.
     ebind (ComputeATR candles (sn_ATRPeriod cfg)) (\<lambda>atr14.
     ebind (ComputeVolumeMA candles (sn_VolumeMAPeriod cfg)) (\<lambda>vol.
     ebind (DetectSwings candles (sn_SwingLookback cfg) (sn_RecentSwingCount cfg)) (\<lambda>swings.
     ebind (inferTimeframeDuration candles) (\<lambda>interval.
       let price = c_Close (last candles);
           (support, resistance) =
             BuildSupportResistance swings price atr14 (sn_SupportResistanceATRTol cfg);
           snap =
             \<lparr> is_Symbol = symbol, is_Timeframe = timeframe,
               is_LastCloseTime = unix_milli (c_OpenTime (last candles)) + interval,
               is_LastClosePrice = price, is_EMA20 = ema20, is_EMA50 = ema50, is_EMA200 = ema200,
               is_EMAAlignment = ema_alignment_of price ema20 ema50 ema200,
               is_RSI14 = rsi14, is_RSIState = classifyRSI rsi14, is_MACD = macd,
               is_ATR14 = atr14, is_ATRPct = pct atr14 price,
               is_VolumeCurrent = vm_CurrentVolume vol, is_VolumeMA20 = vm_MA vol,
               is_VolumeRatio = vm_Ratio vol, is_RecentSwings = swings,
               is_SupportLevels = support, is_ResistanceLevels = resistance \<rparr>
       in guard_err (\<not> validateSnapshotFinite snap) SnapshotNotFinite (Inr snap)))))))))))"

end
