(* ===== verification/IndicatorSpec.thy ===== *)
theory IndicatorSpec
  imports Indicators
begin

text \<open>
  What the indicators guarantee: which candle lists are accepted, the range of every value of an
  accepted snapshot, and the average that the RSI really computes.
\<close>

section \<open>Accepted candles\<close>

definition demo_candle_at :: "int \<Rightarrow> f64 \<Rightarrow> candle" where
  "demo_candle_at t x =
    \<lparr> c_Symbol = ''BTCUSDT'', c_Timeframe = ''1h'', c_OpenTime = t, c_Open = x, c_High = x + Fin 2,
      c_Low = x, c_Close = x + Fin 1, c_Volume = Fin 8, c_TurnOver = Fin 800, c_Confirmed = True \<rparr>"

definition demo_candles :: "candle list" where
  "demo_candles =
    [demo_candle_at 1 (Fin 96), demo_candle_at 2 (Fin 99), demo_candle_at 3 (Fin 97),
     demo_candle_at 4 (Fin 100), demo_candle_at 5 (Fin 103)]"

lemma validate_from_iff:
  "0 < i \<Longrightarrow> validate_from i prev cs = None \<longleftrightarrow>
     (\<forall>c\<in>set cs. \<not> invalid_candle c) \<and> sorted_wrt (<) (prev # map c_OpenTime cs)"
proof (induction cs arbitrary: i prev)
  case (Cons c cs)
  have "sorted_wrt (<) (prev # map c_OpenTime (c # cs)) \<longleftrightarrow>
      prev < c_OpenTime c \<and> sorted_wrt (<) (c_OpenTime c # map c_OpenTime cs)"
    by (simp only: list.map(2) sorted_wrt2 [OF transp_on_less])
  then show ?case using Cons by (auto simp: not_le)
qed simp

lemma validate_iff:
  "validateCandles cs = None \<longleftrightarrow>
     cs \<noteq> [] \<and>
     (\<forall>c\<in>set cs. \<forall>v\<in>{c_Open c, c_High c, c_Low c, c_Close c, c_Volume c}. is_fin v \<and> Fin 0 < v) \<and>
     sorted_wrt (<) (map c_OpenTime cs)"
proof -
  have inv: "\<not> invalid v \<longleftrightarrow> is_fin v \<and> Fin 0 < v" for v
    by (cases v) (auto simp: invalid_def)
  have c: "\<not> invalid_candle c \<longleftrightarrow>
      (\<forall>v\<in>{c_Open c, c_High c, c_Low c, c_Close c, c_Volume c}. is_fin v \<and> Fin 0 < v)" for c
    by (auto simp: invalid_candle_def inv)
  have "validateCandles cs = None \<longleftrightarrow>
      cs \<noteq> [] \<and> (\<forall>c\<in>set cs. \<not> invalid_candle c) \<and> sorted_wrt (<) (map c_OpenTime cs)"
    by (cases cs) (auto simp: validateCandles_def validate_from_iff)
  then show ?thesis unfolding c .
qed

lemma valid_close:
  "validateCandles cs = None \<Longrightarrow> c \<in> set cs \<Longrightarrow> is_fin (c_Close c) \<and> Fin 0 < c_Close c"
  and valid_volume:
  "validateCandles cs = None \<Longrightarrow> c \<in> set cs \<Longrightarrow> is_fin (c_Volume c) \<and> Fin 0 < c_Volume c"
  and valid_high_low:
  "validateCandles cs = None \<Longrightarrow> c \<in> set cs \<Longrightarrow> is_fin (c_High c) \<and> is_fin (c_Low c)"
  by (simp_all add: validate_iff)

text \<open>
  The candle check that precedes every indicator accepts a list exactly when it is not empty,
  every price and volume in it is finite and positive, and its timestamps strictly increase.
\<close>

theorem validateCandles_iff:
  "validateCandles cs = None \<longleftrightarrow>
     cs \<noteq> [] \<and>
     (\<forall>c\<in>set cs. \<forall>v\<in>{c_Open c, c_High c, c_Low c, c_Close c, c_Volume c}. is_fin v \<and> Fin 0 < v) \<and>
     sorted_wrt (<) (map c_OpenTime cs)"
  by (rule validate_iff)

theorem validateCandles_iff_witness:
  "sorted_wrt (<) (map c_OpenTime demo_candles) \<and> demo_candles \<noteq> []"
proof -
  have "validateCandles demo_candles = None" by code_simp
  then show ?thesis unfolding validateCandles_iff by blast
qed

section \<open>RSI\<close>

text \<open>A running total that is not NaN and not negative.\<close>

definition nn :: "f64 \<Rightarrow> bool" where
  "nn x \<longleftrightarrow> Fin 0 \<le> x"

lemma nn_plus: "nn x \<Longrightarrow> nn y \<Longrightarrow> nn (x + y)"
  by (simp add: nn_def plus_nonneg)

lemma rsi_sum_nn:
  assumes "nn (fst s)" and "nn (snd s)" and "d \<noteq> NaN"
  shows "nn (fst (rsi_sum s d)) \<and> nn (snd (rsi_sum s d))"
  using assms neg_nonneg [of d]
  by (auto simp: rsi_sum_def nn_def intro: plus_nonneg f64_less_imp_le)

lemma fold_rsi_sum_nn:
  assumes "\<And>d. d \<in> set ds \<Longrightarrow> d \<noteq> NaN"
  shows "nn (fst (foldl rsi_sum (Fin 0, Fin 0) ds)) \<and> nn (snd (foldl rsi_sum (Fin 0, Fin 0) ds))"
  by (rule foldl_invariant [where P = "\<lambda>s. nn (fst s) \<and> nn (snd s)"])
    (use assms rsi_sum_nn in \<open>auto simp: nn_def\<close>)

lemma deltas_not_NaN:
  "(\<And>x. x \<in> set xs \<Longrightarrow> is_fin x) \<Longrightarrow> d \<in> set (deltas xs) \<Longrightarrow> d \<noteq> NaN"
  by (induction xs rule: deltas.induct) (auto simp: minus_not_NaN [THEN not_sym])

lemma length_deltas: "length (deltas xs) = length xs - 1"
  by (induction xs rule: deltas.induct) auto

lemma nn_divide_int: "nn x \<Longrightarrow> 1 \<le> n \<Longrightarrow> x / f64_of_int n \<noteq> NaN \<Longrightarrow> nn (x / f64_of_int n)"
  using divide_nonneg [of x "f64_of_int n"] f64_less_le_trans [OF _ f64_of_int_ge1 [of n], of "Fin 0"]
  by (simp add: nn_def)

lemma rsi_value_range:
  assumes "nn g \<or> g = NaN" and "nn l \<or> l = NaN" and r: "rsi_value g l \<noteq> NaN"
  shows "Fin 0 \<le> rsi_value g l \<and> rsi_value g l \<le> Fin 100"
proof (cases "feq l (Fin 0)")
  case False
  let ?rs = "g / l" and ?d = "Fin 100 / (Fin 1 + g / l)"
  have v: "rsi_value g l = Fin 100 - ?d" using False by (simp add: rsi_value_def)
  then have d: "?d \<noteq> NaN" using r by auto
  then have rs: "?rs \<noteq> NaN" and gl: "nn g" "nn l" using assms(1,2) by auto
  have "Fin 0 < l" using gl(2) False f64_le_less [of "Fin 0" l] feq_sym by (auto simp: nn_def)
  then have "Fin 0 \<le> ?rs" using divide_nonneg [OF _ _ rs] gl(1) by (simp add: nn_def)
  then have one: "Fin 1 \<le> Fin 1 + ?rs" by (intro le_plus) (simp_all add: is_f64_Fin)
  have r100: "repr 100" using repr_numeral [of "num.Bit0 (num.Bit0 (num.Bit1 (num.Bit0 (num.Bit0 (num.Bit1 num.One)))))"] by simp
  have "Fin 0 \<le> ?d"
    using divide_nonneg [OF _ _ d] f64_less_le_trans [OF _ one, of "Fin 0"] by simp
  moreover have "?d \<le> Fin 100"
    using divide_le_self [OF _ _ one d] r100 by (simp add: is_f64_Fin)
  ultimately show ?thesis using minus_range [of ?d 100] r100 v by simp
qed (auto simp: rsi_value_def)

text \<open>The gains and losses that are averaged: those of the last \<open>period\<close> closes.\<close>

definition rsi_totals :: "candle list \<Rightarrow> int \<Rightarrow> f64 \<times> f64" where
  "rsi_totals candles period =
    foldl rsi_sum (Fin 0, Fin 0) (deltas (closes (last_n (period + 1) candles)))"

lemma ComputeRSI_cases:
  assumes "ComputeRSI candles period = Inr v"
  shows "0 < period" and "period < int (length candles)" and "validateCandles candles = None"
    and "v = rsi_value (fst (rsi_totals candles period) / f64_of_int period)
                       (snd (rsi_totals candles period) / f64_of_int period)"
proof -
  show p: "0 < period" and n: "period < int (length candles)" and "validateCandles candles = None"
    using assms by (auto simp: ComputeRSI_def with_valid_def split: option.splits)
  let ?tail = "drop (length candles - nat period - 1) candles"
  have "length (deltas (closes ?tail)) = nat period"
    using p n by (simp add: length_deltas)
  then show "v = rsi_value (fst (rsi_totals candles period) / f64_of_int period)
                       (snd (rsi_totals candles period) / f64_of_int period)"
    using assms p
    by (auto simp: ComputeRSI_def with_valid_def Let_def rsi_totals_def last_n_def nat_add_distrib
        split: option.splits)
qed

lemma ComputeRSI_range:
  assumes "ComputeRSI candles period = Inr v" and "v \<noteq> NaN"
  shows "Fin 0 \<le> v \<and> v \<le> Fin 100"
proof -
  note r = ComputeRSI_cases [OF assms(1)]
  have "d \<noteq> NaN" if "d \<in> set (deltas (closes (last_n (period + 1) candles)))" for d
    using that deltas_not_NaN [of "closes (last_n (period + 1) candles)"]
      valid_close [OF r(3)] set_last_n [of "period + 1" candles] by fastforce
  then have t: "nn (fst (rsi_totals candles period))" "nn (snd (rsi_totals candles period))"
    using fold_rsi_sum_nn [of "deltas (closes (last_n (period + 1) candles))"]
    by (simp_all add: rsi_totals_def)
  show ?thesis
    using assms(2) unfolding r(4)
    by (intro rsi_value_range) (use t nn_divide_int r(1) in \<open>auto\<close>)
qed

text \<open>
  The RSI is the plain average of the last \<open>period\<close> gains and losses. The second loop of
  \<open>ComputeRSI\<close>, Wilder's smoothing, starts behind the last candle and never runs: older candles
  have no influence.
\<close>

theorem RSI_is_unsmoothed:
  assumes "ComputeRSI candles period = Inr v"
  shows "v = rsi_value (fst (rsi_totals (last_n (period + 1) candles) period) / f64_of_int period)
                       (snd (rsi_totals (last_n (period + 1) candles) period) / f64_of_int period)"
proof -
  note r = ComputeRSI_cases [OF assms]
  have "last_n (period + 1) (last_n (period + 1) candles) = last_n (period + 1) candles"
    using r(1,2) by (simp add: last_n_def nat_add_distrib)
  then show ?thesis unfolding r(4) rsi_totals_def by simp
qed

theorem RSI_is_unsmoothed_witness:
  "\<exists>v. ComputeRSI demo_candles 2 = Inr v \<and>
     v = rsi_value (fst (rsi_totals (last_n 3 demo_candles) 2) / f64_of_int 2)
                   (snd (rsi_totals (last_n 3 demo_candles) 2) / f64_of_int 2)"
proof -
  have "\<not> isl (ComputeRSI demo_candles 2)" by code_simp
  then obtain v where v: "ComputeRSI demo_candles 2 = Inr v" by (cases "ComputeRSI demo_candles 2") auto
  then show ?thesis using RSI_is_unsmoothed [OF v] by simp
qed

section \<open>Snapshots\<close>

lemma fsum_from_nn: "nn acc \<Longrightarrow> (\<And>x. x \<in> set xs \<Longrightarrow> nn x) \<Longrightarrow> nn (fsum_from acc xs)"
  by (induction acc xs rule: fsum_from.induct) (auto simp: nn_plus)

lemma fsum_nn: "(\<And>x. x \<in> set xs \<Longrightarrow> nn x) \<Longrightarrow> nn (fsum xs)"
  unfolding fsum_def by (rule fsum_from_nn) (simp_all add: nn_def)

lemma trueRange_nn:
  assumes "is_fin (c_High c)" "is_fin (c_Low c)" "is_fin prev"
  shows "nn (trueRange c prev)"
proof -
  have a: "Fin 0 \<le> \<bar>x - prev\<bar>" if "is_fin x" for x
    using abs_nonneg minus_not_NaN [OF that assms(3)] by simp
  have m: "nn (max_step t v)" if "t \<noteq> NaN" "Fin 0 \<le> v" for t v
  proof (cases "t < v")
    case False
    have "v \<noteq> NaN" using that(2) by auto
    then have "v \<le> t" using f64_not_less [OF that(1)] False by simp
    then show ?thesis using f64_le_trans [OF that(2)] False by (simp add: max_step_def nn_def)
  qed (use that in \<open>simp add: max_step_def nn_def\<close>)
  have "max_step (c_High c - c_Low c) \<bar>c_High c - prev\<bar> \<noteq> NaN"
    using m [OF minus_not_NaN [OF assms(1,2)] a [OF assms(1)]] by (auto simp: nn_def)
  from m [OF this a [OF assms(2)]] show ?thesis by (simp add: trueRange_def)
qed

lemma ComputeATR_nn:
  assumes "ComputeATR candles period = Inr v" and "v \<noteq> NaN"
  shows "Fin 0 \<le> v"
proof -
  have r: "0 < period" "validateCandles candles = None"
      "v = fsum (true_ranges candles period) / f64_of_int period"
    using assms(1) by (auto simp: ComputeATR_def with_valid_def split: option.splits)
  have "nn x" if x: "x \<in> set (true_ranges candles period)" for x
  proof -
    obtain q where xq: "x = (\<lambda>(prev, c). trueRange c (c_Close prev)) q"
      and q: "q \<in> set (zip (last_n (period + 1) candles) (last_n period candles))"
      using x unfolding true_ranges_def set_map by (rule imageE)
    obtain p c where q_eq: "q = (p, c)" by (rule prod.exhaust)
    have z: "(p, c) \<in> set (zip (last_n (period + 1) candles) (last_n period candles))"
      and xc: "x = trueRange c (c_Close p)" using q xq unfolding q_eq split_conv .
    have pc: "p \<in> set candles" "c \<in> set candles"
      by (rule subsetD [OF set_last_n set_zip_leftD [OF z]], rule subsetD [OF set_last_n set_zip_rightD [OF z]])
    show ?thesis
      using trueRange_nn valid_close [OF r(2) pc(1)] valid_high_low [OF r(2) pc(2)] by (simp add: xc)
  qed
  then have "nn (fsum (true_ranges candles period))" by (rule fsum_nn)
  then show ?thesis using nn_divide_int [of "fsum (true_ranges candles period)" period] r assms(2)
    by (simp add: nn_def)
qed

lemma BuildSupportResistance_length:
  "length (fst (BuildSupportResistance swings price atr tol)) \<le> 3"
  "length (snd (BuildSupportResistance swings price atr tol)) \<le> 3"
  by (simp_all add: BuildSupportResistance_def nearest_first_def Let_def)

lemma BuildSnapshot_parts:
  assumes "BuildSnapshot symbol timeframe candles cfg = Inr s"
  shows "validateCandles candles = None" and "list_all is_fin (snapshot_values s)"
    and "ComputeRSI candles (sn_RSIPeriod (snapshot_withDefaults cfg)) = Inr (is_RSI14 s)"
    and "ComputeATR candles (sn_ATRPeriod (snapshot_withDefaults cfg)) = Inr (is_ATR14 s)"
    and "is_LastClosePrice s = c_Close (last candles)" and "is_VolumeCurrent s = c_Volume (last candles)"
    and "is_RSIState s = classifyRSI (is_RSI14 s)" and "is_Symbol s = symbol"
    and "\<exists>period. is_VolumeMA20 s = fsum (map c_Volume (last_n period candles)) / f64_of_int period \<and> 0 < period"
    and "is_VolumeRatio s = (if Fin 0 < is_VolumeMA20 s then is_VolumeCurrent s / is_VolumeMA20 s else Fin 0)"
    and "length (is_SupportLevels s) \<le> 3" and "length (is_ResistanceLevels s) \<le> 3"
  using assms BuildSupportResistance_length

  by (auto simp: BuildSnapshot_def with_valid_def Let_def validateSnapshotFinite_def ComputeVolumeMA_def
      case_prod_beta split: option.splits)

text \<open>
  C5: a snapshot that is handed to the strategies holds only finite numbers, an RSI between 0 and
  100, a non-negative ATR, a positive last price, a positive current volume, a non-negative average volume and
  volume ratio, and at most three support and three resistance levels; and it was built from candles with strictly
  increasing timestamps.
\<close>

theorem BuildSnapshot_ranges:
  assumes "BuildSnapshot symbol timeframe candles cfg = Inr s"
  shows "list_all is_fin (snapshot_values s) \<and> Fin 0 \<le> is_RSI14 s \<and> is_RSI14 s \<le> Fin 100 \<and>
    Fin 0 \<le> is_ATR14 s \<and> Fin 0 < is_LastClosePrice s \<and> Fin 0 < is_VolumeCurrent s \<and>
    Fin 0 \<le> is_VolumeMA20 s \<and> Fin 0 \<le> is_VolumeRatio s \<and>
    length (is_SupportLevels s) \<le> 3 \<and> length (is_ResistanceLevels s) \<le> 3 \<and>
    sorted_wrt (<) (map c_OpenTime candles)"
proof -
  note p = BuildSnapshot_parts [OF assms]
  have f: "is_RSI14 s \<noteq> NaN" "is_ATR14 s \<noteq> NaN" "is_VolumeMA20 s \<noteq> NaN" "is_VolumeRatio s \<noteq> NaN"
    using p(2) by (auto simp: snapshot_values_def)
  have v: "candles \<noteq> []" "sorted_wrt (<) (map c_OpenTime candles)" using p(1) by (auto simp: validate_iff)
  then have l: "last candles \<in> set candles" by simp
  obtain n where n: "is_VolumeMA20 s = fsum (map c_Volume (last_n n candles)) / f64_of_int n" "0 < n"
    using p(9) by blast
  have "nn x" if "x \<in> set (map c_Volume (last_n n candles))" for x
    using that valid_volume [OF p(1)] set_last_n [of n candles] by (auto simp: nn_def intro!: f64_less_imp_le)
  then have ma: "Fin 0 \<le> is_VolumeMA20 s"
    using nn_divide_int [OF fsum_nn, of "map c_Volume (last_n n candles)" n] n f(3) by (simp add: nn_def)
  have "Fin 0 \<le> is_VolumeRatio s"
    using p(10) f(4) valid_volume [OF p(1) l] divide_nonneg [of "is_VolumeCurrent s" "is_VolumeMA20 s"]
    by (auto simp: p(6) intro: f64_less_imp_le split: if_splits)
  with ma show ?thesis
    using p(2,5,6,11,12) ComputeRSI_range [OF p(3) f(1)] ComputeATR_nn [OF p(4) f(2)] v(2)
      valid_close [OF p(1) l] valid_volume [OF p(1) l] by simp
qed

definition demo_snapshot_config :: snapshot_config where
  "demo_snapshot_config =
    \<lparr> sn_EMA20Period = 1, sn_EMA50Period = 2, sn_EMA200Period = 4, sn_RSIPeriod = 2,
      sn_MACDFastPeriod = 1, sn_MACDSlowPeriod = 2, sn_MACDSignalPeriod = 2, sn_ATRPeriod = 2,
      sn_VolumeMAPeriod = 2, sn_SwingLookback = 1, sn_RecentSwingCount = 2,
      sn_SupportResistanceATRTol = Fin 1 \<rparr>"

theorem BuildSnapshot_ranges_witness:
  "\<exists>s. BuildSnapshot ''BTCUSDT'' ''1h'' demo_candles demo_snapshot_config = Inr s \<and>
     Fin 0 \<le> is_RSI14 s \<and> is_RSI14 s \<le> Fin 100"
proof -
  have "\<not> isl (BuildSnapshot ''BTCUSDT'' ''1h'' demo_candles demo_snapshot_config)" by code_simp
  then obtain s where s: "BuildSnapshot ''BTCUSDT'' ''1h'' demo_candles demo_snapshot_config = Inr s"
    by (cases "BuildSnapshot ''BTCUSDT'' ''1h'' demo_candles demo_snapshot_config") auto
  then show ?thesis using BuildSnapshot_ranges [OF s] by blast
qed

end
