(* ===== verification/Regime.thy ===== *)
theory Regime
  imports Indicators
begin

text \<open>
  Market regime (\<open>internal/regime\<close>): the BTC and BTC-dominance filters, the ranging test, relative
  strength of a symbol against BTC, the snapshot that combines them, and the tracker that counts
  cycles without fresh BTC data. A detail text is kept as its fixed part and the numbers it prints.
\<close>

section \<open>Configuration\<close>

record rs_config =
  rs_StrongOutperformPct :: f64
  rs_StrongUnderperformPct :: f64
  rs_NeutralBandPct :: f64
  rs_SmoothedEMAPeriod :: int

record staleness_config =
  sl_WarnCycles :: int
  sl_CriticalCycles :: int

record regime_filter_config =
  rf_BTCDumpShortThresholdPct :: f64
  rf_BTCDumpMediumThresholdPct :: f64
  rf_BTCNearLevelATRBuffer :: f64
  rf_BTCDRisingFastThresholdPct :: f64
  rf_RelativeStrength :: rs_config
  rf_Btc5mStaleness :: staleness_config
  rf_RangingATRMultiplier :: f64
  rf_RangingLookbackCandles :: int
  rf_ReduceNewPositionsWhenRanging :: bool

definition DefaultRelativeStrengthConfig :: rs_config where
  "DefaultRelativeStrengthConfig =
    \<lparr> rs_StrongOutperformPct = Fin 2, rs_StrongUnderperformPct = Fin (- 2),
      rs_NeutralBandPct = Fin (1 / 2), rs_SmoothedEMAPeriod = 8 \<rparr>"

definition withRelativeStrengthDefaults :: "rs_config \<Rightarrow> rs_config" where
  "withRelativeStrengthDefaults cfg =
    \<lparr> rs_StrongOutperformPct = default_if_zero (Fin 2) (rs_StrongOutperformPct cfg),
      rs_StrongUnderperformPct = default_if_zero (Fin (- 2)) (rs_StrongUnderperformPct cfg),
      rs_NeutralBandPct = default_if_zero (Fin (1 / 2)) (rs_NeutralBandPct cfg),
      rs_SmoothedEMAPeriod = default_int 8 (rs_SmoothedEMAPeriod cfg) \<rparr>"

definition withBtc5mStalenessDefaults :: "staleness_config \<Rightarrow> staleness_config" where
  "withBtc5mStalenessDefaults c =
    \<lparr> sl_WarnCycles = default_int 3 (sl_WarnCycles c),
      sl_CriticalCycles = default_int 10 (sl_CriticalCycles c) \<rparr>"

definition regime_withDefaults :: "regime_filter_config \<Rightarrow> regime_filter_config" where
  "regime_withDefaults cfg =
    \<lparr> rf_BTCDumpShortThresholdPct = default_if_zero (Fin (- (5 / 2))) (rf_BTCDumpShortThresholdPct cfg),
      rf_BTCDumpMediumThresholdPct = default_if_zero (Fin (- 3)) (rf_BTCDumpMediumThresholdPct cfg),
      rf_BTCNearLevelATRBuffer = default_f64 (Fin 1) (rf_BTCNearLevelATRBuffer cfg),
      rf_BTCDRisingFastThresholdPct =
        default_if_zero (lit (8 / 10)) (rf_BTCDRisingFastThresholdPct cfg),
      rf_RelativeStrength = withRelativeStrengthDefaults (rf_RelativeStrength cfg),
      rf_Btc5mStaleness = withBtc5mStalenessDefaults (rf_Btc5mStaleness cfg),
      rf_RangingATRMultiplier = default_f64 (Fin (5 / 2)) (rf_RangingATRMultiplier cfg),
      rf_RangingLookbackCandles = default_int 16 (rf_RangingLookbackCandles cfg),
      rf_ReduceNewPositionsWhenRanging = rf_ReduceNewPositionsWhenRanging cfg \<rparr>"

section \<open>Filters\<close>

datatype detail = Detail string "f64 list" | DetailError string ind_error

record filter_outcome =
  fo_Triggered :: bool
  fo_Severity :: string
  fo_Detail :: detail

definition outcome :: "bool \<Rightarrow> string \<Rightarrow> string \<Rightarrow> f64 list \<Rightarrow> filter_outcome" where
  "outcome t sev txt nums = \<lparr> fo_Triggered = t, fo_Severity = sev, fo_Detail = Detail txt nums \<rparr>"

definition returnPct :: "candle list \<Rightarrow> f64 option" where
  "returnPct candles =
    (if length candles < 2 then None
     else
       let start = c_Close (hd candles); last_i = c_Close (last candles)
       in if feq start (Fin 0) \<or> not_finite start \<or> not_finite last_i then None
          else Some ((last_i - start) / start * Fin 100))"

definition BTCDumpedRecentlyShort :: "candle list \<Rightarrow> f64 \<Rightarrow> filter_outcome" where
  "BTCDumpedRecentlyShort btc5mCandles thresholdPct =
    (case returnPct btc5mCandles of
       None \<Rightarrow> outcome False ''danger'' ''btc 5m data unavailable'' []
     | Some ret \<Rightarrow>
         if ret \<le> thresholdPct then outcome True ''danger'' ''btc 5m return <='' [ret, thresholdPct]
         else outcome False ''info'' ''btc 5m return'' [ret])"

definition BTCDumpedRecentlyMedium :: "candle list \<Rightarrow> f64 \<Rightarrow> filter_outcome" where
  "BTCDumpedRecentlyMedium btc15mCandles thresholdPct =
    (case returnPct btc15mCandles of
       None \<Rightarrow> outcome False ''danger'' ''btc 15m data unavailable'' []
     | Some ret \<Rightarrow>
         if ret \<le> thresholdPct then outcome True ''danger'' ''btc 15m return <='' [ret, thresholdPct]
         else outcome False ''info'' ''btc 15m return'' [ret])"

definition bearish :: "indicator_snapshot \<Rightarrow> bool" where
  "bearish s \<longleftrightarrow>
    \<not> ea_PriceAboveEMA50 (is_EMAAlignment s) \<and> \<not> ea_EMA20AboveEMA50 (is_EMAAlignment s)"

definition bullish :: "indicator_snapshot \<Rightarrow> bool" where
  "bullish s \<longleftrightarrow>
    ea_PriceAboveEMA50 (is_EMAAlignment s) \<and> ea_EMA20AboveEMA50 (is_EMAAlignment s)"

definition BTCStronglyBearishHTF :: "indicator_snapshot \<Rightarrow> indicator_snapshot \<Rightarrow> filter_outcome" where
  "BTCStronglyBearishHTF btc1h btc4h =
    (if bearish btc1h \<and> bearish btc4h
     then outcome True ''danger'' ''btc bearish on 1h and 4h (price below ema50 on both)'' []
     else outcome False ''info'' ''btc not strongly bearish across 1h/4h'' [])"

definition BTCStronglyBullishHTF :: "indicator_snapshot \<Rightarrow> indicator_snapshot \<Rightarrow> filter_outcome" where
  "BTCStronglyBullishHTF btc1h btc4h =
    (if bullish btc1h \<and> bullish btc4h
     then outcome True ''info'' ''btc bullish on 1h and 4h (price above ema50 on both)'' []
     else outcome False ''info'' ''btc not strongly bullish across 1h/4h'' [])"

definition BTCNearMajorResistance :: "indicator_snapshot \<Rightarrow> f64 \<Rightarrow> filter_outcome" where
  "BTCNearMajorResistance btc4h atrBuffer =
    (if is_ResistanceLevels btc4h = [] then outcome False ''info'' ''no 4h resistance levels available'' []
     else
       let price = is_LastClosePrice btc4h;
           buf = is_ATR14 btc4h * default_f64 (Fin 1) atrBuffer
       in case List.find (\<lambda>lvl. price \<le> lvl \<and> lvl - price \<le> buf) (is_ResistanceLevels btc4h) of
            Some lvl \<Rightarrow> outcome True ''warning'' ''btc near 4h resistance'' [lvl, lvl - price, buf]
          | None \<Rightarrow> outcome False ''info'' ''btc not near major 4h resistance'' [])"

definition BTCNearMajorSupport :: "indicator_snapshot \<Rightarrow> f64 \<Rightarrow> filter_outcome" where
  "BTCNearMajorSupport btc4h atrBuffer =
    (if is_SupportLevels btc4h = [] then outcome False ''info'' ''no 4h support levels available'' []
     else
       let price = is_LastClosePrice btc4h;
           buf = is_ATR14 btc4h * default_f64 (Fin 1) atrBuffer
       in case List.find (\<lambda>lvl. lvl \<le> price \<and> price - lvl \<le> buf) (is_SupportLevels btc4h) of
            Some lvl \<Rightarrow> outcome True ''warning'' ''btc near 4h support'' [lvl, price - lvl, buf]
          | None \<Rightarrow> outcome False ''info'' ''btc not near major 4h support'' [])"

definition BTCDominanceRisingFast :: "candle list \<Rightarrow> f64 \<Rightarrow> filter_outcome" where
  "BTCDominanceRisingFast btcd1hCandles thresholdPct =
    (case returnPct btcd1hCandles of
       None \<Rightarrow> outcome False ''n/a'' ''btcd data unavailable'' []
     | Some ret \<Rightarrow>
         if thresholdPct \<le> ret then outcome True ''warning'' ''btcd rising fast >='' [ret, thresholdPct]
         else outcome False ''info'' ''btcd change'' [ret])"

definition BTCDominanceFalling ::
  "indicator_snapshot option \<Rightarrow> indicator_snapshot option \<Rightarrow> filter_outcome" where
  "BTCDominanceFalling btcd1h btcd4h =
    (case (btcd1h, btcd4h) of
       (Some s1, Some s4) \<Rightarrow>
         if bearish s1 \<and> bearish s4 then outcome True ''info'' ''btcd trending down on 1h and 4h'' []
         else outcome False ''info'' ''btcd not trending down on both 1h/4h'' []
     | _ \<Rightarrow> outcome False ''n/a'' ''btcd data unavailable'' [])"

section \<open>Ranging\<close>

record ranging_result =
  rr_IsRanging :: bool
  rr_BandWidth :: f64
  rr_ATR :: f64
  rr_RangeOverATR :: f64
  rr_Detail :: detail

definition no_range :: "detail \<Rightarrow> ranging_result" where
  "no_range d = \<lparr> rr_IsRanging = False, rr_BandWidth = Fin 0, rr_ATR = Fin 0,
                  rr_RangeOverATR = Fin 0, rr_Detail = d \<rparr>"

definition ComputeBTCRanging :: "candle list \<Rightarrow> f64 \<Rightarrow> int \<Rightarrow> ranging_result" where
  "ComputeBTCRanging btc15mCandles atrMultiplier0 lookback0 =
    (let atrMultiplier = default_f64 (Fin (5 / 2)) atrMultiplier0;
         lookback = default_int 16 lookback0
     in if length btc15mCandles < 2
        then no_range (Detail ''insufficient 15m candles for ranging detection'' [])
        else
          let window = last_n lookback btc15mCandles;
              minLow = foldl (\<lambda>m c. if c_Low c < m then c_Low c else m) (c_Low (hd window)) (tl window);
              maxHigh = foldl (\<lambda>m c. max_step m (c_High c)) (c_High (hd window)) (tl window);
              priceRange = maxHigh - minLow
          in case ComputeATR btc15mCandles 14 of
               Inl e \<Rightarrow> no_range (DetailError ''atr computation failed'' e)
             | Inr atr \<Rightarrow>
                 if invalid atr then no_range (Detail ''atr is zero or invalid'' [])
                 else
                   let bandWidth = atr * atrMultiplier;
                       rangeOverATR = priceRange / atr;
                       isRanging = (priceRange \<le> bandWidth)
                   in \<lparr> rr_IsRanging = isRanging, rr_BandWidth = bandWidth, rr_ATR = atr,
                        rr_RangeOverATR = rangeOverATR,
                        rr_Detail = Detail (if isRanging then ''btc ranging'' else ''btc trending'')
                                      [priceRange, atr, bandWidth, rangeOverATR] \<rparr>)"

section \<open>Relative strength\<close>

record rs_snapshot =
  rs_RS1H :: f64
  rs_RS4H :: f64
  rs_RS24H :: f64
  rs_RSSmoothed :: f64
  rs_Classification :: string

datatype regime_error =
    CandlesRequired
  | InsufficientAligned nat
  | NonMonotonicAligned
  | HoursNotPositive
  | NeedAligned int nat
  | InvalidStartClose
  | RSNotFinite
  | BtcCandlesUnavailable string
  | SnapshotsUnavailable

text \<open>An aligned pair: open time, close of the target, close of BTC.\<close>

type_synonym candle_pair = "int \<times> f64 \<times> f64"

definition timeBucket1h :: "int \<Rightarrow> int" where
  "timeBucket1h ms = (if 0 \<le> ms then ms div 3600000 else - ((- ms) div 3600000))"

definition usable_candle :: "candle \<Rightarrow> bool" where
  "usable_candle c \<longleftrightarrow> 0 < c_OpenTime c \<and> \<not> invalid (c_Close c)"

definition btcByTime :: "candle list \<Rightarrow> int \<rightharpoonup> f64" where
  "btcByTime btc =
    foldl (\<lambda>m c. if usable_candle c then m(timeBucket1h (c_OpenTime c) \<mapsto> c_Close c) else m)
      (\<lambda>_. None) btc"

definition align_pairs :: "candle list \<Rightarrow> candle list \<Rightarrow> candle_pair list" where
  "align_pairs target btc =
    List.map_filter
      (\<lambda>c. if usable_candle c then
             (case btcByTime btc (timeBucket1h (c_OpenTime c)) of
                None \<Rightarrow> None | Some b \<Rightarrow> Some (c_OpenTime c, c_Close c, b))
           else None)
      target"

definition alignCandles :: "candle list \<Rightarrow> candle list \<Rightarrow> regime_error + candle_pair list" where
  "alignCandles target btc =
    guard_err (target = [] \<or> btc = []) CandlesRequired
    (let pairs = insertion_sort (\<lambda>p q. fst p < fst q) (align_pairs target btc)
     in guard_err (length pairs < 25) (InsufficientAligned (length pairs))
        (guard_err (\<not> sorted_wrt (<) (map fst pairs)) NonMonotonicAligned (Inr pairs)))"

definition pctChange :: "f64 \<Rightarrow> f64 \<Rightarrow> f64" where
  "pctChange start last_i =
    (if feq start (Fin 0) then Fin 0 else (last_i - start) / start * Fin 100)"

definition deltaReturnPct :: "candle_pair list \<Rightarrow> int \<Rightarrow> regime_error + f64" where
  "deltaReturnPct pairs hours =
    guard_err (hours \<le> 0) HoursNotPositive
    (guard_err (int (length pairs) < hours + 1) (NeedAligned (hours + 1) (length pairs))
    (let (_, st, sb) = pairs ! (length pairs - nat hours - 1);
         (_, et, eb) = last pairs
     in guard_err (st \<le> Fin 0 \<or> sb \<le> Fin 0) InvalidStartClose
          (Inr (pctChange st et - pctChange sb eb))))"

fun return_series :: "candle_pair list \<Rightarrow> f64 list" where
  "return_series ((t1, x1, b1) # (t2, x2, b2) # ps) =
    (pctChange x1 x2 - pctChange b1 b2) # return_series ((t2, x2, b2) # ps)"
| "return_series _ = []"

definition emaLast :: "f64 list \<Rightarrow> int \<Rightarrow> f64" where
  "emaLast values period =
    (if values = [] then Fin 0
     else if period \<le> 1 then last values
     else
       let warm = min (nat period) (length values)
       in foldl (ema_step (Fin 2 / f64_of_int (period + 1)))
            (fsum (take warm values) / f64_of_int (int warm)) (drop warm values))"

definition classifyRelativeStrength :: "f64 \<Rightarrow> f64 \<Rightarrow> f64 \<Rightarrow> rs_config \<Rightarrow> string" where
  "classifyRelativeStrength rs4h rs24h smoothed cfg =
    (if rs_StrongOutperformPct cfg < rs4h \<and> Fin 0 < rs24h then ''strong_outperform''
     else if rs4h < rs_StrongUnderperformPct cfg \<and> rs24h < Fin 0 then ''strong_underperform''
     else if \<bar>rs4h\<bar> \<le> rs_NeutralBandPct cfg then ''neutral''
     else if Fin 0 < rs4h \<and> Fin 0 < smoothed then ''outperform''
     else if rs4h < Fin 0 \<and> smoothed < Fin 0 then ''underperform''
     else ''neutral'')"

definition ComputeRelativeStrength ::
  "candle list \<Rightarrow> candle list \<Rightarrow> rs_config \<Rightarrow> regime_error + rs_snapshot" where
  "ComputeRelativeStrength target btc cfg0 =
    (let cfg = withRelativeStrengthDefaults cfg0 in
     ebind (alignCandles target btc) (\<lambda>pairs.
     ebind (deltaReturnPct pairs 1) (\<lambda>rs1h.
     ebind (deltaReturnPct pairs 4) (\<lambda>rs4h.
     ebind (deltaReturnPct pairs 24) (\<lambda>rs24h.
       let smoothed = emaLast (return_series pairs) (rs_SmoothedEMAPeriod cfg)
       in guard_err (list_ex not_finite [rs1h, rs4h, rs24h, smoothed]) RSNotFinite
            (Inr \<lparr> rs_RS1H = rs1h, rs_RS4H = rs4h, rs_RS24H = rs24h, rs_RSSmoothed = smoothed,
                   rs_Classification = classifyRelativeStrength rs4h rs24h smoothed cfg \<rparr>))))))"

section \<open>The regime snapshot\<close>

record regime_snapshot =
  rg_Timestamp :: time
  rg_BTCFiltersTriggered :: "string list"
  rg_BTCFiltersDetail :: "detail gomap"
  rg_BTCDAvailable :: bool
  rg_BTCDFiltersTriggered :: "string list"
  rg_BTCDFiltersDetail :: "detail gomap"
  rg_RelativeStrength :: rs_snapshot
  rg_IsRanging :: bool
  rg_RangingBandWidth :: f64
  rg_BTCDataStale :: bool
  rg_Warnings :: "string list"
  rg_Btc5mStaleCounter :: int

record regime_input =
  ri_Now :: time
  ri_BTC5mCandles :: "candle list"
  ri_BTC15mCandles :: "candle list"
  ri_BTC1hCandles :: "candle list"
  ri_BTC1hSnapshot :: indicator_snapshot
  ri_BTC4hSnapshot :: indicator_snapshot
  ri_BTC5mStaleCounter :: int
  ri_Target1hCandles :: "candle list"
  ri_BTCD1hCandles :: "candle list"
  ri_BTCD1hSnapshot :: "indicator_snapshot option"
  ri_BTCD4hSnapshot :: "indicator_snapshot option"
  ri_Config :: regime_filter_config

definition btc_filters :: "regime_filter_config \<Rightarrow> regime_input \<Rightarrow> filter_outcome gomap" where
  "btc_filters cfg i =
    [(''BTCDumpedRecentlyShort'',
       BTCDumpedRecentlyShort (ri_BTC5mCandles i) (rf_BTCDumpShortThresholdPct cfg)),
     (''BTCDumpedRecentlyMedium'',
       BTCDumpedRecentlyMedium (ri_BTC15mCandles i) (rf_BTCDumpMediumThresholdPct cfg)),
     (''BTCStronglyBearishHTF'', BTCStronglyBearishHTF (ri_BTC1hSnapshot i) (ri_BTC4hSnapshot i)),
     (''BTCStronglyBullishHTF'', BTCStronglyBullishHTF (ri_BTC1hSnapshot i) (ri_BTC4hSnapshot i)),
     (''BTCNearMajorResistance'',
       BTCNearMajorResistance (ri_BTC4hSnapshot i) (rf_BTCNearLevelATRBuffer cfg)),
     (''BTCNearMajorSupport'',
       BTCNearMajorSupport (ri_BTC4hSnapshot i) (rf_BTCNearLevelATRBuffer cfg))]"

definition btcd_filters :: "regime_filter_config \<Rightarrow> regime_input \<Rightarrow> filter_outcome gomap" where
  "btcd_filters cfg i =
    [(''BTCDominanceRisingFast'',
       BTCDominanceRisingFast (ri_BTCD1hCandles i) (rf_BTCDRisingFastThresholdPct cfg)),
     (''BTCDominanceFalling'', BTCDominanceFalling (ri_BTCD1hSnapshot i) (ri_BTCD4hSnapshot i))]"

text \<open>\<open>for name, res := range filters\<close>: names, in the runtime's order, of those that pass a test.\<close>

definition names_where ::
  "(filter_outcome \<Rightarrow> bool) \<Rightarrow> string list \<Rightarrow> filter_outcome gomap \<Rightarrow> string list" where
  "names_where P ord fs =
    [n \<leftarrow> iter_keys ord fs. case map_of fs n of None \<Rightarrow> False | Some r \<Rightarrow> P r]"

definition details_of :: "filter_outcome gomap \<Rightarrow> detail gomap" where
  "details_of fs = map (\<lambda>(n, r). (n, fo_Detail r)) fs"

definition warning_of :: "filter_outcome gomap \<Rightarrow> string \<Rightarrow> string" where
  "warning_of fs n = n @ '': '' @
    (case map_of fs n of Some r \<Rightarrow> (case fo_Detail r of Detail t _ \<Rightarrow> t | _ \<Rightarrow> '''') | None \<Rightarrow> '''')"

definition containsWarning :: "string list \<Rightarrow> string \<Rightarrow> bool" where
  "containsWarning warnings p \<longleftrightarrow>
    list_ex (\<lambda>w. length p \<le> length w \<and> take (length p) w = p) warnings"

definition regime_snapshot_of :: "string list \<Rightarrow> time \<Rightarrow> regime_input \<Rightarrow> rs_snapshot \<Rightarrow> regime_snapshot" where
  "regime_snapshot_of ord now i rs =
    (let cfg = regime_withDefaults (ri_Config i);
         bf = btc_filters cfg i; df = btcd_filters cfg i;
         avail = (2 \<le> length (ri_BTCD1hCandles i) \<and> ri_BTCD1hSnapshot i \<noteq> None
                  \<and> ri_BTCD4hSnapshot i \<noteq> None);
         rng = ComputeBTCRanging (ri_BTC15mCandles i) (rf_RangingATRMultiplier cfg)
                 (rf_RangingLookbackCandles cfg);
         w0 = map (warning_of df) (names_where (\<lambda>r. fo_Severity r = ''n/a'') ord df);
         w1 = append_if (\<not> avail) ''btcd data unavailable'' w0;
         w2 = append_if (rr_IsRanging rng) ''MARKET_RANGING'' w1;
         stale = (0 < ri_BTC5mStaleCounter i)
     in \<lparr> rg_Timestamp = (if IsZero (ri_Now i) then now else ri_Now i),
          rg_BTCFiltersTriggered =
            append_if (rr_IsRanging rng) ''BTCRanging'' (names_where fo_Triggered ord bf),
          rg_BTCFiltersDetail = AList.update ''BTCRanging'' (rr_Detail rng) (details_of bf),
          rg_BTCDAvailable = avail,
          rg_BTCDFiltersTriggered = names_where fo_Triggered ord df,
          rg_BTCDFiltersDetail = details_of df,
          rg_RelativeStrength = rs,
          rg_IsRanging = rr_IsRanging rng,
          rg_RangingBandWidth = rr_BandWidth rng,
          rg_BTCDataStale = stale,
          rg_Warnings = append_if (stale \<and> \<not> containsWarning w2 ''BTC_DATA_STALE'') ''BTC_DATA_STALE'' w2,
          rg_Btc5mStaleCounter = 0 \<rparr>)"

definition BuildRegimeSnapshot ::
  "string list \<Rightarrow> time \<Rightarrow> regime_input \<Rightarrow> regime_error + regime_snapshot" where
  "BuildRegimeSnapshot ord now i =
    guard_err (length (ri_BTC15mCandles i) < 2) (BtcCandlesUnavailable ''btc 15m'')
    (guard_err (length (ri_BTC1hCandles i) < 25) (BtcCandlesUnavailable ''btc 1h'')
    (guard_err (length (ri_Target1hCandles i) < 25) (BtcCandlesUnavailable ''target 1h'')
    (guard_err (is_Symbol (ri_BTC1hSnapshot i) = '''' \<or> is_Symbol (ri_BTC4hSnapshot i) = '''')
       SnapshotsUnavailable
    (ebind (ComputeRelativeStrength (ri_Target1hCandles i) (ri_BTC1hCandles i)
              (rf_RelativeStrength (regime_withDefaults (ri_Config i)))) (\<lambda>rs.
       Inr (regime_snapshot_of ord now i rs))))))"

section \<open>Staleness tracker\<close>

record staleness_tracker =
  st_counter :: int
  st_cfg :: staleness_config

definition NewStalenessTracker :: "staleness_config \<Rightarrow> staleness_tracker" where
  "NewStalenessTracker cfg = \<lparr> st_counter = 0, st_cfg = withBtc5mStalenessDefaults cfg \<rparr>"

definition RecordFailure :: "staleness_tracker \<Rightarrow> staleness_tracker \<times> int" where
  "RecordFailure t = (let n = wrap64 (st_counter t + 1) in (t\<lparr>st_counter := n\<rparr>, n))"

definition RecordSuccess :: "staleness_tracker \<Rightarrow> staleness_tracker" where
  "RecordSuccess t = t\<lparr>st_counter := 0\<rparr>"

definition ShouldWarn :: "staleness_tracker \<Rightarrow> bool" where
  "ShouldWarn t \<longleftrightarrow> sl_WarnCycles (st_cfg t) \<le> st_counter t"

definition ShouldCritical :: "staleness_tracker \<Rightarrow> bool" where
  "ShouldCritical t \<longleftrightarrow> sl_CriticalCycles (st_cfg t) \<le> st_counter t"

definition InjectWarning :: "staleness_tracker \<Rightarrow> regime_snapshot \<Rightarrow> regime_snapshot" where
  "InjectWarning t snap =
    snap\<lparr>rg_Btc5mStaleCounter := st_counter t,
         rg_Warnings := rg_Warnings snap @
           (if ShouldCritical t
            then [''BTC 5m data CRITICAL: '' @ show_int (st_counter t) @ '' consecutive stale cycles'']
            else if ShouldWarn t
            then [''BTC 5m data stale: '' @ show_int (st_counter t) @ '' consecutive failures'']
            else [])\<rparr>"

end
