(* ===== verification/RegimeSpec.thy ===== *)
theory RegimeSpec
  imports Regime
begin

text \<open>
  What the market regime guarantees: the aligned pairs behind relative strength, the parts of a
  snapshot that do not depend on the iteration order of Go's maps, and the staleness counter.
\<close>

section \<open>Aligned candles\<close>

lemma btcByTime_sound:
  "btcByTime btc h = Some b \<Longrightarrow>
     \<exists>c\<in>set btc. usable_candle c \<and> timeBucket1h (c_OpenTime c) = h \<and> c_Close c = b"
proof -
  have "\<forall>h b. foldl (\<lambda>m c. if usable_candle c then m(timeBucket1h (c_OpenTime c) \<mapsto> c_Close c) else m)
          (\<lambda>_. None) btc h = Some b \<longrightarrow>
        (\<exists>c\<in>set btc. usable_candle c \<and> timeBucket1h (c_OpenTime c) = h \<and> c_Close c = b)"
    by (rule foldl_invariant [where P = "\<lambda>m. \<forall>h b. m h = Some b \<longrightarrow>
          (\<exists>c\<in>set btc. usable_candle c \<and> timeBucket1h (c_OpenTime c) = h \<and> c_Close c = b)"])
      (auto split: if_splits)
  then show "btcByTime btc h = Some b \<Longrightarrow> ?thesis" unfolding btcByTime_def by blast
qed

lemma align_pairs_sound:
  assumes "(t, x, b) \<in> set (align_pairs target btc)"
  shows "\<exists>c\<in>set target. \<exists>d\<in>set btc. usable_candle c \<and> usable_candle d \<and>
           timeBucket1h (c_OpenTime c) = timeBucket1h (c_OpenTime d) \<and>
           t = c_OpenTime c \<and> x = c_Close c \<and> b = c_Close d"
  using assms btcByTime_sound
  by (fastforce simp: align_pairs_def List.map_filter_def split: if_splits option.splits)

definition demo_series :: "nat \<Rightarrow> int \<Rightarrow> candle list" where
  "demo_series n p =
    map (\<lambda>i. \<lparr> c_Symbol = ''BTCUSDT'', c_Timeframe = ''1h'', c_OpenTime = 3600000 * (int i + 1),
               c_Open = Fin 100, c_High = Fin 101, c_Low = Fin 99,
               c_Close = Fin (of_int (100 + p * int i)), c_Volume = Fin 8, c_TurnOver = Fin 800,
               c_Confirmed = True \<rparr>) [0..<n]"

text \<open>
  An accepted alignment has at least 25 pairs with strictly increasing times, and each pair joins
  a target close with a BTC close of the same hour, both from usable candles of the inputs.
\<close>

theorem alignCandles_sound:
  assumes "alignCandles target btc = Inr pairs"
  shows "25 \<le> length pairs \<and> sorted_wrt (<) (map fst pairs) \<and>
    (\<forall>(t, x, b)\<in>set pairs. \<exists>c\<in>set target. \<exists>d\<in>set btc.
       usable_candle c \<and> usable_candle d \<and>
       timeBucket1h (c_OpenTime c) = timeBucket1h (c_OpenTime d) \<and>
       t = c_OpenTime c \<and> x = c_Close c \<and> b = c_Close d)"
  using assms align_pairs_sound by (fastforce simp: alignCandles_def Let_def)

theorem alignCandles_sound_witness:
  "\<exists>pairs. alignCandles (demo_series 25 1) (demo_series 25 0) = Inr pairs \<and> 25 \<le> length pairs"
proof -
  have "isl (alignCandles (demo_series 25 1) (demo_series 25 0)) = False" by code_simp
  then obtain ps where "alignCandles (demo_series 25 1) (demo_series 25 0) = Inr ps"
    by (cases "alignCandles (demo_series 25 1) (demo_series 25 0)") auto
  then show ?thesis using alignCandles_sound by blast
qed

section \<open>The snapshot\<close>

lemma mset_names_where:
  assumes "distinct (map fst fs)"
  shows "mset (names_where P ord fs) = mset (names_where P [] fs)"
  by (simp add: names_where_def mset_filter iter_keys_mset [OF assms])

lemma distinct_btc_filters: "distinct (map fst (btc_filters cfg i))"
  by (simp add: btc_filters_def)

lemma distinct_btcd_filters: "distinct (map fst (btcd_filters cfg i))"
  by (simp add: btcd_filters_def)

lemma mset_append_if: "mset (append_if c x xs) = mset xs + (if c then {#x#} else {#})"
  by (simp add: append_if_def)

lemma containsWarning_mset: "mset xs = mset ys \<Longrightarrow> containsWarning xs p = containsWarning ys p"
  using mset_eq_setD [of xs ys] by (simp add: containsWarning_def list_ex_iff)

text \<open>The snapshot with its three lists in iteration order blanked out.\<close>

definition unordered_part :: "regime_snapshot \<Rightarrow> regime_snapshot" where
  "unordered_part s = s\<lparr>rg_BTCFiltersTriggered := [], rg_BTCDFiltersTriggered := [], rg_Warnings := []\<rparr>"

definition same_up_to_order :: "regime_snapshot \<Rightarrow> regime_snapshot \<Rightarrow> bool" where
  "same_up_to_order a b \<longleftrightarrow>
    unordered_part a = unordered_part b \<and>
    mset (rg_BTCFiltersTriggered a) = mset (rg_BTCFiltersTriggered b) \<and>
    mset (rg_BTCDFiltersTriggered a) = mset (rg_BTCDFiltersTriggered b) \<and>
    mset (rg_Warnings a) = mset (rg_Warnings b)"

lemma regime_warnings_order:
  fixes fs :: "filter_outcome gomap"
  assumes "distinct (map fst fs)"
  shows "mset (append_if r ''MARKET_RANGING'' (append_if n ''btcd data unavailable''
      (map (warning_of fs) (names_where P o1 fs)))) =
    mset (append_if r ''MARKET_RANGING'' (append_if n ''btcd data unavailable''
      (map (warning_of fs) (names_where P o2 fs))))"
  using mset_names_where [OF assms(1), of P o1] mset_names_where [OF assms(1), of P o2]
  by (simp add: mset_append_if)

lemma same_up_to_order_snapshot:
  "same_up_to_order (regime_snapshot_of o1 now i rs) (regime_snapshot_of o2 now i rs)"
proof -
  let ?cfg = "regime_withDefaults (ri_Config i)"
  note w = regime_warnings_order [OF distinct_btcd_filters [of ?cfg i], of _ _ _ o1 o2]
  show ?thesis
    using mset_names_where [OF distinct_btc_filters [of ?cfg i], of fo_Triggered o1]
      mset_names_where [OF distinct_btc_filters [of ?cfg i], of fo_Triggered o2]
      mset_names_where [OF distinct_btcd_filters [of ?cfg i], of fo_Triggered o1]
      mset_names_where [OF distinct_btcd_filters [of ?cfg i], of fo_Triggered o2]
      w containsWarning_mset [OF w]
    by (simp add: same_up_to_order_def unordered_part_def regime_snapshot_of_def Let_def mset_append_if)
qed

lemma BuildRegimeSnapshot_cases:
  obtains m where "\<And>ord. BuildRegimeSnapshot ord now i = map_sum id (\<lambda>rs. regime_snapshot_of ord now i rs) m"
proof
  show "BuildRegimeSnapshot ord now i = map_sum id (\<lambda>rs. regime_snapshot_of ord now i rs)
      (guard_err (length (ri_BTC15mCandles i) < 2) (BtcCandlesUnavailable ''btc 15m'')
      (guard_err (length (ri_BTC1hCandles i) < 25) (BtcCandlesUnavailable ''btc 1h'')
      (guard_err (length (ri_Target1hCandles i) < 25) (BtcCandlesUnavailable ''target 1h'')
      (guard_err (is_Symbol (ri_BTC1hSnapshot i) = [] \<or> is_Symbol (ri_BTC4hSnapshot i) = [])
         SnapshotsUnavailable
      (ComputeRelativeStrength (ri_Target1hCandles i) (ri_BTC1hCandles i)
         (rf_RelativeStrength (regime_withDefaults (ri_Config i))))))))" for ord
    by (auto simp: BuildRegimeSnapshot_def guard_err_def ebind_def split: sum.split)
qed

text \<open>
  C6: two runs of the snapshot on the same input and clock fail with the same error or agree, whatever order
  the runtime gives the filter maps, up to the order of the triggered filters and the warnings.
\<close>

theorem regime_snapshot_order_independent:
  "case (BuildRegimeSnapshot o1 now i, BuildRegimeSnapshot o2 now i) of
     (Inr a, Inr b) \<Rightarrow> same_up_to_order a b
   | (Inl e, Inl f) \<Rightarrow> e = f
   | _ \<Rightarrow> False"
proof -
  obtain m where m: "\<And>ord. BuildRegimeSnapshot ord now i =
      map_sum id (\<lambda>rs. regime_snapshot_of ord now i rs) m"
    by (rule BuildRegimeSnapshot_cases [of now i]) blast
  show ?thesis unfolding m by (cases m) (simp_all add: same_up_to_order_snapshot)
qed

section \<open>Staleness\<close>

text \<open>A run of refresh results, \<open>True\<close> for a failed refresh.\<close>

definition track :: "staleness_tracker \<Rightarrow> bool list \<Rightarrow> staleness_tracker" where
  "track = foldl (\<lambda>t failed. if failed then fst (RecordFailure t) else RecordSuccess t)"

definition trailing_failures :: "bool list \<Rightarrow> nat" where
  "trailing_failures evs = length (takeWhile id (rev evs))"

lemma track_snoc:
  "track t (evs @ [e]) = (if e then fst (RecordFailure (track t evs)) else RecordSuccess (track t evs))"
  by (simp add: track_def)

lemma trailing_snoc: "trailing_failures (evs @ [e]) = (if e then Suc (trailing_failures evs) else 0)"
  by (simp add: trailing_failures_def)

lemma trailing_le: "trailing_failures evs \<le> length evs"
  by (metis length_rev length_takeWhile_le trailing_failures_def)

lemma track_new:
  "int (length evs) < 2 ^ 63 \<Longrightarrow>
     track (NewStalenessTracker cfg) evs =
       \<lparr> st_counter = int (trailing_failures evs), st_cfg = withBtc5mStalenessDefaults cfg \<rparr>"
proof (induction evs rule: rev_induct)
  case (snoc e evs)
  then show ?case using trailing_le [of evs]
    by (simp add: track_snoc trailing_snoc RecordFailure_def RecordSuccess_def Let_def)
qed (simp add: track_def NewStalenessTracker_def trailing_failures_def)

text \<open>
  After any run of refreshes the tracker warns exactly when the failures since the last success
  reach the warning threshold, is critical exactly when they reach the critical one, and a success
  silences both. The thresholds are positive whatever the configuration says.
\<close>

theorem staleness_thresholds:
  assumes "int (length evs) < 2 ^ 63"
  shows "(ShouldWarn (track (NewStalenessTracker cfg) evs) \<longleftrightarrow>
       sl_WarnCycles (withBtc5mStalenessDefaults cfg) \<le> int (trailing_failures evs)) \<and>
    (ShouldCritical (track (NewStalenessTracker cfg) evs) \<longleftrightarrow>
       sl_CriticalCycles (withBtc5mStalenessDefaults cfg) \<le> int (trailing_failures evs)) \<and>
    \<not> ShouldWarn (RecordSuccess (track (NewStalenessTracker cfg) evs)) \<and>
    \<not> ShouldCritical (RecordSuccess (track (NewStalenessTracker cfg) evs))"
  using track_new [OF assms, of cfg]
  by (simp_all add: ShouldWarn_def ShouldCritical_def RecordSuccess_def withBtc5mStalenessDefaults_def
      default_int_def)

theorem staleness_thresholds_witness:
  "ShouldWarn (track (NewStalenessTracker \<lparr> sl_WarnCycles = 0, sl_CriticalCycles = 0 \<rparr>)
     [True, False, True, True, True])"
proof -
  have "sl_WarnCycles (withBtc5mStalenessDefaults \<lparr> sl_WarnCycles = 0, sl_CriticalCycles = 0 \<rparr>)
      \<le> int (trailing_failures [True, False, True, True, True])" by code_simp
  then show ?thesis using staleness_thresholds [of "[True, False, True, True, True]"] by simp
qed

end
