(* ===== verification/Config.thy ===== *)
theory Config
  imports ConfigTypes
begin

text \<open>
  Validation and defaults of the configuration (\<open>internal/app/config.go\<close>), the operating mode
  (\<open>modes.go\<close>) and the live-readiness report (\<open>live_readiness.go\<close>). A \<open>validate\<close> is the list of
  its checks in source order, and the first that fails is the error. The process environment is an
  argument \<open>getenv\<close>, the time zone database an argument \<open>tz\<close>.
\<close>

section \<open>Errors\<close>

text \<open>
  An error is its fixed text (quotation marks left out) with the numbers or the string it prints; \<open>Wrap\<close> is
  \<open>fmt.Errorf("p: %w", err)\<close>.
\<close>

datatype cfg_error = Msg string | MsgNums string "f64 list" | MsgStr string string | Wrap string cfg_error

definition wrapped :: "string \<Rightarrow> cfg_error option \<Rightarrow> cfg_error option" where
  "wrapped p = map_option (Wrap p)"

lemma wrapped_None [simp]: "wrapped p e = None \<longleftrightarrow> e = None"
  by (simp add: wrapped_def)

section \<open>Modes\<close>

definition ModeShadow :: string where "ModeShadow = ''shadow''"
definition ModePaper :: string where "ModePaper = ''paper''"
definition ModeLive :: string where "ModeLive = ''live''"

definition ValidModes :: "string list" where
  "ValidModes = [ModeShadow, ModePaper, ModeLive]"

definition mode_IsValid :: "string \<Rightarrow> bool" where
  "mode_IsValid m \<longleftrightarrow> m \<in> set ValidModes"

definition ResolveMode :: "(string \<Rightarrow> string) \<Rightarrow> string \<Rightarrow> cfg_error + string" where
  "ResolveMode getenv configMode =
    (let envMode = getenv ''BOTSURV_MODE'' in
     if envMode \<noteq> [] then
       let mode = ToLower envMode in
       guard_err (\<not> mode_IsValid mode) (MsgStr ''BOTSURV_MODE is invalid'' envMode)
       (guard_err (mode = ModeLive \<and> ToLower (getenv ''LIVE_CONFIRMED'') \<noteq> ''yes'')
          (Msg ''BOTSURV_MODE=live requires LIVE_CONFIRMED=yes in environment'')
       (Inr mode))
     else if configMode \<noteq> [] then
       let mode = ToLower configMode in
       guard_err (\<not> mode_IsValid mode) (MsgStr ''app.mode is invalid'' configMode)
       (guard_err (mode = ModeLive)
          (Msg ''live mode requires BOTSURV_MODE=live and LIVE_CONFIRMED=yes in environment'')
       (Inr mode))
     else Inr ModeShadow)"

section \<open>Sections of the configuration\<close>

definition AppConfig_validate :: "(string \<Rightarrow> bool) \<Rightarrow> app_config \<Rightarrow> cfg_error option" where
  "AppConfig_validate tz c = first_err
    [fail_if (app_Mode c \<noteq> [] \<and> \<not> mode_IsValid (ToLower (app_Mode c))) (Msg ''app.mode must be one of''),
     fail_if (app_LogLevel c \<noteq> [] \<and> app_LogLevel c \<notin> {''debug'', ''info'', ''warn'', ''error''})
       (Msg ''app.log_level must be one of: debug, info, warn, error''),
     fail_if (app_CycleIntervalSeconds c \<le> 0) (Msg ''app.cycle_interval_seconds must be > 0''),
     fail_if (app_Timezone c \<noteq> [] \<and> \<not> tz (app_Timezone c)) (Msg ''app.timezone invalid'')]"

definition validTimeframes :: "string list" where
  "validTimeframes = [''1m'', ''5m'', ''15m'', ''30m'', ''1H'', ''4H'', ''1d'']"

definition MarketDataConfig_validate :: "market_data_config \<Rightarrow> cfg_error option" where
  "MarketDataConfig_validate c = first_err
    [fail_if (md_WSURL c = []) (Msg ''market_data.ws_url is required''),
     fail_if (md_RESTURL c = []) (Msg ''market_data.rest_url is required''),
     fail_if (md_StaleDataThresholdSeconds c \<le> 0)
       (Msg ''market_data.stale_data_threshold_seconds must be > 0''),
     fail_if (md_ReconnectIntervalSeconds c \<le> 0)
       (Msg ''market_data.reconnect_interval_seconds must be > 0''),
     fail_if (md_BackfillCandles c < 0) (Msg ''market_data.backfill_candles must be >= 0''),
     fail_if (md_StartTimeoutSeconds c < 0) (Msg ''market_data.start_timeout_seconds must be >= 0''),
     fail_if (md_Timeframes c = []) (Msg ''market_data.timeframes must not be empty''),
     (case List.find (\<lambda>tf. tf \<notin> set validTimeframes) (md_Timeframes c) of
        None \<Rightarrow> None
      | Some tf \<Rightarrow> Some (MsgStr ''market_data.timeframes contains invalid timeframe'' tf))]"

definition PaperConfig_validate :: "paper_config \<Rightarrow> cfg_error option" where
  "PaperConfig_validate c = first_err
    [fail_if (pc_StartingBalanceUSD c \<le> Fin 0) (Msg ''broker.paper.starting_balance_usd must be > 0''),
     fail_if (pc_FeeMakerBps c < Fin 0 \<or> pc_FeeTakerBps c < Fin 0)
       (Msg ''broker.paper fee bps must be >= 0''),
     fail_if (pc_SlippageBps c < Fin 0) (Msg ''broker.paper.slippage_bps must be >= 0''),
     fail_if (pc_DefaultLeverage c \<le> Fin 0) (Msg ''broker.paper.default_leverage must be > 0'')]"

definition StrategyConfig_validate :: "strategy_config \<Rightarrow> cfg_error option" where
  "StrategyConfig_validate c =
    (if \<not> sg_Enabled c then None
     else let i = sg_Indicators c in first_err
       [fail_if (ic_ATRPeriod i \<le> 0) (Msg ''strategy.indicators.atr_period must be > 0''),
        fail_if (ic_EMA200Period i \<le> 0) (Msg ''strategy.indicators.ema200_period must be > 0''),
        fail_if (ic_VolumeSMAPeriod i \<le> 0) (Msg ''strategy.indicators.volume_sma_period must be > 0''),
        fail_if (ic_RangeCandles i \<le> 0) (Msg ''strategy.indicators.range_candles must be > 0''),
        fail_if (ic_MinRR i \<le> Fin 0) (Msg ''strategy.indicators.min_rr must be > 0''),
        fail_if (ic_MinSLDistanceATRMultiplier i < Fin 0)
          (Msg ''strategy.indicators.min_sl_distance_atr_multiplier must be >= 0''),
        fail_if (ic_MinSLDistancePct i < Fin 0)
          (Msg ''strategy.indicators.min_sl_distance_pct must be >= 0''),
        fail_if (sg_LimitRetestTTLMinutes c < 0)
          (Msg ''strategy.limit_retest_ttl_minutes must be >= 0'')])"

definition IndicatorsConfig_WithDefaults :: "indicators_config \<Rightarrow> indicators_config" where
  "IndicatorsConfig_WithDefaults c =
    c\<lparr>ic_MinSLDistanceATRMultiplier := default_f64 (lit (3 / 10)) (ic_MinSLDistanceATRMultiplier c),
      ic_MinSLDistancePct := default_f64 (lit (3 / 10)) (ic_MinSLDistancePct c)\<rparr>"

definition AlertsConfig_validate :: "alerts_config \<Rightarrow> cfg_error option" where
  "AlertsConfig_validate c =
    fail_if (al_Enabled c \<and> al_Provider c \<noteq> ''telegram'' \<and> al_Provider c \<noteq> ''webhook'')
      (Msg ''alerts.provider must be telegram or webhook'')"

definition BacktestConfig_validate :: "backtest_config \<Rightarrow> cfg_error option" where
  "BacktestConfig_validate c =
    fail_if (bt_LLMMode c \<noteq> [] \<and> bt_LLMMode c \<notin> {''mock'', ''cached'', ''live''})
      (Msg ''backtest.llm_mode must be one of: mock, cached, live'')"

definition DataValidationConfig_Validate :: "string list \<Rightarrow> data_validation_config \<Rightarrow> cfg_error option" where
  "DataValidationConfig_Validate ord c = first_err
    [fail_if (dv_MinCandles c < 0) (Msg ''min_candles must be >= 0''),
     (case List.find (\<lambda>tf. case map_of (dv_MaxDataAgeSeconds c) tf of
                             None \<Rightarrow> False | Some secs \<Rightarrow> secs \<le> 0)
             (iter_keys ord (dv_MaxDataAgeSeconds c)) of
        None \<Rightarrow> None
      | Some tf \<Rightarrow> Some (MsgStr ''max_data_age_seconds must be > 0'' tf))]"

definition HardBlocksConfig_Validate :: "hard_blocks_config \<Rightarrow> cfg_error option" where
  "HardBlocksConfig_Validate c = first_err
    [fail_if (hb_MaxSpreadPct c < Fin 0) (Msg ''max_spread_pct must be >= 0''),
     fail_if (hb_MaxFundingAbsPct c < Fin 0) (Msg ''max_funding_abs_pct must be >= 0''),
     fail_if (hb_DailyMaxLossPct c < Fin 0) (Msg ''daily_max_loss_pct must be >= 0''),
     fail_if (hb_MaxConsecutiveLosses c < 0) (Msg ''max_consecutive_losses must be >= 0''),
     fail_if (hb_CooldownAfterLossMin c < 0) (Msg ''cooldown_after_loss_min must be >= 0''),
     fail_if (hb_CooldownAfterWinMin c < 0) (Msg ''cooldown_after_win_min must be >= 0'')]"

definition IndicatorEngineConfig_Validate :: "indicator_engine_config \<Rightarrow> cfg_error option" where
  "IndicatorEngineConfig_Validate c = first_err
    [fail_if (ie_EMA20Period c < 0 \<or> ie_EMA50Period c < 0 \<or> ie_EMA200Period c < 0)
       (Msg ''ema periods must be >= 0''),
     fail_if (ie_RSIPeriod c < 0 \<or> ie_MACDFastPeriod c < 0 \<or> ie_MACDSlowPeriod c < 0
              \<or> ie_MACDSignalPeriod c < 0)
       (Msg ''rsi/macd periods must be >= 0''),
     fail_if (ie_ATRPeriod c < 0 \<or> ie_VolumeMAPeriod c < 0) (Msg ''atr/volume_ma periods must be >= 0''),
     fail_if (ie_SwingLookback c < 0 \<or> ie_RecentSwingCount c < 0) (Msg ''swing settings must be >= 0''),
     fail_if (ie_SupportResistanceATRTol c < Fin 0)
       (Msg ''support_resistance_atr_tolerance must be >= 0''),
     fail_if (0 < ie_MACDFastPeriod c \<and> 0 < ie_MACDSlowPeriod c
              \<and> ie_MACDSlowPeriod c \<le> ie_MACDFastPeriod c)
       (Msg ''macd_fast_period must be < macd_slow_period'')]"

definition RelativeStrengthConfig_Validate :: "relative_strength_config \<Rightarrow> cfg_error option" where
  "RelativeStrengthConfig_Validate c = first_err
    [fail_if (rsc_NeutralBandPct c < Fin 0) (Msg ''neutral_band_pct must be >= 0''),
     fail_if (rsc_SmoothedEMAPeriod c < 0) (Msg ''smoothed_ema_period must be >= 0'')]"

definition MarketRegimeConfig_Validate :: "market_regime_config \<Rightarrow> cfg_error option" where
  "MarketRegimeConfig_Validate c = first_err
    [fail_if (mr_BTCNearLevelATRBuffer c < Fin 0) (Msg ''btc_near_level_atr_buffer must be >= 0''),
     fail_if (mr_BTCDRisingFastPct c < Fin 0) (Msg ''btcd_rising_fast_pct must be >= 0''),
     fail_if (bs_WarnCycles (mr_Btc5mStaleness c) < 0) (Msg ''btc_5m_staleness.warn_cycles must be >= 0''),
     fail_if (bs_CriticalCycles (mr_Btc5mStaleness c) < 0)
       (Msg ''btc_5m_staleness.critical_cycles must be >= 0''),
     fail_if (mr_RangingATRMultiplier c < Fin 0) (Msg ''ranging_atr_multiplier must be >= 0''),
     fail_if (mr_RangingLookbackCandles c < 0) (Msg ''ranging_lookback_candles must be >= 0''),
     RelativeStrengthConfig_Validate (mr_RelativeStrength c)]"

definition ScoringThresholdConfig_Validate :: "scoring_threshold_config \<Rightarrow> cfg_error option" where
  "ScoringThresholdConfig_Validate c = first_err
    [fail_if (th_AllowMarket c < Fin 0 \<or> Fin 100 < th_AllowMarket c)
       (Msg ''allow_market must be between 0 and 100''),
     fail_if (th_AllowRetestOnly c < Fin 0 \<or> Fin 100 < th_AllowRetestOnly c)
       (Msg ''allow_retest_only must be between 0 and 100''),
     fail_if (th_ReduceSize c < Fin 0 \<or> Fin 100 < th_ReduceSize c)
       (Msg ''reduce_size must be between 0 and 100''),
     fail_if (th_AllowMarket c < th_AllowRetestOnly c \<or> th_AllowRetestOnly c < th_ReduceSize c)
       (Msg ''thresholds must satisfy allow_market >= allow_retest_only >= reduce_size'')]"

definition ScoringConfig_Validate :: "scoring_config \<Rightarrow> cfg_error option" where
  "ScoringConfig_Validate c =
    (let mode = default_str ''balanced'' (sc_Mode c) in first_err
      [fail_if (mode \<noteq> ''balanced'' \<and> mode \<noteq> ''aggressive'')
         (Msg ''mode must be balanced or aggressive''),
       wrapped ''balanced'' (ScoringThresholdConfig_Validate (sc_Balanced c)),
       wrapped ''aggressive'' (ScoringThresholdConfig_Validate (sc_Aggressive c))])"

definition LLMRoutingConfig_Validate :: "llm_routing_config \<Rightarrow> cfg_error option" where
  "LLMRoutingConfig_Validate c = first_err
    [fail_if (lr_Mode c \<noteq> ''dynamic'') (Msg ''mode must be dynamic''),
     fail_if (lr_MinCandidateScore c < Fin 0 \<or> Fin 100 < lr_MinCandidateScore c)
       (Msg ''min_candidate_score must be between 0 and 100''),
     fail_if (lr_MaxCostUSDPerDay c < Fin 0) (Msg ''max_cost_usd_per_day must be >= 0'')]"

definition PortfolioRiskConfig_Validate :: "portfolio_risk_config \<Rightarrow> cfg_error option" where
  "PortfolioRiskConfig_Validate c = first_err
    [fail_if (pr_MaxOpenPositions c \<le> 0) (Msg ''max_open_positions must be > 0''),
     fail_if (pr_MaxNewPositionsPerCycle c \<le> 0) (Msg ''max_new_positions_per_cycle must be > 0''),
     fail_if (pr_MaxOpenPositions c < pr_MaxNewPositionsPerCycle c)
       (Msg ''max_new_positions_per_cycle cannot exceed max_open_positions''),
     fail_if (pr_MaxTotalExposureUSD c \<le> Fin 0) (Msg ''max_total_exposure_usd must be > 0''),
     fail_if (pr_MaxTotalMarginUsedPct c \<le> Fin 0 \<or> Fin 100 < pr_MaxTotalMarginUsedPct c)
       (Msg ''max_total_margin_used_pct must be between 0 and 100''),
     fail_if (pr_MaxRiskPerTradePct c \<le> Fin 0) (Msg ''max_risk_per_trade_pct must be > 0''),
     fail_if (pr_MaxDailyLossPct c \<le> Fin 0) (Msg ''max_daily_loss_pct must be > 0''),
     fail_if (pr_MaxLeverage c \<le> Fin 0) (Msg ''max_leverage must be > 0''),
     fail_if (pr_MinNotionalUSD c \<le> Fin 0) (Msg ''min_notional_usd must be > 0''),
     fail_if (pr_MaxOpenPositions c < pr_MaxSameDirectionPositions c)
       (Msg ''max_same_direction_positions cannot exceed max_open_positions''),
     fail_if (pr_MaxOpenPositions c < pr_MaxPerSymbolPosition c)
       (Msg ''max_per_symbol_position cannot exceed max_open_positions''),
     fail_if (ps_CooldownMinutes (pr_PerSymbolSLCooldown c) < 0)
       (Msg ''per_symbol_sl_cooldown.cooldown_minutes must be >= 0'')]"

definition RiskConfig_Validate :: "risk_config \<Rightarrow> cfg_error option" where
  "RiskConfig_Validate c = first_err
    [fail_if (rc_BaseRiskPerTradePct c < Fin 0) (Msg ''base_risk_per_trade_pct must be >= 0''),
     fail_if (rc_MaxRiskPerTradePct c < Fin 0) (Msg ''max_risk_per_trade_pct must be >= 0''),
     fail_if (rc_MaxLeverage c < Fin 0) (Msg ''max_leverage must be >= 0''),
     fail_if (rc_PreferredLeverage c < Fin 0) (Msg ''preferred_leverage must be >= 0''),
     fail_if (rc_MinRR c < Fin 0) (Msg ''min_rr must be >= 0''),
     fail_if (rc_MaxOpenPositions c < 0) (Msg ''max_open_positions must be >= 0''),
     fail_if (rc_MaxCorrelatedPositions c < 0) (Msg ''max_correlated_positions must be >= 0''),
     fail_if (rc_DailyMaxLossPct c < Fin 0) (Msg ''daily_max_loss_pct must be >= 0''),
     fail_if (rc_WeeklyMaxLossPct c < Fin 0) (Msg ''weekly_max_loss_pct must be >= 0''),
     fail_if (rc_MinRiskPerTradePct c < Fin 0) (Msg ''min_risk_per_trade_pct must be >= 0'')]"

definition RiskConfig_WithDefaults :: "risk_config \<Rightarrow> risk_config" where
  "RiskConfig_WithDefaults c =
    \<lparr> rc_BaseRiskPerTradePct = default_f64 (Fin (1 / 2)) (rc_BaseRiskPerTradePct c),
      rc_MaxRiskPerTradePct = default_f64 (Fin 1) (rc_MaxRiskPerTradePct c),
      rc_MaxLeverage = default_f64 (Fin 5) (rc_MaxLeverage c),
      rc_PreferredLeverage = default_f64 (Fin 3) (rc_PreferredLeverage c),
      rc_MinRR = default_f64 (lit (14 / 10)) (rc_MinRR c),
      rc_MaxOpenPositions = default_int 2 (rc_MaxOpenPositions c),
      rc_MaxCorrelatedPositions = default_int 1 (rc_MaxCorrelatedPositions c),
      rc_DailyMaxLossPct = default_f64 (Fin 3) (rc_DailyMaxLossPct c),
      rc_WeeklyMaxLossPct = default_f64 (Fin 6) (rc_WeeklyMaxLossPct c),
      rc_MinRiskPerTradePct = default_f64 (lit (1 / 10)) (rc_MinRiskPerTradePct c),
      rc_RiskConfigVersion = default_str ''v1.0.0'' (rc_RiskConfigVersion c) \<rparr>"

definition LLMConfig_Validate :: "(string \<Rightarrow> string) \<Rightarrow> llm_config \<Rightarrow> cfg_error option" where
  "LLMConfig_Validate getenv c =
    (if \<not> lm_Enabled c then None
     else first_err
       [fail_if (lm_Provider c \<noteq> ''openrouter'' \<and> lm_Provider c \<noteq> ''deepseek'')
          (Msg ''provider must be openrouter or deepseek''),
        fail_if (lm_BaseURL c = []) (Msg ''base_url is required when LLM is enabled''),
        fail_if (lm_Model c = []) (Msg ''model is required when LLM is enabled''),
        fail_if (lm_Provider c = ''openrouter'' \<and> \<not> feq (lm_Temperature c) (Fin 0))
          (Msg ''temperature must be 0 for openrouter''),
        fail_if (lm_TimeoutSeconds c \<le> 0) (Msg ''timeout_seconds must be > 0''),
        fail_if (lm_MaxTokens c \<le> 0) (Msg ''max_tokens must be > 0''),
        fail_if (lm_Provider c = ''openrouter'' \<and> getenv ''OPENROUTER_API_KEY'' = [])
          (Msg ''OPENROUTER_API_KEY environment variable is required when llm.provider=openrouter''),
        fail_if (lm_Provider c = ''deepseek'' \<and> getenv ''DEEPSEEK_API_KEY'' = [])
          (Msg ''DEEPSEEK_API_KEY environment variable is required when llm.provider=deepseek'')])"

definition LLMReviewConfig_Validate :: "llm_review_config \<Rightarrow> cfg_error option" where
  "LLMReviewConfig_Validate c =
    (if lv_Mode c = [] then Some (Msg ''mode is required'')
     else if lv_Mode c \<notin> {''off'', ''audit_only'', ''veto'', ''review''}
     then Some (Msg ''mode must be one of: off, audit_only, veto, review'')
     else if lv_Mode c = ''off'' then None
     else first_err
       [fail_if (lv_Provider c \<noteq> ''openrouter'' \<and> lv_Provider c \<noteq> ''deepseek'')
          (Msg ''provider must be openrouter or deepseek''),
        fail_if (lv_Model c = []) (Msg ''model is required when llm_review.mode is not off''),
        fail_if (lv_TimeoutSeconds c \<le> 0) (Msg ''timeout_seconds must be > 0''),
        fail_if (lv_MaxInputTokens c \<le> 0) (Msg ''max_input_tokens must be > 0''),
        fail_if (lv_MaxOutputTokens c \<le> 0) (Msg ''max_output_tokens must be > 0''),
        fail_if (lv_DailyCostCapUSD c < Fin 0) (Msg ''daily_cost_cap_usd must be >= 0'')])"

definition LLMReviewConfig_WithDefaults :: "llm_review_config \<Rightarrow> llm_review_config" where
  "LLMReviewConfig_WithDefaults c =
    c\<lparr>lv_Mode := default_str ''off'' (lv_Mode c),
      lv_Provider := default_str ''deepseek'' (lv_Provider c),
      lv_TimeoutSeconds := default_int 8 (lv_TimeoutSeconds c),
      lv_MaxInputTokens := default_int 2000 (lv_MaxInputTokens c),
      lv_MaxOutputTokens := default_int 500 (lv_MaxOutputTokens c),
      lv_PromptVersion := default_str ''v1.0.0'' (lv_PromptVersion c)\<rparr>"

definition WatchlistContextConfig_Validate :: "watchlist_context_config \<Rightarrow> cfg_error option" where
  "WatchlistContextConfig_Validate c =
    (let f = wc_Fibonacci c in
     if \<not> wc_Enabled c \<or> \<not> fb_Enabled f then None
     else first_err
       [fail_if (fb_LookbackCandles f \<le> 0) (Msg ''fibonacci.lookback_candles must be > 0 when enabled''),
        fail_if (fb_ZoneTolerancePct f < Fin 0) (Msg ''fibonacci.zone_tolerance_pct must be >= 0''),
        fail_if (fb_ScoringWeight f < Fin 0 \<or> Fin 5 < fb_ScoringWeight f)
          (Msg ''fibonacci.scoring_weight must be between 0 and 5'')])"

definition WatchlistContextConfig_WithDefaults :: "watchlist_context_config \<Rightarrow> watchlist_context_config" where
  "WatchlistContextConfig_WithDefaults c =
    (let f = wc_Fibonacci c in
     c\<lparr>wc_Fibonacci := f\<lparr>fb_LookbackCandles := default_int 80 (fb_LookbackCandles f),
                          fb_ZoneTolerancePct := default_f64 (Fin 1) (fb_ZoneTolerancePct f),
                          fb_ScoringWeight := default_f64 (Fin 2) (fb_ScoringWeight f)\<rparr>\<rparr>)"

section \<open>Defaults\<close>

definition MinCandlesOrDefault :: "data_validation_config \<Rightarrow> int" where
  "MinCandlesOrDefault c = (if 0 < dv_MinCandles c then dv_MinCandles c else 250)"

definition MaxDataAgeSecondsFor :: "data_validation_config \<Rightarrow> string \<Rightarrow> int" where
  "MaxDataAgeSecondsFor c tf =
    (let dflt = (if tf = ''1m'' then 30 else if tf = ''5m'' then 7200 else if tf = ''15m'' then 1200
                 else if tf = ''1H'' then 4500 else if tf = ''4H'' then 18000 else 180)
     in case map_of (dv_MaxDataAgeSeconds c) tf of
          Some secs \<Rightarrow> if 0 < secs then secs else dflt
        | None \<Rightarrow> dflt)"

definition MaxSpreadPctOrDefault :: "hard_blocks_config \<Rightarrow> f64" where
  "MaxSpreadPctOrDefault c = (if Fin 0 < hb_MaxSpreadPct c then hb_MaxSpreadPct c else lit (15 / 100))"

definition MaxFundingAbsPctOrDefault :: "hard_blocks_config \<Rightarrow> f64" where
  "MaxFundingAbsPctOrDefault c =
    (if Fin 0 < hb_MaxFundingAbsPct c then hb_MaxFundingAbsPct c else Fin (1 / 2))"

definition BTCFlashCrash5mPctOrDefault :: "hard_blocks_config \<Rightarrow> f64" where
  "BTCFlashCrash5mPctOrDefault c =
    (if \<not> feq (hb_BTCFlashCrash5mPct c) (Fin 0) then hb_BTCFlashCrash5mPct c else Fin (- 5 / 2))"

definition DailyMaxLossPctOrDefault :: "hard_blocks_config \<Rightarrow> f64" where
  "DailyMaxLossPctOrDefault c = (if Fin 0 < hb_DailyMaxLossPct c then hb_DailyMaxLossPct c else Fin 3)"

definition MaxConsecutiveLossesOrDefault :: "hard_blocks_config \<Rightarrow> int" where
  "MaxConsecutiveLossesOrDefault c =
    (if 0 < hb_MaxConsecutiveLosses c then hb_MaxConsecutiveLosses c else 3)"

definition IndicatorEngineConfig_WithDefaults :: "indicator_engine_config \<Rightarrow> indicator_engine_config" where
  "IndicatorEngineConfig_WithDefaults c =
    \<lparr> ie_EMA20Period = default_int 20 (ie_EMA20Period c),
      ie_EMA50Period = default_int 50 (ie_EMA50Period c),
      ie_EMA200Period = default_int 200 (ie_EMA200Period c),
      ie_RSIPeriod = default_int 14 (ie_RSIPeriod c),
      ie_MACDFastPeriod = default_int 12 (ie_MACDFastPeriod c),
      ie_MACDSlowPeriod = default_int 26 (ie_MACDSlowPeriod c),
      ie_MACDSignalPeriod = default_int 9 (ie_MACDSignalPeriod c),
      ie_ATRPeriod = default_int 14 (ie_ATRPeriod c),
      ie_VolumeMAPeriod = default_int 20 (ie_VolumeMAPeriod c),
      ie_SwingLookback = default_int 3 (ie_SwingLookback c),
      ie_RecentSwingCount = default_int 5 (ie_RecentSwingCount c),
      ie_SupportResistanceATRTol = default_f64 (Fin 1) (ie_SupportResistanceATRTol c) \<rparr>"

definition CooldownConfig_WithDefaults :: "cooldown_config \<Rightarrow> cooldown_config" where
  "CooldownConfig_WithDefaults c =
    c\<lparr>cd_ConsecutiveLosses := default_int 3 (cd_ConsecutiveLosses c),
      cd_CooldownMinutes := default_int 60 (cd_CooldownMinutes c)\<rparr>"

definition PerSymbolSLCooldownConfig_WithDefaults ::
  "per_symbol_sl_cooldown_config \<Rightarrow> per_symbol_sl_cooldown_config" where
  "PerSymbolSLCooldownConfig_WithDefaults c =
    c\<lparr>ps_CooldownMinutes := default_int 60 (ps_CooldownMinutes c)\<rparr>"

definition Btc5mStalenessConfig_WithDefaults :: "btc5m_staleness_config \<Rightarrow> btc5m_staleness_config" where
  "Btc5mStalenessConfig_WithDefaults c =
    \<lparr> bs_WarnCycles = default_int 3 (bs_WarnCycles c),
      bs_CriticalCycles = default_int 10 (bs_CriticalCycles c) \<rparr>"

definition RelativeStrengthConfig_WithDefaults :: "relative_strength_config \<Rightarrow> relative_strength_config" where
  "RelativeStrengthConfig_WithDefaults c =
    \<lparr> rsc_StrongOutperformPct = default_if_zero (Fin 2) (rsc_StrongOutperformPct c),
      rsc_StrongUnderperformPct = default_if_zero (Fin (- 2)) (rsc_StrongUnderperformPct c),
      rsc_NeutralBandPct = default_if_zero (Fin (1 / 2)) (rsc_NeutralBandPct c),
      rsc_SmoothedEMAPeriod = default_int 8 (rsc_SmoothedEMAPeriod c) \<rparr>"

definition MarketRegimeConfig_WithDefaults :: "market_regime_config \<Rightarrow> market_regime_config" where
  "MarketRegimeConfig_WithDefaults c =
    c\<lparr>mr_BTCDumpShortPct := default_if_zero (Fin (- 5 / 2)) (mr_BTCDumpShortPct c),
      mr_BTCDumpMediumPct := default_if_zero (Fin (- 3)) (mr_BTCDumpMediumPct c),
      mr_BTCNearLevelATRBuffer := default_f64 (Fin 1) (mr_BTCNearLevelATRBuffer c),
      mr_BTCDRisingFastPct := default_f64 (lit (8 / 10)) (mr_BTCDRisingFastPct c),
      mr_RelativeStrength := RelativeStrengthConfig_WithDefaults (mr_RelativeStrength c),
      mr_Btc5mStaleness := Btc5mStalenessConfig_WithDefaults (mr_Btc5mStaleness c),
      mr_RangingATRMultiplier := default_f64 (Fin (5 / 2)) (mr_RangingATRMultiplier c),
      mr_RangingLookbackCandles := default_int 16 (mr_RangingLookbackCandles c)\<rparr>"

definition ScoringThresholdConfig_withDefaults ::
  "scoring_threshold_config \<Rightarrow> f64 \<Rightarrow> f64 \<Rightarrow> f64 \<Rightarrow> scoring_threshold_config" where
  "ScoringThresholdConfig_withDefaults c allowMarket allowRetest reduce =
    \<lparr> th_AllowMarket = default_f64 allowMarket (th_AllowMarket c),
      th_AllowRetestOnly = default_f64 allowRetest (th_AllowRetestOnly c),
      th_ReduceSize = default_f64 reduce (th_ReduceSize c) \<rparr>"

definition ScoringConfig_WithDefaults :: "scoring_config \<Rightarrow> scoring_config" where
  "ScoringConfig_WithDefaults c =
    \<lparr> sc_Mode = default_str ''balanced'' (sc_Mode c),
      sc_ScoringVersion = default_str ''v0.1.0'' (sc_ScoringVersion c),
      sc_Balanced = ScoringThresholdConfig_withDefaults (sc_Balanced c) (Fin 75) (Fin 65) (Fin 55),
      sc_Aggressive = ScoringThresholdConfig_withDefaults (sc_Aggressive c) (Fin 70) (Fin 60) (Fin 50) \<rparr>"

section \<open>The whole configuration\<close>

definition target_margin :: "user_config \<Rightarrow> f64" where
  "target_margin c =
    (let margin = sz_MarginPerTradeUSD (uc_Sizing c)
     in if margin \<le> Fin 0 then pr_MarginPerTradeUSD (uc_PortfolioRisk c) else margin)"

definition target_leverage :: "user_config \<Rightarrow> f64" where
  "target_leverage c =
    (let l1 = sz_MaxLeverage (uc_Sizing c);
         l2 = (if l1 \<le> Fin 0 then pr_MaxLeverage (uc_PortfolioRisk c) else l1)
     in if l2 \<le> Fin 0 then pc_DefaultLeverage (bk_Paper (uc_Broker c)) else l2)"

definition ComputeTargetNotional :: "user_config \<Rightarrow> f64" where
  "ComputeTargetNotional c =
    (if Fin 0 < target_margin c \<and> Fin 0 < target_leverage c
     then target_margin c * target_leverage c else Fin 0)"

text \<open>
  \<open>Validate\<close> fills in the review defaults before it checks the review section; its callers drop the
  configuration when it returns an error.
\<close>

definition UserConfig_Validate ::
  "(string \<Rightarrow> string) \<Rightarrow> (string \<Rightarrow> bool) \<Rightarrow> string list \<Rightarrow> user_config \<Rightarrow> cfg_error + user_config" where
  "UserConfig_Validate getenv tz ord c =
    (let paper = bk_Paper (uc_Broker c);
         review = LLMReviewConfig_WithDefaults (uc_LLMReview c)
     in case first_err
       [AppConfig_validate tz (uc_App c),
        fail_if (db_Driver (uc_Database c) \<noteq> ''postgres'') (Msg ''database.driver must be postgres''),
        fail_if (db_DSN (uc_Database c) = []) (Msg ''database.dsn is required''),
        MarketDataConfig_validate (uc_MarketData c),
        wrapped ''data_validation'' (DataValidationConfig_Validate ord (uc_DataValidation c)),
        wrapped ''hard_blocks'' (HardBlocksConfig_Validate (uc_HardBlocks c)),
        wrapped ''indicator_engine'' (IndicatorEngineConfig_Validate (uc_IndicatorEngine c)),
        wrapped ''market_regime'' (MarketRegimeConfig_Validate (uc_MarketRegime c)),
        wrapped ''scoring'' (ScoringConfig_Validate (uc_Scoring c)),
        fail_if (bk_Provider (uc_Broker c) \<noteq> ''paper'')
          (Msg ''phase 5 only supports paper broker; live broker not yet implemented''),
        PaperConfig_validate paper,
        fail_if (Fin 0 < sz_MaxLeverage (uc_Sizing c) \<and> Fin 0 < pc_DefaultLeverage paper
                 \<and> \<not> feq (sz_MaxLeverage (uc_Sizing c)) (pc_DefaultLeverage paper))
          (MsgNums ''sizing.max_leverage must equal broker.paper.default_leverage''
             [sz_MaxLeverage (uc_Sizing c), pc_DefaultLeverage paper]),
        fail_if (ComputeTargetNotional c \<le> Fin 0) (Msg ''target notional must be > 0''),
        StrategyConfig_validate (uc_Strategy c),
        wrapped ''llm_routing'' (LLMRoutingConfig_Validate (uc_LLMRouting c)),
        wrapped ''portfolio_risk'' (PortfolioRiskConfig_Validate (uc_PortfolioRisk c)),
        wrapped ''risk'' (RiskConfig_Validate (uc_Risk c)),
        wrapped ''llm'' (LLMConfig_Validate getenv (uc_LLM c)),
        wrapped ''llm_review'' (LLMReviewConfig_Validate review),
        AlertsConfig_validate (uc_Alerts c),
        BacktestConfig_validate (uc_Backtest c),
        wrapped ''watchlist_context'' (WatchlistContextConfig_Validate (uc_WatchlistContext c))]
      of Some e \<Rightarrow> Inl e | None \<Rightarrow> Inr (c\<lparr>uc_LLMReview := review\<rparr>))"

section \<open>Live readiness\<close>

record readiness_check =
  rk_Passed :: bool
  rk_CheckName :: string
  rk_AutoCheck :: bool

text \<open>
  What the three repositories answer: the number of decisions with an action in the last 30 days and
  the most recent decisions, the pending outcomes by the time they are tracked until, the number of
  open paper trades. \<open>None\<close> as a repository is the nil interface, \<open>None\<close> as an answer a failed query.
\<close>

record readiness_repos =
  rp_countByAction :: "(string \<Rightarrow> int option) option"
  rp_recent :: "int option"
  rp_pending :: "time list option option"
  rp_openTrades :: "int option option"

definition count_check :: "string \<Rightarrow> int option \<Rightarrow> readiness_check" where
  "count_check name n =
    \<lparr> rk_Passed = (case n of None \<Rightarrow> False | Some k \<Rightarrow> \<not> 0 < k), rk_CheckName = name, rk_AutoCheck = True \<rparr>"

definition decision_checks :: "readiness_repos \<Rightarrow> readiness_check list" where
  "decision_checks r =
    (case rp_countByAction r of
       None \<Rightarrow> []
     | Some byAction \<Rightarrow>
         [count_check ''C1-NaN_Inf_Rejected'' (byAction ''REJECTED_RISK''),
          count_check ''C2-Blocked_Hard'' (byAction ''BLOCKED_HARD''),
          count_check ''C3-Position_Mismatch'' (byAction ''REJECTED_SAFETY''),
          \<lparr> rk_Passed = (case rp_recent r of None \<Rightarrow> False | Some n \<Rightarrow> n \<noteq> 0),
            rk_CheckName = ''C4-DecisionLog_Coverage'', rk_AutoCheck = True \<rparr>])"

definition orphan :: "time \<Rightarrow> time \<Rightarrow> bool" where
  "orphan now trackedUntil \<longleftrightarrow> trackedUntil < now - seconds (48 * 3600) \<and> \<not> IsZero trackedUntil"

definition trade_checks :: "time \<Rightarrow> readiness_repos \<Rightarrow> readiness_check list" where
  "trade_checks now r =
    (case rp_openTrades r of
       None \<Rightarrow> []
     | Some q \<Rightarrow> [\<lparr> rk_Passed = (q \<noteq> None), rk_CheckName = ''C5-PaperTrade_Linkage'', rk_AutoCheck = True \<rparr>]) @
    (case rp_pending r of
       None \<Rightarrow> []
     | Some q \<Rightarrow>
         [\<lparr> rk_Passed = (case q of None \<Rightarrow> False | Some ts \<Rightarrow> \<not> list_ex (orphan now) ts),
            rk_CheckName = ''C6-Counterfactual_Orphans'', rk_AutoCheck = True \<rparr>])"

definition manual_checks :: "readiness_check list" where
  "manual_checks =
    map (\<lambda>n. \<lparr> rk_Passed = True, rk_CheckName = n, rk_AutoCheck = False \<rparr>)
      [''M1-Emergency_Stop_Test'', ''M2-BTC_Flash_Crash_CB'', ''M3-Position_Reconciliation'',
       ''M4-Live_Config_Review'', ''M5-Initial_Capital'', ''M6-LIVE_CONFIRMED'']"

definition CheckLiveReadiness :: "time \<Rightarrow> readiness_repos \<Rightarrow> bool \<times> readiness_check list" where
  "CheckLiveReadiness now r =
    (if rp_countByAction r = None \<and> rp_pending r = None \<and> rp_openTrades r = None
     then (False, [\<lparr> rk_Passed = False, rk_CheckName = ''Repos_Provided'', rk_AutoCheck = True \<rparr>])
     else
       let checks = decision_checks r @ trade_checks now r @ manual_checks
       in (list_all (\<lambda>c. rk_AutoCheck c \<longrightarrow> rk_Passed c) checks, checks))"

end
