(* ===== verification/ConfigSpec.thy ===== *)
theory ConfigSpec
  imports Config
begin

text \<open>
  What validation guarantees to the components that are built from an accepted configuration, where
  the defaults that are filled in afterwards undo it, and how live mode is reached.
\<close>

section \<open>Modes\<close>

lemma ToLower_idem: "ToLower (ToLower s) = ToLower s"
proof -
  have "lower_char (lower_char c) = lower_char c" for c
    by (auto simp: lower_char_def Let_def)
  then show ?thesis by (simp add: ToLower_def)
qed

text \<open>
  C7: the bot resolves to live mode only when both environment variables ask for it, whatever the
  configuration file says, and it never resolves to anything but one of the three modes.
\<close>

theorem live_mode_needs_both_variables:
  assumes "ResolveMode getenv configMode = Inr mode"
  shows "mode \<in> {ModeShadow, ModePaper, ModeLive} \<and>
    (mode = ModeLive \<longrightarrow> ToLower (getenv ''BOTSURV_MODE'') = ''live'' \<and>
                         ToLower (getenv ''LIVE_CONFIRMED'') = ''yes'')"
  using assms
  by (auto simp: ResolveMode_def Let_def mode_IsValid_def ValidModes_def ModeShadow_def ModePaper_def
      ModeLive_def split: if_splits)

theorem live_mode_needs_both_variables_witness:
  "ResolveMode (\<lambda>v. if v = ''BOTSURV_MODE'' then ''LIVE'' else ''Yes'') '''' = Inr ModeLive \<and>
   ToLower ''LIVE'' = ''live''"
proof -
  have "ResolveMode (\<lambda>v. if v = ''BOTSURV_MODE'' then ''LIVE'' else ''Yes'') '''' = Inr ModeLive"
    by code_simp
  then show ?thesis using live_mode_needs_both_variables by fastforce
qed

section \<open>Accepted configurations\<close>

lemma thresholds_accepted:
  "ScoringThresholdConfig_Validate c = None \<Longrightarrow>
    \<not> th_AllowMarket c < th_AllowRetestOnly c \<and> \<not> th_AllowRetestOnly c < th_ReduceSize c"
  by (simp add: ScoringThresholdConfig_Validate_def)

lemma times_pos_not_NaN: "Fin 0 < x \<Longrightarrow> Fin 0 < y \<Longrightarrow> x * y \<noteq> NaN"
  by (cases x; cases y) (auto simp: times_f64_def is_fin_def isInf_def isNaN_def inf_of_def zero_of_def)

lemma target_notional_pos:
  assumes "\<not> ComputeTargetNotional c \<le> Fin 0"
  shows "Fin 0 < ComputeTargetNotional c"
proof -
  have "ComputeTargetNotional c \<noteq> NaN"
    using times_pos_not_NaN by (simp add: ComputeTargetNotional_def)
  then show ?thesis using assms f64_not_less [of "Fin 0" "ComputeTargetNotional c"] by auto
qed

lemmas validate_defs =
  AppConfig_validate_def MarketDataConfig_validate_def PaperConfig_validate_def
  PortfolioRiskConfig_Validate_def ScoringConfig_Validate_def

lemma UserConfig_Validate_Inr:
  assumes "UserConfig_Validate getenv tz ord c = Inr c'"
  shows "AppConfig_validate tz (uc_App c) = None" "MarketDataConfig_validate (uc_MarketData c) = None"
    "ScoringConfig_Validate (uc_Scoring c) = None" "PaperConfig_validate (bk_Paper (uc_Broker c)) = None"
    "\<not> ComputeTargetNotional c \<le> Fin 0" "PortfolioRiskConfig_Validate (uc_PortfolioRisk c) = None"
    "bk_Provider (uc_Broker c) = ''paper''"
    "c' = c\<lparr>uc_LLMReview := LLMReviewConfig_WithDefaults (uc_LLMReview c)\<rparr>"
    "LLMReviewConfig_Validate (LLMReviewConfig_WithDefaults (uc_LLMReview c)) = None"
  using assms by (simp_all add: UserConfig_Validate_def Let_def split: option.splits)

definition demo_paper_config :: paper_config where
  "demo_paper_config =
    \<lparr> pc_StartingBalanceUSD = Fin 1000, pc_FeeMakerBps = Fin 2, pc_FeeTakerBps = Fin 6,
      pc_SlippageModel = ''fixed'', pc_SlippageBps = Fin 5, pc_DefaultLeverage = Fin 5 \<rparr>"

definition demo_indicators_config :: indicators_config where
  "demo_indicators_config =
    \<lparr> ic_ATRPeriod = 14, ic_EMA200Period = 200, ic_VolumeSMAPeriod = 20, ic_RangeCandles = 20,
      ic_MinVolumeRatio = Fin 1, ic_MaxBreakoutExtensionATR = Fin 1, ic_MaxDistanceFromBreakoutATR = Fin 1,
      ic_MinRR = Fin 2, ic_ExpectedMoveCostMultiplier = Fin 3, ic_MinSLDistanceATRMultiplier = Fin 0,
      ic_MinSLDistancePct = Fin 0 \<rparr>"

definition demo_portfolio_config :: portfolio_risk_config where
  "demo_portfolio_config =
    \<lparr> pr_MaxOpenPositions = 3, pr_MaxNewPositionsPerCycle = 2, pr_MaxTotalExposureUSD = Fin 5000,
      pr_MaxTotalMarginUsedPct = Fin 50, pr_MaxRiskPerTradePct = Fin 1, pr_MaxDailyLossPct = Fin 3,
      pr_MaxSameDirectionPositions = 2, pr_MaxCorrelatedAltPositions = 1, pr_MaxPerSymbolPosition = 1,
      pr_MarginPerTradeUSD = Fin 50, pr_MaxLeverage = Fin 5, pr_MinNotionalUSD = Fin 5,
      pr_CooldownAfterLosses = \<lparr> cd_Enabled = True, cd_ConsecutiveLosses = 3, cd_CooldownMinutes = 60 \<rparr>,
      pr_PerSymbolSLCooldown = \<lparr> ps_Enabled = True, ps_CooldownMinutes = 60 \<rparr> \<rparr>"

definition demo_thresholds :: "f64 \<Rightarrow> f64 \<Rightarrow> f64 \<Rightarrow> scoring_threshold_config" where
  "demo_thresholds a b c = \<lparr> th_AllowMarket = a, th_AllowRetestOnly = b, th_ReduceSize = c \<rparr>"

definition demo_risk_config :: risk_config where
  "demo_risk_config =
    \<lparr> rc_BaseRiskPerTradePct = Fin 0, rc_MaxRiskPerTradePct = Fin 0, rc_MaxLeverage = Fin 0,
      rc_PreferredLeverage = Fin 0, rc_MinRR = Fin 0, rc_MaxOpenPositions = 0, rc_MaxCorrelatedPositions = 0,
      rc_DailyMaxLossPct = Fin 0, rc_WeeklyMaxLossPct = Fin 0, rc_MinRiskPerTradePct = Fin 0,
      rc_RiskConfigVersion = [] \<rparr>"

definition demo_user_config :: user_config where
  "demo_user_config =
    \<lparr> uc_App = \<lparr> app_Mode = ''paper'', app_LogLevel = ''info'', app_JSONLogs = True,
        app_CycleIntervalSeconds = 60, app_MaxCycleOverlap = False, app_Timezone = [], app_LiveConfirmed = False \<rparr>,
      uc_Database = \<lparr> db_Driver = ''postgres'', db_DSN = ''dsn'',
        db_Pool = \<lparr> pool_MaxOpenConns = 5, pool_MaxIdleConns = 5, pool_ConnMaxLifetime = 60 \<rparr> \<rparr>,
      uc_MarketData = \<lparr> md_Provider = ''bybit'', md_Symbols = \<lparr> sy_Mode = [], sy_ExplicitList = [] \<rparr>,
        md_WSURL = ''ws'', md_RESTURL = ''rest'', md_ReconnectIntervalSeconds = 5,
        md_StaleDataThresholdSeconds = 30, md_BackfillCandles = 300, md_StartTimeoutSeconds = 60,
        md_Timeframes = [''15m'', ''1H'', ''4H''], md_OrderbookDepth = 50, md_TradeFlowWindows = [60] \<rparr>,
      uc_DataValidation = \<lparr> dv_MinCandles = 250, dv_MaxDataAgeSeconds = [(''15m'', 1200)] \<rparr>,
      uc_HardBlocks = \<lparr> hb_MaxSpreadPct = Fin 0, hb_MaxFundingAbsPct = Fin 0, hb_BTCFlashCrash5mPct = Fin 0,
        hb_DailyMaxLossPct = Fin 0, hb_MaxConsecutiveLosses = 0, hb_CooldownAfterLossMin = 0,
        hb_CooldownAfterWinMin = 0 \<rparr>,
      uc_IndicatorEngine = \<lparr> ie_EMA20Period = 0, ie_EMA50Period = 0, ie_EMA200Period = 0, ie_RSIPeriod = 0,
        ie_MACDFastPeriod = 0, ie_MACDSlowPeriod = 0, ie_MACDSignalPeriod = 0, ie_ATRPeriod = 0,
        ie_VolumeMAPeriod = 0, ie_SwingLookback = 0, ie_RecentSwingCount = 0, ie_SupportResistanceATRTol = Fin 0 \<rparr>,
      uc_MarketRegime = \<lparr> mr_BTCDumpShortPct = Fin 0, mr_BTCDumpMediumPct = Fin 0, mr_BTCNearLevelATRBuffer = Fin 0,
        mr_BTCDRisingFastPct = Fin 0,
        mr_RelativeStrength = \<lparr> rsc_StrongOutperformPct = Fin 0, rsc_StrongUnderperformPct = Fin 0,
          rsc_NeutralBandPct = Fin 0, rsc_SmoothedEMAPeriod = 0 \<rparr>,
        mr_Btc5mStaleness = \<lparr> bs_WarnCycles = 0, bs_CriticalCycles = 0 \<rparr>,
        mr_RangingATRMultiplier = Fin 0, mr_RangingLookbackCandles = 0, mr_ReduceNewPositionsWhenRanging = True \<rparr>,
      uc_Scoring = \<lparr> sc_Mode = [], sc_ScoringVersion = [], sc_Balanced = demo_thresholds (Fin 75) (Fin 65) (Fin 55),
        sc_Aggressive = demo_thresholds (Fin 70) (Fin 60) (Fin 50) \<rparr>,
      uc_Broker = \<lparr> bk_Provider = ''paper'', bk_Paper = demo_paper_config \<rparr>,
      uc_Universe = \<lparr> un_Mode = [], un_RefreshIntervalMinutes = 60, un_LightScanMaxSymbols = 100,
        un_QualityFilterMaxSymbols = 50, un_SetupScanMaxSymbols = 20, un_CoreSymbols = [''BTCUSDT''],
        un_ForceIncludeSymbols = [], un_Blacklist = [],
        un_ExternalSignalWatchlist = \<lparr> xw_Enabled = False, xw_TTLHours = 0 \<rparr>,
        un_Filters = \<lparr> uf_Min24hVolumeUSD = Fin 0, uf_MaxSpreadBps = Fin 0, uf_MinATRHealthScore = Fin 0 \<rparr> \<rparr>,
      uc_Strategy = \<lparr> sg_Enabled = True, sg_Timeframes = \<lparr> tm_Context = [], tm_Setup = [], tm_Execution = [] \<rparr>,
        sg_Indicators = demo_indicators_config,
        sg_Regime = \<lparr> rg_TrendUpMinDistanceFromEMAPct = Fin 0, rg_TrendDownMaxDistanceFromEMAPct = Fin 0,
          rg_RangeMaxDistanceFromEMAPct = Fin 0 \<rparr>, sg_EntryTypes = [], sg_LimitRetestTTLMinutes = 60 \<rparr>,
      uc_LLMRouting = \<lparr> lr_Mode = ''dynamic'', lr_MinCandidateScore = Fin 60, lr_MaxCallsPerCycle = 2,
        lr_MaxCallsPerDay = 20, lr_MaxCostUSDPerDay = Fin 1, lr_RequireExecutionOk = True,
        lr_RequireLiquidityOk = True, lr_HardCapCandidatesPerCycle = 5 \<rparr>,
      uc_LLM = \<lparr> lm_Enabled = False, lm_Provider = [], lm_BaseURL = [], lm_Model = [], lm_Temperature = Fin 0,
        lm_TimeoutSeconds = 0, lm_MaxTokens = 0,
        lm_Budget = \<lparr> lb_MaxCostUSDPerDay = Fin 0, lb_FallbackDecision = [] \<rparr> \<rparr>,
      uc_LLMReview = \<lparr> lv_Mode = [], lv_Provider = [], lv_Model = [], lv_BaseURL = [], lv_TimeoutSeconds = 0,
        lv_MaxInputTokens = 0, lv_MaxOutputTokens = 0, lv_DailyCostCapUSD = Fin 0, lv_PromptVersion = [],
        lv_LogRawResponses = False \<rparr>,
      uc_PortfolioRisk = demo_portfolio_config,
      uc_Sizing = \<lparr> sz_Method = [], sz_MarginPerTradeUSD = Fin 50, sz_MaxLeverage = Fin 5, sz_MaxRiskPerTradePct = Fin 1 \<rparr>,
      uc_Risk = demo_risk_config,
      uc_Alerts = \<lparr> al_Enabled = False, al_Provider = [], al_Telegram = \<lparr> tg_BotToken = [], tg_ChatID = [] \<rparr>,
        al_Webhook = \<lparr> wh_URL = [] \<rparr>, al_Events = [] \<rparr>,
      uc_Backtest = \<lparr> bt_DefaultFrom = [], bt_DefaultTo = [], bt_LLMMode = [] \<rparr>,
      uc_WatchlistContext = \<lparr> wc_Enabled = False,
        wc_Fibonacci = \<lparr> fb_Enabled = False, fb_LookbackCandles = 0, fb_ZoneTolerancePct = Fin 0, fb_ScoringWeight = Fin 0 \<rparr>,
        wc_Narrative = \<lparr> na_ActiveSectors = [], na_SymbolSectors = [] \<rparr>,
        wc_Marketcap = \<lparr> mk_SymbolClasses = [] \<rparr> \<rparr> \<rparr>"

lemma review_accepted:
  assumes "LLMReviewConfig_Validate r = None"
  shows "lv_Mode r \<in> {''off'', ''audit_only'', ''veto'', ''review''} \<and>
    (lv_Mode r \<noteq> ''off'' \<longrightarrow>
      lv_Provider r \<in> {''openrouter'', ''deepseek''} \<and> lv_Model r \<noteq> [] \<and> 0 < lv_TimeoutSeconds r \<and>
      0 < lv_MaxInputTokens r \<and> 0 < lv_MaxOutputTokens r \<and> \<not> lv_DailyCostCapUSD r < Fin 0)"
  using assms by (auto simp: LLMReviewConfig_Validate_def not_le split: if_splits)

text \<open>
  C8: an accepted configuration gives the components what they connect to, divide by and loop on. Market data: both
  addresses, a positive staleness threshold and reconnect interval, a backfill size and start timeout that are not negative, and
  timeframes, all of them known. Trading: a positive cycle interval and target notional, the paper broker with a starting
  balance and a leverage that are not zero or below, and position limits that are positive and nested. Review: a known mode and,
  unless it is off, a known provider, a model, and positive timeout and token limits. (Floats are only known not to
  be out of range, since NaN passes every comparison; the refresh interval of the universe is not checked.)
\<close>

theorem accepted_config_sound:
  assumes "UserConfig_Validate getenv tz ord c = Inr c'"
  defines "m \<equiv> uc_MarketData c'" and "b \<equiv> uc_Broker c'" and "p \<equiv> uc_PortfolioRisk c'" and "r \<equiv> uc_LLMReview c'"
  shows "md_WSURL m \<noteq> [] \<and> md_RESTURL m \<noteq> [] \<and> 0 < md_StaleDataThresholdSeconds m \<and> 0 < md_ReconnectIntervalSeconds m \<and>
    0 \<le> md_BackfillCandles m \<and> 0 \<le> md_StartTimeoutSeconds m \<and>
    md_Timeframes m \<noteq> [] \<and> set (md_Timeframes m) \<subseteq> {''1m'', ''5m'', ''15m'', ''30m'', ''1H'', ''4H'', ''1d''} \<and>
    0 < app_CycleIntervalSeconds (uc_App c') \<and> Fin 0 < ComputeTargetNotional c' \<and>
    bk_Provider b = ''paper'' \<and> \<not> pc_StartingBalanceUSD (bk_Paper b) \<le> Fin 0 \<and> \<not> pc_DefaultLeverage (bk_Paper b) \<le> Fin 0 \<and>
    0 < pr_MaxNewPositionsPerCycle p \<and> pr_MaxNewPositionsPerCycle p \<le> pr_MaxOpenPositions p \<and>
    pr_MaxSameDirectionPositions p \<le> pr_MaxOpenPositions p \<and> pr_MaxPerSymbolPosition p \<le> pr_MaxOpenPositions p \<and>
    \<not> pr_MaxTotalExposureUSD p \<le> Fin 0 \<and> \<not> pr_MaxRiskPerTradePct p \<le> Fin 0 \<and> \<not> pr_MaxLeverage p \<le> Fin 0 \<and>
    lv_Mode r \<in> {''off'', ''audit_only'', ''veto'', ''review''} \<and>
    (lv_Mode r \<noteq> ''off'' \<longrightarrow>
      lv_Provider r \<in> {''openrouter'', ''deepseek''} \<and> lv_Model r \<noteq> [] \<and> 0 < lv_TimeoutSeconds r \<and>
      0 < lv_MaxInputTokens r \<and> 0 < lv_MaxOutputTokens r \<and> \<not> lv_DailyCostCapUSD r < Fin 0)"
proof -
  note v = UserConfig_Validate_Inr [OF assms(1)]
  have "set (md_Timeframes (uc_MarketData c)) \<subseteq> set validTimeframes"
    using v(2) by (auto simp: MarketDataConfig_validate_def find_None_iff split: option.splits)
  then have tf: "set (md_Timeframes (uc_MarketData c)) \<subseteq> {''1m'', ''5m'', ''15m'', ''30m'', ''1H'', ''4H'', ''1d''}"
    by (simp add: validTimeframes_def)
  have "target_margin c' = target_margin c" and "target_leverage c' = target_leverage c"
    by (simp_all add: v(8) target_margin_def target_leverage_def Let_def)
  then have "ComputeTargetNotional c' = ComputeTargetNotional c"
    by (simp add: ComputeTargetNotional_def)
  then have n: "Fin 0 < ComputeTargetNotional c'" using target_notional_pos [OF v(5)] by simp
  have e: "m = uc_MarketData c" "b = uc_Broker c" "p = uc_PortfolioRisk c" "uc_App c' = uc_App c"
    and r: "LLMReviewConfig_Validate r = None"
    using v(9) by (simp_all add: m_def b_def p_def r_def v(8))
  have "md_WSURL m \<noteq> [] \<and> md_RESTURL m \<noteq> [] \<and> 0 < md_StaleDataThresholdSeconds m \<and> 0 < md_ReconnectIntervalSeconds m \<and>
    0 \<le> md_BackfillCandles m \<and> 0 \<le> md_StartTimeoutSeconds m \<and> md_Timeframes m \<noteq> []"
    using v(2) by (simp add: e MarketDataConfig_validate_def not_le not_less)
  moreover have "0 < app_CycleIntervalSeconds (uc_App c')" using v(1) by (simp add: e AppConfig_validate_def not_le)
  moreover have "bk_Provider b = ''paper'' \<and> \<not> pc_StartingBalanceUSD (bk_Paper b) \<le> Fin 0 \<and> \<not> pc_DefaultLeverage (bk_Paper b) \<le> Fin 0"
    using v(4,7) by (simp add: e PaperConfig_validate_def)
  moreover have "0 < pr_MaxNewPositionsPerCycle p \<and> pr_MaxNewPositionsPerCycle p \<le> pr_MaxOpenPositions p \<and>
    pr_MaxSameDirectionPositions p \<le> pr_MaxOpenPositions p \<and> pr_MaxPerSymbolPosition p \<le> pr_MaxOpenPositions p \<and>
    \<not> pr_MaxTotalExposureUSD p \<le> Fin 0 \<and> \<not> pr_MaxRiskPerTradePct p \<le> Fin 0 \<and> \<not> pr_MaxLeverage p \<le> Fin 0"
    using v(6) by (simp add: e PortfolioRiskConfig_Validate_def not_le not_less)
  ultimately show ?thesis
    using tf n review_accepted [OF r] unfolding e by (intro conjI) blast+
qed

theorem accepted_config_sound_witness:
  "\<exists>c'. UserConfig_Validate (\<lambda>_. []) (\<lambda>_. True) [] demo_user_config = Inr c' \<and>
        0 < pr_MaxNewPositionsPerCycle (uc_PortfolioRisk c')"
proof -
  have "isl (UserConfig_Validate (\<lambda>_. []) (\<lambda>_. True) [] demo_user_config) = False" by code_simp
  then obtain c' where c': "UserConfig_Validate (\<lambda>_. []) (\<lambda>_. True) [] demo_user_config = Inr c'"
    by (cases "UserConfig_Validate (\<lambda>_. []) (\<lambda>_. True) [] demo_user_config") auto
  then show ?thesis using accepted_config_sound [OF c'] by simp
qed

section \<open>Defaults\<close>

text \<open>
  Filling the defaults of a scoring section in after it was validated can break what validation
  established. A section that sets only \<open>allow_market\<close> to 60 is accepted, and afterwards the retest
  threshold (65) lies above the market threshold, so that no score gives a retest-only entry.
\<close>

theorem defaults_break_validated_thresholds:
  "ScoringThresholdConfig_Validate (demo_thresholds (Fin 60) (Fin 0) (Fin 0)) = None \<and>
   (let c = ScoringThresholdConfig_withDefaults (demo_thresholds (Fin 60) (Fin 0) (Fin 0))
              (Fin 75) (Fin 65) (Fin 55)
    in th_AllowMarket c < th_AllowRetestOnly c \<and> ScoringThresholdConfig_Validate c \<noteq> None)"
  by code_simp

text \<open>
  The risk defaults leave no limit at zero: every numeric field of a risk section with defaults is
  positive or NaN, and filling the defaults in twice is filling them in once.
\<close>

theorem risk_defaults_positive:
  "(\<forall>v\<in>set [rc_BaseRiskPerTradePct d, rc_MaxRiskPerTradePct d, rc_MaxLeverage d, rc_PreferredLeverage d,
        rc_MinRR d, rc_DailyMaxLossPct d, rc_WeeklyMaxLossPct d, rc_MinRiskPerTradePct d].
      Fin 0 < v \<or> v = NaN) \<and>
   0 < rc_MaxOpenPositions d \<and> 0 < rc_MaxCorrelatedPositions d \<and> RiskConfig_WithDefaults d = d"
  if "d = RiskConfig_WithDefaults c"
proof -
  have l: "Fin 0 < lit (14 / 10)" "Fin 0 < lit (1 / 10)" by code_simp+
  show ?thesis unfolding that using l
    by (simp add: RiskConfig_WithDefaults_def default_f64_pos default_int_pos default_f64_idem
        default_int_idem default_str_def)
qed

theorem risk_defaults_positive_witness:
  "Fin 0 < rc_MinRR (RiskConfig_WithDefaults demo_risk_config) \<or>
   rc_MinRR (RiskConfig_WithDefaults demo_risk_config) = NaN"
  using risk_defaults_positive [OF refl, of demo_risk_config] by simp

section \<open>Live readiness\<close>

lemma automatic_checks:
  "k \<in> set (decision_checks r) \<Longrightarrow> rk_AutoCheck k" "k \<in> set (trade_checks now r) \<Longrightarrow> rk_AutoCheck k"
  by (cases "rp_countByAction r"; auto simp: decision_checks_def count_check_def)
    (cases "rp_openTrades r"; cases "rp_pending r"; auto simp: trade_checks_def)

lemma manual_pass: "k \<in> set manual_checks \<Longrightarrow> rk_Passed k"
  by (auto simp: manual_checks_def)

definition trades_only :: "nat \<Rightarrow> readiness_repos" where
  "trades_only n = \<lparr> rp_countByAction = None, rp_recent = None, rp_pending = None,
                      rp_openTrades = Some (Some (int n)) \<rparr>"

text \<open>
  Live readiness needs every automatic check to pass, so any failed query blocks it; but a repository
  that is not supplied drops its checks, and with the paper trades alone the bot is ready without one
  recorded decision having been looked at.
\<close>

theorem readiness_ignores_missing_repositories:
  "(fst (CheckLiveReadiness now r) \<longrightarrow> list_all rk_Passed (snd (CheckLiveReadiness now r))) \<and>
   fst (CheckLiveReadiness now (trades_only n))"
proof
  show "fst (CheckLiveReadiness now r) \<longrightarrow> list_all rk_Passed (snd (CheckLiveReadiness now r))"
    using automatic_checks [where r = r] manual_pass
    by (auto simp: CheckLiveReadiness_def Let_def list_all_iff)
  have "decision_checks (trades_only n) = []" by (simp add: decision_checks_def trades_only_def)
  moreover have "list_all rk_Passed (trade_checks now (trades_only n))"
    by (simp add: trade_checks_def trades_only_def)
  ultimately show "fst (CheckLiveReadiness now (trades_only n))"
    using manual_pass by (auto simp: CheckLiveReadiness_def trades_only_def list_all_iff)
qed

theorem readiness_ignores_missing_repositories_witness:
  "list_all rk_Passed (snd (CheckLiveReadiness 0 (trades_only 0)))"
  using readiness_ignores_missing_repositories by blast

end
