(* ===== verification/Candidate.thy ===== *)
theory Candidate
  imports Domain Indicators "HOL-Library.Word"
begin

text \<open>
  Trade candidates of the strategy engine (\<open>internal/strategy/candidate.go\<close>). The random bytes of an
  identifier are an argument.
\<close>

unbundle bit_operations_syntax

section \<open>Data\<close>

definition StrategyTrendPullback :: string where "StrategyTrendPullback = ''trend_pullback''"
definition StrategyBreakoutRetest :: string where "StrategyBreakoutRetest = ''breakout_retest''"

datatype candidate_entry_type =
  CandidateEntryMarket | CandidateEntryLimitRetest | CandidateEntryStop | OtherCandidateEntry string

record take_profit_target =
  tpt_Price :: f64
  tpt_SizePct :: f64

text \<open>A printed message: its fixed part and the numbers in it.\<close>

datatype message = Message string "f64 list"

record ta_reasoning =
  ta_TrendContext :: message
  ta_Trigger :: message
  ta_Confirmation :: message
  ta_Invalidation :: message

record snapshot_refs =
  sr_IndicatorSnapshotRef :: string
  sr_RegimeSnapshotRef :: string

record trade_candidate =
  tc_CandidateID :: string
  tc_GeneratedAt :: time
  tc_Symbol :: string
  tc_Timeframe :: string
  tc_Strategy :: string
  tc_Side :: side
  tc_EntryType :: candidate_entry_type
  tc_EntryPrice :: f64
  tc_StopLoss :: f64
  tc_TakeProfits :: "take_profit_target list"
  tc_RiskRewardRatio :: f64
  tc_InvalidationLevel :: f64
  tc_TAReasoning :: ta_reasoning
  tc_InputsSnapshot :: snapshot_refs

record rejected_candidate =
  rj_WouldHaveBeen :: "string \<times> side \<times> string \<times> string"
  rj_FailedOn :: message
  rj_NearMiss :: bool

definition BuildRejectedCandidate :: "string \<Rightarrow> side \<Rightarrow> string \<Rightarrow> string \<Rightarrow> message \<Rightarrow> rejected_candidate" where
  "BuildRejectedCandidate strategy sd symb timeframe failed =
    \<lparr> rj_WouldHaveBeen = (strategy, sd, symb, timeframe), rj_FailedOn = failed, rj_NearMiss = True \<rparr>"

section \<open>Swing structure\<close>

text \<open>The prices of the swings of one type.\<close>

definition prices_of :: "string \<Rightarrow> swing_point list \<Rightarrow> f64 list" where
  "prices_of ty swings = map sw_Price (filter (\<lambda>s. sw_Type s = ty) swings)"

text \<open>The last three values, each \<open>lt\<close> the next.\<close>

definition last_three :: "(f64 \<Rightarrow> f64 \<Rightarrow> bool) \<Rightarrow> f64 list \<Rightarrow> bool" where
  "last_three lt xs = (let h = drop (length xs - 3) xs in lt (h ! 0) (h ! 1) \<and> lt (h ! 1) (h ! 2))"

section \<open>Identifiers\<close>

definition hex_digit :: "nat \<Rightarrow> char" where
  "hex_digit n = char_of (if n < 10 then 48 + n else 87 + n)"

definition hex_byte :: "8 word \<Rightarrow> string" where
  "hex_byte b = [hex_digit (unat b div 16), hex_digit (unat b mod 16)]"

definition hex_EncodeToString :: "8 word list \<Rightarrow> string" where
  "hex_EncodeToString bs = concat (map hex_byte bs)"

text \<open>\<open>b[i:j]\<close>.\<close>

definition slice :: "nat \<Rightarrow> nat \<Rightarrow> 'a list \<Rightarrow> 'a list" where
  "slice i j xs = take (j - i) (drop i xs)"

definition stamp_uuid :: "8 word list \<Rightarrow> 8 word list" where
  "stamp_uuid b0 =
    (let b1 = b0[6 := (b0 ! 6 AND 0x0f) OR 0x40]
     in b1[8 := (b1 ! 8 AND 0x3f) OR 0x80])"

definition NewCandidateID :: "8 word list \<Rightarrow> string" where
  "NewCandidateID rand =
    (let b = stamp_uuid rand
     in hex_EncodeToString (slice 0 4 b) @ ''-'' @ hex_EncodeToString (slice 4 6 b) @ ''-'' @
        hex_EncodeToString (slice 6 8 b) @ ''-'' @ hex_EncodeToString (slice 8 10 b) @ ''-'' @
        hex_EncodeToString (slice 10 16 b))"

end
