(* ===== verification/Scoring.thy ===== *)
theory Scoring
  imports Candidate Regime Config
begin

text \<open>
  Deterministic scoring of a candidate (\<open>internal/scoring/score.go\<close>) and the watchlist context that is
  handed to the reviewer (\<open>watchlist.go\<close>).
\<close>

section \<open>Data\<close>

datatype action = ActionAllowMarket | ActionAllowRetestOnly | ActionReduceSize | ActionReject

record score_components =
  sco_TrendAlignment :: f64
  sco_SetupQuality :: f64
  sco_MarketStructure :: f64
  sco_MomentumConfluence :: f64
  sco_VolumeConfirmation :: f64
  sco_RelativeStrength :: f64
  sco_RiskReward :: f64

record score_result =
  sr_ScoreTotal :: f64
  sr_Components :: score_components
  sr_ScoringVersion :: string
  sr_Action :: action
  sr_SizeMultiplier :: f64

record score_input =
  in_Candidate :: trade_candidate
  in_Snapshot15m :: indicator_snapshot
  in_Snapshot1h :: indicator_snapshot
  in_Snapshot4h :: indicator_snapshot
  in_RegimeSnapshot :: regime_snapshot

section \<open>Components\<close>

definition clamp :: "f64 \<Rightarrow> f64 \<Rightarrow> f64 \<Rightarrow> f64" where
  "clamp v minV maxV = (if v < minV then minV else if maxV < v then maxV else v)"

text \<open>\<open>if c { score += n }\<close>.\<close>

definition add_if :: "bool \<Rightarrow> f64 \<Rightarrow> f64 \<Rightarrow> f64" where
  "add_if c n score = (if c then score + n else score)"

definition trendAlignment :: "score_input \<Rightarrow> f64" where
  "trendAlignment i =
    (let e1 = is_EMAAlignment (in_Snapshot1h i); e4 = is_EMAAlignment (in_Snapshot4h i);
         score =
           (if tc_Side (in_Candidate i) = SideLong then
              add_if (ea_PriceAboveEMA50 e4 \<and> ea_EMA20AboveEMA50 e4) (Fin 10)
                (add_if (ea_PriceAboveEMA50 e1 \<and> ea_EMA20AboveEMA50 e1) (Fin 15) (Fin 0))
            else
              add_if (\<not> ea_PriceAboveEMA50 e4 \<and> \<not> ea_EMA20AboveEMA50 e4) (Fin 10)
                (add_if (\<not> ea_PriceAboveEMA50 e1 \<and> \<not> ea_EMA20AboveEMA50 e1) (Fin 15) (Fin 0)))
     in clamp score (Fin 0) (Fin 25))"

definition setupQuality :: "score_input \<Rightarrow> f64" where
  "setupQuality i =
    (let v = is_VolumeRatio (in_Snapshot15m i); rr = tc_RiskRewardRatio (in_Candidate i);
         s0 = Fin 0 + (if tc_EntryType (in_Candidate i) = CandidateEntryMarket then Fin 8 else Fin 6);
         s1 = (if lit (13 / 10) \<le> v then s0 + Fin 6 else if Fin 1 \<le> v then s0 + Fin 3 else s0);
         s2 = (if Fin 2 \<le> rr then s1 + Fin 6 else if lit (14 / 10) \<le> rr then s1 + Fin 3 else s1)
     in clamp s2 (Fin 0) (Fin 20))"

definition hasHHHL :: "swing_point list \<Rightarrow> bool" where
  "hasHHHL swings =
    (let highs = prices_of ''high'' swings; lows = prices_of ''low'' swings
     in \<not> (length highs < 3 \<or> length lows < 3) \<and> last_three (<) highs \<and> last_three (<) lows)"

definition hasLHLH :: "swing_point list \<Rightarrow> bool" where
  "hasLHLH swings =
    (let highs = prices_of ''high'' swings; lows = prices_of ''low'' swings
     in \<not> (length highs < 3 \<or> length lows < 3) \<and> last_three (\<lambda>x y. y < x) highs
        \<and> last_three (\<lambda>x y. y < x) lows)"

definition marketStructure :: "score_input \<Rightarrow> f64" where
  "marketStructure i =
    (let swings = is_RecentSwings (in_Snapshot15m i)
     in if swings = [] then Fin 0
        else if tc_Side (in_Candidate i) = SideLong then (if hasHHHL swings then Fin 15 else Fin 8)
        else if hasLHLH swings then Fin 15 else Fin 8)"

definition momentumConfluence :: "score_input \<Rightarrow> f64" where
  "momentumConfluence i =
    (let r = is_RSI14 (in_Snapshot15m i); dir = mc_HistogramDirection (is_MACD (in_Snapshot15m i));
         long = (tc_Side (in_Candidate i) = SideLong);
         (lo, hi, lo2, hi2, want) =
           (if long then (Fin 45, Fin 65, Fin 38, Fin 68, ''up'')
            else (Fin 35, Fin 55, Fin 32, Fin 62, ''down''));
         s0 = (if lo \<le> r \<and> r \<le> hi then Fin 0 + Fin 5
               else if lo2 \<le> r \<and> r \<le> hi2 then Fin 0 + Fin 3 else Fin 0)
     in clamp (add_if (dir = want) (Fin 5) s0) (Fin 0) (Fin 10))"

definition volumeConfirmation :: "score_input \<Rightarrow> f64" where
  "volumeConfirmation i =
    (let v = is_VolumeRatio (in_Snapshot15m i)
     in if lit (13 / 10) \<le> v then Fin 10 else if Fin 1 \<le> v then Fin 7
        else if lit (7 / 10) \<le> v then Fin 5 else Fin 0)"

definition relativeStrength :: "score_input \<Rightarrow> f64" where
  "relativeStrength i =
    (let c = rs_Classification (rg_RelativeStrength (in_RegimeSnapshot i))
     in if tc_Side (in_Candidate i) = SideLong then
          (if c = ''strong_outperform'' then Fin 10 else if c = ''outperform'' then Fin 8
           else if c = ''neutral'' then Fin 5 else if c = ''underperform'' then Fin 2
           else if c = ''strong_underperform'' then Fin 0 else Fin 5)
        else
          (if c = ''strong_underperform'' then Fin 10 else if c = ''underperform'' then Fin 8
           else if c = ''neutral'' then Fin 5 else if c = ''outperform'' then Fin 2
           else if c = ''strong_outperform'' then Fin 0 else Fin 5))"

definition riskReward :: "f64 \<Rightarrow> f64" where
  "riskReward rr =
    (if rr \<le> lit (14 / 10) then Fin 0
     else if Fin (5 / 2) \<le> rr then Fin 10
     else if rr \<le> Fin 2 then ((rr - lit (14 / 10)) / lit (6 / 10)) * Fin 7
     else Fin 7 + ((rr - Fin 2) / Fin (1 / 2)) * Fin 3)"

section \<open>Score and action\<close>

definition resolveAction ::
  "f64 \<Rightarrow> scoring_config \<Rightarrow> candidate_entry_type \<Rightarrow> action \<times> f64" where
  "resolveAction score cfg entryType =
    (let thresholds = (if sc_Mode cfg = ''aggressive'' then sc_Aggressive cfg else sc_Balanced cfg);
         s = round2 score
     in if th_AllowMarket thresholds \<le> s then
          (if entryType = CandidateEntryLimitRetest \<or> entryType = CandidateEntryStop
           then (ActionAllowRetestOnly, Fin 1) else (ActionAllowMarket, Fin 1))
        else if th_AllowRetestOnly thresholds \<le> s then (ActionAllowRetestOnly, Fin 1)
        else if th_ReduceSize thresholds \<le> s then (ActionReduceSize, Fin (1 / 2))
        else (ActionReject, Fin 0))"

definition roundComponents :: "score_components \<Rightarrow> score_components" where
  "roundComponents c =
    \<lparr> sco_TrendAlignment = round2 (sco_TrendAlignment c), sco_SetupQuality = round2 (sco_SetupQuality c),
      sco_MarketStructure = round2 (sco_MarketStructure c),
      sco_MomentumConfluence = round2 (sco_MomentumConfluence c),
      sco_VolumeConfirmation = round2 (sco_VolumeConfirmation c),
      sco_RelativeStrength = round2 (sco_RelativeStrength c), sco_RiskReward = round2 (sco_RiskReward c) \<rparr>"

definition components_of :: "score_input \<Rightarrow> score_components" where
  "components_of i =
    \<lparr> sco_TrendAlignment = trendAlignment i, sco_SetupQuality = setupQuality i,
      sco_MarketStructure = marketStructure i, sco_MomentumConfluence = momentumConfluence i,
      sco_VolumeConfirmation = volumeConfirmation i, sco_RelativeStrength = relativeStrength i,
      sco_RiskReward = riskReward (tc_RiskRewardRatio (in_Candidate i)) \<rparr>"

definition total_of :: "score_components \<Rightarrow> f64" where
  "total_of c =
    sco_TrendAlignment c + sco_SetupQuality c + sco_MarketStructure c + sco_MomentumConfluence c
    + sco_VolumeConfirmation c + sco_RelativeStrength c + sco_RiskReward c"

definition Score :: "score_input \<Rightarrow> scoring_config \<Rightarrow> score_result" where
  "Score i cfg0 =
    (let cfg = ScoringConfig_WithDefaults cfg0;
         comp = components_of i;
         tot = clamp (total_of comp) (Fin 0) (Fin 100);
         (act, size) = resolveAction tot cfg (tc_EntryType (in_Candidate i))
     in \<lparr> sr_ScoreTotal = round2 tot, sr_Components = roundComponents comp,
          sr_ScoringVersion = sc_ScoringVersion cfg, sr_Action = act, sr_SizeMultiplier = size \<rparr>)"

section \<open>Watchlist context\<close>

record watchlist_context =
  wl_ChartQualityLabel :: string
  wl_VolumeLiquidityLabel :: string
  wl_NarrativeSector :: string
  wl_NarrativeActive :: bool
  wl_MarketcapLiquidityClass :: string
  wl_Fibonacci :: fibonacci_context
  wl_ConfluenceScoreDelta :: f64
  wl_ReasonCodes :: "string list"

definition computeChartQuality :: "fibonacci_context \<Rightarrow> f64 \<Rightarrow> string" where
  "computeChartQuality fib atrPct =
    (if \<not> fc_Valid fib then ''unknown''
     else if fc_SwingHigh fib \<le> Fin 0 \<or> fc_SwingLow fib \<le> Fin 0 then ''unknown''
     else
       let rangePct = (fc_SwingHigh fib - fc_SwingLow fib) / fc_SwingLow fib * Fin 100
       in if atrPct \<le> Fin 0 \<or> rangePct \<le> Fin 0 then ''unknown''
          else
            let rangeToATR = rangePct / atrPct
            in if rangeToATR < Fin 2 then ''chop''
               else if fc_ZoneLabel fib = ''above_pullback_zone'' then ''extended''
               else if Fin 2 \<le> rangeToATR \<and> rangeToATR \<le> Fin 10 then ''healthy_range''
               else ''unknown'')"

definition computeVolumeLiquidity :: "f64 \<Rightarrow> string" where
  "computeVolumeLiquidity v =
    (if isNaN v \<or> isInf v \<or> v \<le> Fin 0 then ''unknown''
     else if lit (13 / 10) \<le> v then ''strong''
     else if Fin 1 \<le> v then ''normal'' else ''weak'')"

definition confluence_sum ::
  "string \<Rightarrow> string \<Rightarrow> bool \<Rightarrow> fibonacci_context \<Rightarrow> watchlist_context_config \<Rightarrow> f64" where
  "confluence_sum chartQuality volumeLabel narrativeActive fib cfg =
    (let d1 = (if fc_Valid fib \<and> fb_Enabled (wc_Fibonacci cfg) then
                 (if fc_ZoneLabel fib = ''in_0_618_zone'' then Fin 0 + Fin 2
                  else if fc_ZoneLabel fib = ''in_0_5_zone'' \<or> fc_ZoneLabel fib = ''in_0_786_zone''
                  then Fin 0 + Fin 1 else Fin 0)
               else Fin 0);
         d2 = (if chartQuality = ''healthy_range'' then d1 + Fin (1 / 2)
               else if chartQuality = ''chop'' then d1 - Fin (1 / 2)
               else if chartQuality = ''extended'' then d1 - Fin 1 else d1);
         d3 = (if volumeLabel = ''strong'' then d2 + Fin (1 / 2)
               else if volumeLabel = ''weak'' then d2 - Fin (1 / 2) else d2)
     in add_if narrativeActive (Fin 1) d3)"

text \<open>\<open>if delta > w { delta = w }; if delta < -w { delta = -w }\<close>.\<close>

definition cap_weight :: "f64 \<Rightarrow> f64 \<Rightarrow> f64" where
  "cap_weight w delta =
    (let d = (if w < delta then w else delta) in if d < - w then - w else d)"

definition computeConfluenceDelta ::
  "string \<Rightarrow> string \<Rightarrow> bool \<Rightarrow> fibonacci_context \<Rightarrow> watchlist_context_config \<Rightarrow> f64" where
  "computeConfluenceDelta chartQuality volumeLabel narrativeActive fib cfg =
    (if \<not> wc_Enabled cfg then Fin 0
     else
       let maxWeight = default_f64 (Fin 2) (fb_ScoringWeight (wc_Fibonacci cfg))
       in clamp (cap_weight maxWeight (confluence_sum chartQuality volumeLabel narrativeActive fib cfg))
            (Fin (- 5)) (Fin 5))"

definition deltaReasonCodes :: "f64 \<Rightarrow> string list" where
  "deltaReasonCodes delta =
    (if Fin 0 < delta then [''confluence_positive'']
     else if delta < Fin 0 then [''confluence_negative''] else [''confluence_neutral''])"

text \<open>A non-empty entry of a label map.\<close>

definition lookup_label :: "string gomap \<Rightarrow> string \<Rightarrow> string option" where
  "lookup_label m k =
    (case map_of m k of Some s \<Rightarrow> if s \<noteq> [] then Some s else None | None \<Rightarrow> None)"

definition append_label :: "string \<Rightarrow> string option \<Rightarrow> string list \<Rightarrow> string list" where
  "append_label p l codes = (case l of None \<Rightarrow> codes | Some s \<Rightarrow> codes @ [p @ s])"

definition label_or_unknown :: "string option \<Rightarrow> string" where
  "label_or_unknown l = (case l of None \<Rightarrow> ''unknown'' | Some s \<Rightarrow> s)"

definition BuildWatchlistContext ::
  "fibonacci_context \<Rightarrow> string \<Rightarrow> f64 \<Rightarrow> f64 \<Rightarrow> watchlist_context_config \<Rightarrow> watchlist_context" where
  "BuildWatchlistContext fib symb volumeRatio atrPct cfg =
    (let chartQuality = computeChartQuality fib atrPct;
         r1 = append_if (chartQuality \<noteq> ''unknown'') (''chart_quality:'' @ chartQuality) [];
         volumeLabel = computeVolumeLiquidity volumeRatio;
         r2 = append_if (volumeLabel \<noteq> ''unknown'') (''volume:'' @ volumeLabel) r1;
         sectorLabel = lookup_label (na_SymbolSectors (wc_Narrative cfg)) symb;
         sector = label_or_unknown sectorLabel;
         r3 = append_label ''sector:'' sectorLabel r2;
         active = (sector \<noteq> ''unknown'' \<and> sector \<in> set (na_ActiveSectors (wc_Narrative cfg)));
         r4 = append_if active (''narrative_active:'' @ sector) r3;
         classLabel = lookup_label (mk_SymbolClasses (wc_Marketcap cfg)) symb;
         r5 = append_label ''marketcap:'' classLabel r4;
         delta = computeConfluenceDelta chartQuality volumeLabel active fib cfg
     in \<lparr> wl_ChartQualityLabel = chartQuality, wl_VolumeLiquidityLabel = volumeLabel,
          wl_NarrativeSector = sector, wl_NarrativeActive = active,
          wl_MarketcapLiquidityClass = label_or_unknown classLabel,
          wl_Fibonacci = fib, wl_ConfluenceScoreDelta = clamp delta (Fin (- 5)) (Fin 5),
          wl_ReasonCodes = r5 @ deltaReasonCodes delta \<rparr>)"

end
