(* ===== verification/ScoringSpec.thy ===== *)
theory ScoringSpec
  imports Scoring ConfigSpec
begin

text \<open>
  What a score guarantees: its range, the agreement of the reported total with the action, the order
  of the actions, and the bound on the confluence adjustment of the watchlist.
\<close>

section \<open>Bounds on single operations\<close>

lemma clamp_range:
  "v \<noteq> NaN \<Longrightarrow> lo \<le> hi \<Longrightarrow> lo \<le> clamp v lo hi \<and> clamp v lo hi \<le> hi"
  using f64_not_less [of v lo] f64_not_less [of hi v] cmp_not_NaN(1) [of lo hi] f64_le_refl
  by (auto simp: clamp_def)

lemma clamp_NaN [simp]: "lo \<noteq> NaN \<Longrightarrow> hi \<noteq> NaN \<Longrightarrow> clamp v lo hi = NaN \<longleftrightarrow> v = NaN"
  by (auto simp: clamp_def)

lemma times_range:
  assumes "Fin 0 \<le> x" "x \<le> Fin a" "0 < c" "repr (a * c)"
  shows "Fin 0 \<le> x * Fin c \<and> x * Fin c \<le> Fin (a * c)"
proof (cases x)
  case (Fin q)
  then have q: "0 \<le> q" "q \<le> a" using assms by simp_all
  then have "0 \<le> q * c" "q * c \<le> a * c" using assms(3) by (auto intro: mult_right_mono)
  then show ?thesis
    using rnd_ge [of 0 "q * c"] rnd_le [OF _ assms(4), of "q * c"] Fin
    by (auto simp: times_f64_def is_fin_def isNaN_def isInf_def zero_of_def)
qed (use assms in \<open>auto simp: times_f64_def is_fin_def isNaN_def isInf_def zero_of_def
       dest: f64_le_trans\<close>)

lemma round_range:
  assumes "Fin 0 \<le> x" "x \<le> Fin (of_int n)"
  shows "Fin 0 \<le> math_Round x \<and> math_Round x \<le> Fin (of_int n)"
proof (cases x)
  case (Fin q)
  then have q: "0 \<le> q" "q \<le> of_int n" using assms by simp_all
  then have "0 \<le> \<lfloor>q + 1 / 2\<rfloor>" "\<lfloor>q + 1 / 2\<rfloor> \<le> n" by linarith+
  then show ?thesis using Fin q by simp
qed (use assms in auto)

lemma divide_100_range:
  assumes "Fin 0 \<le> x" "x \<le> Fin 10000"
  shows "Fin 0 \<le> x / Fin 100 \<and> x / Fin 100 \<le> Fin 100"
proof (cases x)
  case (Fin q)
  then have "0 \<le> q / 100" "q / 100 \<le> 100" using assms by simp_all
  then show ?thesis
    using rnd_ge [of 0 "q / 100"] rnd_le [of "q / 100" 100] Fin repr_of_int [of 100]
    by (auto simp: divide_f64_def isNaN_def isInf_def zero_of_def)
qed (use assms in \<open>auto simp: divide_f64_def isNaN_def isInf_def zero_of_def\<close>)

lemma round2_range:
  assumes "Fin 0 \<le> v" "v \<le> Fin 100"
  shows "Fin 0 \<le> round2 v \<and> round2 v \<le> Fin 100"
proof -
  have "repr (100 * 100)" using repr_of_int [of 10000] by simp
  then have "Fin 0 \<le> v * Fin 100 \<and> v * Fin 100 \<le> Fin (of_int 10000)"
    using times_range [OF assms, of 100] by simp
  then have "Fin 0 \<le> math_Round (v * Fin 100) \<and> math_Round (v * Fin 100) \<le> Fin (of_int 10000)"
    using round_range by blast
  then show ?thesis using divide_100_range by (simp add: round2_def)
qed

lemma round2_NaN [simp]: "round2 NaN = NaN"
  by (simp add: round2_def)

section \<open>The score\<close>

text \<open>The thresholds a configuration selects.\<close>

definition active_thresholds :: "scoring_config \<Rightarrow> scoring_threshold_config" where
  "active_thresholds cfg0 =
    (let cfg = ScoringConfig_WithDefaults cfg0
     in if sc_Mode cfg = ''aggressive'' then sc_Aggressive cfg else sc_Balanced cfg)"

text \<open>What the thresholds give for a reported total.\<close>

definition action_for :: "scoring_threshold_config \<Rightarrow> candidate_entry_type \<Rightarrow> f64 \<Rightarrow> action" where
  "action_for th ty s =
    (if th_AllowMarket th \<le> s
     then (if ty \<in> {CandidateEntryLimitRetest, CandidateEntryStop} then ActionAllowRetestOnly
           else ActionAllowMarket)
     else if th_AllowRetestOnly th \<le> s then ActionAllowRetestOnly
     else if th_ReduceSize th \<le> s then ActionReduceSize
     else ActionReject)"

primrec size_of :: "action \<Rightarrow> f64" where
  "size_of ActionAllowMarket = Fin 1"
| "size_of ActionAllowRetestOnly = Fin 1"
| "size_of ActionReduceSize = Fin (1 / 2)"
| "size_of ActionReject = Fin 0"

lemma Score_total: "sr_ScoreTotal (Score i cfg) = round2 (clamp (total_of (components_of i)) (Fin 0) (Fin 100))"
  by (simp add: Score_def Let_def split: prod.split)

lemma Score_action:
  "sr_Action (Score i cfg) =
    action_for (active_thresholds cfg) (tc_EntryType (in_Candidate i)) (sr_ScoreTotal (Score i cfg))"
  "sr_SizeMultiplier (Score i cfg) = size_of (sr_Action (Score i cfg))"
  by (simp_all add: Score_def resolveAction_def Let_def action_for_def active_thresholds_def)

lemma Score_range:
  "sr_ScoreTotal (Score i cfg) = NaN \<or>
   Fin 0 \<le> sr_ScoreTotal (Score i cfg) \<and> sr_ScoreTotal (Score i cfg) \<le> Fin 100"
proof (cases "total_of (components_of i) = NaN")
  case True
  then show ?thesis by (simp add: Score_total clamp_def)
next
  case False
  then show ?thesis
    using round2_range clamp_range [OF False, of "Fin 0" "Fin 100"] by (simp add: Score_total)
qed

text \<open>
  Every score is rejected with total NaN or has a total between 0 and 100; the action and the size
  multiplier follow from the total that is reported, not from an unrounded one; and a candidate with a
  limit-retest or stop entry is never allowed to go to market.
\<close>

theorem score_action_matches_total:
  "(let r = Score i cfg; s = sr_ScoreTotal r in
     (Fin 0 \<le> s \<and> s \<le> Fin 100 \<or> s = NaN \<and> sr_Action r = ActionReject) \<and>
     sr_Action r = action_for (active_thresholds cfg) (tc_EntryType (in_Candidate i)) s \<and>
     sr_SizeMultiplier r = size_of (sr_Action r) \<and>
     \<not> (tc_EntryType (in_Candidate i) \<in> {CandidateEntryLimitRetest, CandidateEntryStop} \<and>
        sr_Action r = ActionAllowMarket))"
  using Score_action [of i cfg] Score_range [of i cfg]
  by (auto simp: Let_def action_for_def split: if_splits)

lemma size_mono:
  assumes o: "th_AllowRetestOnly th \<le> th_AllowMarket th" "th_ReduceSize th \<le> th_AllowRetestOnly th"
    and s: "s \<le> s'"
  shows "size_of (action_for th ty s) \<le> size_of (action_for th ty' s')"
proof -
  have "x \<le> s \<Longrightarrow> x \<le> s'" for x using s f64_le_trans by blast
  moreover have "th_AllowMarket th \<le> s' \<Longrightarrow> th_AllowRetestOnly th \<le> s'"
    and "th_AllowRetestOnly th \<le> s' \<Longrightarrow> th_ReduceSize th \<le> s'" using o f64_le_trans by blast+
  ultimately show ?thesis by (auto simp: action_for_def)
qed

definition demo_candidate :: "f64 \<Rightarrow> trade_candidate" where
  "demo_candidate rr =
    \<lparr> tc_CandidateID = ''c1'', tc_GeneratedAt = 0, tc_Symbol = ''ETHUSDT'', tc_Timeframe = ''15m'',
      tc_Strategy = StrategyTrendPullback, tc_Side = SideLong, tc_EntryType = CandidateEntryMarket,
      tc_EntryPrice = Fin 100, tc_StopLoss = Fin 96,
      tc_TakeProfits = [\<lparr> tpt_Price = Fin 110, tpt_SizePct = Fin 100 \<rparr>], tc_RiskRewardRatio = rr,
      tc_InvalidationLevel = Fin 96,
      tc_TAReasoning =
        \<lparr> ta_TrendContext = Message [] [], ta_Trigger = Message [] [], ta_Confirmation = Message [] [],
          ta_Invalidation = Message [] [] \<rparr>,
      tc_InputsSnapshot = \<lparr> sr_IndicatorSnapshotRef = [], sr_RegimeSnapshotRef = [] \<rparr> \<rparr>"

definition demo_snapshot :: indicator_snapshot where
  "demo_snapshot =
    \<lparr> is_Symbol = ''ETHUSDT'', is_Timeframe = ''15m'', is_LastCloseTime = 0, is_LastClosePrice = Fin 100,
      is_EMA20 = Fin 99, is_EMA50 = Fin 98, is_EMA200 = Fin 90,
      is_EMAAlignment = ema_alignment_of (Fin 100) (Fin 99) (Fin 98) (Fin 90),
      is_RSI14 = Fin 50, is_RSIState = ''neutral'',
      is_MACD = \<lparr> mc_Line = Fin 1, mc_Signal = Fin 0, mc_Histogram = Fin 1, mc_HistogramDirection = ''up'' \<rparr>,
      is_ATR14 = Fin 2, is_ATRPct = Fin 2, is_VolumeCurrent = Fin 10, is_VolumeMA20 = Fin 8,
      is_VolumeRatio = Fin (5 / 4), is_RecentSwings = [], is_SupportLevels = [], is_ResistanceLevels = [] \<rparr>"

definition demo_regime :: regime_snapshot where
  "demo_regime =
    \<lparr> rg_Timestamp = 0, rg_BTCFiltersTriggered = [], rg_BTCFiltersDetail = [], rg_BTCDAvailable = False,
      rg_BTCDFiltersTriggered = [], rg_BTCDFiltersDetail = [],
      rg_RelativeStrength = \<lparr> rs_RS1H = Fin 0, rs_RS4H = Fin 0, rs_RS24H = Fin 0, rs_RSSmoothed = Fin 0,
        rs_Classification = ''neutral'' \<rparr>,
      rg_IsRanging = False, rg_RangingBandWidth = Fin 0, rg_BTCDataStale = False, rg_Warnings = [],
      rg_Btc5mStaleCounter = 0 \<rparr>"

definition demo_score_input :: "f64 \<Rightarrow> score_input" where
  "demo_score_input rr =
    \<lparr> in_Candidate = demo_candidate rr, in_Snapshot15m = demo_snapshot, in_Snapshot1h = demo_snapshot,
      in_Snapshot4h = demo_snapshot, in_RegimeSnapshot = demo_regime \<rparr>"

definition demo_scoring :: scoring_config where
  "demo_scoring = uc_Scoring demo_user_config"

lemma demo_totals:
  "total_of (components_of (demo_score_input (Fin 1))) = Fin 58"
  "total_of (components_of (demo_score_input (Fin 3))) = Fin 74"
  by code_simp+

text \<open>
  With ordered thresholds a higher total never gets a smaller size, whatever the two candidates are.
\<close>

theorem score_size_monotone:
  assumes "th_AllowRetestOnly (active_thresholds cfg) \<le> th_AllowMarket (active_thresholds cfg)"
    and "th_ReduceSize (active_thresholds cfg) \<le> th_AllowRetestOnly (active_thresholds cfg)"
    and "sr_ScoreTotal (Score i cfg) \<le> sr_ScoreTotal (Score j cfg)"
  shows "sr_SizeMultiplier (Score i cfg) \<le> sr_SizeMultiplier (Score j cfg)"
  using size_mono [OF assms] by (simp add: Score_action(2)) (simp add: Score_action(1))

theorem score_size_monotone_witness:
  "sr_SizeMultiplier (Score (demo_score_input (Fin 1)) demo_scoring)
     \<le> sr_SizeMultiplier (Score (demo_score_input (Fin 3)) demo_scoring)"
proof (rule score_size_monotone)
  show "sr_ScoreTotal (Score (demo_score_input (Fin 1)) demo_scoring)
      \<le> sr_ScoreTotal (Score (demo_score_input (Fin 3)) demo_scoring)"
    unfolding Score_total demo_totals by code_simp
qed code_simp+

section \<open>Watchlist\<close>

lemma capped:
  assumes "Fin 0 < w" "v \<noteq> NaN"
  shows "- w \<le> cap_weight w v \<and> cap_weight w v \<le> w"
proof -
  have w: "w \<noteq> NaN" "- w \<noteq> NaN" using assms(1) by (auto simp: uminus_f64_def)
  have ww: "- w \<le> w" using assms(1) by (cases w) (auto simp: uminus_f64_def)
  have "- w \<le> d \<Longrightarrow> d \<le> w \<Longrightarrow> - w \<le> d \<and> d \<le> w" for d by blast
  show ?thesis
    unfolding cap_weight_def Let_def
    using w ww assms f64_not_less [of w v] f64_not_less [of v "- w"] f64_not_less [of w "- w"]
      f64_le_refl [of w] f64_le_refl [of "- w"]
    by (auto split: if_splits)
qed

lemma clamp5_within:
  assumes "- w \<le> d" "d \<le> w" "Fin 0 < w"
  shows "- w \<le> clamp d (Fin (- 5)) (Fin 5) \<and> clamp d (Fin (- 5)) (Fin 5) \<le> w"
proof -
  have "Fin (- 5) \<le> w" using assms(3) by (cases w) auto
  moreover have "- w \<le> Fin 5" using assms(3) by (cases w) (auto simp: uminus_f64_def)
  ultimately show ?thesis
    using assms f64_le_trans [OF assms(1), of "Fin (- 5)"] f64_le_trans [OF _ assms(2), of "Fin 5"]
      f64_less_imp_le
    by (auto simp: clamp_def)
qed

definition confluence_weight :: "watchlist_context_config \<Rightarrow> f64" where
  "confluence_weight cfg = default_f64 (Fin 2) (fb_ScoringWeight (wc_Fibonacci cfg))"

lemma weight_pos: "confluence_weight cfg \<noteq> NaN \<Longrightarrow> Fin 0 < confluence_weight cfg"
  using default_f64_pos [of "Fin 2"] by (auto simp: confluence_weight_def)

lemma fin_step: "x \<noteq> NaN \<Longrightarrow> x + Fin q \<noteq> NaN" "x \<noteq> NaN \<Longrightarrow> x - Fin q \<noteq> NaN"
  by (cases x; auto simp: plus_f64_def minus_f64_def isInf_def is_fin_def zero_of_def)+

lemma confluence_sum_not_NaN: "confluence_sum cq vl na fib cfg \<noteq> NaN"
  unfolding confluence_sum_def Let_def add_if_def
  by (auto intro!: fin_step simp del: plus_Fin minus_Fin)

lemma delta_range:
  assumes "confluence_weight cfg \<noteq> NaN"
  shows "- confluence_weight cfg \<le> computeConfluenceDelta cq vl na fib cfg \<and>
    computeConfluenceDelta cq vl na fib cfg \<le> confluence_weight cfg"
proof -
  note w = weight_pos [OF assms]
  then have "- confluence_weight cfg \<le> Fin 0" by (cases "confluence_weight cfg") (auto simp: uminus_f64_def)
  then show ?thesis
    using w clamp5_within [OF _ _ w] capped [OF w confluence_sum_not_NaN, of cq vl na fib cfg] f64_less_imp_le [OF w]
    by (simp add: computeConfluenceDelta_def Let_def flip: confluence_weight_def)
qed

text \<open>
  The confluence adjustment stays within the configured weight and within 5 points, and it is zero when
  the watchlist is disabled.
\<close>

theorem confluence_bounded:
  assumes "confluence_weight cfg \<noteq> NaN"
    and "wl = BuildWatchlistContext fib symb volumeRatio atrPct cfg"
  shows "Fin (- 5) \<le> wl_ConfluenceScoreDelta wl \<and> wl_ConfluenceScoreDelta wl \<le> Fin 5 \<and>
    - confluence_weight cfg \<le> wl_ConfluenceScoreDelta wl \<and>
    wl_ConfluenceScoreDelta wl \<le> confluence_weight cfg \<and>
    (\<not> wc_Enabled cfg \<longrightarrow> wl_ConfluenceScoreDelta wl = Fin 0)"
proof -
  obtain cq vl na where d: "wl_ConfluenceScoreDelta wl =
      clamp (computeConfluenceDelta cq vl na fib cfg) (Fin (- 5)) (Fin 5)"
    unfolding assms(2) BuildWatchlistContext_def by (simp add: Let_def)
  let ?d = "computeConfluenceDelta cq vl na fib cfg"
  have r: "- confluence_weight cfg \<le> ?d" "?d \<le> confluence_weight cfg"
    using delta_range [OF assms(1)] by blast+
  have "\<not> wc_Enabled cfg \<longrightarrow> clamp ?d (Fin (- 5)) (Fin 5) = Fin 0"
    by (simp add: computeConfluenceDelta_def clamp_def)
  then show ?thesis
    unfolding d using clamp_range [of ?d "Fin (- 5)" "Fin 5"] cmp_not_NaN(1) [OF r(1)]
      clamp5_within [OF r weight_pos [OF assms(1)]]
    by simp
qed

theorem confluence_bounded_witness:
  "wl_ConfluenceScoreDelta (BuildWatchlistContext (invalid_fibonacci []) ''ETHUSDT'' (Fin 2) (Fin 1)
     (uc_WatchlistContext demo_user_config)) \<le> Fin 5"
proof -
  have "confluence_weight (uc_WatchlistContext demo_user_config) \<noteq> NaN"
    by (simp add: confluence_weight_def demo_user_config_def default_f64_def)
  then show ?thesis using confluence_bounded [OF _ refl] by blast
qed

end
