(* ===== verification/Risk.thy ===== *)
theory Risk
  imports Scoring
begin

text \<open>
  The risk engine (\<open>internal/risk/engine.go\<close>, \<open>plan.go\<close>): validation of a proposed trade, selection of a
  portfolio within a cycle, and validation of a scored candidate with its order plan. \<open>now\<close> is the one
  reading of the clock of a call; the reasons are collected in source order.
\<close>

section \<open>Data\<close>

record risk_market_state =
  rm_Symbol :: string
  rm_Price :: f64
  rm_SpreadBps :: f64
  rm_SlippageBps :: f64
  rm_DepthRatio :: f64
  rm_LastUpdate :: time
  rm_Stale :: bool

record portfolio_state =
  ps_OpenPositions :: "position list"
  ps_OpenOrders :: "broker_order list"
  ps_NewPositionsThisCycle :: int
  ps_DailyLoss :: f64
  ps_ConsecutiveLosses :: int
  ps_CooldownUntil :: "time option"
  ps_PerSymbolSLCooldown :: "time gomap"

record validate_input =
  vi_ProposedTrade :: proposed_trade
  vi_SymbolInfo :: symbol_info
  vi_LLMDecision :: llm_decision
  vi_AccountState :: account_state
  vi_MarketState :: risk_market_state
  vi_Portfolio :: portfolio_state
  vi_BotState :: bot_state

record validate_output =
  vo_Approved :: bool
  vo_FinalPositionNotional :: f64
  vo_RequiredMargin :: f64
  vo_EstimatedLoss :: f64
  vo_ReasonCodes :: "string list"
  vo_PortfolioRank :: int
  vo_PortfolioRejectReason :: string

record take_profit_plan =
  tpp_Price :: f64
  tpp_Qty :: f64

record order_plan =
  op_Symbol :: string
  op_Side :: side
  op_Qty :: f64
  op_EntryPrice :: f64
  op_EntryType :: candidate_entry_type
  op_StopLoss :: f64
  op_TakeProfits :: "take_profit_plan list"
  op_Leverage :: f64
  op_MarginRequired :: f64
  op_EstimatedFees :: f64
  op_RiskAmountUSD :: f64
  op_RiskPctUsed :: f64

record risk_validation_result =
  rv_CandidateID :: string
  rv_Approved :: bool
  rv_RejectionReasons :: "string list"
  rv_OrderPlan :: "order_plan option"
  rv_ModifiersApplied :: "string list"
  rv_RiskConfigVersion :: string

record candidate_risk_input =
  cri_Candidate :: trade_candidate
  cri_ScoreResult :: score_result
  cri_RegimeSnapshot :: regime_snapshot
  cri_SymbolInfo :: symbol_info
  cri_AccountState :: account_state
  cri_Portfolio :: portfolio_state
  cri_BotState :: bot_state

section \<open>Sizing of a proposed trade\<close>

definition stopLossPercent :: "proposed_trade \<Rightarrow> f64" where
  "stopLossPercent pt =
    (if Fin 0 < t_StopLossPct pt then t_StopLossPct pt
     else if Fin 0 < t_ProposedEntry pt \<and> Fin 0 < t_ProposedStopLoss pt
     then \<bar>t_ProposedEntry pt - t_ProposedStopLoss pt\<bar> / t_ProposedEntry pt * Fin 100
     else Fin 0)"

definition sizing_leverage :: "user_config \<Rightarrow> f64" where
  "sizing_leverage cfg =
    (let l = sz_MaxLeverage (uc_Sizing cfg)
     in if l \<le> Fin 0 then pc_DefaultLeverage (bk_Paper (uc_Broker cfg)) else l)"

definition sizing_margin :: "user_config \<Rightarrow> f64" where
  "sizing_margin cfg =
    (let m = sz_MarginPerTradeUSD (uc_Sizing cfg)
     in if m \<le> Fin 0 then pr_MarginPerTradeUSD (uc_PortfolioRisk cfg) else m)"

definition estimateNotional :: "user_config \<Rightarrow> validate_input \<Rightarrow> f64" where
  "estimateNotional cfg i =
    (if Fin 0 < t_ProposedEntry (vi_ProposedTrade i) then sizing_margin cfg * sizing_leverage cfg
     else Fin 0)"

definition risk_amount :: "user_config \<Rightarrow> validate_input \<Rightarrow> f64" where
  "risk_amount cfg i =
    (let p = sz_MaxRiskPerTradePct (uc_Sizing cfg);
         riskPct = (if p \<le> Fin 0 then pr_MaxRiskPerTradePct (uc_PortfolioRisk cfg) else p)
     in a_Equity (vi_AccountState i) * riskPct / Fin 100)"

definition position_by_risk :: "user_config \<Rightarrow> validate_input \<Rightarrow> f64" where
  "position_by_risk cfg i =
    (let slPct = stopLossPercent (vi_ProposedTrade i)
     in if Fin 0 < slPct then risk_amount cfg i / (slPct / Fin 100) else math_MaxFloat64)"

definition computeBaseNotional :: "user_config \<Rightarrow> validate_input \<Rightarrow> f64" where
  "computeBaseNotional cfg i =
    (if \<not> isFinitePositive (t_ProposedEntry (vi_ProposedTrade i))
        \<or> \<not> isFinitePositive (t_ProposedStopLoss (vi_ProposedTrade i)) then Fin 0
     else if \<not> isFinitePositive (sizing_leverage cfg) then Fin 0
     else if \<not> isFinitePositive (sizing_margin cfg) then Fin 0
     else
       let out = math_Min (sizing_margin cfg * sizing_leverage cfg) (position_by_risk cfg i)
       in if isNaN out \<or> isInf out \<or> out < Fin 0 then Fin 0 else out)"

section \<open>Validation of a proposed trade\<close>

definition isValidLLMDecision :: "llm_decision \<Rightarrow> bool" where
  "isValidLLMDecision d \<longleftrightarrow>
    ld_Decision d \<in> {''ALLOW_MARKET'', ''ALLOW_LIMIT_RETEST'', ''REDUCE_SIZE'', ''BLOCK''}"

definition valid_multiplier :: "f64 \<Rightarrow> bool" where
  "valid_multiplier x \<longleftrightarrow> list_ex (feq x) [Fin 1, Fin (3 / 4), Fin (1 / 2), Fin (1 / 4), Fin 0]"

text \<open>The early returns, each with its one code.\<close>

definition input_error :: "validate_input \<Rightarrow> string option" where
  "input_error i =
    (let pt = vi_ProposedTrade i; m = vi_MarketState i in first_err
      [fail_if (\<not> isFinitePositive (a_Equity (vi_AccountState i))) ''INVALID_EQUITY'',
       fail_if (\<not> isFinitePositive (t_ProposedEntry pt)) ''INVALID_ENTRY'',
       fail_if (t_ProposedStopLoss pt \<le> Fin 0) ''SL_MISSING'',
       fail_if (\<not> isFinitePositive (t_ProposedStopLoss pt)) ''INVALID_STOP_LOSS'',
       fail_if (\<not> isFiniteNonNegative (t_SetupScore pt)) ''INVALID_SETUP_SCORE'',
       fail_if (\<not> isFiniteNonNegative (t_ExpectedMove pt)) ''INVALID_EXPECTED_MOVE'',
       fail_if (\<not> isFiniteNonNegative (t_EstimatedTotalCost pt)) ''INVALID_ESTIMATED_COST'',
       fail_if (\<not> isFiniteNonNegative (rm_SpreadBps m)) ''INVALID_SPREAD'',
       fail_if (\<not> isFiniteNonNegative (rm_SlippageBps m)) ''INVALID_SLIPPAGE'',
       fail_if (\<not> isFiniteNonNegative (rm_DepthRatio m)) ''INVALID_DEPTH'',
       fail_if (\<not> isFinitePositive (rm_Price m)) ''INVALID_MARKET_PRICE''])"

definition is_open :: "position \<Rightarrow> bool" where
  "is_open p \<longleftrightarrow> p_Status p = PositionStatusOpen"

text \<open>Checks 0 to 6: decision, bot state, market data, daily loss.\<close>

definition market_reasons :: "user_config \<Rightarrow> time \<Rightarrow> validate_input \<Rightarrow> string list" where
  "market_reasons cfg now i =
    (let d = vi_LLMDecision i; m = vi_MarketState i;
         maxDailyLossPct = pr_MaxDailyLossPct (uc_PortfolioRisk cfg)
     in code_if (\<not> isValidLLMDecision d) ''INVALID_LLM_DECISION'' @
        code_if (ld_Decision d = ''BLOCK'') ''LLM_DECISION_BLOCK'' @
        code_if (ld_Confidence d < Fin (3 / 4)) ''LLM_LOW_CONFIDENCE'' @
        code_if (ld_Decision d = ''REDUCE_SIZE'' \<and> \<not> valid_multiplier (ld_SizeMultiplier d))
          ''INVALID_SIZE_MULTIPLIER'' @
        code_if (bot_Halted (vi_BotState i)) ''BOT_HALTED'' @
        code_if (rm_Stale m) ''MARKET_DATA_STALE'' @
        code_if (\<not> IsZero (rm_LastUpdate m)
                 \<and> seconds_of (md_StaleDataThresholdSeconds (uc_MarketData cfg)) < since now (rm_LastUpdate m))
          ''MARKET_DATA_STALE'' @
        code_if (default_f64 (Fin 50) (uf_MaxSpreadBps (un_Filters (uc_Universe cfg))) < rm_SpreadBps m)
          ''SPREAD_TOO_WIDE'' @
        code_if (Fin 100 \<le> rm_SlippageBps m) ''SLIPPAGE_TOO_HIGH'' @
        code_if (rm_DepthRatio m \<le> Fin 0) ''INSUFFICIENT_DEPTH'' @
        code_if (Fin 0 < maxDailyLossPct
                 \<and> a_Equity (vi_AccountState i) * maxDailyLossPct / Fin 100 \<le> ps_DailyLoss (vi_Portfolio i))
          ''DAILY_LOSS_BREACHED'')"

definition total_exposure :: "position list \<Rightarrow> f64" where
  "total_exposure ps = fsum (map (\<lambda>p. p_EntryPrice p * p_Size p) ps)"

text \<open>Checks 7 to 14b: position limits and cooldowns.\<close>

definition portfolio_reasons :: "user_config \<Rightarrow> time \<Rightarrow> validate_input \<Rightarrow> string list" where
  "portfolio_reasons cfg now i =
    (let pc = uc_PortfolioRisk cfg; pf = vi_Portfolio i; pt = vi_ProposedTrade i;
         ops = ps_OpenPositions pf; lowConviction = (ld_Confidence (vi_LLMDecision i) < lit (85 / 100));
         equity = a_Equity (vi_AccountState i)
     in code_if (pr_MaxOpenPositions pc \<le> int (length ops) \<and> lowConviction) ''MAX_OPEN_POSITIONS'' @
        code_if (pr_MaxNewPositionsPerCycle pc \<le> ps_NewPositionsThisCycle pf)
          ''MAX_NEW_POSITIONS_PER_CYCLE'' @
        code_if (pr_MaxTotalExposureUSD pc < total_exposure ops + computeBaseNotional cfg i \<and> lowConviction)
          ''MAX_TOTAL_EXPOSURE'' @
        code_if (Fin 0 < pr_MaxTotalMarginUsedPct pc \<and> Fin 0 < equity
                 \<and> equity * pr_MaxTotalMarginUsedPct pc / Fin 100 < a_UsedMargin (vi_AccountState i))
          ''MAX_MARGIN_USED'' @
        code_if (list_ex (\<lambda>p. p_Symbol p = t_Symbol pt \<and> is_open p) ops) ''DUPLICATE_SYMBOL'' @
        code_if (pr_MaxSameDirectionPositions pc
                   \<le> int (length (filter (\<lambda>p. p_Side p = t_Side pt \<and> is_open p) ops)))
          ''TOO_MANY_SAME_DIRECTION'' @
        code_if (case ps_CooldownUntil pf of None \<Rightarrow> False | Some u \<Rightarrow> now < u) ''IN_COOLDOWN'' @
        code_if (cd_Enabled (pr_CooldownAfterLosses pc)
                 \<and> cd_ConsecutiveLosses (pr_CooldownAfterLosses pc) \<le> ps_ConsecutiveLosses pf)
          ''CONSECUTIVE_LOSSES_COOLDOWN'' @
        code_if (ps_Enabled (pr_PerSymbolSLCooldown pc)
                 \<and> (case map_of (ps_PerSymbolSLCooldown pf) (t_Symbol pt) of None \<Rightarrow> False | Some u \<Rightarrow> now < u))
          ''SYMBOL_SL_COOLDOWN'')"

text \<open>Checks 15 to 20: the levels of the trade, reward, cost, notional and leverage.\<close>

definition trade_reasons :: "user_config \<Rightarrow> validate_input \<Rightarrow> string list" where
  "trade_reasons cfg i =
    (let pt = vi_ProposedTrade i; ic = sg_Indicators (uc_Strategy cfg);
         sl = t_ProposedStopLoss pt; tp = t_ProposedTakeProfit pt; entry = t_ProposedEntry pt;
         rr = t_RR pt; minRR = default_f64 (Fin 2) (ic_MinRR ic);
         costMult = default_f64 (Fin 3) (ic_ExpectedMoveCostMultiplier ic);
         symbolMaxLev = default_f64 (Fin 100) (si_MaxLeverage (vi_SymbolInfo i))
     in (if Fin 0 < sl
         then code_if (t_Side pt = SideLong \<and> entry \<le> sl) ''SL_WRONG_SIDE'' @
              code_if (t_Side pt = SideShort \<and> sl \<le> entry) ''SL_WRONG_SIDE''
         else [''SL_MISSING'']) @
        code_if (Fin 0 < tp \<and> t_Side pt = SideLong \<and> tp \<le> entry) ''TP_WRONG_SIDE'' @
        code_if (Fin 0 < tp \<and> t_Side pt = SideShort \<and> entry \<le> tp) ''TP_WRONG_SIDE'' @
        code_if (Fin 0 < tp \<and> Fin 0 < sl
                 \<and> \<bar>tp - sl\<bar> < default_f64 (lit (1 / 10000)) (si_TickSize (vi_SymbolInfo i)))
          ''TP_SL_TOO_CLOSE'' @
        (if isNaN rr \<or> isInf rr \<or> rr \<le> Fin 0 then [''INVALID_RR'']
         else code_if (rr < minRR) ''RR_BELOW_MIN'') @
        code_if (Fin 0 < t_ExpectedMove pt \<and> Fin 0 < t_EstimatedTotalCost pt
                 \<and> t_ExpectedMove pt \<le> costMult * t_EstimatedTotalCost pt)
          ''EXPECTED_MOVE_TOO_SMALL'' @
        code_if (estimateNotional cfg i < pr_MinNotionalUSD (uc_PortfolioRisk cfg)) ''BELOW_MIN_NOTIONAL'' @
        code_if (symbolMaxLev < sizing_leverage cfg) ''LEVERAGE_EXCEEDS_MAX'' @
        code_if (sizing_leverage cfg \<le> Fin 0) ''INVALID_LEVERAGE'')"

definition validate_reasons :: "user_config \<Rightarrow> time \<Rightarrow> validate_input \<Rightarrow> string list" where
  "validate_reasons cfg now i =
    market_reasons cfg now i @ portfolio_reasons cfg now i @ trade_reasons cfg i"

definition final_notional :: "user_config \<Rightarrow> validate_input \<Rightarrow> f64" where
  "final_notional cfg i =
    (let d = vi_LLMDecision i; base = computeBaseNotional cfg i
     in if ld_Decision d = ''REDUCE_SIZE'' \<and> Fin 0 < ld_SizeMultiplier d
        then base * ld_SizeMultiplier d else base)"

definition rejected_output :: "string \<Rightarrow> validate_output" where
  "rejected_output code =
    \<lparr> vo_Approved = False, vo_FinalPositionNotional = Fin 0, vo_RequiredMargin = Fin 0,
      vo_EstimatedLoss = Fin 0, vo_ReasonCodes = [code], vo_PortfolioRank = 0,
      vo_PortfolioRejectReason = [] \<rparr>"

definition Validate :: "user_config \<Rightarrow> time \<Rightarrow> validate_input \<Rightarrow> validate_output" where
  "Validate cfg now i =
    (case input_error i of
       Some code \<Rightarrow> rejected_output code
     | None \<Rightarrow>
         let reasons = validate_reasons cfg now i;
             finalNotional = final_notional cfg i;
             leverage = sizing_leverage cfg
         in \<lparr> vo_Approved = (reasons = []),
              vo_FinalPositionNotional = finalNotional,
              vo_RequiredMargin = (if Fin 0 < leverage then finalNotional / leverage else Fin 0),
              vo_EstimatedLoss = finalNotional * stopLossPercent (vi_ProposedTrade i) / Fin 100,
              vo_ReasonCodes = reasons, vo_PortfolioRank = 0, vo_PortfolioRejectReason = [] \<rparr>)"

section \<open>Selection within a cycle\<close>

text \<open>
  The exchange sort: \<open>sift\<close> is the inner loop, which leaves the first maximum in front and the elements
  it displaced behind.
\<close>

fun sift :: "('a \<Rightarrow> 'a \<Rightarrow> bool) \<Rightarrow> 'a \<Rightarrow> 'a list \<Rightarrow> 'a \<times> 'a list" where
  "sift gt c [] = (c, [])"
| "sift gt c (y # ys) =
    (if gt y c then (let (m, r) = sift gt y ys in (m, c # r))
     else (let (m, r) = sift gt c ys in (m, y # r)))"

lemma length_sift [simp]: "length (snd (sift gt c ys)) = length ys"
  by (induction gt c ys rule: sift.induct) (auto split: prod.split)

function exchange_sort :: "('a \<Rightarrow> 'a \<Rightarrow> bool) \<Rightarrow> 'a list \<Rightarrow> 'a list" where
  "exchange_sort gt [] = []"
| "exchange_sort gt (x # xs) =
    (let (m, r) = sift gt x xs in m # exchange_sort gt r)"
  by pat_completeness auto

termination by (relation "measure (\<lambda>(gt, xs). length xs)") (simp, metis length_sift in_measure case_prod_conv snd_conv length_Cons lessI)

definition rank_step ::
  "user_config \<Rightarrow> time \<Rightarrow> int \<times> validate_output list \<Rightarrow> nat \<times> validate_input \<Rightarrow> int \<times> validate_output list" where
  "rank_step cfg now st s =
    (let (approvedCount, results) = st; (idx, i) = s; output = Validate cfg now i
     in if vo_Approved output \<and> approvedCount < pr_MaxNewPositionsPerCycle (uc_PortfolioRisk cfg)
        then (approvedCount + 1, results[idx := output\<lparr>vo_PortfolioRank := approvedCount + 1\<rparr>])
        else if vo_Approved output
        then (approvedCount,
              results[idx := output\<lparr>vo_Approved := False,
                                    vo_PortfolioRejectReason := ''PORTFOLIO_RISK_LIMIT'',
                                    vo_ReasonCodes := vo_ReasonCodes output @ [''PORTFOLIO_RISK_LIMIT'']\<rparr>])
        else (approvedCount, results[idx := output]))"

definition score_gt :: "nat \<times> validate_input \<Rightarrow> nat \<times> validate_input \<Rightarrow> bool" where
  "score_gt a b \<longleftrightarrow> t_SetupScore (vi_ProposedTrade (snd b)) < t_SetupScore (vi_ProposedTrade (snd a))"

definition RankAndSelectPortfolio :: "user_config \<Rightarrow> time \<Rightarrow> validate_input list \<Rightarrow> validate_output list" where
  "RankAndSelectPortfolio cfg now candidates =
    (let zero = (rejected_output [])\<lparr>vo_ReasonCodes := []\<rparr>
     in snd (foldl (rank_step cfg now) (0, replicate (length candidates) zero)
               (exchange_sort score_gt (enumerate 0 candidates))))"

section \<open>Reason texts\<close>

definition reason_texts :: "string gomap" where
  "reason_texts =
    [(''BOT_HALTED'', ''Bot is halted''),
     (''MARKET_DATA_STALE'', ''Market data is stale''),
     (''SPREAD_TOO_WIDE'', ''Spread exceeds threshold''),
     (''SLIPPAGE_TOO_HIGH'', ''Slippage estimate too high''),
     (''INSUFFICIENT_DEPTH'', ''Insufficient orderbook depth''),
     (''DAILY_LOSS_BREACHED'', ''Daily loss limit breached''),
     (''MAX_OPEN_POSITIONS'', ''Maximum open positions reached''),
     (''MAX_NEW_POSITIONS_PER_CYCLE'', ''Maximum new positions per cycle reached''),
     (''MAX_TOTAL_EXPOSURE'', ''Maximum total exposure reached''),
     (''MAX_MARGIN_USED'', ''Maximum margin usage reached''),
     (''DUPLICATE_SYMBOL'', ''Position already exists for this symbol''),
     (''TOO_MANY_SAME_DIRECTION'', ''Too many positions in same direction''),
     (''IN_COOLDOWN'', ''In cooldown period''),
     (''CONSECUTIVE_LOSSES_COOLDOWN'', ''Consecutive losses cooldown active''),
     (''SYMBOL_SL_COOLDOWN'', ''Symbol is in SL cooldown''),
     (''SL_WRONG_SIDE'', ''Stop loss on wrong side''),
     (''SL_MISSING'', ''Stop loss is missing''),
     (''TP_WRONG_SIDE'', ''Take profit on wrong side''),
     (''TP_SL_TOO_CLOSE'', ''Take profit and stop loss are too close''),
     (''RR_BELOW_MIN'', ''Risk/Reward below minimum''),
     (''EXPECTED_MOVE_TOO_SMALL'', ''Expected move too small relative to cost''),
     (''BELOW_MIN_NOTIONAL'', ''Position below minimum notional''),
     (''LEVERAGE_EXCEEDS_MAX'', ''Leverage exceeds maximum''),
     (''PORTFOLIO_RISK_LIMIT'', ''Portfolio risk limit reached''),
     (''INVALID_RR'', ''Risk-reward ratio is invalid (zero, negative, NaN, or infinite)''),
     (''RISK_TOO_SMALL'', ''Risk amount too small after modifiers''),
     (''MAX_CORRELATED_ALT_POSITIONS'', ''Maximum correlated alt LONG positions reached''),
     (''INVALID_QTY'', ''Invalid quantity after lot size rounding''),
     (''MARGIN_EXCEEDS_AVAILABLE'', ''Margin required exceeds available balance'')]"

definition GetRejectionReason :: "string \<Rightarrow> string" where
  "GetRejectionReason code =
    (case map_of reason_texts code of Some r \<Rightarrow> r | None \<Rightarrow> ''Unknown reason: '' @ code)"

section \<open>Validation of a scored candidate\<close>

definition hasBTCBearishHTF :: "regime_snapshot \<Rightarrow> bool" where
  "hasBTCBearishHTF snap \<longleftrightarrow> ''BTCStronglyBearishHTF'' \<in> set (rg_BTCFiltersTriggered snap)"

definition roundToTickSize :: "f64 \<Rightarrow> f64 \<Rightarrow> f64" where
  "roundToTickSize price tickSize =
    (if tickSize \<le> Fin 0 \<or> isNaN tickSize \<or> isInf tickSize then price
     else math_Round (price / tickSize) * tickSize)"

definition roundToLotSize :: "f64 \<Rightarrow> f64 \<Rightarrow> f64" where
  "roundToLotSize qty lotSize =
    (if lotSize \<le> Fin 0 \<or> isNaN lotSize \<or> isInf lotSize then qty
     else math_Round (qty / lotSize) * lotSize)"

definition candidate_error :: "candidate_risk_input \<Rightarrow> string option" where
  "candidate_error i =
    (let c = cri_Candidate i in first_err
      [fail_if (\<not> isFinitePositive (a_Equity (cri_AccountState i))) ''INVALID_EQUITY'',
       fail_if (\<not> isFinitePositive (tc_EntryPrice c)) ''INVALID_ENTRY'',
       fail_if (tc_StopLoss c \<le> Fin 0 \<or> \<not> isFinitePositive (tc_StopLoss c)) ''SL_MISSING''])"

text \<open>The modifiers in order: each that applies scales the risk and is recorded.\<close>

definition modify :: "bool \<Rightarrow> f64 \<Rightarrow> string \<Rightarrow> f64 \<times> string list \<Rightarrow> f64 \<times> string list" where
  "modify c factor name st = (if c then (fst st * factor, snd st @ [name]) else st)"

definition risk_pct :: "risk_config \<Rightarrow> candidate_risk_input \<Rightarrow> f64 \<times> string list" where
  "risk_pct cfg i =
    (let c = cri_Candidate i; rg = cri_RegimeSnapshot i;
         base = (if rc_MaxRiskPerTradePct cfg < rc_BaseRiskPerTradePct cfg
                 then rc_MaxRiskPerTradePct cfg else rc_BaseRiskPerTradePct cfg)
     in modify (tc_Side c = SideLong
                \<and> rs_Classification (rg_RelativeStrength rg) = ''strong_underperform'')
          (lit (6 / 10)) ''strong_underperform_0.6x''
        (modify (tc_Side c = SideLong \<and> hasBTCBearishHTF rg) (lit (7 / 10)) ''btc_bearish_htf_0.7x''
        (modify (sr_Action (cri_ScoreResult i) = ActionReduceSize) (Fin (1 / 2)) ''scoring_reduce_size_0.5x''
          (base, []))))"

definition candidate_leverage :: "risk_config \<Rightarrow> symbol_info \<Rightarrow> f64" where
  "candidate_leverage cfg si =
    (let l = (if rc_MaxLeverage cfg < rc_PreferredLeverage cfg then rc_MaxLeverage cfg
              else rc_PreferredLeverage cfg)
     in if si_MaxLeverage si < l \<and> Fin 0 < si_MaxLeverage si then si_MaxLeverage si else l)"

text \<open>\<open>riskAmount / (riskPerUnit + price * feeRate * 2)\<close>, rounded to the lot.\<close>

definition sized_qty :: "f64 \<Rightarrow> f64 \<Rightarrow> f64 \<Rightarrow> f64 \<Rightarrow> f64 \<Rightarrow> f64" where
  "sized_qty riskAmount riskPerUnit price feeRate lot =
    roundToLotSize (riskAmount / (riskPerUnit + price * feeRate * Fin 2)) lot"

text \<open>The checks before the levels are rounded.\<close>

definition level_reasons :: "risk_config \<Rightarrow> candidate_risk_input \<Rightarrow> string list" where
  "level_reasons cfg i =
    (let c = cri_Candidate i; entry = tc_EntryPrice c; sl = tc_StopLoss c;
         tps = tc_TakeProfits c; rr = tc_RiskRewardRatio c
     in (if tc_Side c = SideLong
         then code_if (entry \<le> sl) ''SL_WRONG_SIDE'' @
              code_if (list_ex (\<lambda>tp. tpt_Price tp \<le> entry) tps) ''TP_WRONG_SIDE''
         else code_if (sl \<le> entry) ''SL_WRONG_SIDE'' @
              code_if (list_ex (\<lambda>tp. entry \<le> tpt_Price tp) tps) ''TP_WRONG_SIDE'') @
        (if tps = [] then []
         else (if isNaN rr \<or> isInf rr \<or> rr \<le> Fin 0 then [''INVALID_RR'']
               else code_if (rr < rc_MinRR cfg) ''RR_BELOW_MIN'') @
              code_if (\<bar>tpt_Price (hd tps) - sl\<bar>
                         < default_f64 (lit (1 / 10000)) (si_TickSize (cri_SymbolInfo i)))
                ''TP_SL_TOO_CLOSE''))"

definition size_reasons :: "candidate_risk_input \<Rightarrow> f64 \<Rightarrow> f64 \<Rightarrow> f64 \<Rightarrow> string list" where
  "size_reasons i qty positionValue marginRequired =
    (let acc = cri_AccountState i; si = cri_SymbolInfo i;
         avail = (if a_AvailableBalance acc \<le> Fin 0 then a_Balance acc - a_UsedMargin acc
                  else a_AvailableBalance acc)
     in code_if (Fin 0 < avail \<and> avail * lit (95 / 100) < marginRequired) ''MARGIN_EXCEEDS_AVAILABLE'' @
        code_if (qty \<le> Fin 0 \<or> Fin 0 < si_LotSize si \<and> qty < si_LotSize si) ''INVALID_QTY'' @
        code_if (Fin 0 < si_MinNotional si \<and> positionValue < si_MinNotional si) ''BELOW_MIN_NOTIONAL'')"

definition min_sl_pct :: "f64 \<Rightarrow> f64" where
  "min_sl_pct entry =
    (if entry < Fin 1 then Fin (3 / 2) else if entry < Fin 10 then Fin 1
     else if entry < Fin 100 then Fin (1 / 2) else lit (3 / 10))"

definition rounded_reasons :: "side \<Rightarrow> f64 \<Rightarrow> f64 \<Rightarrow> string list" where
  "rounded_reasons sd entryPrice slPrice =
    code_if (if sd = SideLong then entryPrice \<le> slPrice else slPrice \<le> entryPrice)
      ''SL_EQUALS_ENTRY_AFTER_ROUNDING'' @
    code_if (Fin 0 < entryPrice
             \<and> \<bar>entryPrice - slPrice\<bar> / entryPrice * Fin 100 < min_sl_pct entryPrice)
      ''SL_TOO_CLOSE_AFTER_ROUNDING''"

definition limit_reasons :: "user_config \<Rightarrow> risk_config \<Rightarrow> time \<Rightarrow> candidate_risk_input \<Rightarrow> string list" where
  "limit_reasons ucfg cfg now i =
    (let c = cri_Candidate i; pf = cri_Portfolio i; pc = uc_PortfolioRisk ucfg;
         ops = filter is_open (ps_OpenPositions pf);
         lowScore = (sr_ScoreTotal (cri_ScoreResult i) < Fin 85)
     in code_if (rc_MaxOpenPositions cfg \<le> int (length ops) \<and> lowScore) ''MAX_OPEN_POSITIONS'' @
        code_if (tc_Side c = SideLong \<and> tc_Symbol c \<noteq> ''BTCUSDT'' \<and> lowScore
                 \<and> rc_MaxCorrelatedPositions cfg
                     \<le> int (length (filter (\<lambda>p. p_Side p = SideLong \<and> p_Symbol p \<noteq> ''BTCUSDT'') ops)))
          ''MAX_CORRELATED_ALT_POSITIONS'' @
        code_if (bot_Halted (cri_BotState i)) ''BOT_HALTED'' @
        code_if (ps_Enabled (pr_PerSymbolSLCooldown pc)
                 \<and> (case map_of (ps_PerSymbolSLCooldown pf) (tc_Symbol c) of None \<Rightarrow> False | Some u \<Rightarrow> now < u))
          ''SYMBOL_SL_COOLDOWN'' @
        code_if (cd_Enabled (pr_CooldownAfterLosses pc)
                 \<and> cd_ConsecutiveLosses (pr_CooldownAfterLosses pc) \<le> ps_ConsecutiveLosses pf)
          ''CONSECUTIVE_LOSSES_COOLDOWN'' @
        code_if (case ps_CooldownUntil pf of None \<Rightarrow> False | Some u \<Rightarrow> now < u) ''IN_COOLDOWN'')"

definition rejected_candidate_result ::
  "risk_config \<Rightarrow> candidate_risk_input \<Rightarrow> string \<Rightarrow> string list \<Rightarrow> risk_validation_result" where
  "rejected_candidate_result cfg i code modifiers =
    \<lparr> rv_CandidateID = tc_CandidateID (cri_Candidate i), rv_Approved = False,
      rv_RejectionReasons = [code], rv_OrderPlan = None, rv_ModifiersApplied = modifiers,
      rv_RiskConfigVersion = rc_RiskConfigVersion cfg \<rparr>"

text \<open>
  Quantity, value and margin are sized twice: once from the candidate's levels, which the checks look at,
  and again from the levels rounded to the tick, which the plan carries.
\<close>

definition first_sizing :: "user_config \<Rightarrow> candidate_risk_input \<Rightarrow> f64 \<Rightarrow> f64 \<Rightarrow> f64 \<times> f64 \<times> f64" where
  "first_sizing ucfg i leverage riskAmount =
    (let c = cri_Candidate i; feeRate = pc_FeeTakerBps (bk_Paper (uc_Broker ucfg)) / Fin 10000;
         qty = sized_qty riskAmount \<bar>tc_EntryPrice c - tc_StopLoss c\<bar> (tc_EntryPrice c) feeRate
                 (si_LotSize (cri_SymbolInfo i));
         positionValue = qty * tc_EntryPrice c
     in (qty, positionValue, positionValue / leverage))"

definition second_sizing ::
  "user_config \<Rightarrow> candidate_risk_input \<Rightarrow> f64 \<Rightarrow> f64 \<Rightarrow> f64 \<Rightarrow> f64 \<Rightarrow> f64 \<times> f64 \<times> f64 \<Rightarrow> f64 \<times> f64 \<times> f64" where
  "second_sizing ucfg i leverage riskAmount entryPrice slPrice sizing =
    (if Fin 0 < \<bar>entryPrice - slPrice\<bar> then
       let feeRate = pc_FeeTakerBps (bk_Paper (uc_Broker ucfg)) / Fin 10000;
           qty = sized_qty riskAmount \<bar>entryPrice - slPrice\<bar> entryPrice feeRate
                   (si_LotSize (cri_SymbolInfo i));
           positionValue = qty * entryPrice
       in (qty, positionValue, positionValue / leverage)
     else sizing)"

definition order_plan_of ::
  "user_config \<Rightarrow> candidate_risk_input \<Rightarrow> f64 \<Rightarrow> f64 \<Rightarrow> f64 \<Rightarrow> f64 \<Rightarrow> f64 \<Rightarrow> f64 \<times> f64 \<times> f64 \<Rightarrow> order_plan" where
  "order_plan_of ucfg i leverage riskAmount riskPct entryPrice slPrice sizing =
    (let c = cri_Candidate i; si = cri_SymbolInfo i; (qty, positionValue, marginRequired) = sizing;
         feeRate = pc_FeeTakerBps (bk_Paper (uc_Broker ucfg)) / Fin 10000
     in \<lparr> op_Symbol = tc_Symbol c, op_Side = tc_Side c, op_Qty = qty, op_EntryPrice = entryPrice,
          op_EntryType = tc_EntryType c, op_StopLoss = slPrice,
          op_TakeProfits =
            map (\<lambda>tp. \<lparr> tpp_Price = roundToTickSize (tpt_Price tp) (si_TickSize si),
                         tpp_Qty = roundToLotSize (qty * tpt_SizePct tp / Fin 100) (si_LotSize si) \<rparr>)
              (tc_TakeProfits c),
          op_Leverage = leverage, op_MarginRequired = marginRequired,
          op_EstimatedFees = positionValue * feeRate * Fin 2,
          op_RiskAmountUSD = riskAmount, op_RiskPctUsed = riskPct \<rparr>)"

definition ValidateCandidate ::
  "user_config \<Rightarrow> time \<Rightarrow> candidate_risk_input \<Rightarrow> risk_validation_result" where
  "ValidateCandidate ucfg now i =
    (let cfg = RiskConfig_WithDefaults (uc_Risk ucfg); c = cri_Candidate i; si = cri_SymbolInfo i
     in case candidate_error i of
          Some code \<Rightarrow> rejected_candidate_result cfg i code []
        | None \<Rightarrow>
            let (riskPct, modifiers) = risk_pct cfg i
            in if riskPct < rc_MinRiskPerTradePct cfg
               then rejected_candidate_result cfg i ''RISK_TOO_SMALL'' modifiers
               else
                 let leverage = candidate_leverage cfg si;
                     riskAmount = a_Equity (cri_AccountState i) * riskPct / Fin 100;
                     riskPerUnit = \<bar>tc_EntryPrice c - tc_StopLoss c\<bar>
                 in if riskPerUnit \<le> Fin 0 \<or> isNaN riskPerUnit \<or> isInf riskPerUnit
                    then rejected_candidate_result cfg i ''invalid_risk_distance'' modifiers
                    else
                      let sizing1 = first_sizing ucfg i leverage riskAmount;
                          entryPrice = roundToTickSize (tc_EntryPrice c) (si_TickSize si);
                          slPrice = roundToTickSize (tc_StopLoss c) (si_TickSize si);
                          sizing2 = second_sizing ucfg i leverage riskAmount entryPrice slPrice sizing1;
                          reasons =
                            level_reasons cfg i @
                            size_reasons i (fst sizing1) (fst (snd sizing1)) (snd (snd sizing1)) @
                            rounded_reasons (tc_Side c) entryPrice slPrice @
                            limit_reasons ucfg cfg now i
                      in \<lparr> rv_CandidateID = tc_CandidateID c, rv_Approved = (reasons = []),
                           rv_RejectionReasons = reasons,
                           rv_OrderPlan = Some (order_plan_of ucfg i leverage riskAmount riskPct
                                                  entryPrice slPrice sizing2),
                           rv_ModifiersApplied = modifiers,
                           rv_RiskConfigVersion = rc_RiskConfigVersion cfg \<rparr>)"

end
