(* ===== verification/RiskSpec.thy ===== *)
theory RiskSpec
  imports Risk ScoringSpec
begin

text \<open>
  What the risk engine guarantees for a trade it approves, how it selects within a cycle, and where an
  approval is weaker than its checks suggest.
\<close>

section \<open>Approved trades\<close>

lemma Validate_approved:
  "vo_Approved (Validate cfg now i) \<longleftrightarrow> input_error i = None \<and> validate_reasons cfg now i = []"
  by (auto simp: Validate_def rejected_output_def Let_def split: option.splits)

lemma input_accepted:
  "input_error i = None \<Longrightarrow>
    isFinitePositive (a_Equity (vi_AccountState i)) \<and>
    isFinitePositive (t_ProposedEntry (vi_ProposedTrade i)) \<and>
    isFinitePositive (t_ProposedStopLoss (vi_ProposedTrade i)) \<and>
    isFiniteNonNegative (t_SetupScore (vi_ProposedTrade i))"
  by (simp add: input_error_def Let_def)

lemma trade_levels:
  "trade_reasons cfg i = [] \<Longrightarrow>
    (t_Side (vi_ProposedTrade i) = SideLong \<longrightarrow>
       \<not> t_ProposedEntry (vi_ProposedTrade i) \<le> t_ProposedStopLoss (vi_ProposedTrade i)) \<and>
    (t_Side (vi_ProposedTrade i) = SideShort \<longrightarrow>
       \<not> t_ProposedStopLoss (vi_ProposedTrade i) \<le> t_ProposedEntry (vi_ProposedTrade i)) \<and>
    (Fin 0 < t_ProposedTakeProfit (vi_ProposedTrade i) \<longrightarrow>
       (t_Side (vi_ProposedTrade i) = SideLong \<longrightarrow>
          \<not> t_ProposedTakeProfit (vi_ProposedTrade i) \<le> t_ProposedEntry (vi_ProposedTrade i)) \<and>
       (t_Side (vi_ProposedTrade i) = SideShort \<longrightarrow>
          \<not> t_ProposedEntry (vi_ProposedTrade i) \<le> t_ProposedTakeProfit (vi_ProposedTrade i))) \<and>
    isFinitePositive (t_RR (vi_ProposedTrade i)) \<and>
    \<not> t_RR (vi_ProposedTrade i) < default_f64 (Fin 2) (ic_MinRR (sg_Indicators (uc_Strategy cfg))) \<and>
    \<not> sizing_leverage cfg \<le> Fin 0"
  using f64_not_less [of "Fin 0" "t_RR (vi_ProposedTrade i)"]
  by (auto simp: trade_reasons_def Let_def isFinitePositive_def isNaN_def split: if_splits)

definition demo_trade :: proposed_trade where
  "demo_trade =
    \<lparr> t_Symbol = ''ETHUSDT'', t_Side = SideLong, t_SetupType = ''breakout'', t_Regime = ''trend_up'',
      t_EntryType = EntryTypeMarket, t_ProposedEntry = Fin 100, t_ProposedStopLoss = Fin 96,
      t_ProposedTakeProfit = Fin 110, t_StopLossPct = Fin 4, t_TakeProfitPct = Fin 10, t_RR = Fin (5 / 2),
      t_InvalidationLevel = Fin 96, t_ReasonCodes = [], t_SetupScore = Fin 80, t_ExpectedMove = Fin 10,
      t_EstimatedTotalCost = Fin 1 \<rparr>"

definition demo_symbol :: symbol_info where
  "demo_symbol =
    \<lparr> si_Symbol = ''ETHUSDT'', si_Status = ''Trading'', si_QuoteAsset = ''USDT'', si_BaseAsset = ''ETH'',
      si_MinNotional = Fin 5, si_TickSize = Fin 1, si_LotSize = Fin 1, si_MaxLeverage = Fin 50 \<rparr>"

definition demo_account :: "f64 \<Rightarrow> account_state" where
  "demo_account equity =
    \<lparr> a_ID = 0, a_Balance = equity, a_AvailableBalance = equity, a_UsedMargin = Fin 0, a_Equity = equity,
      a_RealizedPnL = Fin 0, a_UnrealizedPnL = Fin 0, a_TotalFees = Fin 0, a_TotalSlippage = Fin 0,
      a_DailyLoss = Fin 0, a_RecordedAt = 0 \<rparr>"

definition demo_market :: risk_market_state where
  "demo_market =
    \<lparr> rm_Symbol = ''ETHUSDT'', rm_Price = Fin 100, rm_SpreadBps = Fin 2, rm_SlippageBps = Fin 2,
      rm_DepthRatio = Fin 4, rm_LastUpdate = zero_time, rm_Stale = False \<rparr>"

definition empty_portfolio :: portfolio_state where
  "empty_portfolio =
    \<lparr> ps_OpenPositions = [], ps_OpenOrders = [], ps_NewPositionsThisCycle = 0, ps_DailyLoss = Fin 0,
      ps_ConsecutiveLosses = 0, ps_CooldownUntil = None, ps_PerSymbolSLCooldown = [] \<rparr>"

definition demo_bot :: bot_state where
  "demo_bot =
    \<lparr> bot_Mode = ''paper'', bot_Running = True, bot_LastCycleAt = None, bot_DailyResetAt = None,
      bot_Halted = False, bot_HaltReason = [] \<rparr>"

definition demo_decision :: "string \<Rightarrow> f64 \<Rightarrow> llm_decision" where
  "demo_decision what factor =
    \<lparr> ld_Decision = what, ld_Confidence = Fin (4 / 5), ld_SizeMultiplier = factor, ld_Regime = [],
      ld_ReasonCodes = [], ld_RiskFlags = [], ld_Notes = [], ld_RawResponse = [], ld_ValidationStatus = [],
      ld_CandidateID = 0 \<rparr>"

definition demo_validate :: "string \<Rightarrow> f64 \<Rightarrow> validate_input" where
  "demo_validate what factor =
    \<lparr> vi_ProposedTrade = demo_trade, vi_SymbolInfo = demo_symbol, vi_LLMDecision = demo_decision what factor,
      vi_AccountState = demo_account (Fin 1000), vi_MarketState = demo_market, vi_Portfolio = empty_portfolio,
      vi_BotState = demo_bot \<rparr>"

lemma demo_approved: "vo_Approved (Validate demo_user_config 9 (demo_validate ''ALLOW_MARKET'' (Fin 1)))"
proof -
  have "input_error (demo_validate ''ALLOW_MARKET'' (Fin 1)) = None" by code_simp
  moreover have "market_reasons demo_user_config 9 (demo_validate ''ALLOW_MARKET'' (Fin 1)) = []" by code_simp
  moreover have "portfolio_reasons demo_user_config 9 (demo_validate ''ALLOW_MARKET'' (Fin 1)) = []" by code_simp
  moreover have "trade_reasons demo_user_config (demo_validate ''ALLOW_MARKET'' (Fin 1)) = []" by code_simp
  ultimately show ?thesis by (simp add: Validate_approved validate_reasons_def)
qed

text \<open>
  C9: an approved trade has finite positive equity, entry and stop with the stop on the losing side of the
  entry and a take-profit, where one is set, on the winning side; a finite positive reward ratio that is not below the
  configured one, and a usable leverage; its decision is an admissible one that is not a block, and its confidence not below 0.75;
  the bot is not halted; the symbol has no open position; and there is room for one more position in this cycle and in this
  direction. There is also room below the limits of open positions and of exposure, unless the confidence is 0.85 or more,
  which overrides these two.
\<close>

theorem approved_trade_sound:
  assumes "vo_Approved (Validate cfg now i)"
  shows "isFinitePositive (a_Equity (vi_AccountState i)) \<and>
    isFinitePositive (t_ProposedEntry (vi_ProposedTrade i)) \<and>
    isFinitePositive (t_ProposedStopLoss (vi_ProposedTrade i)) \<and>
    (t_Side (vi_ProposedTrade i) = SideLong \<longrightarrow>
       t_ProposedStopLoss (vi_ProposedTrade i) < t_ProposedEntry (vi_ProposedTrade i)) \<and>
    (t_Side (vi_ProposedTrade i) = SideShort \<longrightarrow>
       t_ProposedEntry (vi_ProposedTrade i) < t_ProposedStopLoss (vi_ProposedTrade i)) \<and>
    (Fin 0 < t_ProposedTakeProfit (vi_ProposedTrade i) \<longrightarrow>
       (t_Side (vi_ProposedTrade i) = SideLong \<longrightarrow>
          \<not> t_ProposedTakeProfit (vi_ProposedTrade i) \<le> t_ProposedEntry (vi_ProposedTrade i)) \<and>
       (t_Side (vi_ProposedTrade i) = SideShort \<longrightarrow>
          \<not> t_ProposedEntry (vi_ProposedTrade i) \<le> t_ProposedTakeProfit (vi_ProposedTrade i))) \<and>
    isFinitePositive (t_RR (vi_ProposedTrade i)) \<and>
    \<not> t_RR (vi_ProposedTrade i) < default_f64 (Fin 2) (ic_MinRR (sg_Indicators (uc_Strategy cfg))) \<and>
    \<not> sizing_leverage cfg \<le> Fin 0 \<and> \<not> ld_Confidence (vi_LLMDecision i) < Fin (3 / 4) \<and>
    ld_Decision (vi_LLMDecision i) \<in> {''ALLOW_MARKET'', ''ALLOW_LIMIT_RETEST'', ''REDUCE_SIZE''} \<and>
    \<not> bot_Halted (vi_BotState i) \<and>
    (\<forall>p\<in>set (ps_OpenPositions (vi_Portfolio i)).
       \<not> (p_Symbol p = t_Symbol (vi_ProposedTrade i) \<and> p_Status p = PositionStatusOpen)) \<and>
    ps_NewPositionsThisCycle (vi_Portfolio i) < pr_MaxNewPositionsPerCycle (uc_PortfolioRisk cfg) \<and>
    int (length (filter (\<lambda>p. p_Side p = t_Side (vi_ProposedTrade i) \<and> p_Status p = PositionStatusOpen)
      (ps_OpenPositions (vi_Portfolio i)))) < pr_MaxSameDirectionPositions (uc_PortfolioRisk cfg) \<and>
    (ld_Confidence (vi_LLMDecision i) < lit (85 / 100) \<longrightarrow>
       int (length (ps_OpenPositions (vi_Portfolio i))) < pr_MaxOpenPositions (uc_PortfolioRisk cfg) \<and>
       \<not> pr_MaxTotalExposureUSD (uc_PortfolioRisk cfg)
          < total_exposure (ps_OpenPositions (vi_Portfolio i)) + computeBaseNotional cfg i)"
proof -
  have a: "input_error i = None" "market_reasons cfg now i = []" "portfolio_reasons cfg now i = []"
      "trade_reasons cfg i = []"
    using assms by (simp_all add: Validate_approved validate_reasons_def)
  note inp = input_accepted [OF a(1)] and lev = trade_levels [OF a(4)]
  have m: "ld_Decision (vi_LLMDecision i) \<in> {''ALLOW_MARKET'', ''ALLOW_LIMIT_RETEST'', ''REDUCE_SIZE''} \<and>
      \<not> ld_Confidence (vi_LLMDecision i) < Fin (3 / 4) \<and> \<not> bot_Halted (vi_BotState i)"
    using a(2) by (auto simp: market_reasons_def Let_def isValidLLMDecision_def)
  have p: "(\<forall>p\<in>set (ps_OpenPositions (vi_Portfolio i)).
       \<not> (p_Symbol p = t_Symbol (vi_ProposedTrade i) \<and> p_Status p = PositionStatusOpen)) \<and>
    ps_NewPositionsThisCycle (vi_Portfolio i) < pr_MaxNewPositionsPerCycle (uc_PortfolioRisk cfg) \<and>
    int (length (filter (\<lambda>p. p_Side p = t_Side (vi_ProposedTrade i) \<and> p_Status p = PositionStatusOpen)
      (ps_OpenPositions (vi_Portfolio i)))) < pr_MaxSameDirectionPositions (uc_PortfolioRisk cfg) \<and>
    (ld_Confidence (vi_LLMDecision i) < lit (85 / 100) \<longrightarrow>
       int (length (ps_OpenPositions (vi_Portfolio i))) < pr_MaxOpenPositions (uc_PortfolioRisk cfg) \<and>
       \<not> pr_MaxTotalExposureUSD (uc_PortfolioRisk cfg)
          < total_exposure (ps_OpenPositions (vi_Portfolio i)) + computeBaseNotional cfg i)"
    using a(3) by (auto simp: portfolio_reasons_def Let_def list_ex_iff is_open_def)
  have "isFinitePositive x \<Longrightarrow> isFinitePositive y \<Longrightarrow> \<not> x \<le> y \<Longrightarrow> y < x" for x y
    by (auto simp: isFinitePositive_iff)
  then show ?thesis using inp lev m p by blast
qed

theorem approved_trade_sound_witness:
  "vo_Approved (Validate demo_user_config 9 (demo_validate ''ALLOW_MARKET'' (Fin 1))) \<and>
   t_ProposedStopLoss demo_trade < t_ProposedEntry demo_trade"
  using demo_approved approved_trade_sound [OF demo_approved]
  by (simp add: demo_validate_def demo_trade_def)

section \<open>Size of an approved trade\<close>

lemma times_le_self:
  assumes "Fin 0 \<le> x" "is_f64 x" "0 < c" "c \<le> 1"
  shows "x * Fin c \<le> x"
proof (cases x)
  case (Fin q)
  then have "0 \<le> q" "q * c \<le> q" using assms by (auto simp: mult_left_le)
  then show ?thesis using assms(2) Fin
    by (auto simp: times_f64_def is_fin_def isNaN_def isInf_def zero_of_def is_f64_Fin intro!: rnd_le)
qed (use assms in \<open>auto simp: times_f64_def is_fin_def isNaN_def isInf_def zero_of_def inf_of_def\<close>)

lemma is_f64_MaxFloat64: "is_f64 math_MaxFloat64"
proof -
  have "repr (of_int ((2 ^ 53 - 1) * 2 ^ 971))"
    unfolding repr_def
    by (intro exI [of _ "2 ^ 53 - 1"] exI [of _ 971]) (simp add: powi_nat del: power_numeral)
  then show ?thesis unfolding math_MaxFloat64_def is_f64_Fin .
qed

lemma base_notional:
  assumes "b = computeBaseNotional cfg i"
  shows "Fin 0 \<le> b \<and> is_f64 b \<and>
    (Fin 0 < b \<longrightarrow> b \<le> sizing_margin cfg * sizing_leverage cfg \<and> b \<le> position_by_risk cfg i)"
proof -
  let ?x = "sizing_margin cfg * sizing_leverage cfg" and ?y = "position_by_risk cfg i"
  let ?m = "math_Min ?x ?y"
  have f: "is_f64 ?m"
    using math_Min_cases [of ?x ?y] is_f64_MaxFloat64 by (auto simp: position_by_risk_def Let_def)
  consider "b = Fin 0" | "b = ?m" "\<not> isNaN ?m" "\<not> isInf ?m" "\<not> ?m < Fin 0"
    unfolding assms computeBaseNotional_def Let_def by (meson)
  then show ?thesis
  proof cases
    case 2
    then have m: "?m \<noteq> NaN" "?m \<noteq> NInf" by (auto simp: isNaN_def isInf_def)
    then have "?x \<noteq> NaN" "?y \<noteq> NaN" by (auto simp: math_Min_def split: if_splits)
    then show ?thesis using 2 m f math_Min_le [of ?x ?y] f64_not_less [of ?m "Fin 0"] by auto
  qed (simp add: is_f64_Fin)
qed

lemma admissible_multiplier:
  assumes "valid_multiplier x" "Fin 0 < x"
  obtains q where "x = Fin q" "0 < q" "q \<le> 1"
  using assms by (cases x) (auto simp: valid_multiplier_def feq_def)

text \<open>
  The notional of an approved trade is finite, not negative, and when it is positive it exceeds neither
  the margin per trade times the leverage nor the notional that risks the configured part of the equity at
  the stop.
\<close>

theorem final_notional_bounded:
  assumes "vo_Approved (Validate cfg now i)"
    and "n = vo_FinalPositionNotional (Validate cfg now i)"
  shows "Fin 0 \<le> n \<and>
    (Fin 0 < n \<longrightarrow> n \<le> sizing_margin cfg * sizing_leverage cfg \<and> n \<le> position_by_risk cfg i)"
proof -
  let ?b = "computeBaseNotional cfg i" and ?d = "vi_LLMDecision i"
  note b = base_notional [OF refl, of cfg i]
  have a: "input_error i = None" "market_reasons cfg now i = []"
    using assms(1) by (simp_all add: Validate_approved validate_reasons_def)
  have n: "n = final_notional cfg i" using assms(2) a by (simp add: Validate_def Let_def)
  show ?thesis
  proof (cases "ld_Decision ?d = ''REDUCE_SIZE'' \<and> Fin 0 < ld_SizeMultiplier ?d")
    case True
    then have "valid_multiplier (ld_SizeMultiplier ?d)" using a(2) by (auto simp: market_reasons_def Let_def)
    then obtain q where q: "ld_SizeMultiplier ?d = Fin q" "0 < q" "q \<le> 1"
      using True admissible_multiplier by blast
    have nb: "n = ?b * Fin q" using True q n by (simp add: final_notional_def Let_def)
    have le: "n \<le> ?b" unfolding nb using times_le_self b q by blast
    have "Fin 0 \<le> n" using times_nonneg [of ?b "Fin q"] b q le cmp_not_NaN(1) [OF le]
      unfolding nb by simp
    moreover have "Fin 0 < n \<Longrightarrow> Fin 0 < ?b"
      using le f64_less_le_trans by blast
    ultimately show ?thesis using b le f64_le_trans by blast
  next
    case False
    then have "n = ?b" using n by (auto simp: final_notional_def Let_def)
    then show ?thesis using b by simp
  qed
qed

theorem final_notional_bounded_witness:
  "Fin 0 \<le> vo_FinalPositionNotional
     (Validate demo_user_config 9 (demo_validate ''ALLOW_MARKET'' (Fin 1)))"
  using final_notional_bounded [OF demo_approved refl] by blast

text \<open>
  The decision to reduce the size with multiplier 0 is admissible and reduces nothing: the engine treats
  it exactly as the decision to allow the trade at full size.
\<close>

theorem zero_multiplier_keeps_full_size:
  assumes "ld_Decision (vi_LLMDecision i) = ''REDUCE_SIZE''"
    and "feq (ld_SizeMultiplier (vi_LLMDecision i)) (Fin 0)"
  shows "Validate cfg now i =
    Validate cfg now (i\<lparr>vi_LLMDecision := (vi_LLMDecision i)\<lparr>ld_Decision := ''ALLOW_MARKET''\<rparr>\<rparr>)"
proof -
  let ?j = "i\<lparr>vi_LLMDecision := (vi_LLMDecision i)\<lparr>ld_Decision := ''ALLOW_MARKET''\<rparr>\<rparr>"
  have m: "valid_multiplier (ld_SizeMultiplier (vi_LLMDecision i))"
    using assms(2) by (simp add: valid_multiplier_def)
  have z: "\<not> Fin 0 < ld_SizeMultiplier (vi_LLMDecision i)"
    using assms(2) by (auto simp: feq_def less_f64_def)
  have base: "computeBaseNotional cfg ?j = computeBaseNotional cfg i"
    by (simp add: computeBaseNotional_def position_by_risk_def risk_amount_def Let_def)
  have "validate_reasons cfg now ?j = validate_reasons cfg now i"
    using assms(1) m
    by (simp add: validate_reasons_def market_reasons_def portfolio_reasons_def trade_reasons_def base
        isValidLLMDecision_def estimateNotional_def Let_def code_if_def)
  moreover have "final_notional cfg ?j = final_notional cfg i"
    using assms(1) z by (simp add: final_notional_def base Let_def)
  moreover have "input_error ?j = input_error i" by (simp add: input_error_def)
  ultimately show ?thesis by (simp add: Validate_def Let_def split: option.split)
qed

theorem zero_multiplier_keeps_full_size_witness:
  "vo_Approved (Validate demo_user_config 9 (demo_validate ''REDUCE_SIZE'' (Fin 0)))"
proof -
  have "Validate demo_user_config 9 (demo_validate ''REDUCE_SIZE'' (Fin 0)) =
      Validate demo_user_config 9 (demo_validate ''ALLOW_MARKET'' (Fin 0))"
    by (subst zero_multiplier_keeps_full_size) (simp_all add: demo_validate_def demo_decision_def feq_def)
  moreover have "input_error (demo_validate ''ALLOW_MARKET'' (Fin 0)) = None"
    "market_reasons demo_user_config 9 (demo_validate ''ALLOW_MARKET'' (Fin 0)) = []"
    "portfolio_reasons demo_user_config 9 (demo_validate ''ALLOW_MARKET'' (Fin 0)) = []"
    "trade_reasons demo_user_config (demo_validate ''ALLOW_MARKET'' (Fin 0)) = []"
    by code_simp+
  ultimately show ?thesis by (simp add: Validate_approved validate_reasons_def)
qed

section \<open>Selection within a cycle\<close>

lemma mset_sift: "sift gt c ys = (m, r) \<Longrightarrow> mset (m # r) = mset (c # ys)"
  by (induction gt c ys arbitrary: m r rule: sift.induct) (auto split: if_splits prod.splits)

lemma mset_exchange_sort [simp]: "mset (exchange_sort gt xs) = mset xs"
proof (induction gt xs rule: exchange_sort.induct)
  case (2 gt x xs)
  obtain m r where s: "sift gt x xs = (m, r)" by fastforce
  then show ?case using 2 mset_sift [OF s] by simp
qed simp

lemma sift_max:
  assumes "transp gt" "asymp gt" "sift gt c ys = (m, r)"
  shows "(gt m c \<or> m = c) \<and> (\<forall>b\<in>set (c # ys). \<not> gt b m)"
  using assms(3)
proof (induction ys arbitrary: c m r)
  case Nil
  then show ?case using assms(2) asympD by fastforce
next
  case (Cons y ys)
  have tr: "gt a b \<Longrightarrow> gt b d \<Longrightarrow> gt a d" for a b d using assms(1) transpD by metis
  have as: "gt a b \<Longrightarrow> \<not> gt b a" for a b using assms(2) asympD by metis
  show ?case
  proof (cases "gt y c")
    case True
    then obtain r' where "sift gt y ys = (m, r')" using Cons.prems by (auto split: prod.splits)
    then show ?thesis using Cons.IH True tr as by (metis set_ConsD)
  next
    case False
    then obtain r' where "sift gt c ys = (m, r')" using Cons.prems by (auto split: prod.splits)
    then have "gt m c \<or> m = c" "\<forall>b\<in>set (c # ys). \<not> gt b m" using Cons.IH by blast+
    moreover have "\<not> gt y m" using False tr calculation by metis
    ultimately show ?thesis by simp
  qed
qed

lemma exchange_sort_sorted:
  assumes "transp gt" "asymp gt"
  shows "sorted_wrt (\<lambda>a b. \<not> gt b a) (exchange_sort gt xs)"
  using assms
proof (induction gt xs rule: exchange_sort.induct)
  case (2 gt x xs)
  obtain m r where s: "sift gt x xs = (m, r)" by fastforce
  have "set (m # r) = set (x # xs)" using mset_sift [OF s] mset_eq_setD by blast
  moreover have "set (exchange_sort gt r) = set r" by (rule mset_eq_setD) simp
  ultimately have "\<forall>b\<in>set (exchange_sort gt r). \<not> gt b m"
    using sift_max [OF 2(2,3) s] by (metis list.set_intros(2))
  moreover have "sorted_wrt (\<lambda>a b. \<not> gt b a) (exchange_sort gt r)"
    using 2(1) [OF s [symmetric] refl] 2(2,3) by blast
  ultimately show ?case using s by simp
qed simp

lemma score_gt_order: "transp score_gt" "asymp score_gt"
proof -
  show "transp score_gt"
    unfolding transp_def score_gt_def using f64_less_trans by blast
  show "asymp score_gt"
    by (rule asympI) (use f64_less_asym f64_less_imp_le in \<open>unfold score_gt_def, blast\<close>)
qed

text \<open>The indices whose approval survives: the first \<open>m\<close> of those the engine approves, in rank order.\<close>

definition kept :: "user_config \<Rightarrow> time \<Rightarrow> int \<Rightarrow> (nat \<times> validate_input) list \<Rightarrow> nat set" where
  "kept cfg now m L = fst ` set (take (nat m) (filter (\<lambda>s. vo_Approved (Validate cfg now (snd s))) L))"

lemma kept_Cons:
  "kept cfg now m (s # L) =
    (if vo_Approved (Validate cfg now (snd s))
     then (if 0 < m then insert (fst s) (kept cfg now (m - 1) L) else {})
     else kept cfg now m L)"
proof (cases "0 < m")
  case True
  then have "nat m = Suc (nat (m - 1))" by simp
  then show ?thesis using True by (simp add: kept_def)
qed (simp add: kept_def)

lemma kept_nonpos: "m \<le> 0 \<Longrightarrow> kept cfg now m L = {}"
  by (simp add: kept_def)

lemma rank_step_cases:
  obtains k' o' where "rank_step cfg now (k, res) (j, i) = (k', res[j := o'])"
    and "vo_Approved o' \<longleftrightarrow>
      vo_Approved (Validate cfg now i) \<and> k < pr_MaxNewPositionsPerCycle (uc_PortfolioRisk cfg)"
    and "k' = (if vo_Approved (Validate cfg now i)
                  \<and> k < pr_MaxNewPositionsPerCycle (uc_PortfolioRisk cfg) then k + 1 else k)"
proof -
  let ?o = "Validate cfg now i"
  consider "vo_Approved ?o" "k < pr_MaxNewPositionsPerCycle (uc_PortfolioRisk cfg)"
    | "vo_Approved ?o" "\<not> k < pr_MaxNewPositionsPerCycle (uc_PortfolioRisk cfg)"
    | "\<not> vo_Approved ?o" by blast
  then show thesis
  proof cases
    case 1
    then show thesis
      by (intro that [of "k + 1" "?o\<lparr>vo_PortfolioRank := k + 1\<rparr>"]) (simp_all add: rank_step_def Let_def)
  next
    case 2
    then show thesis
      by (intro that [of k "?o\<lparr>vo_Approved := False, vo_PortfolioRejectReason := ''PORTFOLIO_RISK_LIMIT'',
            vo_ReasonCodes := vo_ReasonCodes ?o @ [''PORTFOLIO_RISK_LIMIT'']\<rparr>"])
        (simp_all add: rank_step_def Let_def)
  next
    case 3
    then show thesis by (intro that [of k ?o]) (simp_all add: rank_step_def Let_def)
  qed
qed

lemma rank_fold:
  assumes "distinct (map fst L)" "\<forall>s\<in>set L. fst s < length res"
    and "out = snd (foldl (rank_step cfg now) (k, res) L)"
    and "maxNew = pr_MaxNewPositionsPerCycle (uc_PortfolioRisk cfg)"
  shows "length out = length res \<and>
    (\<forall>j < length res. if j \<in> fst ` set L then vo_Approved (out ! j) \<longleftrightarrow> j \<in> kept cfg now (maxNew - k) L
                      else out ! j = res ! j)"
  using assms
proof (induction L arbitrary: k res out)
  case (Cons s L)
  obtain j0 i where s: "s = (j0, i)" by fastforce
  let ?ok = "vo_Approved (Validate cfg now i)"
  obtain k' o' where st: "rank_step cfg now (k, res) s = (k', res[j0 := o'])"
    and ok: "vo_Approved o' \<longleftrightarrow> ?ok \<and> k < maxNew"
    and k': "k' = (if ?ok \<and> k < maxNew then k + 1 else k)"
    using rank_step_cases [of cfg now k res j0 i] unfolding s Cons.prems(4) by blast
  let ?res = "res[j0 := o']"
  have ih: "length (snd (foldl (rank_step cfg now) (k', ?res) L)) = length ?res \<and>
    (\<forall>j < length ?res. if j \<in> fst ` set L
       then vo_Approved (snd (foldl (rank_step cfg now) (k', ?res) L) ! j) \<longleftrightarrow> j \<in> kept cfg now (maxNew - k') L
       else snd (foldl (rank_step cfg now) (k', ?res) L) ! j = ?res ! j)"
    using Cons.IH [of ?res] Cons.prems by simp
  have j0: "j0 \<notin> fst ` set L" "j0 < length res" using Cons.prems s by auto
  have sub: "kept cfg now m L \<subseteq> fst ` set L" for m
    unfolding kept_def by (metis (no_types) filter_is_subset image_mono set_take_subset subset_trans)
  have keep: "j \<in> kept cfg now (maxNew - k') L \<longleftrightarrow> j \<in> kept cfg now (maxNew - k) (s # L)" if "j \<noteq> j0" for j
    using that k' kept_nonpos [of "maxNew - k"] by (auto simp: kept_Cons s diff_diff_eq)
  have keep0: "j0 \<in> kept cfg now (maxNew - k) (s # L) \<longleftrightarrow> ?ok \<and> k < maxNew"
    using sub j0 by (auto simp: kept_Cons s)
  have out: "out = snd (foldl (rank_step cfg now) (k', ?res) L)" using Cons.prems(3) st s by simp
  show ?case
  proof (intro conjI allI impI)
    show "length out = length res" using ih out by simp
    fix j assume j: "j < length res"
    show "if j \<in> fst ` set (s # L) then vo_Approved (out ! j) \<longleftrightarrow> j \<in> kept cfg now (maxNew - k) (s # L)
          else out ! j = res ! j"
    proof (cases "j = j0")
      case True
      then have "out ! j = o'" using ih j0 out by simp
      then show ?thesis using True ok s keep0 by simp
    next
      case False
      then show ?thesis using ih j out s keep [OF False] by (simp split: if_splits)
    qed
  qed
qed simp

lemma RankAndSelect_nth:
  assumes "out = RankAndSelectPortfolio cfg now cs"
  shows "length out = length cs \<and>
    (\<forall>j < length cs. vo_Approved (out ! j) \<longleftrightarrow>
       j \<in> kept cfg now (pr_MaxNewPositionsPerCycle (uc_PortfolioRisk cfg))
             (exchange_sort score_gt (enumerate 0 cs)))"
proof -
  let ?L = "exchange_sort score_gt (enumerate 0 cs)"
  have "mset (map fst ?L) = mset (map fst (enumerate 0 cs))" by (simp only: mset_map mset_exchange_sort)
  then have m: "mset (map fst ?L) = mset [0..<length cs]" by simp
  then have d: "distinct (map fst ?L)" by (metis distinct_upt mset_eq_imp_distinct_iff)
  have f: "fst ` set ?L = {0..<length cs}" using mset_eq_setD [OF m] by simp
  have "\<forall>s\<in>set ?L. fst s < length cs" using f by force
  then show ?thesis
    using rank_fold [OF d _ _ refl, of "replicate (length cs) ((rejected_output [])\<lparr>vo_ReasonCodes := []\<rparr>)"
        out cfg now 0] f
    by (simp add: assms RankAndSelectPortfolio_def Let_def)
qed

lemma in_sorted_parts:
  assumes "sorted_wrt P xs" "x \<in> set (take n xs)" "y \<in> set (drop n xs)"
  shows "P x y"
  using assms sorted_wrt_append [of P "take n xs" "drop n xs"] by simp

lemma kept_card: "0 \<le> m \<Longrightarrow> int (card (kept cfg now m L)) \<le> m"
proof -
  have "card (kept cfg now m L) \<le> length (take (nat m) (filter (\<lambda>s. vo_Approved (Validate cfg now (snd s))) L))"
    unfolding kept_def by (metis card_image_le card_length finite_set le_trans)
  then show "0 \<le> m \<Longrightarrow> ?thesis" by (simp add: le_nat_iff)
qed

text \<open>
  C10: the selection answers every candidate, approves at most the configured number and only candidates that
  the engine approves on their own, and is greedy: no selected candidate scores below one that the engine
  approved and the selection dropped.
\<close>

theorem selection_sound:
  assumes "out = RankAndSelectPortfolio cfg now cs"
    and "0 \<le> pr_MaxNewPositionsPerCycle (uc_PortfolioRisk cfg)"
  shows "length out = length cs \<and>
    int (card {j. j < length cs \<and> vo_Approved (out ! j)}) \<le> pr_MaxNewPositionsPerCycle (uc_PortfolioRisk cfg) \<and>
    (\<forall>j < length cs. vo_Approved (out ! j) \<longrightarrow> vo_Approved (Validate cfg now (cs ! j))) \<and>
    (\<forall>j < length cs. \<forall>d < length cs.
       vo_Approved (out ! j) \<and> \<not> vo_Approved (out ! d) \<and> vo_Approved (Validate cfg now (cs ! d)) \<longrightarrow>
       \<not> t_SetupScore (vi_ProposedTrade (cs ! j)) < t_SetupScore (vi_ProposedTrade (cs ! d)))"
proof -
  let ?L = "exchange_sort score_gt (enumerate 0 cs)"
    and ?ok = "\<lambda>s. vo_Approved (Validate cfg now (snd s))"
    and ?m = "pr_MaxNewPositionsPerCycle (uc_PortfolioRisk cfg)"
  note nth = RankAndSelect_nth [OF assms(1)]
  have "set ?L = set (enumerate 0 cs)" by (rule mset_eq_setD) simp
  then have L: "(j, i) \<in> set ?L \<longleftrightarrow> j < length cs \<and> i = cs ! j" for j i
    by (auto simp: in_set_enumerate_eq)
  have sorted: "sorted_wrt (\<lambda>a b. \<not> score_gt b a) (filter ?ok ?L)"
    using exchange_sort_sorted [OF score_gt_order] by (rule sorted_wrt_filter)
  have keptD: "(j, cs ! j) \<in> set (take (nat ?m) (filter ?ok ?L)) \<and> j < length cs" if "j \<in> kept cfg now ?m ?L" for j
    using that L set_take_subset [of "nat ?m" "filter ?ok ?L"] by (fastforce simp: kept_def)
  have drop: "(d, cs ! d) \<in> set (drop (nat ?m) (filter ?ok ?L))"
    if "d < length cs" "d \<notin> kept cfg now ?m ?L" "?ok (d, cs ! d)" for d
  proof -
    have "(d, cs ! d) \<in> set (filter ?ok ?L)" using that L by simp
    then have "(d, cs ! d) \<in> set (take (nat ?m) (filter ?ok ?L)) \<union> set (drop (nat ?m) (filter ?ok ?L))"
      by (metis append_take_drop_id set_append)
    then show ?thesis using that(2) by (force simp: kept_def)
  qed
  have "{j. j < length cs \<and> vo_Approved (out ! j)} = kept cfg now ?m ?L" using nth keptD by blast
  moreover have "?ok (j, cs ! j)" if "j \<in> kept cfg now ?m ?L" for j
    using keptD [OF that] by (auto dest: in_set_takeD)
  moreover have "\<not> t_SetupScore (vi_ProposedTrade (cs ! j)) < t_SetupScore (vi_ProposedTrade (cs ! d))"
    if "j \<in> kept cfg now ?m ?L" "d < length cs" "d \<notin> kept cfg now ?m ?L" "?ok (d, cs ! d)" for j d
    using in_sorted_parts [OF sorted conjunct1 [OF keptD [OF that(1)]] drop [OF that(2-4)]]
    by (simp add: score_gt_def)
  ultimately show ?thesis using nth kept_card [OF assms(2)] by simp
qed

theorem selection_sound_witness:
  "length (RankAndSelectPortfolio demo_user_config 9 [demo_validate ''ALLOW_MARKET'' (Fin 1)]) = 1"
proof -
  have "0 \<le> pr_MaxNewPositionsPerCycle (uc_PortfolioRisk demo_user_config)" by code_simp
  then show ?thesis using selection_sound [OF refl] by simp
qed

section \<open>Approved candidates\<close>

definition demo_risk_input :: "f64 \<Rightarrow> f64 \<Rightarrow> candidate_risk_input" where
  "demo_risk_input equity sl =
    \<lparr> cri_Candidate = (demo_candidate (Fin (5 / 2)))\<lparr>tc_StopLoss := sl\<rparr>,
      cri_ScoreResult = \<lparr> sr_ScoreTotal = Fin 80, sr_Components = roundComponents (components_of (demo_score_input (Fin 1))),
        sr_ScoringVersion = [], sr_Action = ActionAllowMarket, sr_SizeMultiplier = Fin 1 \<rparr>,
      cri_RegimeSnapshot = demo_regime, cri_SymbolInfo = demo_symbol, cri_AccountState = demo_account equity,
      cri_Portfolio = empty_portfolio, cri_BotState = demo_bot \<rparr>"

definition fee_free_config :: user_config where
  "fee_free_config =
    demo_user_config\<lparr>uc_Broker := \<lparr> bk_Provider = ''paper'',
                       bk_Paper = demo_paper_config\<lparr>pc_FeeTakerBps := Fin 0\<rparr> \<rparr>\<rparr>"

lemma ValidateCandidate_approved:
  assumes "rv_Approved (ValidateCandidate ucfg now i)"
  obtains leverage riskAmount sizing1 sizing2 where
    "candidate_error i = None"
    "\<not> fst (risk_pct (RiskConfig_WithDefaults (uc_Risk ucfg)) i)
         < rc_MinRiskPerTradePct (RiskConfig_WithDefaults (uc_Risk ucfg))"
    "leverage = candidate_leverage (RiskConfig_WithDefaults (uc_Risk ucfg)) (cri_SymbolInfo i)"
    "sizing1 = first_sizing ucfg i leverage riskAmount"
    "level_reasons (RiskConfig_WithDefaults (uc_Risk ucfg)) i = []"
    "size_reasons i (fst sizing1) (fst (snd sizing1)) (snd (snd sizing1)) = []"
    "rounded_reasons (tc_Side (cri_Candidate i))
       (roundToTickSize (tc_EntryPrice (cri_Candidate i)) (si_TickSize (cri_SymbolInfo i)))
       (roundToTickSize (tc_StopLoss (cri_Candidate i)) (si_TickSize (cri_SymbolInfo i))) = []"
    "limit_reasons ucfg (RiskConfig_WithDefaults (uc_Risk ucfg)) now i = []"
    "rv_OrderPlan (ValidateCandidate ucfg now i) =
       Some (order_plan_of ucfg i leverage riskAmount (fst (risk_pct (RiskConfig_WithDefaults (uc_Risk ucfg)) i))
         (roundToTickSize (tc_EntryPrice (cri_Candidate i)) (si_TickSize (cri_SymbolInfo i)))
         (roundToTickSize (tc_StopLoss (cri_Candidate i)) (si_TickSize (cri_SymbolInfo i))) sizing2)"
proof -
  let ?cfg = "RiskConfig_WithDefaults (uc_Risk ucfg)"
  let ?lev = "candidate_leverage ?cfg (cri_SymbolInfo i)"
  let ?amt = "a_Equity (cri_AccountState i) * fst (risk_pct ?cfg i) / Fin 100"
  let ?s1 = "first_sizing ucfg i ?lev ?amt"
  let ?e = "roundToTickSize (tc_EntryPrice (cri_Candidate i)) (si_TickSize (cri_SymbolInfo i))"
  let ?sl = "roundToTickSize (tc_StopLoss (cri_Candidate i)) (si_TickSize (cri_SymbolInfo i))"
  let ?s2 = "second_sizing ucfg i ?lev ?amt ?e ?sl ?s1"
  show thesis
    by (rule that [of ?lev ?s1 ?amt ?s2])
      (use assms in \<open>simp_all add: ValidateCandidate_def Let_def case_prod_unfold
         rejected_candidate_result_def split: option.splits if_splits\<close>)
qed

lemma rounded_sides:
  assumes "rounded_reasons sd e s = []"
  shows "if sd = SideLong then \<not> e \<le> s else \<not> s \<le> e"
  using assms by (simp add: rounded_reasons_def split: if_splits)

definition unit_factor :: "f64 \<Rightarrow> bool" where
  "unit_factor f \<longleftrightarrow> (case f of Fin q \<Rightarrow> 0 < q \<and> q \<le> 1 | _ \<Rightarrow> False)"

definition bounded_pct :: "f64 \<Rightarrow> f64 \<times> string list \<Rightarrow> bool" where
  "bounded_pct b st \<longleftrightarrow> Fin 0 \<le> fst st \<and> fst st \<le> b \<and> is_f64 (fst st)"

lemma bounded_modify:
  assumes "bounded_pct b st" "unit_factor f"
  shows "bounded_pct b (modify c f n st)"
proof -
  obtain q where q: "f = Fin q" "0 < q" "q \<le> 1"
    using assms(2) by (auto simp: unit_factor_def split: f64.splits)
  have le: "fst st * Fin q \<le> fst st" using times_le_self assms(1) q unfolding bounded_pct_def by blast
  moreover have "Fin 0 \<le> fst st * Fin q"
    using times_nonneg [of "fst st" "Fin q"] assms(1) q cmp_not_NaN(1) [OF le] by (simp add: bounded_pct_def)
  ultimately show ?thesis using assms(1) q f64_le_trans [OF le] by (simp add: modify_def bounded_pct_def)
qed

lemma factors: "unit_factor (lit (6 / 10))" "unit_factor (lit (7 / 10))" "unit_factor (Fin (1 / 2))"
  by code_simp+

lemma risk_pct_le:
  assumes "c = RiskConfig_WithDefaults cfg" "rc_MaxRiskPerTradePct c \<noteq> NaN" "rc_BaseRiskPerTradePct c \<noteq> NaN"
    and "is_f64 (rc_MaxRiskPerTradePct c)" "is_f64 (rc_BaseRiskPerTradePct c)"
  shows "fst (risk_pct c i) \<le> rc_MaxRiskPerTradePct c"
proof -
  have pos: "Fin 0 < rc_MaxRiskPerTradePct c" "Fin 0 < rc_BaseRiskPerTradePct c"
    using assms default_f64_pos [of "Fin 1" "rc_MaxRiskPerTradePct cfg"]
      default_f64_pos [of "Fin (1 / 2)" "rc_BaseRiskPerTradePct cfg"]
    by (auto simp: RiskConfig_WithDefaults_def)
  let ?b = "if rc_MaxRiskPerTradePct c < rc_BaseRiskPerTradePct c then rc_MaxRiskPerTradePct c
            else rc_BaseRiskPerTradePct c"
  have "Fin 0 \<le> ?b \<and> ?b \<le> rc_MaxRiskPerTradePct c \<and> is_f64 ?b"
    using pos assms f64_less_imp_le f64_le_refl
      f64_not_less [of "rc_MaxRiskPerTradePct c" "rc_BaseRiskPerTradePct c"] by auto
  then have "bounded_pct (rc_MaxRiskPerTradePct c) (?b, [])" by (simp add: bounded_pct_def)
  then have "bounded_pct (rc_MaxRiskPerTradePct c) (risk_pct c i)"
    unfolding risk_pct_def Let_def by (intro bounded_modify factors)
  then show ?thesis by (simp add: bounded_pct_def)
qed

lemma candidate_leverage_le:
  "\<not> rc_MaxLeverage c < candidate_leverage c si"
  "\<not> (Fin 0 < si_MaxLeverage si \<and> si_MaxLeverage si < candidate_leverage c si)"
proof -
  define l where "l = (if rc_MaxLeverage c < rc_PreferredLeverage c then rc_MaxLeverage c
                       else rc_PreferredLeverage c)"
  have l: "\<not> rc_MaxLeverage c < l" by (simp add: l_def)
  have d: "candidate_leverage c si =
      (if si_MaxLeverage si < l \<and> Fin 0 < si_MaxLeverage si then si_MaxLeverage si else l)"
    by (simp add: candidate_leverage_def l_def Let_def)
  show "\<not> rc_MaxLeverage c < candidate_leverage c si"
    unfolding d using l f64_less_trans by (metis (full_types))
  show "\<not> (Fin 0 < si_MaxLeverage si \<and> si_MaxLeverage si < candidate_leverage c si)"
    unfolding d by simp
qed

text \<open>
  An approved candidate has an order plan whose rounded stop is on the losing side of its rounded entry,
  whose risk is at least the configured minimum and at most the configured maximum, and whose leverage is the
  preferred one capped by the maximum and by the symbol; and the bot is not halted.
\<close>

theorem approved_candidate_sound:
  assumes "rv_Approved (ValidateCandidate ucfg now i)" and "c = RiskConfig_WithDefaults (uc_Risk ucfg)"
    and "rc_MaxRiskPerTradePct c \<noteq> NaN" "rc_BaseRiskPerTradePct c \<noteq> NaN"
    and "is_f64 (rc_MaxRiskPerTradePct c)" "is_f64 (rc_BaseRiskPerTradePct c)"
  shows "\<exists>plan. rv_OrderPlan (ValidateCandidate ucfg now i) = Some plan \<and>
    (if op_Side plan = SideLong then \<not> op_EntryPrice plan \<le> op_StopLoss plan
     else \<not> op_StopLoss plan \<le> op_EntryPrice plan) \<and>
    \<not> op_RiskPctUsed plan < rc_MinRiskPerTradePct c \<and> op_RiskPctUsed plan \<le> rc_MaxRiskPerTradePct c \<and>
    \<not> rc_MaxLeverage c < op_Leverage plan \<and>
    \<not> (Fin 0 < si_MaxLeverage (cri_SymbolInfo i) \<and> si_MaxLeverage (cri_SymbolInfo i) < op_Leverage plan) \<and>
    op_Side plan = tc_Side (cri_Candidate i) \<and> op_Symbol plan = tc_Symbol (cri_Candidate i) \<and>
    \<not> bot_Halted (cri_BotState i)"
  using assms(1)
proof (rule ValidateCandidate_approved)
  fix leverage riskAmount sizing1 sizing2
  assume a: "\<not> fst (risk_pct (RiskConfig_WithDefaults (uc_Risk ucfg)) i)
         < rc_MinRiskPerTradePct (RiskConfig_WithDefaults (uc_Risk ucfg))"
    "leverage = candidate_leverage (RiskConfig_WithDefaults (uc_Risk ucfg)) (cri_SymbolInfo i)"
    "rounded_reasons (tc_Side (cri_Candidate i))
       (roundToTickSize (tc_EntryPrice (cri_Candidate i)) (si_TickSize (cri_SymbolInfo i)))
       (roundToTickSize (tc_StopLoss (cri_Candidate i)) (si_TickSize (cri_SymbolInfo i))) = []"
    "limit_reasons ucfg (RiskConfig_WithDefaults (uc_Risk ucfg)) now i = []"
    "rv_OrderPlan (ValidateCandidate ucfg now i) =
       Some (order_plan_of ucfg i leverage riskAmount (fst (risk_pct (RiskConfig_WithDefaults (uc_Risk ucfg)) i))
         (roundToTickSize (tc_EntryPrice (cri_Candidate i)) (si_TickSize (cri_SymbolInfo i)))
         (roundToTickSize (tc_StopLoss (cri_Candidate i)) (si_TickSize (cri_SymbolInfo i))) sizing2)"
  have "\<not> rc_MaxLeverage c < leverage"
    and "\<not> (Fin 0 < si_MaxLeverage (cri_SymbolInfo i) \<and> si_MaxLeverage (cri_SymbolInfo i) < leverage)"
    using candidate_leverage_le a(2) assms(2) by simp_all
  moreover have "\<not> bot_Halted (cri_BotState i)" using a(4) by (simp add: limit_reasons_def Let_def)
  ultimately show ?thesis
    using a(1,5) rounded_sides [OF a(3)] risk_pct_le [OF assms(2-6)] assms(2)
    by (simp add: order_plan_of_def Let_def split: prod.split)
qed

lemma demo_candidate_approved:
  "rv_Approved (ValidateCandidate fee_free_config now (demo_risk_input (Fin 80) (Fin (795 / 8)))) \<and>
   map_option op_Qty (rv_OrderPlan (ValidateCandidate fee_free_config now (demo_risk_input (Fin 80) (Fin (795 / 8)))))
     = Some (Fin 0)"
  by code_simp

theorem approved_candidate_sound_witness:
  "\<exists>plan. rv_OrderPlan (ValidateCandidate fee_free_config 9 (demo_risk_input (Fin 80) (Fin (795 / 8)))) = Some plan \<and>
     op_RiskPctUsed plan \<le> Fin 1"
proof -
  have "rc_MaxRiskPerTradePct (RiskConfig_WithDefaults (uc_Risk fee_free_config)) = Fin 1"
    "rc_BaseRiskPerTradePct (RiskConfig_WithDefaults (uc_Risk fee_free_config)) = Fin (1 / 2)"
    by (simp_all add: fee_free_config_def demo_user_config_def demo_risk_config_def RiskConfig_WithDefaults_def default_f64_def)
  moreover have "is_f64 (Fin 1)" "is_f64 (Fin (1 / 2))"
    using repr_half [of 1] by (simp_all add: is_f64_Fin)
  ultimately show ?thesis
    using approved_candidate_sound [OF conjunct1 [OF demo_candidate_approved] refl] by auto
qed

text \<open>
  An approved candidate can carry a plan with quantity zero. The checks look at the quantity sized from the
  candidate's own levels; the plan carries the one sized again from the rounded levels, which is not checked.
  Here entry 100 and stop 99.375 give one lot, and the stop rounded down to 99 gives none.
\<close>

theorem approved_with_zero_quantity:
  "rv_Approved (ValidateCandidate fee_free_config now (demo_risk_input (Fin 80) (Fin (795 / 8)))) \<and>
   map_option op_Qty (rv_OrderPlan (ValidateCandidate fee_free_config now (demo_risk_input (Fin 80) (Fin (795 / 8)))))
     = Some (Fin 0)"
  by (rule demo_candidate_approved)

end
