(* ===== verification/HardBlocks.thy ===== *)
theory HardBlocks
  imports Risk
begin

text \<open>
  The hard blocks (\<open>internal/risk/hard_blocks.go\<close>, \<open>block_evaluator.go\<close>): each is a predicate on market,
  account and position data that stops a new trade, and the evaluator records every one that fires. A
  block is \<open>None\<close> when it passes and its message when it fires; a message is its fixed part and the numbers
  and names it prints.
\<close>

section \<open>Data\<close>

datatype reason = Reason string "f64 list" "string list"

record risk_data_snapshot =
  ds_Price :: f64
  ds_SpreadPct :: f64
  ds_FundingRatePct :: f64
  ds_LastDataAt :: time
  ds_Numbers :: "f64 gomap"

text \<open>A trade outcome is its profit.\<close>

type_synonym trade_outcome = f64

record trade_cooldown_config =
  tcd_Enabled :: bool
  tcd_AfterLoss :: duration
  tcd_AfterWin :: duration
  tcd_LastTradeWasLoss :: bool

record block_emergency_stop =
  bes_Active :: bool
  bes_Reason :: string

record position_key =
  pk_Symbol :: string
  pk_Side :: side
  pk_Size :: f64

record block_input =
  bi_Symbol :: string
  bi_Price :: f64
  bi_Snapshot :: risk_data_snapshot
  bi_Candles :: "candle list"
  bi_MinRequiredCandles :: int
  bi_OrderBook :: order_book_summary
  bi_MaxSpreadPct :: f64
  bi_FundingRatePct :: f64
  bi_MaxFundingAbsPct :: f64
  bi_PendingOrders :: "broker_order list"
  bi_CurrentPositions :: "position list"
  bi_TodayPnL :: f64
  bi_DailyMaxLossPct :: f64
  bi_Equity :: f64
  bi_RecentTrades :: "trade_outcome list"
  bi_MaxConsecutiveLosses :: int
  bi_LastTradeTime :: "time option"
  bi_Cooldown :: trade_cooldown_config
  bi_EmergencyStop :: block_emergency_stop
  bi_BTC5mReturnPct :: f64
  bi_BTCFlashCrash5mPct :: f64
  bi_LocalPositions :: "position_key list"
  bi_ExchangePositions :: "position_key list"
  bi_MaxDataAge :: duration
  bi_PerSymbolSLCooldown :: "time gomap"

section \<open>Market data\<close>

definition BlockIfPriceInvalid :: "f64 \<Rightarrow> reason option" where
  "BlockIfPriceInvalid price =
    fail_if (isNaN price \<or> isInf price \<or> price \<le> Fin 0) (Reason ''price is invalid'' [price] [])"

definition snapshot_numbers :: "risk_data_snapshot \<Rightarrow> f64 gomap" where
  "snapshot_numbers s =
    foldl (\<lambda>m (k, v). AList.update k v m)
      [(''price'', ds_Price s), (''spread_pct'', ds_SpreadPct s), (''funding_rate_pct'', ds_FundingRatePct s)]
      (ds_Numbers s)"

definition BlockIfNaNOrInf :: "string list \<Rightarrow> risk_data_snapshot \<Rightarrow> reason option" where
  "BlockIfNaNOrInf ord s =
    (let values = snapshot_numbers s
     in case List.find (\<lambda>k. case map_of values k of None \<Rightarrow> False | Some v \<Rightarrow> isNaN v \<or> isInf v)
               (iter_keys ord values) of
          None \<Rightarrow> None
        | Some k \<Rightarrow> Some (Reason ''snapshot contains NaN/Inf'' [] [k]))"

definition BlockIfStaleData :: "time \<Rightarrow> risk_data_snapshot \<Rightarrow> duration \<Rightarrow> reason option" where
  "BlockIfStaleData now s maxAge =
    (if maxAge \<le> 0 then None
     else if IsZero (ds_LastDataAt s) then Some (Reason ''market data timestamp is missing'' [] [])
     else fail_if (maxAge < since now (ds_LastDataAt s)) (Reason ''market data is old'' [] []))"

definition BlockIfInsufficientCandles :: "candle list \<Rightarrow> int \<Rightarrow> reason option" where
  "BlockIfInsufficientCandles candles minRequired =
    (if minRequired \<le> 0 then None
     else fail_if (int (length candles) < minRequired) (Reason ''insufficient candles'' [] []))"

definition BlockIfSpreadTooWide :: "order_book_summary \<Rightarrow> f64 \<Rightarrow> reason option" where
  "BlockIfSpreadTooWide orderbook maxSpreadPct =
    (if maxSpreadPct \<le> Fin 0 then None
     else
       let spreadPct = ob_SpreadBps orderbook / Fin 100
       in fail_if (maxSpreadPct < spreadPct) (Reason ''spread too wide'' [spreadPct, maxSpreadPct] []))"

definition BlockIfFundingExtreme :: "f64 \<Rightarrow> f64 \<Rightarrow> reason option" where
  "BlockIfFundingExtreme fundingRate maxAbs =
    (if maxAbs \<le> Fin 0 then None
     else fail_if (maxAbs < \<bar>fundingRate\<bar>) (Reason ''funding rate extreme'' [fundingRate, maxAbs] []))"

definition BlockIfBTCFlashCrash :: "f64 \<Rightarrow> f64 \<Rightarrow> reason option" where
  "BlockIfBTCFlashCrash btc5mReturn threshold =
    (if feq threshold (Fin 0) then None
     else if threshold < Fin 0 \<and> btc5mReturn \<le> threshold
     then Some (Reason ''BTC flash crash detected'' [btc5mReturn, threshold] [])
     else fail_if (Fin 0 < threshold \<and> threshold \<le> btc5mReturn)
            (Reason ''BTC flash spike detected'' [btc5mReturn, threshold] []))"

section \<open>Orders and positions\<close>

definition BlockIfDuplicateOrder :: "string \<Rightarrow> broker_order list \<Rightarrow> reason option" where
  "BlockIfDuplicateOrder symb pendingOrders =
    fail_if (list_ex (\<lambda>q. o_Symbol q = symb \<and> o_Status q = OrderStatusPending) pendingOrders)
      (Reason ''duplicate pending order for symbol'' [] [symb])"

definition BlockIfPositionAlreadyOpen :: "string \<Rightarrow> position list \<Rightarrow> reason option" where
  "BlockIfPositionAlreadyOpen symb currentPositions =
    fail_if (list_ex (\<lambda>p. p_Symbol p = symb \<and> p_Status p = PositionStatusOpen) currentPositions)
      (Reason ''position already open for symbol'' [] [symb])"

text \<open>\<open>m[p.Symbol] = p\<close> for every position of a list.\<close>

definition by_symbol :: "position_key list \<Rightarrow> position_key gomap" where
  "by_symbol = foldl (\<lambda>m p. AList.update (pk_Symbol p) p m) []"

definition symbol_mismatch :: "position_key gomap \<Rightarrow> position_key gomap \<Rightarrow> string \<Rightarrow> reason option" where
  "symbol_mismatch localM exchangeM k =
    (case map_of localM k of
       None \<Rightarrow> None
     | Some lp \<Rightarrow>
         (case map_of exchangeM k of
            None \<Rightarrow> Some (Reason ''position mismatch: symbol missing on exchange state'' [] [k])
          | Some ep \<Rightarrow>
              if pk_Side lp \<noteq> pk_Side ep then Some (Reason ''position mismatch: side'' [] [k])
              else fail_if (lit (1 / 10 ^ 9) < \<bar>pk_Size lp - pk_Size ep\<bar>)
                     (Reason ''position mismatch: size'' [pk_Size lp, pk_Size ep] [k])))"

definition BlockIfPositionMismatch ::
  "string list \<Rightarrow> position_key list \<Rightarrow> position_key list \<Rightarrow> reason option" where
  "BlockIfPositionMismatch ord localState exchangeState =
    (let l = by_symbol localState; e = by_symbol exchangeState
     in if length l \<noteq> length e then Some (Reason ''position mismatch: count'' [] [])
        else first_err (map (symbol_mismatch l e) (iter_keys ord l)))"

section \<open>Losses and cooldowns\<close>

definition BlockIfDailyLossReached :: "f64 \<Rightarrow> f64 \<Rightarrow> f64 \<Rightarrow> reason option" where
  "BlockIfDailyLossReached todayPnL maxLossPct equity =
    (if maxLossPct \<le> Fin 0 then None
     else if equity \<le> Fin 0 then Some (Reason ''equity is invalid for daily loss check'' [] [])
     else if Fin 0 \<le> todayPnL then None
     else
       let lossAbs = - todayPnL; maxLossAbs = equity * maxLossPct / Fin 100
       in fail_if (maxLossAbs \<le> lossAbs) (Reason ''daily loss reached'' [lossAbs, maxLossAbs, maxLossPct] []))"

definition consecutive_losses :: "trade_outcome list \<Rightarrow> nat" where
  "consecutive_losses recentTrades = length (takeWhile (\<lambda>x. x < Fin 0) (rev recentTrades))"

definition BlockIfConsecutiveLossLimit :: "trade_outcome list \<Rightarrow> int \<Rightarrow> reason option" where
  "BlockIfConsecutiveLossLimit recentTrades maxLosses =
    (if maxLosses \<le> 0 then None
     else fail_if (maxLosses \<le> int (consecutive_losses recentTrades))
            (Reason ''consecutive loss limit reached'' [] []))"

definition BlockIfCooldownActive :: "time \<Rightarrow> time option \<Rightarrow> trade_cooldown_config \<Rightarrow> reason option" where
  "BlockIfCooldownActive now lastTradeTime cfg =
    (case lastTradeTime of
       None \<Rightarrow> None
     | Some t \<Rightarrow>
         if \<not> tcd_Enabled cfg then None
         else
           let cooldown = (if tcd_LastTradeWasLoss cfg then tcd_AfterLoss cfg else tcd_AfterWin cfg)
           in if cooldown \<le> 0 then None
              else fail_if (since now t < cooldown) (Reason ''cooldown active'' [] []))"

definition BlockIfEmergencyStopActive :: "block_emergency_stop \<Rightarrow> reason option" where
  "BlockIfEmergencyStopActive st =
    fail_if (bes_Active st)
      (Reason ''emergency stop active'' [] (if bes_Reason st = [] then [] else [bes_Reason st]))"

definition BlockIfSymbolInSLCooldown :: "time \<Rightarrow> string \<Rightarrow> time gomap \<Rightarrow> reason option" where
  "BlockIfSymbolInSLCooldown now symb cooldownMap =
    (case map_of cooldownMap symb of
       None \<Rightarrow> None
     | Some until \<Rightarrow> fail_if (now < until) (Reason ''symbol in SL cooldown'' [] [symb]))"

definition CleanExpiredSLCooldowns :: "time \<Rightarrow> time gomap \<Rightarrow> time gomap" where
  "CleanExpiredSLCooldowns now cooldownMap = filter (\<lambda>(k, until). now < until) cooldownMap"

section \<open>The evaluator\<close>

record block_result =
  br_Blocked :: bool
  br_BlocksTriggered :: "string list"
  br_FirstBlockReason :: "reason option"
  br_AllBlockReasons :: "reason list"

definition no_block :: block_result where
  "no_block = \<lparr> br_Blocked = False, br_BlocksTriggered = [], br_FirstBlockReason = None, br_AllBlockReasons = [] \<rparr>"

definition record_block :: "block_result \<Rightarrow> string \<times> reason option \<Rightarrow> block_result" where
  "record_block r nb =
    (case snd nb of
       None \<Rightarrow> r
     | Some reason \<Rightarrow>
         \<lparr> br_Blocked = True, br_BlocksTriggered = br_BlocksTriggered r @ [fst nb],
           br_FirstBlockReason = (if br_FirstBlockReason r = None then Some reason else br_FirstBlockReason r),
           br_AllBlockReasons = br_AllBlockReasons r @ [reason] \<rparr>)"

text \<open>
  The evaluator writes two order-book numbers into the snapshot's map before the blocks run; the map is
  shared with the caller's snapshot when the caller supplied one.
\<close>

definition with_book_numbers :: "risk_data_snapshot \<Rightarrow> order_book_summary \<Rightarrow> risk_data_snapshot" where
  "with_book_numbers s ob =
    s\<lparr>ds_Numbers := AList.update ''orderbook_slippage_bps'' (ob_EstimatedSlippageBps ob)
                      (AList.update ''orderbook_spread_bps'' (ob_SpreadBps ob) (ds_Numbers s))\<rparr>"

definition all_blocks :: "string list \<Rightarrow> time \<Rightarrow> block_input \<Rightarrow> (string \<times> reason option) list" where
  "all_blocks ord now i =
    [(''BlockIfPriceInvalid'', BlockIfPriceInvalid (bi_Price i)),
     (''BlockIfNaNOrInf'', BlockIfNaNOrInf ord (with_book_numbers (bi_Snapshot i) (bi_OrderBook i))),
     (''BlockIfStaleData'', BlockIfStaleData now (bi_Snapshot i) (bi_MaxDataAge i)),
     (''BlockIfInsufficientCandles'', BlockIfInsufficientCandles (bi_Candles i) (bi_MinRequiredCandles i)),
     (''BlockIfSpreadTooWide'', BlockIfSpreadTooWide (bi_OrderBook i) (bi_MaxSpreadPct i)),
     (''BlockIfFundingExtreme'', BlockIfFundingExtreme (bi_FundingRatePct i) (bi_MaxFundingAbsPct i)),
     (''BlockIfDuplicateOrder'', BlockIfDuplicateOrder (bi_Symbol i) (bi_PendingOrders i)),
     (''BlockIfPositionAlreadyOpen'', BlockIfPositionAlreadyOpen (bi_Symbol i) (bi_CurrentPositions i)),
     (''BlockIfDailyLossReached'',
        BlockIfDailyLossReached (bi_TodayPnL i) (bi_DailyMaxLossPct i) (bi_Equity i)),
     (''BlockIfConsecutiveLossLimit'',
        BlockIfConsecutiveLossLimit (bi_RecentTrades i) (bi_MaxConsecutiveLosses i)),
     (''BlockIfCooldownActive'', BlockIfCooldownActive now (bi_LastTradeTime i) (bi_Cooldown i)),
     (''BlockIfEmergencyStopActive'', BlockIfEmergencyStopActive (bi_EmergencyStop i)),
     (''BlockIfBTCFlashCrash'', BlockIfBTCFlashCrash (bi_BTC5mReturnPct i) (bi_BTCFlashCrash5mPct i)),
     (''BlockIfPositionMismatch'',
        BlockIfPositionMismatch ord (bi_LocalPositions i) (bi_ExchangePositions i)),
     (''BlockIfSymbolInSLCooldown'',
        BlockIfSymbolInSLCooldown now (bi_Symbol i) (bi_PerSymbolSLCooldown i))]"

definition EvaluateHardBlocks :: "string list \<Rightarrow> time \<Rightarrow> block_input \<Rightarrow> block_result" where
  "EvaluateHardBlocks ord now i = foldl record_block no_block (all_blocks ord now i)"

end
