(* ===== verification/HardBlocksSpec.thy ===== *)
theory HardBlocksSpec
  imports HardBlocks
begin

text \<open>
  What the hard blocks guarantee: the evaluator reports exactly the blocks that fire, and the reconciliation
  block passes exactly when both sides agree.
\<close>

section \<open>The evaluator\<close>

lemma fold_record_block:
  "foldl record_block r nbs =
    \<lparr> br_Blocked = (br_Blocked r \<or> (\<exists>nb\<in>set nbs. snd nb \<noteq> None)),
      br_BlocksTriggered = br_BlocksTriggered r @ map fst (filter (\<lambda>nb. snd nb \<noteq> None) nbs),
      br_FirstBlockReason = (if br_FirstBlockReason r = None then first_err (map snd nbs) else br_FirstBlockReason r),
      br_AllBlockReasons = br_AllBlockReasons r @ List.map_filter snd nbs \<rparr>"
proof (induction nbs arbitrary: r)
  case (Cons nb nbs)
  show ?case
    unfolding foldl_Cons Cons.IH [of "record_block r nb"]
    by (cases "snd nb") (simp_all add: record_block_def map_filter_simps del: not_None_eq)
qed (simp add: map_filter_simps)

text \<open>
  The evaluator runs every block: it reports the blocks that fire in order, with their messages, blocks
  exactly when one of them fires, and gives the message of the first.
\<close>

theorem hard_blocks_reported:
  "EvaluateHardBlocks ord now i =
    \<lparr> br_Blocked = (\<exists>nb\<in>set (all_blocks ord now i). snd nb \<noteq> None),
      br_BlocksTriggered = map fst (filter (\<lambda>nb. snd nb \<noteq> None) (all_blocks ord now i)),
      br_FirstBlockReason = first_err (map snd (all_blocks ord now i)),
      br_AllBlockReasons = List.map_filter snd (all_blocks ord now i) \<rparr>"
  by (simp add: EvaluateHardBlocks_def fold_record_block no_block_def)

section \<open>Reconciliation\<close>

lemma by_symbol_snoc: "by_symbol (ps @ [p]) = AList.update (pk_Symbol p) p (by_symbol ps)"
  by (simp add: by_symbol_def)

lemma distinct_by_symbol: "distinct (map fst (by_symbol ps))"
  by (induction ps rule: rev_induct) (simp_all add: by_symbol_snoc distinct_update, simp add: by_symbol_def)

lemma length_by_symbol: "length (by_symbol ps) = card (dom (map_of (by_symbol ps)))"
  by (metis distinct_by_symbol distinct_card dom_map_of_conv_image_fst length_map list.set_map)

text \<open>The two sides agree on a symbol: same side and sizes within \<open>1e-9\<close> of each other.\<close>

definition agrees :: "position_key \<Rightarrow> position_key \<Rightarrow> bool" where
  "agrees p q \<longleftrightarrow> pk_Side p = pk_Side q \<and> \<not> lit (1 / 10 ^ 9) < \<bar>pk_Size p - pk_Size q\<bar>"

definition reconciled :: "position_key list \<Rightarrow> position_key list \<Rightarrow> bool" where
  "reconciled l e \<longleftrightarrow>
    dom (map_of (by_symbol l)) = dom (map_of (by_symbol e)) \<and>
    (\<forall>k p q. map_of (by_symbol l) k = Some p \<longrightarrow> map_of (by_symbol e) k = Some q \<longrightarrow> agrees p q)"

lemma symbol_mismatch_None:
  "symbol_mismatch l e k = None \<longleftrightarrow>
    (\<forall>p. map_of l k = Some p \<longrightarrow> (\<exists>q. map_of e k = Some q \<and> agrees p q))"
  by (auto simp: symbol_mismatch_def agrees_def split: option.splits)

lemma keys_dom: "fst ` set m = dom (map_of m)"
  by (simp add: dom_map_of_conv_image_fst)

lemma mismatch_None_iff: "BlockIfPositionMismatch ord l e = None \<longleftrightarrow> reconciled l e"
proof -
  let ?l = "by_symbol l" and ?e = "by_symbol e"
  have "BlockIfPositionMismatch ord l e = None \<longleftrightarrow>
      card (dom (map_of ?l)) = card (dom (map_of ?e)) \<and>
      (\<forall>k p. map_of ?l k = Some p \<longrightarrow> (\<exists>q. map_of ?e k = Some q \<and> agrees p q))" (is "?b \<longleftrightarrow> ?c")
    by (auto simp: BlockIfPositionMismatch_def Let_def length_by_symbol keys_dom symbol_mismatch_None)
  also have "?c \<longleftrightarrow> reconciled l e"
  proof
    assume c: ?c
    then have "dom (map_of ?l) \<subseteq> dom (map_of ?e)" by blast
    then have "dom (map_of ?l) = dom (map_of ?e)" using c card_subset_eq finite_dom_map_of by metis
    then show "reconciled l e" using c unfolding reconciled_def by (metis option.inject)
  next
    assume "reconciled l e"
    then show ?c unfolding reconciled_def by (metis domIff option.exhaust_sel)
  qed
  finally show ?thesis .
qed

text \<open>
  C11: the reconciliation block passes exactly when, taking the last entry per symbol, the local and the
  exchange positions cover the same symbols with the same sides and sizes that do not differ by more than
  1e-9; the order in which the map is iterated does not matter.
\<close>

theorem reconciliation_exact:
  "BlockIfPositionMismatch ord l e = None \<longleftrightarrow>
    dom (map_of (by_symbol l)) = dom (map_of (by_symbol e)) \<and>
    \<not> (\<exists>k p q. map_of (by_symbol l) k = Some p \<and> map_of (by_symbol e) k = Some q \<and>
         \<not> (pk_Side p = pk_Side q \<and> \<not> lit (1 / 10 ^ 9) < \<bar>pk_Size p - pk_Size q\<bar>))"
  unfolding mismatch_None_iff reconciled_def agrees_def by blast

section \<open>Blocks that let NaN through\<close>

lemma daily_loss_block_ignores_NaN:
  "BlockIfDailyLossReached NaN maxLossPct equity = None \<or> equity \<le> Fin 0"
  "BlockIfDailyLossReached todayPnL maxLossPct NaN = None"
  by (auto simp: BlockIfDailyLossReached_def Let_def uminus_f64_def)

end
