(* ===== verification/Safety.thy ===== *)
theory Safety
  imports HardBlocks
begin

text \<open>
  The execution safety engine (\<open>internal/execution/safety.go\<close>): the emergency stop with its cooldown, the
  BTC price history behind the flash-crash circuit breaker, and the checks an order plan passes before it
  is sent. A reading of the clock is an argument, one per call; the mutex makes every call a step.
\<close>

section \<open>State\<close>

record safety_market_state =
  sm_Symbol :: string
  sm_Price :: f64
  sm_OrderBook :: order_book_summary
  sm_SpreadPct :: f64
  sm_SlippagePct :: f64
  sm_ExchangeHealthy :: bool
  sm_ExchangeLatency :: duration
  sm_ExchangeErrorRate :: f64

record safety_account_state =
  sa_OpenPositions :: "position list"
  sa_OpenOrders :: "broker_order list"

record execution_safety_result =
  es_Safe :: bool
  es_FailedChecks :: "string list"
  es_Reasons :: "reason list"
  es_RecommendedAction :: string

text \<open>The empty reason is \<open>None\<close>.\<close>

record emergency_stop_state =
  st_Active :: bool
  st_Reason :: "reason option"
  st_SetAt :: time
  st_CooldownUntil :: "time option"

record btc_price_point =
  bp_Price :: f64
  bp_Ts :: time

record safety_engine =
  se_HardBlocks :: hard_blocks_config
  se_emergencyStop :: emergency_stop_state
  se_btcPriceHistory :: "btc_price_point list"
  se_maxHistoryLen :: int

definition NewSafetyEngine :: "user_config \<Rightarrow> safety_engine" where
  "NewSafetyEngine cfg =
    \<lparr> se_HardBlocks = uc_HardBlocks cfg,
      se_emergencyStop = \<lparr> st_Active = False, st_Reason = None, st_SetAt = zero_time, st_CooldownUntil = None \<rparr>,
      se_btcPriceHistory = [], se_maxHistoryLen = 100 \<rparr>"

section \<open>The emergency stop\<close>

definition SetEmergencyStop :: "time \<Rightarrow> reason \<Rightarrow> safety_engine \<Rightarrow> safety_engine" where
  "SetEmergencyStop now reason se =
    se\<lparr>se_emergencyStop := (se_emergencyStop se)\<lparr>st_Active := True, st_Reason := Some reason, st_SetAt := now\<rparr>\<rparr>"

definition ClearEmergencyStop :: "safety_engine \<Rightarrow> safety_engine" where
  "ClearEmergencyStop se =
    se\<lparr>se_emergencyStop :=
        (se_emergencyStop se)\<lparr>st_Active := False, st_Reason := None, st_CooldownUntil := None\<rparr>\<rparr>"

definition AutoClearEmergencyStop :: "time \<Rightarrow> safety_engine \<Rightarrow> safety_engine" where
  "AutoClearEmergencyStop now se =
    (let st = se_emergencyStop se
     in if \<not> st_Active st then se
        else case st_CooldownUntil st of
               None \<Rightarrow> se
             | Some t \<Rightarrow>
                 if t < now
                 then se\<lparr>se_emergencyStop := st\<lparr>st_Active := False, st_Reason := None, st_CooldownUntil := None\<rparr>\<rparr>
                 else se)"

section \<open>The flash-crash circuit breaker\<close>

definition UpdateBTCPrice :: "f64 \<Rightarrow> time \<Rightarrow> safety_engine \<Rightarrow> safety_engine" where
  "UpdateBTCPrice price ts se =
    (let h = se_btcPriceHistory se @ [\<lparr> bp_Price = price, bp_Ts = ts \<rparr>]
     in se\<lparr>se_btcPriceHistory :=
            (if se_maxHistoryLen se < int (length h) then last_n (se_maxHistoryLen se) h else h)\<rparr>)"

definition crash_baseline :: "time \<Rightarrow> btc_price_point list \<Rightarrow> f64" where
  "crash_baseline cutoff h =
    (case List.find (\<lambda>p. cutoff < bp_Ts p \<or> bp_Ts p = cutoff) h of None \<Rightarrow> Fin 0 | Some p \<Rightarrow> bp_Price p)"

definition CheckBTCFlashCrash :: "time \<Rightarrow> f64 \<Rightarrow> duration \<Rightarrow> safety_engine \<Rightarrow> bool \<times> f64" where
  "CheckBTCFlashCrash now thresholdPct window se =
    (let h = se_btcPriceHistory se
     in if length h < 2 then (False, Fin 0)
        else
          let baseline = crash_baseline (now - window) h
          in if baseline \<le> Fin 0 then (False, Fin 0)
             else
               let drop_pct = (bp_Price (last h) - baseline) / baseline * Fin 100
               in (drop_pct \<le> thresholdPct, drop_pct))"

section \<open>The checks\<close>

definition matchesSide :: "order_side \<Rightarrow> side \<Rightarrow> bool" where
  "matchesSide orderSide planSide \<longleftrightarrow>
    planSide = SideLong \<and> orderSide = OrderSideBuy \<or> planSide = SideShort \<and> orderSide = OrderSideSell"

definition duplicate_order :: "time \<Rightarrow> order_plan \<Rightarrow> safety_account_state \<Rightarrow> bool" where
  "duplicate_order now plan acct \<longleftrightarrow>
    list_ex (\<lambda>q. o_Symbol q = op_Symbol plan \<and> matchesSide (o_Side q) (op_Side plan) \<and>
                 since now (o_CreatedAt q) < seconds 60) (sa_OpenOrders acct) \<or>
    list_ex (\<lambda>p. p_Symbol p = op_Symbol plan \<and> p_Side p = op_Side plan \<and> p_Status p = PositionStatusOpen)
      (sa_OpenPositions acct)"

definition max_spread :: "safety_engine \<Rightarrow> f64" where
  "max_spread se = default_f64 (lit (15 / 100)) (MaxSpreadPctOrDefault (se_HardBlocks se))"

definition spread_of :: "safety_market_state \<Rightarrow> f64" where
  "spread_of m =
    (if sm_SpreadPct m \<le> Fin 0 \<and> Fin 0 < ob_SpreadBps (sm_OrderBook m)
     then ob_SpreadBps (sm_OrderBook m) / Fin 100 else sm_SpreadPct m)"

definition slippage_of :: "safety_market_state \<Rightarrow> f64" where
  "slippage_of m =
    (if sm_SlippagePct m \<le> Fin 0 \<and> Fin 0 < ob_EstimatedSlippageBps (sm_OrderBook m)
     then ob_EstimatedSlippageBps (sm_OrderBook m) / Fin 100 else sm_SlippagePct m)"

definition crash_threshold :: "safety_engine \<Rightarrow> f64" where
  "crash_threshold se = default_if_zero (Fin (- 4)) (BTCFlashCrash5mPctOrDefault (se_HardBlocks se))"

text \<open>\<open>check(name, safe, reason)\<close>: a failed check appends its name and its reason.\<close>

definition add_check :: "execution_safety_result \<Rightarrow> string \<times> bool \<times> reason \<Rightarrow> execution_safety_result" where
  "add_check r c =
    (case c of (name, safe, reason) \<Rightarrow>
       if safe then r
       else r\<lparr>es_Safe := False, es_FailedChecks := es_FailedChecks r @ [name],
              es_Reasons := es_Reasons r @ [reason]\<rparr>)"

fun side_name :: "side \<Rightarrow> string" where
  "side_name SideLong = ''LONG''"
| "side_name SideShort = ''SHORT''"
| "side_name (OtherSide s) = s"

definition safety_checks ::
  "time \<Rightarrow> order_plan \<Rightarrow> safety_market_state \<Rightarrow> safety_account_state \<Rightarrow> safety_engine \<Rightarrow> (string \<times> bool \<times> reason) list" where
  "safety_checks now plan m acct se =
    (let st = se_emergencyStop se; crash = CheckBTCFlashCrash now (crash_threshold se) (minutes 5) se
     in [(''SpreadGuard'', spread_of m \<le> max_spread se, Reason ''spread > max'' [spread_of m, max_spread se] []),
         (''SlippageGuard'', slippage_of m \<le> lit (10 / 100),
            Reason ''slippage > max'' [slippage_of m, lit (10 / 100)] []),
         (''DuplicateOrderGuard'', \<not> duplicate_order now plan acct,
            Reason ''duplicate order/position within 60s'' [] [op_Symbol plan, side_name (op_Side plan)]),
         (''PositionReconciliation'', True, Reason [] [] []),
         (''ExchangeHealthCheck'', sm_ExchangeHealthy m,
            Reason ''exchange degraded'' [f64_of_int (sm_ExchangeLatency m), sm_ExchangeErrorRate m] []),
         (''EmergencyStopCheck'', \<not> st_Active st,
            (case st_Reason st of
               None \<Rightarrow> Reason ''emergency stop active'' [] []
             | Some (Reason t ns ss) \<Rightarrow> Reason (''emergency stop active: '' @ t) ns ss)),
         (''BTCFlashCrashCircuitBreaker'', \<not> fst crash,
            Reason ''BTC flash crash in 5m'' [snd crash, crash_threshold se] [])])"

definition recommend :: "string list \<Rightarrow> string" where
  "recommend failed =
    foldl (\<lambda>a name.
        let a = (if name = ''ExchangeHealthCheck'' then ''retry_after_seconds:30'' else a)
        in if name = ''PositionReconciliation'' then ''alert_and_abort'' else a)
      ''abort'' failed"

definition EvaluateExecutionSafety ::
  "time \<Rightarrow> order_plan \<Rightarrow> safety_market_state \<Rightarrow> safety_account_state \<Rightarrow> safety_engine
    \<Rightarrow> execution_safety_result \<times> safety_engine" where
  "EvaluateExecutionSafety now plan m acct se0 =
    (let se = AutoClearEmergencyStop now se0;
         r = foldl add_check
               \<lparr> es_Safe = True, es_FailedChecks = [], es_Reasons = [], es_RecommendedAction = [] \<rparr>
               (safety_checks now plan m acct se);
         crash = CheckBTCFlashCrash now (crash_threshold se) (minutes 5) se;
         se' =
           (if fst crash \<and> \<not> st_Active (se_emergencyStop se)
            then
              let s = SetEmergencyStop now (Reason ''BTC flash crash circuit breaker'' [snd crash] []) se
              in s\<lparr>se_emergencyStop := (se_emergencyStop s)\<lparr>st_CooldownUntil := Some (now + minutes 30)\<rparr>\<rparr>
            else se)
     in ((if es_Safe r then r else r\<lparr>es_RecommendedAction := recommend (es_FailedChecks r)\<rparr>), se'))"

section \<open>Orders in flight\<close>

definition EvaluateOrderTimeout :: "time \<Rightarrow> time \<Rightarrow> order_type \<Rightarrow> bool \<times> string" where
  "EvaluateOrderTimeout now orderCreatedAt orderType =
    (if orderType \<noteq> OrderTypeLimit then (False, [])
     else if seconds 60 < since now orderCreatedAt then (True, ''order_timeout'')
     else (False, []))"

definition EvaluatePartialFill :: "f64 \<Rightarrow> f64 \<Rightarrow> string \<times> f64" where
  "EvaluatePartialFill intendedQty filledQty =
    (if intendedQty \<le> Fin 0 then (''cancel'', Fin 0)
     else
       let fillPct = filledQty / intendedQty
       in if fillPct < Fin (1 / 2) then (''cancel_remainder'', filledQty)
          else if fillPct < lit (95 / 100) then (''manage_partial'', filledQty)
          else (''filled'', intendedQty))"

text \<open>The walk over the levels: what is left to fill and the cost so far.\<close>

fun walk_levels :: "order_book_level list \<Rightarrow> f64 \<Rightarrow> f64 \<Rightarrow> f64 \<times> f64" where
  "walk_levels [] remaining cost = (remaining, cost)"
| "walk_levels (l # ls) remaining cost =
    (if remaining \<le> Fin 0 then (remaining, cost)
     else
       let fill = (if remaining < obl_Size l then remaining else obl_Size l)
       in walk_levels ls (remaining - fill) (cost + fill * obl_Price l))"

definition EstimateSlippageFromOrderbook ::
  "order_plan \<Rightarrow> order_book_summary \<Rightarrow> order_book_level list \<Rightarrow> f64 \<times> f64" where
  "EstimateSlippageFromOrderbook plan ob levels =
    (if op_Qty plan \<le> Fin 0 \<or> op_EntryPrice plan \<le> Fin 0 then (Fin 0, op_EntryPrice plan)
     else if levels = [] then (ob_EstimatedSlippageBps ob / Fin 100, op_EntryPrice plan)
     else
       let (remaining, totalCost) = walk_levels levels (op_Qty plan) (Fin 0)
       in if Fin 0 < remaining then (math_MaxFloat64, Fin 0)
          else if totalCost \<le> Fin 0 \<or> op_Qty plan \<le> Fin 0 then (Fin 0, op_EntryPrice plan)
          else
            let avgPrice = totalCost / op_Qty plan
            in (\<bar>avgPrice - op_EntryPrice plan\<bar> / op_EntryPrice plan * Fin 100, avgPrice))"

end
