(* ===== verification/SafetySpec.thy ===== *)
theory SafetySpec
  imports Safety RiskSpec
begin

text \<open>
  What the safety engine guarantees: its runs as a step relation over the calls it receives, the invariant
  of its state, how long an emergency stop lasts, and what a plan that is reported safe satisfies.
\<close>

section \<open>Runs of the engine\<close>

datatype safety_event =
    SetStop time reason
  | ClearStop time
  | BTCPrice time f64 time
  | Evaluate time order_plan safety_market_state safety_account_state

primrec ev_time :: "safety_event \<Rightarrow> time" where
  "ev_time (SetStop now r) = now"
| "ev_time (ClearStop now) = now"
| "ev_time (BTCPrice now p ts) = now"
| "ev_time (Evaluate now plan m acct) = now"

primrec safety_step :: "safety_event \<Rightarrow> safety_engine \<Rightarrow> safety_engine" where
  "safety_step (SetStop now r) se = SetEmergencyStop now r se"
| "safety_step (ClearStop now) se = ClearEmergencyStop se"
| "safety_step (BTCPrice now p ts) se = UpdateBTCPrice p ts se"
| "safety_step (Evaluate now plan m acct) se = snd (EvaluateExecutionSafety now plan m acct se)"

inductive safety_run :: "safety_engine \<Rightarrow> time \<Rightarrow> safety_event list \<Rightarrow> safety_engine \<Rightarrow> time \<Rightarrow> bool" where
  start: "safety_run se t [] se t"
| event: "safety_run se t es se' t' \<Longrightarrow> t' \<le> ev_time e \<Longrightarrow> safety_run se t (es @ [e]) (safety_step e se') (ev_time e)"

text \<open>A run fed with a list of events, for concrete runs.\<close>

fun feed :: "safety_event list \<Rightarrow> safety_engine \<Rightarrow> safety_engine" where
  "feed [] se = se"
| "feed (e # es) se = feed es (safety_step e se)"

lemma feed_append [simp]: "feed (es @ es') se = feed es' (feed es se)"
  by (induction es arbitrary: se) auto

lemma safety_run_feed: "safety_run se t es se' t' \<Longrightarrow> se' = feed es se"
  by (induction rule: safety_run.induct) auto

lemma safety_run_sorted:
  "sorted (t # map ev_time es) \<Longrightarrow> safety_run se t es (feed es se) (last (t # map ev_time es))"
proof (induction es rule: rev_induct)
  case Nil
  show ?case using safety_run.start by simp
next
  case (snoc e es)
  then have "safety_run se t es (feed es se) (last (t # map ev_time es))"
    by (simp add: sorted_append)
  moreover have "last (t # map ev_time es) \<le> ev_time e"
    using snoc.prems last_in_set [of "t # map ev_time es"] by (auto simp: sorted_append)
  ultimately show ?case using safety_run.event by force
qed

lemma safety_run_mono: "safety_run se t es se' t' \<Longrightarrow> t \<le> t'"
  by (induction rule: safety_run.induct) auto

section \<open>The invariant\<close>

definition engine_ok :: "safety_engine \<Rightarrow> time \<Rightarrow> bool" where
  "engine_ok se t \<longleftrightarrow>
    se_maxHistoryLen se = 100 \<and> length (se_btcPriceHistory se) \<le> 100 \<and>
    (case se_emergencyStop se of st \<Rightarrow>
      (\<not> st_Active st \<longrightarrow> st_Reason st = None \<and> st_CooldownUntil st = None) \<and>
      (\<forall>c. st_CooldownUntil st = Some c \<longrightarrow> c \<le> t + minutes 30))"

lemma engine_ok_later: "engine_ok se t \<Longrightarrow> t \<le> t' \<Longrightarrow> engine_ok se t'"
  unfolding engine_ok_def by force

lemma engine_ok_New: "engine_ok (NewSafetyEngine cfg) t"
  by (simp add: engine_ok_def NewSafetyEngine_def)

lemma engine_ok_AutoClear: "engine_ok se t \<Longrightarrow> engine_ok (AutoClearEmergencyStop now se) t"
  by (auto simp: engine_ok_def AutoClearEmergencyStop_def Let_def split: option.splits)

lemma engine_ok_Update: "engine_ok se t \<Longrightarrow> engine_ok (UpdateBTCPrice p ts se) t"
  by (auto simp: engine_ok_def UpdateBTCPrice_def Let_def last_n_def)

lemma engine_ok_Set: "engine_ok se t \<Longrightarrow> engine_ok (SetEmergencyStop now r se) t"
  by (auto simp: engine_ok_def SetEmergencyStop_def)

lemma engine_ok_Clear: "engine_ok se t \<Longrightarrow> engine_ok (ClearEmergencyStop se) t"
  by (auto simp: engine_ok_def ClearEmergencyStop_def)

lemma engine_ok_Evaluate:
  "engine_ok se now \<Longrightarrow> engine_ok (snd (EvaluateExecutionSafety now plan m acct se)) now"
  using engine_ok_AutoClear [of se now now]
  by (auto simp: EvaluateExecutionSafety_def Let_def engine_ok_def SetEmergencyStop_def)

lemma engine_ok_step: "engine_ok se t \<Longrightarrow> t \<le> ev_time e \<Longrightarrow> engine_ok (safety_step e se) (ev_time e)"
  using engine_ok_later
  by (cases e) (auto intro: engine_ok_Set engine_ok_Clear engine_ok_Update engine_ok_Evaluate)

text \<open>
  C12: in every state the engine can reach, the price history holds at most 100 points, an inactive stop has
  neither reason nor cooldown, and a cooldown never lies more than 30 minutes ahead of the clock.
\<close>

theorem safety_engine_invariant:
  assumes "safety_run (NewSafetyEngine cfg) t es se t'"
  shows "length (se_btcPriceHistory se) \<le> 100 \<and>
    (st_Active (se_emergencyStop se) \<or>
      st_Reason (se_emergencyStop se) = None \<and> st_CooldownUntil (se_emergencyStop se) = None) \<and>
    (\<forall>c. st_CooldownUntil (se_emergencyStop se) = Some c \<longrightarrow> c \<le> t' + minutes 30)"
proof -
  have "engine_ok se t'"
    using assms
    by (induction "NewSafetyEngine cfg" t es se t' rule: safety_run.induct)
       (auto intro: engine_ok_New engine_ok_step)
  then show ?thesis by (auto simp: engine_ok_def)
qed

lemma safety_engine_invariant_witness:
  "st_Reason (se_emergencyStop (feed [SetStop 5 (Reason ''manual'' [] []), ClearStop 7]
    (NewSafetyEngine demo_user_config))) = None"
proof -
  let ?es = "[SetStop 5 (Reason ''manual'' [] []), ClearStop 7]"
  have "safety_run (NewSafetyEngine demo_user_config) 0 ?es (feed ?es (NewSafetyEngine demo_user_config)) 7"
    using safety_run_sorted [of 0 ?es] by simp
  from safety_engine_invariant [OF this] show ?thesis
    by (auto simp: ClearEmergencyStop_def)
qed

section \<open>What a safe plan satisfies\<close>

lemma foldl_add_check:
  "foldl add_check r cs =
    (if \<forall>c\<in>set cs. fst (snd c) then r
     else r\<lparr>es_Safe := False,
            es_FailedChecks := es_FailedChecks r @ map fst (filter (\<lambda>c. \<not> fst (snd c)) cs),
            es_Reasons := es_Reasons r @ map (\<lambda>c. snd (snd c)) (filter (\<lambda>c. \<not> fst (snd c)) cs)\<rparr>)"
proof (induction cs arbitrary: r)
  case (Cons c cs)
  obtain n b t where [simp]: "c = (n, b, t)" by (cases c)
  show ?case
    unfolding foldl_Cons Cons.IH [of "add_check r c"]
    by (cases b) (auto simp: add_check_def filter_empty_conv)
qed simp

lemma recommend_snoc:
  "recommend (ns @ [n]) =
    (if n = ''PositionReconciliation'' then ''alert_and_abort''
     else if n = ''ExchangeHealthCheck'' then ''retry_after_seconds:30'' else recommend ns)"
  by (simp add: recommend_def Let_def)

lemma recommend_eq:
  "''PositionReconciliation'' \<notin> set ns \<Longrightarrow>
    recommend ns = (if ''ExchangeHealthCheck'' \<in> set ns then ''retry_after_seconds:30'' else ''abort'')"
proof (induction ns rule: rev_induct)
  case (snoc n ns)
  then show ?case by (auto simp: recommend_snoc)
qed (simp add: recommend_def)

definition all_safe :: "time \<Rightarrow> order_plan \<Rightarrow> safety_market_state \<Rightarrow> safety_account_state \<Rightarrow> safety_engine \<Rightarrow> bool" where
  "all_safe now plan m acct se \<longleftrightarrow> (\<forall>c\<in>set (safety_checks now plan m acct se). fst (snd c))"

lemma all_safe_iff:
  "all_safe now plan m acct se \<longleftrightarrow>
    spread_of m \<le> max_spread se \<and> slippage_of m \<le> lit (10 / 100) \<and> \<not> duplicate_order now plan acct \<and>
    sm_ExchangeHealthy m \<and> \<not> st_Active (se_emergencyStop se) \<and>
    \<not> fst (CheckBTCFlashCrash now (crash_threshold se) (minutes 5) se)"
  by (auto simp: all_safe_def safety_checks_def Let_def)

lemma Evaluate_result:
  "fst (EvaluateExecutionSafety now plan m acct se) =
    (let cs = safety_checks now plan m acct (AutoClearEmergencyStop now se);
         failed = filter (\<lambda>c. \<not> fst (snd c)) cs
     in if all_safe now plan m acct (AutoClearEmergencyStop now se)
        then \<lparr> es_Safe = True, es_FailedChecks = [], es_Reasons = [], es_RecommendedAction = [] \<rparr>
        else \<lparr> es_Safe = False, es_FailedChecks = map fst failed, es_Reasons = map (\<lambda>c. snd (snd c)) failed,
               es_RecommendedAction = recommend (map fst failed) \<rparr>)"
  by (simp add: EvaluateExecutionSafety_def Let_def foldl_add_check all_safe_def)

lemma failed_names:
  "n \<in> set (map fst (filter (\<lambda>c. \<not> fst (snd c)) (safety_checks now plan m acct se))) \<longleftrightarrow>
    (\<exists>r. (n, False, r) \<in> set (safety_checks now plan m acct se))"
  by force

lemma failed_health:
  "(n, False, r) \<in> set (safety_checks now plan m acct se) \<Longrightarrow> n \<noteq> ''PositionReconciliation''"
  "(\<exists>r. (''ExchangeHealthCheck'', False, r) \<in> set (safety_checks now plan m acct se)) \<longleftrightarrow> \<not> sm_ExchangeHealthy m"
  by (auto simp: safety_checks_def Let_def)

text \<open>
  A plan is reported safe exactly when, after an expired stop has been lifted, spread and slippage are
  within their limits, no order of the last 60 seconds and no open position duplicates it, the exchange is
  healthy, no emergency stop is active and BTC has not crashed in the last five minutes; the recommended
  action is empty for a safe plan, a retry when the exchange is unhealthy, and an abort otherwise.
\<close>

theorem safety_result_exact:
  "(let r = fst (EvaluateExecutionSafety now plan m acct se); se' = AutoClearEmergencyStop now se
    in es_Safe r =
         (spread_of m \<le> max_spread se' \<and> slippage_of m \<le> lit (10 / 100) \<and> \<not> duplicate_order now plan acct \<and>
          sm_ExchangeHealthy m \<and> \<not> st_Active (se_emergencyStop se') \<and>
          \<not> fst (CheckBTCFlashCrash now (crash_threshold se') (minutes 5) se')) \<and>
       (es_FailedChecks r = []) = es_Safe r \<and>
       es_RecommendedAction r =
         (if es_Safe r then [] else if sm_ExchangeHealthy m then ''abort'' else ''retry_after_seconds:30''))"
proof -
  let ?se = "AutoClearEmergencyStop now se"
  let ?failed = "map fst (filter (\<lambda>c. \<not> fst (snd c)) (safety_checks now plan m acct ?se))"
  have "recommend ?failed = (if sm_ExchangeHealthy m then ''abort'' else ''retry_after_seconds:30'')"
    using failed_health failed_names by (subst recommend_eq) (metis, auto)
  moreover have "(?failed = []) = all_safe now plan m acct ?se"
    by (auto simp: all_safe_def filter_empty_conv)
  ultimately show ?thesis
    unfolding Evaluate_result Let_def all_safe_iff [symmetric] by simp
qed

section \<open>How long a stop lasts\<close>

definition stopped_until :: "time option \<Rightarrow> safety_engine \<Rightarrow> bool" where
  "stopped_until c se \<longleftrightarrow> st_Active (se_emergencyStop se) \<and> st_CooldownUntil (se_emergencyStop se) = c"

lemma stopped_AutoClear:
  "stopped_until c se \<Longrightarrow> (\<And>t. c = Some t \<Longrightarrow> now \<le> t) \<Longrightarrow> AutoClearEmergencyStop now se = se"
  by (auto simp: stopped_until_def AutoClearEmergencyStop_def Let_def split: option.splits)

lemma stopped_Evaluate:
  assumes "stopped_until c se" "\<And>t. c = Some t \<Longrightarrow> now \<le> t"
  shows "\<not> es_Safe (fst (EvaluateExecutionSafety now plan m acct se))"
    and "snd (EvaluateExecutionSafety now plan m acct se) = se"
  using assms(1) stopped_AutoClear [OF assms]
  by (simp_all add: Evaluate_result Let_def all_safe_iff)
     (simp_all add: stopped_until_def EvaluateExecutionSafety_def Let_def)

lemma stopped_step:
  assumes "stopped_until c se" "\<And>t. c = Some t \<Longrightarrow> ev_time e \<le> t" "\<And>now. e \<noteq> ClearStop now"
  shows "stopped_until c (safety_step e se)"
  using assms stopped_Evaluate(2) [OF assms(1)]
  by (cases e) (auto simp: stopped_until_def SetEmergencyStop_def UpdateBTCPrice_def Let_def)

lemma stopped_run:
  "safety_run se t es se' t' \<Longrightarrow> stopped_until c se \<Longrightarrow> \<forall>e\<in>set es. \<forall>now. e \<noteq> ClearStop now \<Longrightarrow>
    \<forall>u. c = Some u \<longrightarrow> t' \<le> u \<Longrightarrow> stopped_until c se'"
proof (induction rule: safety_run.induct)
  case (event se t es se' t' e)
  then have "stopped_until c se'" by fastforce
  then show ?case using event.prems by (intro stopped_step) auto
qed

text \<open>
  C13: while an emergency stop is active, and until its cooldown (if it has one) is over, nothing but a
  clearing by hand ends it: after any run of other events every evaluation reports the plan unsafe.
\<close>

theorem stop_holds:
  assumes "safety_run se t es se' t'"
    and "st_Active (se_emergencyStop se)" and "st_CooldownUntil (se_emergencyStop se) = c"
    and "\<forall>e\<in>set es. \<forall>now. e \<noteq> ClearStop now"
    and "\<forall>u. c = Some u \<longrightarrow> t' \<le> u \<and> now \<le> u"
  shows "\<not> es_Safe (fst (EvaluateExecutionSafety now plan m acct se'))"
proof -
  have "stopped_until c se'"
    using assms(1,4,5) stopped_run assms(2,3) by (simp add: stopped_until_def)
  then show ?thesis using assms(5) stopped_Evaluate(1) by blast
qed

lemma stop_holds_witness:
  "\<forall>plan m acct. \<not> es_Safe (fst (EvaluateExecutionSafety 9 plan m acct
      (feed [BTCPrice 7 (Fin 100) 7] (SetEmergencyStop 5 (Reason ''manual'' [] []) (NewSafetyEngine demo_user_config)))))"
proof -
  let ?se = "SetEmergencyStop 5 (Reason ''manual'' [] []) (NewSafetyEngine demo_user_config)"
  have "safety_run ?se 5 [BTCPrice 7 (Fin 100) 7] (feed [BTCPrice 7 (Fin 100) 7] ?se) 7"
    using safety_run_sorted [of 5 "[BTCPrice 7 (Fin 100) 7]" ?se] by simp
  from stop_holds [OF this] show ?thesis
    by (simp add: SetEmergencyStop_def NewSafetyEngine_def)
qed

section \<open>The circuit breaker\<close>

lemma tripped:
  assumes "\<not> st_Active (se_emergencyStop se)"
    and "fst (CheckBTCFlashCrash now (crash_threshold se) (minutes 5) se)"
  shows "stopped_until (Some (now + minutes 30)) (snd (EvaluateExecutionSafety now plan m acct se))"
  using assms
  by (simp add: EvaluateExecutionSafety_def Let_def AutoClearEmergencyStop_def stopped_until_def SetEmergencyStop_def)

text \<open>
  C14: an evaluation that sees BTC crash while no stop is active starts a stop of 30 minutes: every
  evaluation within them is unsafe, whatever happens in between but a stop cleared by hand, and the stop is over for the
  first evaluation after them.
\<close>

theorem circuit_breaker_lasts_30_minutes:
  assumes "\<not> st_Active (se_emergencyStop se)"
    and "fst (CheckBTCFlashCrash now (crash_threshold se) (minutes 5) se)"
    and "safety_run (snd (EvaluateExecutionSafety now plan m acct se)) now es se' t'"
    and "\<forall>e\<in>set es. \<forall>u. e \<noteq> ClearStop u" and "t' \<le> now + minutes 30"
  shows "(\<forall>later plan' m' acct'. later \<le> now + minutes 30 \<longrightarrow>
            \<not> es_Safe (fst (EvaluateExecutionSafety later plan' m' acct' se'))) \<and>
         (\<forall>later. now + minutes 30 < later \<longrightarrow> \<not> st_Active (se_emergencyStop (AutoClearEmergencyStop later se')))"
proof -
  have s: "stopped_until (Some (now + minutes 30)) se'"
    using stopped_run [OF assms(3) tripped [OF assms(1,2)]] assms(4,5) by blast
  have "\<not> st_Active (se_emergencyStop (AutoClearEmergencyStop later se'))" if "now + minutes 30 < later" for later
    using s that by (auto simp: stopped_until_def AutoClearEmergencyStop_def Let_def)
  then show ?thesis using stopped_Evaluate(1) [OF s] by blast
qed

text \<open>A plan and a market for the concrete runs.\<close>

definition crashed_engine :: safety_engine where
  "crashed_engine = feed [BTCPrice 0 (Fin 100) 0, BTCPrice 1 (Fin 90) 1] (NewSafetyEngine demo_user_config)"

lemma crashed_engine:
  "\<not> st_Active (se_emergencyStop crashed_engine)"
  "fst (CheckBTCFlashCrash 2 (crash_threshold crashed_engine) (minutes 5) crashed_engine)"
  by code_simp+

lemma circuit_breaker_lasts_30_minutes_witness:
  "\<forall>plan m acct.
    \<not> es_Safe (fst (EvaluateExecutionSafety 5 plan m acct (snd (EvaluateExecutionSafety 2 plan m acct crashed_engine))))"
proof (intro allI)
  fix plan m acct
  have "safety_run (snd (EvaluateExecutionSafety 2 plan m acct crashed_engine)) 2 []
          (snd (EvaluateExecutionSafety 2 plan m acct crashed_engine)) 2"
    by (rule safety_run.start)
  from circuit_breaker_lasts_30_minutes [OF crashed_engine this]
  show "\<not> es_Safe (fst (EvaluateExecutionSafety 5 plan m acct (snd (EvaluateExecutionSafety 2 plan m acct crashed_engine))))"
    by (simp add: minutes_def seconds_def)
qed

text \<open>
  \<open>SetEmergencyStop\<close> keeps the cooldown of a stop that is already active, so a stop set by hand during
  a circuit-breaker stop is lifted when the breaker's cooldown expires, while the same stop set on an idle
  engine stays.
\<close>

theorem manual_stop_expires_with_breaker:
  assumes "st_Active (se_emergencyStop se)" and "st_CooldownUntil (se_emergencyStop se) = Some u" and "u < later"
  shows "\<not> st_Active (se_emergencyStop (AutoClearEmergencyStop later (SetEmergencyStop now r se))) \<and>
         st_Active (se_emergencyStop (AutoClearEmergencyStop later (SetEmergencyStop now r (ClearEmergencyStop se))))"
  using assms by (simp add: AutoClearEmergencyStop_def SetEmergencyStop_def ClearEmergencyStop_def Let_def)

lemma manual_stop_expires_with_breaker_witness:
  "\<forall>plan m acct. \<not> st_Active (se_emergencyStop (AutoClearEmergencyStop (minutes 31)
      (SetEmergencyStop 10 (Reason ''manual'' [] []) (snd (EvaluateExecutionSafety 2 plan m acct crashed_engine)))))"
proof (intro allI)
  fix plan m acct
  have "stopped_until (Some (2 + minutes 30)) (snd (EvaluateExecutionSafety 2 plan m acct crashed_engine))"
    by (rule tripped [OF crashed_engine])
  then show "\<not> st_Active (se_emergencyStop (AutoClearEmergencyStop (minutes 31)
      (SetEmergencyStop 10 (Reason ''manual'' [] []) (snd (EvaluateExecutionSafety 2 plan m acct crashed_engine)))))"
    using manual_stop_expires_with_breaker
      [of "snd (EvaluateExecutionSafety 2 plan m acct crashed_engine)" "2 + minutes 30" "minutes 31"]
    by (simp add: stopped_until_def minutes_def seconds_def)
qed

section \<open>Fail-open inputs\<close>

lemma crash_check_ignores_NaN:
  "crash_baseline (now - window) (se_btcPriceHistory se) = NaN \<Longrightarrow> \<not> fst (CheckBTCFlashCrash now th window se)"
  by (simp add: CheckBTCFlashCrash_def Let_def minus_f64_def)

lemma partial_fill_of_NaN: "Fin 0 < q \<Longrightarrow> EvaluatePartialFill q NaN = (''filled'', q)"
  by (auto simp: EvaluatePartialFill_def Let_def dest: f64_less_asym)

text \<open>An order book that cannot fill the quantity is never within the slippage limit.\<close>

lemma thin_book_unsafe:
  assumes "fst (walk_levels levels (op_Qty plan) (Fin 0)) > Fin 0" "levels \<noteq> []" "Fin 0 < op_Qty plan" "Fin 0 < op_EntryPrice plan"
  shows "EstimateSlippageFromOrderbook plan ob levels = (math_MaxFloat64, Fin 0)"
  using assms by (auto simp: EstimateSlippageFromOrderbook_def split: prod.splits dest: f64_less_asym)

end
