(* ===== verification/Strategy.thy ===== *)
theory Strategy
  imports Candidate
begin

text \<open>
  The building blocks of the strategies (\<open>internal/strategy/setup.go\<close>): averages over candles, the hourly
  regime, breakout setups with their levels and score, and the guards every candidate passes. Periods and
  lookbacks are integers without overflow.
\<close>

section \<open>Averages over candles\<close>

definition setup_trueRange :: "candle \<Rightarrow> f64 \<Rightarrow> f64" where
  "setup_trueRange c prevClose =
    (let tr0 = c_High c - c_Low c;
         tr1 = (if tr0 < \<bar>c_High c - prevClose\<bar> then \<bar>c_High c - prevClose\<bar> else tr0)
     in if tr1 < \<bar>c_Low c - prevClose\<bar> then \<bar>c_Low c - prevClose\<bar> else tr1)"

definition ATR :: "candle list \<Rightarrow> int \<Rightarrow> f64" where
  "ATR candles period =
    (if int (length candles) < period + 1 \<or> period \<le> 0 then Fin 0
     else
       let start = length candles - nat period
       in fsum (map (\<lambda>i. setup_trueRange (candles ! i) (c_Close (candles ! (i - 1)))) [start..<length candles])
          / f64_of_int period)"

definition EMA :: "candle list \<Rightarrow> int \<Rightarrow> f64" where
  "EMA candles period =
    (if int (length candles) < period \<or> period \<le> 0 then Fin 0
     else
       let ema0 = fsum (map c_Close (take (nat period) candles)) / f64_of_int period;
           multiplier = Fin 2 / f64_of_int (period + 1)
       in foldl (\<lambda>ema c. (c_Close c - ema) * multiplier + ema) ema0 (drop (nat period) candles))"

definition SMAVolume :: "candle list \<Rightarrow> int \<Rightarrow> f64" where
  "SMAVolume candles period =
    (if int (length candles) < period \<or> period \<le> 0 then Fin 0
     else fsum (map c_Volume (last_n period candles)) / f64_of_int period)"

definition range_step :: "f64 \<times> f64 \<Rightarrow> candle \<Rightarrow> f64 \<times> f64" where
  "range_step hl c =
    (if fst hl < c_High c then c_High c else fst hl, if c_Low c < snd hl then c_Low c else snd hl)"

definition RangeHighLow :: "candle list \<Rightarrow> int \<Rightarrow> f64 \<times> f64" where
  "RangeHighLow candles lookback =
    (if int (length candles) < lookback \<or> lookback \<le> 0 then (Fin 0, Fin 0)
     else foldl range_step (NInf, PInf) (last_n lookback candles))"

definition BodyRatio :: "candle \<Rightarrow> f64" where
  "BodyRatio c =
    (let rng = c_High c - c_Low c
     in if rng \<le> Fin 0 then Fin 0 else \<bar>c_Close c - c_Open c\<bar> / rng)"

definition BreakoutExtension :: "candle \<Rightarrow> f64 \<Rightarrow> f64 \<Rightarrow> f64" where
  "BreakoutExtension c level atr = (if atr \<le> Fin 0 then Fin 0 else \<bar>c_Close c - level\<bar> / atr)"

section \<open>The hourly regime\<close>

datatype hourly_regime = RegimeTrendUp | RegimeTrendDown | RegimeRange | RegimeChop

record hourly_regime_config =
  hr_TrendUpMinDistanceFromEMAPct :: f64
  hr_TrendDownMaxDistanceFromEMAPct :: f64
  hr_RangeMaxDistanceFromEMAPct :: f64

definition DetectRegime :: "candle list \<Rightarrow> f64 \<Rightarrow> hourly_regime_config \<Rightarrow> hourly_regime" where
  "DetectRegime candles ema200 cfg =
    (if ema200 \<le> Fin 0 \<or> candles = [] then RegimeChop
     else
       let price = c_Close (last candles);
           distancePct = (price - ema200) / ema200 * Fin 100
       in if hr_TrendUpMinDistanceFromEMAPct cfg \<le> distancePct then RegimeTrendUp
          else if distancePct \<le> hr_TrendDownMaxDistanceFromEMAPct cfg then RegimeTrendDown
          else if \<bar>distancePct\<bar> \<le> hr_RangeMaxDistanceFromEMAPct cfg then RegimeRange
          else RegimeChop)"

section \<open>Stop distances\<close>

definition priceAwareMinSLPct :: "f64 \<Rightarrow> f64 \<Rightarrow> f64" where
  "priceAwareMinSLPct entryPrice minPct =
    (if entryPrice \<le> Fin 0 then minPct
     else if minPct \<le> Fin 0 then Fin 0
     else
       let tierPct =
             (if entryPrice < Fin 1 then Fin (3 / 2) else if entryPrice < Fin 10 then Fin 1
              else if entryPrice < Fin 100 then Fin (1 / 2) else minPct)
       in if tierPct < minPct then minPct else tierPct)"

definition EnforceMinSLDistance ::
  "f64 \<Rightarrow> f64 \<Rightarrow> f64 \<Rightarrow> side \<Rightarrow> f64 \<Rightarrow> f64 \<Rightarrow> f64 \<times> f64" where
  "EnforceMinSLDistance entry currentSL atr0 sd minATRMultiplier minPct =
    (if entry \<le> Fin 0 \<or> not_finite entry then (currentSL, Fin 0)
     else if not_finite currentSL then (currentSL, Fin 0)
     else if not_finite atr0 then (currentSL, Fin 0)
     else
       let atr = (if atr0 < Fin 0 then Fin 0 else atr0)
       in if not_finite minATRMultiplier then (currentSL, Fin 0)
          else if not_finite minPct then (currentSL, Fin 0)
          else
            let minByATR = minATRMultiplier * atr;
                minByPct = entry * priceAwareMinSLPct entry minPct / Fin 100;
                minDistance = math_Max minByATR minByPct
            in if minDistance \<le> Fin 0 then (currentSL, Fin 0)
               else if minDistance \<le> \<bar>entry - currentSL\<bar> then (currentSL, minDistance)
               else
                 let newSL = (if sd = SideLong then entry - minDistance else entry + minDistance)
                 in if not_finite newSL then (currentSL, Fin 0) else (newSL, minDistance))"

text \<open>Go's predeclared \<open>max\<close> and \<open>min\<close>: NaN when an argument is NaN.\<close>

definition go_max :: "f64 \<Rightarrow> f64 \<Rightarrow> f64" where
  "go_max x y = (if isNaN x \<or> isNaN y then NaN else math_Max x y)"

definition go_min :: "f64 \<Rightarrow> f64 \<Rightarrow> f64" where
  "go_min x y = (if isNaN x \<or> isNaN y then NaN else math_Min x y)"

definition QualityStopMultiplier :: "f64 \<Rightarrow> int \<Rightarrow> f64 \<Rightarrow> f64 \<Rightarrow> f64" where
  "QualityStopMultiplier baseMultiplier tradeCount atrPct volRatio =
    (let m0 = Fin 1;
         m1 = (if tradeCount < 20 then m0 * Fin (3 / 2) else m0);
         m2 = (if Fin 3 < atrPct then m1 * Fin (3 / 2) else m1);
         m3 = (if volRatio < lit (8 / 10) then m2 * lit (13 / 10) else m2)
     in go_min (go_max (baseMultiplier * m3) baseMultiplier) (Fin 3))"

definition CountTradeActivity :: "candle list \<Rightarrow> int \<Rightarrow> int" where
  "CountTradeActivity candles lookback =
    (let start = int (length candles) - lookback; start = (if start < 0 then 0 else start)
     in int (length (filter (\<lambda>c. Fin 0 < c_Volume c) (drop (nat start) candles))))"

section \<open>Guards on the indicator snapshot\<close>

definition major_coin :: "string \<Rightarrow> bool" where
  "major_coin symb \<longleftrightarrow> symb = ''BTCUSDT'' \<or> symb = ''ETHUSDT''"

definition MinATRCheck ::
  "indicator_snapshot \<Rightarrow> side \<Rightarrow> string \<Rightarrow> string \<Rightarrow> string \<Rightarrow> rejected_candidate option" where
  "MinATRCheck snap sd symb tf strategy =
    (if major_coin symb then None
     else if Fin 0 < is_ATRPct snap \<and> is_ATRPct snap < lit (4 / 10)
     then Some (BuildRejectedCandidate strategy sd symb tf (Message ''ATR% < 0.4'' [is_ATRPct snap]))
     else None)"

definition MinVolumeCheck ::
  "indicator_snapshot \<Rightarrow> side \<Rightarrow> string \<Rightarrow> string \<Rightarrow> string \<Rightarrow> rejected_candidate option" where
  "MinVolumeCheck snap sd symb tf strategy =
    (if major_coin symb then None
     else if Fin 0 < is_VolumeRatio snap \<and> is_VolumeRatio snap < lit (7 / 10)
     then Some (BuildRejectedCandidate strategy sd symb tf (Message ''volume ratio < 0.7'' [is_VolumeRatio snap]))
     else None)"

section \<open>Breakout setups\<close>

datatype setup_type = SetupBreakout | SetupRetest | SetupNone

record setup_result =
  sr_SetupType :: setup_type
  sr_Side :: side
  sr_EntryType :: entry_type
  sr_ProposedEntry :: f64
  sr_StopLoss :: f64
  sr_TakeProfit :: f64
  sr_RR :: f64
  sr_SetupScore :: f64
  sr_ReasonCodes :: "string list"

record setup_config =
  sc_RangeCandles :: int
  sc_VolumeSMAPeriod :: int
  sc_MinVolumeRatio :: f64
  sc_MaxBreakoutExtensionATR :: f64
  sc_MaxDistanceFromBreakoutATR :: f64
  sc_MinRR :: f64
  sc_ExpectedMoveCostMultiplier :: f64
  sc_MinBodyRatio :: f64
  sc_AtrPeriod :: int
  sc_MinSLDistanceATRMultiplier :: f64
  sc_MinSLDistancePct :: f64

text \<open>\<open>SetupResult{SetupType: SetupNone, ReasonCodes: []string{code}}\<close>.\<close>

definition no_setup :: "string \<Rightarrow> setup_result" where
  "no_setup code =
    \<lparr> sr_SetupType = SetupNone, sr_Side = OtherSide [], sr_EntryType = OtherEntryType [], sr_ProposedEntry = Fin 0,
      sr_StopLoss = Fin 0, sr_TakeProfit = Fin 0, sr_RR = Fin 0, sr_SetupScore = Fin 0, sr_ReasonCodes = [code] \<rparr>"

definition computeSetupScore :: "f64 \<Rightarrow> f64 \<Rightarrow> hourly_regime \<Rightarrow> f64 \<Rightarrow> setup_config \<Rightarrow> f64" where
  "computeSetupScore volumeRatio bodyRatio regime extension cfg =
    (let s0 = Fin 50;
         s1 = (if lit (13 / 10) \<le> volumeRatio then s0 + Fin 15 else if Fin 1 \<le> volumeRatio then s0 + Fin 5 else s0);
         s2 = (if lit (7 / 10) \<le> bodyRatio then s1 + Fin 15 else if Fin (1 / 2) \<le> bodyRatio then s1 + Fin 5 else s1);
         s3 = (if regime = RegimeTrendUp \<or> regime = RegimeTrendDown then s2 + Fin 10 else s2);
         s4 = (if sc_MaxBreakoutExtensionATR cfg < extension then s3 - Fin 10 else s3);
         s5 = (if Fin 100 < s4 then Fin 100 else s4)
     in if s5 < Fin 0 then Fin 0 else s5)"

definition checkBreakoutLong ::
  "candle \<Rightarrow> f64 \<Rightarrow> f64 \<Rightarrow> f64 \<Rightarrow> f64 \<Rightarrow> hourly_regime \<Rightarrow> setup_config \<Rightarrow> setup_result" where
  "checkBreakoutLong c breakoutLevel atr volumeRatio bodyRatio regime cfg =
    (if volumeRatio < sc_MinVolumeRatio cfg then no_setup ''volume_too_low''
     else
       let codes = code_if (bodyRatio < sc_MinBodyRatio cfg) ''weak_body'';
           extension = BreakoutExtension c breakoutLevel atr;
           extended = sc_MaxBreakoutExtensionATR cfg < extension;
           entryType = (if extended then EntryTypeLimitRetest else EntryTypeMarket);
           entry = (if extended then breakoutLevel + atr * lit (3 / 10) else c_Close c);
           codes = codes @ code_if extended ''extended_breakout''
       in if regime = RegimeTrendDown then no_setup ''regime_mismatch''
          else
            let sl0 = breakoutLevel - atr * Fin (1 / 2)
            in if sl0 \<le> Fin 0 then no_setup ''invalid_sl''
               else
                 let sl = fst (EnforceMinSLDistance entry sl0 atr SideLong
                                 (sc_MinSLDistanceATRMultiplier cfg) (sc_MinSLDistancePct cfg));
                     riskDist = entry - sl
                 in if riskDist \<le> Fin 0 \<or> not_finite riskDist then no_setup ''invalid_risk_distance''
                    else
                      let tp = entry + riskDist * Fin 2;
                          rr = (tp - entry) / riskDist;
                          expectedMove = atr * Fin 2;
                          estCost = entry * lit (1 / 1000)
                      in if rr < sc_MinRR cfg then no_setup ''rr_too_low''
                         else if expectedMove \<le> sc_ExpectedMoveCostMultiplier cfg * estCost
                         then no_setup ''expected_move_too_small''
                         else
                           \<lparr> sr_SetupType = SetupBreakout, sr_Side = SideLong, sr_EntryType = entryType,
                             sr_ProposedEntry = entry, sr_StopLoss = sl, sr_TakeProfit = tp, sr_RR = rr,
                             sr_SetupScore = computeSetupScore volumeRatio bodyRatio regime extension cfg,
                             sr_ReasonCodes = codes \<rparr>)"

definition checkBreakoutShort ::
  "candle \<Rightarrow> f64 \<Rightarrow> f64 \<Rightarrow> f64 \<Rightarrow> f64 \<Rightarrow> hourly_regime \<Rightarrow> setup_config \<Rightarrow> setup_result" where
  "checkBreakoutShort c breakoutLevel atr volumeRatio bodyRatio regime cfg =
    (if volumeRatio < sc_MinVolumeRatio cfg then no_setup ''volume_too_low''
     else
       let codes = code_if (bodyRatio < sc_MinBodyRatio cfg) ''weak_body'';
           extension = BreakoutExtension c breakoutLevel atr;
           extended = sc_MaxBreakoutExtensionATR cfg < extension;
           entryType = (if extended then EntryTypeLimitRetest else EntryTypeMarket);
           entry = (if extended then breakoutLevel - atr * lit (3 / 10) else c_Close c);
           codes = codes @ code_if extended ''extended_breakout''
       in if regime = RegimeTrendUp then no_setup ''regime_mismatch''
          else
            let sl0 = breakoutLevel + atr * Fin (1 / 2);
                sl = fst (EnforceMinSLDistance entry sl0 atr SideShort
                            (sc_MinSLDistanceATRMultiplier cfg) (sc_MinSLDistancePct cfg));
                riskDist = sl - entry
            in if riskDist \<le> Fin 0 \<or> not_finite riskDist then no_setup ''invalid_risk_distance''
               else
                 let tp = entry - riskDist * Fin 2;
                     rr = (entry - tp) / riskDist;
                     expectedMove = atr * Fin 2;
                     estCost = entry * lit (1 / 1000)
                 in if rr < sc_MinRR cfg then no_setup ''rr_too_low''
                    else if expectedMove \<le> sc_ExpectedMoveCostMultiplier cfg * estCost
                    then no_setup ''expected_move_too_small''
                    else
                      \<lparr> sr_SetupType = SetupBreakout, sr_Side = SideShort, sr_EntryType = entryType,
                        sr_ProposedEntry = entry, sr_StopLoss = sl, sr_TakeProfit = tp, sr_RR = rr,
                        sr_SetupScore = computeSetupScore volumeRatio bodyRatio regime extension cfg,
                        sr_ReasonCodes = codes \<rparr>)"

text \<open>\<open>None\<close> is the panic of \<open>candles15m[:len(candles15m)-1]\<close> on an empty slice.\<close>

definition DetectSetup ::
  "candle list \<Rightarrow> f64 \<Rightarrow> f64 \<Rightarrow> hourly_regime \<Rightarrow> setup_config \<Rightarrow> setup_result option" where
  "DetectSetup candles15m atr ema200 regime cfg =
    (if int (length candles15m) < sc_RangeCandles cfg + 1 \<or> atr \<le> Fin 0
     then Some (no_setup ''insufficient_data'')
     else if candles15m = [] then None
     else
       let (rangeHigh, rangeLow) = RangeHighLow (butlast candles15m) (sc_RangeCandles cfg);
           current = last candles15m;
           smaVol = SMAVolume (butlast candles15m) (sc_VolumeSMAPeriod cfg);
           volumeRatio = (if Fin 0 < smaVol then c_Volume current / smaVol else Fin 0);
           bodyRatio = BodyRatio current
       in Some (if rangeHigh < c_Close current
                then checkBreakoutLong current rangeHigh atr volumeRatio bodyRatio regime cfg
                else if c_Close current < rangeLow
                then checkBreakoutShort current rangeLow atr volumeRatio bodyRatio regime cfg
                else no_setup ''no_breakout''))"

end
