(* ===== verification/TrendPullback.thy ===== *)
theory TrendPullback
  imports Strategy
begin

text \<open>
  The trend-pullback strategy (\<open>internal/strategy/trend_pullback.go\<close>). A side is evaluated to a rejected or
  an accepted candidate; every early return is a check in source order. The random source of the
  candidate's identifier is an argument that gives the bytes read, or \<open>None\<close> when reading fails.
\<close>

record pullback_input =
  pb_Now :: time
  pb_Symbol :: string
  pb_Timeframe :: string
  pb_TickSize :: f64
  pb_Candles15m :: "candle list"
  pb_Snapshot15m :: indicator_snapshot
  pb_Snapshot1h :: indicator_snapshot
  pb_Snapshot4h :: indicator_snapshot
  pb_IndicatorSnapshotRef :: string
  pb_RegimeSnapshotRef :: string
  pb_MinSLDistanceATRMultiplier :: f64
  pb_MinSLDistancePct :: f64
  pb_MinRR :: f64

section \<open>Helpers on candles and levels\<close>

definition pullback_hasHHHL :: "swing_point list \<Rightarrow> bool" where
  "pullback_hasHHHL swings =
    (let highs = prices_of ''high'' swings; lows = prices_of ''low'' swings
     in \<not> (length highs < 3 \<or> length lows < 3) \<and> last_three (<) highs \<and> last_three (<) lows)"

definition pullback_hasLHLH :: "swing_point list \<Rightarrow> bool" where
  "pullback_hasLHLH swings =
    (let highs = prices_of ''high'' swings; lows = prices_of ''low'' swings
     in \<not> (length highs < 3 \<or> length lows < 3) \<and> last_three (\<lambda>x y. y < x) highs
        \<and> last_three (\<lambda>x y. y < x) lows)"

text \<open>\<open>low\<close> and \<open>high\<close> of the candles, starting from the first.\<close>

definition lowest :: "candle list \<Rightarrow> f64" where
  "lowest cs = foldl (\<lambda>low c. if c_Low c < low then c_Low c else low) (c_Low (hd cs)) cs"

definition highest :: "candle list \<Rightarrow> f64" where
  "highest cs = foldl (\<lambda>high c. if high < c_High c then c_High c else high) (c_High (hd cs)) cs"

definition localPullbackRange :: "candle list \<Rightarrow> int \<Rightarrow> f64 \<times> f64" where
  "localPullbackRange candles lookback0 =
    (if candles = [] then (Fin 0, Fin 0)
     else
       let lookback = (if lookback0 \<le> 0 then 5 else lookback0);
           window = drop (nat (max 0 (int (length candles) - lookback))) candles
       in (lowest window, highest window))"

definition distance :: "f64 \<Rightarrow> f64 \<Rightarrow> f64" where
  "distance a b = \<bar>a - b\<bar>"

definition nearLevel :: "f64 \<Rightarrow> f64 list \<Rightarrow> f64 \<Rightarrow> bool" where
  "nearLevel price levels tol = list_ex (\<lambda>lvl. \<bar>price - lvl\<bar> \<le> tol) levels"

definition bullishRejection :: "candle \<Rightarrow> bool" where
  "bullishRejection c =
    (let body = \<bar>c_Close c - c_Open c\<bar>
     in if feq body (Fin 0) then False
        else
          let lowerWick = math_Min (c_Open c) (c_Close c) - c_Low c
          in c_Open c < c_Close c \<and> Fin (3 / 2) * body < lowerWick)"

definition bearishRejection :: "candle \<Rightarrow> bool" where
  "bearishRejection c =
    (let body = \<bar>c_Close c - c_Open c\<bar>
     in if feq body (Fin 0) then False
        else
          let upperWick = c_High c - math_Max (c_Open c) (c_Close c)
          in c_Close c < c_Open c \<and> Fin (3 / 2) * body < upperWick)"

definition bullishBodyConfirmation :: "candle \<Rightarrow> f64 \<Rightarrow> bool" where
  "bullishBodyConfirmation c pullbackLow =
    (let rng = c_High c - c_Low c
     in if rng \<le> Fin 0 then False
        else
          let closePos = (c_Close c - c_Low c) / rng
          in c_Open c < c_Close c \<and> lit (60 / 100) \<le> closePos \<and> pullbackLow < c_Close c)"

definition bearishBodyConfirmation :: "candle \<Rightarrow> f64 \<Rightarrow> bool" where
  "bearishBodyConfirmation c pullbackHigh =
    (let rng = c_High c - c_Low c
     in if rng \<le> Fin 0 then False
        else
          let closePos = (c_Close c - c_Low c) / rng
          in c_Close c < c_Open c \<and> closePos \<le> lit (40 / 100) \<and> c_Close c < pullbackHigh)"

definition higherLowWithinLastCandles :: "candle list \<Rightarrow> int \<Rightarrow> bool" where
  "higherLowWithinLastCandles candles lookback =
    (if int (length candles) < lookback + 1 then False
     else
       let start = nat (max 0 (int (length candles) - lookback - 1))
       in lowest (candles ! start # drop start (butlast candles)) < c_Low (last candles))"

definition lowerHighWithinLastCandles :: "candle list \<Rightarrow> int \<Rightarrow> bool" where
  "lowerHighWithinLastCandles candles lookback =
    (if int (length candles) < lookback + 1 then False
     else
       let start = nat (max 0 (int (length candles) - lookback - 1))
       in c_High (last candles) < highest (candles ! start # drop start (butlast candles)))"

definition pullback_emaSeries :: "f64 list \<Rightarrow> int \<Rightarrow> f64 list" where
  "pullback_emaSeries values period =
    (if values = [] then []
     else if period \<le> 1 then values
     else
       let warm = min (nat period) (length values);
           ema = fsum (take warm values) / f64_of_int (int warm)
       in replicate warm ema @ ema_run (Fin 2 / f64_of_int (period + 1)) ema (drop warm values))"

definition macdHistCurrentPrev :: "candle list \<Rightarrow> int \<Rightarrow> int \<Rightarrow> int \<Rightarrow> (f64 \<times> f64) option" where
  "macdHistCurrentPrev candles fast slow signal =
    (if int (length candles) < slow + signal + 2 then None
     else
       let cs = map c_Close candles;
           macd = map2 (-) (pullback_emaSeries cs fast) (pullback_emaSeries cs slow);
           sig = pullback_emaSeries macd signal;
           n = length macd
       in Some (macd ! (n - 1) - sig ! (n - 1), macd ! (n - 2) - sig ! (n - 2)))"

definition latestSwingByType :: "swing_point list \<Rightarrow> side \<Rightarrow> f64" where
  "latestSwingByType swings sd =
    (let want = (if sd = SideShort then ''high'' else ''low'')
     in case List.find (\<lambda>s. sw_Type s = want) (rev swings) of None \<Rightarrow> Fin 0 | Some s \<Rightarrow> sw_Price s)"

definition entryRiskTargets :: "side \<Rightarrow> f64 \<Rightarrow> f64 \<Rightarrow> f64 \<Rightarrow> f64 \<Rightarrow> f64 \<times> f64" where
  "entryRiskTargets sd entry risk rr1 rr2 =
    (if sd = SideLong then (entry + rr1 * risk, entry + rr2 * risk)
     else (entry - rr1 * risk, entry - rr2 * risk))"

definition nearestAbove :: "f64 \<Rightarrow> f64 list \<Rightarrow> f64" where
  "nearestAbove price levels =
    foldl (\<lambda>best lvl. if price < lvl \<and> (feq best (Fin 0) \<or> lvl < best) then lvl else best) (Fin 0) levels"

definition nearestBelow :: "f64 \<Rightarrow> f64 list \<Rightarrow> f64" where
  "nearestBelow price levels =
    foldl (\<lambda>best lvl. if lvl < price \<and> (feq best (Fin 0) \<or> best < lvl) then lvl else best) (Fin 0) levels"

definition nextAbove :: "f64 \<Rightarrow> f64 list \<Rightarrow> f64" where
  "nextAbove anchor levels =
    (let cands = filter (\<lambda>lvl. anchor < lvl) levels
     in if cands = [] then Fin 0 else hd (insertion_sort float_less cands))"

definition nextBelow :: "f64 \<Rightarrow> f64 list \<Rightarrow> f64" where
  "nextBelow anchor levels =
    (let cands = filter (\<lambda>lvl. lvl < anchor) levels
     in if cands = [] then Fin 0 else hd (insertion_sort (\<lambda>x y. float_less y x) cands))"

definition closerPositive :: "f64 \<Rightarrow> f64 \<Rightarrow> f64 \<Rightarrow> f64" where
  "closerPositive entry fallback level =
    (if level \<le> entry then fallback
     else if \<bar>level - entry\<bar> < \<bar>fallback - entry\<bar> then level else fallback)"

definition closerNegative :: "f64 \<Rightarrow> f64 \<Rightarrow> f64 \<Rightarrow> f64" where
  "closerNegative entry fallback level =
    (if entry \<le> level \<or> feq level (Fin 0) then fallback
     else if \<bar>entry - level\<bar> < \<bar>entry - fallback\<bar> then level else fallback)"

definition tick :: "f64 \<Rightarrow> f64" where
  "tick tickSize = (if Fin 0 < tickSize then tickSize else lit (1 / 10000))"

section \<open>The conditions\<close>

definition bullish_emas :: "ema_alignment \<Rightarrow> bool" where
  "bullish_emas a \<longleftrightarrow> ea_PriceAboveEMA50 a \<and> ea_EMA20AboveEMA50 a"

definition bearish_emas :: "ema_alignment \<Rightarrow> bool" where
  "bearish_emas a \<longleftrightarrow> \<not> ea_PriceAboveEMA50 a \<and> \<not> ea_EMA20AboveEMA50 a"

definition pullback_reject :: "pullback_input \<Rightarrow> side \<Rightarrow> message \<Rightarrow> rejected_candidate" where
  "pullback_reject i sd = BuildRejectedCandidate StrategyTrendPullback sd (pb_Symbol i) (pb_Timeframe i)"

definition htf_ok :: "pullback_input \<Rightarrow> side \<Rightarrow> bool" where
  "htf_ok i sd =
    (let s = pb_Snapshot1h i
     in if sd = SideLong then bullish_emas (is_EMAAlignment s) \<or> pullback_hasHHHL (is_RecentSwings s)
        else bearish_emas (is_EMAAlignment s) \<or> pullback_hasLHLH (is_RecentSwings s))"

definition pullback_ok :: "pullback_input \<Rightarrow> side \<Rightarrow> bool" where
  "pullback_ok i sd =
    (let s = pb_Snapshot15m i; price = c_Close (last (pb_Candles15m i)); tol = Fin (1 / 2) * is_ATR14 s
     in distance price (is_EMA20 s) \<le> tol \<or> distance price (is_EMA50 s) \<le> tol \<or>
        nearLevel price (if sd = SideLong then is_SupportLevels s else is_ResistanceLevels s) tol)"

text \<open>\<open>reaction1 || reaction2\<close>, and \<open>reaction3\<close>.\<close>

definition fresh_reaction :: "pullback_input \<Rightarrow> side \<Rightarrow> bool" where
  "fresh_reaction i sd =
    (let c = last (pb_Candles15m i); range = localPullbackRange (pb_Candles15m i) 5
     in if sd = SideLong then bullishRejection c \<or> bullishBodyConfirmation c (fst range)
        else bearishRejection c \<or> bearishBodyConfirmation c (snd range))"

definition structure_reaction :: "pullback_input \<Rightarrow> side \<Rightarrow> bool" where
  "structure_reaction i sd =
    (if sd = SideLong then higherLowWithinLastCandles (pb_Candles15m i) 5
     else lowerHighWithinLastCandles (pb_Candles15m i) 5)"

definition momentum_error :: "pullback_input \<Rightarrow> side \<Rightarrow> message option" where
  "momentum_error i sd =
    (let rsi = is_RSI14 (pb_Snapshot15m i)
     in case macdHistCurrentPrev (pb_Candles15m i) 12 26 9 of
          None \<Rightarrow> Some (Message ''MACD histogram unavailable'' [])
        | Some (histNow, histPrev) \<Rightarrow>
            if sd = SideLong
            then first_err
                   [fail_if (rsi < Fin 38 \<or> Fin 68 < rsi) (Message ''RSI 14 out of range [38,68]'' [rsi]),
                    fail_if (histNow \<le> histPrev) (Message ''MACD histogram not improving'' [])]
            else first_err
                   [fail_if (rsi < Fin 32 \<or> Fin 62 < rsi) (Message ''RSI 14 out of range [32,62]'' [rsi]),
                    fail_if (histPrev \<le> histNow) (Message ''MACD histogram not weakening'' [])])"

definition pullback_conditions :: "pullback_input \<Rightarrow> side \<Rightarrow> rejected_candidate option" where
  "pullback_conditions i sd =
    (let s = pb_Snapshot15m i; e4 = is_EMAAlignment (pb_Snapshot4h i);
         rej = pullback_reject i sd;
         vol_min = lit (7 / 10) * is_VolumeMA20 s
     in first_err
          [fail_if (length (pb_Candles15m i) < 30) (rej (Message ''insufficient 15m candles (<30)'' [])),
           fail_if (is_ATR14 s \<le> Fin 0) (rej (Message ''ATR14 unavailable'' [])),
           MinATRCheck s sd (pb_Symbol i) (pb_Timeframe i) StrategyTrendPullback,
           MinVolumeCheck s sd (pb_Symbol i) (pb_Timeframe i) StrategyTrendPullback,
           fail_if (\<not> htf_ok i sd) (rej (Message ''HTF trend support condition failed'' [])),
           (if sd = SideLong then fail_if (bearish_emas e4) (rej (Message ''4h strongly bearish'' []))
            else fail_if (bullish_emas e4) (rej (Message ''4h strongly bullish'' []))),
           fail_if (\<not> pullback_ok i sd) (rej (Message ''pullback distance condition failed'' [])),
           fail_if (\<not> (fresh_reaction i sd \<or> structure_reaction i sd))
             (rej (Message ''reaction candle/structure condition failed'' [])),
           map_option rej (momentum_error i sd),
           fail_if (is_VolumeCurrent s < vol_min)
             (rej (Message ''volume < 0.7 * volume_ma20'' [is_VolumeCurrent s, is_VolumeMA20 s]))])"

section \<open>The levels\<close>

definition pullback_entry :: "pullback_input \<Rightarrow> side \<Rightarrow> candidate_entry_type \<times> f64" where
  "pullback_entry i sd =
    (let range = localPullbackRange (pb_Candles15m i) 5
     in if fresh_reaction i sd then (CandidateEntryMarket, c_Close (last (pb_Candles15m i)))
        else (CandidateEntryLimitRetest,
              if sd = SideLong then fst range + tick (pb_TickSize i) else snd range - tick (pb_TickSize i)))"

definition pullback_stop :: "pullback_input \<Rightarrow> side \<Rightarrow> f64" where
  "pullback_stop i sd =
    (let s = pb_Snapshot15m i; atr = is_ATR14 s; entry = snd (pullback_entry i sd);
         recentSwing = latestSwingByType (is_RecentSwings s) sd;
         stopATR = QualityStopMultiplier (Fin (3 / 2)) (CountTradeActivity (pb_Candles15m i) 20)
                     (is_ATRPct s) (is_VolumeRatio s);
         sl =
           (if sd = SideLong then
              let sl = math_Min recentSwing (entry - stopATR * atr)
              in if sl \<le> Fin 0 \<or> entry \<le> sl then entry - stopATR * atr else sl
            else
              let sl = math_Max recentSwing (entry + stopATR * atr)
              in if sl \<le> entry then entry + stopATR * atr else sl)
     in fst (EnforceMinSLDistance entry sl atr sd (pb_MinSLDistanceATRMultiplier i) (pb_MinSLDistancePct i)))"

definition pullback_targets :: "pullback_input \<Rightarrow> side \<Rightarrow> f64 \<Rightarrow> f64 \<Rightarrow> f64 \<times> f64" where
  "pullback_targets i sd entry riskDist =
    (let s = pb_Snapshot15m i; fallback = entryRiskTargets sd entry riskDist (Fin (3 / 2)) (Fin (5 / 2))
     in if sd = SideLong then
          let tp1 = closerPositive entry (fst fallback) (nearestAbove entry (is_ResistanceLevels s));
              nextRes = nextAbove tp1 (is_ResistanceLevels s);
              tp2 = (if Fin 0 < nextRes then nextRes else snd fallback)
          in (tp1, if tp2 \<le> tp1 then snd fallback else tp2)
        else
          let tp1 = closerNegative entry (fst fallback) (nearestBelow entry (is_SupportLevels s));
              nextSup = nextBelow tp1 (is_SupportLevels s);
              tp2 = (if Fin 0 < nextSup then nextSup else snd fallback)
          in (tp1, if tp1 \<le> tp2 then snd fallback else tp2))"

text \<open>When the nearest level is too close for the minimum ratio, the first target falls back to 1.5R.\<close>

definition pullback_final_targets ::
  "side \<Rightarrow> f64 \<Rightarrow> f64 \<Rightarrow> f64 \<Rightarrow> f64 \<times> f64 \<Rightarrow> f64 \<times> f64" where
  "pullback_final_targets sd entry riskDist minRR tps =
    (let fallback = entryRiskTargets sd entry riskDist (Fin (3 / 2)) (Fin (5 / 2))
     in if \<bar>fst tps - entry\<bar> / riskDist < minRR
        then
          let tp1 = fst fallback; tp2 = snd tps
          in (tp1, if sd = SideLong \<and> tp2 \<le> tp1 \<or> sd = SideShort \<and> tp1 \<le> tp2 then snd fallback else tp2)
        else tps)"

definition sane_levels :: "side \<Rightarrow> f64 \<Rightarrow> f64 \<Rightarrow> f64 \<Rightarrow> message option" where
  "sane_levels sd entry sl tp1 =
    (if sd = SideLong
     then first_err [fail_if (entry \<le> sl) (Message ''SL >= entry for LONG'' [sl, entry]),
                     fail_if (tp1 \<le> entry) (Message ''TP <= entry for LONG'' [tp1, entry])]
     else first_err [fail_if (sl \<le> entry) (Message ''SL <= entry for SHORT'' [sl, entry]),
                     fail_if (entry \<le> tp1) (Message ''TP >= entry for SHORT'' [tp1, entry])])"

section \<open>The candidate\<close>

definition go_bool :: "bool \<Rightarrow> f64" where
  "go_bool b = (if b then Fin 1 else Fin 0)"

text \<open>The booleans a reason prints, as numbers.\<close>

definition htfReason :: "side \<Rightarrow> indicator_snapshot \<Rightarrow> indicator_snapshot \<Rightarrow> message" where
  "htfReason sd s1h s4h =
    (let a = is_EMAAlignment s1h
     in if sd = SideLong
        then Message ''1h/4h bullish bias check: 1h price>ema50 ema20>ema50, 4h bearish_override''
               [go_bool (ea_PriceAboveEMA50 a), go_bool (ea_EMA20AboveEMA50 a),
                go_bool (bearish_emas (is_EMAAlignment s4h))]
        else Message ''1h/4h bearish bias check: 1h price<ema50 ema20<ema50, 4h bullish_override''
               [go_bool (\<not> ea_PriceAboveEMA50 a), go_bool (\<not> ea_EMA20AboveEMA50 a),
                go_bool (bullish_emas (is_EMAAlignment s4h))])"

definition macd_hist :: "pullback_input \<Rightarrow> f64 list" where
  "macd_hist i =
    (case macdHistCurrentPrev (pb_Candles15m i) 12 26 9 of None \<Rightarrow> [] | Some (now, prev) \<Rightarrow> [prev, now])"

definition pullback_candidate ::
  "time \<Rightarrow> pullback_input \<Rightarrow> side \<Rightarrow> 8 word list \<Rightarrow> f64 \<Rightarrow> f64 \<times> f64 \<Rightarrow> f64 \<Rightarrow> trade_candidate" where
  "pullback_candidate now i sd rand sl tps rr =
    \<lparr> tc_CandidateID = NewCandidateID rand,
      tc_GeneratedAt = (if IsZero (pb_Now i) then now else pb_Now i),
      tc_Symbol = pb_Symbol i, tc_Timeframe = pb_Timeframe i, tc_Strategy = StrategyTrendPullback,
      tc_Side = sd, tc_EntryType = fst (pullback_entry i sd), tc_EntryPrice = snd (pullback_entry i sd),
      tc_StopLoss = sl,
      tc_TakeProfits = [\<lparr> tpt_Price = fst tps, tpt_SizePct = Fin 50 \<rparr>, \<lparr> tpt_Price = snd tps, tpt_SizePct = Fin 50 \<rparr>],
      tc_RiskRewardRatio = rr, tc_InvalidationLevel = sl,
      tc_TAReasoning =
        \<lparr> ta_TrendContext = htfReason sd (pb_Snapshot1h i) (pb_Snapshot4h i),
          ta_Trigger = Message ''pullback within 0.5 ATR'' [is_ATR14 (pb_Snapshot15m i)],
          ta_Confirmation = Message ''reaction confirmed, RSI, MACD hist'' (is_RSI14 (pb_Snapshot15m i) # macd_hist i),
          ta_Invalidation = Message ''invalid if price breaches'' [sl] \<rparr>,
      tc_InputsSnapshot =
        \<lparr> sr_IndicatorSnapshotRef = pb_IndicatorSnapshotRef i, sr_RegimeSnapshotRef = pb_RegimeSnapshotRef i \<rparr> \<rparr>"

definition generateTrendPullbackForSide ::
  "time \<Rightarrow> (side \<Rightarrow> 8 word list option) \<Rightarrow> pullback_input \<Rightarrow> side \<Rightarrow> rejected_candidate + trade_candidate" where
  "generateTrendPullbackForSide now rand i sd =
    (case pullback_conditions i sd of
       Some r \<Rightarrow> Inl r
     | None \<Rightarrow>
         let rej = pullback_reject i sd;
             entry = snd (pullback_entry i sd);
             sl = pullback_stop i sd;
             riskDist = \<bar>entry - sl\<bar>;
             tps = pullback_targets i sd entry riskDist;
             minRR = default_f64 (lit (14 / 10)) (pb_MinRR i);
             tps' = pullback_final_targets sd entry riskDist minRR tps;
             rr = \<bar>fst tps' - entry\<bar> / riskDist
         in guard_err (\<bar>entry - sl\<bar> < pb_TickSize i) (rej (Message ''entry_sl_too_close'' []))
            (guard_err (riskDist \<le> Fin 0 \<or> not_finite riskDist) (rej (Message ''invalid_risk_distance'' []))
            (case sane_levels sd entry sl (fst tps) of
               Some m \<Rightarrow> Inl (rej m)
             | None \<Rightarrow>
                 guard_err (rr < minRR) (rej (Message ''RR < min'' [rr, minRR]))
                 (case rand sd of
                    None \<Rightarrow> Inl (rej (Message ''failed to generate candidate id'' []))
                  | Some bytes \<Rightarrow> Inr (pullback_candidate now i sd bytes sl tps' rr)))))"

text \<open>Both sides in turn; a rejection of the long side is the one reported.\<close>

definition first_side :: "('r + 'c) \<Rightarrow> ('r + 'c) \<Rightarrow> 'r + 'c" where
  "first_side long short =
    (case long of
       Inr c \<Rightarrow> Inr c
     | Inl rej \<Rightarrow> (case short of Inr c2 \<Rightarrow> Inr c2 | Inl _ \<Rightarrow> Inl rej))"

definition GenerateTrendPullback ::
  "time \<Rightarrow> (side \<Rightarrow> 8 word list option) \<Rightarrow> pullback_input \<Rightarrow> rejected_candidate + trade_candidate" where
  "GenerateTrendPullback now rand i =
    first_side (generateTrendPullbackForSide now rand i SideLong)
      (generateTrendPullbackForSide now rand i SideShort)"

end
