(* ===== verification/BreakoutRetest.thy ===== *)
theory BreakoutRetest
  imports TrendPullback
begin

text \<open>
  The breakout-retest strategy (\<open>internal/strategy/breakout_retest.go\<close>): a recent close through a level
  with volume, a retest of it, and the levels of the candidate. The helpers on levels are those of the
  trend-pullback file, as in the source.
\<close>

record breakout_input =
  bo_Now :: time
  bo_Symbol :: string
  bo_Timeframe :: string
  bo_TickSize :: f64
  bo_Candles15m :: "candle list"
  bo_Snapshot15m :: indicator_snapshot
  bo_Snapshot1h :: indicator_snapshot
  bo_IndicatorSnapshotRef :: string
  bo_RegimeSnapshotRef :: string
  bo_MinSLDistanceATRMultiplier :: f64
  bo_MinSLDistancePct :: f64
  bo_MinRR :: f64

section \<open>The breakout\<close>

text \<open>The window \<open>candles[start:idx]\<close> of a rolling extreme; the first candle is visited twice, as a start value.\<close>

definition rolling_window :: "candle list \<Rightarrow> int \<Rightarrow> int \<Rightarrow> candle list" where
  "rolling_window candles idx lookback =
    (let start = nat (max 0 (idx - lookback)) in candles ! start # slice (start + 1) (nat idx) candles)"

definition rollingHigh :: "candle list \<Rightarrow> int \<Rightarrow> int \<Rightarrow> f64" where
  "rollingHigh candles idx lookback = highest (rolling_window candles idx lookback)"

definition rollingLow :: "candle list \<Rightarrow> int \<Rightarrow> int \<Rightarrow> f64" where
  "rollingLow candles idx lookback = lowest (rolling_window candles idx lookback)"

definition volumeRatioAt :: "candle list \<Rightarrow> int \<Rightarrow> int \<Rightarrow> f64" where
  "volumeRatioAt candles idx period0 =
    (if idx \<le> 0 \<or> int (length candles) \<le> idx then Fin 0
     else
       let period = (if period0 \<le> 0 then 20 else period0);
           start = (if idx - period < 0 then 0 else idx - period)
       in if start = idx then Fin 0
          else
            let ma = fsum (map c_Volume (slice (nat start) (nat idx) candles)) / f64_of_int (idx - start)
            in if ma \<le> Fin 0 then Fin 0 else c_Volume (candles ! nat idx) / ma)"

definition bodyUpper60 :: "candle \<Rightarrow> bool" where
  "bodyUpper60 c =
    (let rng = c_High c - c_Low c
     in if rng \<le> Fin 0 then False
        else c_Open c < c_Close c \<and> lit (60 / 100) \<le> (c_Close c - c_Low c) / rng)"

definition bodyLower40 :: "candle \<Rightarrow> bool" where
  "bodyLower40 c =
    (let rng = c_High c - c_Low c
     in if rng \<le> Fin 0 then False
        else c_Close c < c_Open c \<and> (c_Close c - c_Low c) / rng \<le> lit (40 / 100))"

text \<open>The first level the candle at an index breaks.\<close>

definition broken_level :: "candle list \<Rightarrow> indicator_snapshot \<Rightarrow> side \<Rightarrow> int \<Rightarrow> f64 option" where
  "broken_level candles snap sd idx =
    (let c = candles ! nat idx
     in if sd = SideLong then
          let levels = (if is_ResistanceLevels snap = [] then [rollingHigh candles idx 20] else is_ResistanceLevels snap)
          in List.find (\<lambda>lvl. lvl < c_Close c \<and> lit (13 / 10) \<le> volumeRatioAt candles idx 20 \<and> bodyUpper60 c) levels
        else
          let levels = (if is_SupportLevels snap = [] then [rollingLow candles idx 20] else is_SupportLevels snap)
          in List.find (\<lambda>lvl. c_Close c < lvl \<and> lit (13 / 10) \<le> volumeRatioAt candles idx 20 \<and> bodyLower40 c) levels)"

text \<open>The level, the index of the candle that breaks it and the level before it.\<close>

definition findBreakout :: "candle list \<Rightarrow> indicator_snapshot \<Rightarrow> side \<Rightarrow> (f64 \<times> int \<times> f64) option" where
  "findBreakout candles snap sd =
    (let n = int (length candles); start = (if n - 8 < 1 then 1 else n - 8)
     in case List.find (\<lambda>idx. broken_level candles snap sd idx \<noteq> None) [start..n - 1] of
          None \<Rightarrow> None
        | Some idx \<Rightarrow>
            let lvl = the (broken_level candles snap sd idx)
            in Some (lvl, idx,
                     if sd = SideLong then nearestBelow lvl (is_SupportLevels snap)
                     else nearestAbove lvl (is_ResistanceLevels snap)))"

section \<open>The retest\<close>

definition retests :: "side \<Rightarrow> f64 \<Rightarrow> f64 \<Rightarrow> candle \<Rightarrow> bool" where
  "retests sd level buf c =
    (if sd = SideLong
     then \<bar>c_Low c - level\<bar> \<le> buf \<or> c_Low c \<le> level + buf \<and> level - buf \<le> c_High c
     else \<bar>c_High c - level\<bar> \<le> buf \<or> level - buf \<le> c_High c \<and> c_Low c \<le> level + buf)"

definition findRetest :: "candle list \<Rightarrow> int \<Rightarrow> f64 \<Rightarrow> f64 \<Rightarrow> side \<Rightarrow> f64 option" where
  "findRetest candles breakoutIdx level atr sd =
    (if int (length candles) - 1 \<le> breakoutIdx then None
     else
       let cs = filter (retests sd level (lit (3 / 10) * atr)) (drop (nat (breakoutIdx + 1)) candles)
       in if sd = SideLong then
            let retestLow = foldl (\<lambda>low c. if c_Low c < low then c_Low c else low) PInf cs
            in if retestLow = PInf then None else Some retestLow
          else
            let retestHigh = foldl (\<lambda>high c. if high < c_High c then c_High c else high) NInf cs
            in if retestHigh = NInf then None else Some retestHigh)"

section \<open>Conditions and levels\<close>

definition breakout_reject :: "breakout_input \<Rightarrow> side \<Rightarrow> message \<Rightarrow> rejected_candidate" where
  "breakout_reject i sd = BuildRejectedCandidate StrategyBreakoutRetest sd (bo_Symbol i) (bo_Timeframe i)"

definition breakout_preconditions :: "breakout_input \<Rightarrow> side \<Rightarrow> rejected_candidate option" where
  "breakout_preconditions i sd =
    (let s = bo_Snapshot15m i; rej = breakout_reject i sd
     in first_err
          [fail_if (length (bo_Candles15m i) < 30) (rej (Message ''insufficient 15m candles (<30)'' [])),
           fail_if (is_ATR14 s \<le> Fin 0) (rej (Message ''ATR14 unavailable'' [])),
           MinATRCheck s sd (bo_Symbol i) (bo_Timeframe i) StrategyBreakoutRetest,
           MinVolumeCheck s sd (bo_Symbol i) (bo_Timeframe i) StrategyBreakoutRetest])"

definition confirmation_error :: "breakout_input \<Rightarrow> side \<Rightarrow> f64 \<Rightarrow> message option" where
  "confirmation_error i sd level =
    (let c = last (bo_Candles15m i); e1 = is_EMAAlignment (bo_Snapshot1h i)
     in if sd = SideLong
        then first_err
               [fail_if (c_Close c < level) (Message ''last candle closed below broken resistance'' []),
                fail_if (\<not> (c_Open c < c_Close c \<and> level < c_Close c)) (Message ''bullish confirmation missing'' []),
                fail_if (bearish_emas e1) (Message ''1h strongly bearish against long breakout'' [])]
        else first_err
               [fail_if (level < c_Close c) (Message ''last candle closed above broken support'' []),
                fail_if (\<not> (c_Close c < c_Open c \<and> c_Close c < level)) (Message ''bearish confirmation missing'' []),
                fail_if (bullish_emas e1) (Message ''1h strongly bullish against short breakout'' [])])"

definition breakout_entry :: "breakout_input \<Rightarrow> side \<Rightarrow> f64 \<Rightarrow> candidate_entry_type \<times> f64" where
  "breakout_entry i sd level =
    (let price = c_Close (last (bo_Candles15m i)); atr = is_ATR14 (bo_Snapshot15m i)
     in if lit (4 / 10) * atr < \<bar>price - level\<bar>
        then (CandidateEntryLimitRetest,
              if sd = SideLong then level + tick (bo_TickSize i) else level - tick (bo_TickSize i))
        else (CandidateEntryMarket, price))"

definition breakout_stop :: "breakout_input \<Rightarrow> side \<Rightarrow> f64 \<Rightarrow> f64 \<Rightarrow> f64 \<Rightarrow> f64" where
  "breakout_stop i sd level retestExtreme entry =
    (let s = bo_Snapshot15m i; atr = is_ATR14 s;
         stopATR = QualityStopMultiplier (Fin (1 / 2)) (CountTradeActivity (bo_Candles15m i) 20)
                     (is_ATRPct s) (is_VolumeRatio s);
         sl =
           (if sd = SideLong then
              let sl = math_Min retestExtreme (level - stopATR * atr)
              in if entry \<le> sl then entry - stopATR * atr else sl
            else
              let sl = math_Max retestExtreme (level + stopATR * atr)
              in if sl \<le> entry then entry + stopATR * atr else sl)
     in fst (EnforceMinSLDistance entry sl atr sd (bo_MinSLDistanceATRMultiplier i) (bo_MinSLDistancePct i)))"

definition breakout_tp1 :: "breakout_input \<Rightarrow> side \<Rightarrow> f64 \<Rightarrow> f64 \<Rightarrow> f64 \<Rightarrow> f64 \<Rightarrow> f64" where
  "breakout_tp1 i sd level priorLevel entry riskDist =
    (let s = bo_Snapshot15m i
     in if sd = SideLong then
          let nextL = nearestAbove entry (is_ResistanceLevels s);
              projected = level + (level - priorLevel);
              tp1 = (if entry < nextL then nextL else projected)
          in if tp1 \<le> entry then entry + Fin (3 / 2) * riskDist else tp1
        else
          let nextL = nearestBelow entry (is_SupportLevels s);
              projected = level - (priorLevel - level);
              tp1 = (if Fin 0 < nextL \<and> nextL < entry then nextL else projected)
          in if entry \<le> tp1 \<or> feq tp1 (Fin 0) then entry - Fin (3 / 2) * riskDist else tp1)"

definition breakout_tp2 :: "side \<Rightarrow> f64 \<Rightarrow> f64 \<Rightarrow> f64" where
  "breakout_tp2 sd entry tp1 =
    (if sd = SideLong then
       let tp2 = entry + Fin (3 / 2) * (tp1 - entry)
       in if tp2 \<le> tp1 then entry + Fin 2 * (tp1 - entry) else tp2
     else
       let tp2 = entry - Fin (3 / 2) * (entry - tp1)
       in if tp1 \<le> tp2 then entry - Fin 2 * (entry - tp1) else tp2)"

definition breakout_sane_levels :: "side \<Rightarrow> f64 \<Rightarrow> f64 \<Rightarrow> f64 \<Rightarrow> message option" where
  "breakout_sane_levels sd entry sl tp1 =
    (if sd = SideLong
     then first_err [fail_if (sl \<le> Fin 0 \<or> entry \<le> sl) (Message ''SL invalid for LONG'' [sl, go_bool (sl \<le> Fin 0), entry]),
                     fail_if (tp1 \<le> entry) (Message ''TP <= entry for LONG'' [tp1, entry])]
     else first_err [fail_if (sl \<le> entry) (Message ''SL <= entry for SHORT'' [sl, entry]),
                     fail_if (entry \<le> tp1) (Message ''TP >= entry for SHORT'' [tp1, entry])])"

section \<open>The candidate\<close>

definition breakout_candidate ::
  "time \<Rightarrow> breakout_input \<Rightarrow> side \<Rightarrow> 8 word list \<Rightarrow> f64 \<Rightarrow> f64 \<Rightarrow> f64 \<Rightarrow> f64 \<Rightarrow> trade_candidate" where
  "breakout_candidate now i sd rand level sl tp1 rr =
    (let entry = snd (breakout_entry i sd level)
     in \<lparr> tc_CandidateID = NewCandidateID rand,
          tc_GeneratedAt = (if IsZero (bo_Now i) then now else bo_Now i),
          tc_Symbol = bo_Symbol i, tc_Timeframe = bo_Timeframe i, tc_Strategy = StrategyBreakoutRetest,
          tc_Side = sd, tc_EntryType = fst (breakout_entry i sd level), tc_EntryPrice = entry, tc_StopLoss = sl,
          tc_TakeProfits =
            [\<lparr> tpt_Price = tp1, tpt_SizePct = Fin 50 \<rparr>,
             \<lparr> tpt_Price = breakout_tp2 sd entry tp1, tpt_SizePct = Fin 50 \<rparr>],
          tc_RiskRewardRatio = rr, tc_InvalidationLevel = sl,
          tc_TAReasoning =
            \<lparr> ta_TrendContext =
                Message (if sd = SideLong then ''1h anti-trend guard passed for LONG''
                         else ''1h anti-trend guard passed for SHORT'') [],
              ta_Trigger = Message ''breakout level retested within ATR'' [level, lit (3 / 10)],
              ta_Confirmation =
                Message ''last candle confirmed direction at close'' [c_Close (last (bo_Candles15m i))],
              ta_Invalidation = Message ''invalid if level fails and stop is breached'' [level, sl] \<rparr>,
          tc_InputsSnapshot =
            \<lparr> sr_IndicatorSnapshotRef = bo_IndicatorSnapshotRef i, sr_RegimeSnapshotRef = bo_RegimeSnapshotRef i \<rparr> \<rparr>)"

definition breakout_levels ::
  "time \<Rightarrow> (side \<Rightarrow> 8 word list option) \<Rightarrow> breakout_input \<Rightarrow> side \<Rightarrow> f64 \<Rightarrow> f64 \<Rightarrow> f64
    \<Rightarrow> rejected_candidate + trade_candidate" where
  "breakout_levels now rand i sd level priorLevel retestExtreme =
    (let rej = breakout_reject i sd;
         entry = snd (breakout_entry i sd level);
         sl = breakout_stop i sd level retestExtreme entry;
         riskDist = \<bar>entry - sl\<bar>;
         tp1 = breakout_tp1 i sd level priorLevel entry riskDist;
         minRR = default_f64 (lit (14 / 10)) (bo_MinRR i);
         rr = \<bar>tp1 - entry\<bar> / riskDist
     in guard_err (\<bar>entry - sl\<bar> < bo_TickSize i) (rej (Message ''entry_sl_too_close'' []))
        (guard_err (riskDist \<le> Fin 0 \<or> not_finite riskDist) (rej (Message ''invalid_risk_distance'' []))
        (case breakout_sane_levels sd entry sl tp1 of
           Some m \<Rightarrow> Inl (rej m)
         | None \<Rightarrow>
             guard_err (rr < minRR) (rej (Message ''RR < min'' [rr, minRR]))
             (case rand sd of
                None \<Rightarrow> Inl (rej (Message ''failed to generate candidate id'' []))
              | Some bytes \<Rightarrow> Inr (breakout_candidate now i sd bytes level sl tp1 rr)))))"

definition generateBreakoutRetestForSide ::
  "time \<Rightarrow> (side \<Rightarrow> 8 word list option) \<Rightarrow> breakout_input \<Rightarrow> side \<Rightarrow> rejected_candidate + trade_candidate" where
  "generateBreakoutRetestForSide now rand i sd =
    (case breakout_preconditions i sd of
       Some r \<Rightarrow> Inl r
     | None \<Rightarrow>
         let rej = breakout_reject i sd
         in case findBreakout (bo_Candles15m i) (bo_Snapshot15m i) sd of
              None \<Rightarrow> Inl (rej (Message ''no valid breakout in last 8 candles'' []))
            | Some (level, idx, priorLevel) \<Rightarrow>
                case findRetest (bo_Candles15m i) idx level (is_ATR14 (bo_Snapshot15m i)) sd of
                  None \<Rightarrow> Inl (rej (Message ''retest condition failed'' []))
                | Some retestExtreme \<Rightarrow>
                    case confirmation_error i sd level of
                      Some m \<Rightarrow> Inl (rej m)
                    | None \<Rightarrow> breakout_levels now rand i sd level priorLevel retestExtreme)"

definition GenerateBreakoutRetest ::
  "time \<Rightarrow> (side \<Rightarrow> 8 word list option) \<Rightarrow> breakout_input \<Rightarrow> rejected_candidate + trade_candidate" where
  "GenerateBreakoutRetest now rand i =
    first_side (generateBreakoutRetestForSide now rand i SideLong)
      (generateBreakoutRetestForSide now rand i SideShort)"

end
