(* ===== verification/StrategySpec.thy ===== *)
theory StrategySpec
  imports BreakoutRetest ScoringSpec
begin

text \<open>
  What the strategies guarantee: every candidate they emit has its stop on the losing and its first target
  on the winning side of the entry, with the required ratio between them; the stop guard never moves a stop
  closer; the setup detector is total and its score bounded.
\<close>

section \<open>Floats\<close>

lemma minus_le:
  assumes "is_f64 x" and "x \<noteq> NaN" and "x \<noteq> PInf" and "Fin 0 \<le> y"
  shows "x - y \<le> x"
proof (cases x)
  case (Fin p)
  then have r: "repr p" using assms(1) by (simp add: is_f64_Fin)
  then have "rnd (p - q) \<le> Fin p" if "0 \<le> q" for q using that by (simp add: rnd_le)
  moreover have "rnd p \<le> Fin p" using r by (simp add: rnd_le)
  ultimately show ?thesis using Fin assms(4) by (cases y) (auto simp: minus_f64_def)
next
  case NZero
  with assms(4) show ?thesis
    by (cases y) (auto simp: minus_f64_def plus_f64_def isInf_def zero_of_def less_eq_f64_def key_rnd_nonpos)
next
  case NInf
  with assms(4) show ?thesis by (cases y) (auto simp: minus_f64_def plus_f64_def isInf_def)
qed (use assms in simp_all)

lemma plus_fin: "\<not> not_finite (x + y) \<Longrightarrow> is_fin x \<and> is_fin y"
  by (cases x; cases y; simp add: plus_f64_def not_finite_def is_fin_def isNaN_def isInf_def split: if_splits)

lemma minus_fin: "\<not> not_finite (x - y) \<Longrightarrow> is_fin x \<and> is_fin y"
  using plus_fin [of x "fneg y"] by (auto simp: minus_f64_def is_fin_def isNaN_def)

lemma not_finite_abs [simp]: "not_finite \<bar>x\<bar> = not_finite x"
  by (cases x) (auto simp: not_finite_def isNaN_def isInf_def abs_f64_def)

lemma zero_distance:
  assumes "feq tp e" "is_fin e" "Fin 0 < r" "\<not> not_finite r"
  shows "feq (\<bar>tp - e\<bar> / r) (Fin 0)"
  using assms
  by (cases tp; cases e; cases r)
     (auto simp: feq_def minus_f64_def plus_f64_def abs_f64_def divide_f64_def zero_of_def not_finite_def
        isNaN_def isInf_def split: if_splits)

lemma ratio_separates:
  assumes "\<not> \<bar>tp - e\<bar> / r < m" "Fin 0 < m" "is_fin e" "Fin 0 < r" "\<not> not_finite r"
  shows "\<not> feq tp e"
proof
  assume "feq tp e"
  from zero_distance [OF this assms(3-5)] have "\<bar>tp - e\<bar> / r < m"
    using assms(2) by (simp add: feq_def less_f64_def)
  with assms(1) show False ..
qed

section \<open>Levels\<close>

lemma nearestAbove_not_NaN: "nearestAbove price levels \<noteq> NaN"
  unfolding nearestAbove_def
  by (rule foldl_invariant [where P = "\<lambda>b. b \<noteq> NaN"]) (auto dest: cmp_not_NaN(2) split: if_splits)

lemma nearestBelow_not_NaN: "nearestBelow price levels \<noteq> NaN"
  unfolding nearestBelow_def
  by (rule foldl_invariant [where P = "\<lambda>b. b \<noteq> NaN"]) (auto dest: cmp_not_NaN(2) split: if_splits)

lemma nearest_not_NaN:
  "closerPositive e f (nearestAbove e ls) = NaN \<Longrightarrow> f = NaN"
  "closerNegative e f (nearestBelow e ls) = NaN \<Longrightarrow> f = NaN"
  using nearestAbove_not_NaN nearestBelow_not_NaN
  by (auto simp: closerPositive_def closerNegative_def split: if_splits)

lemma times_nn: "0 \<le> c \<Longrightarrow> Fin 0 \<le> r \<Longrightarrow> \<not> not_finite r \<Longrightarrow> Fin 0 \<le> Fin c * r"
  by (intro times_nonneg times_not_NaN) (auto simp: not_finite_def is_fin_def isNaN_def isInf_def)

lemma target_order:
  assumes "is_f64 e" "is_fin e" "Fin 0 \<le> r" "\<not> not_finite r" "0 \<le> c"
  shows "e \<le> e + Fin c * r" "e - Fin c * r \<le> e"
proof -
  have "e \<noteq> NaN" "e \<noteq> PInf" "e \<noteq> NInf" using assms(2) by (auto simp: is_fin_def isNaN_def isInf_def)
  note h = assms(1) this(1)
  show "e \<le> e + Fin c * r" by (rule Rounding.le_plus [OF h \<open>e \<noteq> NInf\<close> times_nn [OF assms(5,3,4)]])
  show "e - Fin c * r \<le> e" by (rule minus_le [OF h \<open>e \<noteq> PInf\<close> times_nn [OF assms(5,3,4)]])
qed

lemma is_f64_entry:
  "is_f64 (c_Close (last (pb_Candles15m i))) \<Longrightarrow> is_f64 (snd (pullback_entry i sd))"
  "is_f64 (c_Close (last (bo_Candles15m j))) \<Longrightarrow> is_f64 (snd (breakout_entry j sd level))"
  by (auto simp: pullback_entry_def breakout_entry_def Let_def)

text \<open>The stop on the losing side of the entry and the first target on the winning side.\<close>

definition levels_ordered :: "side \<Rightarrow> f64 \<Rightarrow> f64 \<Rightarrow> f64 \<Rightarrow> bool" where
  "levels_ordered sd entry sl tp1 \<longleftrightarrow>
    sd = SideLong \<and> sl < entry \<and> entry < tp1 \<or> sd = SideShort \<and> tp1 < entry \<and> entry < sl"

lemma sane_ordered:
  assumes "sane_levels sd e sl tp = None" "sd = SideLong \<or> sd = SideShort" "\<not> not_finite \<bar>e - sl\<bar>" "tp \<noteq> NaN"
  shows "levels_ordered sd e sl tp"
  using assms minus_fin [of e sl]
  by (auto simp: sane_levels_def levels_ordered_def is_fin_def isNaN_def f64_not_le split: if_splits)

lemma breakout_sane_ordered:
  assumes "breakout_sane_levels sd e sl tp = None" "sd = SideLong \<or> sd = SideShort" "\<not> not_finite \<bar>e - sl\<bar>" "tp \<noteq> NaN"
  shows "levels_ordered sd e sl tp"
  using assms minus_fin [of e sl]
  by (auto simp: breakout_sane_levels_def levels_ordered_def is_fin_def isNaN_def f64_not_le split: if_splits)

lemma first_side_Inr: "first_side l s = Inr c \<Longrightarrow> l = Inr c \<or> s = Inr c"
  by (auto simp: first_side_def split: sum.splits)

lemma minRR_pos: "\<bar>x\<bar> / r < default_f64 (lit (14 / 10)) m \<Longrightarrow> Fin 0 < default_f64 (lit (14 / 10)) m"
proof -
  have "Fin 0 < lit (14 / 10)" by code_simp
  then show "\<bar>x\<bar> / r < default_f64 (lit (14 / 10)) m \<Longrightarrow> Fin 0 < default_f64 (lit (14 / 10)) m"
    using default_f64_pos [of "lit (14 / 10)" m] by auto
qed

text \<open>The fallback target, taken when the nearest level is too close, keeps the order by its ratio.\<close>

lemma fallback_ordered:
  assumes "levels_ordered sd e sl tp" "is_f64 e" "Fin 0 < r" "\<not> not_finite r" "is_fin e"
    and "Fin 0 < m" "tp' = fst (entryRiskTargets sd e r (Fin (3 / 2)) c)"
    and "\<not> \<bar>tp' - e\<bar> / r < m"
  shows "levels_ordered sd e sl tp'"
proof -
  have o: "e \<le> e + Fin (3 / 2) * r" "e - Fin (3 / 2) * r \<le> e"
    using target_order [OF assms(2,5) f64_less_imp_le [OF assms(3)] assms(4)] by simp_all
  have "\<not> feq tp' e" by (rule ratio_separates [OF assms(8,6,5,3,4)])
  then show ?thesis
    using assms(1,7) o
    by (auto simp: levels_ordered_def entryRiskTargets_def f64_le_less dest: feq_sym)
qed

lemma targets_not_NaN:
  assumes "is_fin entry" "Fin 0 \<le> r" "\<not> not_finite r"
  shows "fst (entryRiskTargets sd entry r (Fin (3 / 2)) c) \<noteq> NaN"
proof -
  have "Fin 0 \<le> Fin (3 / 2) * r" using times_nn assms(2,3) by simp
  then show ?thesis using assms(1)
    by (cases "Fin (3 / 2) * r"; cases entry)
       (auto simp: entryRiskTargets_def minus_f64_def plus_f64_def isInf_def zero_of_def split: if_splits)
qed

lemma pullback_Inr:
  assumes "generateTrendPullbackForSide now rand i sd = Inr c"
    and "e = snd (pullback_entry i sd)" "sl = pullback_stop i sd" "r = \<bar>e - sl\<bar>"
    and "m = default_f64 (lit (14 / 10)) (pb_MinRR i)" "tps = pullback_targets i sd e r"
    and "tps' = pullback_final_targets sd e r m tps" "rr = \<bar>fst tps' - e\<bar> / r"
  shows "\<not> r < pb_TickSize i \<and> \<not> r \<le> Fin 0 \<and> \<not> not_finite r \<and> sane_levels sd e sl (fst tps) = None \<and> \<not> rr < m \<and>
    pullback_conditions i sd = None \<and> (\<exists>bytes. rand sd = Some bytes \<and> c = pullback_candidate now i sd bytes sl tps' rr)"
  using assms(1)
  unfolding generateTrendPullbackForSide_def Let_def assms(2-8) [symmetric]
  by (simp split: option.splits)

lemma first_target_not_NaN:
  assumes "fst (entryRiskTargets sd e r (Fin (3 / 2)) (Fin (5 / 2))) \<noteq> NaN"
  shows "fst (pullback_targets i sd e r) \<noteq> NaN"
proof
  assume "fst (pullback_targets i sd e r) = NaN"
  then have "closerPositive e (fst (entryRiskTargets sd e r (Fin (3 / 2)) (Fin (5 / 2))))
      (nearestAbove e (is_ResistanceLevels (pb_Snapshot15m i))) = NaN \<or>
    closerNegative e (fst (entryRiskTargets sd e r (Fin (3 / 2)) (Fin (5 / 2))))
      (nearestBelow e (is_SupportLevels (pb_Snapshot15m i))) = NaN"
    by (simp add: pullback_targets_def Let_def split: if_splits)
  with assms show False using nearest_not_NaN by blast
qed

lemma pullback_levels:
  assumes "generateTrendPullbackForSide now rand i sd = Inr c" "sd = SideLong \<or> sd = SideShort"
    and "is_f64 (c_Close (last (pb_Candles15m i)))"
  shows "tc_Side c = sd \<and> levels_ordered sd (tc_EntryPrice c) (tc_StopLoss c) (tpt_Price (hd (tc_TakeProfits c)))
    \<and> \<not> tc_RiskRewardRatio c < default_f64 (lit (14 / 10)) (pb_MinRR i)"
proof -
  define e where "e = snd (pullback_entry i sd)"
  define sl where "sl = pullback_stop i sd"
  define r where "r = \<bar>e - sl\<bar>"
  define m where "m = default_f64 (lit (14 / 10)) (pb_MinRR i)"
  define tps where "tps = pullback_targets i sd e r"
  define tps' where "tps' = pullback_final_targets sd e r m tps"
  define rr where "rr = \<bar>fst tps' - e\<bar> / r"
  obtain bytes where a: "\<not> r \<le> Fin 0" "\<not> not_finite r" "sane_levels sd e sl (fst tps) = None" "\<not> rr < m"
    and c: "c = pullback_candidate now i sd bytes sl tps' rr"
    using pullback_Inr [OF assms(1) e_def sl_def r_def m_def tps_def tps'_def rr_def] by (elim conjE exE)
  have f: "is_fin e" using a(2) minus_fin unfolding r_def by simp
  have r: "Fin 0 < r" using a(1,2) f64_not_le [of r "Fin 0"] by (auto simp: not_finite_def isNaN_def)
  have "fst tps \<noteq> NaN"
    unfolding tps_def by (rule first_target_not_NaN) (rule targets_not_NaN [OF f f64_less_imp_le [OF r] a(2)])
  then have o: "levels_ordered sd e sl (fst tps)" using sane_ordered a(2,3) assms(2) unfolding r_def by blast
  have "levels_ordered sd e sl (fst tps')"
  proof (cases "\<bar>fst tps - e\<bar> / r < m")
    case True
    then have t: "fst tps' = fst (entryRiskTargets sd e r (Fin (3 / 2)) (Fin (5 / 2)))"
      unfolding tps'_def by (simp add: pullback_final_targets_def Let_def)
    have m: "Fin 0 < m" using minRR_pos True unfolding m_def .
    have "is_f64 e" unfolding e_def by (rule is_f64_entry(1) [OF assms(3)])
    from fallback_ordered [OF o this r a(2) f m t] a(4) show ?thesis unfolding rr_def .
  next
    case False
    then show ?thesis using o unfolding tps'_def by (simp add: pullback_final_targets_def)
  qed
  with a(4) c show ?thesis by (simp add: pullback_candidate_def e_def m_def)
qed

lemma find_Some_P: "List.find P xs = Some x \<Longrightarrow> P x"
  by (auto simp: find_Some_iff)

lemma broken_level_side:
  assumes "broken_level candles snap sd idx = Some lvl"
  shows "\<exists>price. if sd = SideLong then lvl < price else price < lvl"
  using assms by (auto simp: broken_level_def Let_def dest!: find_Some_P split: if_splits)

lemma findBreakout_prior:
  assumes "findBreakout candles snap sd = Some (lvl, idx, prior)"
  shows "if sd = SideLong then lvl \<noteq> PInf \<and> prior = nearestBelow lvl (is_SupportLevels snap)
         else lvl \<noteq> NInf \<and> prior = nearestAbove lvl (is_ResistanceLevels snap)"
    and "lvl \<noteq> NaN"
proof -
  have "broken_level candles snap sd idx = Some lvl"
    and p: "prior = (if sd = SideLong then nearestBelow lvl (is_SupportLevels snap)
                     else nearestAbove lvl (is_ResistanceLevels snap))"
    using assms by (auto simp: findBreakout_def Let_def dest!: find_Some_P split: option.splits)
  from broken_level_side [OF this(1)] obtain price where "if sd = SideLong then lvl < price else price < lvl" ..
  then have "lvl \<noteq> NaN \<and> (if sd = SideLong then lvl \<noteq> PInf else lvl \<noteq> NInf)"
    using cmp_not_NaN(2) by (cases lvl) (auto split: if_splits)
  with p show "if sd = SideLong then lvl \<noteq> PInf \<and> prior = nearestBelow lvl (is_SupportLevels snap)
         else lvl \<noteq> NInf \<and> prior = nearestAbove lvl (is_ResistanceLevels snap)" and "lvl \<noteq> NaN"
    by auto
qed

lemma nearest_at_infinity: "nearestBelow NInf ls = Fin 0" "nearestAbove PInf ls = Fin 0"
proof -
  have "foldl (\<lambda>best lvl. if lvl < NInf \<and> (feq best (Fin 0) \<or> best < lvl) then lvl else best) b ls = b" for b
    by (induction ls) auto
  then show "nearestBelow NInf ls = Fin 0" by (simp add: nearestBelow_def)
  have "foldl (\<lambda>best lvl. if PInf < lvl \<and> (feq best (Fin 0) \<or> lvl < best) then lvl else best) b ls = b" for b
    by (induction ls) auto
  then show "nearestAbove PInf ls = Fin 0" by (simp add: nearestAbove_def)
qed

lemma fin_plus_not_NaN: "is_fin x \<Longrightarrow> y \<noteq> NaN \<Longrightarrow> x + y \<noteq> NaN"
  by (cases x; cases y) (auto simp: plus_f64_def isInf_def zero_of_def)

lemma projected_not_NaN:
  assumes "is_fin lvl" "prior \<noteq> NaN"
  shows "lvl + (lvl - prior) \<noteq> NaN" "lvl - (prior - lvl) \<noteq> NaN"
proof -
  have "lvl - prior \<noteq> NaN" using fin_plus_not_NaN [of lvl "fneg prior"] assms by (simp add: minus_f64_plus)
  then show "lvl + (lvl - prior) \<noteq> NaN" using fin_plus_not_NaN assms(1) by blast
  have "is_fin (fneg lvl)" using assms(1) by (cases lvl) auto
  then have "prior - lvl \<noteq> NaN"
    using assms(2) by (cases prior; cases lvl) (auto simp: minus_f64_plus plus_f64_def isInf_def zero_of_def)
  then show "lvl - (prior - lvl) \<noteq> NaN" using fin_plus_not_NaN [of lvl "fneg (prior - lvl)"] assms(1)
    by (simp add: minus_f64_plus)
qed

lemma projection_of_breakout:
  assumes "findBreakout candles snap sd = Some (lvl, idx, prior)"
  shows "(if sd = SideLong then lvl + (lvl - prior) else lvl - (prior - lvl)) \<noteq> NaN"
proof (cases "is_fin lvl")
  case True
  have "prior \<noteq> NaN"
    using findBreakout_prior(1) [OF assms] nearestAbove_not_NaN nearestBelow_not_NaN by (auto split: if_splits)
  with True show ?thesis using projected_not_NaN by simp
next
  case False
  then have "if sd = SideLong then lvl = NInf \<and> prior = Fin 0 else lvl = PInf \<and> prior = Fin 0"
    using findBreakout_prior [OF assms] nearest_at_infinity by (cases lvl) (auto split: if_splits)
  then show ?thesis
    by (auto simp: minus_f64_def plus_f64_def isInf_def split: if_splits)
qed

lemma breakout_tp1_not_NaN:
  assumes "findBreakout candles snap sd = Some (lvl, idx, prior)" "is_fin entry" "Fin 0 \<le> r" "\<not> not_finite r"
  shows "breakout_tp1 i sd lvl prior entry r \<noteq> NaN"
proof -
  have f: "sd = SideLong \<Longrightarrow> entry + Fin (3 / 2) * r \<noteq> NaN" "sd \<noteq> SideLong \<Longrightarrow> entry - Fin (3 / 2) * r \<noteq> NaN"
    using targets_not_NaN [OF assms(2-4), of sd "Fin 0"] by (simp_all add: entryRiskTargets_def)
  note p = projection_of_breakout [OF assms(1)]
  show ?thesis
  proof (cases "sd = SideLong")
    case True
    then show ?thesis using p f(1) nearestAbove_not_NaN by (simp add: breakout_tp1_def Let_def)
  next
    case False
    then show ?thesis using p f(2) nearestBelow_not_NaN by (simp add: breakout_tp1_def Let_def)
  qed
qed

lemma breakout_levels_Inr:
  assumes "breakout_levels now rand i sd level priorLevel x = Inr c"
    and "e = snd (breakout_entry i sd level)" "sl = breakout_stop i sd level x e" "r = \<bar>e - sl\<bar>"
    and "tp1 = breakout_tp1 i sd level priorLevel e r" "rr = \<bar>tp1 - e\<bar> / r"
  shows "\<not> r < bo_TickSize i \<and> \<not> r \<le> Fin 0 \<and> \<not> not_finite r \<and> breakout_sane_levels sd e sl tp1 = None \<and>
    \<not> rr < default_f64 (lit (14 / 10)) (bo_MinRR i) \<and>
    (\<exists>bytes. rand sd = Some bytes \<and> c = breakout_candidate now i sd bytes level sl tp1 rr)"
  using assms(1)
  unfolding breakout_levels_def Let_def assms(2-6) [symmetric]
  by (simp split: option.splits)

lemma breakout_Inr:
  assumes "generateBreakoutRetestForSide now rand i sd = Inr c"
  shows "\<exists>level idx prior x.
    findBreakout (bo_Candles15m i) (bo_Snapshot15m i) sd = Some (level, idx, prior) \<and>
    findRetest (bo_Candles15m i) idx level (is_ATR14 (bo_Snapshot15m i)) sd = Some x \<and>
    confirmation_error i sd level = None \<and> breakout_preconditions i sd = None \<and>
    breakout_levels now rand i sd level prior x = Inr c"
  using assms unfolding generateBreakoutRetestForSide_def Let_def
  by (simp split: option.splits prod.splits)

lemma breakout_levels_ordered:
  assumes "generateBreakoutRetestForSide now rand i sd = Inr c" "sd = SideLong \<or> sd = SideShort"
  shows "tc_Side c = sd \<and> levels_ordered sd (tc_EntryPrice c) (tc_StopLoss c) (tpt_Price (hd (tc_TakeProfits c)))
    \<and> (sd = SideLong \<longrightarrow> \<not> tc_StopLoss c \<le> Fin 0)
    \<and> \<not> tc_RiskRewardRatio c < default_f64 (lit (14 / 10)) (bo_MinRR i)"
proof -
  from breakout_Inr [OF assms(1)] obtain level idx prior x where
    b: "findBreakout (bo_Candles15m i) (bo_Snapshot15m i) sd = Some (level, idx, prior)" and
    l: "breakout_levels now rand i sd level prior x = Inr c" by blast
  define e where "e = snd (breakout_entry i sd level)"
  define sl where "sl = breakout_stop i sd level x e"
  define r where "r = \<bar>e - sl\<bar>"
  define tp1 where "tp1 = breakout_tp1 i sd level prior e r"
  define rr where "rr = \<bar>tp1 - e\<bar> / r"
  obtain bytes where a: "\<not> r \<le> Fin 0" "\<not> not_finite r" "breakout_sane_levels sd e sl tp1 = None"
      "\<not> rr < default_f64 (lit (14 / 10)) (bo_MinRR i)"
    and c: "c = breakout_candidate now i sd bytes level sl tp1 rr"
    using breakout_levels_Inr [OF l e_def sl_def r_def tp1_def rr_def] by (elim conjE exE)
  have f: "is_fin e" using a(2) minus_fin unfolding r_def by simp
  have r: "Fin 0 < r" using a(1,2) f64_not_le [of r "Fin 0"] by (auto simp: not_finite_def isNaN_def)
  have "tp1 \<noteq> NaN" unfolding tp1_def by (rule breakout_tp1_not_NaN [OF b f f64_less_imp_le [OF r] a(2)])
  then have "levels_ordered sd e sl tp1"
    using breakout_sane_ordered a(2,3) assms(2) unfolding r_def by blast
  moreover have "sd = SideLong \<longrightarrow> \<not> sl \<le> Fin 0" using a(3) by (auto simp: breakout_sane_levels_def)
  ultimately show ?thesis using a(4) c by (simp add: breakout_candidate_def Let_def e_def)
qed

section \<open>Candidates\<close>

text \<open>
  Every candidate a strategy emits is a long with the stop below and the first target above its entry
  or a short with the stop above and the first target below, and its ratio is not below the configured
  minimum (1.4 when none is configured).
\<close>

theorem strategy_levels_ordered:
  assumes "GenerateTrendPullback now rand i = Inr c \<and> is_f64 (c_Close (last (pb_Candles15m i))) \<and>
             minRR = default_f64 (lit (14 / 10)) (pb_MinRR i)
         \<or> GenerateBreakoutRetest now rand j = Inr c \<and> minRR = default_f64 (lit (14 / 10)) (bo_MinRR j)"
  shows "(tc_Side c = SideLong \<and> tc_StopLoss c < tc_EntryPrice c \<and>
            tc_EntryPrice c < tpt_Price (hd (tc_TakeProfits c))
        \<or> tc_Side c = SideShort \<and> tpt_Price (hd (tc_TakeProfits c)) < tc_EntryPrice c \<and>
            tc_EntryPrice c < tc_StopLoss c) \<and>
        \<not> tc_RiskRewardRatio c < minRR"
proof -
  have "\<exists>sd. (generateTrendPullbackForSide now rand i sd = Inr c \<and> is_f64 (c_Close (last (pb_Candles15m i))) \<and>
             minRR = default_f64 (lit (14 / 10)) (pb_MinRR i)
         \<or> generateBreakoutRetestForSide now rand j sd = Inr c \<and> minRR = default_f64 (lit (14 / 10)) (bo_MinRR j))
         \<and> (sd = SideLong \<or> sd = SideShort)"
    using assms unfolding GenerateTrendPullback_def GenerateBreakoutRetest_def by (auto dest!: first_side_Inr)
  then obtain sd where sd: "sd = SideLong \<or> sd = SideShort"
    and g: "generateTrendPullbackForSide now rand i sd = Inr c \<and> is_f64 (c_Close (last (pb_Candles15m i))) \<and>
             minRR = default_f64 (lit (14 / 10)) (pb_MinRR i)
         \<or> generateBreakoutRetestForSide now rand j sd = Inr c \<and> minRR = default_f64 (lit (14 / 10)) (bo_MinRR j)"
    by blast
  have "tc_Side c = sd \<and> levels_ordered sd (tc_EntryPrice c) (tc_StopLoss c) (tpt_Price (hd (tc_TakeProfits c)))
    \<and> \<not> tc_RiskRewardRatio c < minRR"
    using g pullback_levels [OF _ sd] breakout_levels_ordered [OF _ sd] by blast
  then show ?thesis by (auto simp: levels_ordered_def)
qed

definition bar :: "int \<Rightarrow> rat \<Rightarrow> rat \<Rightarrow> rat \<Rightarrow> rat \<Rightarrow> rat \<Rightarrow> candle" where
  "bar t op hi lo cl vol =
    \<lparr> c_Symbol = ''BTCUSDT'', c_Timeframe = ''15m'', c_OpenTime = t, c_Open = Fin op, c_High = Fin hi,
      c_Low = Fin lo, c_Close = Fin cl, c_Volume = Fin vol, c_TurnOver = Fin 0, c_Confirmed = True \<rparr>"

definition demo_breakout :: breakout_input where
  "demo_breakout =
    \<lparr> bo_Now = 0, bo_Symbol = ''BTCUSDT'', bo_Timeframe = ''15m'', bo_TickSize = Fin (1 / 2),
      bo_Candles15m =
        replicate 22 (bar 0 100 101 99 100 10) @ [bar 1 100 104 100 104 20, bar 2 104 104 102 102 10] @
        replicate 5 (bar 3 102 103 101 102 10) @ [bar 4 101 103 101 103 10],
      bo_Snapshot15m = demo_snapshot\<lparr>is_ATR14 := Fin 8, is_ResistanceLevels := [Fin 102], is_SupportLevels := []\<rparr>,
      bo_Snapshot1h = demo_snapshot, bo_IndicatorSnapshotRef = [], bo_RegimeSnapshotRef = [],
      bo_MinSLDistanceATRMultiplier = Fin 0, bo_MinSLDistancePct = Fin 0, bo_MinRR = Fin 0 \<rparr>"

lemma demo_breakout:
  "\<not> isl (generateBreakoutRetestForSide 1 (\<lambda>_. Some (replicate 16 0)) demo_breakout SideLong)"
proof -
  have "breakout_preconditions demo_breakout SideLong = None"
    and "findBreakout (bo_Candles15m demo_breakout) (bo_Snapshot15m demo_breakout) SideLong = Some (Fin 102, 22, Fin 0)"
    and "findRetest (bo_Candles15m demo_breakout) 22 (Fin 102) (is_ATR14 (bo_Snapshot15m demo_breakout)) SideLong
      = Some (Fin 101)"
    and "confirmation_error demo_breakout SideLong (Fin 102) = None"
    and "\<not> isl (breakout_levels 1 (\<lambda>_. Some (replicate 16 0)) demo_breakout SideLong (Fin 102) (Fin 0) (Fin 101))"
    by code_simp+
  then show ?thesis by (simp add: generateBreakoutRetestForSide_def)
qed

lemma strategy_levels_ordered_witness:
  "\<exists>c. GenerateBreakoutRetest 1 (\<lambda>_. Some (replicate 16 0)) demo_breakout = Inr c \<and>
     \<not> tc_RiskRewardRatio c < default_f64 (lit (14 / 10)) (Fin 0)"
proof -
  obtain c where c: "GenerateBreakoutRetest 1 (\<lambda>_. Some (replicate 16 0)) demo_breakout = Inr c"
    using demo_breakout
    by (cases "generateBreakoutRetestForSide 1 (\<lambda>_. Some (replicate 16 0)) demo_breakout SideLong")
       (auto simp: GenerateBreakoutRetest_def first_side_def)
  then show ?thesis
    using strategy_levels_ordered
      [where c = c and minRR = "default_f64 (lit (14 / 10)) (Fin 0)" and now = 1 and
        rand = "\<lambda>_. Some (replicate 16 0)" and j = demo_breakout]
    by (auto simp: demo_breakout_def)
qed

section \<open>The stop guard\<close>

lemma key_minus: "is_fin x \<Longrightarrow> is_fin y \<Longrightarrow> key (x - y) = key (rnd (val x - val y))"
  by (cases x; cases y) (auto simp: minus_f64_def plus_f64_def isInf_def zero_of_def)

lemma key_plus: "is_fin x \<Longrightarrow> is_fin y \<Longrightarrow> key (x + y) = key (rnd (val x + val y))"
  by (cases x; cases y) (auto simp: plus_f64_def isInf_def zero_of_def)

lemma key_fin: "is_fin x \<Longrightarrow> key x = key (Fin (val x))"
  by (cases x) auto

lemma key_abs: "(0, 0) \<le> key x \<Longrightarrow> key \<bar>x\<bar> = key x" "key x \<le> (0, 0) \<Longrightarrow> x \<noteq> NaN \<Longrightarrow> key \<bar>x\<bar> = key (fneg x)"
  by (cases x; auto simp: abs_f64_def)+

lemma widened_stop:
  assumes "is_f64 s" "is_f64 d" "is_fin e" "is_fin s" "is_fin d" "\<bar>e - s\<bar> < d"
  shows "s \<le> e \<Longrightarrow> e - d \<le> s" and "e \<le> s \<Longrightarrow> s \<le> e + d"
proof -
  have r: "repr (val s)" "repr (val d)"
    using assms(1,2,4,5) by (cases s; cases d; simp add: is_f64_Fin)+
  have lt: "key \<bar>e - s\<bar> < key (Fin (val d))"
    using assms(5,6) key_fin by (simp add: less_f64_def)
  show "e - d \<le> s" if "s \<le> e"
  proof -
    have "val s \<le> val e" using that assms(3,4) by (cases s; cases e) auto
    then have "key \<bar>e - s\<bar> = key (rnd (val e - val s))"
      using key_abs(1) [of "e - s"] key_minus [OF assms(3,4)] key_rnd_nonneg [of "val e - val s"] by simp
    then have "val e - val s < val d"
      using lt rnd_ge [OF _ r(2), of "val e - val s"] by (fastforce simp: less_eq_f64_def)
    then have "rnd (val e - val d) \<le> Fin (val s)" by (intro rnd_le r) simp
    then show ?thesis
      using key_minus [OF assms(3,5)] key_fin [OF assms(4)] minus_not_NaN [OF assms(3,5)] assms(4)
      by (auto simp: less_eq_f64_def)
  qed
  show "s \<le> e + d" if "e \<le> s"
  proof -
    have "val e \<le> val s" using that assms(3,4) by (cases s; cases e) auto
    then have k: "key (e - s) = key (rnd (val e - val s))" "key (e - s) \<le> (0, 0)"
      using key_minus [OF assms(3,4)] key_rnd_nonpos [of "val e - val s"] by auto
    then have "key \<bar>e - s\<bar> = key (rnd (val s - val e))"
      using key_abs(2) [OF k(2) minus_not_NaN [OF assms(3,4)]] key_fneg [OF minus_not_NaN [OF assms(3,4)]]
        key_fneg [of "rnd (val e - val s)"] rnd_uminus [of "val e - val s"]
      by (cases "val e = val s") auto
    then have "val s - val e < val d"
      using lt rnd_ge [OF _ r(2), of "val s - val e"] by (fastforce simp: less_eq_f64_def)
    then have "Fin (val s) \<le> rnd (val e + val d)" by (intro rnd_ge r) simp
    then show ?thesis
      using key_plus [OF assms(3,5)] key_fin [OF assms(4)] plus_not_NaN [OF assms(3,5)] assms(4)
      by (auto simp: less_eq_f64_def)
  qed
qed

text \<open>
  The minimum-distance guard never moves a stop towards the entry: a stop on the losing side stays where
  it is or moves away, for longs and for shorts.
\<close>

theorem stop_never_tightened:
  assumes "is_f64 currentSL"
  shows "(currentSL \<le> entry \<longrightarrow> fst (EnforceMinSLDistance entry currentSL atr SideLong k p) \<le> currentSL) \<and>
         (entry \<le> currentSL \<longrightarrow> currentSL \<le> fst (EnforceMinSLDistance entry currentSL atr SideShort k p))"
proof -
  define d where "d = math_Max (k * (if atr < Fin 0 then Fin 0 else atr)) (entry * priceAwareMinSLPct entry p / Fin 100)"
  have is_d: "is_f64 d"
    using math_Max_cases [of "k * (if atr < Fin 0 then Fin 0 else atr)" "entry * priceAwareMinSLPct entry p / Fin 100"]
    unfolding d_def by auto
  have cases: "fst (EnforceMinSLDistance entry currentSL atr sd k p) = currentSL \<or>
      is_fin entry \<and> is_fin currentSL \<and> is_fin d \<and> \<not> d \<le> \<bar>entry - currentSL\<bar> \<and>
      fst (EnforceMinSLDistance entry currentSL atr sd k p) = (if sd = SideLong then entry - d else entry + d)" for sd
    unfolding EnforceMinSLDistance_def Let_def d_def [symmetric]
    using minus_fin [of entry d] plus_fin [of entry d]
    by (auto simp: not_finite_def is_fin_def)
  have lt: "\<bar>entry - currentSL\<bar> < d" if "is_fin entry" "is_fin currentSL" "is_fin d" "\<not> d \<le> \<bar>entry - currentSL\<bar>"
    using that minus_not_NaN [OF that(1,2)] f64_not_le [of d "\<bar>entry - currentSL\<bar>"] by (auto simp: is_fin_def isNaN_def)
  have "fst (EnforceMinSLDistance entry currentSL atr SideLong k p) \<le> currentSL" if "currentSL \<le> entry"
    using cases [of SideLong] widened_stop(1) [OF assms is_d _ _ _ lt that] cmp_not_NaN(1) [OF that] f64_le_refl
    by auto
  moreover have "currentSL \<le> fst (EnforceMinSLDistance entry currentSL atr SideShort k p)" if "entry \<le> currentSL"
    using cases [of SideShort] widened_stop(2) [OF assms is_d _ _ _ lt that] cmp_not_NaN(1) [OF that] f64_le_refl
    by auto
  ultimately show ?thesis by blast
qed

lemma stop_never_tightened_witness:
  "fst (EnforceMinSLDistance (Fin 100) (Fin 99) (Fin 2) SideLong (Fin 1) (Fin 0)) \<le> Fin 99"
proof -
  have "repr 99" using repr_of_int [of 99] by simp
  then show ?thesis
    using stop_never_tightened [of "Fin 99" "Fin 100" "Fin 2" "Fin 1" "Fin 0"] by (simp add: is_f64_Fin)
qed

section \<open>The multiplier and the setup detector\<close>

lemma multiplier_above_three: "QualityStopMultiplier (Fin 4) 30 (Fin 1) (Fin 1) = Fin 3"
  by code_simp

lemma sane_levels_accepts_negative_stop:
  "sane_levels SideLong (Fin 1) (Fin (- 1)) (Fin 2) = None \<and>
   breakout_sane_levels SideLong (Fin 1) (Fin (- 1)) (Fin 2) \<noteq> None"
  by (simp add: sane_levels_def breakout_sane_levels_def fail_if_def)

lemma DetectSetup_total: "0 \<le> sc_RangeCandles cfg \<Longrightarrow> DetectSetup candles atr ema200 regime cfg \<noteq> None"
  by (auto simp: DetectSetup_def Let_def split: prod.splits)

lemma setup_score_range: "Fin 0 \<le> computeSetupScore v b regime x cfg \<and> computeSetupScore v b regime x cfg \<le> Fin 100"
proof -
  have n: "x + Fin a \<noteq> NaN" "x - Fin a \<noteq> NaN" if "x \<noteq> NaN" for x a
    using that by (cases x; auto simp: minus_f64_def plus_f64_def isInf_def zero_of_def)+
  show ?thesis
    unfolding computeSetupScore_def Let_def
    by (auto simp: n f64_not_less split: if_splits)
qed

end
