(* ===== verification/Routing.thy ===== *)
theory Routing
  imports Scoring
begin

text \<open>
  LLM routing (\<open>internal/routing/routing.go\<close>): the ambiguity flags of a candidate, the decision between
  rejecting, sending to the LLM veto and skipping it, and the order in which candidates are reviewed.
\<close>

section \<open>Data\<close>

record ambiguity_flags =
  af_NearResistance :: bool
  af_NearSupport :: bool
  af_BTCNearResistance :: bool
  af_BTCNearSupport :: bool
  af_TargetOutperformingShortTerm :: bool
  af_MixedTimeframeTrend :: bool
  af_VolumeNotStrong :: bool
  af_Overextended :: bool
  af_MarketRegimeMixed :: bool
  af_EntryChasing :: bool
  af_RSMismatchShortTerm :: bool

datatype route = RouteRejectPreLLM | RouteLLMVeto | RouteSkipLLM

record route_result =
  rr_Route :: route
  rr_Flags :: ambiguity_flags
  rr_Score :: f64
  rr_Reason :: string
  rr_FlagCount :: int
  rr_LLMCandidate :: bool

record routing_engine =
  re_MinScoreLLM :: f64
  re_MinScoreSkipLLM :: f64
  re_MaxLLMCallsPerCycle :: int
  re_ReduceNewPositions :: int

definition DefaultRoutingEngine :: routing_engine where
  "DefaultRoutingEngine =
    \<lparr> re_MinScoreLLM = Fin 58, re_MinScoreSkipLLM = Fin 90, re_MaxLLMCallsPerCycle = 0, re_ReduceNewPositions = 0 \<rparr>"

definition no_flags :: ambiguity_flags where
  "no_flags =
    \<lparr> af_NearResistance = False, af_NearSupport = False, af_BTCNearResistance = False, af_BTCNearSupport = False,
      af_TargetOutperformingShortTerm = False, af_MixedTimeframeTrend = False, af_VolumeNotStrong = False,
      af_Overextended = False, af_MarketRegimeMixed = False, af_EntryChasing = False,
      af_RSMismatchShortTerm = False \<rparr>"

section \<open>Ambiguity\<close>

definition level_close :: "f64 \<Rightarrow> f64 \<Rightarrow> f64 \<Rightarrow> bool" where
  "level_close entry atr lvl \<longleftrightarrow> \<bar>entry - lvl\<bar> / entry < atr / entry * Fin (3 / 2)"

definition near_levels :: "f64 \<Rightarrow> f64 \<Rightarrow> f64 list \<Rightarrow> bool" where
  "near_levels entry atr levels \<longleftrightarrow> Fin 0 < atr \<and> Fin 0 < entry \<and> list_ex (level_close entry atr) levels"

definition DetectAmbiguity ::
  "indicator_snapshot \<Rightarrow> indicator_snapshot \<Rightarrow> regime_snapshot \<Rightarrow> score_result \<Rightarrow> trade_candidate \<Rightarrow> ambiguity_flags" where
  "DetectAmbiguity snap15m snap1h rg score tc =
    (let atr = is_ATR14 snap15m; rs = rg_RelativeStrength rg;
         shortTerm = (Fin (1 / 2) < rs_RS1H rs \<and> rs_RS4H rs < Fin (- 1 / 2))
     in \<lparr> af_NearResistance = near_levels (tc_EntryPrice tc) atr (is_ResistanceLevels snap15m),
          af_NearSupport = near_levels (tc_EntryPrice tc) atr (is_SupportLevels snap15m),
          af_BTCNearResistance = list_ex (\<lambda>f. f = ''BTCNearMajorResistance'') (rg_BTCFiltersTriggered rg),
          af_BTCNearSupport = list_ex (\<lambda>f. f = ''BTCNearMajorSupport'') (rg_BTCFiltersTriggered rg),
          af_TargetOutperformingShortTerm = shortTerm,
          af_MixedTimeframeTrend =
            (ea_PriceAboveEMA50 (is_EMAAlignment snap15m) \<noteq> ea_PriceAboveEMA50 (is_EMAAlignment snap1h)),
          af_VolumeNotStrong = (Fin 1 < is_VolumeRatio snap15m \<and> is_VolumeRatio snap15m < Fin (3 / 2)),
          af_Overextended =
            (Fin 0 < atr \<and> atr * Fin (3 / 2) < \<bar>tc_EntryPrice tc - is_LastClosePrice snap15m\<bar>),
          af_MarketRegimeMixed = (rg_Warnings rg \<noteq> []),
          af_EntryChasing = (tc_EntryType tc = CandidateEntryMarket \<and> tc_Strategy tc = StrategyBreakoutRetest),
          af_RSMismatchShortTerm =
            (shortTerm \<or> rs_Classification rs = ''underperform'' \<and> Fin 0 < rs_RS1H rs) \<rparr>)"

definition countFlags :: "ambiguity_flags \<Rightarrow> int" where
  "countFlags f =
    int (length (filter (\<lambda>b. b)
      [af_NearResistance f, af_NearSupport f, af_BTCNearResistance f, af_BTCNearSupport f,
       af_TargetOutperformingShortTerm f, af_MixedTimeframeTrend f, af_VolumeNotStrong f, af_Overextended f,
       af_MarketRegimeMixed f, af_EntryChasing f, af_RSMismatchShortTerm f]))"

section \<open>Routing\<close>

definition rangingStaleReason :: "bool \<Rightarrow> bool \<Rightarrow> string" where
  "rangingStaleReason ranging stale =
    (if ranging then (if stale then ''market_ranging,btc_data_stale'' else ''market_ranging'')
     else if stale then ''btc_data_stale'' else [])"

definition reject_route :: "f64 \<Rightarrow> string \<Rightarrow> route_result" where
  "reject_route score reason =
    \<lparr> rr_Route = RouteRejectPreLLM, rr_Flags = no_flags, rr_Score = score, rr_Reason = reason, rr_FlagCount = 0,
      rr_LLMCandidate = False \<rparr>"

definition llm_budget :: "int \<Rightarrow> int \<Rightarrow> bool" where
  "llm_budget calls maxCalls \<longleftrightarrow> maxCalls \<le> 0 \<or> calls < maxCalls"

definition RouteCandidate ::
  "routing_engine \<Rightarrow> f64 \<Rightarrow> ambiguity_flags \<Rightarrow> int \<Rightarrow> int \<Rightarrow> bool \<Rightarrow> bool \<Rightarrow> route_result" where
  "RouteCandidate e score flags llmCallsThisCycle maxLLMPerCycle marketIsRanging btcDataStale =
    (let n = countFlags flags;
         to_llm = (\<lambda>reason. \<lparr> rr_Route = RouteLLMVeto, rr_Flags = flags, rr_Score = score, rr_Reason = reason,
                              rr_FlagCount = n, rr_LLMCandidate = True \<rparr>)
     in if not_finite score then reject_route score ''score is non-finite''
        else if score < re_MinScoreLLM e then reject_route score ''score below LLM minimum''
        else if (marketIsRanging \<or> btcDataStale) \<and> re_MinScoreLLM e \<le> score then
          (if llm_budget llmCallsThisCycle maxLLMPerCycle
           then to_llm (''forced LLM veto: '' @ rangingStaleReason marketIsRanging btcDataStale)
           else reject_route score ''LLM budget exhausted (forced ranging/stale route)'')
        else if re_MinScoreSkipLLM e \<le> score then
          \<lparr> rr_Route = RouteSkipLLM, rr_Flags = flags, rr_Score = score, rr_Reason = ''high score, skip LLM veto'',
            rr_FlagCount = n, rr_LLMCandidate = False \<rparr>
        else if llm_budget llmCallsThisCycle maxLLMPerCycle
        then to_llm ''ambiguous candidate, send to LLM veto''
        else reject_route score ''LLM budget exhausted'')"

text \<open>\<open>sort.SliceStable\<close> by descending flag count, ties by descending score.\<close>

definition more_urgent :: "route_result \<Rightarrow> route_result \<Rightarrow> bool" where
  "more_urgent a b =
    (if rr_FlagCount a \<noteq> rr_FlagCount b then rr_FlagCount b < rr_FlagCount a else rr_Score b < rr_Score a)"

definition PrioritizeCandidates :: "route_result list \<Rightarrow> route_result list" where
  "PrioritizeCandidates candidates = insertion_sort more_urgent candidates"

definition ComputeReduceNewPositions :: "int \<Rightarrow> int \<Rightarrow> bool \<Rightarrow> bool \<Rightarrow> int" where
  "ComputeReduceNewPositions maxNewPositions reduceBy isRanging reduceEnabled =
    (if \<not> isRanging \<or> \<not> reduceEnabled then maxNewPositions
     else let result = wrap64 (maxNewPositions - reduceBy) in if result < 1 then 1 else result)"

end
