(* ===== verification/RoutingSpec.thy ===== *)
theory RoutingSpec
  imports Routing
begin

text \<open>
  The routing decision as a function of the score band, the forced reviews and the call budget, and the
  order of the review queue.
\<close>

section \<open>Decision\<close>

lemma ranging_reason_nonempty: "rangingStaleReason r s = [] \<longleftrightarrow> \<not> r \<and> \<not> s"
  by (simp add: rangingStaleReason_def)

lemma countFlags_range: "0 \<le> countFlags f" "countFlags f \<le> 11"
  by (simp_all add: countFlags_def)

lemma countFlags_zero: "countFlags f = 0 \<longleftrightarrow> f = no_flags"
  by (cases f) (auto simp: countFlags_def no_flags_def)

text \<open>
  A candidate skips the language model only when its score is a finite number in the top band and the
  market is neither ranging nor stale; it is sent to the model exactly when its score is finite and not below
  the minimum, calls are left, and either the market forces a review or the score is below the top band; in
  every other case it is rejected. The flags of a candidate that is not rejected are the detected ones, with
  their count.
\<close>

theorem routing_exact:
  fixes e :: routing_engine
  assumes "re_MinScoreLLM e \<noteq> NaN"
  defines "ok s \<equiv> \<not> not_finite s \<and> \<not> s < re_MinScoreLLM e"
  shows "(rr_Route (RouteCandidate e s fl n mx ranging stale) = RouteSkipLLM \<longleftrightarrow>
      ok s \<and> \<not> ranging \<and> \<not> stale \<and> re_MinScoreSkipLLM e \<le> s) \<and>
    (rr_Route (RouteCandidate e s fl n mx ranging stale) = RouteLLMVeto \<longleftrightarrow>
      ok s \<and> (mx \<le> 0 \<or> n < mx) \<and> (ranging \<or> stale \<or> \<not> re_MinScoreSkipLLM e \<le> s)) \<and>
    (rr_LLMCandidate (RouteCandidate e s fl n mx ranging stale) \<longleftrightarrow>
      rr_Route (RouteCandidate e s fl n mx ranging stale) = RouteLLMVeto) \<and>
    (rr_Route (RouteCandidate e s fl n mx ranging stale) \<noteq> RouteRejectPreLLM \<longrightarrow>
      rr_Flags (RouteCandidate e s fl n mx ranging stale) = fl \<and>
      rr_FlagCount (RouteCandidate e s fl n mx ranging stale) = countFlags fl)"
proof -
  have "re_MinScoreLLM e \<le> s" if "\<not> not_finite s" "\<not> s < re_MinScoreLLM e"
    using that assms(1) f64_not_less [of s "re_MinScoreLLM e"] by (auto simp: not_finite_def isNaN_def)
  then show ?thesis
    unfolding ok_def by (auto simp: RouteCandidate_def Let_def reject_route_def llm_budget_def)
qed

theorem routing_exact_witness:
  "re_MinScoreLLM DefaultRoutingEngine \<noteq> NaN \<and>
   rr_Route (RouteCandidate DefaultRoutingEngine (Fin 91) no_flags 0 0 False False) = RouteSkipLLM \<and>
   rr_Route (RouteCandidate DefaultRoutingEngine (Fin 91) no_flags 0 0 True False) = RouteLLMVeto"
  using routing_exact [of DefaultRoutingEngine "Fin 91" no_flags 0 0 False False]
    routing_exact [of DefaultRoutingEngine "Fin 91" no_flags 0 0 True False]
  by (simp add: DefaultRoutingEngine_def not_finite_def isNaN_def isInf_def)

section \<open>Review queue\<close>

text \<open>The queue is a rearrangement of the candidates in which nobody stands behind a less urgent one.\<close>

lemma PrioritizeCandidates_sorted:
  assumes "\<forall>r\<in>set rs. rr_Score r \<noteq> NaN"
  shows "mset (PrioritizeCandidates rs) = mset rs \<and>
    sorted_wrt (\<lambda>a b. \<not> more_urgent b a) (PrioritizeCandidates rs)"
proof -
  have "sorted_wrt (\<lambda>a b. \<not> more_urgent b a) (insertion_sort more_urgent rs)"
  proof (rule insertion_sort_sorted [where S = "{r. rr_Score r \<noteq> NaN}"])
    show "\<not> more_urgent b a" if "more_urgent a b" for a b :: route_result
      using that f64_less_asym [of "rr_Score b" "rr_Score a"] f64_less_imp_le
      by (auto simp: more_urgent_def split: if_splits)
    show "\<not> more_urgent a c"
      if "a \<in> {r. rr_Score r \<noteq> NaN}" "b \<in> {r. rr_Score r \<noteq> NaN}" "c \<in> {r. rr_Score r \<noteq> NaN}"
        "\<not> more_urgent a b" "\<not> more_urgent b c" for a b c :: route_result
      using that f64_le_trans [of "rr_Score a" "rr_Score b" "rr_Score c"]
      by (auto simp: more_urgent_def f64_not_less split: if_splits)
  qed (use assms in auto)
  then show ?thesis by (simp add: PrioritizeCandidates_def)
qed

lemma ComputeReduceNewPositions_pos:
  "ranging \<Longrightarrow> enabled \<Longrightarrow> 1 \<le> ComputeReduceNewPositions mx by' ranging enabled"
  by (simp add: ComputeReduceNewPositions_def Let_def)

text \<open>A limit of zero is raised to one by the reduction.\<close>

lemma reduction_raises_zero: "ComputeReduceNewPositions 0 1 True True = 1"
  by (simp add: ComputeReduceNewPositions_def)

end
