(* ===== verification/Store.thy ===== *)
theory Store
  imports Domain "HOL-Library.List_Lexorder" "HOL-Library.Char_ord"
begin

text \<open>
  The repositories (\<open>internal/db/postgres_impl.go\<close>, interfaces in \<open>repositories.go\<close>): every table is a
  list of rows in the order of insertion, every method the effect of its SQL statement on them. What the
  database itself adds is the list \<open>db_faults\<close>: one entry per statement says whether the driver reports an
  error, in which case the statement had no effect; after the list is used up every statement succeeds. It
  stands for lost connections and for every constraint that is not modelled (column widths, JSON and UUID
  syntax). The field \<open>db_numeric\<close> is what a \<open>NUMERIC(20,8)\<close> column gives back for the number that was written to it, which is the
  database's affair: any function may stand there. The candles go through it; the columns of the other tables
  keep the written value, and the rounding of timestamps to microseconds is not modelled. Rows that \<open>ORDER BY\<close> leaves tied come in the order of insertion. String
  slices are stored as JSON text and read back unchanged, a nil slice as the empty one.
\<close>

section \<open>Tables\<close>

datatype db_error = DbError string | CycleNotFound string

text \<open>A table with a \<open>BIGSERIAL\<close> key: the rows with their keys and the last key given out.\<close>

record 'a serial_table =
  tb_rows :: "(int \<times> 'a) list"
  tb_seq :: int

definition empty_table :: "'a serial_table" where
  "empty_table = \<lparr> tb_rows = [], tb_seq = 0 \<rparr>"

definition tb_append :: "'a \<Rightarrow> 'a serial_table \<Rightarrow> 'a serial_table" where
  "tb_append x t = t\<lparr>tb_rows := tb_rows t @ [(tb_seq t + 1, x)], tb_seq := tb_seq t + 1\<rparr>"

definition tb_map :: "(int \<times> 'a \<Rightarrow> bool) \<Rightarrow> ('a \<Rightarrow> 'a) \<Rightarrow> 'a serial_table \<Rightarrow> 'a serial_table" where
  "tb_map P f t = t\<lparr>tb_rows := map (\<lambda>r. if P r then (fst r, f (snd r)) else r) (tb_rows t)\<rparr>"

text \<open>\<open>ON CONFLICT (key) DO UPDATE\<close>: the sequence advances even when the row exists.\<close>

definition tb_upsert :: "('a \<Rightarrow> 'k) \<Rightarrow> 'a \<Rightarrow> 'a serial_table \<Rightarrow> 'a serial_table" where
  "tb_upsert kf x t =
    (if \<exists>r\<in>set (tb_rows t). kf (snd r) = kf x
     then (tb_map (\<lambda>r. kf (snd r) = kf x) (\<lambda>_. x) t)\<lparr>tb_seq := tb_seq t + 1\<rparr>
     else tb_append x t)"

definition tb_find :: "('a \<Rightarrow> bool) \<Rightarrow> 'a serial_table \<Rightarrow> (int \<times> 'a) option" where
  "tb_find P t = find (\<lambda>r. P (snd r)) (tb_rows t)"

definition tb_select :: "('a \<Rightarrow> bool) \<Rightarrow> 'a serial_table \<Rightarrow> 'a list" where
  "tb_select P t = filter P (map snd (tb_rows t))"

text \<open>\<open>UPDATE ... WHERE key = $1\<close>: the written columns of \<open>x\<close> go into every row with its key.\<close>

definition put_row :: "('r \<Rightarrow> 'k) \<Rightarrow> ('r \<Rightarrow> 'r \<Rightarrow> 'r) \<Rightarrow> 'r \<Rightarrow> 'r list \<Rightarrow> 'r list" where
  "put_row kf merge x rows = map (\<lambda>r. if kf r = kf x then merge x r else r) rows"

text \<open>\<open>ORDER BY f DESC\<close>.\<close>

definition order_desc :: "('a \<Rightarrow> int) \<Rightarrow> 'a list \<Rightarrow> 'a list" where
  "order_desc f xs = sort_key (\<lambda>x. - f x) xs"

definition first_row :: "'a list \<Rightarrow> 'a option" where
  "first_row xs = (case xs of [] \<Rightarrow> None | x # _ \<Rightarrow> Some x)"

record store =
  db_faults :: "bool list"
  db_numeric :: "f64 \<Rightarrow> f64"
  db_candles :: "candle serial_table"
  db_universe :: "universe_symbol serial_table"
  db_cycles :: "cycle serial_table"
  db_candidates :: "candidate serial_table"
  db_positions :: "position serial_table"
  db_orders :: "broker_order serial_table"
  db_executions :: "execution serial_table"
  db_snapshots :: "account_state serial_table"
  db_llm_decisions :: "(string \<times> time \<times> llm_decision) serial_table"
  db_risk_decisions :: "risk_decision serial_table"
  db_usage :: "llm_usage_state list"
  db_decision_logs :: "decision_log list"
  db_outcomes :: "candidate_outcome list"
  db_paper_trades :: "paper_trade list"
  db_account :: "paper_account_state list"

definition empty_store :: "bool list \<Rightarrow> store" where
  "empty_store faults =
    \<lparr> db_faults = faults, db_numeric = (\<lambda>x. x), db_candles = empty_table, db_universe = empty_table, db_cycles = empty_table,
      db_candidates = empty_table, db_positions = empty_table, db_orders = empty_table,
      db_executions = empty_table, db_snapshots = empty_table, db_llm_decisions = empty_table,
      db_risk_decisions = empty_table, db_usage = [], db_decision_logs = [], db_outcomes = [],
      db_paper_trades = [], db_account = [] \<rparr>"

section \<open>Statements\<close>

type_synonym 'a io = "store \<Rightarrow> store \<times> (db_error + 'a)"

definition stmt :: "string \<Rightarrow> 'a io \<Rightarrow> 'a io" where
  "stmt what run s =
    (case db_faults s of
       [] \<Rightarrow> run s
     | f # fs \<Rightarrow> (let s' = s\<lparr>db_faults := fs\<rparr> in if f then (s', Inl (DbError what)) else run s'))"

definition query :: "string \<Rightarrow> (store \<Rightarrow> 'a) \<Rightarrow> 'a io" where
  "query what f = stmt what (\<lambda>s. (s, Inr (f s)))"

text \<open>An \<open>INSERT\<close> without a returned key: refused when a constraint \<open>ok\<close> fails.\<close>

definition insert_if :: "string \<Rightarrow> (store \<Rightarrow> bool) \<Rightarrow> (store \<Rightarrow> store) \<Rightarrow> unit io" where
  "insert_if what ok f = stmt what (\<lambda>s. if ok s then (f s, Inr ()) else (s, Inl (DbError what)))"

section \<open>Candles and universe\<close>

definition candle_key :: "candle \<Rightarrow> string \<times> string \<times> int" where
  "candle_key c = (c_Symbol c, c_Timeframe c, c_OpenTime c)"

definition numeric_candle :: "(f64 \<Rightarrow> f64) \<Rightarrow> candle \<Rightarrow> candle" where
  "numeric_candle num c =
    c\<lparr>c_Open := num (c_Open c), c_High := num (c_High c), c_Low := num (c_Low c), c_Close := num (c_Close c),
      c_Volume := num (c_Volume c), c_TurnOver := num (c_TurnOver c)\<rparr>"

definition candle_Insert :: "candle \<Rightarrow> int io" where
  "candle_Insert c =
    stmt ''insert candle''
      (\<lambda>s. let t = tb_upsert candle_key (numeric_candle (db_numeric s) c) (db_candles s)
           in (s\<lparr>db_candles := t\<rparr>,
               Inr (case tb_find (\<lambda>d. candle_key d = candle_key c) t of None \<Rightarrow> 0 | Some (i, _) \<Rightarrow> i)))"

definition candle_GetBySymbolTimeframe :: "string \<Rightarrow> string \<Rightarrow> int \<Rightarrow> candle list io" where
  "candle_GetBySymbolTimeframe symbol timeframe limit =
    stmt ''query candles''
      (\<lambda>s. if limit < 0 then (s, Inl (DbError ''query candles''))
           else (s, Inr (sort_key c_OpenTime
             (take (nat limit) (order_desc c_OpenTime
               (tb_select (\<lambda>c. c_Symbol c = symbol \<and> c_Timeframe c = timeframe) (db_candles s)))))))"

definition universe_InsertOrUpdate :: "universe_symbol \<Rightarrow> unit io" where
  "universe_InsertOrUpdate u =
    stmt ''insert universe symbol''
      (\<lambda>s. (s\<lparr>db_universe := tb_upsert si_Symbol u (db_universe s)\<rparr>, Inr ()))"

definition universe_GetAll :: "universe_symbol list io" where
  "universe_GetAll =
    query ''query universe symbols'' (\<lambda>s. sort_key si_Symbol (tb_select (\<lambda>_. True) (db_universe s)))"

definition universe_GetBySymbol :: "string \<Rightarrow> universe_symbol option io" where
  "universe_GetBySymbol symbol =
    query ''get universe symbol'' (\<lambda>s. first_row (tb_select (\<lambda>u. si_Symbol u = symbol) (db_universe s)))"

section \<open>Cycles and candidates\<close>

definition cycle_Insert :: "cycle \<Rightarrow> int io" where
  "cycle_Insert c =
    stmt ''insert cycle''
      (\<lambda>s. let t = tb_append c (db_cycles s) in (s\<lparr>db_cycles := t\<rparr>, Inr (tb_seq t)))"

definition cycle_Update :: "cycle \<Rightarrow> unit io" where
  "cycle_Update c =
    stmt ''update cycle''
      (\<lambda>s. if tb_find (\<lambda>d. cy_CycleID d = cy_CycleID c) (db_cycles s) = None
           then (s, Inl (CycleNotFound (cy_CycleID c)))
           else (s\<lparr>db_cycles := tb_map (\<lambda>r. cy_CycleID (snd r) = cy_CycleID c)
                   (\<lambda>d. d\<lparr>cy_EndedAt := cy_EndedAt c, cy_Status := cy_Status c,
                          cy_ReasonCodes := cy_ReasonCodes c\<rparr>) (db_cycles s)\<rparr>, Inr ()))"

definition cycle_GetLatest :: "cycle option io" where
  "cycle_GetLatest =
    query ''get latest cycle''
      (\<lambda>s. first_row (order_desc cy_StartedAt (map (\<lambda>(i, c). c\<lparr>cy_ID := i\<rparr>) (tb_rows (db_cycles s)))))"

definition candidate_Insert :: "candidate \<Rightarrow> int io" where
  "candidate_Insert c =
    stmt ''insert candidate''
      (\<lambda>s. let t = tb_append c (db_candidates s) in (s\<lparr>db_candidates := t\<rparr>, Inr (tb_seq t)))"

definition candidate_GetByCycle :: "string \<Rightarrow> candidate list io" where
  "candidate_GetByCycle cycleID =
    query ''query candidates'' (\<lambda>s. tb_select (\<lambda>c. cand_CycleID c = cycleID) (db_candidates s))"

section \<open>Positions\<close>

text \<open>A take-profit that is not positive is stored as NULL and read back as 0.\<close>

definition tp_column :: "f64 \<Rightarrow> f64 option" where
  "tp_column tp = (if Fin 0 < tp then Some tp else None)"

definition stored_tp :: "f64 \<Rightarrow> f64" where
  "stored_tp tp = (case tp_column tp of None \<Rightarrow> Fin 0 | Some v \<Rightarrow> v)"

definition scan_position :: "int \<times> position \<Rightarrow> position" where
  "scan_position r = (snd r)\<lparr>p_ID := fst r\<rparr>"

text \<open>The \<open>INSERT\<close> leaves \<open>closed_at\<close> NULL.\<close>

definition position_Insert :: "position \<Rightarrow> int io" where
  "position_Insert p =
    stmt ''insert position''
      (\<lambda>s. let t = tb_append (p\<lparr>p_TakeProfit := stored_tp (p_TakeProfit p), p_ClosedAt := None\<rparr>)
                    (db_positions s)
           in (s\<lparr>db_positions := t\<rparr>, Inr (tb_seq t)))"

definition position_Update :: "position \<Rightarrow> unit io" where
  "position_Update p =
    stmt ''update position''
      (\<lambda>s. (s\<lparr>db_positions := tb_map (\<lambda>r. fst r = p_ID p)
              (\<lambda>q. q\<lparr>p_EntryPrice := p_EntryPrice p, p_Size := p_Size p, p_Leverage := p_Leverage p,
                     p_Margin := p_Margin p, p_StopLoss := p_StopLoss p,
                     p_TakeProfit := stored_tp (p_TakeProfit p), p_UnrealizedPnL := p_UnrealizedPnL p,
                     p_RealizedPnL := p_RealizedPnL p, p_Status := p_Status p, p_Source := p_Source p,
                     p_ClosedAt := p_ClosedAt p, p_SLOrderID := p_SLOrderID p,
                     p_TPOrderID := p_TPOrderID p\<rparr>) (db_positions s)\<rparr>, Inr ()))"

definition position_GetOpen :: "position list io" where
  "position_GetOpen =
    query ''query open positions''
      (\<lambda>s. order_desc p_OpenedAt (filter (\<lambda>p. p_Status p = PositionStatusOpen)
              (map scan_position (tb_rows (db_positions s)))))"

definition position_GetClosed :: "time \<Rightarrow> position list io" where
  "position_GetClosed from =
    query ''query closed positions''
      (\<lambda>s. order_desc (\<lambda>p. case p_ClosedAt p of None \<Rightarrow> 0 | Some t \<Rightarrow> t)
             (filter (\<lambda>p. p_Status p = PositionStatusClosed \<and>
                 (case p_ClosedAt p of None \<Rightarrow> False | Some t \<Rightarrow> from \<le> t))
               (map scan_position (tb_rows (db_positions s)))))"

definition position_GetBySymbol :: "string \<Rightarrow> position option io" where
  "position_GetBySymbol symbol =
    query ''get position by symbol''
      (\<lambda>s. first_row (filter (\<lambda>p. p_Symbol p = symbol \<and> p_Status p = PositionStatusOpen)
              (map scan_position (tb_rows (db_positions s)))))"

section \<open>Orders and executions\<close>

definition scan_order :: "int \<times> broker_order \<Rightarrow> broker_order" where
  "scan_order r = (snd r)\<lparr>o_ID := fst r\<rparr>"

definition open_status :: "broker_order \<Rightarrow> bool" where
  "open_status o' \<longleftrightarrow> o_Status o' = OrderStatusPending \<or> o_Status o' = OrderStatusPartiallyFilled"

definition order_Insert :: "broker_order \<Rightarrow> int io" where
  "order_Insert o' =
    stmt ''insert order'' (\<lambda>s. let t = tb_append o' (db_orders s) in (s\<lparr>db_orders := t\<rparr>, Inr (tb_seq t)))"

definition order_Update :: "broker_order \<Rightarrow> unit io" where
  "order_Update o' =
    stmt ''update order''
      (\<lambda>s. (s\<lparr>db_orders := tb_map (\<lambda>r. fst r = o_ID o')
              (\<lambda>q. o'\<lparr>o_CreatedAt := o_CreatedAt q\<rparr>) (db_orders s)\<rparr>, Inr ()))"

definition order_GetOpen :: "broker_order list io" where
  "order_GetOpen =
    query ''query open orders''
      (\<lambda>s. order_desc o_CreatedAt (filter open_status (map scan_order (tb_rows (db_orders s)))))"

definition order_GetBySymbol :: "string \<Rightarrow> broker_order list io" where
  "order_GetBySymbol symbol =
    query ''query orders by symbol''
      (\<lambda>s. order_desc o_CreatedAt (filter (\<lambda>o'. o_Symbol o' = symbol \<and> open_status o')
              (map scan_order (tb_rows (db_orders s)))))"

definition order_GetAll :: "time \<Rightarrow> broker_order list io" where
  "order_GetAll from =
    query ''query all orders''
      (\<lambda>s. order_desc o_CreatedAt (filter (\<lambda>o'. from \<le> o_CreatedAt o' \<or> from \<le> o_UpdatedAt o')
              (map scan_order (tb_rows (db_orders s)))))"

definition scan_execution :: "int \<times> execution \<Rightarrow> execution" where
  "scan_execution r = (snd r)\<lparr>x_ID := fst r\<rparr>"

definition execution_Insert :: "execution \<Rightarrow> int io" where
  "execution_Insert e =
    stmt ''insert execution''
      (\<lambda>s. let t = tb_append e (db_executions s) in (s\<lparr>db_executions := t\<rparr>, Inr (tb_seq t)))"

definition execution_GetByOrder :: "int \<Rightarrow> execution list io" where
  "execution_GetByOrder orderID =
    query ''query executions''
      (\<lambda>s. sort_key x_ExecutedAt (filter (\<lambda>e. x_OrderID e = orderID)
              (map scan_execution (tb_rows (db_executions s)))))"

definition execution_GetAll :: "time \<Rightarrow> execution list io" where
  "execution_GetAll from =
    query ''query executions''
      (\<lambda>s. order_desc x_ExecutedAt (filter (\<lambda>e. IsZero from \<or> from \<le> x_ExecutedAt e)
              (map scan_execution (tb_rows (db_executions s)))))"

section \<open>Account snapshots\<close>

definition scan_account :: "int \<times> account_state \<Rightarrow> account_state" where
  "scan_account r = (snd r)\<lparr>a_ID := fst r\<rparr>"

definition snapshot_Insert :: "account_state \<Rightarrow> int io" where
  "snapshot_Insert a =
    stmt ''insert account snapshot''
      (\<lambda>s. let t = tb_append a (db_snapshots s) in (s\<lparr>db_snapshots := t\<rparr>, Inr (tb_seq t)))"

definition snapshots_where :: "(account_state \<Rightarrow> bool) \<Rightarrow> store \<Rightarrow> account_state list" where
  "snapshots_where P s =
    order_desc a_RecordedAt (filter P (map scan_account (tb_rows (db_snapshots s))))"

definition snapshot_GetLatest :: "account_state option io" where
  "snapshot_GetLatest =
    query ''get latest account snapshot'' (\<lambda>s. first_row (snapshots_where (\<lambda>_. True) s))"

definition snapshot_GetLatestBefore :: "time \<Rightarrow> account_state option io" where
  "snapshot_GetLatestBefore before =
    query ''get latest account snapshot'' (\<lambda>s. first_row (snapshots_where (\<lambda>a. a_RecordedAt a < before) s))"

definition snapshot_GetAll :: "time \<Rightarrow> account_state list io" where
  "snapshot_GetAll from =
    query ''query account snapshots'' (snapshots_where (\<lambda>a. IsZero from \<or> from \<le> a_RecordedAt a))"

section \<open>Decisions and usage\<close>

text \<open>\<open>NULL\<close> in \<open>candidate_id\<close> reads back as 0; a negative id is stored as NULL, too.\<close>

definition candidate_ref :: "int \<Rightarrow> int" where
  "candidate_ref n = (if 0 < n then n else 0)"

definition llm_decision_Insert :: "time \<Rightarrow> llm_decision \<Rightarrow> int \<Rightarrow> string \<Rightarrow> int io" where
  "llm_decision_Insert now d candidateID cycleID =
    stmt ''insert llm decision''
      (\<lambda>s. let t = tb_append (cycleID, now, d\<lparr>ld_CandidateID := candidate_ref candidateID\<rparr>) (db_llm_decisions s)
           in (s\<lparr>db_llm_decisions := t\<rparr>, Inr (tb_seq t)))"

definition llm_decision_GetByCycle :: "string \<Rightarrow> llm_decision list io" where
  "llm_decision_GetByCycle cycleID =
    query ''query llm decisions''
      (\<lambda>s. map (\<lambda>(_, _, d). d)
             (sort_key (\<lambda>(_, t, _). t) (tb_select (\<lambda>(c, _, _). c = cycleID) (db_llm_decisions s))))"

definition risk_decision_Insert :: "time \<Rightarrow> risk_decision \<Rightarrow> int \<Rightarrow> string \<Rightarrow> int io" where
  "risk_decision_Insert now d candidateID cycleID =
    stmt ''insert risk decision''
      (\<lambda>s. let t = tb_append (d\<lparr>rd_CandidateID := candidate_ref candidateID, rd_CycleID := cycleID,
                                 rd_CreatedAt := now\<rparr>) (db_risk_decisions s)
           in (s\<lparr>db_risk_decisions := t\<rparr>, Inr (tb_seq t)))"

definition risk_decision_GetByCycle :: "string \<Rightarrow> risk_decision list io" where
  "risk_decision_GetByCycle cycleID =
    query ''query risk decisions''
      (\<lambda>s. sort_key (\<lambda>d. (rd_CreatedAt d, rd_ID d)) (filter (\<lambda>d. rd_CycleID d = cycleID)
             (map (\<lambda>(i, d). d\<lparr>rd_ID := i\<rparr>) (tb_rows (db_risk_decisions s)))))"

text \<open>The key of the usage table is the calendar day, written here as its midnight in UTC.\<close>

definition usage_day :: "time \<Rightarrow> time" where
  "usage_day t = t - t mod minutes 1440"

definition usage_Get :: "time \<Rightarrow> llm_usage_state option io" where
  "usage_Get usageDate =
    query ''get llm usage'' (\<lambda>s. find (\<lambda>u. lu_UsageDate u = usage_day usageDate) (db_usage s))"

definition add_usage :: "time \<Rightarrow> time \<Rightarrow> int \<Rightarrow> f64 \<Rightarrow> llm_usage_state list \<Rightarrow> llm_usage_state list" where
  "add_usage now day calls cost us =
    (if \<exists>u\<in>set us. lu_UsageDate u = day
     then map (\<lambda>u. if lu_UsageDate u = day
                   then u\<lparr>lu_Calls := lu_Calls u + calls, lu_CostUSD := cost, lu_UpdatedAt := now\<rparr> else u) us
     else us @ [\<lparr> lu_UsageDate = day, lu_Calls = calls, lu_CostUSD = cost, lu_UpdatedAt = now \<rparr>])"

definition usage_IncrementCalls :: "time \<Rightarrow> time \<Rightarrow> int \<Rightarrow> f64 \<Rightarrow> unit io" where
  "usage_IncrementCalls now usageDate calls cost s =
    (if calls \<le> 0 then (s, Inr ())
     else stmt ''increment llm usage''
       (\<lambda>s. (s\<lparr>db_usage := add_usage now (usage_day usageDate) calls cost (db_usage s)\<rparr>, Inr ())) s)"

section \<open>Decision logs and outcomes\<close>

text \<open>\<open>jsonOrNull\<close> writes an empty text as NULL, and every query reads NULL back as the empty text.\<close>

definition has_decision :: "string \<Rightarrow> store \<Rightarrow> bool" where
  "has_decision i s \<longleftrightarrow> i \<in> dl_DecisionID ` set (db_decision_logs s)"

definition decision_log_Insert :: "decision_log \<Rightarrow> unit io" where
  "decision_log_Insert d =
    insert_if ''insert decision_log'' (\<lambda>s. \<not> has_decision (dl_DecisionID d) s)
      (\<lambda>s. s\<lparr>db_decision_logs := db_decision_logs s @ [d]\<rparr>)"

definition decision_log_GetByCycle :: "string \<Rightarrow> decision_log list io" where
  "decision_log_GetByCycle cycleID =
    query ''query decision_logs by cycle''
      (\<lambda>s. sort_key dl_Timestamp (filter (\<lambda>d. dl_CycleID d = cycleID) (db_decision_logs s)))"

definition decision_log_GetRecent :: "int \<Rightarrow> decision_log list io" where
  "decision_log_GetRecent limit =
    query ''query recent decision_logs''
      (\<lambda>s. take (nat (if limit \<le> 0 then 100 else limit)) (order_desc dl_Timestamp (db_decision_logs s)))"

definition decision_log_GetBySymbol :: "string \<Rightarrow> time \<Rightarrow> decision_log list io" where
  "decision_log_GetBySymbol symbol from =
    query ''query decision_logs by symbol''
      (\<lambda>s. order_desc dl_Timestamp
             (filter (\<lambda>d. dl_Symbol d = symbol \<and> from \<le> dl_Timestamp d) (db_decision_logs s)))"

definition decision_log_CountByAction :: "string \<Rightarrow> time \<Rightarrow> int io" where
  "decision_log_CountByAction action from =
    query ''count decision_logs by action''
      (\<lambda>s. int (length (filter (\<lambda>d. dl_FinalAction d = action \<and> from \<le> dl_Timestamp d) (db_decision_logs s))))"

text \<open>The primary key is the decision, which has to be in \<open>decision_logs\<close>.\<close>

definition outcome_Insert :: "candidate_outcome \<Rightarrow> unit io" where
  "outcome_Insert co =
    insert_if ''insert candidate_outcome''
      (\<lambda>s. has_decision (co_DecisionID co) s \<and> co_DecisionID co \<notin> co_DecisionID ` set (db_outcomes s))
      (\<lambda>s. s\<lparr>db_outcomes := db_outcomes s @ [co]\<rparr>)"

definition merge_outcome :: "candidate_outcome \<Rightarrow> candidate_outcome \<Rightarrow> candidate_outcome" where
  "merge_outcome co row =
    co\<lparr>co_Symbol := co_Symbol row, co_Side := co_Side row, co_EntryPrice := co_EntryPrice row,
       co_StopLoss := co_StopLoss row, co_TakeProfits := co_TakeProfits row\<rparr>"

definition outcome_Update :: "candidate_outcome \<Rightarrow> unit io" where
  "outcome_Update co =
    stmt ''update candidate_outcome''
      (\<lambda>s. (s\<lparr>db_outcomes := put_row co_DecisionID merge_outcome co (db_outcomes s)\<rparr>, Inr ()))"

definition outcome_GetPending :: "candidate_outcome list io" where
  "outcome_GetPending =
    query ''query pending candidate_outcomes''
      (\<lambda>s. sort_key co_DecisionID (filter (\<lambda>r. co_Status r = ''tracking'') (db_outcomes s)))"

definition outcome_GetByDecision :: "string \<Rightarrow> candidate_outcome option io" where
  "outcome_GetByDecision i =
    query ''get candidate_outcome'' (\<lambda>s. find (\<lambda>r. co_DecisionID r = i) (db_outcomes s))"

definition outcome_GetCompleted :: "time \<Rightarrow> candidate_outcome list io" where
  "outcome_GetCompleted from =
    query ''query completed candidate_outcomes''
      (\<lambda>s. order_desc co_TrackedUntil
             (filter (\<lambda>r. co_Status r = ''completed'' \<and> from \<le> co_TrackedUntil r) (db_outcomes s)))"

section \<open>Paper trades and the paper account\<close>

definition trade_Insert :: "paper_trade \<Rightarrow> unit io" where
  "trade_Insert t =
    insert_if ''insert paper_trade''
      (\<lambda>s. has_decision (tr_DecisionID t) s \<and> tr_PaperTradeID t \<notin> tr_PaperTradeID ` set (db_paper_trades s))
      (\<lambda>s. s\<lparr>db_paper_trades := db_paper_trades s @ [t]\<rparr>)"

definition merge_trade :: "paper_trade \<Rightarrow> paper_trade \<Rightarrow> paper_trade" where
  "merge_trade t row =
    row\<lparr>tr_ClosedAt := tr_ClosedAt t, tr_ExitPrice := tr_ExitPrice t, tr_FeesPaid := tr_FeesPaid t,
        tr_FundingPaid := tr_FundingPaid t, tr_PnLGross := tr_PnLGross t, tr_PnLNet := tr_PnLNet t,
        tr_RMultiple := tr_RMultiple t, tr_ExitReason := tr_ExitReason t\<rparr>"

definition set_trade :: "paper_trade \<Rightarrow> paper_trade list \<Rightarrow> paper_trade list" where
  "set_trade = put_row tr_PaperTradeID merge_trade"

definition trade_Update :: "paper_trade \<Rightarrow> unit io" where
  "trade_Update t =
    stmt ''update paper_trade'' (\<lambda>s. (s\<lparr>db_paper_trades := set_trade t (db_paper_trades s)\<rparr>, Inr ()))"

definition open_trades :: "paper_trade list \<Rightarrow> paper_trade list" where
  "open_trades rows = sort_key tr_OpenedAt (filter (\<lambda>t. tr_ClosedAt t = None) rows)"

definition closed_since :: "time \<Rightarrow> paper_trade \<Rightarrow> bool" where
  "closed_since from t \<longleftrightarrow> (case tr_ClosedAt t of None \<Rightarrow> False | Some c \<Rightarrow> from \<le> c)"

definition trade_GetOpen :: "paper_trade list io" where
  "trade_GetOpen = query ''query open paper_trades'' (\<lambda>s. open_trades (db_paper_trades s))"

definition trade_GetByDecision :: "string \<Rightarrow> paper_trade option io" where
  "trade_GetByDecision i =
    query ''get paper_trade'' (\<lambda>s. find (\<lambda>t. tr_DecisionID t = i) (db_paper_trades s))"

definition trade_GetAll :: "time \<Rightarrow> paper_trade list io" where
  "trade_GetAll from =
    query ''query paper_trades''
      (\<lambda>s. order_desc (\<lambda>t. case tr_ClosedAt t of None \<Rightarrow> 0 | Some c \<Rightarrow> c)
             (filter (closed_since from) (db_paper_trades s)))"

definition trade_CountByExitReason :: "string \<Rightarrow> time \<Rightarrow> int io" where
  "trade_CountByExitReason reason from =
    query ''count paper_trades by exit_reason''
      (\<lambda>s. int (length (filter (\<lambda>t. tr_ExitReason t = reason \<and> closed_since from t) (db_paper_trades s))))"

definition zero_account :: paper_account_state where
  "zero_account =
    \<lparr> pas_ID = 1, pas_StartingEquity = Fin 0, pas_CurrentEquity = Fin 0, pas_TotalTrades = 0, pas_Wins = 0,
      pas_Losses = 0, pas_RealizedPnL = Fin 0, pas_ConsecutiveLosses = 0, pas_UpdatedAt = zero_time \<rparr>"

definition account_Get :: "paper_account_state io" where
  "account_Get =
    query ''get paper_account_state''
      (\<lambda>s. case find (\<lambda>a. pas_ID a = 1) (db_account s) of None \<Rightarrow> zero_account | Some a \<Rightarrow> a)"

definition put_account :: "time \<Rightarrow> paper_account_state \<Rightarrow> paper_account_state list \<Rightarrow> paper_account_state list" where
  "put_account now a rows =
    (if \<exists>r\<in>set rows. pas_ID r = pas_ID a
     then map (\<lambda>r. if pas_ID r = pas_ID a then a\<lparr>pas_UpdatedAt := now\<rparr> else r) rows
     else rows @ [a\<lparr>pas_UpdatedAt := now\<rparr>])"

definition account_Update :: "time \<Rightarrow> paper_account_state \<Rightarrow> unit io" where
  "account_Update now a =
    stmt ''update paper_account_state''
      (\<lambda>s. (s\<lparr>db_account := put_account now a (db_account s)\<rparr>, Inr ()))"

end
