(* ===== verification/Repository.thy ===== *)
theory Repository
  imports Store
begin

text \<open>
  The contract that the users of a repository rely on: an update writes the columns of one row into the row
  with its key. A loop that hands every row of a table back changed leaves the table mapped.
\<close>

lemma stmt_live [simp]: "db_faults s = [] \<Longrightarrow> stmt what run s = run s"
  by (simp add: stmt_def)

text \<open>\<open>t'\<close> is \<open>t\<close> with changes to written columns only.\<close>

definition same_row :: "('r \<Rightarrow> string) \<Rightarrow> ('r \<Rightarrow> 'r \<Rightarrow> 'r) \<Rightarrow> 'r \<Rightarrow> 'r \<Rightarrow> bool" where
  "same_row kf merge t t' \<longleftrightarrow> merge t' t = t' \<and> kf t' = kf t"

lemma put_row_step:
  assumes "distinct (map kf R)" "t \<in> set R" "t \<notin> D" "\<forall>r. same_row kf merge r (F r)"
  shows "put_row kf merge (F t) (map (\<lambda>r. if r \<in> D then F r else r) R) =
    map (\<lambda>r. if r \<in> insert t D then F r else r) R"
proof -
  have "r = t" if "r \<in> set R" "kf r = kf t" for r
    using assms(1,2) that by (auto simp: distinct_map dest: inj_onD)
  with assms(3,4) show ?thesis by (auto simp: put_row_def same_row_def)
qed

locale table_updates =
  fixes upd :: "'r \<Rightarrow> 's \<Rightarrow> 's \<times> (db_error + unit)"
    and rows :: "'s \<Rightarrow> 'r list"
    and live :: "'s \<Rightarrow> bool"
    and kf :: "'r \<Rightarrow> string"
    and merge :: "'r \<Rightarrow> 'r \<Rightarrow> 'r"
  assumes update: "live s \<Longrightarrow> \<exists>s'. upd t s = (s', Inr ()) \<and> live s' \<and> rows s' = put_row kf merge t (rows s)"
begin

lemma update_fst:
  "live s \<Longrightarrow> live (fst (upd t s)) \<and> rows (fst (upd t s)) = put_row kf merge t (rows s)"
  using update [of s t] by auto

lemma update_fold_from:
  assumes step: "\<And>x t. t \<in> set ts \<Longrightarrow> I x \<Longrightarrow> I (f x t) \<and>
      (rows (proj (f x t)) = put_row kf merge (F t) (rows (proj x)) \<or>
       F t = t \<and> rows (proj (f x t)) = rows (proj x))"
    and F: "\<forall>r. same_row kf merge r (F r)"
    and "I x" "distinct (map kf R)" "set ts \<subseteq> set R" "distinct ts" "D \<inter> set ts = {}"
    and "rows (proj x) = map (\<lambda>r. if r \<in> D then F r else r) R"
  shows "I (foldl f x ts) \<and> rows (proj (foldl f x ts)) = map (\<lambda>r. if r \<in> D \<union> set ts then F r else r) R"
  using assms(1,3-)
proof (induction ts arbitrary: x D)
  case (Cons t ts)
  have st: "I (f x t)" "rows (proj (f x t)) = put_row kf merge (F t) (rows (proj x)) \<or>
      F t = t \<and> rows (proj (f x t)) = rows (proj x)"
    using Cons.prems(1) [of t x] Cons.prems(2) by auto
  have "rows (proj (f x t)) = map (\<lambda>r. if r \<in> insert t D then F r else r) R"
    using st(2) Cons.prems put_row_step [of kf R t D merge F] F by (auto cong: map_cong)
  moreover have "I (foldl f (f x t) ts) \<and>
      rows (proj (foldl f (f x t) ts)) = map (\<lambda>r. if r \<in> insert t D \<union> set ts then F r else r) R"
    if "rows (proj (f x t)) = map (\<lambda>r. if r \<in> insert t D then F r else r) R"
    by (rule Cons.IH) (use Cons.prems st that in auto)
  ultimately show ?case by simp
qed simp

lemma update_fold:
  assumes "\<And>x t. I x \<Longrightarrow> I (f x t) \<and>
      (rows (proj (f x t)) = put_row kf merge (F t) (rows (proj x)) \<or>
       F t = t \<and> rows (proj (f x t)) = rows (proj x))"
    and "\<forall>r. same_row kf merge r (F r)"
    and "I x" "distinct (map kf (rows (proj x)))" "set ts \<subseteq> set (rows (proj x))" "distinct ts"
  shows "I (foldl f x ts) \<and> rows (proj (foldl f x ts)) = map (\<lambda>r. if r \<in> set ts then F r else r) (rows (proj x))"
  using update_fold_from [of ts I f proj F x "rows (proj x)" "{}"] assms by auto

end

end
