(* ===== verification/StoreSpec.thy ===== *)
theory StoreSpec
  imports Repository
begin

text \<open>
  Integrity of the tables under any sequence of calls with any pattern of failures, and what is read back
  after a write.
\<close>

section \<open>Tables\<close>

definition tb_wf :: "'a serial_table \<Rightarrow> bool" where
  "tb_wf t \<longleftrightarrow> sorted_wrt (<) (map fst (tb_rows t)) \<and> (\<forall>r\<in>set (tb_rows t). 0 < fst r \<and> fst r \<le> tb_seq t) \<and> 0 \<le> tb_seq t"

lemma tb_wf_empty [simp]: "tb_wf empty_table"
  by (simp add: tb_wf_def empty_table_def)

lemma tb_wf_append [simp]: "tb_wf t \<Longrightarrow> tb_wf (tb_append x t)"
  by (auto simp: tb_wf_def tb_append_def sorted_wrt_append)

lemma map_fst_tb_map [simp]: "map fst (tb_rows (tb_map P f t)) = map fst (tb_rows t)"
  by (simp add: tb_map_def comp_def if_distrib cong: if_cong)

lemma tb_wf_map [simp]: "tb_wf t \<Longrightarrow> tb_wf (tb_map P f t)"
  by (auto simp: tb_wf_def tb_map_def comp_def if_distrib cong: if_cong)

lemma tb_seq_map [simp]: "tb_seq (tb_map P f t) = tb_seq t"
  by (simp add: tb_map_def)

lemma tb_wf_next: "tb_wf t \<Longrightarrow> tb_wf (t\<lparr>tb_seq := tb_seq t + 1\<rparr>)"
  by (auto simp: tb_wf_def)

lemma tb_wf_upsert [simp]: "tb_wf t \<Longrightarrow> tb_wf (tb_upsert kf x t)"
  using tb_wf_next [of "tb_map (\<lambda>r. kf (snd r) = kf x) (\<lambda>_. x) t"] by (simp add: tb_upsert_def)

definition tb_keys :: "('a \<Rightarrow> 'k) \<Rightarrow> 'a serial_table \<Rightarrow> 'k list" where
  "tb_keys kf t = map (kf \<circ> snd) (tb_rows t)"

lemma tb_upsert_keys: "distinct (tb_keys kf t) \<Longrightarrow> distinct (tb_keys kf (tb_upsert kf x t))"
proof (cases "\<exists>r\<in>set (tb_rows t). kf (snd r) = kf x")
  case True
  have "map (\<lambda>r. if kf (snd r) = kf x then kf x else kf (snd r)) rs = map (\<lambda>r. kf (snd r)) rs" for rs
    by simp
  with True show "distinct (tb_keys kf t) \<Longrightarrow> ?thesis"
    by (simp add: tb_keys_def tb_upsert_def tb_map_def comp_def if_distrib [of kf] if_distrib [of snd] cong: if_cong)
qed (auto simp: tb_keys_def tb_upsert_def tb_append_def)

section \<open>Integrity\<close>

definition serial_wf :: "store \<Rightarrow> bool" where
  "serial_wf s \<longleftrightarrow> tb_wf (db_candles s) \<and> tb_wf (db_universe s) \<and> tb_wf (db_cycles s) \<and> tb_wf (db_candidates s) \<and>
    tb_wf (db_positions s) \<and> tb_wf (db_orders s) \<and> tb_wf (db_executions s) \<and> tb_wf (db_snapshots s) \<and>
    tb_wf (db_llm_decisions s) \<and> tb_wf (db_risk_decisions s)"

definition unique_wf :: "store \<Rightarrow> bool" where
  "unique_wf s \<longleftrightarrow> distinct (tb_keys candle_key (db_candles s)) \<and> distinct (tb_keys si_Symbol (db_universe s)) \<and>
    distinct (map lu_UsageDate (db_usage s)) \<and> distinct (map dl_DecisionID (db_decision_logs s)) \<and>
    distinct (map co_DecisionID (db_outcomes s)) \<and> distinct (map tr_PaperTradeID (db_paper_trades s)) \<and>
    distinct (map pas_ID (db_account s))"

definition reference_wf :: "store \<Rightarrow> bool" where
  "reference_wf s \<longleftrightarrow> (\<forall>r\<in>set (db_outcomes s). has_decision (co_DecisionID r) s) \<and>
    (\<forall>t\<in>set (db_paper_trades s). has_decision (tr_DecisionID t) s)"

text \<open>A write by any repository, with any argument; \<open>fst\<close> is the database after it, whatever it returns.\<close>

inductive store_write :: "store \<Rightarrow> store \<Rightarrow> bool" where
  w_candle: "store_write s (fst (candle_Insert c s))"
| w_universe: "store_write s (fst (universe_InsertOrUpdate u s))"
| w_cycle: "store_write s (fst (cycle_Insert cy s))"
| w_cycle_update: "store_write s (fst (cycle_Update cy s))"
| w_candidate: "store_write s (fst (candidate_Insert cand s))"
| w_position: "store_write s (fst (position_Insert p s))"
| w_position_update: "store_write s (fst (position_Update p s))"
| w_order: "store_write s (fst (order_Insert od s))"
| w_order_update: "store_write s (fst (order_Update od s))"
| w_execution: "store_write s (fst (execution_Insert x s))"
| w_snapshot: "store_write s (fst (snapshot_Insert a s))"
| w_llm: "store_write s (fst (llm_decision_Insert now d i cid s))"
| w_risk: "store_write s (fst (risk_decision_Insert now rd i cid s))"
| w_usage: "store_write s (fst (usage_IncrementCalls now day calls cost s))"
| w_log: "store_write s (fst (decision_log_Insert dl s))"
| w_outcome: "store_write s (fst (outcome_Insert co s))"
| w_outcome_update: "store_write s (fst (outcome_Update co s))"
| w_trade: "store_write s (fst (trade_Insert t s))"
| w_trade_update: "store_write s (fst (trade_Update t s))"
| w_account: "store_write s (fst (account_Update now pas s))"

lemmas writes =
  candle_Insert_def universe_InsertOrUpdate_def cycle_Insert_def cycle_Update_def candidate_Insert_def
  position_Insert_def position_Update_def order_Insert_def order_Update_def execution_Insert_def
  snapshot_Insert_def llm_decision_Insert_def risk_decision_Insert_def usage_IncrementCalls_def
  decision_log_Insert_def outcome_Insert_def outcome_Update_def trade_Insert_def trade_Update_def
  account_Update_def insert_if_def

lemma write_preserves:
  assumes "Q s" "\<And>s fs. Q s \<Longrightarrow> Q (s\<lparr>db_faults := fs\<rparr>)" "\<And>s. Q s \<Longrightarrow> Q (fst (run s))"
  shows "Q (fst (stmt what run s))"
  using assms by (cases "db_faults s") (auto simp: stmt_def Let_def)

lemma serial_wf_faults [simp]: "serial_wf (s\<lparr>db_faults := fs\<rparr>) = serial_wf s"
  by (simp add: serial_wf_def)

lemma usage_keeps_serial: "serial_wf s \<Longrightarrow> serial_wf (fst (usage_IncrementCalls now day calls cost s))"
  unfolding usage_IncrementCalls_def
  by (cases "calls \<le> 0", simp, simp only: if_False, rule write_preserves) (simp_all add: serial_wf_def)

lemma serial_wf_write: "store_write s s' \<Longrightarrow> serial_wf s \<Longrightarrow> serial_wf s'"
proof (induction rule: store_write.induct)
  case (w_usage s now day calls cost)
  then show ?case by (rule usage_keeps_serial)
qed (simp only: writes, rule write_preserves, assumption, simp, simp add: serial_wf_def Let_def)+

lemma put_row_keys [simp]:
  assumes "\<And>r. kf (merge x r) = kf x"
  shows "map kf (put_row kf merge x rs) = map kf rs"
  using assms by (simp add: put_row_def comp_def if_distrib cong: if_cong)

lemma merge_keys [simp]:
  "co_DecisionID (merge_outcome co r) = co_DecisionID co" "tr_PaperTradeID (merge_trade t row) = tr_PaperTradeID row"
  "tr_DecisionID (merge_trade t row) = tr_DecisionID row"
  by (simp_all add: merge_outcome_def merge_trade_def)

lemma set_trade_ids [simp]: "map tr_PaperTradeID (set_trade t rs) = map tr_PaperTradeID rs"
  "map tr_DecisionID (set_trade t rs) = map tr_DecisionID rs"
  by (simp_all add: set_trade_def put_row_def comp_def if_distrib cong: if_cong)

lemma set_trade_decisions [simp]: "tr_DecisionID ` set (set_trade t rs) = tr_DecisionID ` set rs"
  by (metis set_map set_trade_ids(2))

lemma add_usage_keys: "distinct (map lu_UsageDate us) \<Longrightarrow> distinct (map lu_UsageDate (add_usage now day calls cost us))"
  by (auto simp: add_usage_def comp_def if_distrib cong: if_cong)

lemma put_account_keys: "distinct (map pas_ID rs) \<Longrightarrow> distinct (map pas_ID (put_account now a rs))"
  by (auto simp: put_account_def comp_def if_distrib cong: if_cong)

lemma unique_wf_faults [simp]: "unique_wf (s\<lparr>db_faults := fs\<rparr>) = unique_wf s"
  by (simp add: unique_wf_def)

lemma has_decision_cong: "db_decision_logs s = db_decision_logs s' \<Longrightarrow> has_decision i s = has_decision i s'"
  by (simp add: has_decision_def)

lemma usage_keeps_unique: "unique_wf s \<Longrightarrow> unique_wf (fst (usage_IncrementCalls now day calls cost s))"
  unfolding usage_IncrementCalls_def
  by (cases "calls \<le> 0", simp, simp only: if_False, rule write_preserves) (simp_all add: unique_wf_def add_usage_keys)

lemma unique_wf_write: "store_write s s' \<Longrightarrow> unique_wf s \<Longrightarrow> unique_wf s'"
proof (induction rule: store_write.induct)
  case (w_usage s now day calls cost)
  then show ?case by (rule usage_keeps_unique)
qed (simp only: writes, rule write_preserves, assumption, simp,
    simp add: unique_wf_def Let_def tb_upsert_keys put_account_keys has_decision_def)+

lemma reference_wf_faults [simp]: "reference_wf (s\<lparr>db_faults := fs\<rparr>) = reference_wf s"
  by (simp add: reference_wf_def has_decision_def)

lemma usage_keeps_reference: "reference_wf s \<Longrightarrow> reference_wf (fst (usage_IncrementCalls now day calls cost s))"
  unfolding usage_IncrementCalls_def
  by (cases "calls \<le> 0", simp, simp only: if_False, rule write_preserves)
    (simp_all add: reference_wf_def has_decision_def)

lemma reference_wf_image:
  "reference_wf s \<longleftrightarrow> co_DecisionID ` set (db_outcomes s) \<subseteq> dl_DecisionID ` set (db_decision_logs s) \<and>
    tr_DecisionID ` set (db_paper_trades s) \<subseteq> dl_DecisionID ` set (db_decision_logs s)"
  by (auto simp: reference_wf_def has_decision_def)

lemma outcome_keys_set [simp]: "co_DecisionID ` set (put_row co_DecisionID merge_outcome co rs) = co_DecisionID ` set rs"
  by (metis set_map put_row_keys merge_keys(1))

lemma reference_wf_write: "store_write s s' \<Longrightarrow> reference_wf s \<Longrightarrow> reference_wf s'"
proof (induction rule: store_write.induct)
  case (w_usage s now day calls cost)
  then show ?case by (rule usage_keeps_reference)
qed (simp only: writes, rule write_preserves, assumption, simp,
    simp add: reference_wf_image Let_def has_decision_def subset_insertI2)+

text \<open>
  Whatever the repositories are asked to write, in any order, with any arguments and with any pattern of
  failing statements, the tables keep their keys: serial keys are positive, strictly increasing and never given
  out again; no two candles share symbol, timeframe and open time, no two rows a symbol, a usage day, a decision, an outcome, a paper
  trade or an account id; every outcome and every paper trade belongs to a logged decision. These are the constraints of
  the migrations; the proof shows that the operations of the model respect them.
\<close>

lemma store_integrity:
  assumes "store_write\<^sup>*\<^sup>* (empty_store fs) s"
  shows "serial_wf s \<and> unique_wf s \<and> reference_wf s"
  using assms
proof induction
  case base
  show ?case
    by (simp add: empty_store_def serial_wf_def unique_wf_def reference_wf_def tb_keys_def empty_table_def tb_wf_def)
next
  case (step s s')
  then show ?case using serial_wf_write unique_wf_write reference_wf_write by blast
qed

section \<open>Reading back\<close>

lemma sort_key_strict:
  assumes "distinct (map f xs)"
  shows "sorted_wrt (<) (map f (sort_key f xs))"
proof -
  have "mset (map f (sort_key f xs)) = mset (map f xs)" by (simp add: image_mset.compositionality)
  then have "distinct (map f (sort_key f xs))" using assms mset_eq_imp_distinct_iff by blast
  then show ?thesis by (simp add: strict_sorted_iff)
qed

text \<open>The latest \<open>n\<close> rows in ascending order, as the query of the candle repository selects them.\<close>

lemma latest_window:
  fixes f :: "'a \<Rightarrow> int"
  assumes d: "distinct (map f xs)" and w: "ws = sort_key f (take n (order_desc f xs))"
  shows "sorted_wrt (<) (map f ws)" "set ws \<subseteq> set xs" "length ws = min n (length xs)"
    "\<And>x w. x \<in> set xs \<Longrightarrow> x \<notin> set ws \<Longrightarrow> w \<in> set ws \<Longrightarrow> f x < f w"
proof -
  let ?ys = "order_desc f xs"
  have m: "mset ?ys = mset xs" by (simp add: order_desc_def)
  have "mset (map f ?ys) = mset (map f xs)" using m by simp
  then have "distinct (map f ?ys)" using d mset_eq_imp_distinct_iff by blast
  then have dm: "distinct (map f (take n ?ys @ drop n ?ys))" by simp
  then have dt: "distinct (map f (take n ?ys))" by (simp only: map_append distinct_append)
  have dd: "f x \<noteq> f y" if "x \<in> set (take n ?ys)" "y \<in> set (drop n ?ys)" for x y
    using dm that by (auto simp only: map_append distinct_append set_map)
  show "sorted_wrt (<) (map f ws)" unfolding w using dt by (rule sort_key_strict)
  show "set ws \<subseteq> set xs" using m w by (metis mset_eq_setD set_sort set_take_subset)
  show "length ws = min n (length xs)" using m w by (metis length_sort length_take min.commute mset_eq_length)
  fix x v assume x: "x \<in> set xs" "x \<notin> set ws" "v \<in> set ws"
  then have "x \<in> set (drop n ?ys)" "v \<in> set (take n ?ys)"
    using m w by (metis append_take_drop_id mset_eq_setD set_append set_sort UnE, simp)
  moreover have "sorted_wrt (\<le>) (map (\<lambda>x. - f x) (take n ?ys @ drop n ?ys))" by (simp add: order_desc_def)
  ultimately have "- f v \<le> - f x" by (fastforce simp: sorted_wrt_append simp del: append_take_drop_id)
  with dd [of v x] show "f x < f v" using \<open>x \<in> set (drop n ?ys)\<close> \<open>v \<in> set (take n ?ys)\<close> by fastforce
qed

definition stored_candles :: "string \<Rightarrow> string \<Rightarrow> store \<Rightarrow> candle list" where
  "stored_candles sb tf s = tb_select (\<lambda>c. c_Symbol c = sb \<and> c_Timeframe c = tf) (db_candles s)"

lemma stored_candles_distinct:
  assumes "distinct (tb_keys candle_key (db_candles s))"
  shows "distinct (map c_OpenTime (stored_candles sb tf s))"
proof -
  have d: "distinct (map snd (tb_rows (db_candles s)))"
    and inj: "inj_on candle_key (snd ` set (tb_rows (db_candles s)))"
    using assms by (simp_all add: tb_keys_def distinct_map comp_inj_on_iff flip: map_map)
  have "inj_on c_OpenTime (set (stored_candles sb tf s))"
  proof (rule inj_onI)
    fix x y assume "x \<in> set (stored_candles sb tf s)" "y \<in> set (stored_candles sb tf s)" "c_OpenTime x = c_OpenTime y"
    then have "candle_key x = candle_key y" "x \<in> snd ` set (tb_rows (db_candles s))"
      "y \<in> snd ` set (tb_rows (db_candles s))"
      by (auto simp: stored_candles_def tb_select_def candle_key_def)
    with inj show "x = y" by (rule inj_onD)
  qed
  moreover have "distinct (stored_candles sb tf s)" using d by (simp add: stored_candles_def tb_select_def)
  ultimately show ?thesis by (simp add: distinct_map)
qed

lemma upsert_values:
  "snd ` set (tb_rows (tb_upsert kf x t)) = insert x {y \<in> snd ` set (tb_rows t). kf y \<noteq> kf x}"
proof (cases "\<exists>r\<in>set (tb_rows t). kf (snd r) = kf x")
  case True
  have "snd ` set (tb_rows (tb_map (\<lambda>r. kf (snd r) = kf x) (\<lambda>_. x) t)) =
      (\<lambda>r. if kf (snd r) = kf x then x else snd r) ` set (tb_rows t)"
    unfolding tb_map_def by (simp add: image_image del: if_image_distrib) (rule image_cong; simp)
  with True show ?thesis by (auto simp: tb_upsert_def)
next
  case False
  then show ?thesis by (auto simp: tb_upsert_def tb_append_def)
qed

lemma numeric_candle_simps [simp]:
  "c_Symbol (numeric_candle num c) = c_Symbol c" "c_Timeframe (numeric_candle num c) = c_Timeframe c"
  "c_OpenTime (numeric_candle num c) = c_OpenTime c" "candle_key (numeric_candle num c) = candle_key c"
  by (simp_all add: numeric_candle_def candle_key_def)

text \<open>The newest \<open>n\<close> rows hold a row exactly when fewer than \<open>n\<close> rows are newer.\<close>

lemma window_member:
  fixes f :: "'a \<Rightarrow> int"
  assumes d: "distinct (map f xs)" and w: "ws = sort_key f (take n (order_desc f xs))" and x: "x \<in> set xs" and n: "0 < n"
  shows "x \<in> set ws \<longleftrightarrow> card {y \<in> set xs. f x < f y} < n"
proof -
  note lw = latest_window [OF d w]
  have dw: "distinct ws" using lw(1) by (metis distinct_map strict_sorted_iff)
  have fin: "finite {y \<in> set xs. f x < f y}" by simp
  show ?thesis
  proof (cases "x \<in> set ws")
    case True
    have "{y \<in> set xs. f x < f y} \<subseteq> set ws - {x}"
      using lw(4) [of _ x] True by (auto dest: less_asym)
    then have "card {y \<in> set xs. f x < f y} \<le> card (set ws - {x})" by (intro card_mono) simp_all
    also have "\<dots> < card (set ws)" by (rule card_Diff1_less) (simp_all add: True)
    also have "\<dots> \<le> n" using dw lw(3) by (simp add: distinct_card)
    finally show ?thesis using True by simp
  next
    case False
    then have "set ws \<subseteq> {y \<in> set xs. f x < f y}" using lw(2) lw(4) [OF x] by auto
    then have "card (set ws) \<le> card {y \<in> set xs. f x < f y}" by (intro card_mono) simp_all
    moreover have "length ws = n"
    proof (rule ccontr)
      assume "length ws \<noteq> n"
      then have "length ws = length xs" using lw(3) by simp
      then have "card (set ws) = card (set xs)" using dw d by (simp add: distinct_card distinct_map)
      then have "set ws = set xs" using lw(2) by (simp add: card_subset_eq)
      then show False using False x by simp
    qed
    ultimately show ?thesis using False dw by (simp add: distinct_card)
  qed
qed

text \<open>
  C15: While the database answers and \<open>n\<close> is positive: after the insert the series of the candle's symbol and timeframe holds the
  candle as the numeric columns give it back (\<open>db_numeric\<close>), in the place of the one with the same open time, and is otherwise
  as before, as is every other series. Asking for the latest \<open>n\<close> candles of the series returns candles of it with strictly
  increasing open times, as many as there are up to \<open>n\<close>, each of them newer than every candle left out; the inserted
  one is among them exactly when fewer than \<open>n\<close> candles of the series are newer.
\<close>

theorem candles_read_back:
  assumes "db_faults s = []" "distinct (tb_keys candle_key (db_candles s))" "0 < n"
  shows "\<exists>s1 i cs. candle_Insert c s = (s1, Inr i) \<and>
    candle_GetBySymbolTimeframe (c_Symbol c) (c_Timeframe c) n s1 = (s1, Inr cs) \<and>
    (let series = stored_candles (c_Symbol c) (c_Timeframe c) s1; stored = numeric_candle (db_numeric s) c
     in set series = insert stored {d \<in> set (stored_candles (c_Symbol c) (c_Timeframe c) s). c_OpenTime d \<noteq> c_OpenTime c} \<and>
        (\<forall>sb tf. (sb, tf) \<noteq> (c_Symbol c, c_Timeframe c) \<longrightarrow> set (stored_candles sb tf s1) = set (stored_candles sb tf s)) \<and>
        sorted_wrt (<) (map c_OpenTime cs) \<and> set cs \<subseteq> set series \<and> length cs = min (nat n) (length series) \<and>
        (\<forall>d\<in>set series - set cs. \<forall>e\<in>set cs. c_OpenTime d < c_OpenTime e) \<and>
        (stored \<in> set cs \<longleftrightarrow> card {d \<in> set series. c_OpenTime c < c_OpenTime d} < nat n))"
proof -
  let ?c = "numeric_candle (db_numeric s) c"
  let ?s1 = "s\<lparr>db_candles := tb_upsert candle_key ?c (db_candles s)\<rparr>"
  let ?all = "stored_candles (c_Symbol c) (c_Timeframe c) ?s1"
  let ?cs = "sort_key c_OpenTime (take (nat n) (order_desc c_OpenTime ?all))"
  obtain i where i: "candle_Insert c s = (?s1, Inr i)"
    using assms(1) by (simp add: candle_Insert_def Let_def)
  have g: "candle_GetBySymbolTimeframe (c_Symbol c) (c_Timeframe c) n ?s1 = (?s1, Inr ?cs)"
    using assms(1,3) by (simp add: candle_GetBySymbolTimeframe_def stored_candles_def)
  have "distinct (tb_keys candle_key (db_candles ?s1))" using assms(2) by (simp add: tb_upsert_keys)
  note dist = stored_candles_distinct [OF this, of "c_Symbol c" "c_Timeframe c"]
  note w = latest_window [OF dist refl, where n = "nat n"]
  note vals = upsert_values [of candle_key ?c "db_candles s"]
  have all: "set ?all = insert ?c {d \<in> set (stored_candles (c_Symbol c) (c_Timeframe c) s). c_OpenTime d \<noteq> c_OpenTime c}"
    using vals by (auto simp: stored_candles_def tb_select_def candle_key_def)
  have other: "\<forall>sb tf. (sb, tf) \<noteq> (c_Symbol c, c_Timeframe c) \<longrightarrow> set (stored_candles sb tf ?s1) = set (stored_candles sb tf s)"
    using vals by (auto simp: stored_candles_def tb_select_def candle_key_def)
  have "?c \<in> set ?all" unfolding all by simp
  from window_member [OF dist refl this, of "nat n"] assms(3)
  have m: "?c \<in> set ?cs \<longleftrightarrow> card {d \<in> set ?all. c_OpenTime c < c_OpenTime d} < nat n" by simp
  have old: "\<forall>d\<in>set ?all - set ?cs. \<forall>e\<in>set ?cs. c_OpenTime d < c_OpenTime e" using w(4) by blast
  show ?thesis
    unfolding Let_def using i g all other w(1-3) old m
    by (intro exI [of _ ?s1] exI [of _ i] exI [of _ ?cs] conjI) assumption+
qed

definition demo_bar :: candle where
  "demo_bar = \<lparr> c_Symbol = ''BTCUSDT'', c_Timeframe = ''15m'', c_OpenTime = 0, c_Open = Fin 1, c_High = Fin 1,
     c_Low = Fin 1, c_Close = Fin 1, c_Volume = Fin 1, c_TurnOver = Fin 0, c_Confirmed = True \<rparr>"

text \<open>A database that keeps whole numbers: the close of 1.5 comes back as 1.\<close>

definition whole_number :: "f64 \<Rightarrow> f64" where
  "whole_number x = (case x of Fin q \<Rightarrow> Fin (of_int (floor q)) | _ \<Rightarrow> x)"

theorem candles_read_back_witness:
  "\<exists>s1 i cs. candle_Insert (demo_bar\<lparr>c_Close := Fin (3 / 2)\<rparr>) ((empty_store [])\<lparr>db_numeric := whole_number\<rparr>) = (s1, Inr i) \<and>
    candle_GetBySymbolTimeframe ''BTCUSDT'' ''15m'' 3 s1 = (s1, Inr cs) \<and>
    numeric_candle whole_number (demo_bar\<lparr>c_Close := Fin (3 / 2)\<rparr>) \<in> set cs"
proof -
  let ?c = "demo_bar\<lparr>c_Close := Fin (3 / 2)\<rparr>" and ?s = "(empty_store [])\<lparr>db_numeric := whole_number\<rparr>"
  have none: "stored_candles ''BTCUSDT'' ''15m'' ?s = []"
    by (simp add: stored_candles_def tb_select_def empty_store_def empty_table_def)
  have "db_faults ?s = []" "distinct (tb_keys candle_key (db_candles ?s))"
    by (simp_all add: empty_store_def tb_keys_def empty_table_def)
  from candles_read_back [OF this, of 3 ?c] obtain s1 i cs where
    r: "candle_Insert ?c ?s = (s1, Inr i)" "candle_GetBySymbolTimeframe ''BTCUSDT'' ''15m'' 3 s1 = (s1, Inr cs)"
      "set (stored_candles ''BTCUSDT'' ''15m'' s1) = {numeric_candle whole_number ?c}"
      "numeric_candle whole_number ?c \<in> set cs \<longleftrightarrow>
        card {d \<in> set (stored_candles ''BTCUSDT'' ''15m'' s1). c_OpenTime ?c < c_OpenTime d} < nat 3"
    by (auto simp: none demo_bar_def Let_def)
  have e: "{d \<in> set (stored_candles ''BTCUSDT'' ''15m'' s1). c_OpenTime ?c < c_OpenTime d} = {}"
    unfolding r(3) by auto
  have "numeric_candle whole_number ?c \<in> set cs" unfolding r(4) e by simp
  then show ?thesis using r(1,2) by blast
qed

text \<open>A position comes back as it was written, under the key it was given; a closing time is not written by
  the insert, and a take-profit that is not positive reads as 0.\<close>

lemma position_read_back:
  assumes "db_faults s = []" "tb_wf (db_positions s)" "p_Status p = PositionStatusOpen"
    and "\<forall>r\<in>set (tb_rows (db_positions s)). p_Symbol (snd r) = p_Symbol p \<longrightarrow> p_Status (snd r) \<noteq> PositionStatusOpen"
  shows "\<exists>s1 i. position_Insert p s = (s1, Inr i) \<and> tb_seq (db_positions s) < i \<and>
    position_GetBySymbol (p_Symbol p) s1 =
      (s1, Inr (Some (p\<lparr>p_ID := i, p_TakeProfit := stored_tp (p_TakeProfit p), p_ClosedAt := None\<rparr>)))"
proof -
  have "filter (\<lambda>q. p_Symbol q = p_Symbol p \<and> p_Status q = PositionStatusOpen)
      (map scan_position (tb_rows (db_positions s))) = []"
    using assms(4) by (auto simp: filter_empty_conv scan_position_def)
  with assms(1,3) show ?thesis
    by (simp add: position_Insert_def position_GetBySymbol_def query_def tb_append_def Let_def
        first_row_def scan_position_def)
qed

end
