(* ===== verification/Simulator.thy ===== *)
theory Simulator
  imports Store Risk
begin

text \<open>
  The paper simulator (\<open>internal/execution/paper/simulator.go\<close>). The repositories are interface values: a
  record of functions over the state \<open>'s\<close> of the database, \<open>None\<close> when the interface is nil. The price feed
  is an argument, with \<open>None\<close> for a symbol whose price it reports as an error; one operation reads the clock
  once. Every operation is one atomic step: \<open>checkMu\<close> serialises the checks, and the interleaving of a
  check with a fill that has not yet written its row is not modelled. The logger and the ticker loop of
  \<open>Run\<close> are left out.
\<close>

section \<open>Repository interfaces\<close>

record 's trade_repo =
  repo_Insert :: "paper_trade \<Rightarrow> 's \<Rightarrow> 's \<times> (db_error + unit)"
  repo_Update :: "paper_trade \<Rightarrow> 's \<Rightarrow> 's \<times> (db_error + unit)"
  repo_GetOpen :: "'s \<Rightarrow> 's \<times> (db_error + paper_trade list)"
  repo_GetAll :: "time \<Rightarrow> 's \<Rightarrow> 's \<times> (db_error + paper_trade list)"

record 's account_repo =
  arepo_Get :: "'s \<Rightarrow> 's \<times> (db_error + paper_account_state)"
  arepo_Update :: "time \<Rightarrow> paper_account_state \<Rightarrow> 's \<Rightarrow> 's \<times> (db_error + unit)"

definition postgres_trades :: "store trade_repo" where
  "postgres_trades =
    \<lparr> repo_Insert = trade_Insert, repo_Update = trade_Update, repo_GetOpen = trade_GetOpen,
      repo_GetAll = trade_GetAll \<rparr>"

definition postgres_account :: "store account_repo" where
  "postgres_account = \<lparr> arepo_Get = account_Get, arepo_Update = account_Update \<rparr>"

type_synonym price_feed = "string \<Rightarrow> f64 option"

section \<open>State\<close>

record 's simulator =
  sim_trades :: "'s trade_repo option"
  sim_accounts :: "'s account_repo option"
  sim_cfg :: paper_config
  sim_startingEquity :: f64
  sim_currentEquity :: f64
  sim_totalTrades :: int
  sim_wins :: int
  sim_losses :: int
  sim_realizedPnL :: f64
  sim_consecutiveLosses :: int
  sim_initializedAt :: time

definition NewSimulator ::
  "'s trade_repo option \<Rightarrow> 's account_repo option \<Rightarrow> paper_config \<Rightarrow> 's simulator" where
  "NewSimulator tr ar cfg =
    \<lparr> sim_trades = tr, sim_accounts = ar, sim_cfg = cfg, sim_startingEquity = Fin 0, sim_currentEquity = Fin 0,
      sim_totalTrades = 0, sim_wins = 0, sim_losses = 0, sim_realizedPnL = Fin 0, sim_consecutiveLosses = 0,
      sim_initializedAt = zero_time \<rparr>"

datatype sim_error = RepoError string db_error | PriceError string | InvalidPrice string f64

text \<open>\<open>math.Pow10\<close> is exact up to the 22nd power; the program uses the 8th only.\<close>

definition roundToPrecision :: "f64 \<Rightarrow> int \<Rightarrow> f64" where
  "roundToPrecision v prec =
    (if prec \<le> 0 then math_Round v
     else let p = rnd (10 ^ nat prec) in math_Round (v * p) / p)"

section \<open>Account\<close>

definition persistAccountState :: "time \<Rightarrow> 's simulator \<Rightarrow> 's \<Rightarrow> 's" where
  "persistAccountState now m s =
    (case sim_accounts m of
       None \<Rightarrow> s
     | Some ar \<Rightarrow> fst (arepo_Update ar now
         \<lparr> pas_ID = 1, pas_StartingEquity = sim_startingEquity m, pas_CurrentEquity = sim_currentEquity m,
           pas_TotalTrades = sim_totalTrades m, pas_Wins = sim_wins m, pas_Losses = sim_losses m,
           pas_RealizedPnL = sim_realizedPnL m, pas_ConsecutiveLosses = sim_consecutiveLosses m,
           pas_UpdatedAt = zero_time \<rparr> s))"

definition Initialize :: "time \<Rightarrow> 's simulator \<Rightarrow> 's \<Rightarrow> 's simulator \<times> 's \<times> sim_error option" where
  "Initialize now m s =
    (let m0 = m\<lparr>sim_initializedAt := now\<rparr>; start = pc_StartingBalanceUSD (sim_cfg m)
     in case sim_accounts m of
          None \<Rightarrow> (m0\<lparr>sim_startingEquity := start, sim_currentEquity := start\<rparr>, s, None)
        | Some ar \<Rightarrow>
            (case arepo_Get ar s of
               (s1, Inl e) \<Rightarrow> (m0, s1, Some (RepoError ''load paper account'' e))
             | (s1, Inr st) \<Rightarrow>
                 (let fresh = (pas_StartingEquity st \<le> Fin 0);
                      m1 = m0\<lparr>sim_startingEquity := (if fresh then start else pas_StartingEquity st),
                              sim_currentEquity := (if fresh then start else pas_CurrentEquity st),
                              sim_totalTrades := pas_TotalTrades st, sim_wins := pas_Wins st,
                              sim_losses := pas_Losses st, sim_realizedPnL := pas_RealizedPnL st,
                              sim_consecutiveLosses := pas_ConsecutiveLosses st\<rparr>;
                      s2 = persistAccountState now m1 s1
                  in case sim_trades m of
                       None \<Rightarrow> (m1, s2, None)
                     | Some tr \<Rightarrow> (m1, fst (repo_GetOpen tr s2), None))))"

definition sim_AccountState :: "'s simulator \<Rightarrow> account_state" where
  "sim_AccountState m =
    \<lparr> a_ID = 0, a_Balance = sim_currentEquity m, a_AvailableBalance = Fin 0, a_UsedMargin = Fin 0,
      a_Equity = sim_currentEquity m, a_RealizedPnL = sim_realizedPnL m, a_UnrealizedPnL = Fin 0,
      a_TotalFees = Fin 0, a_TotalSlippage = Fin 0, a_DailyLoss = Fin 0, a_RecordedAt = zero_time \<rparr>"

definition sim_SetConsecutiveLosses :: "int \<Rightarrow> 's simulator \<Rightarrow> 's simulator" where
  "sim_SetConsecutiveLosses n m = m\<lparr>sim_consecutiveLosses := n\<rparr>"

definition OpenPositionCount :: "'s simulator \<Rightarrow> 's \<Rightarrow> 's \<times> int" where
  "OpenPositionCount m s =
    (case sim_trades m of
       None \<Rightarrow> (s, 0)
     | Some tr \<Rightarrow>
         (case repo_GetOpen tr s of (s1, Inl _) \<Rightarrow> (s1, 0) | (s1, Inr ts) \<Rightarrow> (s1, int (length ts))))"

section \<open>Opening a trade\<close>

definition clamp_fee :: "f64 \<Rightarrow> f64" where
  "clamp_fee fee = (if fee < Fin 0 then Fin 0 else fee)"

definition taker_fee :: "paper_config \<Rightarrow> f64 \<Rightarrow> f64 \<Rightarrow> f64" where
  "taker_fee cfg qty price = clamp_fee (roundToPrecision (qty * price * (pc_FeeTakerBps cfg / Fin 10000)) 8)"

definition fill_price :: "paper_config \<Rightarrow> side \<Rightarrow> f64 \<Rightarrow> f64" where
  "fill_price cfg sd price =
    (let bps = default_f64 (Fin 5) (pc_SlippageBps cfg)
     in if sd = SideLong then roundToPrecision (price * (Fin 1 + bps / Fin 10000)) 8
        else roundToPrecision (price * (Fin 1 - bps / Fin 10000)) 8)"

definition plan_target :: "order_plan \<Rightarrow> f64" where
  "plan_target plan =
    (let tp = (case op_TakeProfits plan of [] \<Rightarrow> Fin 0 | t # _ \<Rightarrow> tpp_Price t);
         r = \<bar>op_EntryPrice plan - op_StopLoss plan\<bar>
     in if tp \<le> Fin 0 \<and> Fin 0 < op_StopLoss plan
        then (if op_Side plan = SideLong then op_EntryPrice plan + r * Fin 2 else op_EntryPrice plan - r * Fin 2)
        else tp)"

text \<open>The stop and the target, moved along when the fill is more than half a percent off the plan.\<close>

definition fill_levels :: "order_plan \<Rightarrow> f64 \<Rightarrow> f64 \<times> f64" where
  "fill_levels plan price =
    (let entry = op_EntryPrice plan; sl = op_StopLoss plan; tp = plan_target plan
     in if Fin 0 < entry \<and> Fin 0 < sl \<and> Fin 0 < tp \<and> lit (5 / 1000) < \<bar>price - entry\<bar> / entry
        then (let riskDist = \<bar>entry - sl\<bar>; tpDist = \<bar>tp - entry\<bar>
              in if op_Side plan = SideLong
                 then (roundToPrecision (price - riskDist) 8, roundToPrecision (price + tpDist) 8)
                 else (roundToPrecision (price + riskDist) 8, roundToPrecision (price - tpDist) 8))
        else (sl, tp))"

definition filled_trade :: "paper_config \<Rightarrow> string \<Rightarrow> time \<Rightarrow> string \<Rightarrow> order_plan \<Rightarrow> f64 \<Rightarrow> paper_trade" where
  "filled_trade cfg uuid now decisionID plan price =
    (let (sl, tp) = fill_levels plan price
     in \<lparr> tr_PaperTradeID = uuid, tr_DecisionID = decisionID, tr_OpenedAt = now, tr_ClosedAt = None,
          tr_Symbol = op_Symbol plan, tr_Side = op_Side plan, tr_Qty = op_Qty plan,
          tr_Leverage = op_Leverage plan, tr_EntryPrice = price, tr_ExitPrice = None, tr_StopLoss = sl,
          tr_TakeProfit = tp, tr_FeesPaid = taker_fee cfg (op_Qty plan) price, tr_FundingPaid = Fin 0,
          tr_PnLGross = None, tr_PnLNet = None, tr_RMultiple = None, tr_ExitReason = [] \<rparr>)"

definition SimulateFill ::
  "price_feed \<Rightarrow> string \<Rightarrow> time \<Rightarrow> string \<Rightarrow> order_plan \<Rightarrow> 's simulator \<Rightarrow> 's
    \<Rightarrow> 's simulator \<times> 's \<times> (sim_error + paper_trade)" where
  "SimulateFill feed uuid now decisionID plan m s =
    (case feed (op_Symbol plan) of
       None \<Rightarrow> (m, s, Inl (PriceError ''get latest price''))
     | Some p \<Rightarrow>
         if p \<le> Fin 0 then (m, s, Inl (InvalidPrice (op_Symbol plan) p))
         else
           (let trade = filled_trade (sim_cfg m) uuid now decisionID plan (fill_price (sim_cfg m) (op_Side plan) p);
                m1 = m\<lparr>sim_currentEquity := roundToPrecision (sim_currentEquity m - tr_FeesPaid trade) 8,
                        sim_totalTrades := sim_totalTrades m + 1\<rparr>
            in case sim_trades m of
                 None \<Rightarrow> (m1, persistAccountState now m1 s, Inr trade)
               | Some tr \<Rightarrow>
                   (case repo_Insert tr trade s of
                      (s1, Inl e) \<Rightarrow> (m1, s1, Inl (RepoError ''insert paper trade'' e))
                    | (s1, Inr _) \<Rightarrow> (m1, persistAccountState now m1 s1, Inr trade))))"

section \<open>Closing trades\<close>

text \<open>What the price does to an open trade: the exit price and the reason, if it closes. The stop is looked at
  first.\<close>

definition exit_of :: "paper_config \<Rightarrow> paper_trade \<Rightarrow> f64 \<Rightarrow> (f64 \<times> string) option" where
  "exit_of cfg t price =
    (let slippage = pc_SlippageBps cfg / Fin 10000
     in if tr_Side t = SideLong then
          (if price \<le> tr_StopLoss t then Some (tr_StopLoss t * (Fin 1 - slippage), ''sl'')
           else if tr_TakeProfit t \<le> price then Some (tr_TakeProfit t * (Fin 1 - slippage), ''tp1'')
           else None)
        else
          (if tr_StopLoss t \<le> price then Some (tr_StopLoss t * (Fin 1 + slippage), ''sl'')
           else if price \<le> tr_TakeProfit t then Some (tr_TakeProfit t * (Fin 1 + slippage), ''tp1'')
           else None))"

definition gross_pnl :: "paper_trade \<Rightarrow> f64 \<Rightarrow> f64" where
  "gross_pnl t exitPrice =
    (if tr_Side t = SideLong then roundToPrecision ((exitPrice - tr_EntryPrice t) * tr_Qty t) 8
     else roundToPrecision ((tr_EntryPrice t - exitPrice) * tr_Qty t) 8)"

definition net_pnl :: "paper_config \<Rightarrow> paper_trade \<Rightarrow> f64 \<Rightarrow> f64" where
  "net_pnl cfg t exitPrice =
    roundToPrecision (gross_pnl t exitPrice - taker_fee cfg (tr_Qty t) exitPrice) 8"

definition r_multiple :: "paper_trade \<Rightarrow> f64 \<Rightarrow> string \<Rightarrow> f64" where
  "r_multiple t exitPrice reason =
    (let riskPerUnit = \<bar>tr_EntryPrice t - tr_StopLoss t\<bar>
     in if Fin 0 < tr_EntryPrice t \<and> Fin 0 < tr_StopLoss t \<and> Fin 0 < riskPerUnit
        then (if reason = ''sl'' then Fin (- 1)
              else roundToPrecision (\<bar>exitPrice - tr_EntryPrice t\<bar> / riskPerUnit) 8)
        else Fin 0)"

definition closed_trade :: "paper_config \<Rightarrow> time \<Rightarrow> paper_trade \<Rightarrow> f64 \<Rightarrow> string \<Rightarrow> paper_trade" where
  "closed_trade cfg now t exitPrice reason =
    t\<lparr>tr_ClosedAt := Some now, tr_ExitPrice := Some exitPrice,
      tr_FeesPaid := roundToPrecision (tr_FeesPaid t + taker_fee cfg (tr_Qty t) exitPrice) 8,
      tr_PnLGross := Some (gross_pnl t exitPrice), tr_PnLNet := Some (net_pnl cfg t exitPrice),
      tr_RMultiple := Some (r_multiple t exitPrice reason), tr_ExitReason := reason\<rparr>"

definition rehydrated :: "'s simulator \<Rightarrow> paper_trade \<Rightarrow> bool" where
  "rehydrated m t \<longleftrightarrow> \<not> IsZero (sim_initializedAt m) \<and> tr_OpenedAt t < sim_initializedAt m"

definition book_result :: "paper_trade \<Rightarrow> f64 \<Rightarrow> 's simulator \<Rightarrow> 's simulator" where
  "book_result t pnl m =
    (let m1 = m\<lparr>sim_currentEquity := roundToPrecision (sim_currentEquity m + pnl) 8,
                sim_realizedPnL := roundToPrecision (sim_realizedPnL m + pnl) 8\<rparr>
     in if rehydrated m t then m1
        else if Fin 0 < pnl then m1\<lparr>sim_wins := sim_wins m + 1, sim_consecutiveLosses := 0\<rparr>
        else m1\<lparr>sim_losses := sim_losses m + 1, sim_consecutiveLosses := sim_consecutiveLosses m + 1\<rparr>)"

definition closeTrade ::
  "time \<Rightarrow> paper_trade \<Rightarrow> f64 \<Rightarrow> string \<Rightarrow> 's simulator \<times> 's \<Rightarrow> 's simulator \<times> 's" where
  "closeTrade now t exitPrice reason ms =
    (let (m, s) = ms; m1 = book_result t (net_pnl (sim_cfg m) t exitPrice) m
     in case sim_trades m of
          None \<Rightarrow> (m1, persistAccountState now m1 s)
        | Some tr \<Rightarrow>
            (case repo_Update tr (closed_trade (sim_cfg m) now t exitPrice reason) s of
               (s1, Inl _) \<Rightarrow> (m1, s1)
             | (s1, Inr _) \<Rightarrow> (m1, persistAccountState now m1 s1)))"

definition usable_price :: "price_feed \<Rightarrow> string \<Rightarrow> f64 option" where
  "usable_price feed symbol =
    (case feed symbol of None \<Rightarrow> None | Some p \<Rightarrow> if p \<le> Fin 0 then None else Some p)"

definition check_trade ::
  "price_feed \<Rightarrow> time \<Rightarrow> 's simulator \<times> 's \<Rightarrow> paper_trade \<Rightarrow> 's simulator \<times> 's" where
  "check_trade feed now ms t =
    (case usable_price feed (tr_Symbol t) of
       None \<Rightarrow> ms
     | Some p \<Rightarrow>
         (case exit_of (sim_cfg (fst ms)) t p of
            None \<Rightarrow> ms
          | Some (exitPrice, reason) \<Rightarrow> closeTrade now t exitPrice reason ms))"

definition CheckOpenPositions ::
  "price_feed \<Rightarrow> time \<Rightarrow> 's simulator \<Rightarrow> 's \<Rightarrow> 's simulator \<times> 's \<times> sim_error option" where
  "CheckOpenPositions feed now m s =
    (case sim_trades m of
       None \<Rightarrow> (m, s, None)
     | Some tr \<Rightarrow>
         (case repo_GetOpen tr s of
            (s1, Inl e) \<Rightarrow> (m, s1, Some (RepoError ''get open paper trades'' e))
          | (s1, Inr ts) \<Rightarrow>
              (let (m2, s2) = foldl (check_trade feed now) (m, s1) ts in (m2, s2, None))))"

section \<open>Queries and reset\<close>

definition paper_position :: "paper_trade \<Rightarrow> position" where
  "paper_position t =
    \<lparr> p_ID = 0, p_Symbol = tr_Symbol t, p_Side = tr_Side t, p_EntryPrice = tr_EntryPrice t, p_Size = tr_Qty t,
      p_Leverage = tr_Leverage t, p_Margin = Fin 0, p_StopLoss = tr_StopLoss t, p_TakeProfit = tr_TakeProfit t,
      p_SLOrderID = None, p_TPOrderID = None, p_UnrealizedPnL = Fin 0, p_RealizedPnL = Fin 0,
      p_Status = PositionStatusOpen, p_Source = ''paper'', p_OpenedAt = tr_OpenedAt t, p_ClosedAt = None \<rparr>"

definition sim_GetOpenPositions :: "'s simulator \<Rightarrow> 's \<Rightarrow> 's \<times> (db_error + position list)" where
  "sim_GetOpenPositions m s =
    (case sim_trades m of
       None \<Rightarrow> (s, Inr [])
     | Some tr \<Rightarrow>
         (case repo_GetOpen tr s of (s1, Inl e) \<Rightarrow> (s1, Inl e) | (s1, Inr ts) \<Rightarrow> (s1, Inr (map paper_position ts))))"

definition GetRecentClosedTrades ::
  "time \<Rightarrow> 's simulator \<Rightarrow> 's \<Rightarrow> 's \<times> (db_error + paper_trade list)" where
  "GetRecentClosedTrades from m s =
    (case sim_trades m of
       None \<Rightarrow> (s, Inr [])
     | Some tr \<Rightarrow>
         (case repo_GetAll tr from s of
            (s1, Inl e) \<Rightarrow> (s1, Inl e)
          | (s1, Inr ts) \<Rightarrow> (s1, Inr (filter (\<lambda>t. tr_ClosedAt t \<noteq> None \<and> tr_ExitReason t \<noteq> []) ts))))"

definition cancelled_trade :: "time \<Rightarrow> paper_trade \<Rightarrow> paper_trade" where
  "cancelled_trade now t =
    t\<lparr>tr_ClosedAt := Some now, tr_ExitReason := ''cancelled'', tr_PnLGross := Some (Fin 0),
      tr_PnLNet := Some (Fin 0), tr_RMultiple := Some (Fin 0)\<rparr>"

definition CancelOpenPositions :: "time \<Rightarrow> 's simulator \<Rightarrow> 's \<Rightarrow> 's \<times> sim_error option" where
  "CancelOpenPositions now m s =
    (case sim_trades m of
       None \<Rightarrow> (s, None)
     | Some tr \<Rightarrow>
         (case repo_GetOpen tr s of
            (s1, Inl e) \<Rightarrow> (s1, Some (RepoError ''get open trades for cancellation'' e))
          | (s1, Inr ts) \<Rightarrow> (foldl (\<lambda>s t. fst (repo_Update tr (cancelled_trade now t) s)) s1 ts, None)))"

end
