(* ===== verification/SimulatorSpec.thy ===== *)
theory SimulatorSpec
  imports Simulator Repository
begin

text \<open>
  What the paper simulator guarantees over any repositories that keep their contract (\<open>paper_repos\<close>), and
  the same facts for the database: a check closes exactly the trades whose level was reached, the counters
  account for every trade of the session, and what a failing update does.
\<close>

section \<open>The contract of the repositories\<close>

locale paper_repos = table_updates "repo_Update T" rows live tr_PaperTradeID merge_trade
  for T :: "'s trade_repo"
    and rows :: "'s \<Rightarrow> paper_trade list"
    and live :: "'s \<Rightarrow> bool" +
  fixes A :: "'s account_repo"
  assumes get_open: "live s \<Longrightarrow> repo_GetOpen T s = (s, Inr (open_trades (rows s)))"
    and insert_row: "live s \<Longrightarrow> repo_Insert T t s = (s', Inr u) \<Longrightarrow>
      live s' \<and> rows s' = rows s @ [t] \<and> tr_PaperTradeID t \<notin> tr_PaperTradeID ` set (rows s)"
    and account: "live s \<Longrightarrow>
      live (fst (arepo_Update A now a s)) \<and> rows (fst (arepo_Update A now a s)) = rows s"

definition keys_ok :: "paper_trade list \<Rightarrow> bool" where
  "keys_ok rs \<longleftrightarrow> distinct (map tr_PaperTradeID rs)"

abbreviation stored :: "paper_trade \<Rightarrow> paper_trade \<Rightarrow> bool" where
  "stored \<equiv> same_row tr_PaperTradeID merge_trade"

text \<open>What a check makes of one trade.\<close>

definition settle :: "paper_config \<Rightarrow> price_feed \<Rightarrow> time \<Rightarrow> paper_trade \<Rightarrow> paper_trade" where
  "settle cfg feed now t =
    (case usable_price feed (tr_Symbol t) of
       None \<Rightarrow> t
     | Some p \<Rightarrow> (case exit_of cfg t p of None \<Rightarrow> t | Some (x, reason) \<Rightarrow> closed_trade cfg now t x reason))"

lemma stored_simps [simp]:
  "stored t (closed_trade cfg now t x r)" "stored t (cancelled_trade now t)" "stored t (settle cfg feed now t)"
  by (auto simp: same_row_def merge_trade_def closed_trade_def cancelled_trade_def settle_def
      split: option.split)

lemma open_trades_mset: "mset (open_trades rs) = mset (filter (\<lambda>t. tr_ClosedAt t = None) rs)"
  by (simp add: open_trades_def)

lemma set_open_trades: "set (open_trades rs) = {t \<in> set rs. tr_ClosedAt t = None}"
  using open_trades_mset [of rs] by (metis mset_eq_setD set_filter)

lemma distinct_open_trades: "keys_ok rs \<Longrightarrow> distinct (open_trades rs)"
  by (simp add: keys_ok_def distinct_map open_trades_def)

lemma persist_none: "sim_accounts m = None \<Longrightarrow> persistAccountState now m s = s"
  by (simp add: persistAccountState_def)

lemma book_result_frame [simp]:
  "sim_trades (book_result t x m) = sim_trades m" "sim_accounts (book_result t x m) = sim_accounts m"
  "sim_cfg (book_result t x m) = sim_cfg m" "sim_initializedAt (book_result t x m) = sim_initializedAt m"
  "sim_totalTrades (book_result t x m) = sim_totalTrades m"
  "sim_startingEquity (book_result t x m) = sim_startingEquity m"
  by (simp_all add: book_result_def Let_def)

text \<open>The part of a check that concerns the account.\<close>

definition book_check :: "price_feed \<Rightarrow> 's simulator \<Rightarrow> paper_trade \<Rightarrow> 's simulator" where
  "book_check feed m t =
    (case usable_price feed (tr_Symbol t) of
       None \<Rightarrow> m
     | Some p \<Rightarrow> (case exit_of (sim_cfg m) t p of None \<Rightarrow> m | Some (x, _) \<Rightarrow> book_result t (net_pnl (sim_cfg m) t x) m))"

lemma book_check_frame [simp]:
  "sim_trades (book_check feed m t) = sim_trades m" "sim_accounts (book_check feed m t) = sim_accounts m"
  "sim_cfg (book_check feed m t) = sim_cfg m" "sim_initializedAt (book_check feed m t) = sim_initializedAt m"
  "sim_totalTrades (book_check feed m t) = sim_totalTrades m"
  by (simp_all add: book_check_def split: option.split)

lemma foldl_book_frame [simp]:
  "sim_trades (foldl (book_check feed) m ts) = sim_trades m"
  "sim_accounts (foldl (book_check feed) m ts) = sim_accounts m"
  "sim_cfg (foldl (book_check feed) m ts) = sim_cfg m"
  "sim_initializedAt (foldl (book_check feed) m ts) = sim_initializedAt m"
  "sim_totalTrades (foldl (book_check feed) m ts) = sim_totalTrades m"
  by (induction ts arbitrary: m) simp_all

context paper_repos
begin

definition wired :: "'s simulator \<Rightarrow> bool" where
  "wired m \<longleftrightarrow> sim_trades m = Some T \<and> sim_accounts m = Some A"

lemma persist_rows:
  assumes "wired m" "live s"
  shows "live (persistAccountState now m s) \<and> rows (persistAccountState now m s) = rows s"
  using assms account by (simp add: wired_def persistAccountState_def)

lemma check_trade_rows:
  assumes "wired m" "live s"
  shows "\<exists>s'. check_trade feed now (m, s) t = (book_check feed m t, s') \<and> live s' \<and>
    (rows s' = put_row tr_PaperTradeID merge_trade (settle (sim_cfg m) feed now t) (rows s) \<or>
     settle (sim_cfg m) feed now t = t \<and> rows s' = rows s)"
proof (cases "usable_price feed (tr_Symbol t)")
  case (Some p)
  show ?thesis
  proof (cases "exit_of (sim_cfg m) t p")
    case (Some e)
    obtain x reason where e: "e = (x, reason)" by (cases e)
    let ?t' = "closed_trade (sim_cfg m) now t x reason"
    let ?m1 = "book_result t (net_pnl (sim_cfg m) t x) m"
    from update [OF assms(2)] obtain s1 where
      s1: "repo_Update T ?t' s = (s1, Inr ())" "live s1"
        "rows s1 = put_row tr_PaperTradeID merge_trade ?t' (rows s)" by blast
    have "wired ?m1" using assms(1) by (simp add: wired_def)
    from persist_rows [OF this s1(2)] show ?thesis
      using assms(1) s1 Some e \<open>usable_price feed (tr_Symbol t) = Some p\<close>
      by (auto simp: check_trade_def book_check_def settle_def closeTrade_def wired_def Let_def)
  qed (use assms Some in \<open>auto simp: check_trade_def book_check_def settle_def\<close>)
qed (use assms in \<open>auto simp: check_trade_def book_check_def settle_def\<close>)

lemma check_fold_account:
  assumes "wired m" "live s"
  shows "fst (foldl (check_trade feed now) (m, s) ts) = foldl (book_check feed) m ts"
  using assms
proof (induction ts arbitrary: m s)
  case (Cons t ts)
  from check_trade_rows [OF Cons.prems, of feed now t] obtain s1 where
    "check_trade feed now (m, s) t = (book_check feed m t, s1)" "live s1" by blast
  with Cons show ?case by (simp add: wired_def)
qed simp

theorem check_open_positions:
  assumes "wired m" "live s" "keys_ok (rows s)"
  shows "\<exists>s'. CheckOpenPositions feed now m s = (foldl (book_check feed) m (open_trades (rows s)), s', None) \<and>
    live s' \<and>
    rows s' = map (\<lambda>r. if tr_ClosedAt r = None then settle (sim_cfg m) feed now r else r) (rows s)"
proof -
  let ?F = "settle (sim_cfg m) feed now"
  let ?ts = "open_trades (rows s)"
  have "(\<lambda>(n, s). wired n \<and> sim_cfg n = sim_cfg m \<and> live s) (foldl (check_trade feed now) (m, s) ?ts) \<and>
      rows (snd (foldl (check_trade feed now) (m, s) ?ts)) = map (\<lambda>r. if r \<in> set ?ts then ?F r else r) (rows s)"
  proof (rule update_fold [where x = "(m, s)" and proj = snd and F = ?F, simplified snd_conv])
    fix x :: "'s simulator \<times> 's" and t :: paper_trade
    assume "(\<lambda>(n, s). wired n \<and> sim_cfg n = sim_cfg m \<and> live s) x"
    with check_trade_rows [of "fst x" "snd x" feed now t]
    show "(\<lambda>(n, s). wired n \<and> sim_cfg n = sim_cfg m \<and> live s) (check_trade feed now x t) \<and>
      (rows (snd (check_trade feed now x t)) = put_row tr_PaperTradeID merge_trade (?F t) (rows (snd x)) \<or>
       ?F t = t \<and> rows (snd (check_trade feed now x t)) = rows (snd x))"
      by (cases x) (auto simp: wired_def)
  qed (use assms in \<open>auto simp: keys_ok_def distinct_open_trades set_open_trades\<close>)
  then show ?thesis using assms get_open check_fold_account [OF assms(1,2), of feed now ?ts]
    by (cases "foldl (check_trade feed now) (m, s) ?ts")
      (auto simp: CheckOpenPositions_def wired_def set_open_trades cong: map_cong)
qed

theorem cancel_open_positions:
  assumes "wired m" "live s" "keys_ok (rows s)"
  shows "\<exists>s'. CancelOpenPositions now m s = (s', None) \<and> live s' \<and>
    rows s' = map (\<lambda>r. if tr_ClosedAt r = None then cancelled_trade now r else r) (rows s)"
proof -
  have "live (foldl (\<lambda>s t. fst (repo_Update T (cancelled_trade now t) s)) s (open_trades (rows s))) \<and>
      rows (foldl (\<lambda>s t. fst (repo_Update T (cancelled_trade now t) s)) s (open_trades (rows s))) =
      map (\<lambda>r. if r \<in> set (open_trades (rows s)) then cancelled_trade now r else r) (rows s)"
    by (rule update_fold [where proj = "\<lambda>s. s"])
      (use assms update_fst in \<open>auto simp: keys_ok_def distinct_open_trades set_open_trades\<close>)
  then show ?thesis using assms get_open
    by (auto simp: CancelOpenPositions_def wired_def set_open_trades cong: map_cong)
qed

lemma fill_rows:
  assumes "wired m" "live s" "SimulateFill feed uuid now i plan m s = (m', s', Inr t)"
  shows "wired m' \<and> live s' \<and> rows s' = rows s @ [t] \<and> tr_PaperTradeID t \<notin> tr_PaperTradeID ` set (rows s) \<and>
    tr_ClosedAt t = None \<and> tr_OpenedAt t = now \<and> sim_initializedAt m' = sim_initializedAt m \<and>
    sim_totalTrades m' = sim_totalTrades m + 1 \<and> sim_wins m' = sim_wins m \<and> sim_losses m' = sim_losses m"
proof -
  from assms(1,3) obtain p where p: "feed (op_Symbol plan) = Some p" "\<not> p \<le> Fin 0"
    by (auto simp: SimulateFill_def split: option.splits if_splits)
  let ?t = "filled_trade (sim_cfg m) uuid now i plan (fill_price (sim_cfg m) (op_Side plan) p)"
  let ?m = "m\<lparr>sim_currentEquity := roundToPrecision (sim_currentEquity m - tr_FeesPaid ?t) 8,
    sim_totalTrades := sim_totalTrades m + 1\<rparr>"
  obtain s1 r where ins: "repo_Insert T ?t s = (s1, r)" by fastforce
  have "SimulateFill feed uuid now i plan m s =
      (case r of Inl e \<Rightarrow> (?m, s1, Inl (RepoError ''insert paper trade'' e))
       | Inr _ \<Rightarrow> (?m, persistAccountState now ?m s1, Inr ?t))"
    using assms(1) p ins by (simp add: SimulateFill_def wired_def Let_def)
  with assms(3) ins have
    r: "repo_Insert T ?t s = (s1, Inr ())" "m' = ?m" "s' = persistAccountState now ?m s1" "t = ?t"
    by (cases r; simp)+
  have w: "wired ?m" using assms(1) by (simp add: wired_def)
  have "live s1 \<and> rows s1 = rows s @ [t] \<and> tr_PaperTradeID t \<notin> tr_PaperTradeID ` set (rows s)"
    using insert_row [OF assms(2) r(1)] r(4) by simp
  with persist_rows [OF w, of s1 now] w r show ?thesis
    by (simp add: filled_trade_def split: prod.split)
qed

end

section \<open>The database keeps the contract\<close>

interpretation pg: paper_repos postgres_trades db_paper_trades "\<lambda>s. db_faults s = []" postgres_account
proof unfold_locales
  fix s s' :: store and t :: paper_trade and now :: time and a :: paper_account_state and u :: unit
  assume live: "db_faults s = []"
  then show "repo_GetOpen postgres_trades s = (s, Inr (open_trades (db_paper_trades s)))"
    by (simp add: postgres_trades_def trade_GetOpen_def query_def)
  from live show "\<exists>s'. repo_Update postgres_trades t s = (s', Inr ()) \<and> db_faults s' = [] \<and>
      db_paper_trades s' = put_row tr_PaperTradeID merge_trade t (db_paper_trades s)"
    by (simp add: postgres_trades_def trade_Update_def set_trade_def)
  from live show "db_faults s' = [] \<and> db_paper_trades s' = db_paper_trades s @ [t] \<and>
      tr_PaperTradeID t \<notin> tr_PaperTradeID ` set (db_paper_trades s)"
    if "repo_Insert postgres_trades t s = (s', Inr u)"
    using that by (auto simp: postgres_trades_def trade_Insert_def insert_if_def split: if_splits)
  from live show "db_faults (fst (arepo_Update postgres_account now a s)) = [] \<and>
      db_paper_trades (fst (arepo_Update postgres_account now a s)) = db_paper_trades s"
    by (simp add: postgres_account_def account_Update_def Let_def)
qed

section \<open>Closing\<close>

definition demo_trade :: "string \<Rightarrow> f64 \<Rightarrow> f64 \<Rightarrow> paper_trade" where
  "demo_trade i sl tp =
    \<lparr> tr_PaperTradeID = i, tr_DecisionID = ''d'', tr_OpenedAt = 5, tr_ClosedAt = None, tr_Symbol = ''BTCUSDT'',
      tr_Side = SideLong, tr_Qty = Fin 1, tr_Leverage = Fin 1, tr_EntryPrice = Fin 100, tr_ExitPrice = None,
      tr_StopLoss = sl, tr_TakeProfit = tp, tr_FeesPaid = Fin 0, tr_FundingPaid = Fin 0, tr_PnLGross = None,
      tr_PnLNet = None, tr_RMultiple = None, tr_ExitReason = [] \<rparr>"

definition demo_store :: "bool list \<Rightarrow> paper_trade list \<Rightarrow> store" where
  "demo_store fs ts = (empty_store fs)\<lparr>db_paper_trades := ts\<rparr>"

definition demo_sim :: "store simulator" where
  "demo_sim = NewSimulator (Some postgres_trades) (Some postgres_account)
    \<lparr> pc_StartingBalanceUSD = Fin 1000, pc_FeeMakerBps = Fin 0, pc_FeeTakerBps = Fin 0, pc_SlippageModel = [],
      pc_SlippageBps = Fin 0, pc_DefaultLeverage = Fin 1 \<rparr>"

lemma demo_sim_simps [simp]:
  "sim_trades demo_sim = Some postgres_trades" "sim_accounts demo_sim = Some postgres_account"
  "sim_initializedAt demo_sim = zero_time" "pc_SlippageBps (sim_cfg demo_sim) = Fin 0"
  by (simp_all add: demo_sim_def NewSimulator_def)

lemma demo_store_simps [simp]:
  "db_faults (demo_store fs ts) = fs" "db_paper_trades (demo_store fs ts) = ts"
  by (simp_all add: demo_store_def empty_store_def)

text \<open>The levels as the documentation of a paper trade has them: which one a price has reached, and what is got there.\<close>

definition stop_reached :: "paper_trade \<Rightarrow> f64 \<Rightarrow> bool" where
  "stop_reached t p \<longleftrightarrow> (tr_Side t = SideLong \<and> p \<le> tr_StopLoss t \<or> tr_Side t \<noteq> SideLong \<and> tr_StopLoss t \<le> p)"

definition target_reached :: "paper_trade \<Rightarrow> f64 \<Rightarrow> bool" where
  "target_reached t p \<longleftrightarrow> (tr_Side t = SideLong \<and> tr_TakeProfit t \<le> p \<or> tr_Side t \<noteq> SideLong \<and> p \<le> tr_TakeProfit t)"

definition slipped :: "paper_config \<Rightarrow> paper_trade \<Rightarrow> f64 \<Rightarrow> f64" where
  "slipped cfg t level =
    (if tr_Side t = SideLong then level * (Fin 1 - pc_SlippageBps cfg / Fin 10000)
     else level * (Fin 1 + pc_SlippageBps cfg / Fin 10000))"

lemma exit_of_levels:
  "exit_of cfg t p =
    (if stop_reached t p then Some (slipped cfg t (tr_StopLoss t), ''sl'')
     else if target_reached t p then Some (slipped cfg t (tr_TakeProfit t), ''tp1'') else None)"
  by (auto simp: exit_of_def stop_reached_def target_reached_def slipped_def Let_def)

text \<open>What a check has to make of an open row, and what it has to book.\<close>

definition row_after_check :: "paper_config \<Rightarrow> price_feed \<Rightarrow> time \<Rightarrow> paper_trade \<Rightarrow> paper_trade" where
  "row_after_check cfg feed now t =
    (let close = (\<lambda>x reason. t\<lparr>tr_ClosedAt := Some now, tr_ExitPrice := Some x,
           tr_FeesPaid := roundToPrecision (tr_FeesPaid t + taker_fee cfg (tr_Qty t) x) 8,
           tr_PnLGross := Some (gross_pnl t x), tr_PnLNet := Some (net_pnl cfg t x),
           tr_RMultiple := Some (r_multiple t x reason), tr_ExitReason := reason\<rparr>)
     in case feed (tr_Symbol t) of
          None \<Rightarrow> t
        | Some p \<Rightarrow>
            if p \<le> Fin 0 then t
            else if stop_reached t p then close (slipped cfg t (tr_StopLoss t)) ''sl''
            else if target_reached t p then close (slipped cfg t (tr_TakeProfit t)) ''tp1''
            else t)"

definition book_row :: "price_feed \<Rightarrow> time \<Rightarrow> 's simulator \<Rightarrow> paper_trade \<Rightarrow> 's simulator" where
  "book_row feed now m t =
    (let row = row_after_check (sim_cfg m) feed now t
     in if tr_ClosedAt row = None then m else book_result t (the (tr_PnLNet row)) m)"

lemma row_after_check: "row_after_check cfg feed now t = settle cfg feed now t"
  by (simp add: row_after_check_def settle_def usable_price_def exit_of_levels closed_trade_def Let_def split: option.split)

lemma book_row: "tr_ClosedAt t = None \<Longrightarrow> book_row feed now m t = book_check feed m t"
  by (simp add: book_row_def row_after_check settle_def book_check_def closed_trade_def Let_def split: option.split)

lemma foldl_book_row:
  "\<forall>t\<in>set ts. tr_ClosedAt t = None \<Longrightarrow> foldl (book_row feed now) m ts = foldl (book_check feed) m ts"
  by (induction ts arbitrary: m) (simp_all add: book_row)

text \<open>
  C16: While the database answers, a check of the open paper trades touches no row but the open ones whose symbol has a
  positive price at or beyond a level: at the stop (for a long trade a price not above it, for any other not below it)
  the row is closed with the reason \<open>sl\<close> at the stop, whether or not the target was reached as well; else, at the
  target, with the reason \<open>tp1\<close> at the target; in both cases after the slippage of the side, with fee, gross and net result
  of that exit. The account books the net result of each row that was closed once, in the order in which the trades were opened.
  (A failing update breaks this: see \<open>failed_update_books_twice\<close>.)
\<close>

theorem check_closes_exactly:
  assumes "db_faults s = []" "distinct (map tr_PaperTradeID (db_paper_trades s))"
    and "sim_trades m = Some postgres_trades" "sim_accounts m = Some postgres_account"
  shows "\<exists>s'. CheckOpenPositions feed now m s =
      (foldl (book_row feed now) m (open_trades (db_paper_trades s)), s', None) \<and>
    db_paper_trades s' =
      map (\<lambda>t. if tr_ClosedAt t = None then row_after_check (sim_cfg m) feed now t else t) (db_paper_trades s)"
proof -
  have "foldl (book_row feed now) m (open_trades (db_paper_trades s)) =
      foldl (book_check feed) m (open_trades (db_paper_trades s))"
    by (rule foldl_book_row) (simp add: set_open_trades)
  then show ?thesis
    using pg.check_open_positions [of m s feed now] assms by (auto simp: pg.wired_def keys_ok_def row_after_check)
qed

text \<open>A price below the stop of a long trade closes it at the stop with slippage.\<close>

theorem check_closes_exactly_witness:
  "\<exists>s'. fst (snd (CheckOpenPositions (\<lambda>_. Some (Fin 90)) 9 demo_sim (demo_store [] [demo_trade ''a'' (Fin 95) (Fin 110)]))) = s' \<and>
     map tr_ExitReason (db_paper_trades s') = [''sl''] \<and> map tr_ExitPrice (db_paper_trades s') = [Some (Fin 95 * (Fin 1 - Fin 0 / Fin 10000))]"
  using check_closes_exactly [of "demo_store [] [demo_trade ''a'' (Fin 95) (Fin 110)]" demo_sim
      "\<lambda>_. Some (Fin 90)" 9]
  by (auto simp: row_after_check_def demo_trade_def stop_reached_def slipped_def)

section \<open>Counters\<close>

text \<open>Trades of this session that no check has closed: they are open, or a reset cancelled them.\<close>

definition uncounted :: "'s simulator \<Rightarrow> paper_trade \<Rightarrow> bool" where
  "uncounted m t \<longleftrightarrow> \<not> rehydrated m t \<and> (tr_ClosedAt t = None \<or> tr_ExitReason t = ''cancelled'')"

definition balance_of :: "'s simulator \<Rightarrow> paper_trade list \<Rightarrow> int" where
  "balance_of m rs = sim_totalTrades m - sim_wins m - sim_losses m - int (length (filter (uncounted m) rs))"

definition due :: "paper_config \<Rightarrow> price_feed \<Rightarrow> paper_trade \<Rightarrow> bool" where
  "due cfg feed t \<longleftrightarrow> (case usable_price feed (tr_Symbol t) of None \<Rightarrow> False | Some p \<Rightarrow> exit_of cfg t p \<noteq> None)"

lemma book_result_counts:
  "sim_wins (book_result t x m) + sim_losses (book_result t x m) =
    sim_wins m + sim_losses m + (if rehydrated m t then 0 else 1)"
  by (simp add: book_result_def Let_def)

lemma rehydrated_cong: "sim_initializedAt m = sim_initializedAt m' \<Longrightarrow> rehydrated m t = rehydrated m' t"
  by (simp add: rehydrated_def)

lemma book_check_counts:
  "sim_wins (book_check feed m t) + sim_losses (book_check feed m t) =
    sim_wins m + sim_losses m + (if \<not> rehydrated m t \<and> due (sim_cfg m) feed t then 1 else 0)"
  by (simp add: book_check_def due_def book_result_counts split: option.split)

lemma foldl_book_counts:
  "sim_wins (foldl (book_check feed) m ts) + sim_losses (foldl (book_check feed) m ts) =
    sim_wins m + sim_losses m + int (length (filter (\<lambda>t. \<not> rehydrated m t \<and> due (sim_cfg m) feed t) ts))"
proof (induction ts arbitrary: m)
  case (Cons t ts)
  have "rehydrated (book_check feed m t) = rehydrated m" by (rule ext, rule rehydrated_cong) simp
  with Cons [of "book_check feed m t"] book_check_counts [of feed m t] show ?case by simp
qed simp

lemma exit_reason: "exit_of cfg t p = Some (x, reason) \<Longrightarrow> reason = ''sl'' \<or> reason = ''tp1''"
  by (auto simp: exit_of_def Let_def split: if_splits)

lemma settle_uncounted:
  assumes "tr_ClosedAt t = None"
  shows "uncounted m (settle cfg feed now t) \<longleftrightarrow> uncounted m t \<and> \<not> due cfg feed t"
  using assms
  by (auto simp: uncounted_def settle_def due_def rehydrated_def closed_trade_def dest: exit_reason
      split: option.split)

lemma settled_count:
  "int (length (filter (uncounted m)
      (map (\<lambda>t. if tr_ClosedAt t = None then settle cfg feed now t else t) rs))) =
    int (length (filter (uncounted m) rs)) -
    int (length (filter (\<lambda>t. \<not> rehydrated m t \<and> due cfg feed t) (filter (\<lambda>t. tr_ClosedAt t = None) rs)))"
proof (induction rs)
  case (Cons r rs)
  then show ?case by (cases "tr_ClosedAt r = None") (simp_all add: settle_uncounted, auto simp: uncounted_def)
qed simp

lemma length_filter_open:
  "length (filter P (open_trades rs)) = length (filter P (filter (\<lambda>t. tr_ClosedAt t = None) rs))"
  using open_trades_mset [of rs] by (metis mset_filter size_mset)

lemma uncounted_cong: "sim_initializedAt m = sim_initializedAt m' \<Longrightarrow> uncounted m = uncounted m'"
  by (auto simp: fun_eq_iff uncounted_def rehydrated_def)

lemma check_balance:
  "balance_of (foldl (book_check feed) m (open_trades rs))
    (map (\<lambda>t. if tr_ClosedAt t = None then settle (sim_cfg m) feed now t else t) rs) = balance_of m rs"
proof -
  have "uncounted (foldl (book_check feed) m (open_trades rs)) = uncounted m" by (rule uncounted_cong) simp
  then show ?thesis
    using foldl_book_counts [of feed m "open_trades rs"] settled_count [of m "sim_cfg m" feed now rs]
    by (simp add: balance_of_def length_filter_open)
qed

lemma cancel_balance:
  "balance_of m (map (\<lambda>t. if tr_ClosedAt t = None then cancelled_trade now t else t) rs) = balance_of m rs"
proof -
  have "length (filter (uncounted m) (map (\<lambda>t. if tr_ClosedAt t = None then cancelled_trade now t else t) rs)) =
      length (filter (uncounted m) rs)"
    by (induction rs) (auto simp: uncounted_def cancelled_trade_def rehydrated_def)
  then show ?thesis by (simp add: balance_of_def)
qed

text \<open>
  A session: checks, fills and resets of the open trades, in any order. A fill that the database refuses (its decision is not
  logged, or its key is taken) is counted.
\<close>

definition refused :: "sim_error + paper_trade \<Rightarrow> int" where
  "refused r = (case r of Inl (RepoError _ _) \<Rightarrow> 1 | _ \<Rightarrow> 0)"

inductive sim_run :: "store simulator \<times> store \<Rightarrow> store simulator \<times> store \<Rightarrow> int \<Rightarrow> bool" for start where
  run_start: "sim_run start start 0"
| run_check: "sim_run start (m, s) n \<Longrightarrow> CheckOpenPositions feed now m s = (m', s', e) \<Longrightarrow> sim_run start (m', s') n"
| run_fill: "sim_run start (m, s) n \<Longrightarrow> sim_initializedAt m \<le> now \<Longrightarrow>
    SimulateFill feed uuid now i plan m s = (m', s', r) \<Longrightarrow> sim_run start (m', s') (n + refused r)"
| run_cancel: "sim_run start (m, s) n \<Longrightarrow> CancelOpenPositions now m s = (s', e) \<Longrightarrow> sim_run start (m, s') n"

lemma failed_fill:
  assumes "pg.wired m" "db_faults s = []" "SimulateFill feed uuid now i plan m s = (m', s', Inl e)"
  shows "pg.wired m' \<and> s' = s \<and> sim_initializedAt m' = sim_initializedAt m \<and> sim_wins m' = sim_wins m \<and>
    sim_losses m' = sim_losses m \<and> sim_totalTrades m' = sim_totalTrades m + refused (Inl e)"
proof -
  have w: "sim_trades m = Some postgres_trades" "sim_accounts m = Some postgres_account"
    using assms(1) by (simp_all add: pg.wired_def)
  have ins: "repo_Insert postgres_trades t s = (s1, Inl x) \<Longrightarrow> s1 = s" for t s1 x
    using assms(2) by (auto simp: postgres_trades_def trade_Insert_def insert_if_def split: if_splits)
  show ?thesis using assms(3) ins w
    by (auto simp: SimulateFill_def pg.wired_def Let_def refused_def split: option.splits if_splits prod.splits sum.splits)
qed

lemma map_closed_ids:
  "(\<And>t. tr_PaperTradeID (f t) = tr_PaperTradeID t) \<Longrightarrow>
    keys_ok (map (\<lambda>t. if tr_ClosedAt t = None then f t else t) rs) = keys_ok rs"
  by (simp add: keys_ok_def comp_def if_distrib cong: if_cong)

lemma settle_id: "tr_PaperTradeID (settle cfg feed now t) = tr_PaperTradeID t"
  "tr_PaperTradeID (cancelled_trade now t) = tr_PaperTradeID t"
  using stored_simps by (auto simp: same_row_def)

lemma sim_run_balance:
  assumes "sim_run ms ms' n"
    and "pg.wired (fst ms)" "db_faults (snd ms) = []" "keys_ok (db_paper_trades (snd ms))"
  shows "pg.wired (fst ms') \<and> db_faults (snd ms') = [] \<and> keys_ok (db_paper_trades (snd ms')) \<and>
    sim_initializedAt (fst ms') = sim_initializedAt (fst ms) \<and>
    balance_of (fst ms') (db_paper_trades (snd ms')) = balance_of (fst ms) (db_paper_trades (snd ms)) + n"
  using assms
proof (induction rule: sim_run.induct)
  case (run_check m s n feed now m' s' e)
  then show ?case
    using pg.check_open_positions [of m s feed now]
    by (auto simp: map_closed_ids settle_id check_balance pg.wired_def)
next
  case (run_fill m s n now feed uuid i plan m' s' r)
  show ?case
  proof (cases r)
    case (Inl e)
    with run_fill have f: "pg.wired m'" "s' = s" "sim_initializedAt m' = sim_initializedAt m" "sim_wins m' = sim_wins m"
      "sim_losses m' = sim_losses m" "sim_totalTrades m' = sim_totalTrades m + refused r"
      using failed_fill [of m s feed uuid now i plan m' s' e] by auto
    then have "uncounted m' = uncounted m" using uncounted_cong [of m' m] by simp
    with f run_fill show ?thesis by (auto simp: balance_of_def)
  next
    case (Inr t)
    with run_fill have f: "pg.wired m'" "db_faults s' = []" "db_paper_trades s' = db_paper_trades s @ [t]"
      "tr_PaperTradeID t \<notin> tr_PaperTradeID ` set (db_paper_trades s)"
      "tr_ClosedAt t = None" "tr_OpenedAt t = now" "sim_initializedAt m' = sim_initializedAt m"
      "sim_totalTrades m' = sim_totalTrades m + 1" "sim_wins m' = sim_wins m" "sim_losses m' = sim_losses m"
      using pg.fill_rows [of m s feed uuid now i plan m' s' t] by auto
    then have "uncounted m' = uncounted m" "uncounted m t"
      using uncounted_cong [of m' m] run_fill.hyps by (auto simp: uncounted_def rehydrated_def)
    with f run_fill Inr show ?thesis by (auto simp: balance_of_def keys_ok_def refused_def)
  qed
next
  case (run_cancel m s n now s' e)
  then show ?case
    using pg.cancel_open_positions [of m s now]
    by (auto simp: map_closed_ids settle_id cancel_balance)
qed simp

text \<open>
  C17: While no statement fails in the driver, and however checks, fills and resets interleave, the counter of trades
  grows by exactly: the trades counted as won or lost, the change in the number of trades of the session
  that are still open or were cancelled by a reset, and the fills whose row the database refused. (A trade opened before the simulator was
  initialised is in none of them; with a failing driver the counters are wrong: see \<open>failed_update_books_twice\<close>.)
\<close>

theorem counters_account_for_trades:
  assumes "sim_run (m, s) (m', s') n"
    and "sim_trades m = Some postgres_trades" "sim_accounts m = Some postgres_account"
    and "db_faults s = []" "distinct (map tr_PaperTradeID (db_paper_trades s))"
  shows "sim_totalTrades m' - sim_totalTrades m =
    (sim_wins m' + sim_losses m') - (sim_wins m + sim_losses m) +
    (int (length (filter (uncounted m) (db_paper_trades s'))) - int (length (filter (uncounted m) (db_paper_trades s)))) + n"
proof -
  have "uncounted m' = uncounted m"
    using sim_run_balance [OF assms(1)] assms(2-5)
    by (intro uncounted_cong) (simp add: pg.wired_def keys_ok_def)
  then show ?thesis
    using sim_run_balance [OF assms(1)] assms(2-5) by (simp add: balance_of_def pg.wired_def keys_ok_def)
qed

definition demo_plan :: order_plan where
  "demo_plan =
    \<lparr> op_Symbol = ''BTCUSDT'', op_Side = SideLong, op_Qty = Fin 1, op_EntryPrice = Fin 100, op_EntryType = CandidateEntryMarket,
      op_StopLoss = Fin 95, op_TakeProfits = [], op_Leverage = Fin 1, op_MarginRequired = Fin 0, op_EstimatedFees = Fin 0,
      op_RiskAmountUSD = Fin 0, op_RiskPctUsed = Fin 0 \<rparr>"

text \<open>
  An open trade at the start; a fill that the database refuses, since its decision is not logged; a check that closes the open
  trade at its stop.
\<close>

theorem counters_account_for_trades_witness:
  "\<exists>m' s'. sim_run (demo_sim, demo_store [] [demo_trade ''a'' (Fin 95) (Fin 110)]) (m', s') 1 \<and>
     sim_wins m' + sim_losses m' = 1 \<and> sim_totalTrades m' = 1"
proof -
  let ?t = "demo_trade ''a'' (Fin 95) (Fin 110)"
  let ?s = "demo_store [] [?t]"
  obtain m1 s1 r where f: "SimulateFill (\<lambda>_. Some (Fin 100)) ''b'' 6 ''d'' demo_plan demo_sim ?s = (m1, s1, r)"
    using prod_cases3 by blast
  have ins: "repo_Insert postgres_trades (filled_trade cfg u now ''d'' demo_plan p) ?s = (?s, Inl (DbError ''insert paper_trade''))" for cfg u now p
    by (simp add: postgres_trades_def trade_Insert_def insert_if_def has_decision_def filled_trade_def demo_store_def
        empty_store_def stmt_def case_prod_beta)
  have r: "s1 = ?s" "refused r = 1" "sim_cfg m1 = sim_cfg demo_sim" "sim_initializedAt m1 = zero_time" "pg.wired m1"
    "sim_wins m1 = 0" "sim_losses m1 = 0"
    using f by (auto simp: SimulateFill_def ins Let_def refused_def pg.wired_def demo_sim_def NewSimulator_def)
  obtain m2 s2 where c: "CheckOpenPositions (\<lambda>_. Some (Fin 90)) 9 m1 s1 = (m2, s2, None)"
    "m2 = foldl (book_check (\<lambda>_. Some (Fin 90))) m1 (open_trades [?t])"
    "db_paper_trades s2 = [settle (sim_cfg m1) (\<lambda>_. Some (Fin 90)) 9 ?t]"
    using pg.check_open_positions [of m1 s1 "\<lambda>_. Some (Fin 90)" 9] r(1,5) by (auto simp: keys_ok_def demo_trade_def)
  have start: "sim_run (demo_sim, ?s) (m1, s1) (0 + refused r)"
    by (rule run_fill [OF run_start _ f]) (simp add: zero_time_def)
  have run: "sim_run (demo_sim, ?s) (m2, s2) 1" using run_check [OF start c(1)] r(2) by simp
  have due: "due (sim_cfg m1) (\<lambda>_. Some (Fin 90)) ?t"
    by (simp add: due_def usable_price_def exit_of_levels stop_reached_def demo_trade_def)
  have new: "\<not> rehydrated m ?t" "uncounted m ?t" if "sim_initializedAt m = zero_time" for m :: "store simulator"
    using that by (simp_all add: rehydrated_def IsZero_def uncounted_def demo_trade_def)
  have wl: "sim_wins m2 + sim_losses m2 = 1"
    using foldl_book_counts [of "\<lambda>_. Some (Fin 90)" m1 "open_trades [?t]"] due new r
    by (simp add: c(2) length_filter_open) (simp add: demo_trade_def)
  have "\<not> uncounted demo_sim (settle (sim_cfg m1) (\<lambda>_. Some (Fin 90)) 9 ?t)"
    using settle_uncounted [of ?t demo_sim "sim_cfg m1" "\<lambda>_. Some (Fin 90)" 9] due by (simp add: demo_trade_def)
  then have "sim_totalTrades m2 = 1"
    using counters_account_for_trades [OF run] wl new [of demo_sim]
    by (simp add: c(3)) (simp add: demo_sim_def NewSimulator_def)
  with run wl show ?thesis by blast
qed

section \<open>When the database fails\<close>

text \<open>
  When the update of a closed trade fails, the trade stays open although its result has been booked, and
  the next check books it again: one trade is credited twice to the equity and the realized result and counted
  twice.
\<close>

theorem failed_update_books_twice:
  assumes "db_faults s = [False, True]" "db_paper_trades s = [t]" "tr_ClosedAt t = None"
    and "sim_trades m = Some postgres_trades" "sim_accounts m = Some postgres_account"
    and "usable_price feed (tr_Symbol t) = Some p" "exit_of (sim_cfg m) t p = Some (x, reason)"
    and "\<not> rehydrated m t"
  shows "\<exists>m1 s1 m2 s2. CheckOpenPositions feed now m s = (m1, s1, None) \<and> db_paper_trades s1 = [t] \<and>
    CheckOpenPositions feed now' m1 s1 = (m2, s2, None) \<and>
    db_paper_trades s2 = [closed_trade (sim_cfg m) now' t x reason] \<and>
    sim_currentEquity m2 = roundToPrecision (roundToPrecision
      (sim_currentEquity m + net_pnl (sim_cfg m) t x) 8 + net_pnl (sim_cfg m) t x) 8 \<and>
    sim_wins m2 + sim_losses m2 = sim_wins m + sim_losses m + 2"
proof -
  let ?pnl = "net_pnl (sim_cfg m) t x"
  let ?m1 = "book_result t ?pnl m"
  let ?s1 = "s\<lparr>db_faults := []\<rparr>"
  have open_t: "open_trades [t] = [t]" using assms(3) by (simp add: open_trades_def)
  have first: "CheckOpenPositions feed now m s = (?m1, ?s1, None)"
    using assms open_t
    by (simp add: CheckOpenPositions_def check_trade_def closeTrade_def postgres_trades_def trade_GetOpen_def
        trade_Update_def query_def stmt_def Let_def)
  have b1: "book_check feed ?m1 t = book_result t ?pnl ?m1" using assms by (simp add: book_check_def)
  obtain s2 where
    second: "CheckOpenPositions feed now' ?m1 ?s1 = (book_result t ?pnl ?m1, s2, None)"
      "db_paper_trades s2 = [settle (sim_cfg m) feed now' t]"
    using pg.check_open_positions [of ?m1 ?s1 feed now'] assms open_t b1
    by (auto simp: pg.wired_def keys_ok_def)
  have counts: "sim_wins (book_result t ?pnl ?m1) + sim_losses (book_result t ?pnl ?m1) =
      sim_wins m + sim_losses m + 2"
    using book_result_counts [of t ?pnl ?m1] book_result_counts [of t ?pnl m] assms(8)
      rehydrated_cong [of ?m1 m t] by simp
  have equity: "sim_currentEquity (book_result t y n) = roundToPrecision (sim_currentEquity n + y) 8" for y and n :: "store simulator"
    by (simp add: book_result_def Let_def)
  show ?thesis
    using first second counts assms(2,6,7) by (auto simp: equity settle_def)
qed

theorem failed_update_books_twice_witness:
  "\<exists>m1 s1 m2 s2.
    CheckOpenPositions (\<lambda>_. Some (Fin 90)) 9 demo_sim (demo_store [False, True] [demo_trade ''a'' (Fin 95) (Fin 110)]) =
      (m1, s1, None) \<and> CheckOpenPositions (\<lambda>_. Some (Fin 90)) 10 m1 s1 = (m2, s2, None) \<and>
    sim_wins m2 + sim_losses m2 = sim_wins demo_sim + sim_losses demo_sim + 2"
proof -
  let ?t = "demo_trade ''a'' (Fin 95) (Fin 110)"
  have "exit_of (sim_cfg demo_sim) ?t (Fin 90) =
      Some (Fin 95 * (Fin 1 - pc_SlippageBps (sim_cfg demo_sim) / Fin 10000), ''sl'')"
    by (simp add: exit_of_def Let_def demo_trade_def)
  from failed_update_books_twice [of "demo_store [False, True] [?t]" ?t demo_sim "\<lambda>_. Some (Fin 90)" "Fin 90",
      OF _ _ _ _ _ _ this, of 9 10]
  show ?thesis
    by (auto simp: demo_trade_def usable_price_def rehydrated_def IsZero_def)
qed

text \<open>A trade opened before the simulator was initialised is settled without being counted.\<close>

lemma rehydrated_not_counted:
  "rehydrated m t \<Longrightarrow> sim_wins (book_result t x m) = sim_wins m \<and> sim_losses (book_result t x m) = sim_losses m \<and>
    sim_consecutiveLosses (book_result t x m) = sim_consecutiveLosses m"
  by (simp add: book_result_def Let_def)

text \<open>A trade whose row cannot be stored has already been charged and counted.\<close>

lemma failed_insert_is_counted:
  assumes "feed (op_Symbol plan) = Some p" "\<not> p \<le> Fin 0" "sim_trades m = Some tr"
    and "\<And>t. repo_Insert tr t s = (s1, Inl e)"
  shows "\<exists>m'. SimulateFill feed uuid now i plan m s = (m', s1, Inl (RepoError ''insert paper trade'' e)) \<and>
    sim_totalTrades m' = sim_totalTrades m + 1"
  using assms by (simp add: SimulateFill_def Let_def)

end
