(* ===== verification/Shadow.thy ===== *)
theory Shadow
  imports Store Candidate
begin

text \<open>
  The counterfactual tracker (\<open>internal/shadow/counterfactual.go\<close>): what became of the price after a
  candidate was generated. The price feed is an argument (\<open>None\<close> for an error), and one pass reads the clock
  once per outcome; here one reading serves the pass. The logger, the running flag and the ticker loop are
  left out.
\<close>

record 's outcome_repo =
  orepo_Insert :: "candidate_outcome \<Rightarrow> 's \<Rightarrow> 's \<times> (db_error + unit)"
  orepo_Update :: "candidate_outcome \<Rightarrow> 's \<Rightarrow> 's \<times> (db_error + unit)"
  orepo_GetPending :: "'s \<Rightarrow> 's \<times> (db_error + candidate_outcome list)"

definition postgres_outcomes :: "store outcome_repo" where
  "postgres_outcomes =
    \<lparr> orepo_Insert = outcome_Insert, orepo_Update = outcome_Update, orepo_GetPending = outcome_GetPending \<rparr>"

section \<open>Tracking\<close>

text \<open>\<open>json.Marshal\<close> refuses NaN and the infinities; the tracker then stores an empty array.\<close>

definition marshal_floats :: "f64 list \<Rightarrow> json_floats" where
  "marshal_floats xs = (if list_ex not_finite xs then JsonFloats [] else JsonFloats xs)"

definition new_outcome :: "string \<Rightarrow> string \<Rightarrow> side \<Rightarrow> f64 \<Rightarrow> f64 \<Rightarrow> f64 list \<Rightarrow> candidate_outcome" where
  "new_outcome decisionID symbol sd entryPrice stopLoss takeProfits =
    \<lparr> co_DecisionID = decisionID, co_Symbol = symbol, co_Side = sd, co_EntryPrice = entryPrice,
      co_StopLoss = stopLoss, co_TakeProfits = marshal_floats takeProfits, co_PriceAt15m = None,
      co_PriceAt1h = None, co_PriceAt4h = None, co_PriceAt24h = None, co_MaxFavorableExcursion24h = None,
      co_MaxAdverseExcursion24h = None, co_WouldHaveHitTP1 = False, co_WouldHaveHitSL = False,
      co_WouldHaveOutcome = [], co_ResultInR = Fin 0, co_TrackedUntil = zero_time, co_Status = ''tracking'' \<rparr>"

definition TrackCandidate ::
  "'s outcome_repo option \<Rightarrow> string \<Rightarrow> string \<Rightarrow> side \<Rightarrow> f64 \<Rightarrow> f64 \<Rightarrow> f64 list \<Rightarrow> 's \<Rightarrow> 's \<times> (db_error + unit)" where
  "TrackCandidate repo decisionID symbol sd entryPrice stopLoss takeProfits s =
    (case repo of
       None \<Rightarrow> (s, Inr ())
     | Some r \<Rightarrow> orepo_Insert r (new_outcome decisionID symbol sd entryPrice stopLoss takeProfits) s)"

section \<open>Updating an outcome\<close>

text \<open>\<open>Duration.Minutes\<close>: whole minutes and the rest, with Go's division towards zero.\<close>

definition quot_rem :: "int \<Rightarrow> int \<Rightarrow> int \<times> int" where
  "quot_rem a b = (if 0 \<le> a then (a div b, a mod b) else (- ((- a) div b), - ((- a) mod b)))"

definition duration_Minutes :: "duration \<Rightarrow> f64" where
  "duration_Minutes d =
    (let (m, r) = quot_rem d (minutes 1) in f64_of_int m + f64_of_int r / Fin 60000000000)"

definition setCheckpoint :: "f64 \<Rightarrow> f64 \<Rightarrow> f64 \<Rightarrow> f64 option \<Rightarrow> f64 option" where
  "setCheckpoint elapsedMinutes price targetMin field =
    (case field of
       Some v \<Rightarrow> Some v
     | None \<Rightarrow> if \<bar>elapsedMinutes - targetMin\<bar> < Fin 5 then Some price else None)"

definition raise_to :: "f64 \<Rightarrow> f64 option \<Rightarrow> f64 option" where
  "raise_to x cur = (case cur of None \<Rightarrow> Some x | Some c \<Rightarrow> if c < x then Some x else Some c)"

definition first_target :: "candidate_outcome \<Rightarrow> f64 option" where
  "first_target co =
    (case co_TakeProfits co of JsonFloats (tp # _) \<Rightarrow> Some tp | JsonFloats [] \<Rightarrow> None | JsonText _ \<Rightarrow> None)"

definition sl_reached :: "candidate_outcome \<Rightarrow> f64 \<Rightarrow> bool" where
  "sl_reached co price = (if co_Side co = SideLong then price \<le> co_StopLoss co else co_StopLoss co \<le> price)"

definition tp_reached :: "candidate_outcome \<Rightarrow> f64 \<Rightarrow> bool" where
  "tp_reached co price =
    (case first_target co of
       None \<Rightarrow> False
     | Some tp \<Rightarrow> if co_Side co = SideLong then tp \<le> price else price \<le> tp)"

definition observe_price :: "f64 \<Rightarrow> f64 \<Rightarrow> candidate_outcome \<Rightarrow> candidate_outcome" where
  "observe_price elapsed price co =
    (let up = (price - co_EntryPrice co) / co_EntryPrice co;
         down = (co_EntryPrice co - price) / co_EntryPrice co;
         (fav, adv) = (if co_Side co = SideLong then (up, down) else (down, up))
     in co\<lparr>co_PriceAt15m := setCheckpoint elapsed price (Fin 15) (co_PriceAt15m co),
           co_PriceAt1h := setCheckpoint elapsed price (Fin 60) (co_PriceAt1h co),
           co_PriceAt4h := setCheckpoint elapsed price (Fin 240) (co_PriceAt4h co),
           co_PriceAt24h := setCheckpoint elapsed price (Fin 1440) (co_PriceAt24h co),
           co_MaxFavorableExcursion24h := raise_to fav (co_MaxFavorableExcursion24h co),
           co_MaxAdverseExcursion24h := raise_to adv (co_MaxAdverseExcursion24h co),
           co_WouldHaveHitSL := (co_WouldHaveHitSL co \<or> sl_reached co price),
           co_WouldHaveHitTP1 := (co_WouldHaveHitTP1 co \<or> tp_reached co price)\<rparr>)"

definition tp_result :: "candidate_outcome \<Rightarrow> f64" where
  "tp_result co =
    (let r = \<bar>co_EntryPrice co - co_StopLoss co\<bar> / co_EntryPrice co
     in case first_target co of
          None \<Rightarrow> co_ResultInR co
        | Some tp \<Rightarrow>
            if Fin 0 < co_StopLoss co \<and> Fin 0 < r then \<bar>tp - co_EntryPrice co\<bar> / co_EntryPrice co / r
            else co_ResultInR co)"

definition decide_outcome :: "duration \<Rightarrow> candidate_outcome \<Rightarrow> candidate_outcome" where
  "decide_outcome age co =
    (if co_WouldHaveHitTP1 co then
       co\<lparr>co_WouldHaveOutcome := ''tp1_hit'', co_Status := ''completed'', co_ResultInR := tp_result co\<rparr>
     else if co_WouldHaveHitSL co then
       co\<lparr>co_WouldHaveOutcome := ''sl_hit'', co_Status := ''completed'', co_ResultInR := Fin (- 1)\<rparr>
     else if minutes 1440 < age then
       co\<lparr>co_WouldHaveOutcome := ''timeout'', co_Status := ''completed'',
          co_ResultInR := (case co_MaxFavorableExcursion24h co of
             None \<Rightarrow> co_ResultInR co | Some x \<Rightarrow> x / lit (1 / 100))\<rparr>
     else co)"

text \<open>\<open>None\<close>: the price could not be read, and the outcome is not written back.\<close>

definition updateOutcome :: "(string \<Rightarrow> f64 option) \<Rightarrow> time \<Rightarrow> candidate_outcome \<Rightarrow> candidate_outcome option" where
  "updateOutcome feed now co =
    (let age = time_sub now (co_TrackedUntil co)
     in case feed (co_Symbol co) of
          None \<Rightarrow> None
        | Some price \<Rightarrow>
            if price \<le> Fin 0 then Some co
            else Some (decide_outcome age
              ((observe_price (duration_Minutes age) price co)\<lparr>co_TrackedUntil := now\<rparr>)))"

definition process_outcome ::
  "'s outcome_repo \<Rightarrow> (string \<Rightarrow> f64 option) \<Rightarrow> time \<Rightarrow> 's \<Rightarrow> candidate_outcome \<Rightarrow> 's" where
  "process_outcome r feed now s co =
    (case updateOutcome feed now co of None \<Rightarrow> s | Some co' \<Rightarrow> fst (orepo_Update r co' s))"

definition ProcessPending ::
  "'s outcome_repo option \<Rightarrow> (string \<Rightarrow> f64 option) \<Rightarrow> time \<Rightarrow> 's \<Rightarrow> 's \<times> db_error option" where
  "ProcessPending repo feed now s =
    (case repo of
       None \<Rightarrow> (s, None)
     | Some r \<Rightarrow>
         (case orepo_GetPending r s of
            (s1, Inl e) \<Rightarrow> (s1, Some e)
          | (s1, Inr pending) \<Rightarrow> (foldl (process_outcome r feed now) s1 pending, None)))"

section \<open>Identifiers\<close>

text \<open>The random bytes are an argument, and the source ignores an error of the random source.\<close>

definition NewUUID :: "8 word list \<Rightarrow> string" where
  "NewUUID rand =
    (let b = stamp_uuid rand
     in hex_EncodeToString (slice 0 4 b) @ ''-'' @ hex_EncodeToString (slice 4 6 b) @ ''-'' @
        hex_EncodeToString (slice 6 8 b) @ ''-'' @ hex_EncodeToString (slice 8 10 b) @ ''-'' @
        hex_EncodeToString (slice 10 16 b))"

end
