(* ===== verification/ShadowSpec.thy ===== *)
theory ShadowSpec
  imports Shadow Repository
begin

text \<open>
  What the counterfactual tracker records. A pass rewrites exactly the outcomes under tracking; flags are never
  taken back and excursions only grow. The start of tracking is written as the zero time, so the first
  observation finds it older than a day.
\<close>

section \<open>One observation\<close>

lemma update_keeps_identity:
  assumes "updateOutcome feed now co = Some co'"
  shows "co_DecisionID co' = co_DecisionID co \<and> co_Symbol co' = co_Symbol co \<and> co_Side co' = co_Side co \<and>
    co_EntryPrice co' = co_EntryPrice co \<and> co_StopLoss co' = co_StopLoss co \<and>
    co_TakeProfits co' = co_TakeProfits co"
  using assms
  by (auto simp: updateOutcome_def decide_outcome_def observe_price_def Let_def split: option.splits if_splits)

lemma update_keeps_hits:
  assumes "updateOutcome feed now co = Some co'"
  shows "(co_WouldHaveHitTP1 co \<longrightarrow> co_WouldHaveHitTP1 co') \<and> (co_WouldHaveHitSL co \<longrightarrow> co_WouldHaveHitSL co')"
  using assms
  by (auto simp: updateOutcome_def decide_outcome_def observe_price_def Let_def split: option.splits if_splits)

lemma update_completes_iff:
  assumes "updateOutcome feed now co = Some co'" "feed (co_Symbol co) = Some p" "\<not> p \<le> Fin 0"
    and "co_Status co = ''tracking''"
  shows "co_Status co' = ''completed'' \<longleftrightarrow>
    co_WouldHaveHitTP1 co' \<or> co_WouldHaveHitSL co' \<or> minutes 1440 < time_sub now (co_TrackedUntil co)"
  using assms by (auto simp: updateOutcome_def decide_outcome_def observe_price_def Let_def split: if_splits)

text \<open>Each observation restarts the clock, so the timeout measures the gap between two observations.\<close>

lemma update_restarts_clock:
  assumes "updateOutcome feed now co = Some co'" "feed (co_Symbol co) = Some p" "\<not> p \<le> Fin 0"
  shows "co_TrackedUntil co' = now"
  using assms by (auto simp: updateOutcome_def decide_outcome_def Let_def split: if_splits)

lemma age_of_zero: "0 \<le> now \<Longrightarrow> time_sub now zero_time = 2 ^ 63 - 1"
  by (simp add: time_sub_def zero_time_def)

lemma no_checkpoint:
  "\<not> \<bar>duration_Minutes (2 ^ 63 - 1) - Fin 15\<bar> < Fin 5" "\<not> \<bar>duration_Minutes (2 ^ 63 - 1) - Fin 60\<bar> < Fin 5"
  "\<not> \<bar>duration_Minutes (2 ^ 63 - 1) - Fin 240\<bar> < Fin 5" "\<not> \<bar>duration_Minutes (2 ^ 63 - 1) - Fin 1440\<bar> < Fin 5"
  by code_simp+

lemma first_observation:
  assumes "co_TrackedUntil co = zero_time" "0 \<le> now" "feed (co_Symbol co) = Some p" "\<not> p \<le> Fin 0"
  shows "\<exists>co'. updateOutcome feed now co = Some co' \<and> co_Status co' = ''completed'' \<and>
    co_PriceAt15m co' = co_PriceAt15m co \<and> co_PriceAt1h co' = co_PriceAt1h co \<and>
    co_PriceAt4h co' = co_PriceAt4h co \<and> co_PriceAt24h co' = co_PriceAt24h co"
proof -
  have "minutes 1440 < time_sub now zero_time" by (simp add: age_of_zero assms(2) minutes_def seconds_def)
  then show ?thesis
    using assms no_checkpoint
    by (simp add: updateOutcome_def decide_outcome_def observe_price_def setCheckpoint_def age_of_zero Let_def
        split: option.split prod.split)
qed

section \<open>A pass\<close>

locale outcome_repos = table_updates "orepo_Update R" rows live co_DecisionID merge_outcome
  for R :: "'s outcome_repo"
    and rows :: "'s \<Rightarrow> candidate_outcome list"
    and live :: "'s \<Rightarrow> bool" +
  assumes pending: "live s \<Longrightarrow>
      orepo_GetPending R s = (s, Inr (sort_key co_DecisionID (filter (\<lambda>r. co_Status r = ''tracking'') (rows s))))"

definition observed :: "(string \<Rightarrow> f64 option) \<Rightarrow> time \<Rightarrow> candidate_outcome \<Rightarrow> candidate_outcome" where
  "observed feed now co = (case updateOutcome feed now co of None \<Rightarrow> co | Some co' \<Rightarrow> co')"

lemma observed_same_row: "same_row co_DecisionID merge_outcome co (observed feed now co)"
  by (auto simp: same_row_def observed_def merge_outcome_def split: option.split dest!: update_keeps_identity)

context outcome_repos
begin

lemma process_pending:
  assumes "live s" "distinct (map co_DecisionID (rows s))"
  shows "\<exists>s'. ProcessPending (Some R) feed now s = (s', None) \<and> live s' \<and>
    rows s' = map (\<lambda>r. if co_Status r = ''tracking'' then observed feed now r else r) (rows s)"
proof -
  let ?ts = "sort_key co_DecisionID (filter (\<lambda>r. co_Status r = ''tracking'') (rows s))"
  have step: "live (process_outcome R feed now x t) \<and>
      (rows (process_outcome R feed now x t) = put_row co_DecisionID merge_outcome (observed feed now t) (rows x) \<or>
       observed feed now t = t \<and> rows (process_outcome R feed now x t) = rows x)" if "live x" for x t
    using update_fst [OF that] that by (auto simp: process_outcome_def observed_def split: option.split)
  have "live (foldl (process_outcome R feed now) s ?ts) \<and>
      rows (foldl (process_outcome R feed now) s ?ts) =
        map (\<lambda>r. if r \<in> set ?ts then observed feed now r else r) (rows s)"
    by (rule update_fold [where proj = "\<lambda>s. s"])
      (use step assms observed_same_row in \<open>auto simp: distinct_map\<close>)
  then show ?thesis using pending [OF assms(1)] by (auto simp: ProcessPending_def cong: map_cong)
qed

end

interpretation outcomes: outcome_repos postgres_outcomes db_outcomes "\<lambda>s. db_faults s = []"
  by unfold_locales
    (simp_all add: postgres_outcomes_def outcome_Update_def outcome_GetPending_def query_def)

text \<open>
  C18: However soon after its creation a candidate is observed for the first time at a positive price, its
  outcome is completed by that observation, and none of the prices after 15 minutes, one, four and 24 hours is
  ever recorded: the row starts with the zero time, from which every reading of the clock is more than a day
  away.
\<close>

theorem tracking_ends_at_first_observation:
  assumes "db_faults s = []" "has_decision i s" "i \<notin> co_DecisionID ` set (db_outcomes s)"
    and "distinct (map co_DecisionID (db_outcomes s))"
    and "0 \<le> now" "feed symbol = Some p" "\<not> p \<le> Fin 0"
  shows "\<exists>s1 s2 co. TrackCandidate (Some postgres_outcomes) i symbol sd entry sl tps s = (s1, Inr ()) \<and>
    ProcessPending (Some postgres_outcomes) feed now s1 = (s2, None) \<and> co \<in> set (db_outcomes s2) \<and>
    co_DecisionID co = i \<and> co_Status co = ''completed'' \<and> co_PriceAt15m co = None \<and> co_PriceAt1h co = None \<and>
    co_PriceAt4h co = None \<and> co_PriceAt24h co = None"
proof -
  let ?co = "new_outcome i symbol sd entry sl tps"
  let ?s1 = "s\<lparr>db_outcomes := db_outcomes s @ [?co]\<rparr>"
  have i: "co_DecisionID ?co = i" "co_Status ?co = ''tracking''" "co_TrackedUntil ?co = zero_time"
    "co_Symbol ?co = symbol" "co_PriceAt15m ?co = None" "co_PriceAt1h ?co = None" "co_PriceAt4h ?co = None"
    "co_PriceAt24h ?co = None"
    by (simp_all add: new_outcome_def)
  have t: "TrackCandidate (Some postgres_outcomes) i symbol sd entry sl tps s = (?s1, Inr ())"
    using assms(1-3) i(1) by (simp add: TrackCandidate_def postgres_outcomes_def outcome_Insert_def insert_if_def)
  have "distinct (map co_DecisionID (db_outcomes ?s1))" using assms(3,4) i(1) by simp
  with outcomes.process_pending [of ?s1 feed now] assms(1) obtain s2 where
    s2: "ProcessPending (Some postgres_outcomes) feed now ?s1 = (s2, None)"
      "db_outcomes s2 =
        map (\<lambda>r. if co_Status r = ''tracking'' then observed feed now r else r) (db_outcomes ?s1)"
    by auto
  from first_observation [of ?co now feed p] i assms(5-7) obtain co' where
    co': "updateOutcome feed now ?co = Some co'" "co_Status co' = ''completed''" "co_PriceAt15m co' = None"
      "co_PriceAt1h co' = None" "co_PriceAt4h co' = None" "co_PriceAt24h co' = None" by auto
  moreover have "co' \<in> set (db_outcomes s2)" using s2(2) i(2) co'(1) by (simp add: observed_def)
  moreover have "co_DecisionID co' = i" using update_keeps_identity [OF co'(1)] i(1) by simp
  ultimately show ?thesis using t s2(1) by blast
qed

definition demo_logged :: store where
  "demo_logged = fst (decision_log_Insert
    \<lparr> dl_DecisionID = ''d'', dl_CycleID = [], dl_Timestamp = 0, dl_Mode = [], dl_Symbol = [], dl_Timeframe = [],
      dl_CandleCount = 0, dl_DataValidationResult = [], dl_IndicatorSnapshot = [], dl_RegimeSnapshot = [],
      dl_StrategyAttempted = [], dl_Candidate = [], dl_ScoreBreakdown = [], dl_NearMisses = [],
      dl_RiskValidation = [], dl_SafetyValidation = [], dl_OrderPlan = [], dl_LLMReview = [],
      dl_LLMModeActive = False, dl_FinalAction = [], dl_FinalActionReason = [], dl_EngineVersion = [],
      dl_ScoringVersion = [], dl_RiskConfigVersion = [], dl_LLMPromptVersion = [] \<rparr> (empty_store []))"

theorem tracking_ends_at_first_observation_witness:
  "\<exists>s1 s2 co. TrackCandidate (Some postgres_outcomes) ''d'' ''BTCUSDT'' SideLong (Fin 100) (Fin 95) [Fin 110]
      demo_logged = (s1, Inr ()) \<and>
    ProcessPending (Some postgres_outcomes) (\<lambda>_. Some (Fin 101)) 5 s1 = (s2, None) \<and>
    co \<in> set (db_outcomes s2) \<and> co_Status co = ''completed''"
proof -
  have d: "db_faults demo_logged = []" "has_decision ''d'' demo_logged" "db_outcomes demo_logged = []"
    by (simp_all add: demo_logged_def decision_log_Insert_def insert_if_def empty_store_def has_decision_def)
  show ?thesis
    using tracking_ends_at_first_observation [of demo_logged "''d''" 5 "\<lambda>_. Some (Fin 101)" "''BTCUSDT''" "Fin 101"
        SideLong "Fin 100" "Fin 95" "[Fin 110]"] d by fastforce
qed

end
