(* ===== verification/MarketData.thy ===== *)
theory MarketData
  imports Domain
begin

text \<open>
  The in-memory market data (\<open>internal/marketdata\<close>: \<open>orderbook.go\<close>, \<open>cache.go\<close>, \<open>trade_flow.go\<close>).
  The locks make every operation atomic; the clock is an argument. An order book side maps the text of a
  price to its size; the text is the shortest one that \<open>ParseFloat\<close> reads back as the same price, so the
  model keys a side by the price itself, and two different positive prices never share a key.
\<close>

section \<open>Order book\<close>

type_synonym book_side = "(f64 \<times> f64) list"

record order_book =
  bk_bids :: book_side
  bk_asks :: book_side
  bk_seq :: int
  bk_updateID :: int
  bk_lastUpdate :: time

record order_book_store =
  obs_books :: "order_book gomap"
  obs_staleThreshold :: duration

definition newOrderBookStore :: "duration \<Rightarrow> order_book_store" where
  "newOrderBookStore threshold = \<lparr> obs_books = [], obs_staleThreshold = threshold \<rparr>"

definition bad_level :: "order_book_level \<Rightarrow> bool" where
  "bad_level l \<longleftrightarrow> obl_Price l \<le> Fin 0 \<or> obl_Size l < Fin 0 \<or> isNaN (obl_Price l) \<or> isInf (obl_Price l) \<or>
    isNaN (obl_Size l) \<or> isInf (obl_Size l)"

definition snapshot_level :: "book_side \<Rightarrow> order_book_level \<Rightarrow> book_side" where
  "snapshot_level m l =
    (if bad_level l then m else if Fin 0 < obl_Size l then AList.update (obl_Price l) (obl_Size l) m else m)"

definition book_reset ::
  "time \<Rightarrow> string \<Rightarrow> int \<Rightarrow> int \<Rightarrow> order_book_level list \<Rightarrow> order_book_level list \<Rightarrow> order_book_store \<Rightarrow> order_book_store" where
  "book_reset now symbol updateID seqn bids asks s =
    s\<lparr>obs_books := AList.update symbol
        \<lparr> bk_bids = foldl snapshot_level [] bids, bk_asks = foldl snapshot_level [] asks, bk_seq = seqn,
          bk_updateID = updateID, bk_lastUpdate = now \<rparr> (obs_books s)\<rparr>"

definition delta_level :: "book_side \<Rightarrow> order_book_level \<Rightarrow> book_side" where
  "delta_level m l =
    (if bad_level l then m
     else if feq (obl_Size l) (Fin 0) then AList.delete (obl_Price l) m
     else AList.update (obl_Price l) (obl_Size l) m)"

definition applyDelta ::
  "time \<Rightarrow> string \<Rightarrow> int \<Rightarrow> int \<Rightarrow> order_book_level list \<Rightarrow> order_book_level list \<Rightarrow> order_book_store
    \<Rightarrow> order_book_store \<times> bool" where
  "applyDelta now symbol updateID seqn bids asks s =
    (case map_of (obs_books s) symbol of
       None \<Rightarrow> (s, False)
     | Some ob \<Rightarrow>
         if updateID \<le> bk_updateID ob then (s, False)
         else (s\<lparr>obs_books := AList.update symbol
                 \<lparr> bk_bids = foldl delta_level (bk_bids ob) bids, bk_asks = foldl delta_level (bk_asks ob) asks,
                   bk_seq = seqn, bk_updateID = updateID, bk_lastUpdate = now \<rparr> (obs_books s)\<rparr>, True))"

text \<open>The levels of a side in the order of their prices. \<open>range\<close> visits the map in any order; the prices
  being distinct, the sorted result does not depend on it.\<close>

definition flattenAndSort :: "book_side \<Rightarrow> bool \<Rightarrow> order_book_level list" where
  "flattenAndSort m descending =
    insertion_sort (\<lambda>a b. if descending then obl_Price b < obl_Price a else obl_Price a < obl_Price b)
      (map (\<lambda>(p, sz). \<lparr> obl_Price = p, obl_Size = sz \<rparr>) m)"

definition sumDepth :: "order_book_level list \<Rightarrow> f64" where
  "sumDepth levels = foldl (\<lambda>acc l. acc + obl_Size l) (Fin 0) levels"

fun fill_notional :: "order_book_level list \<Rightarrow> f64 \<Rightarrow> f64 \<Rightarrow> f64 \<times> f64" where
  "fill_notional [] remaining acc = (remaining, acc)"
| "fill_notional (l # ls) remaining acc =
    (let levelNotional = obl_Price l * obl_Size l
     in if remaining \<le> levelNotional then (Fin 0, acc + remaining / obl_Price l)
        else fill_notional ls (remaining - levelNotional) (acc + obl_Size l))"

definition sell_side :: "string \<Rightarrow> bool" where
  "sell_side sd \<longleftrightarrow> sd = ''Sell'' \<or> sd = ''SHORT''"

definition mid_price :: "f64 \<Rightarrow> f64 \<Rightarrow> f64" where
  "mid_price bestBid bestAsk =
    (if Fin 0 < bestBid \<and> Fin 0 < bestAsk then (bestBid + bestAsk) / Fin 2
     else if Fin 0 < bestBid then bestBid
     else if Fin 0 < bestAsk then bestAsk
     else Fin 0)"

definition estimateSlippage ::
  "f64 \<Rightarrow> f64 \<Rightarrow> order_book_level list \<Rightarrow> order_book_level list \<Rightarrow> f64 \<Rightarrow> string \<Rightarrow> f64" where
  "estimateSlippage bestBid bestAsk bidLevels askLevels targetNotional sd =
    (if targetNotional \<le> Fin 0 then Fin 0
     else
       (let mid = mid_price bestBid bestAsk
        in if feq mid (Fin 0) then Fin 0
           else
             (let (remaining, totalSize) =
                    fill_notional (if sell_side sd then bidLevels else askLevels) targetNotional (Fin 0)
              in if Fin 0 < remaining then PInf
                 else \<bar>targetNotional / totalSize - mid\<bar> / mid * Fin 10000)))"

definition best_price :: "order_book_level list \<Rightarrow> f64" where
  "best_price levels = (case levels of [] \<Rightarrow> Fin 0 | l # _ \<Rightarrow> obl_Price l)"

definition spread_bps :: "f64 \<Rightarrow> f64 \<Rightarrow> f64" where
  "spread_bps bestBid bestAsk =
    (if Fin 0 < bestBid \<and> Fin 0 < bestAsk \<and> bestBid < bestAsk
     then (bestAsk - bestBid) / ((bestAsk + bestBid) / Fin 2) * Fin 10000 else Fin 0)"

definition no_summary :: "string \<Rightarrow> f64 \<Rightarrow> f64 \<Rightarrow> time \<Rightarrow> order_book_summary" where
  "no_summary symbol bid ask t =
    \<lparr> ob_Symbol = symbol, ob_BestBid = bid, ob_BestAsk = ask, ob_SpreadBps = Fin 0, ob_BidDepth = Fin 0,
      ob_AskDepth = Fin 0, ob_DepthToPositionSizeRatio = Fin 0, ob_EstimatedSlippageBps = Fin 0,
      ob_LastUpdate = t, ob_Stale = True \<rparr>"

definition depth_ratio :: "f64 \<Rightarrow> f64 \<Rightarrow> f64 \<Rightarrow> f64 \<Rightarrow> f64 \<Rightarrow> string \<Rightarrow> f64" where
  "depth_ratio bestBid bestAsk bidDepth askDepth targetNotional sd =
    (if Fin 0 < targetNotional
     then (if sell_side sd then bidDepth * bestBid / targetNotional else askDepth * bestAsk / targetNotional)
     else Fin 0)"

definition book_summary :: "time \<Rightarrow> string \<Rightarrow> f64 \<Rightarrow> string \<Rightarrow> order_book_store \<Rightarrow> order_book_summary" where
  "book_summary now symbol targetNotional sd s =
    (case map_of (obs_books s) symbol of
       None \<Rightarrow> no_summary symbol (Fin 0) (Fin 0) zero_time
     | Some ob \<Rightarrow>
         (let bidLevels = flattenAndSort (bk_bids ob) True; askLevels = flattenAndSort (bk_asks ob) False;
              bestBid = best_price bidLevels; bestAsk = best_price askLevels;
              spread = spread_bps bestBid bestAsk
          in if isNaN spread \<or> isInf spread \<or> spread < Fin 0
             then no_summary symbol bestBid bestAsk (bk_lastUpdate ob)
             else
               (let slip = estimateSlippage bestBid bestAsk bidLevels askLevels targetNotional sd
                in \<lparr> ob_Symbol = symbol, ob_BestBid = bestBid, ob_BestAsk = bestAsk, ob_SpreadBps = spread,
                     ob_BidDepth = sumDepth bidLevels, ob_AskDepth = sumDepth askLevels,
                     ob_DepthToPositionSizeRatio =
                       depth_ratio bestBid bestAsk (sumDepth bidLevels) (sumDepth askLevels) targetNotional sd,
                     ob_EstimatedSlippageBps = (if isNaN slip then Fin 0 else slip),
                     ob_LastUpdate = bk_lastUpdate ob,
                     ob_Stale = (obs_staleThreshold s < time_sub now (bk_lastUpdate ob)) \<rparr>)))"

definition book_lastUpdate :: "string \<Rightarrow> order_book_store \<Rightarrow> time" where
  "book_lastUpdate symbol s =
    (case map_of (obs_books s) symbol of None \<Rightarrow> zero_time | Some ob \<Rightarrow> bk_lastUpdate ob)"

section \<open>Candle cache\<close>

definition defaultCandleCacheCap :: nat where "defaultCandleCacheCap = 500"

definition candleKey :: "string \<Rightarrow> string \<Rightarrow> string" where
  "candleKey symbol timeframe = symbol @ ''|'' @ timeframe"

record candle_cache =
  cc_candles :: "candle list gomap"
  cc_lastUpdates :: "time gomap"

definition newCandleCache :: candle_cache where
  "newCandleCache = \<lparr> cc_candles = [], cc_lastUpdates = [] \<rparr>"

text \<open>\<open>sort.Search\<close>: binary search for the first index at which the predicate holds.\<close>

function search_from :: "(nat \<Rightarrow> bool) \<Rightarrow> nat \<Rightarrow> nat \<Rightarrow> nat" where
  "search_from f i j =
    (if i < j then (let h = (i + j) div 2 in if f h then search_from f i h else search_from f (h + 1) j) else i)"
  by auto
termination by (relation "measure (\<lambda>(f, i, j). j - i)") auto

declare search_from.simps [simp del]

definition sort_Search :: "nat \<Rightarrow> (nat \<Rightarrow> bool) \<Rightarrow> nat" where
  "sort_Search n f = search_from f 0 n"

definition cacheable :: "candle \<Rightarrow> bool" where
  "cacheable c \<longleftrightarrow>
    \<not> (c_Open c \<le> Fin 0 \<or> c_High c \<le> Fin 0 \<or> c_Low c \<le> Fin 0 \<or> c_Close c \<le> Fin 0 \<or> c_Volume c < Fin 0) \<and>
    \<not> (not_finite (c_Open c) \<or> not_finite (c_High c) \<or> not_finite (c_Low c) \<or> not_finite (c_Close c) \<or>
       not_finite (c_Volume c))"

definition put_candle :: "candle \<Rightarrow> candle list \<Rightarrow> candle list" where
  "put_candle c list =
    (let idx = sort_Search (length list) (\<lambda>i. c_OpenTime c \<le> c_OpenTime (list ! i));
         list' = (if idx < length list \<and> c_OpenTime (list ! idx) = c_OpenTime c then list[idx := c]
                  else take idx list @ [c] @ drop idx list)
     in drop (length list' - defaultCandleCacheCap) list')"

definition list_at :: "string \<Rightarrow> 'a list gomap \<Rightarrow> 'a list" where
  "list_at k m = (case map_of m k of None \<Rightarrow> [] | Some xs \<Rightarrow> xs)"

definition time_at :: "string \<Rightarrow> time gomap \<Rightarrow> time" where
  "time_at k m = (case map_of m k of None \<Rightarrow> zero_time | Some t \<Rightarrow> t)"

definition cache_update :: "time \<Rightarrow> string \<Rightarrow> string \<Rightarrow> candle \<Rightarrow> candle_cache \<Rightarrow> candle_cache" where
  "cache_update now symbol timeframe c cc =
    (if \<not> cacheable c then cc
     else let k = candleKey symbol timeframe
          in cc\<lparr>cc_candles := AList.update k (put_candle c (list_at k (cc_candles cc))) (cc_candles cc),
                cc_lastUpdates := AList.update k now (cc_lastUpdates cc)\<rparr>)"

definition cache_get :: "string \<Rightarrow> string \<Rightarrow> int \<Rightarrow> candle_cache \<Rightarrow> candle list" where
  "cache_get symbol timeframe limit cc =
    (let list = list_at (candleKey symbol timeframe) (cc_candles cc)
     in if limit \<le> 0 \<or> int (length list) \<le> limit then list else drop (length list - nat limit) list)"

definition cache_lastUpdate :: "string \<Rightarrow> string \<Rightarrow> candle_cache \<Rightarrow> time" where
  "cache_lastUpdate symbol timeframe cc = time_at (candleKey symbol timeframe) (cc_lastUpdates cc)"

definition cache_lastUpdateAny :: "string list \<Rightarrow> string \<Rightarrow> candle_cache \<Rightarrow> time" where
  "cache_lastUpdateAny ord symbol cc =
    range_map (\<lambda>_. cc_lastUpdates cc)
      (\<lambda>k t latest. if HasPrefix k (symbol @ ''|'') \<and> latest < t then t else latest)
      (iter_keys ord (cc_lastUpdates cc)) zero_time"

section \<open>Price cache\<close>

record price_cache =
  prc_prices :: "f64 gomap"
  prc_updates :: "time gomap"

definition price_set :: "string \<Rightarrow> f64 \<Rightarrow> time \<Rightarrow> price_cache \<Rightarrow> price_cache" where
  "price_set symbol price t pc =
    pc\<lparr>prc_prices := AList.update symbol price (prc_prices pc), prc_updates := AList.update symbol t (prc_updates pc)\<rparr>"

definition price_get :: "string \<Rightarrow> price_cache \<Rightarrow> (f64 \<times> time) option" where
  "price_get symbol pc =
    (case map_of (prc_prices pc) symbol of
       None \<Rightarrow> None | Some p \<Rightarrow> Some (p, time_at symbol (prc_updates pc)))"

definition price_lastUpdate :: "string \<Rightarrow> price_cache \<Rightarrow> time" where
  "price_lastUpdate symbol pc = time_at symbol (prc_updates pc)"

section \<open>Trade flow\<close>

record trade_flow_store =
  tfs_trades :: "public_trade list gomap"
  tfs_windows :: "int list"
  tfs_maxWindow :: duration
  tfs_staleThreshold :: duration

definition newTradeFlowStore :: "int list \<Rightarrow> duration \<Rightarrow> trade_flow_store" where
  "newTradeFlowStore windows threshold =
    \<lparr> tfs_trades = [], tfs_windows = windows, tfs_maxWindow = seconds_of (foldl max 0 windows),
      tfs_staleThreshold = threshold \<rparr>"

text \<open>Trades before the first one inside the window are dropped.\<close>

definition flow_add :: "time \<Rightarrow> public_trade \<Rightarrow> trade_flow_store \<Rightarrow> trade_flow_store" where
  "flow_add now t s =
    (let cutoff = now - tfs_maxWindow s;
         list = list_at (pt_Symbol t) (tfs_trades s) @ [t]
     in s\<lparr>tfs_trades := AList.update (pt_Symbol t) (dropWhile (\<lambda>t. pt_Timestamp t < cutoff) list) (tfs_trades s)\<rparr>)"

definition flow_step :: "time \<Rightarrow> f64 \<times> f64 \<times> int \<Rightarrow> public_trade \<Rightarrow> f64 \<times> f64 \<times> int" where
  "flow_step cutoff acc t =
    (let (buy, sell, n) = acc
     in if pt_Timestamp t < cutoff then acc
        else if pt_Side t = ''Buy'' then (buy + pt_Size t, sell, n + 1)
        else (buy, sell + pt_Size t, n + 1))"

definition window_flow :: "time \<Rightarrow> string \<Rightarrow> time \<Rightarrow> bool \<Rightarrow> public_trade list \<Rightarrow> int \<Rightarrow> trade_flow" where
  "window_flow now symbol lastUpdate stale list winSec =
    (let (buy, sell, n) = foldl (flow_step (now - seconds_of winSec)) (Fin 0, Fin 0, 0) list
     in \<lparr> tf_Symbol = symbol, tf_WindowSeconds = winSec, tf_BuyVolume = buy, tf_SellVolume = sell,
          tf_BuySellRatio =
            (if Fin 0 < sell then buy / sell else if Fin 0 < buy then PInf else Fin 0),
          tf_TradeCount = n, tf_LastUpdate = lastUpdate, tf_Stale = stale \<rparr>)"

definition flow_lastUpdate :: "string \<Rightarrow> trade_flow_store \<Rightarrow> time" where
  "flow_lastUpdate symbol s =
    (case list_at symbol (tfs_trades s) of [] \<Rightarrow> zero_time | ts \<Rightarrow> pt_Timestamp (last ts))"

definition flow_of :: "time \<Rightarrow> string \<Rightarrow> trade_flow_store \<Rightarrow> trade_flow list" where
  "flow_of now symbol s =
    (let lastUpdate = flow_lastUpdate symbol s
     in map (window_flow now symbol lastUpdate (tfs_staleThreshold s < time_sub now lastUpdate)
              (list_at symbol (tfs_trades s))) (tfs_windows s))"

end
