(* ===== verification/MarketDataSpec.thy ===== *)
theory MarketDataSpec
  imports MarketData
begin

text \<open>
  The caches against their specifications: the order book is the replay of its message log, the candle cache
  is the sorted series of the latest candles, and the figures computed from a book are in range.
\<close>

section \<open>Binary search\<close>

lemma search_from_correct:
  assumes "i \<le> j" "j \<le> n" "\<forall>k<i. \<not> f k" "\<forall>k. j \<le> k \<and> k < n \<longrightarrow> f k"
    and "\<forall>k l. k \<le> l \<longrightarrow> l < n \<longrightarrow> f k \<longrightarrow> f l"
  shows "search_from f i j \<le> n \<and> (\<forall>k<search_from f i j. \<not> f k) \<and> (\<forall>k. search_from f i j \<le> k \<and> k < n \<longrightarrow> f k)"
  using assms
proof (induction f i j rule: search_from.induct)
  case (1 f i j)
  show ?case
  proof (cases "i < j")
    case True
    let ?h = "(i + j) div 2"
    have h: "i \<le> ?h" "?h < j" using True by auto
    show ?thesis
    proof (cases "f ?h")
      case fh: True
      have eq: "search_from f i j = search_from f i ?h"
        using True fh by (subst search_from.simps) (simp add: Let_def)
      have "\<forall>k. ?h \<le> k \<and> k < n \<longrightarrow> f k" using "1.prems"(5) fh by blast
      moreover have "?h \<le> n" using h "1.prems"(2) by simp
      ultimately show ?thesis
        unfolding eq using "1.IH"(1) [OF True refl fh h(1) _ "1.prems"(3) _ "1.prems"(5)] by blast
    next
      case fh: False
      have eq: "search_from f i j = search_from f (?h + 1) j"
        using True fh by (subst search_from.simps) (simp add: Let_def)
      have "\<forall>k<?h + 1. \<not> f k"
      proof (intro allI impI notI)
        fix k assume "k < ?h + 1" "f k"
        then have "f ?h" using "1.prems"(5) [rule_format, of k ?h] h "1.prems"(2) by linarith
        with fh show False ..
      qed
      moreover have "?h + 1 \<le> j" using h by simp
      ultimately show ?thesis
        unfolding eq using "1.IH"(2) [OF True refl fh _ "1.prems"(2) _ "1.prems"(4,5)] by blast
    qed
  next
    case False
    then have "search_from f i j = i" by (subst search_from.simps) simp
    moreover have "i = j" using "1.prems"(1) False by simp
    ultimately show ?thesis using "1.prems"(2-4) by (metis (no_types))
  qed
qed

lemma sort_Search_correct:
  assumes "\<forall>k l. k \<le> l \<longrightarrow> l < n \<longrightarrow> f k \<longrightarrow> f l"
  shows "sort_Search n f \<le> n" "\<And>k. k < sort_Search n f \<Longrightarrow> \<not> f k"
    "\<And>k. sort_Search n f \<le> k \<Longrightarrow> k < n \<Longrightarrow> f k"
proof -
  have "search_from f 0 n \<le> n \<and> (\<forall>k<search_from f 0 n. \<not> f k) \<and>
      (\<forall>k. search_from f 0 n \<le> k \<and> k < n \<longrightarrow> f k)"
    by (rule search_from_correct [OF _ _ _ _ assms]) auto
  then show "sort_Search n f \<le> n" "\<And>k. k < sort_Search n f \<Longrightarrow> \<not> f k"
    "\<And>k. sort_Search n f \<le> k \<Longrightarrow> k < n \<Longrightarrow> f k"
    unfolding sort_Search_def by blast+
qed

section \<open>Candle cache\<close>

abbreviation series :: "candle list \<Rightarrow> bool" where
  "series xs \<equiv> sorted_wrt (<) (map c_OpenTime xs)"

text \<open>The series with one candle written: older ones, the candle, newer ones.\<close>

definition write_series :: "candle \<Rightarrow> candle list \<Rightarrow> candle list" where
  "write_series c xs =
    filter (\<lambda>d. c_OpenTime d < c_OpenTime c) xs @ c # filter (\<lambda>d. c_OpenTime c < c_OpenTime d) xs"

lemma series_write:
  assumes "series xs"
  shows "series (write_series c xs)"
proof -
  have f: "sorted_wrt (\<lambda>a b. c_OpenTime a < c_OpenTime b) (filter P xs)" for P
    using assms by (simp add: sorted_wrt_map sorted_wrt_filter)
  have "c_OpenTime a < c_OpenTime b"
    if "c_OpenTime a < c_OpenTime c" "c_OpenTime c < c_OpenTime b" for a b using that by simp
  then show ?thesis unfolding sorted_wrt_map write_series_def sorted_wrt_append sorted_wrt.simps using f by simp
qed

lemma series_split:
  assumes "series (as @ bs)" "\<forall>d\<in>set as. c_OpenTime d < c_OpenTime c" "\<forall>d\<in>set bs. c_OpenTime c \<le> c_OpenTime d"
  shows "write_series c (as @ bs) =
    as @ c # (if bs \<noteq> [] \<and> c_OpenTime (hd bs) = c_OpenTime c then tl bs else bs)"
proof -
  have older: "filter (\<lambda>d. c_OpenTime d < c_OpenTime c) (as @ bs) = as"
    using assms(2,3) by (auto simp: filter_id_conv filter_empty_conv)
  have none: "filter (\<lambda>d. c_OpenTime c < c_OpenTime d) as = []"
    using assms(2) by (auto simp: filter_empty_conv)
  have newer: "filter (\<lambda>d. c_OpenTime c < c_OpenTime d) bs =
      (if bs \<noteq> [] \<and> c_OpenTime (hd bs) = c_OpenTime c then tl bs else bs)"
  proof (cases bs)
    case (Cons b bs')
    have "\<forall>d\<in>set bs'. c_OpenTime b < c_OpenTime d" using assms(1) Cons by (auto simp: sorted_wrt_append)
    then show ?thesis using assms(3) Cons by (auto simp: filter_id_conv)
  qed simp
  show ?thesis using older none newer by (simp add: write_series_def)
qed

lemma put_candle_write:
  assumes "series xs"
  shows "put_candle c xs = drop (length (write_series c xs) - 500) (write_series c xs)"
proof -
  let ?i = "sort_Search (length xs) (\<lambda>i. c_OpenTime c \<le> c_OpenTime (xs ! i))"
  have mono: "c_OpenTime (xs ! k) \<le> c_OpenTime (xs ! l)" if "k \<le> l" "l < length xs" for k l
    using assms that by (cases "k = l") (auto simp: sorted_wrt_iff_nth_less intro!: less_imp_le)
  have "\<forall>k l. k \<le> l \<longrightarrow> l < length xs \<longrightarrow> c_OpenTime c \<le> c_OpenTime (xs ! k) \<longrightarrow> c_OpenTime c \<le> c_OpenTime (xs ! l)"
    using mono by (blast intro: order.trans)
  note s = sort_Search_correct [OF this]
  have i: "?i \<le> length xs" by (rule s(1))
  have less: "c_OpenTime (xs ! k) < c_OpenTime c" if "k < ?i" for k using s(2) [OF that] by linarith
  have ge: "c_OpenTime c \<le> c_OpenTime (xs ! k)" if "?i \<le> k" "k < length xs" for k using s(3) [OF that] .
  have "\<forall>d\<in>set (take ?i xs). c_OpenTime d < c_OpenTime c"
    using i less by (auto simp: in_set_conv_nth)
  moreover have "\<forall>d\<in>set (drop ?i xs). c_OpenTime c \<le> c_OpenTime d"
    using i ge by (auto simp: in_set_conv_nth)
  ultimately have w: "write_series c xs = take ?i xs @ c #
      (if drop ?i xs \<noteq> [] \<and> c_OpenTime (hd (drop ?i xs)) = c_OpenTime c then tl (drop ?i xs) else drop ?i xs)"
    using series_split [of "take ?i xs" "drop ?i xs" c, unfolded append_take_drop_id, OF assms] by blast
  have hd: "drop n xs \<noteq> [] \<Longrightarrow> hd (drop n xs) = xs ! n" and tl: "tl (drop n xs) = drop (Suc n) xs"
    and ne: "drop n xs \<noteq> [] \<longleftrightarrow> n < length xs" for n
    by (auto simp: hd_drop_conv_nth drop_Suc tl_drop)
  have "(if ?i < length xs \<and> c_OpenTime (xs ! ?i) = c_OpenTime c then xs[?i := c]
      else take ?i xs @ [c] @ drop ?i xs) = write_series c xs"
    unfolding w tl using hd ne [of ?i] upd_conv_take_nth_drop [of ?i xs c] by auto
  then show ?thesis by (simp add: put_candle_def Let_def defaultCandleCacheCap_def)
qed

lemma series_drop: "series xs \<Longrightarrow> series (drop n xs)"
  by (simp add: drop_map [symmetric] sorted_wrt_drop)

text \<open>
  C19: Writing a candle into a cached series, which the code does by binary search and a shifting copy, is the
  same as putting it between the older and the newer candles in place of the one with its open time and then
  keeping the latest 500; open times stay strictly increasing, and the cache never holds more than 500.
\<close>

theorem candle_cache_refines_series:
  assumes "series xs"
  shows "put_candle c xs = (let ys = write_series c xs in drop (length ys - 500) ys) \<and>
    series (put_candle c xs) \<and> length (put_candle c xs) \<le> 500 \<and>
    (length xs < 500 \<longrightarrow> c \<in> set (put_candle c xs) \<and>
      (\<forall>d. c_OpenTime d \<noteq> c_OpenTime c \<longrightarrow> d \<in> set (put_candle c xs) \<longleftrightarrow> d \<in> set xs))"
proof -
  have s: "series (put_candle c xs)"
    unfolding put_candle_write [OF assms] by (intro series_drop series_write assms)
  have l: "length (write_series c xs) \<le> Suc (length xs)"
  proof -
    have "length (filter (\<lambda>d. c_OpenTime c < c_OpenTime d) xs) \<le> length (filter (\<lambda>d. \<not> c_OpenTime d < c_OpenTime c) xs)"
      by (induction xs) auto
    then show ?thesis
      using sum_length_filter_compl [of "\<lambda>d. c_OpenTime d < c_OpenTime c" xs] by (simp add: write_series_def)
  qed
  have "set (write_series c xs) = insert c {d \<in> set xs. c_OpenTime d \<noteq> c_OpenTime c}"
    by (auto simp: write_series_def)
  with s l show ?thesis using put_candle_write [OF assms, of c] by (auto simp: Let_def)
qed

definition cache_bar :: "int \<Rightarrow> candle" where
  "cache_bar t = \<lparr> c_Symbol = ''BTCUSDT'', c_Timeframe = ''15m'', c_OpenTime = t, c_Open = Fin 1, c_High = Fin 1,
     c_Low = Fin 1, c_Close = Fin 1, c_Volume = Fin 1, c_TurnOver = Fin 0, c_Confirmed = True \<rparr>"

lemma cache_bar_time [simp]: "c_OpenTime (cache_bar t) = t"
  by (simp add: cache_bar_def)

theorem candle_cache_refines_series_witness:
  "series [cache_bar 1, cache_bar 3] \<and> cache_bar 2 \<in> set (put_candle (cache_bar 2) [cache_bar 1, cache_bar 3])"
proof
  show s: "series [cache_bar 1, cache_bar 3]" by simp
  have "length [cache_bar 1, cache_bar 3] < 500" by simp
  with candle_cache_refines_series [OF s, of "cache_bar 2"]
  show "cache_bar 2 \<in> set (put_candle (cache_bar 2) [cache_bar 1, cache_bar 3])" by blast
qed

section \<open>Order book\<close>

text \<open>The specification: the log of the level updates since the last snapshot.\<close>

datatype book_msg =
  Snapshot string int int "order_book_level list" "order_book_level list"
| Delta string int int "order_book_level list" "order_book_level list"

record book_log =
  lg_updateID :: int
  lg_bids :: "order_book_level list"
  lg_asks :: "order_book_level list"

text \<open>A snapshot states sizes only: its levels without a positive size say nothing, whereas in a delta they remove a price.\<close>

definition positive_levels :: "order_book_level list \<Rightarrow> order_book_level list" where
  "positive_levels ls = filter (\<lambda>l. Fin 0 < obl_Size l) ls"

fun log_msg :: "string \<Rightarrow> book_log option \<Rightarrow> book_msg \<Rightarrow> book_log option" where
  "log_msg symbol lg (Snapshot sb u q bids asks) =
    (if sb = symbol
     then Some \<lparr> lg_updateID = u, lg_bids = positive_levels bids, lg_asks = positive_levels asks \<rparr> else lg)"
| "log_msg symbol lg (Delta sb u q bids asks) =
    (case lg of
       None \<Rightarrow> None
     | Some g \<Rightarrow>
         if sb = symbol \<and> lg_updateID g < u
         then Some \<lparr> lg_updateID = u, lg_bids = lg_bids g @ bids, lg_asks = lg_asks g @ asks \<rparr> else lg)"

fun book_msg_step :: "time \<Rightarrow> order_book_store \<Rightarrow> book_msg \<Rightarrow> order_book_store" where
  "book_msg_step now s (Snapshot sb u q bids asks) = book_reset now sb u q bids asks s"
| "book_msg_step now s (Delta sb u q bids asks) = fst (applyDelta now sb u q bids asks s)"

text \<open>What a log says of a price: the last valid level for it decides, and a size of zero removes it.\<close>

definition quoted :: "order_book_level list \<Rightarrow> f64 \<Rightarrow> f64 option" where
  "quoted ls p =
    (case find (\<lambda>l. \<not> bad_level l \<and> obl_Price l = p) (rev ls) of
       None \<Rightarrow> None
     | Some l \<Rightarrow> if feq (obl_Size l) (Fin 0) then None else Some (obl_Size l))"

lemma quoted_snoc:
  "quoted (ls @ [l]) p =
    (if \<not> bad_level l \<and> obl_Price l = p
     then (if feq (obl_Size l) (Fin 0) then None else Some (obl_Size l)) else quoted ls p)"
  by (simp add: quoted_def)

lemma delta_level_quoted:
  assumes "map_of m = quoted ls"
  shows "map_of (delta_level m l) = quoted (ls @ [l])"
  using assms by (auto simp: delta_level_def quoted_snoc fun_eq_iff)

lemma foldl_delta_quoted:
  "map_of m = quoted ls \<Longrightarrow> map_of (foldl delta_level m ks) = quoted (ls @ ks)"
proof (induction ks arbitrary: m ls)
  case (Cons k ks)
  from Cons.IH [OF delta_level_quoted [OF Cons.prems, of k]] show ?case by simp
qed simp

lemma positive_size: "\<not> bad_level l \<Longrightarrow> Fin 0 < obl_Size l \<longleftrightarrow> \<not> feq (obl_Size l) (Fin 0)"
  by (cases "obl_Size l") (auto simp: bad_level_def isNaN_def isInf_def feq_def less_f64_def)

lemma snapshot_level_delta:
  "snapshot_level m l = (if Fin 0 < obl_Size l then delta_level m l else m)"
  using positive_size [of l] by (auto simp: snapshot_level_def delta_level_def)

lemma foldl_snapshot_delta: "foldl snapshot_level m ls = foldl delta_level m (positive_levels ls)"
  by (induction ls arbitrary: m) (simp_all add: positive_levels_def snapshot_level_delta)

definition book_refines :: "order_book option \<Rightarrow> book_log option \<Rightarrow> bool" where
  "book_refines ob lg \<longleftrightarrow>
    (case (ob, lg) of
       (None, None) \<Rightarrow> True
     | (Some b, Some g) \<Rightarrow>
         bk_updateID b = lg_updateID g \<and> map_of (bk_bids b) = quoted (lg_bids g) \<and>
         map_of (bk_asks b) = quoted (lg_asks g)
     | _ \<Rightarrow> False)"

lemma quoted_Nil: "map_of [] = quoted []"
  by (auto simp: quoted_def)

lemma book_step_refines:
  assumes "book_refines (map_of (obs_books s) symbol) lg"
  shows "book_refines (map_of (obs_books (book_msg_step now s m)) symbol) (log_msg symbol lg m)"
proof (cases m)
  case (Snapshot sb u q bids asks)
  then show ?thesis
    using assms foldl_delta_quoted [OF quoted_Nil, of "positive_levels bids"]
      foldl_delta_quoted [OF quoted_Nil, of "positive_levels asks"]
    by (simp add: book_reset_def book_refines_def foldl_snapshot_delta)
next
  case (Delta sb u q bids asks)
  show ?thesis
  proof (cases "sb = symbol")
    case True
    with assms Delta show ?thesis
      by (cases "map_of (obs_books s) symbol"; cases lg)
        (auto simp: book_refines_def applyDelta_def foldl_delta_quoted)
  next
    case False
    with assms Delta show ?thesis
      by (cases lg) (auto simp: applyDelta_def split: option.split)
  qed
qed

text \<open>
  C20: After any sequence of order book messages, with snapshots and deltas of any symbols in any order, the
  local book of a symbol is the replay of its log: there is a book exactly when a snapshot has arrived, and
  the size it gives for a price is that of the last valid level for this price since the last snapshot, among
  the levels of the snapshot with a positive size and all levels of the deltas whose update id was newer than
  all before it; a size of zero in a delta removes the price, in a snapshot it is passed over.
\<close>

theorem order_book_replays_log:
  "book_refines (map_of (obs_books (foldl (book_msg_step now) (newOrderBookStore th) msgs)) symbol)
    (foldl (log_msg symbol) None msgs)"
proof (induction msgs rule: rev_induct)
  case Nil
  show ?case by (simp add: newOrderBookStore_def book_refines_def)
next
  case (snoc m msgs)
  then show ?case by (simp add: book_step_refines)
qed

text \<open>A level of size zero in a snapshot leaves the level before it in place.\<close>

lemma zero_level_of_snapshot_ignored:
  "map_of (obs_books (book_msg_step 0 (newOrderBookStore 0)
     (Snapshot ''BTCUSDT'' 1 1 [\<lparr> obl_Price = Fin 100, obl_Size = Fin 2 \<rparr>, \<lparr> obl_Price = Fin 100, obl_Size = Fin 0 \<rparr>] [])))
     ''BTCUSDT'' = map_of (obs_books (book_msg_step 0 (newOrderBookStore 0)
     (Snapshot ''BTCUSDT'' 1 1 [\<lparr> obl_Price = Fin 100, obl_Size = Fin 2 \<rparr>] []))) ''BTCUSDT''"
  by code_simp

section \<open>Figures of a book\<close>

definition side_wf :: "book_side \<Rightarrow> bool" where
  "side_wf m \<longleftrightarrow> (\<forall>(p, sz)\<in>set m. isFinitePositive p \<and> isFinitePositive sz)"

lemma set_update: "set (AList.update k v m) \<subseteq> insert (k, v) (set m)"
  by (induction m) auto

lemma set_delete: "set (AList.delete k m) \<subseteq> set m"
  by (auto simp: AList.delete_eq)

lemma level_wf: "\<not> bad_level l \<Longrightarrow> Fin 0 < obl_Size l \<or> \<not> feq (obl_Size l) (Fin 0) \<Longrightarrow>
    isFinitePositive (obl_Price l) \<and> isFinitePositive (obl_Size l)"
  by (cases "obl_Size l"; cases "obl_Price l") (auto simp: bad_level_def isFinitePositive_def isNaN_def isInf_def feq_def)

lemma side_wf_step:
  assumes "side_wf m"
  shows "side_wf (snapshot_level m l)" "side_wf (delta_level m l)"
proof -
  have "side_wf (AList.update (obl_Price l) (obl_Size l) m)"
    if "isFinitePositive (obl_Price l)" "isFinitePositive (obl_Size l)"
    using assms that set_update [of "obl_Price l" "obl_Size l" m] by (auto simp: side_wf_def)
  then show "side_wf (snapshot_level m l)" using assms level_wf [of l] by (auto simp: snapshot_level_def)
  have "side_wf (AList.delete (obl_Price l) m)"
    using assms set_delete [of "obl_Price l" m] by (auto simp: side_wf_def)
  with \<open>isFinitePositive (obl_Price l) \<Longrightarrow> isFinitePositive (obl_Size l) \<Longrightarrow>
      side_wf (AList.update (obl_Price l) (obl_Size l) m)\<close>
  show "side_wf (delta_level m l)" using assms level_wf [of l] by (auto simp: delta_level_def)
qed

lemma side_wf_fold:
  "side_wf m \<Longrightarrow> side_wf (foldl snapshot_level m ls)" "side_wf m \<Longrightarrow> side_wf (foldl delta_level m ls)"
  by (induction ls arbitrary: m) (simp_all add: side_wf_step)

definition store_sides_wf :: "order_book_store \<Rightarrow> bool" where
  "store_sides_wf s \<longleftrightarrow>
    (\<forall>sb ob. map_of (obs_books s) sb = Some ob \<longrightarrow> side_wf (bk_bids ob) \<and> side_wf (bk_asks ob))"

lemma side_wf_Nil [simp]: "side_wf []"
  by (simp add: side_wf_def)

lemma book_step_wf: "store_sides_wf s \<Longrightarrow> store_sides_wf (book_msg_step now s m)"
  by (cases m)
    (auto simp: store_sides_wf_def book_reset_def applyDelta_def side_wf_fold split: option.split if_splits)

lemma reachable_sides_wf: "store_sides_wf (foldl (book_msg_step now) (newOrderBookStore th) msgs)"
  by (rule foldl_invariant) (auto simp: book_step_wf, simp add: store_sides_wf_def newOrderBookStore_def)

lemma flatten_sorted:
  assumes "side_wf m"
  shows "sorted_wrt (\<lambda>a b. \<not> (if desc then obl_Price a < obl_Price b else obl_Price b < obl_Price a))
    (flattenAndSort m desc)"
  unfolding flattenAndSort_def
proof (rule insertion_sort_sorted [where S = "{l. obl_Price l \<noteq> NaN}"])
  show "set (map (\<lambda>(p, sz). \<lparr>obl_Price = p, obl_Size = sz\<rparr>) m) \<subseteq> {l. obl_Price l \<noteq> NaN}"
    using assms by (auto simp: side_wf_def isFinitePositive_def isNaN_def)
next
  fix a b c :: order_book_level
  show "\<not> (if desc then obl_Price a < obl_Price b else obl_Price b < obl_Price a)"
    if "if desc then obl_Price b < obl_Price a else obl_Price a < obl_Price b"
    using that f64_less_asym f64_less_imp_le by (auto split: if_splits)
  assume s: "a \<in> {l. obl_Price l \<noteq> NaN}" "b \<in> {l. obl_Price l \<noteq> NaN}" "c \<in> {l. obl_Price l \<noteq> NaN}"
    and ab: "\<not> (if desc then obl_Price b < obl_Price a else obl_Price a < obl_Price b)"
    and bc: "\<not> (if desc then obl_Price c < obl_Price b else obl_Price b < obl_Price c)"
  then show "\<not> (if desc then obl_Price c < obl_Price a else obl_Price a < obl_Price c)"
    by (auto simp: f64_not_less split: if_splits intro: f64_le_trans)
qed

lemma flatten_set: "obl_Price ` set (flattenAndSort m desc) = fst ` set m"
  by (force simp: flattenAndSort_def)

lemma best_price_Nil: "flattenAndSort [] desc = []"
  by (simp add: flattenAndSort_def insertion_sort_def)

lemma best_price_extreme:
  assumes "side_wf m" "m \<noteq> []"
  shows "best_price (flattenAndSort m desc) \<in> fst ` set m \<and>
    (\<forall>p\<in>fst ` set m. if desc then p \<le> best_price (flattenAndSort m desc) else best_price (flattenAndSort m desc) \<le> p)"
proof -
  obtain l ls where l: "flattenAndSort m desc = l # ls"
    using assms(2) flatten_set [of m desc] by (cases "flattenAndSort m desc") auto
  have pr: "fst ` set m = obl_Price ` set (l # ls)" using flatten_set [of m desc] l by simp
  have nn: "obl_Price k \<noteq> NaN" if "k \<in> set (l # ls)" for k
  proof -
    have "obl_Price k \<in> fst ` set m" unfolding pr using that by (rule imageI)
    then show ?thesis using assms(1) by (auto simp: side_wf_def isFinitePositive_def isNaN_def)
  qed
  have "if desc then obl_Price k \<le> obl_Price l else obl_Price l \<le> obl_Price k" if "k \<in> set (l # ls)" for k
    using that flatten_sorted [OF assms(1), of desc] nn [of k] nn [of l] l
    by (auto simp: f64_not_less f64_le_refl split: if_splits)
  then have "\<forall>p\<in>obl_Price ` set (l # ls). if desc then p \<le> obl_Price l else obl_Price l \<le> p" by blast
  moreover have "best_price (flattenAndSort m desc) = obl_Price l" by (simp add: l best_price_def)
  moreover have "obl_Price l \<in> obl_Price ` set (l # ls)" by simp
  ultimately show ?thesis unfolding pr by metis
qed

lemma mid_price_nonneg:
  assumes "Fin 0 \<le> a" "Fin 0 \<le> b"
  shows "Fin 0 \<le> mid_price a b"
proof -
  have "Fin 0 \<le> (a + b) / Fin 2"
  proof (rule divide_nonneg)
    show "Fin 0 \<le> a + b" using assms by (rule plus_nonneg)
    then show "(a + b) / Fin 2 \<noteq> NaN" by (cases "a + b") (auto simp: divide_f64_def inf_of_def zero_of_def)
  qed simp
  then show ?thesis using assms f64_less_imp_le by (auto simp: mid_price_def)
qed

lemma estimateSlippage_nonneg:
  assumes "Fin 0 \<le> a" "Fin 0 \<le> b" "estimateSlippage a b bids asks n sd \<noteq> NaN"
  shows "Fin 0 \<le> estimateSlippage a b bids asks n sd"
proof -
  have pos: "Fin 0 < mid_price a b" if "\<not> feq (mid_price a b) (Fin 0)"
    using mid_price_nonneg [OF assms(1,2)] that feq_sym by (auto simp: f64_le_less)
  have "Fin 0 \<le> \<bar>x - m\<bar> / m * Fin 10000" if "Fin 0 < m" "\<bar>x - m\<bar> / m * Fin 10000 \<noteq> NaN" for x m
  proof (rule times_nonneg [OF _ _ that(2)])
    have d: "\<bar>x - m\<bar> / m \<noteq> NaN" using that(2) by auto
    then have "\<bar>x - m\<bar> \<noteq> NaN" by auto
    then show "Fin 0 \<le> \<bar>x - m\<bar> / m" using that(1) d by (intro divide_nonneg abs_nonneg) auto
  qed simp
  with pos assms(3) show ?thesis
    by (auto simp: estimateSlippage_def Let_def split: prod.split if_splits)
qed

lemma best_price_nonneg: "side_wf m \<Longrightarrow> Fin 0 \<le> best_price (flattenAndSort m desc)"
proof (cases "m = []")
  case True
  then show ?thesis by (simp add: best_price_def best_price_Nil)
next
  case False
  assume "side_wf m"
  then have "\<forall>p\<in>fst ` set m. Fin 0 \<le> p"
    by (force simp: side_wf_def isFinitePositive_def dest: f64_less_imp_le)
  with best_price_extreme [OF \<open>side_wf m\<close> False, of desc] show ?thesis by blast
qed

text \<open>
  In every state of the order books that messages can lead to, the summary of a symbol reports a spread
  and a slippage that are numbers and not negative, the spread finite; the best bid is the highest of the bid
  prices and the best ask the lowest of the ask prices, or 0 for an empty side; and a summary that is not
  stale is no older than the threshold.
\<close>

theorem book_summary_sound:
  fixes msgs :: "book_msg list" and start now :: time and th :: duration and symbol sd :: string and n :: f64
  defines "s \<equiv> foldl (book_msg_step start) (newOrderBookStore th) msgs"
  defines "r \<equiv> book_summary now symbol n sd s"
  shows "Fin 0 \<le> ob_SpreadBps r \<and> \<not> isInf (ob_SpreadBps r) \<and> Fin 0 \<le> ob_EstimatedSlippageBps r \<and>
    (\<not> ob_Stale r \<longrightarrow> time_sub now (ob_LastUpdate r) \<le> obs_staleThreshold s) \<and>
    (\<forall>ob. map_of (obs_books s) symbol = Some ob \<longrightarrow>
      (if bk_bids ob = [] then ob_BestBid r = Fin 0
       else ob_BestBid r \<in> fst ` set (bk_bids ob) \<and> (\<forall>p\<in>fst ` set (bk_bids ob). p \<le> ob_BestBid r)) \<and>
      (if bk_asks ob = [] then ob_BestAsk r = Fin 0
       else ob_BestAsk r \<in> fst ` set (bk_asks ob) \<and> (\<forall>p\<in>fst ` set (bk_asks ob). ob_BestAsk r \<le> p)))"
proof (cases "map_of (obs_books s) symbol")
  case None
  then show ?thesis by (simp add: r_def book_summary_def no_summary_def isInf_def)
next
  case (Some ob)
  have wf: "side_wf (bk_bids ob)" "side_wf (bk_asks ob)"
    using reachable_sides_wf [of start th msgs] Some by (auto simp: s_def store_sides_wf_def)
  let ?b = "best_price (flattenAndSort (bk_bids ob) True)"
  let ?a = "best_price (flattenAndSort (bk_asks ob) False)"
  let ?slip = "estimateSlippage ?b ?a (flattenAndSort (bk_bids ob) True) (flattenAndSort (bk_asks ob) False) n sd"
  have best: "ob_BestBid r = ?b" "ob_BestAsk r = ?a"
    using Some by (simp_all add: r_def book_summary_def no_summary_def Let_def)
  have spread: "Fin 0 \<le> ob_SpreadBps r \<and> \<not> isInf (ob_SpreadBps r)"
    using Some f64_not_less [of "spread_bps ?b ?a" "Fin 0"]
    by (auto simp: r_def book_summary_def no_summary_def Let_def isInf_def isNaN_def)
  have slip: "Fin 0 \<le> ob_EstimatedSlippageBps r"
    using Some estimateSlippage_nonneg [OF best_price_nonneg [OF wf(1)] best_price_nonneg [OF wf(2)], where sd = sd]
    by (auto simp: r_def book_summary_def no_summary_def Let_def isNaN_def)
  have fresh: "\<not> ob_Stale r \<longrightarrow> time_sub now (ob_LastUpdate r) \<le> obs_staleThreshold s"
    using Some by (auto simp: r_def book_summary_def no_summary_def Let_def)
  show ?thesis
    using spread slip fresh best Some best_price_extreme [OF wf(1), of True] best_price_extreme [OF wf(2), of False]
    by (auto simp: best_price_Nil best_price_def)
qed

definition sample_msgs :: "book_msg list" where
  "sample_msgs =
    [Snapshot ''BTCUSDT'' 1 1 [\<lparr> obl_Price = Fin 100, obl_Size = Fin 2 \<rparr>] [\<lparr> obl_Price = Fin 101, obl_Size = Fin 1 \<rparr>]]"

lemma sample_book:
  "map_of (obs_books (foldl (book_msg_step 0) (newOrderBookStore 0) sample_msgs)) ''BTCUSDT'' =
    Some \<lparr> bk_bids = [(Fin 100, Fin 2)], bk_asks = [(Fin 101, Fin 1)], bk_seq = 1, bk_updateID = 1,
      bk_lastUpdate = 0 \<rparr>"
  by (simp add: sample_msgs_def newOrderBookStore_def book_reset_def snapshot_level_def bad_level_def isNaN_def isInf_def)

theorem book_summary_sound_witness:
  "ob_BestBid (book_summary 0 ''BTCUSDT'' (Fin 10) ''Buy''
      (foldl (book_msg_step 0) (newOrderBookStore 0) sample_msgs)) = Fin 100 \<and>
   ob_BestAsk (book_summary 0 ''BTCUSDT'' (Fin 10) ''Buy''
      (foldl (book_msg_step 0) (newOrderBookStore 0) sample_msgs)) = Fin 101"
  using book_summary_sound [where msgs = sample_msgs and symbol = "''BTCUSDT''" and now = 0 and start = 0 and th = 0
      and n = "Fin 10" and sd = "''Buy''"] sample_book by simp

end
