(* ===== verification/Monitor.thy ===== *)
theory Monitor
  imports Broker
begin

text \<open>
  The position monitor (\<open>internal/monitor/monitor.go\<close>): price ticks with the kill switch, the candle check of
  all open positions, and the daily reset. The monitor holds the paper broker itself; the market data provider
  is the pair of its answers, and the alerts sent through the alert service, when one is set, are kept in order.
\<close>

section \<open>State\<close>

text \<open>The answers of the market data provider; an error is \<open>None\<close>.\<close>

record md_provider =
  md_GetCandles :: "string \<Rightarrow> string \<Rightarrow> int \<Rightarrow> candle list option"
  md_GetLatestPrice :: "string \<Rightarrow> f64 option"

record monitor_alert =
  ma_Type :: string
  ma_Severity :: string
  ma_Message :: string
  ma_Timestamp :: time

record position_monitor =
  mo_broker :: paper_broker
  mo_cfg :: portfolio_risk_config
  mo_dailyResetAt :: time
  mo_alertSvc :: bool
  mo_alerts :: "monitor_alert list"
  mo_timeframe :: string

definition NewMonitor :: "paper_broker \<Rightarrow> portfolio_risk_config \<Rightarrow> position_monitor" where
  "NewMonitor pb cfg =
    \<lparr> mo_broker = pb, mo_cfg = cfg, mo_dailyResetAt = zero_time, mo_alertSvc = False, mo_alerts = [],
      mo_timeframe = '''' \<rparr>"

definition SetAlertService :: "position_monitor \<Rightarrow> position_monitor" where
  "SetAlertService m = m\<lparr>mo_alertSvc := True\<rparr>"

definition SetTimeframe :: "string \<Rightarrow> position_monitor \<Rightarrow> position_monitor" where
  "SetTimeframe tf m = m\<lparr>mo_timeframe := tf\<rparr>"

section \<open>Kill switch\<close>

text \<open>The realised losses of the day and the loss the open positions show.\<close>

definition total_daily_loss :: "account_state \<Rightarrow> f64" where
  "total_daily_loss st =
    (if a_UnrealizedPnL st < Fin 0 then a_DailyLoss st + (- a_UnrealizedPnL st) else a_DailyLoss st)"

definition loss_limit_reached :: "portfolio_risk_config \<Rightarrow> account_state \<Rightarrow> bool" where
  "loss_limit_reached cfg st \<longleftrightarrow>
    \<not> pr_MaxDailyLossPct cfg \<le> Fin 0 \<and>
    a_Equity st * pr_MaxDailyLossPct cfg / Fin 100 \<le> total_daily_loss st"

definition kill_switch_alert :: "time \<Rightarrow> monitor_alert" where
  "kill_switch_alert now =
    \<lparr> ma_Type = ''kill_switch'', ma_Severity = ''danger'',
      ma_Message = ''Daily loss kill switch triggered. All positions closed, new entries halted.'',
      ma_Timestamp = now \<rparr>"

definition checkKillSwitch :: "string list \<Rightarrow> time \<Rightarrow> position_monitor \<Rightarrow> position_monitor" where
  "checkKillSwitch ord now m =
    (if loss_limit_reached (mo_cfg m) (GetAccountState now (mo_broker m)) then
       m\<lparr>mo_broker := EmergencyCloseAll ord now (SetHalted ''daily_loss_kill_switch'' (mo_broker m)),
         mo_alerts := append_if (mo_alertSvc m) (kill_switch_alert now) (mo_alerts m)\<rparr>
     else m)"

section \<open>Ticks and candles\<close>

definition monitor_Update :: "string list \<Rightarrow> time \<Rightarrow> string \<Rightarrow> f64 \<Rightarrow> position_monitor \<Rightarrow> position_monitor" where
  "monitor_Update ord now symbol price m =
    checkKillSwitch ord now (m\<lparr>mo_broker := UpdatePrice ord now symbol price (mo_broker m)\<rparr>)"

definition monitor_ProcessCandle :: "string list \<Rightarrow> time \<Rightarrow> candle \<Rightarrow> position_monitor \<Rightarrow> position_monitor" where
  "monitor_ProcessCandle ord now c m = m\<lparr>mo_broker := ProcessCandle ord now c (mo_broker m)\<rparr>"

definition check_position ::
  "string list \<Rightarrow> time \<Rightarrow> md_provider \<Rightarrow> string \<Rightarrow> position_monitor \<Rightarrow> position \<Rightarrow> position_monitor" where
  "check_position ord now md tf m pos =
    (case md_GetCandles md (p_Symbol pos) tf 1 of
       Some (c # cs) \<Rightarrow> monitor_ProcessCandle ord now (last (c # cs)) m
     | _ \<Rightarrow>
        (case md_GetLatestPrice md (p_Symbol pos) of
           Some price \<Rightarrow> if Fin 0 < price then monitor_Update ord now (p_Symbol pos) price m else m
         | None \<Rightarrow> m))"

text \<open>The positions are read once, before the first of them is checked.\<close>

definition CheckAllPositions :: "string list \<Rightarrow> time \<Rightarrow> md_provider \<Rightarrow> position_monitor \<Rightarrow> position_monitor" where
  "CheckAllPositions ord now md m =
    foldl (check_position ord now md (default_str ''15m'' (mo_timeframe m))) m
      (GetOpenPositions ord (mo_broker m))"

definition ResetDaily :: "time \<Rightarrow> position_monitor \<Rightarrow> position_monitor" where
  "ResetDaily now m = m\<lparr>mo_broker := ResetDailyLoss (mo_broker m), mo_dailyResetAt := now\<rparr>"

definition monitor_IsHalted :: "position_monitor \<Rightarrow> bool" where
  "monitor_IsHalted m = pb_halted (mo_broker m)"

record monitor_status =
  ms_AccountState :: account_state
  ms_OpenPositions :: "position list"
  ms_OpenOrders :: "broker_order list"
  ms_DailyResetAt :: time

definition Status :: "string list \<Rightarrow> time \<Rightarrow> position_monitor \<Rightarrow> monitor_status" where
  "Status ord now m =
    \<lparr> ms_AccountState = GetAccountState now (mo_broker m), ms_OpenPositions = GetOpenPositions ord (mo_broker m),
      ms_OpenOrders = GetOpenOrders ord (mo_broker m), ms_DailyResetAt = mo_dailyResetAt m \<rparr>"

end
