(* ===== verification/MonitorSpec.thy ===== *)
theory MonitorSpec
  imports BrokerSpec Monitor
begin

text \<open>
  What the monitor does to the broker: the kill switch, the invariant of the broker under every monitor step,
  and what the candle check leaves out.
\<close>

section \<open>Steps\<close>

text \<open>The calls a scheduler makes on the monitor.\<close>

inductive monitor_step :: "position_monitor \<Rightarrow> position_monitor \<Rightarrow> bool" where
  step_update: "monitor_step m (monitor_Update ord now s x m)"
| step_candle: "monitor_step m (monitor_ProcessCandle ord now c m)"
| step_check: "monitor_step m (CheckAllPositions ord now md m)"
| step_reset: "monitor_step m (ResetDaily now m)"

lemma SetHalted_inv [simp]: "brk_inv S (SetHalted r pb) \<longleftrightarrow> brk_inv S pb"
  by (rule brk_inv_cong) (simp_all add: SetHalted_def)

lemma ResetDailyLoss_inv [simp]: "brk_inv S (ResetDailyLoss pb) \<longleftrightarrow> brk_inv S pb"
  by (rule brk_inv_cong) (simp_all add: ResetDailyLoss_def)

lemma checkKillSwitch_inv: "brk_inv {} (mo_broker m) \<Longrightarrow> brk_inv {} (mo_broker (checkKillSwitch ord now m))"
  by (simp add: checkKillSwitch_def brk_inv_EmergencyCloseAll)

lemma monitor_Update_inv: "brk_inv {} (mo_broker m) \<Longrightarrow> brk_inv {} (mo_broker (monitor_Update ord now s x m))"
  unfolding monitor_Update_def by (rule checkKillSwitch_inv) (simp add: brk_inv_UpdatePrice)

lemma monitor_ProcessCandle_inv:
  "brk_inv {} (mo_broker m) \<Longrightarrow> brk_inv {} (mo_broker (monitor_ProcessCandle ord now c m))"
  by (simp add: monitor_ProcessCandle_def brk_inv_ProcessCandle)

lemma check_position_inv:
  "brk_inv {} (mo_broker m) \<Longrightarrow> brk_inv {} (mo_broker (check_position ord now md tf m pos))"
  by (auto simp: check_position_def monitor_Update_inv monitor_ProcessCandle_inv split: option.split list.split)

lemma CheckAllPositions_inv:
  "brk_inv {} (mo_broker m) \<Longrightarrow> brk_inv {} (mo_broker (CheckAllPositions ord now md m))"
  unfolding CheckAllPositions_def
  by (rule foldl_invariant [where P = "\<lambda>m. brk_inv {} (mo_broker m)"]) (simp_all add: check_position_inv)

lemma monitor_step_inv: "monitor_step m m' \<Longrightarrow> brk_inv {} (mo_broker m) \<Longrightarrow> brk_inv {} (mo_broker m')"
  by (induction rule: monitor_step.induct)
    (simp_all add: monitor_Update_inv monitor_ProcessCandle_inv CheckAllPositions_inv ResetDaily_def)

lemma kill_switch_halts: "pb_halted (mo_broker m) \<Longrightarrow> pb_halted (mo_broker (checkKillSwitch ord now m))"
  using halt.R_EmergencyCloseAll by (auto simp: checkKillSwitch_def keeps_halt_def SetHalted_def)

lemma monitor_Update_halts: "pb_halted (mo_broker m) \<Longrightarrow> pb_halted (mo_broker (monitor_Update ord now s x m))"
  unfolding monitor_Update_def
  by (rule kill_switch_halts) (use halt.R_UpdatePrice in \<open>auto simp: keeps_halt_def\<close>)

lemma monitor_ProcessCandle_halted [simp]:
  "pb_halted (mo_broker (monitor_ProcessCandle ord now c m)) = pb_halted (mo_broker m)"
  using unhalted.R_ProcessCandle by (auto simp: monitor_ProcessCandle_def same_halt_def)

lemma check_position_halts:
  "pb_halted (mo_broker m) \<Longrightarrow> pb_halted (mo_broker (check_position ord now md tf m pos))"
  by (auto simp: check_position_def monitor_Update_halts split: option.split list.split)

lemma monitor_step_halted: "monitor_step m m' \<Longrightarrow> pb_halted (mo_broker m) \<Longrightarrow> pb_halted (mo_broker m')"
proof (induction rule: monitor_step.induct)
  case (step_check m ord now md)
  then show ?case
    unfolding CheckAllPositions_def
    by (intro foldl_invariant [where P = "\<lambda>m. pb_halted (mo_broker m)"]) (simp_all add: check_position_halts)
qed (simp_all add: monitor_Update_halts ResetDaily_def ResetDailyLoss_def)

section \<open>Kill switch\<close>

text \<open>
  C21: a price tick that leaves the losses of the day, realised and shown by the open positions, at or above
  the configured share of the equity halts the broker, closes every position, cancels every order and sends
  one alert; after any later sequence of monitor calls, daily resets included, the broker is still halted and
  every position has its stop. A tick below the limit only updates the price.
\<close>

theorem kill_switch_flattens:
  fixes m :: position_monitor and ord :: "string list" and now :: time and symbol :: string and price :: f64
  assumes "safe_reachable cfg (mo_broker m)"
  defines "pb1 \<equiv> UpdatePrice ord now symbol price (mo_broker m)"
  defines "m1 \<equiv> monitor_Update ord now symbol price m"
  shows "(loss_limit_reached (mo_cfg m) (GetAccountState now pb1) \<longrightarrow>
      pb_openPositions (mo_broker m1) = [] \<and> pb_openOrders (mo_broker m1) = [] \<and>
      mo_alerts m1 = append_if (mo_alertSvc m) (kill_switch_alert now) (mo_alerts m) \<and>
      (\<forall>m2. monitor_step\<^sup>*\<^sup>* m1 m2 \<longrightarrow> monitor_IsHalted m2 \<and> brk_inv {} (mo_broker m2))) \<and>
    (\<not> loss_limit_reached (mo_cfg m) (GetAccountState now pb1) \<longrightarrow> m1 = m\<lparr>mo_broker := pb1\<rparr>)"
proof (cases "loss_limit_reached (mo_cfg m) (GetAccountState now pb1)")
  case True
  let ?pb2 = "SetHalted ''daily_loss_kill_switch'' pb1"
  have m1: "mo_broker m1 = EmergencyCloseAll ord now ?pb2"
      "mo_alerts m1 = append_if (mo_alertSvc m) (kill_switch_alert now) (mo_alerts m)"
    using True by (simp_all add: m1_def pb1_def monitor_Update_def checkKillSwitch_def)
  have inv1: "brk_inv {} pb1" unfolding pb1_def by (intro brk_inv_UpdatePrice safe_reachable_inv [OF assms(1)])
  then have "positions_wf ?pb2" using brk_invD(2) by (auto simp: positions_wf_def SetHalted_def)
  then have "clearing ?pb2 (mo_broker m1)" "pb_openPositions (mo_broker m1) = []"
    unfolding m1 by (rule EmergencyCloseAll_clears)+
  moreover have h1: "monitor_IsHalted m1 \<and> brk_inv {} (mo_broker m1)"
    using halt.R_EmergencyCloseAll [of ?pb2 ord now] inv1
    by (simp add: monitor_IsHalted_def m1 keeps_halt_def brk_inv_EmergencyCloseAll, simp add: SetHalted_def)
  have "monitor_IsHalted m2 \<and> brk_inv {} (mo_broker m2)" if "monitor_step\<^sup>*\<^sup>* m1 m2" for m2
    using that h1
    by (induction rule: rtranclp_induct) (auto simp: monitor_IsHalted_def monitor_step_halted monitor_step_inv)
  ultimately show ?thesis using True m1(2) by (auto simp: clearing_def)
next
  case False
  then show ?thesis by (simp add: m1_def pb1_def monitor_Update_def checkKillSwitch_def)
qed


definition tight_limits :: portfolio_risk_config where
  "tight_limits =
    \<lparr> pr_MaxOpenPositions = 3, pr_MaxNewPositionsPerCycle = 2, pr_MaxTotalExposureUSD = Fin 5000,
      pr_MaxTotalMarginUsedPct = Fin 50, pr_MaxRiskPerTradePct = Fin 1, pr_MaxDailyLossPct = Fin 3,
      pr_MaxSameDirectionPositions = 2, pr_MaxCorrelatedAltPositions = 1, pr_MaxPerSymbolPosition = 1,
      pr_MarginPerTradeUSD = Fin 50, pr_MaxLeverage = Fin 5, pr_MinNotionalUSD = Fin 5,
      pr_CooldownAfterLosses = \<lparr> cd_Enabled = True, cd_ConsecutiveLosses = 3, cd_CooldownMinutes = 60 \<rparr>,
      pr_PerSymbolSLCooldown = \<lparr> ps_Enabled = True, ps_CooldownMinutes = 60 \<rparr> \<rparr>"

definition watched :: position_monitor where
  "watched = SetAlertService (NewMonitor demo_open tight_limits)"

lemma watched_broker [simp]: "mo_broker watched = demo_open"
  by (simp add: watched_def SetAlertService_def NewMonitor_def)

theorem kill_switch_flattens_witness:
  "pb_openPositions (mo_broker (monitor_Update [] 1 ''BTCUSDT'' (Fin 91) watched)) = [] \<and>
   monitor_IsHalted (ResetDaily 2 (monitor_Update [] 1 ''BTCUSDT'' (Fin 91) watched))"
proof -
  have "loss_limit_reached (mo_cfg watched) (GetAccountState 1 (UpdatePrice [] 1 ''BTCUSDT'' (Fin 91) (mo_broker watched)))"
    unfolding watched_broker by code_simp
  with kill_switch_flattens [of demo_cfg watched 1 "[]" "''BTCUSDT''" "Fin 91"] demo_open_reachable step_reset
  show ?thesis by auto
qed

section \<open>The candle check\<close>

lemma check_position_candle:
  assumes "\<exists>c cs. md_GetCandles md (p_Symbol pos) tf 1 = Some (c # cs)"
  shows "pb_halted (mo_broker (check_position ord now md tf m pos)) = pb_halted (mo_broker m) \<and>
    mo_alerts (check_position ord now md tf m pos) = mo_alerts m"
  using assms by (auto simp: check_position_def simp del: last.simps) (simp add: monitor_ProcessCandle_def)

lemma check_positions_candles:
  assumes "\<forall>pos\<in>set ps. \<exists>c cs. md_GetCandles md (p_Symbol pos) tf 1 = Some (c # cs)"
  shows "pb_halted (mo_broker (foldl (check_position ord now md tf) m ps)) = pb_halted (mo_broker m) \<and>
    mo_alerts (foldl (check_position ord now md tf) m ps) = mo_alerts m"
  using assms by (induction ps arbitrary: m) (simp_all add: check_position_candle)

text \<open>
  The check of all positions, the only monitor call of the scheduler's loop, never evaluates the kill switch
  while the provider answers with candles: whatever the losses are, the broker is not halted and no alert is
  sent.
\<close>

theorem candle_check_skips_kill_switch:
  assumes "\<forall>pos\<in>set (GetOpenPositions ord (mo_broker m)).
      \<exists>c cs. md_GetCandles md (p_Symbol pos) (default_str ''15m'' (mo_timeframe m)) 1 = Some (c # cs)"
  shows "monitor_IsHalted (CheckAllPositions ord now md m) = monitor_IsHalted m \<and>
    mo_alerts (CheckAllPositions ord now md m) = mo_alerts m"
  unfolding CheckAllPositions_def monitor_IsHalted_def by (rule check_positions_candles [OF assms])


definition flat_candle :: candle where
  "flat_candle = \<lparr> c_Symbol = ''BTCUSDT'', c_Timeframe = ''15m'', c_OpenTime = 1, c_Open = Fin 91, c_High = Fin 92,
     c_Low = Fin 91, c_Close = Fin 91, c_Volume = Fin 1, c_TurnOver = Fin 0, c_Confirmed = True \<rparr>"

definition candle_feed :: md_provider where
  "candle_feed = \<lparr> md_GetCandles = \<lambda>symbol tf n. Some [flat_candle], md_GetLatestPrice = \<lambda>symbol. Some (Fin 91) \<rparr>"

theorem candle_check_skips_kill_switch_witness:
  "loss_limit_reached (mo_cfg watched)
     (GetAccountState 1 (UpdatePrice [] 1 ''BTCUSDT'' (Fin 91) (mo_broker watched))) \<and>
   \<not> monitor_IsHalted (CheckAllPositions [] 1 candle_feed watched)"
proof
  show "loss_limit_reached (mo_cfg watched)
      (GetAccountState 1 (UpdatePrice [] 1 ''BTCUSDT'' (Fin 91) (mo_broker watched)))"
    unfolding watched_broker by code_simp
  have "\<not> pb_halted demo_open" by code_simp
  then show "\<not> monitor_IsHalted (CheckAllPositions [] 1 candle_feed watched)"
    using candle_check_skips_kill_switch [of "[]" watched candle_feed 1]
    by (simp add: candle_feed_def monitor_IsHalted_def)
qed

end
