(* ===== verification/Executor.thy ===== *)
theory Executor
  imports Broker Safety Risk
begin

text \<open>
  The executor (\<open>internal/executor/executor.go\<close>): logging a validated order plan, and placing an approved
  candidate through the broker interface, which the model takes as a record of the two methods it calls.
  A nil pointer dereference is the value \<open>None\<close>.
\<close>

section \<open>Data\<close>

datatype executor_error =
    RiskNotApproved
  | SafetyFailed "reason list"
  | InvalidQuantity f64
  | EntryTypeMismatch
  | PlaceOrderFailed broker_error

datatype executor_action =
    PlanLogged order_plan
  | PlacedOrder order_type string

record execution_result =
  er_Symbol :: string
  er_Success :: bool
  er_OrderID :: string
  er_Error :: "executor_error option"
  er_Actions :: "executor_action list"

definition execution_for :: "string \<Rightarrow> execution_result" where
  "execution_for symbol =
    \<lparr> er_Symbol = symbol, er_Success = False, er_OrderID = '''', er_Error = None, er_Actions = [] \<rparr>"

section \<open>Order plans\<close>

definition ExecutePlan :: "risk_validation_result \<Rightarrow> execution_safety_result \<Rightarrow> execution_result option" where
  "ExecutePlan r safety =
    (case rv_OrderPlan r of
       None \<Rightarrow> None
     | Some plan \<Rightarrow>
         Some
          (let res = execution_for (op_Symbol plan)
           in if \<not> rv_Approved r then res\<lparr>er_Error := Some RiskNotApproved\<rparr>
              else if \<not> es_Safe safety then res\<lparr>er_Error := Some (SafetyFailed (es_Reasons safety))\<rparr>
              else res\<lparr>er_Success := True, er_Actions := [PlanLogged plan]\<rparr>))"

section \<open>Candidates\<close>

record 's trading_broker =
  tb_PlaceOrder :: "order_request \<Rightarrow> 's \<Rightarrow> 's \<times> broker_order \<times> broker_error option"
  tb_SetSymbolPrice :: "string \<Rightarrow> f64 \<Rightarrow> 's \<Rightarrow> 's"

definition order_quantity :: "candidate \<Rightarrow> validate_output \<Rightarrow> f64" where
  "order_quantity c out = vo_FinalPositionNotional out / t_ProposedEntry c"

definition candidate_request :: "candidate \<Rightarrow> f64 \<Rightarrow> order_request" where
  "candidate_request c qty =
    \<lparr> rq_Symbol = t_Symbol c, rq_Side = (if t_Side c = SideShort then OrderSideSell else OrderSideBuy),
      rq_OrderType = (if t_EntryType c = EntryTypeLimitRetest then OrderTypeLimit else OrderTypeMarket),
      rq_Qty = qty,
      rq_Price = (if t_EntryType c = EntryTypeLimitRetest then Some (t_ProposedEntry c) else None),
      rq_StopPrice = None, rq_ReduceOnly = False, rq_StopLoss = t_ProposedStopLoss c,
      rq_TakeProfit = t_ProposedTakeProfit c \<rparr>"

definition Execute ::
  "'s trading_broker \<Rightarrow> candidate \<Rightarrow> llm_decision \<Rightarrow> validate_output \<Rightarrow> f64 \<Rightarrow> 's \<Rightarrow> 's \<times> execution_result" where
  "Execute B c d out marketPrice s =
    (let res = execution_for (t_Symbol c);
         qty = order_quantity c out
     in if not_finite qty \<or> qty \<le> Fin 0 then (s, res\<lparr>er_Error := Some (InvalidQuantity qty)\<rparr>)
        else if t_EntryType c = EntryTypeLimitRetest \<and> ld_Decision d = ''ALLOW_MARKET'' then
          (s, res\<lparr>er_Error := Some EntryTypeMismatch\<rparr>)
        else
          let s1 = (if Fin 0 < marketPrice then tb_SetSymbolPrice B (t_Symbol c) marketPrice s else s);
              req = candidate_request c qty
          in case tb_PlaceOrder B req s1 of
               (s2, order, Some e) \<Rightarrow> (s2, res\<lparr>er_Error := Some (PlaceOrderFailed e)\<rparr>)
             | (s2, order, None) \<Rightarrow>
                 (s2, res\<lparr>er_Success := True, er_OrderID := o_BrokerOrderID order,
                        er_Actions := [PlacedOrder (rq_OrderType req) (o_BrokerOrderID order)]\<rparr>))"

text \<open>The paper broker behind the interface.\<close>

definition paper_trading :: "string list \<Rightarrow> time \<Rightarrow> paper_broker trading_broker" where
  "paper_trading ord now = \<lparr> tb_PlaceOrder = PlaceOrder ord now, tb_SetSymbolPrice = SetSymbolPrice \<rparr>"

end
