(* ===== verification/ExecutorSpec.thy ===== *)
theory ExecutorSpec
  imports BrokerSpec RiskSpec Executor
begin

text \<open>
  What an execution does to the broker behind the interface: stated for any broker that keeps the contract of
  \<open>entry_broker\<close>, and used for the paper broker, which keeps it.
\<close>

section \<open>The contract of the broker\<close>


section \<open>The paper broker keeps the contract\<close>







section \<open>Executing a candidate\<close>










section \<open>Logging a plan\<close>

text \<open>
  For a validated candidate the executor reports success exactly when the validation approved it and the
  execution is safe; a candidate rejected before sizing has no plan, and on it the executor fails with a nil
  dereference instead of reporting the rejection.
\<close>

theorem plan_execution_of_validated:
  fixes i :: candidate_risk_input and safety :: execution_safety_result and now :: time and ucfg :: user_config
  defines "v \<equiv> ValidateCandidate ucfg now i"
  shows "(rv_Approved v \<longrightarrow> (\<exists>r. ExecutePlan v safety = Some r \<and> er_Success r = es_Safe safety)) \<and>
    (candidate_error i \<noteq> None \<longrightarrow> \<not> rv_Approved v \<and> ExecutePlan v safety = None) \<and>
    (\<forall>r. ExecutePlan v safety = Some r \<longrightarrow> er_Success r = (rv_Approved v \<and> es_Safe safety))"
proof (intro conjI impI allI)
  assume a: "rv_Approved v"
  then obtain plan where "rv_OrderPlan v = Some plan"
    unfolding v_def by (blast elim: ValidateCandidate_approved)
  with a show "\<exists>r. ExecutePlan v safety = Some r \<and> er_Success r = es_Safe safety"
    by (simp add: ExecutePlan_def execution_for_def Let_def)
next
  assume "candidate_error i \<noteq> None"
  then show "\<not> rv_Approved v" "ExecutePlan v safety = None"
    by (auto simp: v_def ValidateCandidate_def ExecutePlan_def rejected_candidate_result_def Let_def)
next
  fix r assume "ExecutePlan v safety = Some r"
  then show "er_Success r = (rv_Approved v \<and> es_Safe safety)"
    by (auto simp: ExecutePlan_def execution_for_def Let_def split: option.splits if_splits)
qed

theorem plan_execution_of_validated_witness:
  "ExecutePlan (ValidateCandidate fee_free_config 9 (demo_risk_input (Fin 0) (Fin 90)))
     \<lparr> es_Safe = True, es_FailedChecks = [], es_Reasons = [], es_RecommendedAction = ''proceed'' \<rparr> = None"
proof -
  have "candidate_error (demo_risk_input (Fin 0) (Fin 90)) \<noteq> None" by code_simp
  with plan_execution_of_validated [where i = "demo_risk_input (Fin 0) (Fin 90)" and ucfg = fee_free_config and now = 9]
  show ?thesis by blast
qed

end
