(* ===== verification/Metrics.thy ===== *)
theory Metrics
  imports Simulator Shadow
begin

text \<open>
  The performance figures of paper trading (\<open>internal/metrics/paper.go\<close>). The repositories are the interface
  records of the simulator and the tracker; \<open>tz\<close> is the offset of the local time zone, of which
  \<open>periodStart\<close> reads the calendar date.
\<close>

section \<open>Data\<close>

record sub_metrics =
  sm_TotalTrades :: int
  sm_Wins :: int
  sm_Losses :: int
  sm_WinRate :: f64
  sm_ProfitFactor :: f64
  sm_Expectancy :: f64
  sm_AvgWinR :: f64
  sm_AvgLossR :: f64

record paper_metrics =
  pm_Period :: string
  pm_TotalTrades :: int
  pm_Wins :: int
  pm_Losses :: int
  pm_WinRate :: f64
  pm_ProfitFactor :: f64
  pm_Expectancy :: f64
  pm_AvgWinR :: f64
  pm_AvgLossR :: f64
  pm_MaxDrawdownPct :: f64
  pm_MaxConsecutiveLosses :: int
  pm_TradeFreqPerDay :: f64
  pm_ByStrategy :: "sub_metrics gomap"
  pm_BySide :: "sub_metrics gomap"
  pm_RejectedButWouldHaveWon :: int
  pm_RejectedCorrectly :: int
  pm_RejectionAccuracyPct :: f64

datatype metrics_error = GetPaperTrades db_error | GetOutcomes db_error

definition empty_metrics :: "string \<Rightarrow> paper_metrics" where
  "empty_metrics period =
    \<lparr> pm_Period = period, pm_TotalTrades = 0, pm_Wins = 0, pm_Losses = 0, pm_WinRate = Fin 0, pm_ProfitFactor = Fin 0,
      pm_Expectancy = Fin 0, pm_AvgWinR = Fin 0, pm_AvgLossR = Fin 0, pm_MaxDrawdownPct = Fin 0,
      pm_MaxConsecutiveLosses = 0, pm_TradeFreqPerDay = Fin 0, pm_ByStrategy = [], pm_BySide = [],
      pm_RejectedButWouldHaveWon = 0, pm_RejectedCorrectly = 0, pm_RejectionAccuracyPct = Fin 0 \<rparr>"

section \<open>Periods\<close>

definition hours :: "int \<Rightarrow> duration" where
  "hours n = minutes (60 * n)"

definition duration_Hours :: "duration \<Rightarrow> f64" where
  "duration_Hours d = (let (h, r) = quot_rem d (hours 1) in f64_of_int h + f64_of_int r / Fin 3600000000000)"

text \<open>The midnight of the local date, but in UTC.\<close>

definition periodStart :: "duration \<Rightarrow> time \<Rightarrow> string \<Rightarrow> time" where
  "periodStart tz now period =
    (if period = ''today'' then (now + tz) - (now + tz) mod hours 24
     else if period = ''week'' then now - hours (7 * 24)
     else zero_time)"

definition days_between :: "time \<Rightarrow> time \<Rightarrow> f64" where
  "days_between now from =
    (let d = duration_Hours (time_sub now from) / Fin 24 in if d \<le> Fin 0 then Fin 1 else d)"

section \<open>The tally of the trades\<close>

record tally =
  ty_wins :: int
  ty_losses :: int
  ty_grossWins :: f64
  ty_grossLosses :: f64
  ty_totalWinR :: f64
  ty_totalLossR :: f64
  ty_winRCount :: int
  ty_lossRCount :: int
  ty_maxConsec :: int
  ty_currentConsec :: int
  ty_equity :: "f64 list"
  ty_cumEquity :: f64
  ty_peak :: f64

definition zero_tally :: tally where
  "zero_tally =
    \<lparr> ty_wins = 0, ty_losses = 0, ty_grossWins = Fin 0, ty_grossLosses = Fin 0, ty_totalWinR = Fin 0,
      ty_totalLossR = Fin 0, ty_winRCount = 0, ty_lossRCount = 0, ty_maxConsec = 0, ty_currentConsec = 0,
      ty_equity = [], ty_cumEquity = Fin 0, ty_peak = Fin 0 \<rparr>"

definition tally_R :: "f64 \<Rightarrow> f64 option \<Rightarrow> tally \<Rightarrow> tally" where
  "tally_R pnl rm y =
    (case rm of
       None \<Rightarrow> y
     | Some r \<Rightarrow>
         if Fin 0 < pnl then y\<lparr>ty_totalWinR := ty_totalWinR y + r, ty_winRCount := ty_winRCount y + 1\<rparr>
         else y\<lparr>ty_totalLossR := ty_totalLossR y + r, ty_lossRCount := ty_lossRCount y + 1\<rparr>)"

definition tally_result :: "f64 \<Rightarrow> tally \<Rightarrow> tally" where
  "tally_result pnl y =
    (if Fin 0 < pnl then
       y\<lparr>ty_wins := ty_wins y + 1, ty_grossWins := ty_grossWins y + pnl, ty_currentConsec := 0\<rparr>
     else
       y\<lparr>ty_losses := ty_losses y + 1, ty_grossLosses := ty_grossLosses y + \<bar>pnl\<bar>,
         ty_currentConsec := ty_currentConsec y + 1,
         ty_maxConsec := max (ty_maxConsec y) (ty_currentConsec y + 1)\<rparr>)"

definition tally_equity :: "f64 \<Rightarrow> tally \<Rightarrow> tally" where
  "tally_equity cum y =
    y\<lparr>ty_cumEquity := cum, ty_equity := ty_equity y @ [cum], ty_peak := (if ty_peak y < cum then cum else ty_peak y)\<rparr>"

definition tally_trade :: "tally \<Rightarrow> paper_trade \<Rightarrow> tally" where
  "tally_trade y t =
    (case tr_PnLNet t of
       None \<Rightarrow> y
     | Some pnl \<Rightarrow> tally_equity (ty_cumEquity y + pnl) (tally_result pnl (tally_R pnl (tr_RMultiple t) y)))"

section \<open>Figures\<close>

definition profit_factor :: "f64 \<Rightarrow> f64 \<Rightarrow> f64" where
  "profit_factor wins losses =
    (if Fin 0 < losses then wins / losses else if Fin 0 < wins then PInf else Fin 0)"

definition average :: "f64 \<Rightarrow> int \<Rightarrow> f64" where
  "average x n = (if 0 < n then x / f64_of_int n else Fin 0)"

definition percentage :: "int \<Rightarrow> int \<Rightarrow> f64" where
  "percentage k n = (if 0 < n then f64_of_int k / f64_of_int n * Fin 100 else Fin 0)"

text \<open>The loop over the equity points; \<open>peak\<close> starts at the peak of the whole series.\<close>

definition drawdown_step :: "f64 \<times> f64 \<Rightarrow> f64 \<Rightarrow> f64 \<times> f64" where
  "drawdown_step st eq =
    (let (peak, dd) = st; peak' = (if peak < eq then eq else peak); d = peak' - eq
     in (peak', if dd < d then d else dd))"

definition max_drawdown_pct :: "f64 \<Rightarrow> f64 list \<Rightarrow> f64 \<Rightarrow> f64" where
  "max_drawdown_pct peak equity cum =
    (let dd = snd (foldl drawdown_step (peak, Fin 0) equity)
     in if Fin 0 < cum \<and> Fin 0 < dd then dd / cum * Fin 100 else Fin 0)"

definition sub_step :: "tally \<Rightarrow> f64 \<Rightarrow> tally" where
  "sub_step y p = tally_R p (Some p) (tally_result p y)"

definition computeSubMetrics :: "f64 list \<Rightarrow> sub_metrics" where
  "computeSubMetrics ps =
    (let y = foldl sub_step zero_tally ps; n = int (length ps)
     in \<lparr> sm_TotalTrades = n, sm_Wins = ty_wins y, sm_Losses = ty_losses y, sm_WinRate = percentage (ty_wins y) n,
          sm_ProfitFactor = profit_factor (ty_grossWins y) (ty_grossLosses y),
          sm_Expectancy = average (ty_grossWins y - ty_grossLosses y) n,
          sm_AvgWinR = average (ty_totalWinR y) (ty_winRCount y),
          sm_AvgLossR = average (ty_totalLossR y) (ty_lossRCount y) \<rparr>)"

primrec side_text :: "side \<Rightarrow> string" where
  "side_text SideLong = ''LONG''"
| "side_text SideShort = ''SHORT''"
| "side_text (OtherSide s) = s"

definition group_side :: "f64 list gomap \<Rightarrow> paper_trade \<Rightarrow> f64 list gomap" where
  "group_side m t =
    (case tr_RMultiple t of
       None \<Rightarrow> m
     | Some r \<Rightarrow>
         let k = side_text (tr_Side t)
         in AList.update k ((case map_of m k of None \<Rightarrow> [] | Some rs \<Rightarrow> rs) @ [r]) m)"

definition by_side :: "paper_trade list \<Rightarrow> sub_metrics gomap" where
  "by_side ts = map (\<lambda>(k, rs). (k, computeSubMetrics rs)) (foldl group_side [] ts)"

definition count_outcome :: "string list \<Rightarrow> candidate_outcome list \<Rightarrow> int" where
  "count_outcome codes os = int (length (filter (\<lambda>c. co_WouldHaveOutcome c \<in> set codes) os))"

definition metrics_of :: "string \<Rightarrow> time \<Rightarrow> time \<Rightarrow> paper_trade list \<Rightarrow> candidate_outcome list \<Rightarrow> paper_metrics" where
  "metrics_of period from now trades outcomes =
    (let n = int (length trades)
     in if trades = [] then empty_metrics period
        else
          let y = foldl tally_trade zero_tally trades;
              won = count_outcome [''tp1_hit'', ''tp2_hit''] outcomes;
              correct = count_outcome [''sl_hit''] outcomes
          in \<lparr> pm_Period = period, pm_TotalTrades = n, pm_Wins = ty_wins y, pm_Losses = ty_losses y,
               pm_WinRate = percentage (ty_wins y) (ty_wins y + ty_losses y),
               pm_ProfitFactor = profit_factor (ty_grossWins y) (ty_grossLosses y),
               pm_Expectancy = ty_cumEquity y / f64_of_int n,
               pm_AvgWinR = average (ty_totalWinR y) (ty_winRCount y),
               pm_AvgLossR = average (ty_totalLossR y) (ty_lossRCount y),
               pm_MaxDrawdownPct = max_drawdown_pct (ty_peak y) (ty_equity y) (ty_cumEquity y),
               pm_MaxConsecutiveLosses = ty_maxConsec y,
               pm_TradeFreqPerDay = f64_of_int n / days_between now from,
               pm_ByStrategy = [], pm_BySide = by_side trades,
               pm_RejectedButWouldHaveWon = won, pm_RejectedCorrectly = correct,
               pm_RejectionAccuracyPct = percentage correct (won + correct) \<rparr>)"

text \<open>The queries of the two repositories; a missing repository is \<open>None\<close> and gives no rows.\<close>

definition rows_or_none :: "(time \<Rightarrow> 's \<Rightarrow> 's \<times> (db_error + 'r list)) option \<Rightarrow> time \<Rightarrow> 's \<Rightarrow> 's \<times> (db_error + 'r list)" where
  "rows_or_none repo from s = (case repo of None \<Rightarrow> (s, Inr []) | Some get \<Rightarrow> get from s)"

definition ComputePaperMetrics ::
  "(time \<Rightarrow> 's \<Rightarrow> 's \<times> (db_error + paper_trade list)) option
   \<Rightarrow> (time \<Rightarrow> 's \<Rightarrow> 's \<times> (db_error + candidate_outcome list)) option
   \<Rightarrow> duration \<Rightarrow> time \<Rightarrow> string \<Rightarrow> 's \<Rightarrow> 's \<times> (metrics_error + paper_metrics)" where
  "ComputePaperMetrics tradeRepo outcomeRepo tz now period s =
    (let from = periodStart tz now period
     in case rows_or_none tradeRepo from s of
          (s1, Inl e) \<Rightarrow> (s1, Inl (GetPaperTrades e))
        | (s1, Inr trades) \<Rightarrow>
            (case rows_or_none outcomeRepo from s1 of
               (s2, Inl e) \<Rightarrow> (s2, Inl (GetOutcomes e))
             | (s2, Inr outcomes) \<Rightarrow> (s2, Inr (metrics_of period from now trades outcomes))))"

end
