(* ===== verification/MetricsSpec.thy ===== *)
theory MetricsSpec
  imports Metrics
begin

text \<open>
  What the figures of paper trading say about the trades they are computed from, and where they do not.
\<close>

section \<open>Counts\<close>

definition losing :: "paper_trade \<Rightarrow> bool" where
  "losing t \<longleftrightarrow> (case tr_PnLNet t of None \<Rightarrow> False | Some p \<Rightarrow> \<not> Fin 0 < p)"

definition winning :: "paper_trade \<Rightarrow> bool" where
  "winning t \<longleftrightarrow> (case tr_PnLNet t of None \<Rightarrow> False | Some p \<Rightarrow> Fin 0 < p)"

abbreviation tally_of :: "paper_trade list \<Rightarrow> tally" where
  "tally_of ts \<equiv> foldl tally_trade zero_tally ts"

lemma tally_sel [simp]:
  "ty_wins (tally_equity c y) = ty_wins y" "ty_losses (tally_equity c y) = ty_losses y"
  "ty_maxConsec (tally_equity c y) = ty_maxConsec y" "ty_currentConsec (tally_equity c y) = ty_currentConsec y"
  "ty_wins (tally_R p rm y) = ty_wins y" "ty_losses (tally_R p rm y) = ty_losses y"
  "ty_maxConsec (tally_R p rm y) = ty_maxConsec y" "ty_currentConsec (tally_R p rm y) = ty_currentConsec y"
  "ty_cumEquity (tally_R p rm y) = ty_cumEquity y" "ty_equity (tally_R p rm y) = ty_equity y"
  "ty_peak (tally_R p rm y) = ty_peak y"
  "ty_cumEquity (tally_result p y) = ty_cumEquity y" "ty_equity (tally_result p y) = ty_equity y"
  "ty_peak (tally_result p y) = ty_peak y"
  by (simp_all add: tally_equity_def tally_R_def tally_result_def split: option.split)

lemma tally_counts:
  "ty_wins (tally_of ts) = int (length (filter winning ts)) \<and>
   ty_losses (tally_of ts) = int (length (filter losing ts))"
  by (induction ts rule: rev_induct)
    (auto simp: zero_tally_def tally_trade_def tally_result_def winning_def losing_def split: option.split)

text \<open>A run of losing trades at the end, and anywhere.\<close>

definition run_at_end :: "paper_trade list \<Rightarrow> nat \<Rightarrow> bool" where
  "run_at_end ts n \<longleftrightarrow> (\<exists>as bs. ts = as @ bs \<and> length bs = n \<and> (\<forall>t\<in>set bs. losing t))"

definition run_in :: "paper_trade list \<Rightarrow> nat \<Rightarrow> bool" where
  "run_in ts n \<longleftrightarrow> (\<exists>as bs cs. ts = as @ bs @ cs \<and> length bs = n \<and> (\<forall>t\<in>set bs. losing t))"

lemma run_at_end_0 [simp]: "run_at_end ts 0" and run_in_0 [simp]: "run_in ts 0"
  unfolding run_at_end_def run_in_def by fastforce+

lemma run_at_end_snoc: "run_at_end (ts @ [t]) (Suc n) \<longleftrightarrow> losing t \<and> run_at_end ts n"
proof
  assume "run_at_end (ts @ [t]) (Suc n)"
  then obtain as bs where "ts @ [t] = as @ bs" "length bs = Suc n" "\<forall>t\<in>set bs. losing t"
    unfolding run_at_end_def by blast
  then show "losing t \<and> run_at_end ts n"
    unfolding run_at_end_def by (cases bs rule: rev_cases) auto
next
  assume "losing t \<and> run_at_end ts n"
  then obtain as bs where "ts = as @ bs" "length bs = n" "\<forall>t\<in>set bs. losing t" "losing t"
    unfolding run_at_end_def by blast
  then show "run_at_end (ts @ [t]) (Suc n)"
    unfolding run_at_end_def by (intro exI [of _ as] exI [of _ "bs @ [t]"]) auto
qed

lemma run_in_snoc: "run_in (ts @ [t]) n \<longleftrightarrow> run_in ts n \<or> run_at_end (ts @ [t]) n"
proof
  assume "run_in (ts @ [t]) n"
  then obtain as bs cs where e: "ts @ [t] = as @ bs @ cs" "length bs = n" "\<forall>t\<in>set bs. losing t"
    unfolding run_in_def by blast
  show "run_in ts n \<or> run_at_end (ts @ [t]) n"
  proof (cases cs rule: rev_cases)
    case Nil
    with e show ?thesis unfolding run_at_end_def by auto
  next
    case (snoc cs' c)
    with e have "ts = as @ bs @ cs'" by simp
    with e show ?thesis unfolding run_in_def by blast
  qed
next
  assume "run_in ts n \<or> run_at_end (ts @ [t]) n"
  then show "run_in (ts @ [t]) n"
  proof
    assume "run_in ts n"
    then obtain as bs cs where "ts = as @ bs @ cs" "length bs = n" "\<forall>t\<in>set bs. losing t"
      unfolding run_in_def by blast
    then show ?thesis unfolding run_in_def by (intro exI [of _ as] exI [of _ bs] exI [of _ "cs @ [t]"]) simp
  next
    assume "run_at_end (ts @ [t]) n"
    then obtain as bs where "ts @ [t] = as @ bs @ []" "length bs = n" "\<forall>t\<in>set bs. losing t"
      unfolding run_at_end_def by auto
    then show ?thesis unfolding run_in_def by blast
  qed
qed

lemma tally_runs:
  assumes "\<forall>t\<in>set ts. tr_PnLNet t \<noteq> None"
  shows "0 \<le> ty_currentConsec (tally_of ts) \<and> (\<forall>n. int n \<le> ty_currentConsec (tally_of ts) \<longleftrightarrow> run_at_end ts n) \<and>
    (\<forall>n. int n \<le> ty_maxConsec (tally_of ts) \<longleftrightarrow> run_in ts n)"
  using assms
proof (induction ts rule: rev_induct)
  case Nil
  show ?case by (simp add: zero_tally_def run_at_end_def run_in_def)
next
  case (snoc t ts)
  then obtain p where p: "tr_PnLNet t = Some p" by auto
  have IH: "0 \<le> ty_currentConsec (tally_of ts)"
    "\<And>n. int n \<le> ty_currentConsec (tally_of ts) \<longleftrightarrow> run_at_end ts n"
    "\<And>n. int n \<le> ty_maxConsec (tally_of ts) \<longleftrightarrow> run_in ts n"
    using snoc by auto
  have lose: "losing t \<longleftrightarrow> \<not> Fin 0 < p" by (simp add: losing_def p)
  have cur: "ty_currentConsec (tally_of (ts @ [t])) = (if losing t then ty_currentConsec (tally_of ts) + 1 else 0)"
    by (simp add: tally_trade_def p tally_result_def lose)
  have e: "int n \<le> ty_currentConsec (tally_of (ts @ [t])) \<longleftrightarrow> run_at_end (ts @ [t]) n" for n
  proof (cases n)
    case (Suc k)
    then show ?thesis unfolding cur Suc run_at_end_snoc using IH(1) IH(2) [of k] by auto
  qed (use IH(1) in \<open>simp add: cur del: foldl_append\<close>)
  have m: "ty_maxConsec (tally_of (ts @ [t])) = max (ty_maxConsec (tally_of ts)) (ty_currentConsec (tally_of (ts @ [t])))
      \<or> \<not> losing t \<and> ty_maxConsec (tally_of (ts @ [t])) = ty_maxConsec (tally_of ts)"
    unfolding cur by (simp add: tally_trade_def p tally_result_def lose)
  have "int n \<le> ty_maxConsec (tally_of (ts @ [t])) \<longleftrightarrow> run_in (ts @ [t]) n" for n
    using m e [of n] IH(3) [of n]
    by (cases n) (auto simp: run_in_snoc run_at_end_snoc le_max_iff_disj simp del: foldl_append of_nat_Suc)
  with e IH(1) show ?case by (simp add: cur del: foldl_append)
qed

lemma percentage_range:
  assumes "0 \<le> k" "k \<le> n" "n < 2 ^ 53"
  shows "Fin 0 \<le> percentage k n \<and> percentage k n \<le> Fin 100"
proof (cases "0 < n")
  case True
  have ex: "f64_of_int k = Fin (of_int k)" "f64_of_int n = Fin (of_int n)"
    using assms repr_of_int [of k] repr_of_int [of n] by (simp_all add: f64_of_int_def rnd_exact)
  have r: "repr 100" using repr_of_int [of 100] by simp
  show ?thesis
  proof (cases "k = 0")
    case True
    then show ?thesis using \<open>0 < n\<close> ex by (simp add: percentage_def divide_Fin zero_of_def times_Fin)
  next
    case False
    then have q: "0 < (of_int k / of_int n :: rat)" "of_int k / of_int n \<le> (1 :: rat)"
      using assms True by (simp_all add: divide_simps)
    then have "Fin 0 \<le> rnd (of_int k / of_int n)" "rnd (of_int k / of_int n) \<le> Fin 1"
      by (simp_all add: rnd_ge rnd_le)
    then have "Fin 0 \<le> rnd (of_int k / of_int n) * Fin 100 \<and> rnd (of_int k / of_int n) * Fin 100 \<le> Fin 100"
      by (cases "rnd (of_int k / of_int n)") (auto simp: times_f64_def zero_of_def r intro!: rnd_ge rnd_le)
    then show ?thesis using True False ex by (simp add: percentage_def divide_Fin)
  qed
qed (simp add: percentage_def)

text \<open>Trades that are still open carry no result, and the loop passes over them.\<close>

definition has_result :: "paper_trade \<Rightarrow> bool" where
  "has_result t \<longleftrightarrow> tr_PnLNet t \<noteq> None"

lemma tally_closed: "tally_of (filter has_result ts) = tally_of ts"
  by (induction ts rule: rev_induct) (auto simp: has_result_def tally_trade_def)

lemma winning_closed: "winning t \<Longrightarrow> has_result t" and losing_closed: "losing t \<Longrightarrow> has_result t"
  by (auto simp: winning_def losing_def has_result_def split: option.splits)

text \<open>The sums a report is made of, in the order of the trades.\<close>

definition net_result :: "paper_trade \<Rightarrow> f64" where
  "net_result t = (case tr_PnLNet t of None \<Rightarrow> Fin 0 | Some p \<Rightarrow> p)"

definition sum_of :: "f64 list \<Rightarrow> f64" where
  "sum_of xs = foldl (+) (Fin 0) xs"

definition r_multiples :: "paper_trade list \<Rightarrow> f64 list" where
  "r_multiples ts = concat (map (\<lambda>t. case tr_RMultiple t of None \<Rightarrow> [] | Some r \<Rightarrow> [r]) ts)"

lemma tally_sums:
  "ty_cumEquity (tally_of ts) = sum_of (map net_result (filter has_result ts)) \<and>
   ty_grossWins (tally_of ts) = sum_of (map net_result (filter winning ts)) \<and>
   ty_grossLosses (tally_of ts) = sum_of (map (\<lambda>t. \<bar>net_result t\<bar>) (filter losing ts))"
  by (induction ts rule: rev_induct)
    (auto simp: zero_tally_def tally_trade_def tally_result_def tally_R_def tally_equity_def winning_def losing_def
      has_result_def net_result_def sum_of_def split: option.split)

lemma tally_multiples:
  "ty_totalWinR (tally_of ts) = sum_of (r_multiples (filter winning ts)) \<and>
   ty_winRCount (tally_of ts) = int (length (r_multiples (filter winning ts))) \<and>
   ty_totalLossR (tally_of ts) = sum_of (r_multiples (filter losing ts)) \<and>
   ty_lossRCount (tally_of ts) = int (length (r_multiples (filter losing ts)))"
  by (induction ts rule: rev_induct)
    (auto simp: zero_tally_def tally_trade_def tally_result_def tally_R_def tally_equity_def winning_def losing_def
      r_multiples_def sum_of_def split: option.split)

definition mean_of :: "f64 list \<Rightarrow> f64" where
  "mean_of xs = (if xs = [] then Fin 0 else sum_of xs / f64_of_int (int (length xs)))"

lemma average_mean: "average (sum_of xs) (int (length xs)) = mean_of xs"
  by (simp add: average_def mean_of_def)

text \<open>
  C23: in the report on any non-empty list of trades, open ones included, the wins and the losses are the numbers of
  the closed trades with a positive and with another result, which together are the closed trades, while the
  number of trades counts the open ones too; the win rate is the share of the wins among the closed trades, a
  percentage; the profit factor is the sum of the positive results over the sum of the others, infinite where there
  are only wins; the expectancy is the sum of the results over all trades; the average R multiples of wins and
  losses are the means of those that are set; and the losing streak is the length of the longest run of consecutive
  losing trades among the closed ones. The list is shorter than \<open>2 ^ 53\<close>, so that its length is a float.
\<close>

theorem metrics_count_trades:
  fixes ts :: "paper_trade list" and period :: string and begun now :: time and outcomes :: "candidate_outcome list"
  assumes "ts \<noteq> []" and "int (length ts) < 2 ^ 53"
  defines "m \<equiv> metrics_of period begun now ts outcomes"
    and "booked \<equiv> filter has_result ts"
    and "gains \<equiv> sum_of (map net_result (filter winning ts))"
    and "costs \<equiv> sum_of (map (\<lambda>t. \<bar>net_result t\<bar>) (filter losing ts))"
  shows "pm_TotalTrades m = int (length ts) \<and>
    pm_Wins m = int (length (filter winning ts)) \<and> pm_Losses m = int (length (filter losing ts)) \<and>
    pm_Wins m + pm_Losses m = int (length booked) \<and>
    pm_WinRate m = (if booked = [] then Fin 0
      else f64_of_int (int (length (filter winning ts))) / f64_of_int (int (length booked)) * Fin 100) \<and>
    Fin 0 \<le> pm_WinRate m \<and> pm_WinRate m \<le> Fin 100 \<and>
    pm_ProfitFactor m = (if Fin 0 < costs then gains / costs else if Fin 0 < gains then PInf else Fin 0) \<and>
    pm_Expectancy m = sum_of (map net_result booked) / f64_of_int (int (length ts)) \<and>
    pm_AvgWinR m = mean_of (r_multiples (filter winning ts)) \<and> pm_AvgLossR m = mean_of (r_multiples (filter losing ts)) \<and>
    (\<forall>n. int n \<le> pm_MaxConsecutiveLosses m \<longleftrightarrow>
       (\<exists>as bs cs. booked = as @ bs @ cs \<and> length bs = n \<and> (\<forall>t\<in>set bs. losing t)))"
proof -
  have "(has_result t \<and> winning t) = winning t" "(has_result t \<and> \<not> winning t) = losing t" for t
    by (auto simp: winning_def losing_def has_result_def split: option.splits)
  then have "filter winning ts = filter winning booked" "filter losing ts = filter (\<lambda>t. \<not> winning t) booked"
    by (simp_all add: booked_def)
  then have n: "length (filter winning ts) + length (filter losing ts) = length booked"
    by (simp add: sum_length_filter_compl)
  have "length booked \<le> length ts" by (simp add: booked_def)
  with n assms(2) have range: "Fin 0 \<le> percentage (int (length (filter winning ts))) (int (length booked)) \<and>
      percentage (int (length (filter winning ts))) (int (length booked)) \<le> Fin 100"
    by (intro percentage_range) simp_all
  have streak: "int k \<le> pm_MaxConsecutiveLosses m \<longleftrightarrow> run_in booked k" for k
    using tally_runs [of booked] assms(1) tally_closed [of ts]
    by (simp add: m_def metrics_of_def Let_def booked_def) (simp add: has_result_def)
  have rate: "pm_WinRate m = percentage (int (length (filter winning ts))) (int (length booked))"
    using n tally_counts [of ts] assms(1) by (simp add: m_def metrics_of_def Let_def flip: of_nat_add)
  have pct: "percentage k (int (length booked)) =
      (if booked = [] then Fin 0 else f64_of_int k / f64_of_int (int (length booked)) * Fin 100)" for k
    by (simp add: percentage_def)
  have counts: "pm_TotalTrades m = int (length ts) \<and> pm_Wins m = int (length (filter winning ts)) \<and>
      pm_Losses m = int (length (filter losing ts))"
    using tally_counts [of ts] assms(1) by (simp add: m_def metrics_of_def Let_def)
  have pf: "pm_ProfitFactor m = profit_factor gains costs \<and>
      pm_Expectancy m = sum_of (map net_result booked) / f64_of_int (int (length ts))"
    using tally_sums [of ts] assms(1) by (simp add: m_def metrics_of_def Let_def booked_def gains_def costs_def)
  have avg: "pm_AvgWinR m = mean_of (r_multiples (filter winning ts)) \<and>
      pm_AvgLossR m = mean_of (r_multiples (filter losing ts))"
    using tally_multiples [of ts] assms(1) by (simp add: m_def metrics_of_def Let_def average_mean)
  have "int (length (filter winning ts)) + int (length (filter losing ts)) = int (length booked)"
    using n by (simp flip: of_nat_add)
  with counts pf avg range show ?thesis
    unfolding streak run_in_def rate pct profit_factor_def by simp
qed

section \<open>Drawdown\<close>

text \<open>All trades won: the equity points rise to the total, which is the peak.\<close>

definition won_trades :: "paper_trade list \<Rightarrow> bool" where
  "won_trades ts \<longleftrightarrow> (\<forall>t\<in>set ts. \<exists>p. tr_PnLNet t = Some p \<and> Fin 0 < p \<and> is_f64 p)"

lemma won_equity:
  assumes "won_trades ts" "ts \<noteq> []"
  shows "is_f64 (ty_cumEquity (tally_of ts)) \<and> Fin 0 < ty_cumEquity (tally_of ts) \<and>
    feq (ty_peak (tally_of ts)) (ty_cumEquity (tally_of ts)) \<and>
    ty_equity (tally_of ts) \<noteq> [] \<and>
    (\<forall>x\<in>set (ty_equity (tally_of ts)). hd (ty_equity (tally_of ts)) \<le> x \<and> x \<le> ty_cumEquity (tally_of ts) \<and>
       Fin 0 < x)"
  using assms(2,1)
proof (induction ts rule: rev_nonempty_induct)
  case (single t)
  then obtain p where "tr_PnLNet t = Some p" "Fin 0 < p" "is_f64 p" by (auto simp: won_trades_def)
  then show ?case
    by (cases p) (auto simp: tally_trade_def tally_equity_def zero_tally_def rnd_id feq_def f64_le_refl is_f64_def)
next
  case (snoc t ts)
  then obtain p where p: "tr_PnLNet t = Some p" "Fin 0 < p" "is_f64 p" by (auto simp: won_trades_def)
  let ?y = "tally_of ts"
  have IH: "is_f64 (ty_cumEquity ?y)" "Fin 0 < ty_cumEquity ?y" "feq (ty_peak ?y) (ty_cumEquity ?y)"
    "ty_equity ?y \<noteq> []"
    "\<And>x. x \<in> set (ty_equity ?y) \<Longrightarrow> hd (ty_equity ?y) \<le> x \<and> x \<le> ty_cumEquity ?y \<and> Fin 0 < x"
    using snoc by (auto simp: won_trades_def)
  have y': "ty_cumEquity (tally_of (ts @ [t])) = ty_cumEquity ?y + p"
    "ty_equity (tally_of (ts @ [t])) = ty_equity ?y @ [ty_cumEquity ?y + p]"
    "ty_peak (tally_of (ts @ [t])) = (if ty_peak ?y < ty_cumEquity ?y + p then ty_cumEquity ?y + p else ty_peak ?y)"
    using p(1) by (simp_all add: tally_trade_def tally_equity_def)
  have le: "ty_cumEquity ?y \<le> ty_cumEquity ?y + p"
    by (rule Rounding.le_plus [OF IH(1) _ _ f64_less_imp_le [OF p(2)]]) (use IH(2) in auto)
  have f: "is_f64 (ty_cumEquity ?y + p)" using IH(1) p(3) by simp
  have "Fin 0 < ty_cumEquity ?y + p" using IH(2) le f64_less_le_trans by blast
  moreover have "feq (ty_peak (tally_of (ts @ [t]))) (ty_cumEquity ?y + p)"
  proof (cases "ty_peak ?y < ty_cumEquity ?y + p")
    case True
    then show ?thesis unfolding y' using cmp_not_NaN(2) by (auto simp: feq_def)
  next
    case False
    have "ty_peak ?y \<le> ty_cumEquity ?y + p" using IH(3) le by (auto simp: feq_def less_eq_f64_def)
    with False show ?thesis unfolding y' by (auto simp: f64_le_less)
  qed
  moreover have "hd (ty_equity ?y) \<le> x \<and> x \<le> ty_cumEquity ?y + p \<and> Fin 0 < x" if "x \<in> set (ty_equity ?y)" for x
    using IH(5) [OF that] le f64_le_trans by blast
  moreover have "hd (ty_equity ?y) \<le> ty_cumEquity ?y + p"
    using IH(4,5) hd_in_set le f64_le_trans by blast
  moreover have "ty_cumEquity ?y + p \<noteq> NaN" using le cmp_not_NaN by blast
  ultimately show ?case using f IH(4) unfolding y' by (auto simp: f64_le_refl simp del: foldl_append)
qed

lemma drawdown_fold:
  assumes "dd = (if Fin 0 < pk - x0 then pk - x0 else Fin 0)" "is_fin pk" "is_fin x0"
    and "\<forall>x\<in>set xs. x0 \<le> x \<and> \<not> pk < x \<and> is_fin x"
  shows "foldl drawdown_step (pk, dd) xs = (pk, dd)"
  using assms(4)
proof (induction xs)
  case (Cons x xs)
  have "pk - x \<le> pk - x0"
    using Cons.prems assms(2,3) key_fneg_le [of x x0] minus_not_NaN [of pk]
    by (auto simp: minus_f64_plus intro!: plus_mono f64_le_refl) (auto simp: less_eq_f64_def is_fin_def isNaN_def)
  then have "\<not> dd < pk - x"
    using assms(1) f64_less_asym f64_le_less_trans f64_less_le_trans by (metis (full_types))
  with Cons show ?case by (simp add: drawdown_step_def Let_def)
qed simp

text \<open>
  After a series of trades that were all won the report shows a drawdown: the whole gain since the first
  trade, as a share of the final gain, since every point of the equity curve is compared with the final peak.
\<close>

theorem winning_streak_reports_drawdown:
  fixes ts :: "paper_trade list" and period :: string and begun now :: time and outcomes :: "candidate_outcome list"
  assumes "won_trades ts" and "ts \<noteq> []" and "is_fin (ty_cumEquity (tally_of ts))"
  defines "tot \<equiv> ty_cumEquity (tally_of ts)" and "start \<equiv> hd (ty_equity (tally_of ts))"
  shows "pm_Losses (metrics_of period begun now ts outcomes) = 0 \<and>
    pm_MaxDrawdownPct (metrics_of period begun now ts outcomes) =
      (if Fin 0 < tot - start then (tot - start) / tot * Fin 100 else Fin 0)"
proof -
  let ?y = "tally_of ts"
  have w: "Fin 0 < tot" "feq (ty_peak ?y) tot" "ty_equity ?y \<noteq> []"
    "\<And>x. x \<in> set (ty_equity ?y) \<Longrightarrow> start \<le> x \<and> x \<le> tot \<and> Fin 0 < x"
    using won_equity [OF assms(1,2)] by (simp_all add: tot_def start_def)
  then obtain xs where xs: "ty_equity ?y = start # xs" unfolding start_def by (metis list.exhaust_sel)
  have "ty_peak ?y = tot"
    using w(1,2) by (cases "ty_peak ?y"; cases tot) (auto simp: feq_def)
  have "losing t = False" if "t \<in> set ts" for t
    using assms(1) that by (auto simp: won_trades_def losing_def)
  then have "filter losing ts = []" by (simp add: filter_empty_conv)
  moreover have "pm_MaxDrawdownPct (metrics_of period begun now ts outcomes) = max_drawdown_pct tot (start # xs) tot"
    using assms(2) \<open>ty_peak ?y = tot\<close> xs by (simp add: metrics_of_def Let_def tot_def)
  moreover have "max_drawdown_pct tot (start # xs) tot =
      (if Fin 0 < tot - start then (tot - start) / tot * Fin 100 else Fin 0)"
  proof -
    have fin: "is_fin tot" using assms(3) by (simp add: tot_def)
    have el: "start \<le> x \<and> \<not> tot < x \<and> is_fin x" if "x \<in> set (start # xs)" for x
    proof -
      have x: "start \<le> x" "x \<le> tot" "Fin 0 < x" using w(4) [of x] that xs by auto
      then have "is_fin x" using fin by (cases x; cases tot) (auto simp: is_fin_def isNaN_def isInf_def)
      with x f64_less_asym show ?thesis by blast
    qed
    have "foldl drawdown_step (tot, if Fin 0 < tot - start then tot - start else Fin 0) xs =
        (tot, if Fin 0 < tot - start then tot - start else Fin 0)"
      by (rule drawdown_fold [OF refl fin]) (use el in auto)
    moreover have "\<not> tot < start" using el by simp
    ultimately show ?thesis
      using w(1) by (cases "Fin 0 < tot - start") (simp_all add: max_drawdown_pct_def drawdown_step_def Let_def)
  qed
  ultimately show ?thesis using tally_counts [of ts] assms(2) by (simp add: metrics_of_def Let_def)
qed

definition won_trade :: "string \<Rightarrow> time \<Rightarrow> paper_trade" where
  "won_trade i t =
    \<lparr> tr_PaperTradeID = i, tr_DecisionID = i, tr_OpenedAt = 0, tr_ClosedAt = Some t, tr_Symbol = ''BTCUSDT'',
      tr_Side = SideLong, tr_Qty = Fin 1, tr_Leverage = Fin 1, tr_EntryPrice = Fin 100, tr_ExitPrice = Some (Fin 110),
      tr_StopLoss = Fin 95, tr_TakeProfit = Fin 110, tr_FeesPaid = Fin 0, tr_FundingPaid = Fin 0,
      tr_PnLGross = Some (Fin 8), tr_PnLNet = Some (Fin 8), tr_RMultiple = Some (Fin 2), tr_ExitReason = ''tp'' \<rparr>"

lemma two_won:
  "won_trades [won_trade ''a'' 1, won_trade ''b'' 2]"
  "ty_cumEquity (tally_of [won_trade ''a'' 1, won_trade ''b'' 2]) = Fin 16"
  "ty_equity (tally_of [won_trade ''a'' 1, won_trade ''b'' 2]) = [Fin 8, Fin 16]"
proof -
  have "repr 8" "repr 16" using repr_of_int [of 8] repr_of_int [of 16] by simp_all
  then show "won_trades [won_trade ''a'' 1, won_trade ''b'' 2]"
    "ty_cumEquity (tally_of [won_trade ''a'' 1, won_trade ''b'' 2]) = Fin 16"
    "ty_equity (tally_of [won_trade ''a'' 1, won_trade ''b'' 2]) = [Fin 8, Fin 16]"
    by (simp_all add: won_trades_def won_trade_def is_f64_Fin tally_trade_def tally_equity_def tally_result_def
        tally_R_def zero_tally_def rnd_exact)
qed

text \<open>A win, and a trade that is still open.\<close>

lemma open_trade_counts:
  "filter winning [won_trade ''a'' 1, (won_trade ''b'' 2)\<lparr>tr_PnLNet := None\<rparr>] = [won_trade ''a'' 1]"
  "filter losing [won_trade ''a'' 1, (won_trade ''b'' 2)\<lparr>tr_PnLNet := None\<rparr>] = []"
  "filter has_result [won_trade ''a'' 1, (won_trade ''b'' 2)\<lparr>tr_PnLNet := None\<rparr>] = [won_trade ''a'' 1]"
  by (simp_all add: winning_def losing_def has_result_def won_trade_def)

theorem metrics_count_trades_witness:
  "pm_TotalTrades (metrics_of ''all_time'' zero_time 3
      [won_trade ''a'' 1, (won_trade ''b'' 2)\<lparr>tr_PnLNet := None\<rparr>] []) = 2 \<and>
   pm_Wins (metrics_of ''all_time'' zero_time 3 [won_trade ''a'' 1, (won_trade ''b'' 2)\<lparr>tr_PnLNet := None\<rparr>] []) = 1 \<and>
   pm_WinRate (metrics_of ''all_time'' zero_time 3
      [won_trade ''a'' 1, (won_trade ''b'' 2)\<lparr>tr_PnLNet := None\<rparr>] []) = Fin 100"
proof -
  let ?ts = "[won_trade ''a'' 1, (won_trade ''b'' 2)\<lparr>tr_PnLNet := None\<rparr>]"
  have "repr 100" using repr_of_int [of 100] by simp
  moreover have "f64_of_int 1 = Fin 1" using repr_of_int [of 1] by (simp add: f64_of_int_def rnd_exact)
  moreover have "int (length ?ts) < 2 ^ 53" by simp
  ultimately show ?thesis
    using metrics_count_trades [of ?ts "''all_time''" zero_time 3 "[]", unfolded open_trade_counts]
    by (simp add: divide_Fin times_Fin rnd_exact)
qed

theorem winning_streak_reports_drawdown_witness:
  "pm_Losses (metrics_of ''all_time'' zero_time 3 [won_trade ''a'' 1, won_trade ''b'' 2] []) = 0 \<and>
   pm_MaxDrawdownPct (metrics_of ''all_time'' zero_time 3 [won_trade ''a'' 1, won_trade ''b'' 2] []) = Fin 50"
proof -
  have "repr 8" "repr 50" using repr_of_int [of 8] repr_of_int [of 50] by simp_all
  moreover have "repr (1 / 2)" using repr_half [of 1] by simp
  moreover have "is_fin (ty_cumEquity (tally_of [won_trade ''a'' 1, won_trade ''b'' 2]))"
    by (simp only: two_won) (simp add: is_fin_def isNaN_def isInf_def)
  ultimately show ?thesis
    using winning_streak_reports_drawdown [OF two_won(1), of "''all_time''" zero_time 3 "[]"]
    by (simp only: two_won) (simp add: divide_Fin times_Fin rnd_exact)
qed

end
