(* ===== verification/GoParse.thy ===== *)
theory GoParse
  imports Prelude "HOL-Library.List_Lexorder" "HOL-Library.Char_ord"
begin

text \<open>
  The parsing functions of Go's standard library that the source calls: \<open>strconv.ParseFloat\<close> and
  \<open>ParseInt\<close> on decimal text (hexadecimal literals, which no exchange sends, are refused), the decoding of JSON
  values into Go variables, and \<open>fmt.Sprint\<close> of a decoded value. A JSON text is the value it denotes; a text that
  is no JSON is \<open>None\<close> where it can occur.
\<close>

section \<open>Numbers\<close>

datatype num_error = ErrSyntax | ErrRange

definition is_digit :: "char \<Rightarrow> bool" where
  "is_digit c \<longleftrightarrow> 48 \<le> (of_char c :: nat) \<and> (of_char c :: nat) \<le> 57"

definition digits :: "string \<Rightarrow> string \<times> string" where
  "digits s = (takeWhile is_digit s, dropWhile is_digit s)"

definition sign :: "string \<Rightarrow> bool \<times> string" where
  "sign s =
    (case s of
       [] \<Rightarrow> (False, [])
     | c # r \<Rightarrow> if c = CHR ''-'' then (True, r) else if c = CHR ''+'' then (False, r) else (False, s))"

definition float_exponent :: "string \<Rightarrow> int option" where
  "float_exponent s =
    (case s of
       [] \<Rightarrow> Some 0
     | c # r \<Rightarrow>
         if lower_char c \<noteq> CHR ''e'' then None
         else (let (neg, r1) = sign r; (ds, r2) = digits r1; n = int (read_nat ds)
               in if ds = [] \<or> r2 \<noteq> [] then None else Some (if neg then - n else n)))"

definition special_float :: "string \<Rightarrow> f64 option" where
  "special_float s =
    (let (neg, r) = sign s; w = ToLower r
     in if w = ''inf'' \<or> w = ''infinity'' then Some (inf_of neg)
        else if w = ''nan'' \<and> r = s then Some NaN else None)"

definition decimal_float :: "bool \<Rightarrow> string \<Rightarrow> string \<Rightarrow> int \<Rightarrow> f64" where
  "decimal_float neg ip fp e =
    (let q = of_nat (read_nat (ip @ fp)) * 10 powi (e - int (length fp))
     in if q = 0 then zero_of neg else if neg then fneg (rnd q) else rnd q)"

text \<open>The value and the error: a syntax error gives 0, an overflow gives the infinity it rounds to.\<close>

definition parse_decimal :: "string \<Rightarrow> f64 \<times> num_error option" where
  "parse_decimal s =
    (let (neg, r) = sign s; (ip, r1) = digits r;
         (fp, r2) = (case r1 of c # r' \<Rightarrow> if c = CHR ''.'' then digits r' else ([], r1) | [] \<Rightarrow> ([], []))
     in if ip = [] \<and> fp = [] then (Fin 0, Some ErrSyntax)
        else
          (case float_exponent r2 of
             None \<Rightarrow> (Fin 0, Some ErrSyntax)
           | Some e \<Rightarrow>
               let v = decimal_float neg ip fp e in (v, if isInf v then Some ErrRange else None)))"

definition ParseFloat :: "string \<Rightarrow> f64 \<times> num_error option" where
  "ParseFloat s = (case special_float s of Some v \<Rightarrow> (v, None) | None \<Rightarrow> parse_decimal s)"

definition ParseInt :: "string \<Rightarrow> int \<times> num_error option" where
  "ParseInt s =
    (let (neg, r) = sign s; n = int (read_nat r); v = (if neg then - n else n)
     in if r = [] \<or> \<not> list_all is_digit r then (0, Some ErrSyntax)
        else if v < - (2 ^ 63) then (- (2 ^ 63), Some ErrRange)
        else if 2 ^ 63 \<le> v then (2 ^ 63 - 1, Some ErrRange)
        else (v, None))"

text \<open>\<open>int64(f)\<close>: truncation; out of range the amd64 instruction gives the least value.\<close>

definition f64_to_int64 :: "f64 \<Rightarrow> int" where
  "f64_to_int64 x =
    (if \<not> is_fin x then - (2 ^ 63)
     else let n = (if 0 \<le> val x then \<lfloor>val x\<rfloor> else \<lceil>val x\<rceil>)
          in if - (2 ^ 63) \<le> n \<and> n < 2 ^ 63 then n else - (2 ^ 63))"

lemma special_float_fin: "special_float s = Some v \<Longrightarrow> v = NaN \<or> isInf v"
  by (auto simp: special_float_def Let_def inf_of_def isInf_def split: prod.splits if_splits)

lemma decimal_float_simps [simp]: "is_f64 (decimal_float neg ip fp e)" "decimal_float neg ip fp e \<noteq> NaN"
  by (auto simp: decimal_float_def Let_def zero_of_def is_f64_Fin rnd_not_NaN fneg_eq_NaN)

lemma is_f64_parse_decimal: "is_f64 (fst (parse_decimal s))"
  by (auto simp: parse_decimal_def Let_def is_f64_Fin split: option.split prod.split)

lemma parse_decimal_finite: "parse_decimal s = (v, None) \<Longrightarrow> is_f64 v \<and> v \<noteq> NaN \<and> \<not> isInf v"
  by (auto simp: parse_decimal_def Let_def split: option.splits prod.splits if_splits)

lemma is_f64_ParseFloat: "is_f64 (fst (ParseFloat s))"
  by (auto simp: ParseFloat_def is_f64_parse_decimal is_f64_Fin is_f64_isInf dest!: special_float_fin split: option.split)

section \<open>JSON\<close>

datatype json =
    JNull
  | JBool bool
  | JNumber string
  | JString string
  | JArray "json list"
  | JObject "(string \<times> json) list"

type_synonym json_map = "(string \<times> json) list"

text \<open>
  The value of a struct field: the last key that is its name, or that equals it up to case and is not the name of
  another field.
\<close>

definition json_field :: "string list \<Rightarrow> string \<Rightarrow> json_map \<Rightarrow> json option" where
  "json_field names name obj =
    map_option snd (find (\<lambda>(k, v). k = name \<or> k \<notin> set names \<and> ToLower k = ToLower name) (rev obj))"

text \<open>Decoding a value into a variable: \<open>null\<close> and a missing key leave the zero value.\<close>

definition json_string :: "json option \<Rightarrow> string option" where
  "json_string j =
    (case j of None \<Rightarrow> Some '''' | Some JNull \<Rightarrow> Some '''' | Some (JString s) \<Rightarrow> Some s | Some _ \<Rightarrow> None)"

definition json_bool :: "json option \<Rightarrow> bool option" where
  "json_bool j = (case j of None \<Rightarrow> Some False | Some JNull \<Rightarrow> Some False | Some (JBool b) \<Rightarrow> Some b | Some _ \<Rightarrow> None)"

definition json_int64 :: "json option \<Rightarrow> int option" where
  "json_int64 j =
    (case j of
       None \<Rightarrow> Some 0
     | Some JNull \<Rightarrow> Some 0
     | Some (JNumber n) \<Rightarrow> (case ParseInt n of (v, None) \<Rightarrow> Some v | (_, Some _) \<Rightarrow> None)
     | Some _ \<Rightarrow> None)"

text \<open>A number literal is decimal text, never one of the special values.\<close>

definition json_float64 :: "json option \<Rightarrow> f64 option" where
  "json_float64 j =
    (case j of
       None \<Rightarrow> Some (Fin 0)
     | Some JNull \<Rightarrow> Some (Fin 0)
     | Some (JNumber n) \<Rightarrow> (case parse_decimal n of (v, None) \<Rightarrow> Some v | (_, Some _) \<Rightarrow> None)
     | Some _ \<Rightarrow> None)"

lemma json_float64_finite: "json_float64 j = Some v \<Longrightarrow> is_f64 v \<and> v \<noteq> NaN \<and> \<not> isInf v"
  by (auto simp: json_float64_def is_f64_Fin isInf_def dest!: parse_decimal_finite split: option.splits json.splits prod.splits)

text \<open>A struct: \<open>null\<close> and a missing key leave every field at its zero value.\<close>

definition json_struct :: "json option \<Rightarrow> json_map option" where
  "json_struct j =
    (case j of None \<Rightarrow> Some [] | Some JNull \<Rightarrow> Some [] | Some (JObject m) \<Rightarrow> Some m | Some _ \<Rightarrow> None)"

text \<open>A raw value decoded into a map: there must be one.\<close>

definition json_object :: "json option \<Rightarrow> json_map option" where
  "json_object j = (case j of None \<Rightarrow> None | Some JNull \<Rightarrow> Some [] | Some (JObject m) \<Rightarrow> Some m | Some _ \<Rightarrow> None)"

primrec all_some :: "'a option list \<Rightarrow> 'a list option" where
  "all_some [] = Some []"
| "all_some (x # xs) =
    (case x of None \<Rightarrow> None | Some y \<Rightarrow> (case all_some xs of None \<Rightarrow> None | Some ys \<Rightarrow> Some (y # ys)))"

lemma all_some_Some [simp]: "all_some (map (\<lambda>x. Some (f x)) xs) = Some (map f xs)"
  by (induction xs) simp_all

text \<open>A slice whose elements are decoded one by one; a missing value is an empty slice.\<close>

definition json_list :: "(json option \<Rightarrow> 'a option) \<Rightarrow> json option \<Rightarrow> 'a list option" where
  "json_list elem j =
    (case j of
       None \<Rightarrow> Some []
     | Some JNull \<Rightarrow> Some []
     | Some (JArray js) \<Rightarrow> all_some (map (\<lambda>j. elem (Some j)) js)
     | Some _ \<Rightarrow> None)"

text \<open>\<open>fmt.Sprint\<close> of a decoded value: maps print their keys in order.\<close>

definition join :: "string \<Rightarrow> string list \<Rightarrow> string" where
  "join sep xs = (case xs of [] \<Rightarrow> [] | y # ys \<Rightarrow> y @ concat (map (\<lambda>z. sep @ z) ys))"

fun sprint :: "json \<Rightarrow> string" where
  "sprint JNull = ''<nil>''"
| "sprint (JBool b) = (if b then ''true'' else ''false'')"
| "sprint (JNumber n) = n"
| "sprint (JString s) = s"
| "sprint (JArray js) = ''['' @ join '' '' (map sprint js) @ '']''"
| "sprint (JObject m) =
    ''map['' @ join '' ''
      (map (\<lambda>(k, t). k @ '':'' @ t) (sort_key fst (AList.clearjunk (rev (map (\<lambda>(k, j). (k, sprint j)) m))))) @ '']''"

end
