(* ===== verification/Universe.thy ===== *)
theory Universe
  imports Store ConfigTypes GoParse "HOL-Library.Monad_Syntax"
begin

text \<open>
  The universe scanner (\<open>internal/universe/bybit.go\<close>, \<open>scoring.go\<close>, \<open>scanner.go\<close>): which symbols the bot
  considers. The replies of the exchange and the market data service are arguments; the repositories are
  those of the store. Logging is left out.
\<close>

section \<open>Exchange client\<close>

text \<open>What an HTTP request comes back with: no response, or a status and a body that is JSON or not.\<close>

datatype http_reply = NoReply | Reply int "json option"

datatype fetch_error = RequestFailed | UnexpectedStatus int | DecodeFailed | RetCode int

record bybit_instrument =
  bi_Symbol :: string
  bi_Status :: string
  bi_BaseCoin :: string
  bi_QuoteCoin :: string
  bi_MinOrderQty :: string
  bi_TickSize :: string
  bi_QtyStep :: string
  bi_MaxLeverage :: string

record bybit_ticker =
  bt_Symbol :: string
  bt_Turnover24h :: string
  bt_LastPrice :: string
  bt_Bid1Price :: string
  bt_Ask1Price :: string

definition string_fields :: "string list \<Rightarrow> json option \<Rightarrow> string list option" where
  "string_fields names j =
    do { m \<leftarrow> json_struct j; all_some (map (\<lambda>n. json_string (json_field names n m)) names) }"

definition decode_instrument :: "json option \<Rightarrow> bybit_instrument option" where
  "decode_instrument j =
    do { vs \<leftarrow> string_fields [''symbol'', ''status'', ''baseCoin'', ''quoteCoin'', ''minOrderQty'', ''tickSize'',
                             ''qtyStep'', ''maxLeverage''] j;
         Some \<lparr> bi_Symbol = vs ! 0, bi_Status = vs ! 1, bi_BaseCoin = vs ! 2, bi_QuoteCoin = vs ! 3,
                bi_MinOrderQty = vs ! 4, bi_TickSize = vs ! 5, bi_QtyStep = vs ! 6, bi_MaxLeverage = vs ! 7 \<rparr> }"

definition decode_ticker :: "json option \<Rightarrow> bybit_ticker option" where
  "decode_ticker j =
    do { vs \<leftarrow> string_fields [''symbol'', ''turnover24h'', ''lastPrice'', ''bid1Price'', ''ask1Price''] j;
         Some \<lparr> bt_Symbol = vs ! 0, bt_Turnover24h = vs ! 1, bt_LastPrice = vs ! 2, bt_Bid1Price = vs ! 3,
                bt_Ask1Price = vs ! 4 \<rparr> }"

text \<open>The envelope of both responses: the return code and the rows of the result.\<close>

definition decode_envelope :: "(json option \<Rightarrow> 'a option) \<Rightarrow> json \<Rightarrow> (int \<times> 'a list) option" where
  "decode_envelope row body =
    do { m \<leftarrow> json_struct (Some body);
         code \<leftarrow> json_int64 (json_field [''retCode'', ''result''] ''retCode'' m);
         r \<leftarrow> json_struct (json_field [''retCode'', ''result''] ''result'' m);
         rows \<leftarrow> json_list row (json_field [''list''] ''list'' r);
         Some (code, rows) }"

definition fetch_rows :: "(json option \<Rightarrow> 'a option) \<Rightarrow> http_reply \<Rightarrow> fetch_error + 'a list" where
  "fetch_rows row reply =
    (case reply of
       NoReply \<Rightarrow> Inl RequestFailed
     | Reply status body \<Rightarrow>
         if status \<noteq> 200 then Inl (UnexpectedStatus status)
         else
           (case body \<bind> decode_envelope row of
              None \<Rightarrow> Inl DecodeFailed
            | Some (code, rows) \<Rightarrow> if code \<noteq> 0 then Inl (RetCode code) else Inr rows))"

definition fetchInstruments :: "http_reply \<Rightarrow> fetch_error + bybit_instrument list" where
  "fetchInstruments = fetch_rows decode_instrument"

definition fetchTickers :: "http_reply \<Rightarrow> fetch_error + bybit_ticker list" where
  "fetchTickers = fetch_rows decode_ticker"

section \<open>Scores\<close>

definition clamp :: "f64 \<Rightarrow> f64 \<Rightarrow> f64 \<Rightarrow> f64" where
  "clamp v lo hi = (if v < lo then lo else if hi < v then hi else v)"

definition liquidity_score :: "order_book_summary \<Rightarrow> f64" where
  "liquidity_score ob =
    (let depth = ob_BidDepth ob + ob_AskDepth ob;
         l0 = Fin 30;
         l1 = (if Fin 0 < ob_SpreadBps ob
               then l0 + Fin 40 * math_Max (Fin 0) (Fin 1 - ob_SpreadBps ob / Fin 100) else l0);
         l2 = (if Fin 0 < depth then l1 + Fin 30 * math_Min (Fin 1) (depth / Fin 10000) else l1)
     in clamp l2 (Fin 0) (Fin 100))"

definition execution_score :: "order_book_summary \<Rightarrow> f64" where
  "execution_score ob =
    clamp (if Fin 0 < ob_EstimatedSlippageBps ob
           then Fin 80 * math_Max (Fin 0) (Fin 1 - ob_EstimatedSlippageBps ob / Fin 200) else Fin 80)
      (Fin 0) (Fin 100)"

definition volatility_score :: "f64 \<Rightarrow> f64 \<Rightarrow> f64" where
  "volatility_score atr price =
    (let v = (if Fin 0 < price \<and> Fin 0 < atr then
                let atrPct = atr / price * Fin 100
                in if lit (2 / 10) \<le> atrPct \<and> atrPct \<le> Fin 5
                   then Fin 50 + Fin 50 * (Fin 1 - \<bar>atrPct - Fin (5 / 2)\<bar> / Fin (5 / 2))
                   else if atrPct < lit (2 / 10) then Fin 50 * (atrPct / lit (2 / 10))
                   else math_Max (Fin 0) (Fin 100 - Fin 20 * (atrPct - Fin 5))
              else Fin 50)
     in clamp v (Fin 0) (Fin 100))"

definition computeScores :: "order_book_summary \<Rightarrow> f64 \<Rightarrow> f64 \<Rightarrow> f64 \<times> f64 \<times> f64" where
  "computeScores ob atr price =
    (if not_finite (ob_SpreadBps ob) then (Fin 0, Fin 0, Fin 0)
     else (liquidity_score ob, execution_score ob, volatility_score atr price))"

definition candidateScore :: "f64 \<Rightarrow> f64 \<Rightarrow> f64 \<Rightarrow> f64 \<Rightarrow> f64" where
  "candidateScore liquidity execution setup volatility =
    liquidity * Fin (1 / 4) + execution * Fin (1 / 4) + setup * lit (35 / 100) + volatility * lit (15 / 100)"

definition evaluateLLMEligibility ::
  "candidate \<Rightarrow> order_book_summary \<Rightarrow> universe_filters_config \<Rightarrow> llm_routing_config \<Rightarrow> strategy_config \<Rightarrow> candidate" where
  "evaluateLLMEligibility c ob filters llm strategy =
    (let minScore = default_f64 (Fin 75) (lr_MinCandidateScore llm);
         minRR = default_f64 (Fin 2) (ic_MinRR (sg_Indicators strategy))
     in if not_finite (cand_CandidateScore c)
        then c\<lparr>cand_LLMEligible := False, cand_LLMRoutingReasonCodes := [''candidate_score_non_finite'']\<rparr>
        else
          let reasons =
                code_if (cand_CandidateScore c < minScore) ''candidate_score_below_threshold'' @
                code_if (lr_RequireExecutionOk llm \<and> Fin 0 < uf_MaxSpreadBps filters
                         \<and> uf_MaxSpreadBps filters < ob_SpreadBps ob) ''spread_too_wide'' @
                code_if (lr_RequireExecutionOk llm \<and> Fin 100 \<le> ob_EstimatedSlippageBps ob) ''slippage_too_high'' @
                code_if (lr_RequireLiquidityOk llm \<and> ob_DepthToPositionSizeRatio ob \<le> Fin 0) ''insufficient_depth'' @
                code_if (Fin 0 < t_RR c \<and> t_RR c < minRR) ''rr_below_min'' @
                code_if (Fin 0 < t_EstimatedTotalCost c
                         \<and> (t_ExpectedMove c \<le> Fin 0 \<or> t_ExpectedMove c \<le> Fin 3 * t_EstimatedTotalCost c))
                  ''expected_move_too_small''
          in c\<lparr>cand_LLMEligible := (reasons = []), cand_LLMRoutingReasonCodes := reasons\<rparr>)"

section \<open>Scanner\<close>

record scanner =
  sc_cfg :: universe_config
  sc_strategy :: strategy_config
  sc_llmRoute :: llm_routing_config
  sc_targetNotional :: f64
  sc_watchlist :: "time gomap"

text \<open>The market data service as the scanner sees it; an error is \<open>None\<close>.\<close>

record scan_market =
  sk_OrderBook :: "string \<Rightarrow> f64 \<Rightarrow> string \<Rightarrow> order_book_summary option"
  sk_LatestPrice :: "string \<Rightarrow> f64 option"

definition NewScanner :: "universe_config \<Rightarrow> strategy_config \<Rightarrow> llm_routing_config \<Rightarrow> f64 \<Rightarrow> scanner" where
  "NewScanner cfg strategy llmRoute targetNotional =
    \<lparr> sc_cfg = cfg, sc_strategy = strategy, sc_llmRoute = llmRoute, sc_targetNotional = targetNotional,
      sc_watchlist = [] \<rparr>"

definition parsed :: "string \<Rightarrow> f64" where
  "parsed s = fst (ParseFloat s)"

definition max_spread_bps :: "universe_config \<Rightarrow> f64" where
  "max_spread_bps cfg = default_f64 (Fin 50) (uf_MaxSpreadBps (un_Filters cfg))"

definition ticker_spread :: "bybit_ticker \<Rightarrow> f64" where
  "ticker_spread t =
    (let bid = parsed (bt_Bid1Price t); ask = parsed (bt_Ask1Price t)
     in if Fin 0 < bid \<and> Fin 0 < ask \<and> bid < ask then (ask - bid) / ((ask + bid) / Fin 2) * Fin 10000 else Fin 0)"

definition penny_coin :: "bybit_ticker \<Rightarrow> bool" where
  "penny_coin t =
    (let (price, err) = ParseFloat (bt_LastPrice t) in err = None \<and> Fin 0 < price \<and> price < Fin 1)"

text \<open>Layer 1 for one instrument; a symbol without a ticker has the zero ticker.\<close>

definition passes_scan :: "universe_config \<Rightarrow> bybit_instrument \<Rightarrow> bybit_ticker option \<Rightarrow> bool" where
  "passes_scan cfg inst ticker =
    (let forced = bi_Symbol inst \<in> set (un_ForceIncludeSymbols cfg);
         minVol = default_f64 (Fin 1000000) (uf_Min24hVolumeUSD (un_Filters cfg))
     in bi_Status inst = ''Trading'' \<and> bi_QuoteCoin inst = ''USDT'' \<and>
        bi_Symbol inst \<notin> set (un_Blacklist cfg) \<and>
        (forced \<or>
         (case ticker of
            None \<Rightarrow> False
          | Some t \<Rightarrow>
              \<not> parsed (bt_Turnover24h t) < minVol \<and> \<not> penny_coin t \<and> \<not> max_spread_bps cfg < ticker_spread t)))"

definition scanned_symbol :: "universe_config \<Rightarrow> bybit_instrument \<Rightarrow> universe_symbol" where
  "scanned_symbol cfg inst =
    \<lparr> si_Symbol = bi_Symbol inst, si_Status = bi_Status inst, si_QuoteAsset = bi_QuoteCoin inst,
      si_BaseAsset = bi_BaseCoin inst, si_MinNotional = parsed (bi_MinOrderQty inst),
      si_TickSize = parsed (bi_TickSize inst), si_LotSize = parsed (bi_QtyStep inst),
      si_MaxLeverage = parsed (bi_MaxLeverage inst), us_Blacklist = False,
      us_ForceInclude = (bi_Symbol inst \<in> set (un_ForceIncludeSymbols cfg)), us_LiquidityScore = Fin 0,
      us_LastScanAt = zero_time \<rparr>"

definition turnover_of :: "bybit_ticker option \<Rightarrow> f64" where
  "turnover_of t = (case t of None \<Rightarrow> Fin 0 | Some t \<Rightarrow> parsed (bt_Turnover24h t))"

text \<open>The last ticker of a symbol, as the map built from the list holds it.\<close>

definition ticker_of :: "bybit_ticker list \<Rightarrow> string \<Rightarrow> bybit_ticker option" where
  "ticker_of ts s = find (\<lambda>t. bt_Symbol t = s) (rev ts)"

definition scan_candidates :: "universe_config \<Rightarrow> bybit_instrument list \<Rightarrow> bybit_ticker list \<Rightarrow> (universe_symbol \<times> f64) list" where
  "scan_candidates cfg insts tickers =
    map (\<lambda>i. (scanned_symbol cfg i, turnover_of (ticker_of tickers (bi_Symbol i))))
      (filter (\<lambda>i. passes_scan cfg i (ticker_of tickers (bi_Symbol i))) insts)"

definition rank_and_cut :: "universe_config \<Rightarrow> (universe_symbol \<times> f64) list \<Rightarrow> universe_symbol list" where
  "rank_and_cut cfg cs =
    map fst (take (nat (default_int 100 (un_LightScanMaxSymbols cfg)))
      (insertion_sort (\<lambda>a b. snd b < snd a) cs))"

definition ScanAll :: "scanner \<Rightarrow> http_reply \<Rightarrow> http_reply \<Rightarrow> fetch_error + universe_symbol list" where
  "ScanAll sc instReply tickReply =
    (case fetchInstruments instReply of
       Inl e \<Rightarrow> Inl e
     | Inr insts \<Rightarrow>
         (case fetchTickers tickReply of
            Inl e \<Rightarrow> Inl e
          | Inr tickers \<Rightarrow> Inr (rank_and_cut (sc_cfg sc) (scan_candidates (sc_cfg sc) insts tickers))))"

section \<open>Layer 2\<close>

text \<open>The true ranges of consecutive candles, added in order.\<close>

fun true_ranges :: "candle list \<Rightarrow> f64 list" where
  "true_ranges (p # c # cs) =
    (let tr0 = c_High c - c_Low c;
         tr1 = (if tr0 < \<bar>c_High c - c_Close p\<bar> then \<bar>c_High c - c_Close p\<bar> else tr0);
         tr2 = (if tr1 < \<bar>c_Low c - c_Close p\<bar> then \<bar>c_Low c - c_Close p\<bar> else tr1)
     in tr2 # true_ranges (c # cs))"
| "true_ranges cs = []"

definition computeATR :: "string \<Rightarrow> int \<Rightarrow> store \<Rightarrow> store \<times> f64" where
  "computeATR symbol period s =
    (case candle_GetBySymbolTimeframe symbol ''1H'' (period + 1) s of
       (s1, Inl e) \<Rightarrow> (s1, Fin 0)
     | (s1, Inr cs) \<Rightarrow>
         (s1, if int (length cs) < period + 1 then Fin 0
              else foldl (+) (Fin 0) (true_ranges cs) / f64_of_int period))"

definition passes_quality :: "universe_config \<Rightarrow> universe_symbol \<Rightarrow> order_book_summary \<Rightarrow> bool" where
  "passes_quality cfg u ob \<longleftrightarrow>
    \<not> ob_Stale ob \<and>
    (us_ForceInclude u \<or>
     \<not> max_spread_bps cfg < ob_SpreadBps ob \<and> \<not> Fin 100 \<le> ob_EstimatedSlippageBps ob \<and>
     \<not> ob_DepthToPositionSizeRatio ob \<le> Fin 0)"

definition quality_candidate :: "scanner \<Rightarrow> string \<Rightarrow> order_book_summary \<Rightarrow> f64 \<Rightarrow> f64 \<Rightarrow> candidate" where
  "quality_candidate sc symbol ob atr price =
    (let (liq, exec, vol) = computeScores ob atr price; setup = Fin 50
     in evaluateLLMEligibility
          \<lparr> t_Symbol = symbol, t_Side = OtherSide '''', t_SetupType = '''', t_Regime = '''',
            t_EntryType = OtherEntryType '''', t_ProposedEntry = Fin 0, t_ProposedStopLoss = Fin 0,
            t_ProposedTakeProfit = Fin 0, t_StopLossPct = Fin 0, t_TakeProfitPct = Fin 0, t_RR = Fin (5 / 2),
            t_InvalidationLevel = Fin 0, t_ReasonCodes = [], t_SetupScore = setup, t_ExpectedMove = atr * Fin 2,
            t_EstimatedTotalCost = price * lit (1 / 1000), cand_CycleID = '''',
            cand_CandidateScore = candidateScore liq exec setup vol, cand_LiquidityScore = liq,
            cand_ExecutionScore = exec, cand_VolatilityScore = vol, cand_LLMEligible = False,
            cand_LLMRoutingReasonCodes = [] \<rparr>
          ob (un_Filters (sc_cfg sc)) (sc_llmRoute sc) (sc_strategy sc))"

definition market_price :: "scan_market \<Rightarrow> string \<Rightarrow> order_book_summary \<Rightarrow> f64" where
  "market_price md symbol ob =
    (let price = (case sk_LatestPrice md symbol of None \<Rightarrow> Fin 0 | Some p \<Rightarrow> p)
     in if price \<le> Fin 0 then ob_BestBid ob else price)"

definition quality_step ::
  "scanner \<Rightarrow> scan_market \<Rightarrow> store \<times> candidate list \<Rightarrow> universe_symbol \<Rightarrow> store \<times> candidate list" where
  "quality_step sc md st u =
    (let (s, cs) = st
     in if default_int 30 (un_QualityFilterMaxSymbols (sc_cfg sc)) \<le> int (length cs) then st
        else if sc_targetNotional sc \<le> Fin 0 then st
        else
          (case sk_OrderBook md (si_Symbol u) (sc_targetNotional sc) ''LONG'' of
             None \<Rightarrow> st
           | Some ob \<Rightarrow>
               if \<not> passes_quality (sc_cfg sc) u ob then st
               else
                 let (s1, atr) = computeATR (si_Symbol u) 14 s; price = market_price md (si_Symbol u) ob
                 in if price \<le> Fin 0 then (s1, cs)
                    else (s1, cs @ [quality_candidate sc (si_Symbol u) ob atr price])))"

definition FilterQuality :: "scanner \<Rightarrow> scan_market \<Rightarrow> universe_symbol list \<Rightarrow> store \<Rightarrow> store \<times> candidate list" where
  "FilterQuality sc md symbols s = foldl (quality_step sc md) (s, []) symbols"

section \<open>Refreshing and editing the universe\<close>

definition merge_forced :: "universe_symbol list \<Rightarrow> universe_symbol list \<Rightarrow> universe_symbol list" where
  "merge_forced symbols dbSymbols =
    foldl (\<lambda>acc d. if us_ForceInclude d \<and> \<not> (\<exists>x\<in>set acc. si_Symbol x = si_Symbol d) then acc @ [d] else acc)
      symbols dbSymbols"

text \<open>A failing write is logged and the next symbol is written.\<close>

definition persist_symbols :: "time \<Rightarrow> universe_symbol list \<Rightarrow> store \<Rightarrow> store" where
  "persist_symbols now symbols s =
    foldl (\<lambda>s u. fst (universe_InsertOrUpdate (u\<lparr>us_LastScanAt := now\<rparr>) s)) s symbols"

definition RefreshUniverse ::
  "scanner \<Rightarrow> http_reply \<Rightarrow> http_reply \<Rightarrow> time \<Rightarrow> store \<Rightarrow> store \<times> fetch_error option" where
  "RefreshUniverse sc instReply tickReply now s =
    (case ScanAll sc instReply tickReply of
       Inl e \<Rightarrow> (s, Some e)
     | Inr symbols \<Rightarrow>
         let (s1, r) = universe_GetAll s; dbSymbols = (case r of Inl e \<Rightarrow> [] | Inr us \<Rightarrow> us)
         in (persist_symbols now (merge_forced symbols dbSymbols) s1, None))"

definition bare_symbol :: "string \<Rightarrow> string \<Rightarrow> bool \<Rightarrow> bool \<Rightarrow> universe_symbol" where
  "bare_symbol symbol status blacklisted forced =
    \<lparr> si_Symbol = symbol, si_Status = status, si_QuoteAsset = '''', si_BaseAsset = '''', si_MinNotional = Fin 0,
      si_TickSize = Fin 0, si_LotSize = Fin 0, si_MaxLeverage = Fin 0, us_Blacklist = blacklisted,
      us_ForceInclude = forced, us_LiquidityScore = Fin 0, us_LastScanAt = zero_time \<rparr>"

definition AddForceInclude :: "string \<Rightarrow> store \<Rightarrow> store \<times> (db_error + unit)" where
  "AddForceInclude symbol s =
    (case universe_GetBySymbol symbol s of
       (s1, Inr (Some u)) \<Rightarrow> universe_InsertOrUpdate (u\<lparr>us_ForceInclude := True, us_Blacklist := False\<rparr>) s1
     | (s1, _) \<Rightarrow> universe_InsertOrUpdate (bare_symbol symbol ''unknown'' False True) s1)"

definition RemoveSymbol :: "string \<Rightarrow> store \<Rightarrow> store \<times> (db_error + unit)" where
  "RemoveSymbol symbol s =
    (case universe_GetBySymbol symbol s of
       (s1, Inr (Some u)) \<Rightarrow> universe_InsertOrUpdate (u\<lparr>us_Blacklist := True, us_ForceInclude := False\<rparr>) s1
     | (s1, _) \<Rightarrow> universe_InsertOrUpdate (bare_symbol symbol '''' True False) s1)"

section \<open>External signals\<close>

definition hours_of :: "int \<Rightarrow> duration" where
  "hours_of n = wrap64 (seconds (3600 * n))"

definition AddExternalSignal :: "time \<Rightarrow> string \<Rightarrow> int \<Rightarrow> scanner \<Rightarrow> scanner" where
  "AddExternalSignal now symbol ttlHours sc =
    (let ttl = default_int (hours_of 48) (hours_of ttlHours)
     in sc\<lparr>sc_watchlist := AList.update symbol (now + ttl) (sc_watchlist sc)\<rparr>)"

definition GetExternalWatchlist :: "string list \<Rightarrow> time \<Rightarrow> scanner \<Rightarrow> scanner \<times> string list" where
  "GetExternalWatchlist ord now sc =
    range_map (\<lambda>(sc, active). sc_watchlist sc)
      (\<lambda>sym expiry (sc, active).
        if now < expiry then (sc, active @ [sym])
        else (sc\<lparr>sc_watchlist := AList.delete sym (sc_watchlist sc)\<rparr>, active))
      (iter_keys ord (sc_watchlist sc)) (sc, [])"

end
