(* ===== verification/UniverseSpec.thy ===== *)
theory UniverseSpec
  imports Universe ConfigSpec
begin

text \<open>
  What a scan selects, what a refresh does to the flags set by hand, and the range of the scores.
\<close>

section \<open>Scanning\<close>

lemma take_sorted_wrt:
  assumes "sorted_wrt R xs" "x \<in> set (take n xs)" "y \<in> set (drop n xs)"
  shows "R x y"
  using assms by (metis append_take_drop_id sorted_wrt_append)

text \<open>
  C24: the symbols of a scan are instruments of the exchange that trade against USDT, are not blacklisted in the
  configuration and are forced or pass the volume, price and spread filters; there are at most as many as
  configured, and no instrument that passes but is left out has a larger turnover than one that is kept. Forced
  symbols are cut like the others.
\<close>

theorem scan_selects_largest:
  fixes sc :: scanner
  assumes "fetchInstruments ir = Inr insts" "fetchTickers tr = Inr tickers" "ScanAll sc ir tr = Inr symbols"
    and "\<forall>i\<in>set insts. turnover_of (ticker_of tickers (bi_Symbol i)) \<noteq> NaN"
  defines "ok \<equiv> \<lambda>i. passes_scan (sc_cfg sc) i (ticker_of tickers (bi_Symbol i))"
    and "vol \<equiv> \<lambda>i. turnover_of (ticker_of tickers (bi_Symbol i))"
  shows "\<exists>kept left. mset (kept @ left) = mset (filter ok insts) \<and>
    symbols = map (scanned_symbol (sc_cfg sc)) kept \<and>
    int (length symbols) \<le> default_int 100 (un_LightScanMaxSymbols (sc_cfg sc)) \<and>
    (\<forall>i\<in>set kept. \<forall>j\<in>set left. vol j \<le> vol i)"
proof -
  let ?cfg = "sc_cfg sc" and ?n = "nat (default_int 100 (un_LightScanMaxSymbols (sc_cfg sc)))"
  define pair where "pair i = (scanned_symbol ?cfg i, vol i)" for i
  define lt where "lt a b \<longleftrightarrow> vol b < vol a" for a b
  have cs: "scan_candidates ?cfg insts tickers = map pair (filter ok insts)"
    by (simp add: scan_candidates_def pair_def ok_def vol_def)
  define srt where "srt = insertion_sort lt (filter ok insts)"
  have ins: "insert_left (\<lambda>a b. snd b < snd a) (pair x) (map pair ys) = map pair (insert_left lt x ys)" for x ys
    by (induction ys) (simp_all add: lt_def pair_def)
  have "foldl (\<lambda>acc x. insert_left (\<lambda>a b. snd b < snd a) x acc) (map pair acc) (map pair xs) =
      map pair (foldl (\<lambda>acc x. insert_left lt x acc) acc xs)" for acc xs
    by (induction xs arbitrary: acc) (simp_all add: ins)
  from this [of "[]" "filter ok insts"]
  have sort: "insertion_sort (\<lambda>a b. snd b < snd a) (map pair (filter ok insts)) = map pair srt"
    by (simp add: insertion_sort_def srt_def rev_map)
  have "sorted_wrt (\<lambda>a b. \<not> lt b a) srt"
    unfolding srt_def
  proof (rule insertion_sort_sorted [where S = "{i. vol i \<noteq> NaN}"])
    show "set (filter ok insts) \<subseteq> {i. vol i \<noteq> NaN}" using assms(4) by (auto simp: vol_def)
    show "\<not> lt b a" if "lt a b" for a b using that f64_less_asym f64_less_imp_le by (auto simp: lt_def)
    show "\<not> lt a c" if "a \<in> {i. vol i \<noteq> NaN}" "b \<in> {i. vol i \<noteq> NaN}" "c \<in> {i. vol i \<noteq> NaN}"
      "\<not> lt a b" "\<not> lt b c" for a b c
      using that f64_le_trans by (auto simp: lt_def f64_not_less)
  qed
  then have "\<not> vol i < vol j" if "i \<in> set (take ?n srt)" "j \<in> set (drop ?n srt)" for i j
    using take_sorted_wrt [OF _ that] by (auto simp: lt_def)
  moreover have "vol i \<noteq> NaN" if "i \<in> set srt" for i
    using that assms(4) by (auto simp: srt_def vol_def)
  ultimately have "\<forall>i\<in>set (take ?n srt). \<forall>j\<in>set (drop ?n srt). vol j \<le> vol i"
    by (metis f64_not_less in_set_dropD in_set_takeD)
  moreover have "symbols = map (scanned_symbol ?cfg) (take ?n srt)"
    using assms(1-3) by (simp add: ScanAll_def rank_and_cut_def cs sort take_map o_def) (simp add: pair_def)
  moreover have "mset (take ?n srt @ drop ?n srt) = mset (filter ok insts)"
    by (simp add: srt_def)
  moreover have "int (length (map (scanned_symbol ?cfg) (take ?n srt))) \<le> default_int 100 (un_LightScanMaxSymbols ?cfg)"
    by (auto simp: default_int_def min_def)
  ultimately show ?thesis by blast
qed

section \<open>Refreshing\<close>

definition universe_rows :: "store \<Rightarrow> universe_symbol list" where
  "universe_rows s = map snd (tb_rows (db_universe s))"

lemma write_symbol_rows:
  assumes "db_faults s = []"
  shows "universe_rows (fst (universe_InsertOrUpdate u s)) =
    (if \<exists>r\<in>set (universe_rows s). si_Symbol r = si_Symbol u
     then map (\<lambda>r. if si_Symbol r = si_Symbol u then u else r) (universe_rows s) else universe_rows s @ [u])"
  using assms
  by (auto simp: universe_InsertOrUpdate_def stmt_def universe_rows_def tb_upsert_def tb_map_def tb_append_def)

lemma write_symbol:
  assumes "db_faults s = []"
  shows "db_faults (fst (universe_InsertOrUpdate u s)) = []"
    "set (universe_rows (fst (universe_InsertOrUpdate u s))) =
      insert u {r \<in> set (universe_rows s). si_Symbol r \<noteq> si_Symbol u}"
  using assms write_symbol_rows [OF assms, of u]
  by (simp add: universe_InsertOrUpdate_def stmt_def, auto split: if_splits)

lemma persisted_rows:
  assumes "db_faults s = []" "\<forall>u\<in>set us. si_Symbol u = symbol \<longrightarrow> P u"
    and "\<And>u. P (u\<lparr>us_LastScanAt := now\<rparr>) \<longleftrightarrow> P u"
    and "(\<exists>u\<in>set us. si_Symbol u = symbol) \<or>
      (\<exists>r\<in>set (universe_rows s). si_Symbol r = symbol) \<and> (\<forall>r\<in>set (universe_rows s). si_Symbol r = symbol \<longrightarrow> P r)"
  shows "(\<exists>r\<in>set (universe_rows (persist_symbols now us s)). si_Symbol r = symbol) \<and>
    (\<forall>r\<in>set (universe_rows (persist_symbols now us s)). si_Symbol r = symbol \<longrightarrow> P r)"
  using assms(1,2,4)
proof (induction us arbitrary: s)
  case (Cons u us)
  let ?s = "fst (universe_InsertOrUpdate (u\<lparr>us_LastScanAt := now\<rparr>) s)"
  have w: "db_faults ?s = []"
    "set (universe_rows ?s) = insert (u\<lparr>us_LastScanAt := now\<rparr>) {r \<in> set (universe_rows s). si_Symbol r \<noteq> si_Symbol u}"
    using
      write_symbol [OF Cons.prems(1), of "u\<lparr>us_LastScanAt := now\<rparr>"] by simp_all
  have "persist_symbols now (u # us) s = persist_symbols now us ?s"
    by (simp add: persist_symbols_def)
  moreover have "(\<exists>v\<in>set us. si_Symbol v = symbol) \<or>
      (\<exists>r\<in>set (universe_rows ?s). si_Symbol r = symbol) \<and> (\<forall>r\<in>set (universe_rows ?s). si_Symbol r = symbol \<longrightarrow> P r)"
  proof (cases "si_Symbol u = symbol")
    case True
    then have "P (u\<lparr>us_LastScanAt := now\<rparr>)" using Cons.prems(2) assms(3) by simp
    then show ?thesis using True unfolding w(2) by auto
  next
    case False
    then show ?thesis using Cons.prems(3) unfolding w(2) by auto
  qed
  ultimately show ?case using Cons.IH [OF w(1)] Cons.prems(2) by simp
qed (simp add: persist_symbols_def)

lemma merge_forced_keeps:
  assumes "x \<in> set symbols" "si_Symbol x = symbol"
  shows "x \<in> set (merge_forced symbols ds) \<and>
    (\<forall>y\<in>set (merge_forced symbols ds). si_Symbol y = symbol \<longrightarrow> y \<in> set symbols)"
  unfolding merge_forced_def
  by (rule foldl_invariant) (use assms in \<open>auto split: if_splits\<close>)

text \<open>
  A refresh rewrites the flags of every symbol that the scan returns from the configuration alone: afterwards
  no row of the symbol is blacklisted and it is forced exactly when the configuration lists it, whatever was
  stored before. A symbol removed by hand is back after the next refresh.
\<close>

theorem refresh_undoes_removal:
  assumes "db_faults s = []" and "ScanAll sc ir tr = Inr symbols" and "\<exists>x\<in>set symbols. si_Symbol x = symbol"
  shows "(\<exists>r\<in>set (universe_rows (fst (RefreshUniverse sc ir tr now (fst (RemoveSymbol symbol s))))). si_Symbol r = symbol) \<and>
    (\<forall>r\<in>set (universe_rows (fst (RefreshUniverse sc ir tr now (fst (RemoveSymbol symbol s))))). si_Symbol r = symbol \<longrightarrow>
      \<not> us_Blacklist r \<and> us_ForceInclude r = (symbol \<in> set (un_ForceIncludeSymbols (sc_cfg sc))))"
proof -
  let ?s = "fst (RemoveSymbol symbol s)"
  let ?P = "\<lambda>u :: universe_symbol. \<not> us_Blacklist u \<and> us_ForceInclude u = (symbol \<in> set (un_ForceIncludeSymbols (sc_cfg sc)))"
  have live: "db_faults ?s = []"
    using assms(1) by (auto simp: RemoveSymbol_def universe_GetBySymbol_def query_def stmt_def
        universe_InsertOrUpdate_def split: option.split)
  have scanned: "?P x" if x: "x \<in> set symbols" "si_Symbol x = symbol" for x
  proof -
    have "x \<in> fst ` set (scan_candidates (sc_cfg sc) insts tickers)" if "symbols =
        rank_and_cut (sc_cfg sc) (scan_candidates (sc_cfg sc) insts tickers)" for insts tickers
      using x(1) that by (auto simp: rank_and_cut_def dest!: in_set_takeD intro: rev_image_eqI)
    moreover obtain insts tickers where "symbols = rank_and_cut (sc_cfg sc) (scan_candidates (sc_cfg sc) insts tickers)"
      using assms(2) by (auto simp: ScanAll_def split: sum.splits)
    ultimately have "x \<in> fst ` set (scan_candidates (sc_cfg sc) insts tickers)" by blast
    then obtain i where "x = scanned_symbol (sc_cfg sc) i" by (auto simp: scan_candidates_def)
    with x(2) show ?thesis by (simp add: scanned_symbol_def)
  qed
  define ds where "ds = (case snd (universe_GetAll ?s) of Inl e \<Rightarrow> [] | Inr us \<Rightarrow> us)"
  have "fst (RefreshUniverse sc ir tr now ?s) = persist_symbols now (merge_forced symbols ds) ?s"
    using live by (simp add: RefreshUniverse_def assms(2) ds_def universe_GetAll_def query_def stmt_def Let_def)
  moreover obtain x where x: "x \<in> set symbols" "si_Symbol x = symbol" using assms(3) by blast
  moreover have m: "\<forall>u\<in>set (merge_forced symbols ds). si_Symbol u = symbol \<longrightarrow> ?P u"
    using merge_forced_keeps [OF x, of ds] scanned by blast
  have "\<exists>u\<in>set (merge_forced symbols ds). si_Symbol u = symbol" using merge_forced_keeps [OF x, of ds] x(2) by blast
  then have "(\<exists>r\<in>set (universe_rows (persist_symbols now (merge_forced symbols ds) ?s)). si_Symbol r = symbol) \<and>
      (\<forall>r\<in>set (universe_rows (persist_symbols now (merge_forced symbols ds) ?s)). si_Symbol r = symbol \<longrightarrow> ?P r)"
    by (intro persisted_rows [OF live m] disjI1) simp_all
  ultimately show ?thesis by metis
qed

definition instrument_row :: json where
  "instrument_row = JObject
    [(''symbol'', JString ''ABCUSDT''), (''status'', JString ''Trading''), (''baseCoin'', JString ''ABC''),
     (''quoteCoin'', JString ''USDT''), (''minOrderQty'', JString ''1''), (''tickSize'', JString ''0.5''),
     (''qtyStep'', JString ''1''), (''maxLeverage'', JString ''25'')]"

definition ticker_row :: json where
  "ticker_row = JObject
    [(''symbol'', JString ''ABCUSDT''), (''turnover24h'', JString ''5e6''), (''lastPrice'', JString ''12''),
     (''bid1Price'', JString ''12''), (''ask1Price'', JString ''12'')]"

definition reply_with :: "json \<Rightarrow> http_reply" where
  "reply_with row =
    Reply 200 (Some (JObject [(''retCode'', JNumber ''0''), (''result'', JObject [(''list'', JArray [row])])]))"

definition small_scanner :: scanner where
  "small_scanner =
    NewScanner (uc_Universe demo_user_config) (uc_Strategy demo_user_config) (uc_LLMRouting demo_user_config) (Fin 100)"

definition listed_instrument :: bybit_instrument where
  "listed_instrument =
    \<lparr> bi_Symbol = ''ABCUSDT'', bi_Status = ''Trading'', bi_BaseCoin = ''ABC'', bi_QuoteCoin = ''USDT'',
      bi_MinOrderQty = ''1'', bi_TickSize = ''0.5'', bi_QtyStep = ''1'', bi_MaxLeverage = ''25'' \<rparr>"

definition listed_ticker :: bybit_ticker where
  "listed_ticker =
    \<lparr> bt_Symbol = ''ABCUSDT'', bt_Turnover24h = ''5e6'', bt_LastPrice = ''12'', bt_Bid1Price = ''12'',
      bt_Ask1Price = ''12'' \<rparr>"

definition listed_symbol :: universe_symbol where
  "listed_symbol =
    \<lparr> si_Symbol = ''ABCUSDT'', si_Status = ''Trading'', si_QuoteAsset = ''USDT'', si_BaseAsset = ''ABC'',
      si_MinNotional = Fin 1, si_TickSize = Fin (1 / 2), si_LotSize = Fin 1, si_MaxLeverage = Fin 25,
      us_Blacklist = False, us_ForceInclude = False, us_LiquidityScore = Fin 0, us_LastScanAt = zero_time \<rparr>"

lemma small_fetch:
  "fetchInstruments (reply_with instrument_row) = Inr [listed_instrument]"
  "fetchTickers (reply_with ticker_row) = Inr [listed_ticker]"
  by code_simp+

lemma small_scan: "ScanAll small_scanner (reply_with instrument_row) (reply_with ticker_row) = Inr [listed_symbol]"
  by code_simp

theorem scan_selects_largest_witness:
  "\<exists>kept left. mset (kept @ left) =
      mset (filter (\<lambda>i. passes_scan (sc_cfg small_scanner) i (ticker_of [listed_ticker] (bi_Symbol i))) [listed_instrument]) \<and>
     [listed_symbol] = map (scanned_symbol (sc_cfg small_scanner)) kept"
proof -
  have "\<forall>i\<in>set [listed_instrument]. turnover_of (ticker_of [listed_ticker] (bi_Symbol i)) \<noteq> NaN"
    by code_simp
  from scan_selects_largest [OF small_fetch small_scan this] show ?thesis
    by (elim exE conjE) (intro exI conjI; assumption)
qed

theorem refresh_undoes_removal_witness:
  "\<exists>r\<in>set (universe_rows (fst (RefreshUniverse small_scanner (reply_with instrument_row) (reply_with ticker_row) 7
       (fst (RemoveSymbol ''ABCUSDT'' (empty_store [])))))). si_Symbol r = ''ABCUSDT'' \<and> \<not> us_Blacklist r"
proof -
  have "db_faults (empty_store []) = []" by (simp add: empty_store_def)
  moreover have "\<exists>x\<in>set [listed_symbol]. si_Symbol x = ''ABCUSDT''" by (simp add: listed_symbol_def)
  ultimately show ?thesis
    using refresh_undoes_removal [OF _ small_scan, of "empty_store []" "''ABCUSDT''" 7] by blast
qed

section \<open>Candidates of the quality filter\<close>

lemma score_clamp_range: "v = NaN \<or> Fin 0 \<le> clamp v (Fin 0) (Fin 100) \<and> clamp v (Fin 0) (Fin 100) \<le> Fin 100"
  by (cases v) (auto simp: clamp_def)

definition score_ok :: "f64 \<Rightarrow> bool" where
  "score_ok x \<longleftrightarrow> x = NaN \<or> Fin 0 \<le> x \<and> x \<le> Fin 100"

lemma score_ok_clamp [simp]: "score_ok (clamp v (Fin 0) (Fin 100))"
  using score_clamp_range [of v] by (auto simp: score_ok_def clamp_def)

lemma computeScores_ok:
  "score_ok (fst (computeScores ob atr p)) \<and> score_ok (fst (snd (computeScores ob atr p))) \<and>
   score_ok (snd (snd (computeScores ob atr p)))"
  by (auto simp: computeScores_def liquidity_score_def execution_score_def volatility_score_def Let_def)
    (simp_all add: score_ok_def)

definition eligible_ok :: "scanner \<Rightarrow> candidate \<Rightarrow> bool" where
  "eligible_ok sc c \<longleftrightarrow>
    is_fin (cand_CandidateScore c) \<and>
    \<not> cand_CandidateScore c < default_f64 (Fin 75) (lr_MinCandidateScore (sc_llmRoute sc)) \<and>
    \<not> (Fin 0 < t_EstimatedTotalCost c \<and> t_ExpectedMove c \<le> Fin 3 * t_EstimatedTotalCost c) \<and>
    cand_LLMRoutingReasonCodes c = []"

definition quality_ok :: "scanner \<Rightarrow> scan_market \<Rightarrow> universe_symbol list \<Rightarrow> candidate \<Rightarrow> bool" where
  "quality_ok sc md symbols c \<longleftrightarrow>
    (\<exists>u ob. u \<in> set symbols \<and> t_Symbol c = si_Symbol u \<and>
       sk_OrderBook md (si_Symbol u) (sc_targetNotional sc) ''LONG'' = Some ob \<and> passes_quality (sc_cfg sc) u ob) \<and>
    score_ok (cand_LiquidityScore c) \<and> score_ok (cand_ExecutionScore c) \<and> score_ok (cand_VolatilityScore c) \<and>
    (cand_LLMEligible c \<longrightarrow> eligible_ok sc c)"

lemma quality_candidate_ok:
  "t_Symbol (quality_candidate sc symbol ob atr p) = symbol \<and>
   score_ok (cand_LiquidityScore (quality_candidate sc symbol ob atr p)) \<and>
   score_ok (cand_ExecutionScore (quality_candidate sc symbol ob atr p)) \<and>
   score_ok (cand_VolatilityScore (quality_candidate sc symbol ob atr p)) \<and>
   (cand_LLMEligible (quality_candidate sc symbol ob atr p) \<longrightarrow> eligible_ok sc (quality_candidate sc symbol ob atr p))"
  using computeScores_ok [of ob atr p]
  by (auto simp: quality_candidate_def evaluateLLMEligibility_def Let_def eligible_ok_def not_finite_def is_fin_def
      split: prod.split)

text \<open>
  The quality filter returns at most the configured number of candidates, each for a symbol it was given whose
  order book is fresh and, unless forced, within the spread, slippage and depth limits; every score is a number
  from 0 to 100 or not a number, and a candidate marked for review has a finite score that reaches the threshold
  and an expected move above three times its cost.
\<close>

theorem quality_filter_sound:
  assumes "FilterQuality sc md symbols s = (s', cs)"
  shows "int (length cs) \<le> default_int 30 (un_QualityFilterMaxSymbols (sc_cfg sc)) \<and>
    (\<forall>c\<in>set cs. quality_ok sc md symbols c)"
proof -
  let ?P = "\<lambda>st :: store \<times> candidate list.
    int (length (snd st)) \<le> default_int 30 (un_QualityFilterMaxSymbols (sc_cfg sc)) \<and>
    (\<forall>c\<in>set (snd st). quality_ok sc md symbols c)"
  have "?P (foldl (quality_step sc md) (s, []) symbols)"
  proof (rule foldl_invariant)
    show "?P (s, [])" by (simp add: default_int_def)
    fix st u assume P: "?P st" and u: "u \<in> set symbols"
    show "?P (quality_step sc md st u)"
    proof (cases "snd (quality_step sc md st u) = snd st")
      case False
      then obtain s0 s1 cs0 ob atr p where st: "st = (s0, cs0)"
        "int (length cs0) < default_int 30 (un_QualityFilterMaxSymbols (sc_cfg sc))"
        "sk_OrderBook md (si_Symbol u) (sc_targetNotional sc) ''LONG'' = Some ob" "passes_quality (sc_cfg sc) u ob"
        "quality_step sc md st u = (s1, cs0 @ [quality_candidate sc (si_Symbol u) ob atr p])"
        by (cases st) (auto simp: quality_step_def Let_def split: if_splits option.splits prod.splits)
      then have "quality_ok sc md symbols (quality_candidate sc (si_Symbol u) ob atr p)"
        unfolding quality_ok_def using quality_candidate_ok [of sc "si_Symbol u" ob atr p] u by blast
      with P st(1,2) show ?thesis unfolding st(5) by auto
    qed (use P in simp)
  qed
  then show ?thesis using assms by (simp add: FilterQuality_def)
qed

definition small_market :: scan_market where
  "small_market =
    \<lparr> sk_OrderBook = \<lambda>symbol n sd. Some \<lparr> ob_Symbol = symbol, ob_BestBid = Fin 12, ob_BestAsk = Fin 12,
        ob_SpreadBps = Fin 1, ob_BidDepth = Fin 10000, ob_AskDepth = Fin 10000, ob_DepthToPositionSizeRatio = Fin 5,
        ob_EstimatedSlippageBps = Fin 1, ob_LastUpdate = 0, ob_Stale = False \<rparr>,
      sk_LatestPrice = \<lambda>symbol. Some (Fin 12) \<rparr>"

theorem quality_filter_sound_witness:
  "\<exists>c. snd (FilterQuality small_scanner small_market [listed_symbol] (empty_store [])) = [c] \<and>
     quality_ok small_scanner small_market [listed_symbol] c"
proof -
  obtain s' cs where f: "FilterQuality small_scanner small_market [listed_symbol] (empty_store []) = (s', cs)"
    by (cases "FilterQuality small_scanner small_market [listed_symbol] (empty_store [])")
  have "passes_quality (sc_cfg small_scanner) listed_symbol (the (sk_OrderBook small_market ''ABCUSDT'' (Fin 100) ''LONG''))"
    by code_simp
  then have "length (snd (FilterQuality small_scanner small_market [listed_symbol] (empty_store []))) = 1"
    by (simp add: FilterQuality_def quality_step_def small_scanner_def NewScanner_def small_market_def listed_symbol_def
        demo_user_config_def market_price_def default_int_def Let_def split: prod.split)
  then obtain c where "cs = [c]" unfolding f by (auto simp: length_Suc_conv)
  with f quality_filter_sound [OF f] show ?thesis by simp
qed

end
