(* ===== verification/GoJson.thy ===== *)
theory GoJson
  imports GoParse "HOL-Library.Word"
begin

text \<open>
  \<open>json.Unmarshal\<close> of a text: the grammar of RFC 8259 as Go's decoder reads it, from a text to the value it denotes,
  \<open>None\<close> for a syntax error. Texts are UTF-8; the decoder's nesting limit of 10000 is not modelled. The parser
  recurses on a fuel that the length of the text bounds (\<open>parse_fuel\<close>).
\<close>

section \<open>Tokens\<close>

definition is_space :: "char \<Rightarrow> bool" where
  "is_space c \<longleftrightarrow> (of_char c :: nat) \<in> {32, 9, 10, 13}"

definition skip_space :: "string \<Rightarrow> string" where
  "skip_space s = dropWhile is_space s"

definition hex_digit :: "char \<Rightarrow> nat option" where
  "hex_digit c =
    (let n = of_char c :: nat
     in if 48 \<le> n \<and> n \<le> 57 then Some (n - 48)
        else if 97 \<le> n \<and> n \<le> 102 then Some (n - 87)
        else if 65 \<le> n \<and> n \<le> 70 then Some (n - 55) else None)"

definition hex4 :: "char \<Rightarrow> char \<Rightarrow> char \<Rightarrow> char \<Rightarrow> nat option" where
  "hex4 a b c d =
    (case all_some (map hex_digit [a, b, c, d]) of
       None \<Rightarrow> None | Some ds \<Rightarrow> Some (foldl (\<lambda>n d. 16 * n + d) 0 ds))"

text \<open>The UTF-8 bytes of a code point; a surrogate is replaced by U+FFFD.\<close>

definition utf8 :: "nat \<Rightarrow> string" where
  "utf8 code =
    (let n = (if 0xD800 \<le> code \<and> code < 0xE000 then 0xFFFD else code)
     in map char_of
       (if n < 0x80 then [n]
        else if n < 0x800 then [0xC0 + n div 64, 0x80 + n mod 64]
        else if n < 0x10000 then [0xE0 + n div 4096, 0x80 + n div 64 mod 64, 0x80 + n mod 64]
        else [0xF0 + n div 262144, 0x80 + n div 4096 mod 64, 0x80 + n div 64 mod 64, 0x80 + n mod 64]))"

definition escaped :: "char \<Rightarrow> char option" where
  "escaped c =
    map_of [(CHR 0x22, CHR 0x22), (CHR 0x5C, CHR 0x5C), (CHR 0x2F, CHR 0x2F), (CHR 0x62, CHR 0x08),
            (CHR 0x66, CHR 0x0C), (CHR 0x6E, CHR 0x0A), (CHR 0x72, CHR 0x0D), (CHR 0x74, CHR 0x09)] c"

definition high_surrogate :: "nat \<Rightarrow> bool" where
  "high_surrogate n \<longleftrightarrow> 0xD800 \<le> n \<and> n < 0xDC00"

definition low_surrogate :: "nat \<Rightarrow> bool" where
  "low_surrogate n \<longleftrightarrow> 0xDC00 \<le> n \<and> n < 0xE000"

definition prepend :: "string \<Rightarrow> (string \<times> string) option \<Rightarrow> (string \<times> string) option" where
  "prepend p r = map_option (\<lambda>(s, rest). (p @ s, rest)) r"

text \<open>The code units of \<open>\u\<close> escapes, followed by the rest of the text.\<close>

fun units :: "string \<Rightarrow> nat list \<times> string" where
  "units (b # u # c1 # c2 # c3 # c4 # r) =
    (if b = CHR 0x5C \<and> u = CHR ''u'' then
       (case hex4 c1 c2 c3 c4 of
          None \<Rightarrow> ([], b # u # c1 # c2 # c3 # c4 # r)
        | Some n \<Rightarrow> (let (ns, r') = units r in (n # ns, r')))
     else ([], b # u # c1 # c2 # c3 # c4 # r))"
| "units s = ([], s)"

text \<open>A pair of surrogates is one code point.\<close>

fun code_points :: "nat list \<Rightarrow> nat list" where
  "code_points (a # b # ns) =
    (if high_surrogate a \<and> low_surrogate b
     then (0x10000 + 0x400 * (a - 0xD800) + (b - 0xDC00)) # code_points ns
     else a # code_points (b # ns))"
| "code_points ns = ns"

lemma units_length: "length (snd (units s)) \<le> length s"
  by (induction s rule: units.induct) (auto split: option.split prod.splits)

lemma units_shorter: "fst (units s) \<noteq> [] \<Longrightarrow> length (snd (units s)) < length s"
proof (cases s rule: units.cases)
  case (1 b u c1 c2 c3 c4 r)
  assume "fst (units s) \<noteq> []"
  then show ?thesis using units_length [of r] 1 by (auto split: if_splits option.splits prod.splits)
qed auto

text \<open>The next piece of a string literal after its opening quote: its end, or characters and the rest.\<close>

datatype string_token = EndQuote string | Chars string string | BadString

definition escape_token :: "string \<Rightarrow> string_token" where
  "escape_token r =
    (case r of
       [] \<Rightarrow> BadString
     | e # r' \<Rightarrow> (case escaped e of None \<Rightarrow> BadString | Some x \<Rightarrow> Chars [x] r'))"

definition string_token :: "char \<Rightarrow> string \<Rightarrow> string_token" where
  "string_token c r =
    (if c = CHR 0x22 then EndQuote r
     else if c = CHR 0x5C then
       (let (ns, r') = units (c # r)
        in if ns = [] then escape_token r else Chars (concat (map utf8 (code_points ns))) r')
     else if (of_char c :: nat) < 32 then BadString
     else Chars [c] r)"

lemma string_token_length:
  "string_token c r = Chars p r' \<Longrightarrow> length r' \<le> length r"
  "string_token c r = EndQuote r' \<Longrightarrow> length r' \<le> length r"
  using units_shorter [of "c # r"]
  by (auto simp: string_token_def escape_token_def Let_def simp del: units.simps
      split: if_splits prod.splits list.splits option.splits)

function string_rest :: "string \<Rightarrow> (string \<times> string) option" where
  "string_rest [] = None"
| "string_rest (c # r) =
    (case string_token c r of
       EndQuote r' \<Rightarrow> Some ([], r')
     | Chars p r' \<Rightarrow> prepend p (string_rest r')
     | BadString \<Rightarrow> None)"
  by pat_completeness auto
termination
  by (relation "measure length") (auto simp: less_Suc_eq_le dest: string_token_length)

text \<open>A number literal: the text it consists of and the rest.\<close>

definition integer_part :: "string \<Rightarrow> (string \<times> string) option" where
  "integer_part s =
    (let (ds, r) = digits s
     in if ds = [] then None
        else if hd ds = CHR ''0'' then Some ([hd ds], drop 1 s) else Some (ds, r))"

definition fraction_part :: "string \<Rightarrow> (string \<times> string) option" where
  "fraction_part s =
    (case s of
       [] \<Rightarrow> Some ([], [])
     | c # r \<Rightarrow>
         if c \<noteq> CHR ''.'' then Some ([], s)
         else (let (ds, r') = digits r in if ds = [] then None else Some (c # ds, r')))"

definition exponent_part :: "string \<Rightarrow> (string \<times> string) option" where
  "exponent_part s =
    (case s of
       [] \<Rightarrow> Some ([], [])
     | c # r \<Rightarrow>
         if lower_char c \<noteq> CHR ''e'' then Some ([], s)
         else
           (let sg = takeWhile (\<lambda>c. c = CHR ''+'' \<or> c = CHR ''-'') (take 1 r); (ds, r') = digits (drop (length sg) r)
            in if ds = [] then None else Some (c # sg @ ds, r')))"

definition number_token :: "string \<Rightarrow> (string \<times> string) option" where
  "number_token s =
    (let m = takeWhile (\<lambda>c. c = CHR ''-'') (take 1 s)
     in case integer_part (drop (length m) s) of
          None \<Rightarrow> None
        | Some (ip, r1) \<Rightarrow>
            (case fraction_part r1 of
               None \<Rightarrow> None
             | Some (fp, r2) \<Rightarrow>
                 (case exponent_part r2 of None \<Rightarrow> None | Some (ep, r3) \<Rightarrow> Some (m @ ip @ fp @ ep, r3))))"

definition word :: "string \<Rightarrow> json \<Rightarrow> string \<Rightarrow> (json \<times> string) option" where
  "word w j s = (if take (length w) s = w then Some (j, drop (length w) s) else None)"

section \<open>Values\<close>

text \<open>
  A value; the elements of an array after a value; the members of an object from a key on. Each function is
  given a text without leading space.
\<close>

fun parse_value :: "nat \<Rightarrow> string \<Rightarrow> (json \<times> string) option"
  and parse_elements :: "nat \<Rightarrow> string \<Rightarrow> (json list \<times> string) option"
  and parse_members :: "nat \<Rightarrow> string \<Rightarrow> (json_map \<times> string) option" where
  "parse_value 0 s = None"
| "parse_value (Suc n) s =
    (case s of
       [] \<Rightarrow> None
     | c # r \<Rightarrow>
         if c = CHR 0x22 then map_option (\<lambda>(t, r). (JString t, r)) (string_rest r)
         else if c = CHR ''['' then
           (case skip_space r of
              [] \<Rightarrow> None
            | d # r' \<Rightarrow>
                if d = CHR '']'' then Some (JArray [], r')
                else map_option (\<lambda>(js, r). (JArray js, r)) (parse_elements n (d # r')))
         else if c = CHR ''{'' then
           (case skip_space r of
              [] \<Rightarrow> None
            | d # r' \<Rightarrow>
                if d = CHR ''}'' then Some (JObject [], r')
                else map_option (\<lambda>(m, r). (JObject m, r)) (parse_members n (d # r')))
         else if c = CHR ''t'' then word ''true'' (JBool True) s
         else if c = CHR ''f'' then word ''false'' (JBool False) s
         else if c = CHR ''n'' then word ''null'' JNull s
         else map_option (\<lambda>(t, r). (JNumber t, r)) (number_token s))"
| "parse_elements 0 s = None"
| "parse_elements (Suc n) s =
    (case parse_value n s of
       None \<Rightarrow> None
     | Some (j, r) \<Rightarrow>
         (case skip_space r of
            [] \<Rightarrow> None
          | d # r' \<Rightarrow>
              if d = CHR '']'' then Some ([j], r')
              else if d = CHR '','' then map_option (\<lambda>(js, r). (j # js, r)) (parse_elements n (skip_space r'))
              else None))"
| "parse_members 0 s = None"
| "parse_members (Suc n) s =
    (case s of
       [] \<Rightarrow> None
     | q # s' \<Rightarrow>
         if q \<noteq> CHR 0x22 then None
         else
           (case string_rest s' of
              None \<Rightarrow> None
            | Some (k, r) \<Rightarrow>
                (case skip_space r of
                   [] \<Rightarrow> None
                 | d # r1 \<Rightarrow>
                     if d \<noteq> CHR '':'' then None
                     else
                       (case parse_value n (skip_space r1) of
                          None \<Rightarrow> None
                        | Some (j, r2) \<Rightarrow>
                            (case skip_space r2 of
                               [] \<Rightarrow> None
                             | e # r3 \<Rightarrow>
                                 if e = CHR ''}'' then Some ([(k, j)], r3)
                                 else if e = CHR '','' then
                                   map_option (\<lambda>(m, r). ((k, j) # m, r)) (parse_members n (skip_space r3))
                                 else None)))))"

definition json_Unmarshal :: "string \<Rightarrow> json option" where
  "json_Unmarshal s =
    (case parse_value (2 * length s + 2) (skip_space s) of
       None \<Rightarrow> None | Some (j, r) \<Rightarrow> if skip_space r = [] then Some j else None)"

section \<open>The fuel is enough\<close>

lemma string_rest_length: "string_rest s = Some (t, r) \<Longrightarrow> length r < length s"
proof (induction s arbitrary: t r rule: string_rest.induct)
  case (2 c r0)
  then show ?case
    by (auto simp: prepend_def less_Suc_eq_le split: string_token.splits dest: string_token_length)
      (meson le_trans less_imp_le string_token_length(1))
qed simp

lemma skip_space_length: "length (skip_space s) \<le> length s"
  by (simp add: skip_space_def length_dropWhile_le)

lemma digits_length: "digits s = (ds, r) \<Longrightarrow> length ds + length r = length s"
  by (auto simp: digits_def) (metis length_append takeWhile_dropWhile_id)

lemma integer_part_length: "integer_part s = Some (t, r) \<Longrightarrow> length r < length s"
  using digits_length [of s] by (cases s; cases t) (auto simp: integer_part_def split: prod.splits if_splits)

lemma fraction_part_length: "fraction_part s = Some (t, r) \<Longrightarrow> length r \<le> length s"
  by (auto simp: fraction_part_def split: list.splits if_splits prod.splits dest!: digits_length)

lemma exponent_part_length: "exponent_part s = Some (t, r) \<Longrightarrow> length r \<le> length s"
  by (auto simp: exponent_part_def Let_def split: list.splits if_splits prod.splits dest!: digits_length)

lemma number_token_length: "number_token s = Some (t, r) \<Longrightarrow> length r < length s"
proof -
  assume a: "number_token s = Some (t, r)"
  let ?m = "takeWhile (\<lambda>c. c = CHR ''-'') (take 1 s)"
  from a obtain ip r1 fp r2 ep where "integer_part (drop (length ?m) s) = Some (ip, r1)"
      "fraction_part r1 = Some (fp, r2)" "exponent_part r2 = Some (ep, r)"
    by (auto simp: number_token_def Let_def split: option.splits)
  then have "length r < length (drop (length ?m) s)"
    by (auto dest!: integer_part_length fraction_part_length exponent_part_length)
  then show ?thesis by simp
qed

lemma word_length:
  assumes "word w j s = Some (v, r)" and "w \<noteq> []"
  shows "length r < length s"
proof -
  have "take (length w) s = w" "r = drop (length w) s"
    using assms(1) by (simp_all add: word_def split: if_splits)
  then have "s = w @ r" by (metis append_take_drop_id)
  then show ?thesis using assms(2) by simp
qed

lemmas token_length = string_rest_length number_token_length word_length

lemma skip_Cons: "skip_space s = c # r \<Longrightarrow> length r < length s"
  using skip_space_length [of s] by simp

lemma skip_less: "length r < length (skip_space s) \<Longrightarrow> length r < length s"
  using skip_space_length [of s] by simp

lemma parse_length:
  "parse_value n s = Some (j, r) \<Longrightarrow> length r < length s"
  "parse_elements n s = Some (js, r) \<Longrightarrow> length r < length s"
  "parse_members n s = Some (m, r) \<Longrightarrow> length r < length s"
proof (induction n arbitrary: s j js m r)
  case (Suc n)
  {
    case 1
    then show ?case by (auto split: list.splits if_splits dest!: token_length skip_Cons Suc.IH)
  next
    case 2
    then show ?case
      by (auto split: list.splits if_splits option.splits dest!: skip_Cons Suc.IH skip_less)
  next
    case 3
    then show ?case
      by (auto split: list.splits if_splits option.splits dest!: token_length skip_Cons Suc.IH skip_less)
  }
qed simp_all

text \<open>Beyond twice the length of the text more fuel changes nothing.\<close>

lemma parse_fuel:
  "2 * length s < n \<Longrightarrow> 2 * length s < m \<Longrightarrow> parse_value n s = parse_value m s"
  "2 * length s + 1 < n \<Longrightarrow> 2 * length s + 1 < m \<Longrightarrow> parse_elements n s = parse_elements m s"
  "2 * length s + 1 < n \<Longrightarrow> 2 * length s + 1 < m \<Longrightarrow> parse_members n s = parse_members m s"
proof (induction n arbitrary: s m)
  case (Suc n)
  {
    case 1
    then obtain k where m: "m = Suc k" by (cases m) auto
    have e: "parse_elements n t = parse_elements k t" "parse_members n t = parse_members k t"
      if "length t < length s" for t using 1 m that by (auto intro!: Suc.IH)
    show ?case by (simp add: m e skip_Cons less_Suc_eq_le Suc_le_eq split: list.split)
  next
    case 2
    then obtain k where m: "m = Suc k" by (cases m) auto
    have e: "parse_elements n (skip_space t) = parse_elements k (skip_space t)" if "length t < length s" for t
      using 2 m that skip_space_length [of t] by (auto intro!: Suc.IH)
    have "parse_value n s = parse_value k s" using 2 m by (auto intro!: Suc.IH)
    moreover have "length t < length s" if "parse_value k s = Some (j, r)" "skip_space r = c # t" for j r c t
      using parse_length(1) [OF that(1)] skip_Cons [OF that(2)] by simp
    ultimately show ?case by (simp add: m e split: list.split option.split)
  next
    case 3
    then obtain k where m: "m = Suc k" by (cases m) auto
    have v: "parse_value n (skip_space t) = parse_value k (skip_space t)"
        "parse_members n (skip_space t) = parse_members k (skip_space t)"
      if "length t < length s" for t using 3 m that skip_space_length [of t] by (auto intro!: Suc.IH)
    have a: "length t < length s" if "s = q # s'" "string_rest s' = Some (x, r)" "skip_space r = d # t" for q s' x r d t
      using string_rest_length [OF that(2)] skip_Cons [OF that(3)] that(1) by simp
    have b: "length u < length s"
      if "s = q # s'" "string_rest s' = Some (x, r)" "skip_space r = d # t"
        "parse_value k (skip_space t) = Some (j, r2)" "skip_space r2 = e # u" for q s' x r d t j r2 e u
      using a [OF that(1-3)] parse_length(1) [OF that(4)] skip_space_length [of t] skip_Cons [OF that(5)] by simp
    show ?case
    proof (cases s)
      case s: (Cons q s')
      show ?thesis
      proof (cases "string_rest s'")
        case (Some p)
        obtain x r where p: "p = (x, r)" by fastforce
        show ?thesis
        proof (cases "skip_space r")
          case (Cons d t)
          note e = v [OF a [OF s Some [unfolded p] Cons]]
          show ?thesis
          proof (cases "parse_value k (skip_space t)")
            case None
            then show ?thesis using s Some p Cons e m by simp
          next
            case v2: (Some p2)
            obtain j r2 where p2: "p2 = (j, r2)" by fastforce
            have "parse_members n (skip_space u) = parse_members k (skip_space u)" if "skip_space r2 = f # u" for f u
              using v(2) [OF b [OF s Some [unfolded p] Cons v2 [unfolded p2] that]] .
            then show ?thesis using s Some p Cons e m v2 p2 by (simp split: list.split)
          qed
        qed (simp add: s Some p m)
      qed (simp add: s m)
    qed (simp add: m)
  }
qed simp_all

lemma json_Unmarshal_fuel:
  "2 * length s < n \<Longrightarrow> json_Unmarshal s =
    (case parse_value n (skip_space s) of None \<Rightarrow> None | Some (j, r) \<Rightarrow> if skip_space r = [] then Some j else None)"
  using parse_fuel(1) [of "skip_space s" "2 * length s + 2" n] skip_space_length [of s]
  by (simp add: json_Unmarshal_def)

end
