(* ===== verification/LLMReview.thy ===== *)
theory LLMReview
  imports GoJson Config
begin

text \<open>
  The LLM reviewer (\<open>internal/llm/request.go\<close>, \<open>response.go\<close>, \<open>validator.go\<close>, \<open>prompt.go\<close>,
  \<open>reviewer.go\<close>): the request, the response and its validation, and the effect of a review by mode. The client
  that talks to the model is an interface; \<open>LLMClient\<close> provides it. A request is the record of what is sent. Text is
  ASCII, so that \<open>EqualFold\<close> is equality of the lower-case forms.
\<close>

section \<open>Request\<close>

text \<open>The modes are \<open>off\<close>, \<open>audit_only\<close>, \<open>veto\<close> and \<open>review\<close>.\<close>

definition ValidReviewModes :: "string list" where
  "ValidReviewModes = [''off'', ''audit_only'', ''veto'', ''review'']"

definition AllowedActionsForMode :: "string \<Rightarrow> string list" where
  "AllowedActionsForMode mode =
    (if mode = ''audit_only'' then [''APPROVE'', ''APPROVE_RETEST_ONLY'', ''REDUCE_SIZE'', ''REJECT'']
     else if mode = ''veto'' then [''APPROVE'', ''REDUCE_SIZE'', ''REJECT'']
     else if mode = ''review'' then [''APPROVE'', ''APPROVE_RETEST_ONLY'', ''REDUCE_SIZE'', ''REJECT'']
     else [])"

record review_tp =
  rtp_Price :: f64
  rtp_SizePct :: f64

record review_candidate =
  rcand_Strategy :: string
  rcand_Side :: string
  rcand_Symbol :: string
  rcand_Timeframe :: string
  rcand_EntryType :: string
  rcand_EntryPrice :: f64
  rcand_StopLoss :: f64
  rcand_TakeProfits :: "review_tp list"
  rcand_RRRatio :: f64
  rcand_TAReasoning :: json

record review_score =
  rsc_Total :: f64
  rsc_Components :: "f64 gomap"
  rsc_ScoringVersion :: string

record review_indicator =
  rind_Trend15m :: string
  rind_Trend1h :: string
  rind_Trend4h :: string
  rind_RSI14 :: f64
  rind_RSIState :: string
  rind_MACDHistogram :: f64
  rind_MACDDirection :: string
  rind_ATRPct :: f64
  rind_VolumeRatio :: f64
  rind_EMAAlignment :: "bool gomap"

record review_regime =
  rreg_BTCTrend1h :: string
  rreg_BTCTrend4h :: string
  rreg_BTCFiltersTriggered :: "string list"
  rreg_BTCDTrend :: string
  rreg_BTCDAvailable :: bool
  rreg_RelativeStrength4h :: f64
  rreg_RSClassification :: string

record review_risk_plan =
  rpl_Qty :: f64
  rpl_Leverage :: f64
  rpl_RiskAmountUSD :: f64
  rpl_RiskPct :: f64
  rpl_ModifiersApplied :: "string list"

record review_constraints =
  rcon_AllowedActions :: "string list"
  rcon_MustReturnJSONOnly :: bool

record review_request =
  req_SchemaVersion :: string
  req_RequestID :: string
  req_CandidateID :: string
  req_DecisionID :: string
  req_Timestamp :: time
  req_LMMode :: string
  req_Candidate :: review_candidate
  req_Score :: review_score
  req_Indicator :: review_indicator
  req_Regime :: review_regime
  req_RiskPlan :: review_risk_plan
  req_Constraints :: review_constraints

definition empty_candidate :: review_candidate where
  "empty_candidate =
    \<lparr> rcand_Strategy = [], rcand_Side = [], rcand_Symbol = [], rcand_Timeframe = [], rcand_EntryType = [],
      rcand_EntryPrice = Fin 0, rcand_StopLoss = Fin 0, rcand_TakeProfits = [], rcand_RRRatio = Fin 0,
      rcand_TAReasoning = JNull \<rparr>"

definition NewReviewRequestBuilder :: "time \<Rightarrow> string \<Rightarrow> string \<Rightarrow> string \<Rightarrow> string \<Rightarrow> review_request" where
  "NewReviewRequestBuilder now requestID candidateID decisionID mode =
    \<lparr> req_SchemaVersion = ''v2.1'', req_RequestID = requestID, req_CandidateID = candidateID,
      req_DecisionID = decisionID, req_Timestamp = now, req_LMMode = mode, req_Candidate = empty_candidate,
      req_Score = \<lparr> rsc_Total = Fin 0, rsc_Components = [], rsc_ScoringVersion = [] \<rparr>,
      req_Indicator =
        \<lparr> rind_Trend15m = [], rind_Trend1h = [], rind_Trend4h = [], rind_RSI14 = Fin 0, rind_RSIState = [],
          rind_MACDHistogram = Fin 0, rind_MACDDirection = [], rind_ATRPct = Fin 0, rind_VolumeRatio = Fin 0,
          rind_EMAAlignment = [] \<rparr>,
      req_Regime =
        \<lparr> rreg_BTCTrend1h = [], rreg_BTCTrend4h = [], rreg_BTCFiltersTriggered = [], rreg_BTCDTrend = [],
          rreg_BTCDAvailable = False, rreg_RelativeStrength4h = Fin 0, rreg_RSClassification = [] \<rparr>,
      req_RiskPlan =
        \<lparr> rpl_Qty = Fin 0, rpl_Leverage = Fin 0, rpl_RiskAmountUSD = Fin 0, rpl_RiskPct = Fin 0,
          rpl_ModifiersApplied = [] \<rparr>,
      req_Constraints =
        \<lparr> rcon_AllowedActions = AllowedActionsForMode mode, rcon_MustReturnJSONOnly = True \<rparr> \<rparr>"

text \<open>\<open>json.Marshal\<close> of a request fails exactly on a number that JSON cannot write.\<close>

definition request_numbers :: "review_request \<Rightarrow> f64 list" where
  "request_numbers r =
    (let c = req_Candidate r; s = req_Score r; i = req_Indicator r; p = req_RiskPlan r
     in [rcand_EntryPrice c, rcand_StopLoss c, rcand_RRRatio c] @
        concat (map (\<lambda>t. [rtp_Price t, rtp_SizePct t]) (rcand_TakeProfits c)) @
        [rsc_Total s] @ map snd (rsc_Components s) @
        [rind_RSI14 i, rind_MACDHistogram i, rind_ATRPct i, rind_VolumeRatio i, rreg_RelativeStrength4h (req_Regime r),
         rpl_Qty p, rpl_Leverage p, rpl_RiskAmountUSD p, rpl_RiskPct p])"

definition marshalable :: "review_request \<Rightarrow> bool" where
  "marshalable r \<longleftrightarrow> list_all (\<lambda>x. \<not> isNaN x \<and> \<not> isInf x) (request_numbers r)"

section \<open>Response\<close>

record review_flags =
  tfl_MarketRegimeSupportsTrade :: bool
  tfl_BTCConflict :: bool
  tfl_BTCDConflict :: bool
  tfl_TargetOutperformingBTC :: bool
  tfl_TrendAlignmentOK :: bool
  tfl_MomentumOK :: bool
  tfl_VolumeOK :: bool
  tfl_EntryTooLate :: bool
  tfl_NearResistance :: bool
  tfl_NearSupport :: bool
  tfl_RiskRewardOK :: bool

record review_response =
  resp_SchemaVersion :: string
  resp_RequestID :: string
  resp_CandidateID :: string
  resp_Action :: string
  resp_Confidence :: f64
  resp_SetupQuality :: string
  resp_ReasonSummary :: string
  resp_TechnicalFlags :: review_flags
  resp_SizeMultiplier :: f64
  resp_EntryMode :: string
  resp_DoNotChase :: bool
  resp_RejectionReason :: "string option"

definition flag_names :: "string list" where
  "flag_names =
    [''market_regime_supports_trade'', ''btc_conflict'', ''btcd_conflict'', ''target_outperforming_btc'',
     ''trend_alignment_ok'', ''momentum_ok'', ''volume_ok'', ''entry_too_late'', ''near_resistance'',
     ''near_support'', ''risk_reward_ok'']"

definition decode_flags :: "json option \<Rightarrow> review_flags option" where
  "decode_flags j =
    (case json_struct j of
       None \<Rightarrow> None
     | Some m \<Rightarrow>
         (case all_some (map (\<lambda>n. json_bool (json_field flag_names n m)) flag_names) of
            None \<Rightarrow> None
          | Some bs \<Rightarrow>
              Some \<lparr> tfl_MarketRegimeSupportsTrade = bs ! 0, tfl_BTCConflict = bs ! 1, tfl_BTCDConflict = bs ! 2,
                     tfl_TargetOutperformingBTC = bs ! 3, tfl_TrendAlignmentOK = bs ! 4, tfl_MomentumOK = bs ! 5,
                     tfl_VolumeOK = bs ! 6, tfl_EntryTooLate = bs ! 7, tfl_NearResistance = bs ! 8,
                     tfl_NearSupport = bs ! 9, tfl_RiskRewardOK = bs ! 10 \<rparr>))"

definition review_names :: "string list" where
  "review_names = [''action'', ''confidence'', ''setup_quality'', ''reason_summary'']"

definition decode_review :: "json option \<Rightarrow> (string \<times> f64 \<times> string \<times> string) option" where
  "decode_review j =
    (case json_struct j of
       None \<Rightarrow> None
     | Some m \<Rightarrow>
         (case (json_string (json_field review_names ''action'' m),
                json_float64 (json_field review_names ''confidence'' m),
                json_string (json_field review_names ''setup_quality'' m),
                json_string (json_field review_names ''reason_summary'' m)) of
            (Some a, Some c, Some q, Some r) \<Rightarrow> Some (a, c, q, r)
          | _ \<Rightarrow> None))"

definition adjustment_names :: "string list" where
  "adjustment_names = [''size_multiplier'', ''entry_mode'', ''do_not_chase'']"

definition decode_adjustment :: "json option \<Rightarrow> (f64 \<times> string \<times> bool) option" where
  "decode_adjustment j =
    (case json_struct j of
       None \<Rightarrow> None
     | Some m \<Rightarrow>
         (case (json_float64 (json_field adjustment_names ''size_multiplier'' m),
                json_string (json_field adjustment_names ''entry_mode'' m),
                json_bool (json_field adjustment_names ''do_not_chase'' m)) of
            (Some s, Some e, Some d) \<Rightarrow> Some (s, e, d)
          | _ \<Rightarrow> None))"

text \<open>A string pointer: absent and \<open>null\<close> are nil.\<close>

definition json_string_ptr :: "json option \<Rightarrow> string option option" where
  "json_string_ptr j =
    (case j of None \<Rightarrow> Some None | Some JNull \<Rightarrow> Some None | Some (JString s) \<Rightarrow> Some (Some s) | Some _ \<Rightarrow> None)"

definition response_names :: "string list" where
  "response_names =
    [''schema_version'', ''request_id'', ''candidate_id'', ''review'', ''technical_flags'',
     ''recommended_adjustment'', ''rejection_reason'']"

definition decode_response :: "json \<Rightarrow> review_response option" where
  "decode_response j =
    (case json_struct (Some j) of
       None \<Rightarrow> None
     | Some m \<Rightarrow>
         let fld = (\<lambda>n. json_field response_names n m)
         in (case (all_some (map (\<lambda>n. json_string (fld n)) [''schema_version'', ''request_id'', ''candidate_id'']),
                   decode_review (fld ''review''), decode_flags (fld ''technical_flags''),
                   decode_adjustment (fld ''recommended_adjustment''), json_string_ptr (fld ''rejection_reason'')) of
               (Some ids, Some (a, c, q, r), Some fl, Some (sm, em, dc), Some rr) \<Rightarrow>
                 Some \<lparr> resp_SchemaVersion = ids ! 0, resp_RequestID = ids ! 1, resp_CandidateID = ids ! 2,
                        resp_Action = a, resp_Confidence = c, resp_SetupQuality = q, resp_ReasonSummary = r,
                        resp_TechnicalFlags = fl, resp_SizeMultiplier = sm, resp_EntryMode = em,
                        resp_DoNotChase = dc, resp_RejectionReason = rr \<rparr>
             | _ \<Rightarrow> None))"

text \<open>\<open>json.Unmarshal\<close> of a text into a response.\<close>

definition unmarshal_response :: "string \<Rightarrow> review_response option" where
  "unmarshal_response raw = Option.bind (json_Unmarshal raw) decode_response"

section \<open>Validation\<close>

text \<open>A validation error: its reason, and the fixed text, the strings and the numbers of its detail.\<close>

datatype validation_error = ValidationError (ve_Reason: string) (ve_Detail: "string list") (ve_Numbers: "f64 list")

text \<open>\<open>ActionApprove\<close>, \<open>ActionApproveRetestOnly\<close>, \<open>ActionReduceSize\<close>, \<open>ActionReject\<close>.\<close>

definition ValidReviewActions :: "string list" where
  "ValidReviewActions = [''APPROVE'', ''APPROVE_RETEST_ONLY'', ''REDUCE_SIZE'', ''REJECT'']"

definition isActionAllowed :: "string \<Rightarrow> string list \<Rightarrow> bool" where
  "isActionAllowed action allowed \<longleftrightarrow> list_ex (\<lambda>a. ToLower action = ToLower a) allowed"

definition detectForbiddenChanges :: "review_response \<Rightarrow> validation_error option" where
  "detectForbiddenChanges resp =
    (if resp_EntryMode resp \<noteq> [] \<and> ToLower (resp_EntryMode resp) \<notin> {''market'', ''limit_retest'', ''''}
     then Some (ValidationError ''FORBIDDEN_CHANGE'' [resp_EntryMode resp] []) else None)"

definition TruncateReasonSummary :: "string \<Rightarrow> string" where
  "TruncateReasonSummary s = (if 200 < length s then take 200 s else s)"

text \<open>The checks after decoding, in their order; the candidate is the pointer that may be nil.\<close>

definition response_error :: "string \<Rightarrow> review_candidate option \<Rightarrow> review_response \<Rightarrow> validation_error option" where
  "response_error mode original resp =
    (let sm = resp_SizeMultiplier resp; allowed = AllowedActionsForMode mode
     in first_err
       [fail_if (resp_SchemaVersion resp = []) (ValidationError ''MISSING_FIELD'' [''schema_version''] []),
        fail_if (resp_Action resp = []) (ValidationError ''MISSING_FIELD'' [''review.action''] []),
        fail_if (\<not> isActionAllowed (resp_Action resp) allowed)
          (ValidationError ''FORBIDDEN_ACTION'' ([resp_Action resp, mode] @ allowed) []),
        fail_if (sm \<le> Fin 0 \<or> Fin 1 < sm) (ValidationError ''INVALID_SIZE_MULTIPLIER'' [] [sm]),
        (if original \<noteq> None then detectForbiddenChanges resp else None),
        fail_if (resp_Confidence resp < Fin 0 \<or> Fin 100 < resp_Confidence resp)
          (ValidationError ''INVALID_CONFIDENCE'' [] [resp_Confidence resp])])"

definition ValidateReviewResponse ::
  "string \<Rightarrow> string \<Rightarrow> review_candidate option \<Rightarrow> validation_error + review_response" where
  "ValidateReviewResponse rawJSON mode original =
    (case unmarshal_response rawJSON of
       None \<Rightarrow> Inl (ValidationError ''JSON_PARSE_FAILED'' [] [])
     | Some resp \<Rightarrow>
         (case response_error mode original resp of
            Some e \<Rightarrow> Inl e
          | None \<Rightarrow> Inr (resp\<lparr>resp_ReasonSummary := TruncateReasonSummary (resp_ReasonSummary resp)\<rparr>)))"

section \<open>Prompt\<close>

definition llmPromptVersion :: string where
  "llmPromptVersion = ''v1.0.0''"

definition ReviewSystemPrompt :: "string \<Rightarrow> string" where
  "ReviewSystemPrompt allowedActions =
    join [CHR 0x0A]
      ([''You are a technical analysis reviewer for a crypto futures bot.'',
       ''You DO NOT generate trades. A backend has already produced a candidate with full TA reasoning.'',
       ''Your job is to review the candidate and decide whether to APPROVE, REDUCE_SIZE, or REJECT.'',
       ''You may only act within {'' @ allowedActions @ ''}.'',
       ''You analyze the structured data provided and respond with JSON only matching the response schema.'',
       '''',
       ''Reject if:'',
       ''- Setup quality is poor despite high score'',
       ''- Multiple technical flags conflict (e.g. trend bullish but momentum weakening + near resistance + entry late)'',
       ''- Regime conflict not captured in score (e.g. BTC about to break support)'',
       '''',
       ''Reduce size if:'',
       ''- Setup is acceptable but has 1-2 mild concerns'',
       ''- Entry timing is mid-move rather than ideal'',
       '''',
       ''Approve if:'',
       ''- Score, regime, and TA align cleanly'',
       ''- No major timing concerns'',
       '''',
       ''You DO NOT:'',
       ''- Suggest different entries, SLs, or TPs'',
       ''- Reverse the side'',
       ''- Recommend a different symbol or strategy'',
       ''- Output anything except JSON''])"

section \<open>Reviewer\<close>

text \<open>Why a result is invalid: a fixed code, an HTTP status, or a failed validation.\<close>

datatype invalid_reason = Reason string | ApiStatus int | Invalid validation_error

record review_result =
  res_RawResponse :: string
  res_Response :: "review_response option"
  res_Valid :: bool
  res_InvalidReason :: invalid_reason
  res_TokensIn :: int
  res_TokensOut :: int
  res_LatencyMs :: int
  res_CostUSD :: f64
  res_Called :: bool

definition no_result :: "bool \<Rightarrow> invalid_reason \<Rightarrow> review_result" where
  "no_result called reason =
    \<lparr> res_RawResponse = [], res_Response = None, res_Valid = False, res_InvalidReason = reason, res_TokensIn = 0,
      res_TokensOut = 0, res_LatencyMs = 0, res_CostUSD = Fin 0, res_Called = called \<rparr>"

record review_outcome =
  out_CandidateID :: string
  out_Action :: string
  out_SizeMultiplier :: f64
  out_ReasonSummary :: string
  out_Confidence :: f64
  out_SetupQuality :: string
  out_Result :: review_result

text \<open>The interface \<open>ReviewClient\<close>: a call returns a result, which may be nil, and whether it failed.\<close>

record 'c review_client =
  rcl_Review :: "review_request \<Rightarrow> 'c \<Rightarrow> 'c \<times> review_result option \<times> bool"
  rcl_DailyCost :: "'c \<Rightarrow> f64"
  rcl_ResetDailyCost :: "'c \<Rightarrow> 'c"

text \<open>The client is nil in mode \<open>off\<close>.\<close>

record 'c reviewer =
  rvw_cfg :: llm_review_config
  rvw_client :: "'c option"
  rvw_mode :: string
  rvw_invalidCount :: int
  rvw_totalCalls :: int

definition NewReviewer :: "(llm_review_config \<Rightarrow> 'c) \<Rightarrow> llm_review_config \<Rightarrow> 'c reviewer" where
  "NewReviewer newClient cfg =
    (let cfg = LLMReviewConfig_WithDefaults cfg; mode = default_str ''off'' (lv_Mode cfg)
     in \<lparr> rvw_cfg = cfg, rvw_client = (if mode \<noteq> ''off'' then Some (newClient cfg) else None), rvw_mode = mode,
          rvw_invalidCount = 0, rvw_totalCalls = 0 \<rparr>)"

definition IsEnabled :: "'c reviewer \<Rightarrow> bool" where
  "IsEnabled r \<longleftrightarrow> rvw_mode r \<noteq> ''off''"

definition reviewer_DailyCost :: "'c review_client \<Rightarrow> 'c reviewer \<Rightarrow> f64" where
  "reviewer_DailyCost C r = (case rvw_client r of Some c \<Rightarrow> rcl_DailyCost C c | None \<Rightarrow> Fin 0)"

definition reviewer_ResetDailyCost :: "'c review_client \<Rightarrow> 'c reviewer \<Rightarrow> 'c reviewer" where
  "reviewer_ResetDailyCost C r = r\<lparr>rvw_client := map_option (rcl_ResetDailyCost C) (rvw_client r)\<rparr>"

record review_input =
  rin_Symbol :: string
  rin_Side :: string
  rin_StrategyName :: string
  rin_Timeframe :: string
  rin_EntryType :: string
  rin_EntryPrice :: f64
  rin_StopLoss :: f64
  rin_TakeProfits :: "review_tp list"
  rin_RRRatio :: f64
  rin_TAReasoning :: json
  rin_TotalScore :: f64
  rin_ScoreComponents :: "f64 gomap"
  rin_ScoringVersion :: string
  rin_Trend15m :: string
  rin_Trend1h :: string
  rin_Trend4h :: string
  rin_RSI14 :: f64
  rin_RSIState :: string
  rin_MACDHistogram :: f64
  rin_MACDDirection :: string
  rin_ATRPct :: f64
  rin_VolumeRatio :: f64
  rin_EMAAlignment :: "bool gomap"
  rin_BTCTrend1h :: string
  rin_BTCTrend4h :: string
  rin_BTCFiltersTrig :: "string list"
  rin_BTCDTrend :: string
  rin_BTCDAvailable :: bool
  rin_RelativeStrength :: f64
  rin_RSClass :: string
  rin_Qty :: f64
  rin_Leverage :: f64
  rin_RiskAmountUSD :: f64
  rin_RiskPct :: f64
  rin_ModifiersApplied :: "string list"

definition build_request :: "time \<Rightarrow> string \<Rightarrow> string \<Rightarrow> string \<Rightarrow> string \<Rightarrow> review_input \<Rightarrow> review_request" where
  "build_request now requestID candidateID decisionID mode i =
    (NewReviewRequestBuilder now requestID candidateID decisionID mode)
      \<lparr>req_Candidate :=
         \<lparr> rcand_Strategy = rin_StrategyName i, rcand_Side = rin_Side i, rcand_Symbol = rin_Symbol i,
           rcand_Timeframe = rin_Timeframe i, rcand_EntryType = rin_EntryType i, rcand_EntryPrice = rin_EntryPrice i,
           rcand_StopLoss = rin_StopLoss i, rcand_TakeProfits = rin_TakeProfits i, rcand_RRRatio = rin_RRRatio i,
           rcand_TAReasoning = rin_TAReasoning i \<rparr>,
       req_Score :=
         \<lparr> rsc_Total = rin_TotalScore i, rsc_Components = rin_ScoreComponents i,
           rsc_ScoringVersion = rin_ScoringVersion i \<rparr>,
       req_Indicator :=
         \<lparr> rind_Trend15m = rin_Trend15m i, rind_Trend1h = rin_Trend1h i, rind_Trend4h = rin_Trend4h i,
           rind_RSI14 = rin_RSI14 i, rind_RSIState = rin_RSIState i, rind_MACDHistogram = rin_MACDHistogram i,
           rind_MACDDirection = rin_MACDDirection i, rind_ATRPct = rin_ATRPct i,
           rind_VolumeRatio = rin_VolumeRatio i, rind_EMAAlignment = rin_EMAAlignment i \<rparr>,
       req_Regime :=
         \<lparr> rreg_BTCTrend1h = rin_BTCTrend1h i, rreg_BTCTrend4h = rin_BTCTrend4h i,
           rreg_BTCFiltersTriggered = rin_BTCFiltersTrig i, rreg_BTCDTrend = rin_BTCDTrend i,
           rreg_BTCDAvailable = rin_BTCDAvailable i, rreg_RelativeStrength4h = rin_RelativeStrength i,
           rreg_RSClassification = rin_RSClass i \<rparr>,
       req_RiskPlan :=
         \<lparr> rpl_Qty = rin_Qty i, rpl_Leverage = rin_Leverage i, rpl_RiskAmountUSD = rin_RiskAmountUSD i,
           rpl_RiskPct = rin_RiskPct i, rpl_ModifiersApplied = rin_ModifiersApplied i \<rparr>\<rparr>"

text \<open>What an unusable result does to the candidate, by mode.\<close>

definition applyFallback :: "string \<Rightarrow> review_outcome \<Rightarrow> review_result option \<Rightarrow> invalid_reason \<Rightarrow> review_outcome" where
  "applyFallback mode outcome result reason =
    (let o1 = outcome\<lparr>out_Result := (case result of Some r \<Rightarrow> r | None \<Rightarrow> no_result False reason)\<rparr>
     in if mode \<in> {''off'', ''audit_only'', ''review''} then o1\<lparr>out_Action := ''APPROVE'', out_SizeMultiplier := Fin 1\<rparr>
        else if mode = ''veto'' then o1\<lparr>out_Action := ''REJECT'', out_SizeMultiplier := Fin 1\<rparr>
        else o1)"

text \<open>What a valid response does: the switch compares the action exactly.\<close>

definition review_action :: "string \<Rightarrow> string \<Rightarrow> string" where
  "review_action mode action =
    (if mode = ''veto'' then (if action \<in> {''REJECT'', ''REDUCE_SIZE''} then action else ''APPROVE'')
     else if mode = ''review'' then
       (if action \<in> {''REJECT'', ''REDUCE_SIZE'', ''APPROVE_RETEST_ONLY''} then action else ''APPROVE'')
     else ''APPROVE'')"

definition apply_response :: "string \<Rightarrow> review_response \<Rightarrow> review_outcome \<Rightarrow> review_outcome" where
  "apply_response mode resp outcome =
    outcome\<lparr>out_Confidence := resp_Confidence resp, out_SetupQuality := resp_SetupQuality resp,
      out_ReasonSummary := resp_ReasonSummary resp, out_Action := review_action mode (resp_Action resp),
      out_SizeMultiplier := (if mode = ''audit_only'' then Fin 1 else resp_SizeMultiplier resp)\<rparr>"

text \<open>Judging the result of a call: the invalid results are counted.\<close>

definition judge_result ::
  "string \<Rightarrow> review_candidate \<Rightarrow> review_outcome \<Rightarrow> review_result \<Rightarrow> bool \<times> review_outcome" where
  "judge_result mode cand outcome result =
    (if \<not> res_Called result then (False, applyFallback mode outcome (Some result) (res_InvalidReason result))
     else
       (case ValidateReviewResponse (res_RawResponse result) mode (Some cand) of
          Inl e \<Rightarrow>
            let result = result\<lparr>res_Valid := False, res_InvalidReason := Invalid e\<rparr>
            in (True, applyFallback mode outcome (Some result) (Invalid e))
        | Inr resp \<Rightarrow>
            (False, apply_response mode resp
               (outcome\<lparr>out_Result := result\<lparr>res_Valid := True, res_Response := Some resp\<rparr>\<rparr>))))"

definition review_id :: "time \<Rightarrow> review_input \<Rightarrow> string" where
  "review_id now i = ''cand-'' @ rin_Symbol i @ ''-'' @ show_int now"

definition initial_outcome :: "string \<Rightarrow> review_outcome" where
  "initial_outcome candidateID =
    \<lparr> out_CandidateID = candidateID, out_Action = ''APPROVE'', out_SizeMultiplier = Fin 1, out_ReasonSummary = [],
      out_Confidence = Fin 0, out_SetupQuality = [], out_Result = no_result False (Reason ''MODE_OFF'') \<rparr>"

text \<open>A review; the two identifiers are fresh, the clock is read once. It never returns an error.\<close>

definition Review ::
  "'c review_client \<Rightarrow> string \<Rightarrow> string \<Rightarrow> time \<Rightarrow> review_input \<Rightarrow> 'c reviewer \<Rightarrow> 'c reviewer \<times> review_outcome" where
  "Review C requestID decisionID now i r =
    (let mode = rvw_mode r; r = r\<lparr>rvw_totalCalls := rvw_totalCalls r + 1\<rparr>;
         candidateID = review_id now i; outcome = initial_outcome candidateID
     in case (if mode = ''off'' then None else rvw_client r) of
          None \<Rightarrow> (r, outcome)
        | Some c \<Rightarrow>
            let req = build_request now requestID candidateID decisionID mode i
            in (case rcl_Review C req c of
                  (c, result, True) \<Rightarrow>
                    (r\<lparr>rvw_client := Some c\<rparr>, applyFallback mode outcome result (Reason ''LLM_CALL_ERROR''))
                | (c, None, False) \<Rightarrow>
                    (r\<lparr>rvw_client := Some c\<rparr>, applyFallback mode outcome None (Reason ''NULL_RESULT''))
                | (c, Some result, False) \<Rightarrow>
                    let (invalid, outcome) = judge_result mode (req_Candidate req) outcome result
                    in (r\<lparr>rvw_client := Some c, rvw_invalidCount := rvw_invalidCount r + (if invalid then 1 else 0)\<rparr>,
                        outcome)))"

end
