(* ===== verification/LLMClient.thy ===== *)
theory LLMClient
  imports LLMReview Domain
begin

text \<open>
  The two clients that talk to a chat model (\<open>internal/llm/review_client.go\<close>, \<open>client.go\<close>) and the veto context and
  response (\<open>veto_request.go\<close>). The HTTP transport is an argument: what each attempt is answered with, and whether
  the context is cancelled while a retry waits. Log lines are left out.
\<close>

section \<open>Transport\<close>

text \<open>An attempt: no answer, or a status with its body, \<open>None\<close> when reading the body fails.\<close>

datatype attempt = NoAnswer | Answer int "string option"

record chat_transport =
  ct_request_ok :: bool
  ct_answer :: "nat \<Rightarrow> attempt"
  ct_cancelled :: "nat \<Rightarrow> bool"
  ct_elapsed :: duration

datatype post_result = Cancelled | NoResponse | Response int "string option"

text \<open>
  The retry loop: the number of requests sent and the result of the last. The body of a 5xx answer is closed
  before the next attempt, so reading it afterwards fails.
\<close>

primrec post_attempts :: "chat_transport \<Rightarrow> nat \<Rightarrow> nat \<Rightarrow> post_result \<Rightarrow> nat \<times> post_result" where
  "post_attempts T 0 k p = (k, p)"
| "post_attempts T (Suc n) k p =
    (if 0 < k \<and> ct_cancelled T k then (k, Cancelled)
     else
       (case ct_answer T k of
          NoAnswer \<Rightarrow> post_attempts T n (k + 1) NoResponse
        | Answer status body \<Rightarrow>
            if status < 500 then (k + 1, Response status body)
            else post_attempts T n (k + 1) (Response status None)))"

definition post_chat :: "chat_transport \<Rightarrow> nat \<times> post_result" where
  "post_chat T = post_attempts T 3 0 NoResponse"

text \<open>The wait before attempt \<open>k > 0\<close>.\<close>

definition retry_backoff :: "nat \<Rightarrow> duration" where
  "retry_backoff k = (if seconds 5 < seconds (int k) then seconds 5 else seconds (int k))"

section \<open>Chat response\<close>

record chat_usage =
  cu_TotalTokens :: int
  cu_PromptTokens :: int
  cu_CompletionTokens :: int
  cu_CachedTokens :: "int option"

record chat_message_response =
  cm_Content :: string
  cm_ReasoningContent :: string

record chat_response =
  ch_Choices :: "chat_message_response list"
  ch_Usage :: "chat_usage option"
  ch_Error :: "string option"

text \<open>A pointer to a struct: absent and \<open>null\<close> are nil.\<close>

definition json_pointer :: "(json_map \<Rightarrow> 'a option) \<Rightarrow> json option \<Rightarrow> 'a option option" where
  "json_pointer dec j =
    (case j of
       None \<Rightarrow> Some None
     | Some JNull \<Rightarrow> Some None
     | Some (JObject m) \<Rightarrow> map_option Some (dec m)
     | Some _ \<Rightarrow> None)"

definition decode_message :: "json option \<Rightarrow> chat_message_response option" where
  "decode_message j =
    Option.bind (json_struct j) (\<lambda>m.
      let names = [''content'', ''reasoning_content'']
      in case (json_string (json_field names ''content'' m), json_string (json_field names ''reasoning_content'' m)) of
           (Some c, Some r) \<Rightarrow> Some \<lparr> cm_Content = c, cm_ReasoningContent = r \<rparr>
         | _ \<Rightarrow> None)"

definition decode_choice :: "json option \<Rightarrow> chat_message_response option" where
  "decode_choice j = Option.bind (json_struct j) (\<lambda>m. decode_message (json_field [''message''] ''message'' m))"

definition decode_usage :: "json_map \<Rightarrow> chat_usage option" where
  "decode_usage m =
    (let names = [''total_tokens'', ''prompt_tokens'', ''completion_tokens'', ''prompt_tokens_details'']
     in case (json_int64 (json_field names ''total_tokens'' m), json_int64 (json_field names ''prompt_tokens'' m),
              json_int64 (json_field names ''completion_tokens'' m),
              json_pointer (\<lambda>d. json_int64 (json_field [''cached_tokens''] ''cached_tokens'' d))
                (json_field names ''prompt_tokens_details'' m)) of
          (Some t, Some p, Some c, Some d) \<Rightarrow>
            Some \<lparr> cu_TotalTokens = t, cu_PromptTokens = p, cu_CompletionTokens = c, cu_CachedTokens = d \<rparr>
        | _ \<Rightarrow> None)"

definition decode_chat :: "json \<Rightarrow> chat_response option" where
  "decode_chat j =
    Option.bind (json_struct (Some j)) (\<lambda>m.
      let names = [''choices'', ''usage'', ''error'']
      in case (json_list decode_choice (json_field names ''choices'' m),
               json_pointer decode_usage (json_field names ''usage'' m),
               json_pointer (\<lambda>e. json_string (json_field [''message''] ''message'' e)) (json_field names ''error'' m)) of
           (Some cs, Some u, Some e) \<Rightarrow> Some \<lparr> ch_Choices = cs, ch_Usage = u, ch_Error = e \<rparr>
         | _ \<Rightarrow> None)"

definition unmarshal_chat :: "string \<Rightarrow> chat_response option" where
  "unmarshal_chat raw = Option.bind (json_Unmarshal raw) decode_chat"

text \<open>
  The content of the first choice of an answer with status 200 and its usage, or why there is none together with
  the text to keep.
\<close>

definition chat_content :: "post_result \<Rightarrow> (invalid_reason \<times> string) + (string \<times> chat_usage option)" where
  "chat_content p =
    (case p of
       Cancelled \<Rightarrow> Inl (Reason ''TIMEOUT'', [])
     | NoResponse \<Rightarrow> Inl (Reason ''API_ERROR'', [])
     | Response status None \<Rightarrow> Inl (Reason ''RESPONSE_READ_ERROR'', [])
     | Response status (Some body) \<Rightarrow>
         if status \<noteq> 200 then Inl (ApiStatus status, body)
         else
           (case unmarshal_chat body of
              None \<Rightarrow> Inl (Reason ''INVALID_JSON'', body)
            | Some c \<Rightarrow>
                if ch_Error c \<noteq> None then Inl (Reason ''API_ERROR_IN_RESPONSE'', body)
                else
                  (case ch_Choices c of
                     [] \<Rightarrow> Inl (Reason ''NO_CHOICES'', body)
                   | m # ms \<Rightarrow> Inr (cm_Content m, ch_Usage c))))"

section \<open>Review client\<close>

text \<open>The daily cost is an integer count of \<open>10 ^ -10\<close> dollars.\<close>

record review_http_client =
  rhc_cfg :: llm_review_config
  rhc_dailyCost :: int
  rhc_provider :: string

definition NewReviewClient :: "llm_review_config \<Rightarrow> review_http_client" where
  "NewReviewClient cfg =
    \<lparr> rhc_cfg = LLMReviewConfig_WithDefaults cfg, rhc_dailyCost = 0, rhc_provider = lv_Provider cfg \<rparr>"

definition getAPIKey :: "(string \<Rightarrow> string) \<Rightarrow> string \<Rightarrow> string" where
  "getAPIKey getenv provider =
    (if provider = ''deepseek'' then getenv ''DEEPSEEK_API_KEY''
     else if getenv ''OPENROUTER_API_KEY'' \<noteq> [] then getenv ''OPENROUTER_API_KEY'' else getenv ''DEEPSEEK_API_KEY'')"

definition cost_units :: "int \<Rightarrow> f64" where
  "cost_units n = f64_of_int n / Fin 10000000000"

definition rhc_DailyCost :: "review_http_client \<Rightarrow> f64" where
  "rhc_DailyCost c = cost_units (rhc_dailyCost c)"

definition rhc_ResetDailyCost :: "review_http_client \<Rightarrow> review_http_client" where
  "rhc_ResetDailyCost c = c\<lparr>rhc_dailyCost := 0\<rparr>"

definition cap_reached :: "review_http_client \<Rightarrow> bool" where
  "cap_reached c \<longleftrightarrow>
    Fin 0 < lv_DailyCostCapUSD (rhc_cfg c) \<and> lv_DailyCostCapUSD (rhc_cfg c) \<le> rhc_DailyCost c"

text \<open>The price of a call and its count of cost units; the token count is split in halves.\<close>

definition call_cost :: "chat_usage \<Rightarrow> f64" where
  "call_cost u = f64_of_int (cu_TotalTokens u) * lit (1 / 100000)"

definition charge_usage :: "chat_usage option \<Rightarrow> review_http_client \<times> review_result \<Rightarrow> review_http_client \<times> review_result" where
  "charge_usage usage cr =
    (case usage of
       None \<Rightarrow> cr
     | Some u \<Rightarrow>
         let half = (cu_TotalTokens u + (if cu_TotalTokens u < 0 then 1 else 0)) div 2
         in ((fst cr)\<lparr>rhc_dailyCost := wrap64 (rhc_dailyCost (fst cr) + f64_to_int64 (call_cost u * Fin 10000000000))\<rparr>,
             (snd cr)\<lparr>res_TokensIn := half, res_TokensOut := half, res_CostUSD := call_cost u\<rparr>))"

definition client_Review ::
  "(string \<Rightarrow> string) \<Rightarrow> chat_transport \<Rightarrow> review_request \<Rightarrow> review_http_client
    \<Rightarrow> review_http_client \<times> review_result option \<times> bool" where
  "client_Review getenv T req c =
    (if cap_reached c then (c, Some (no_result False (Reason ''DAILY_COST_CAP_REACHED'')), False)
     else if \<not> marshalable req then (c, Some (no_result True (Reason ''REQUEST_MARSHAL_ERROR'')), False)
     else if getAPIKey getenv (rhc_provider c) = [] then (c, Some (no_result True (Reason ''MISSING_API_KEY'')), False)
     else if \<not> ct_request_ok T then (c, Some (no_result True (Reason ''REQUEST_CREATE_ERROR'')), False)
     else
       let latency = ct_elapsed T div 1000000
       in (case chat_content (snd (post_chat T)) of
             Inl (reason, raw) \<Rightarrow>
               (c, Some ((no_result True reason)\<lparr>res_RawResponse := raw, res_LatencyMs := latency\<rparr>), False)
           | Inr (content, usage) \<Rightarrow>
               let r = (no_result True (Reason ''''))\<lparr>res_RawResponse := content, res_LatencyMs := latency\<rparr>;
                   (c, r) = charge_usage usage (c, r)
               in (case unmarshal_response content of
                     None \<Rightarrow> (c, Some (r\<lparr>res_InvalidReason := Reason ''RESPONSE_JSON_PARSE_FAILED''\<rparr>), False)
                   | Some resp \<Rightarrow> (c, Some (r\<lparr>res_Response := Some resp, res_Valid := True\<rparr>), False))))"

text \<open>The client behind the interface of the reviewer.\<close>

definition http_client :: "(string \<Rightarrow> string) \<Rightarrow> chat_transport \<Rightarrow> review_http_client review_client" where
  "http_client getenv T =
    \<lparr> rcl_Review = client_Review getenv T, rcl_DailyCost = rhc_DailyCost, rcl_ResetDailyCost = rhc_ResetDailyCost \<rparr>"

section \<open>Veto client\<close>

record openAI_client =
  oai_cfg :: llm_config
  oai_budget :: llm_budget_config
  oai_dailyCost :: int
  oai_provider :: string

definition newOpenAIClient :: "llm_config \<Rightarrow> string \<Rightarrow> openAI_client" where
  "newOpenAIClient cfg provider =
    \<lparr> oai_cfg = cfg, oai_budget = lm_Budget cfg, oai_dailyCost = 0, oai_provider = provider \<rparr>"

definition NewOpenRouterClient :: "llm_config \<Rightarrow> openAI_client" where
  "NewOpenRouterClient cfg = newOpenAIClient cfg ''openrouter''"

definition NewDeepSeekClient :: "llm_config \<Rightarrow> openAI_client" where
  "NewDeepSeekClient cfg = newOpenAIClient cfg ''deepseek''"

definition oai_DailyCost :: "openAI_client \<Rightarrow> f64" where
  "oai_DailyCost c = cost_units (oai_dailyCost c)"

definition oai_ResetDailyCost :: "openAI_client \<Rightarrow> openAI_client" where
  "oai_ResetDailyCost c = c\<lparr>oai_dailyCost := 0\<rparr>"

text \<open>The reason code of a fallback: a fixed code, or \<open>API_STATUS_\<close> with the status.\<close>

definition reason_code :: "invalid_reason \<Rightarrow> string" where
  "reason_code r =
    (case r of Reason s \<Rightarrow> s | ApiStatus n \<Rightarrow> ''API_STATUS_'' @ show_int n | Invalid e \<Rightarrow> ve_Reason e)"

definition no_decision :: llm_decision where
  "no_decision =
    \<lparr> ld_Decision = [], ld_Confidence = Fin 0, ld_SizeMultiplier = Fin 0, ld_Regime = [], ld_ReasonCodes = [],
      ld_RiskFlags = [], ld_Notes = [], ld_RawResponse = [], ld_ValidationStatus = [], ld_CandidateID = 0 \<rparr>"

definition fallbackDecision :: "string \<Rightarrow> string \<Rightarrow> string \<Rightarrow> llm_decision" where
  "fallbackDecision decision reason raw =
    no_decision\<lparr>ld_Decision := decision, ld_ReasonCodes := [reason], ld_RawResponse := raw,
      ld_ValidationStatus := ''fallback''\<rparr>"

definition decision_names :: "string list" where
  "decision_names =
    [''decision'', ''confidence'', ''size_multiplier'', ''regime'', ''reason_codes'', ''risk_flags'', ''notes'']"

definition decode_decision :: "json \<Rightarrow> llm_decision option" where
  "decode_decision j =
    Option.bind (json_struct (Some j)) (\<lambda>m.
      let fld = (\<lambda>n. json_field decision_names n m)
      in case (all_some (map (\<lambda>n. json_string (fld n)) [''decision'', ''regime'', ''notes'']),
               json_float64 (fld ''confidence''), json_float64 (fld ''size_multiplier''),
               json_list json_string (fld ''reason_codes''), json_list json_string (fld ''risk_flags'')) of
           (Some ts, Some c, Some sm, Some rcs, Some rfs) \<Rightarrow>
             Some (no_decision\<lparr>ld_Decision := ts ! 0, ld_Confidence := c, ld_SizeMultiplier := sm,
               ld_Regime := ts ! 1, ld_ReasonCodes := rcs, ld_RiskFlags := rfs, ld_Notes := ts ! 2\<rparr>)
         | _ \<Rightarrow> None)"

definition parseDecision :: "string \<Rightarrow> llm_decision option" where
  "parseDecision content = Option.bind (json_Unmarshal content) decode_decision"

text \<open>A lookup in a map with \<open>float64\<close> keys compares with \<open>==\<close>.\<close>

definition validSizeMultipliers :: "f64 \<Rightarrow> bool" where
  "validSizeMultipliers x \<longleftrightarrow> list_ex (feq x) [Fin 1, Fin (3 / 4), Fin (1 / 2), Fin (1 / 4), Fin 0]"

definition validateDecision :: "llm_decision \<Rightarrow> validation_error option" where
  "validateDecision d =
    first_err
      [fail_if (ld_Decision d \<notin> {''ALLOW_MARKET'', ''ALLOW_LIMIT_RETEST'', ''REDUCE_SIZE'', ''BLOCK''})
         (ValidationError ''invalid decision'' [ld_Decision d] []),
       fail_if (ld_Decision d = ''REDUCE_SIZE'' \<and> \<not> validSizeMultipliers (ld_SizeMultiplier d))
         (ValidationError ''invalid size_multiplier'' [] [ld_SizeMultiplier d])]"

text \<open>The units charged for a call.\<close>

definition veto_cost :: "chat_usage \<Rightarrow> int" where
  "veto_cost u =
    (let cached = (case cu_CachedTokens u of Some n \<Rightarrow> n | None \<Rightarrow> 0);
         cacheMiss = wrap64 (cu_PromptTokens u - cached);
         cacheMiss = (if cacheMiss < 0 then 0 else cacheMiss)
     in wrap64 (cached * 28 + cacheMiss * 1400 + cu_CompletionTokens u * 2800))"

definition budget_exceeded :: "openAI_client \<Rightarrow> bool" where
  "budget_exceeded c \<longleftrightarrow>
    Fin 0 < lb_MaxCostUSDPerDay (oai_budget c) \<and>
    f64_to_int64 (lb_MaxCostUSDPerDay (oai_budget c) * Fin 10000000000) \<le> oai_dailyCost c"

definition veto_api_key :: "(string \<Rightarrow> string) \<Rightarrow> string \<Rightarrow> string" where
  "veto_api_key getenv provider =
    (if provider = ''deepseek'' then getenv ''DEEPSEEK_API_KEY'' else getenv ''OPENROUTER_API_KEY'')"

text \<open>The decision for the content of an answer, or the reason for the fallback.\<close>

definition decision_of :: "string \<Rightarrow> string + llm_decision" where
  "decision_of content =
    (case parseDecision content of
       None \<Rightarrow> Inl ''INVALID_DECISION_JSON''
     | Some d \<Rightarrow>
         if validateDecision d \<noteq> None then Inl ''VALIDATION_FAILED''
         else if ld_Confidence d < Fin (3 / 4) then Inl ''LOW_CONFIDENCE''
         else Inr (d\<lparr>ld_RawResponse := content\<rparr>))"

text \<open>The context is marshalled before the call; the error is the one of a cancelled context.\<close>

definition VetoRequest ::
  "(string \<Rightarrow> string) \<Rightarrow> chat_transport \<Rightarrow> openAI_client \<Rightarrow> openAI_client \<times> llm_decision \<times> bool" where
  "VetoRequest getenv T c =
    (if budget_exceeded c then (c, fallbackDecision ''BLOCK'' ''LLM_BUDGET_EXCEEDED'' [], False)
     else if veto_api_key getenv (oai_provider c) = [] then (c, fallbackDecision ''BLOCK'' ''MISSING_API_KEY'' [], False)
     else if \<not> ct_request_ok T then (c, fallbackDecision ''BLOCK'' ''REQUEST_CREATE_ERROR'' [], False)
     else
       (case snd (post_chat T) of
          Cancelled \<Rightarrow> (c, fallbackDecision ''BLOCK'' ''TIMEOUT_CANCELED'' [], True)
        | p \<Rightarrow>
            (case chat_content p of
               Inl (reason, raw) \<Rightarrow> (c, fallbackDecision ''BLOCK'' (reason_code reason) raw, False)
             | Inr (content, usage) \<Rightarrow>
                 (case decision_of content of
                    Inl reason \<Rightarrow> (c, fallbackDecision ''BLOCK'' reason content, False)
                  | Inr d \<Rightarrow>
                      (case usage of
                         None \<Rightarrow> (c, d, False)
                       | Some u \<Rightarrow> (c\<lparr>oai_dailyCost := wrap64 (oai_dailyCost c + veto_cost u)\<rparr>, d, False))))))"

section \<open>Veto context\<close>

record veto_input =
  vt_RequestID :: string
  vt_CandidateID :: string
  vt_Symbol :: string
  vt_Side :: string
  vt_Strategy :: string
  vt_EntryPrice :: f64
  vt_StopLoss :: f64
  vt_TakeProfit :: f64
  vt_RR :: f64
  vt_Score :: f64
  vt_SetupQuality :: f64
  vt_Regime :: string
  vt_BTCTrend :: string
  vt_BTCDTrend :: string
  vt_RS1h :: f64
  vt_RS4h :: f64
  vt_VolumeRatio :: f64
  vt_ATRPct :: f64
  vt_Warnings :: "string list"
  vt_AmbiguityFlags :: "string list"

datatype veto_value = VText string | VNumber f64 | VTexts "string list"

primrec writable :: "veto_value \<Rightarrow> bool" where
  "writable (VText s) = True"
| "writable (VNumber x) = (\<not> isNaN x \<and> \<not> isInf x)"
| "writable (VTexts ts) = True"

definition veto_fields :: "veto_input \<Rightarrow> (string \<times> veto_value) list" where
  "veto_fields v =
    [(''schema_version'', VText ''2.1''), (''request_id'', VText (vt_RequestID v)),
     (''candidate_id'', VText (vt_CandidateID v)), (''symbol'', VText (vt_Symbol v)), (''side'', VText (vt_Side v)),
     (''strategy'', VText (vt_Strategy v)), (''entry_price'', VNumber (vt_EntryPrice v)),
     (''stop_loss'', VNumber (vt_StopLoss v)), (''rr'', VNumber (vt_RR v)), (''score'', VNumber (vt_Score v)),
     (''setup_quality'', VNumber (vt_SetupQuality v)), (''regime'', VText (vt_Regime v)),
     (''btc_trend'', VText (vt_BTCTrend v)), (''btcd_trend'', VText (vt_BTCDTrend v)),
     (''rs_1h'', VNumber (vt_RS1h v)), (''rs_4h'', VNumber (vt_RS4h v)),
     (''volume_ratio'', VNumber (vt_VolumeRatio v)), (''atr_pct'', VNumber (vt_ATRPct v))] @
    code_if (Fin 0 < vt_TakeProfit v) (''take_profit'', VNumber (vt_TakeProfit v)) @
    code_if (vt_Warnings v \<noteq> []) (''warnings'', VTexts (vt_Warnings v)) @
    code_if (vt_AmbiguityFlags v \<noteq> []) (''ambiguity_flags'', VTexts (vt_AmbiguityFlags v))"

text \<open>The members of the object that is sent, in the order of their keys; a number JSON cannot write empties it.\<close>

definition BuildVetoContext :: "veto_input \<Rightarrow> (string \<times> veto_value) list" where
  "BuildVetoContext v =
    (if list_all (\<lambda>(k, x). writable x) (veto_fields v) then sort_key fst (veto_fields v) else [])"

section \<open>Veto response\<close>

definition parseVetoJSON :: "string \<Rightarrow> validation_error + review_response" where
  "parseVetoJSON raw =
    (case unmarshal_response raw of
       None \<Rightarrow> Inl (ValidationError ''JSON_PARSE_FAILED'' [] [])
     | Some resp \<Rightarrow>
         let sm = resp_SizeMultiplier resp
         in (case first_err
               [fail_if (resp_SchemaVersion resp = []) (ValidationError ''MISSING_FIELD'' [''schema_version''] []),
                fail_if (resp_Action resp = []) (ValidationError ''MISSING_FIELD'' [''review.action''] []),
                fail_if (resp_Action resp \<notin> set ValidReviewActions)
                  (ValidationError ''INVALID_ACTION'' [resp_Action resp] []),
                fail_if (resp_Confidence resp < Fin 0 \<or> Fin 100 < resp_Confidence resp)
                  (ValidationError ''INVALID_CONFIDENCE'' [] [resp_Confidence resp]),
                fail_if (sm < Fin 0 \<or> Fin 1 < sm) (ValidationError ''INVALID_SIZE_MULTIPLIER'' [] [sm]),
                fail_if (resp_Action resp = ''REJECT'' \<and> resp_RejectionReason resp \<in> {None, Some []})
                  (ValidationError ''MISSING_REJECTION_REASON'' [''required when REJECT''] [])] of
               Some e \<Rightarrow> Inl e
             | None \<Rightarrow> Inr resp))"

definition ApplyToDecision :: "review_response \<Rightarrow> llm_decision" where
  "ApplyToDecision r =
    (let conf = (if Fin 1 < resp_Confidence r then resp_Confidence r / Fin 100 else resp_Confidence r);
         sm = resp_SizeMultiplier r; sm = (if Fin 0 < sm \<and> sm \<le> Fin 1 then sm else Fin 1);
         d = no_decision\<lparr>ld_Confidence := conf, ld_SizeMultiplier := sm, ld_ReasonCodes := [resp_ReasonSummary r]\<rparr>;
         a = resp_Action r
     in if a = ''APPROVE'' then d\<lparr>ld_Decision := ''ALLOW_MARKET''\<rparr>
        else if a = ''APPROVE_RETEST_ONLY'' then d\<lparr>ld_Decision := ''ALLOW_LIMIT_RETEST''\<rparr>
        else if a = ''REDUCE_SIZE'' then
          d\<lparr>ld_Decision := ''REDUCE_SIZE'', ld_SizeMultiplier := (if Fin (1 / 2) < sm then Fin (1 / 2) else sm)\<rparr>
        else if a = ''REJECT'' then
          d\<lparr>ld_Decision := ''BLOCK'',
            ld_ReasonCodes := [resp_ReasonSummary r] @ (case resp_RejectionReason r of Some s \<Rightarrow> [s] | None \<Rightarrow> [])\<rparr>
        else d)"

definition blocked :: "f64 \<Rightarrow> string \<Rightarrow> string \<Rightarrow> string \<Rightarrow> llm_decision" where
  "blocked conf code status raw =
    no_decision\<lparr>ld_Decision := ''BLOCK'', ld_Confidence := conf, ld_ReasonCodes := [code],
      ld_ValidationStatus := status, ld_RawResponse := raw\<rparr>"

definition ParseVetoResponse :: "string \<Rightarrow> llm_decision \<times> validation_error option" where
  "ParseVetoResponse raw =
    (case parseVetoJSON raw of
       Inl e \<Rightarrow> (blocked (Fin 0) ''PARSE_ERROR'' ''invalid_json'' raw, Some e)
     | Inr resp \<Rightarrow>
         let d = ApplyToDecision resp
         in if ld_Confidence d < Fin (3 / 4) then
              (blocked (ld_Confidence d) ''LOW_CONFIDENCE'' ''low_confidence'' raw,
               Some (ValidationError ''confidence below minimum 0.75'' [] [ld_Confidence d]))
            else if ld_Decision d \<noteq> ''BLOCK'' \<and> \<not> validSizeMultipliers (ld_SizeMultiplier d) then
              (blocked (Fin 0) ''INVALID_SIZE_MULTIPLIER'' ''invalid_multiplier'' raw,
               Some (ValidationError ''invalid size_multiplier'' [] [ld_SizeMultiplier d]))
            else (d\<lparr>ld_RawResponse := raw, ld_ValidationStatus := ''valid''\<rparr>, None))"

end
