(* ===== verification/LLMSpec.thy ===== *)
theory LLMSpec
  imports LLMClient Risk
begin

text \<open>
  What the reviewer and the veto client promise: the outcome of a review by mode, the case-sensitivity of its
  switch, the daily cost cap, and that the veto client fails closed.
\<close>

section \<open>Outcomes\<close>

lemma decoded_numbers:
  assumes "unmarshal_response raw = Some r"
  shows "resp_SizeMultiplier r \<noteq> NaN" "resp_Confidence r \<noteq> NaN"
  using assms
  by (auto simp: unmarshal_response_def decode_response_def decode_review_def decode_adjustment_def Let_def
      split: option.splits bind_splits dest!: json_float64_finite)

lemma between: "x \<noteq> NaN \<Longrightarrow> \<not> x \<le> Fin 0 \<Longrightarrow> \<not> Fin 1 < x \<Longrightarrow> Fin 0 < x \<and> x \<le> Fin 1"
  by (simp add: f64_not_less f64_not_le)

lemma response_accepted:
  assumes "ValidateReviewResponse raw mode (Some c) = Inr resp"
  shows "isActionAllowed (resp_Action resp) (AllowedActionsForMode mode)"
    and "Fin 0 < resp_SizeMultiplier resp \<and> resp_SizeMultiplier resp \<le> Fin 1"
proof -
  obtain r where r: "unmarshal_response raw = Some r" "response_error mode (Some c) r = None"
      and resp: "resp = r\<lparr>resp_ReasonSummary := TruncateReasonSummary (resp_ReasonSummary r)\<rparr>"
    using assms by (auto simp: ValidateReviewResponse_def split: option.splits)
  show "isActionAllowed (resp_Action resp) (AllowedActionsForMode mode)"
    using r(2) by (simp add: resp response_error_def Let_def)
  show "Fin 0 < resp_SizeMultiplier resp \<and> resp_SizeMultiplier resp \<le> Fin 1"
    using r(2) decoded_numbers(1) [OF r(1)] by (intro between) (simp_all add: resp response_error_def Let_def)
qed

text \<open>The outcome of an unusable result, and of a judged one.\<close>

lemma fallback_outcome:
  assumes "mode \<in> set ValidReviewModes"
  shows "out_SizeMultiplier (applyFallback mode o1 r e) = Fin 1"
    and "out_Action (applyFallback mode o1 r e) = (if mode = ''veto'' then ''REJECT'' else ''APPROVE'')"
  using assms by (auto simp: applyFallback_def ValidReviewModes_def)

definition usable :: "string \<Rightarrow> review_candidate \<Rightarrow> review_result \<Rightarrow> review_response option" where
  "usable mode cand result =
    (if res_Called result then
       (case ValidateReviewResponse (res_RawResponse result) mode (Some cand) of Inl e \<Rightarrow> None | Inr r \<Rightarrow> Some r)
     else None)"

lemma judged_outcome:
  assumes "mode \<in> set ValidReviewModes"
  shows "out_Action (snd (judge_result mode cand o1 res)) =
      (case usable mode cand res of
         None \<Rightarrow> if mode = ''veto'' then ''REJECT'' else ''APPROVE''
       | Some resp \<Rightarrow> review_action mode (resp_Action resp))"
    and "out_SizeMultiplier (snd (judge_result mode cand o1 res)) =
      (case usable mode cand res of
         None \<Rightarrow> Fin 1 | Some resp \<Rightarrow> if mode = ''audit_only'' then Fin 1 else resp_SizeMultiplier resp)"
    and "fst (judge_result mode cand o1 res) \<longleftrightarrow> res_Called res \<and> usable mode cand res = None"
  using fallback_outcome [OF assms]
  by (auto simp: judge_result_def usable_def apply_response_def split: sum.split)

lemma review_off:
  assumes "rvw_mode r = ''off''"
  shows "out_Action (snd (Review C rid did now i r)) = ''APPROVE''"
    "out_SizeMultiplier (snd (Review C rid did now i r)) = Fin 1"
    "fst (Review C rid did now i r) = r\<lparr>rvw_totalCalls := rvw_totalCalls r + 1\<rparr>"
  using assms by (simp_all add: Review_def Let_def initial_outcome_def)

lemma review_call:
  fixes r :: "'c reviewer"
  assumes "rvw_mode r \<noteq> ''off''" "rvw_client r = Some c"
    and "rcl_Review C (build_request now rid (review_id now i) did (rvw_mode r) i) c =
      (c', result, failed)"
  defines "o1 \<equiv> initial_outcome (review_id now i)"
    and "cand \<equiv> req_Candidate (build_request now rid (review_id now i) did (rvw_mode r) i)"
  shows "snd (Review C rid did now i r) =
      (if failed then applyFallback (rvw_mode r) o1 result (Reason ''LLM_CALL_ERROR'')
       else (case result of
               None \<Rightarrow> applyFallback (rvw_mode r) o1 None (Reason ''NULL_RESULT'')
             | Some res \<Rightarrow> snd (judge_result (rvw_mode r) cand o1 res)))"
    "fst (Review C rid did now i r) =
      r\<lparr>rvw_totalCalls := rvw_totalCalls r + 1, rvw_client := Some c',
        rvw_invalidCount := rvw_invalidCount r +
          (if \<not> failed \<and> (\<exists>res. result = Some res \<and> fst (judge_result (rvw_mode r) cand o1 res)) then 1 else 0)\<rparr>"
  using assms(1-3) by (cases result; cases failed; simp add: Review_def Let_def o1_def cand_def split_beta)+

text \<open>
  C25: reviews in the four modes. Off and audit-only reviews always approve with full size. In veto mode a
  candidate passes only with a usable answer of the model, every failure rejects it; in review mode every failure
  approves it with full size, and only a usable answer restricts it. The multiplier always lies in (0, 1], the
  outcome never depends on anything else the client returns, and the reviewer counts the call, and the answer as
  invalid exactly when the model was called and its answer cannot be used.
\<close>

theorem review_outcome_by_mode:
  fixes C :: "'c review_client" and r :: "'c reviewer" and c c' :: 'c and i :: review_input
    and rid did :: string and now :: time
  assumes "rvw_mode r \<in> set ValidReviewModes" and "rvw_client r = Some c"
  defines "mode \<equiv> rvw_mode r"
  defines "req \<equiv> build_request now rid (review_id now i) did mode i"
  assumes "rcl_Review C req c = (c', result, failed)"
  defines "answer \<equiv> (if mode = ''off'' \<or> failed then None else Option.bind result (usable mode (req_Candidate req)))"
    and "out \<equiv> snd (Review C rid did now i r)" and "r' \<equiv> fst (Review C rid did now i r)"
  shows "out_Action out =
      (case answer of
         None \<Rightarrow> if mode = ''veto'' then ''REJECT'' else ''APPROVE''
       | Some resp \<Rightarrow> review_action mode (resp_Action resp)) \<and>
    out_SizeMultiplier out =
      (case answer of
         None \<Rightarrow> Fin 1 | Some resp \<Rightarrow> if mode = ''audit_only'' then Fin 1 else resp_SizeMultiplier resp) \<and>
    Fin 0 < out_SizeMultiplier out \<and> out_SizeMultiplier out \<le> Fin 1 \<and>
    (mode \<in> {''off'', ''audit_only''} \<longrightarrow> out_Action out = ''APPROVE'' \<and> out_SizeMultiplier out = Fin 1) \<and>
    rvw_totalCalls r' = rvw_totalCalls r + 1 \<and>
    rvw_client r' = Some (if mode = ''off'' then c else c') \<and>
    rvw_invalidCount r' = rvw_invalidCount r +
      (if mode \<noteq> ''off'' \<and> \<not> failed \<and> (\<exists>res. result = Some res \<and> res_Called res) \<and> answer = None then 1 else 0)"
proof -
  note m = assms(1) [folded mode_def]
  have "out_Action out = (case answer of
         None \<Rightarrow> if mode = ''veto'' then ''REJECT'' else ''APPROVE''
       | Some resp \<Rightarrow> review_action mode (resp_Action resp)) \<and>
    out_SizeMultiplier out = (case answer of
         None \<Rightarrow> Fin 1 | Some resp \<Rightarrow> if mode = ''audit_only'' then Fin 1 else resp_SizeMultiplier resp) \<and>
    rvw_totalCalls r' = rvw_totalCalls r + 1 \<and>
    rvw_client r' = Some (if mode = ''off'' then c else c') \<and>
    rvw_invalidCount r' = rvw_invalidCount r +
      (if mode \<noteq> ''off'' \<and> \<not> failed \<and> (\<exists>res. result = Some res \<and> res_Called res) \<and> answer = None then 1 else 0)"
  proof (cases "mode = ''off''")
    case True
    then show ?thesis using review_off [of r] assms(2) by (simp add: out_def r'_def answer_def mode_def)
  next
    case False
    note rc = review_call [OF False [unfolded mode_def] assms(2) assms(5) [unfolded req_def mode_def],
        folded mode_def, folded req_def [unfolded mode_def, folded mode_def], folded out_def r'_def]
    show ?thesis
      using False
      by (cases result) (simp_all add: rc answer_def fallback_outcome [OF m] judged_outcome [OF m])
  qed
  then have act: "out_Action out = (case answer of
         None \<Rightarrow> if mode = ''veto'' then ''REJECT'' else ''APPROVE''
       | Some resp \<Rightarrow> review_action mode (resp_Action resp))"
    and size: "out_SizeMultiplier out = (case answer of
         None \<Rightarrow> Fin 1 | Some resp \<Rightarrow> if mode = ''audit_only'' then Fin 1 else resp_SizeMultiplier resp)"
    and cnt: "rvw_totalCalls r' = rvw_totalCalls r + 1"
      "rvw_client r' = Some (if mode = ''off'' then c else c')"
      "rvw_invalidCount r' = rvw_invalidCount r +
        (if mode \<noteq> ''off'' \<and> \<not> failed \<and> (\<exists>res. result = Some res \<and> res_Called res) \<and> answer = None then 1 else 0)"
    by blast+
  have "Fin 0 < out_SizeMultiplier out \<and> out_SizeMultiplier out \<le> Fin 1"
    using response_accepted(2)
    by (auto simp: size answer_def usable_def split: option.splits if_splits sum.splits bind_splits)
  moreover have "out_Action out = ''APPROVE'' \<and> out_SizeMultiplier out = Fin 1" if "mode \<in> {''off'', ''audit_only''}"
    using that by (auto simp: act size answer_def review_action_def split: option.split)
  ultimately show ?thesis using act size cnt by blast
qed

definition small_input :: review_input where
  "small_input =
    \<lparr> rin_Symbol = ''BTCUSDT'', rin_Side = ''LONG'', rin_StrategyName = ''trend_pullback'', rin_Timeframe = ''15m'',
      rin_EntryType = ''limit_retest'', rin_EntryPrice = Fin 100, rin_StopLoss = Fin 98, rin_TakeProfits = [],
      rin_RRRatio = Fin 2, rin_TAReasoning = JNull, rin_TotalScore = Fin 70, rin_ScoreComponents = [],
      rin_ScoringVersion = ''v1'', rin_Trend15m = ''up'', rin_Trend1h = ''up'', rin_Trend4h = ''up'', rin_RSI14 = Fin 55,
      rin_RSIState = ''neutral'', rin_MACDHistogram = Fin 1, rin_MACDDirection = ''up'', rin_ATRPct = Fin 1,
      rin_VolumeRatio = Fin 1, rin_EMAAlignment = [], rin_BTCTrend1h = ''up'', rin_BTCTrend4h = ''up'',
      rin_BTCFiltersTrig = [], rin_BTCDTrend = ''flat'', rin_BTCDAvailable = True, rin_RelativeStrength = Fin 1,
      rin_RSClass = ''strong'', rin_Qty = Fin 1, rin_Leverage = Fin 5, rin_RiskAmountUSD = Fin 2, rin_RiskPct = Fin 1,
      rin_ModifiersApplied = [] \<rparr>"

text \<open>A client that gives one answer, and the veto reviewer in front of it.\<close>

definition fixed_client :: "string \<Rightarrow> unit review_client" where
  "fixed_client raw =
    \<lparr> rcl_Review = (\<lambda>req c. (c, Some ((no_result True (Reason []))\<lparr>res_RawResponse := raw\<rparr>), False)),
      rcl_DailyCost = (\<lambda>c. Fin 0), rcl_ResetDailyCost = (\<lambda>c. c) \<rparr>"

definition veto_reviewer :: "unit reviewer" where
  "veto_reviewer =
    \<lparr> rvw_cfg = \<lparr> lv_Mode = ''veto'', lv_Provider = ''deepseek'', lv_Model = ''chat'', lv_BaseURL = [], lv_TimeoutSeconds = 8,
        lv_MaxInputTokens = 2000, lv_MaxOutputTokens = 500, lv_DailyCostCapUSD = Fin 1,
        lv_PromptVersion = llmPromptVersion, lv_LogRawResponses = False \<rparr>,
      rvw_client = Some (), rvw_mode = ''veto'', rvw_invalidCount = 0, rvw_totalCalls = 0 \<rparr>"

definition lower_case_text :: string where
  \<open>lower_case_text =
    ''{"schema_version":"v2.1","review":{"action":"reject","confidence":95},"recommended_adjustment":{"size_multiplier":1}}''\<close>


lemma lower_case_decodes:
  "(case unmarshal_response lower_case_text of
      None \<Rightarrow> False
    | Some r \<Rightarrow> resp_Action r = ''reject'' \<and> resp_SizeMultiplier r = Fin 1 \<and> resp_Confidence r = Fin 95 \<and>
        response_error ''veto'' (Some empty_candidate) r = None)"
  by code_simp

lemma empty_object_unusable: "usable ''veto'' cand ((no_result True (Reason []))\<lparr>res_RawResponse := ''{}''\<rparr>) = None"
proof -
  have "(case unmarshal_response ''{}'' of None \<Rightarrow> False | Some r \<Rightarrow> resp_SchemaVersion r = [])" by code_simp
  then have "\<exists>e. ValidateReviewResponse ''{}'' ''veto'' (Some cand) = Inl e"
    by (auto simp: ValidateReviewResponse_def response_error_def Let_def split: option.splits)
  then show ?thesis by (auto simp: usable_def no_result_def)
qed

theorem review_outcome_by_mode_witness:
  "out_Action (snd (Review (fixed_client ''{}'') ''r'' ''d'' 1 small_input veto_reviewer)) = ''REJECT'' \<and>
   out_SizeMultiplier (snd (Review (fixed_client ''{}'') ''r'' ''d'' 1 small_input veto_reviewer)) = Fin 1 \<and>
   rvw_invalidCount (fst (Review (fixed_client ''{}'') ''r'' ''d'' 1 small_input veto_reviewer)) = 1"
  using review_outcome_by_mode [of veto_reviewer "()" "fixed_client ''{}''" 1 "''r''" small_input "''d''" "()"
      "Some ((no_result True (Reason []))\<lparr>res_RawResponse := ''{}''\<rparr>)" False]
  by (simp add: veto_reviewer_def fixed_client_def ValidReviewModes_def empty_object_unusable)
    (simp add: no_result_def)

lemma lower_actions:
  "ToLower ''REJECT'' = ''reject''" "ToLower ''APPROVE_RETEST_ONLY'' = ''approve_retest_only''" "ToLower ''REDUCE_SIZE'' = ''reduce_size''" "ToLower ''reject'' = ''reject''"
  by code_simp+

text \<open>
  The validation of an answer compares its action without regard to case, the switch that applies it exactly.
  An otherwise valid answer that rejects the candidate, or cuts its size, in any other spelling than the
  capital one is counted as valid and approves the candidate, in veto and in review mode.
\<close>

theorem lower_case_rejection_approves:
  fixes C :: "'c review_client" and r :: "'c reviewer" and c c' :: 'c and i :: review_input and rid did :: string
    and now :: time and res :: review_result and resp :: review_response
  assumes "rvw_mode r \<in> {''veto'', ''review''}" and "rvw_client r = Some c"
    and "rcl_Review C (build_request now rid (review_id now i) did (rvw_mode r) i) c = (c', Some res, False)"
    and "res_Called res" and "unmarshal_response (res_RawResponse res) = Some resp"
    and "ToLower (resp_Action resp) \<in> {''reject'', ''reduce_size''}"
    and "resp_Action resp \<notin> {''REJECT'', ''REDUCE_SIZE''}"
    and "resp_SchemaVersion resp \<noteq> []" and "detectForbiddenChanges resp = None"
    and "Fin 0 < resp_SizeMultiplier resp" and "resp_SizeMultiplier resp \<le> Fin 1"
    and "Fin 0 \<le> resp_Confidence resp" and "resp_Confidence resp \<le> Fin 100"
  defines "out \<equiv> snd (Review C rid did now i r)"
  shows "out_Action out = ''APPROVE'' \<and> out_SizeMultiplier out = resp_SizeMultiplier resp \<and>
    res_Valid (out_Result out) \<and> rvw_invalidCount (fst (Review C rid did now i r)) = rvw_invalidCount r"
proof -
  have off: "rvw_mode r \<noteq> ''off''" using assms(1) by auto
  have n: "resp_Action resp \<noteq> []" using assms(6) by (auto simp: ToLower_def)
  have a: "isActionAllowed (resp_Action resp) (AllowedActionsForMode (rvw_mode r))"
    using assms(1,6) by (auto simp: isActionAllowed_def AllowedActionsForMode_def lower_actions)
  have "response_error (rvw_mode r) (Some cand) resp = None" for cand
    using a n assms(8-13) by (auto simp: response_error_def Let_def dest: f64_less_asym)
  then have v: "ValidateReviewResponse (res_RawResponse res) (rvw_mode r) (Some cand) =
      Inr (resp\<lparr>resp_ReasonSummary := TruncateReasonSummary (resp_ReasonSummary resp)\<rparr>)" for cand
    using assms(5) by (simp add: ValidateReviewResponse_def)
  have "resp_Action resp \<noteq> ''APPROVE_RETEST_ONLY''" using assms(6) by (auto simp: lower_actions)
  then show ?thesis
    using assms(1,4,7) unfolding out_def review_call [OF off assms(2,3)]
    by (auto simp: judge_result_def v apply_response_def review_action_def)
qed

theorem lower_case_rejection_approves_witness:
  "out_Action (snd (Review (fixed_client lower_case_text) ''r'' ''d'' 1 small_input veto_reviewer)) = ''APPROVE'' \<and>
   out_SizeMultiplier (snd (Review (fixed_client lower_case_text) ''r'' ''d'' 1 small_input veto_reviewer)) = Fin 1"
proof -
  obtain resp where r: "unmarshal_response lower_case_text = Some resp" "resp_Action resp = ''reject''"
      "resp_SizeMultiplier resp = Fin 1" "resp_Confidence resp = Fin 95"
      and e: "response_error ''veto'' (Some empty_candidate) resp = None"
    using lower_case_decodes by (auto split: option.splits)
  have "resp_SchemaVersion resp \<noteq> []" "detectForbiddenChanges resp = None"
    using e by (auto simp: response_error_def Let_def)
  then show ?thesis
    using lower_case_rejection_approves [of veto_reviewer "()" "fixed_client lower_case_text" 1 "''r''" small_input "''d''" "()"
        "(no_result True (Reason []))\<lparr>res_RawResponse := lower_case_text\<rparr>" resp]
    by (simp add: veto_reviewer_def fixed_client_def no_result_def r lower_actions)
qed

section \<open>Daily cost\<close>

text \<open>
  A client that counts its cost and refuses calls once a limit is reached: the count stays below the first count
  that reaches the limit plus the price of one call.
\<close>

locale metered =
  fixes cost :: "'c \<Rightarrow> int" and exhausted :: "'c \<Rightarrow> bool" and settings :: "'c \<Rightarrow> 'k"
    and invoke :: "'t \<Rightarrow> 'c \<Rightarrow> 'c" and fee :: "'t \<Rightarrow> int"
  assumes refused: "exhausted c \<Longrightarrow> invoke t c = c"
    and charged: "cost (invoke t c) = cost c \<or> cost (invoke t c) = wrap64 (cost c + fee t)"
    and settings: "settings (invoke t c) = settings c"
begin

lemma cost_step:
  assumes "\<And>c. settings c = s \<Longrightarrow> \<not> exhausted c \<Longrightarrow> cost c < M"
    and "settings c = s" "0 \<le> cost c" "cost c < M + K" "0 \<le> fee t" "fee t \<le> K" "M + K < 2 ^ 63"
  shows "0 \<le> cost (invoke t c) \<and> cost (invoke t c) < M + K"
proof (cases "exhausted c")
  case False
  then have "cost c < M" using assms(1,2) by simp
  then show ?thesis using charged [of t c] assms by auto
qed (use assms refused in simp)

lemma cost_bounded:
  assumes "\<And>c. settings c = s \<Longrightarrow> \<not> exhausted c \<Longrightarrow> cost c < M"
    and "settings c = s" "0 \<le> cost c" "cost c < M + K" "M + K < 2 ^ 63"
    and "\<And>t. t \<in> set ts \<Longrightarrow> 0 \<le> fee t \<and> fee t \<le> K"
  shows "0 \<le> cost (foldl (\<lambda>c t. invoke t c) c ts) \<and> cost (foldl (\<lambda>c t. invoke t c) c ts) < M + K"
  using assms(2-4,6)
proof (induction ts arbitrary: c)
  case (Cons t ts)
  then show ?case
    using cost_step [OF assms(1) Cons.prems(1-3) _ _ assms(5), of t] by (auto simp: settings)
qed simp

end

text \<open>The units that the answer of an exchange is charged, when it is charged.\<close>

definition review_fee :: "chat_transport \<Rightarrow> int" where
  "review_fee T =
    (case chat_content (snd (post_chat T)) of
       Inr (_, Some u) \<Rightarrow> f64_to_int64 (call_cost u * Fin 10000000000) | _ \<Rightarrow> 0)"

definition veto_fee :: "chat_transport \<Rightarrow> int" where
  "veto_fee T = (case chat_content (snd (post_chat T)) of Inr (_, Some u) \<Rightarrow> veto_cost u | _ \<Rightarrow> 0)"

interpretation review_meter: metered rhc_dailyCost cap_reached rhc_cfg
  "\<lambda>(getenv, T, req) c. fst (client_Review getenv T req c)" "\<lambda>(getenv, T, req). review_fee T"
  by unfold_locales
    (auto simp: client_Review_def charge_usage_def review_fee_def Let_def split: sum.split option.split prod.split)

interpretation veto_meter: metered oai_dailyCost budget_exceeded oai_budget
  "\<lambda>(getenv, T) c. fst (VetoRequest getenv T c)" "\<lambda>(getenv, T). veto_fee T"
  by unfold_locales
    (auto simp: VetoRequest_def veto_fee_def Let_def split: sum.split option.split prod.split post_result.split)

lemma zero_le: "NZero \<le> x \<longleftrightarrow> Fin 0 \<le> x" and le_PInf: "x \<le> PInf \<longleftrightarrow> x \<noteq> NaN"
  by (cases x; simp)+

lemma divide_mono:
  assumes "x \<le> y" "Fin 0 \<le> x" "0 < q"
  shows "x / Fin q \<le> y / Fin q"
  using assms
  by (cases x; cases y) (auto simp: divide_f64_def zero_of_def inf_of_def rnd_ge zero_le le_PInf rnd_not_NaN divide_right_mono
      intro!: rnd_mono_le)

lemma cost_units_mono: "0 \<le> m \<Longrightarrow> m \<le> n \<Longrightarrow> cost_units m \<le> cost_units n"
  unfolding cost_units_def
  by (intro divide_mono) (simp_all add: f64_of_int_nonneg, simp add: f64_of_int_def rnd_mono_le)

text \<open>
  The daily cost of the two clients is bounded. When \<open>M\<close> cost units reach the cap of the review client, and no
  answer costs more than \<open>K\<close> units, the client has counted less than \<open>M + K\<close> units after any sequence of reviews,
  whatever the model answered; the same holds for the veto client with the budget in units. A client that has
  reached its limit sends nothing and counts nothing.
\<close>

theorem daily_cost_capped:
  fixes calls :: "((string \<Rightarrow> string) \<times> chat_transport \<times> review_request) list"
    and vetos :: "((string \<Rightarrow> string) \<times> chat_transport) list"
    and cfg :: llm_review_config and vcfg :: llm_config and prov :: string and M K :: int
  assumes "0 \<le> M" and "0 \<le> K" and "M + K < 2 ^ 63"
    and "\<forall>(g, T, req)\<in>set calls. 0 \<le> review_fee T \<and> review_fee T \<le> K"
    and "\<forall>(g, T)\<in>set vetos. 0 \<le> veto_fee T \<and> veto_fee T \<le> K"
    and "Fin 0 < lv_DailyCostCapUSD cfg" and "lv_DailyCostCapUSD cfg \<le> cost_units M"
    and "Fin 0 < lb_MaxCostUSDPerDay (lm_Budget vcfg)" and "f64_to_int64 (lb_MaxCostUSDPerDay (lm_Budget vcfg) * Fin 10000000000) = M"
  defines "c \<equiv> foldl (\<lambda>c (g, T, req). fst (client_Review g T req c)) (NewReviewClient cfg) calls"
    and "v \<equiv> foldl (\<lambda>c (g, T). fst (VetoRequest g T c)) (newOpenAIClient vcfg prov) vetos"
  shows "0 \<le> rhc_dailyCost c \<and> rhc_dailyCost c < M + K \<and> 0 \<le> oai_dailyCost v \<and> oai_dailyCost v < M + K \<and>
    (cap_reached c \<longrightarrow> (\<forall>g T req. fst (client_Review g T req c) = c)) \<and>
    (budget_exceeded v \<longrightarrow> (\<forall>g T. fst (VetoRequest g T v) = v \<and> ld_Decision (fst (snd (VetoRequest g T v))) = ''BLOCK''))"
proof -
  have "cost_units 0 = Fin 0" by code_simp
  with assms(1,6,7) have M: "0 < M" by (cases "M = 0") (auto dest: f64_less_asym)
  have nr: "rhc_dailyCost c < M" if "rhc_cfg c = LLMReviewConfig_WithDefaults cfg" "\<not> cap_reached c" for c
  proof (rule ccontr)
    assume "\<not> rhc_dailyCost c < M"
    then have "lv_DailyCostCapUSD cfg \<le> rhc_DailyCost c"
      using f64_le_trans [OF assms(7) cost_units_mono [OF assms(1)]] by (simp add: rhc_DailyCost_def)
    with that assms(6) show False by (simp add: cap_reached_def LLMReviewConfig_WithDefaults_def)
  qed
  have nv: "oai_dailyCost c < M" if "oai_budget c = lm_Budget vcfg" "\<not> budget_exceeded c" for c
    using that assms(8,9) by (simp add: budget_exceeded_def)
  have "0 \<le> rhc_dailyCost c \<and> rhc_dailyCost c < M + K"
    unfolding c_def split_beta
    by (rule review_meter.cost_bounded [unfolded split_beta, OF nr]) (use assms M in \<open>force simp: NewReviewClient_def\<close>)+
  moreover have "0 \<le> oai_dailyCost v \<and> oai_dailyCost v < M + K"
    unfolding v_def split_beta
    by (rule veto_meter.cost_bounded [unfolded split_beta, OF nv]) (use assms M in \<open>force simp: newOpenAIClient_def\<close>)+
  ultimately show ?thesis
    by (auto simp: client_Review_def VetoRequest_def fallbackDecision_def)
qed

definition small_transport :: "string \<Rightarrow> chat_transport" where
  "small_transport body =
    \<lparr> ct_request_ok = True, ct_answer = (\<lambda>k. if k = 0 then NoAnswer else Answer 200 (Some body)),
      ct_cancelled = (\<lambda>k. False), ct_elapsed = seconds 1 \<rparr>"

definition answer_text :: string where
  \<open>answer_text = ''{"choices":[{"message":{"content":"{}"}}],"usage":{"total_tokens":100}}''\<close>

definition some_key :: "string \<Rightarrow> string" where
  "some_key name = ''key''"

lemma small_chat:
  "unmarshal_chat answer_text =
    Some \<lparr> ch_Choices = [\<lparr> cm_Content = ''{}'', cm_ReasoningContent = [] \<rparr>],
      ch_Usage = Some \<lparr> cu_TotalTokens = 100, cu_PromptTokens = 0, cu_CompletionTokens = 0, cu_CachedTokens = None \<rparr>,
      ch_Error = None \<rparr>"
  by code_simp

lemma small_content:
  "chat_content (snd (post_chat (small_transport answer_text))) =
    Inr (''{}'', Some \<lparr> cu_TotalTokens = 100, cu_PromptTokens = 0, cu_CompletionTokens = 0, cu_CachedTokens = None \<rparr>)"
  by (simp add: post_chat_def small_transport_def chat_content_def small_chat eval_nat_numeral)

lemma hundred_tokens: "f64_to_int64 (f64_of_int 100 * lit (1 / 100000) * Fin 10000000000) = 10000000"
  by code_simp

lemma small_fees: "review_fee (small_transport answer_text) = 10000000" "veto_fee (small_transport answer_text) = 0"
  by (simp_all add: review_fee_def veto_fee_def small_content call_cost_def hundred_tokens veto_cost_def)

definition capped_veto :: llm_config where
  "capped_veto =
    \<lparr> lm_Enabled = True, lm_Provider = ''deepseek'', lm_BaseURL = [], lm_Model = ''chat'', lm_Temperature = Fin 0,
      lm_TimeoutSeconds = 30, lm_MaxTokens = 500,
      lm_Budget = \<lparr> lb_MaxCostUSDPerDay = Fin 1, lb_FallbackDecision = ''BLOCK'' \<rparr> \<rparr>"

lemma one_dollar: "Fin 1 \<le> cost_units 10000000000" "f64_to_int64 (Fin 1 * Fin 10000000000) = 10000000000"
  by code_simp+

theorem daily_cost_capped_witness:
  "rhc_dailyCost (fst (client_Review some_key (small_transport answer_text)
      (build_request 1 ''r'' ''c'' ''d'' ''veto'' small_input) (NewReviewClient (rvw_cfg veto_reviewer)))) < 20000000000 \<and>
   oai_dailyCost (fst (VetoRequest some_key (small_transport answer_text) (newOpenAIClient capped_veto ''deepseek''))) < 20000000000"
  using daily_cost_capped [of 10000000000 10000000000
      "[(some_key, small_transport answer_text, build_request 1 ''r'' ''c'' ''d'' ''veto'' small_input)]"
      "[(some_key, small_transport answer_text)]" "rvw_cfg veto_reviewer" capped_veto "''deepseek''"]
  by (simp add: small_fees one_dollar veto_reviewer_def capped_veto_def)

section \<open>Veto decisions\<close>

definition retried :: "attempt \<Rightarrow> bool" where
  "retried a \<longleftrightarrow> (\<forall>status body. a = Answer status body \<longrightarrow> 500 \<le> status)"

lemma post_attempts_answer:
  "post_attempts T n k p = (m, r) \<Longrightarrow>
    k \<le> m \<and> m \<le> k + n \<and>
    (\<forall>status body. r = Response status (Some body) \<and> p \<noteq> r \<longrightarrow>
       k < m \<and> ct_answer T (m - 1) = Answer status (Some body) \<and> (\<forall>j. k \<le> j \<and> j < m - 1 \<longrightarrow> retried (ct_answer T j)))"
proof (induction n arbitrary: k p)
  case (Suc n)
  show ?case
  proof (cases "0 < k \<and> ct_cancelled T k")
    case False
    show ?thesis
    proof (cases "retried (ct_answer T k)")
      case True
      obtain q where q: "post_attempts T n (k + 1) q = (m, r)" "\<And>status body. q \<noteq> Response status (Some body)"
        using Suc.prems False True by (auto simp: retried_def split: attempt.splits if_splits)
      have "retried (ct_answer T j)" if "k \<le> j" "j < m - 1" "r = Response status (Some body)" for j status body
        using Suc.IH [OF q(1)] q(2) that True by (cases "j = k") auto
      with Suc.IH [OF q(1)] q(2) show ?thesis by auto
    next
      case f: False
      then obtain status body where "ct_answer T k = Answer status body" "status < 500" by (auto simp: retried_def)
      with False Suc.prems show ?thesis by auto
    qed
  qed (use Suc.prems in auto)
qed auto

lemma post_chat_answer:
  assumes "snd (post_chat T) = Response status (Some body)"
  obtains k where "k < 3" "ct_answer T k = Answer status (Some body)" "\<And>j. j < k \<Longrightarrow> retried (ct_answer T j)"
proof -
  obtain m where "post_attempts T 3 0 NoResponse = (m, Response status (Some body))"
    using assms by (cases "post_attempts T 3 0 NoResponse") (simp add: post_chat_def)
  from post_attempts_answer [OF this] show thesis by (intro that [of "m - 1"]) auto
qed

lemma server_errors_unread:
  assumes "\<And>k. k < 3 \<Longrightarrow> \<exists>status body. ct_answer T k = Answer status body \<and> 500 \<le> status"
    and "\<And>k. \<not> ct_cancelled T k"
  shows "fst (post_chat T) = 3" "chat_content (snd (post_chat T)) = Inl (Reason ''RESPONSE_READ_ERROR'', [])"
  using assms(1) [of 0] assms(1) [of 1] assms(1) [of 2] assms(2)
  by (auto simp: post_chat_def eval_nat_numeral chat_content_def)

lemma decision_accepted:
  assumes "decision_of content = Inr d"
  shows "ld_RawResponse d = content" "isValidLLMDecision d" "\<not> ld_Confidence d < Fin (3 / 4)"
    "ld_Decision d = ''REDUCE_SIZE'' \<Longrightarrow> valid_multiplier (ld_SizeMultiplier d)"
  using assms
  by (auto simp: decision_of_def validateDecision_def isValidLLMDecision_def valid_multiplier_def
      validSizeMultipliers_def split: option.splits if_splits)

lemma VetoRequest_cases:
  assumes "VetoRequest getenv T c = (c', d, err)"
  obtains (fallback) reason raw where "c' = c" "d = fallbackDecision ''BLOCK'' reason raw"
  | (accepted) content usage where "chat_content (snd (post_chat T)) = Inr (content, usage)" "decision_of content = Inr d"
      "\<not> err" "\<not> budget_exceeded c" "veto_api_key getenv (oai_provider c) \<noteq> []"
proof (cases "budget_exceeded c \<or> veto_api_key getenv (oai_provider c) = [] \<or> \<not> ct_request_ok T")
  case True
  then show thesis using assms fallback by (auto simp: VetoRequest_def split: if_splits)
next
  case go: False
  show thesis
  proof (cases "snd (post_chat T) = Cancelled")
    case True
    then show thesis using go assms fallback by (auto simp: VetoRequest_def)
  next
    case False
    then have v: "VetoRequest getenv T c =
        (case chat_content (snd (post_chat T)) of
           Inl (reason, raw) \<Rightarrow> (c, fallbackDecision ''BLOCK'' (reason_code reason) raw, False)
         | Inr (content, usage) \<Rightarrow>
             (case decision_of content of
                Inl reason \<Rightarrow> (c, fallbackDecision ''BLOCK'' reason content, False)
              | Inr d \<Rightarrow>
                  (case usage of
                     None \<Rightarrow> (c, d, False)
                   | Some u \<Rightarrow> (c\<lparr>oai_dailyCost := wrap64 (oai_dailyCost c + veto_cost u)\<rparr>, d, False))))"
      using go by (simp add: VetoRequest_def split: post_result.split)
    show thesis
      using assms go fallback accepted unfolding v
      by (cases "chat_content (snd (post_chat T))") (auto split: sum.splits option.splits)
  qed
qed

lemma fallback_sel [simp]:
  "ld_Decision (fallbackDecision b reason raw) = b" "ld_ValidationStatus (fallbackDecision b reason raw) = ''fallback''"
  by (simp_all add: fallbackDecision_def)

lemma decided_status: "decision_of content = Inr d \<Longrightarrow> ld_ValidationStatus d = []"
  unfolding decision_of_def parseDecision_def decode_decision_def no_decision_def Let_def
  by (auto split: option.splits if_splits bind_splits)

text \<open>
  C26: the veto client fails closed. A decision that does not block comes from an answer with status 200, after at
  most two attempts that failed or were answered with a server error, within the budget and with a key, and it is
  what the first choice of that answer says: a known decision with a confidence of at least 0.75. Every other
  outcome blocks and charges nothing, also when the model did answer. The risk engine never rejects a decision of
  the client as malformed.
\<close>

theorem veto_fails_closed:
  fixes d :: llm_decision
  assumes "VetoRequest getenv T c = (c', d, err)"
  shows "(ld_Decision d \<noteq> ''BLOCK'' \<longrightarrow>
      \<not> err \<and> \<not> budget_exceeded c \<and> veto_api_key getenv (oai_provider c) \<noteq> [] \<and> \<not> ld_Confidence d < Fin (3 / 4) \<and>
      (\<exists>k<3. \<exists>body ch m ms.
         ct_answer T k = Answer 200 (Some body) \<and> (\<forall>j<k. retried (ct_answer T j)) \<and>
         unmarshal_chat body = Some ch \<and> ch_Error ch = None \<and> ch_Choices ch = m # ms \<and>
         ld_RawResponse d = cm_Content m \<and> (\<exists>d0. parseDecision (cm_Content m) = Some d0 \<and> ld_Decision d0 = ld_Decision d))) \<and>
    (ld_ValidationStatus d = ''fallback'' \<longrightarrow> ld_Decision d = ''BLOCK'' \<and> c' = c) \<and>
    isValidLLMDecision d \<and> (ld_Decision d = ''REDUCE_SIZE'' \<longrightarrow> valid_multiplier (ld_SizeMultiplier d))"
  using assms
proof (cases rule: VetoRequest_cases)
  case fallback
  then show ?thesis by (simp add: isValidLLMDecision_def)
next
  case a: (accepted content usage)
  from a(1) obtain body ch m ms where b: "snd (post_chat T) = Response 200 (Some body)" "unmarshal_chat body = Some ch"
      "ch_Error ch = None" "ch_Choices ch = m # ms" "content = cm_Content m"
    by (auto simp: chat_content_def split: post_result.splits option.splits if_splits list.splits)
  obtain k where k: "k < 3" "ct_answer T k = Answer 200 (Some body)" "\<And>j. j < k \<Longrightarrow> retried (ct_answer T j)"
    using post_chat_answer [OF b(1)] by blast
  have "\<exists>d0. parseDecision content = Some d0 \<and> ld_Decision d0 = ld_Decision d"
    using a(2) by (auto simp: decision_of_def split: option.splits if_splits)
  then show ?thesis
    using a b k decision_accepted [OF a(2)] decided_status [OF a(2)] by (intro conjI impI) (blast | simp)+
qed

theorem veto_fails_closed_witness:
  "ld_Decision (fst (snd (VetoRequest some_key (small_transport answer_text) (newOpenAIClient capped_veto ''deepseek'')))) = ''BLOCK'' \<and>
   fst (VetoRequest some_key (small_transport answer_text) (newOpenAIClient capped_veto ''deepseek'')) = newOpenAIClient capped_veto ''deepseek''"
proof -
  let ?v = "VetoRequest some_key (small_transport answer_text) (newOpenAIClient capped_veto ''deepseek'')"
  have "ld_ValidationStatus (fst (snd ?v)) = ''fallback''" by code_simp
  then show ?thesis
    using veto_fails_closed [of some_key "small_transport answer_text" "newOpenAIClient capped_veto ''deepseek''"
        "fst ?v" "fst (snd ?v)" "snd (snd ?v)"] by simp
qed

section \<open>Veto responses\<close>

lemma ParseVetoResponse_sound:
  assumes "ParseVetoResponse raw = (d, err)"
  shows "(err \<noteq> None \<longrightarrow> ld_Decision d = ''BLOCK'') \<and> isValidLLMDecision d \<and>
    (ld_Decision d \<noteq> ''BLOCK'' \<longrightarrow> valid_multiplier (ld_SizeMultiplier d) \<and> \<not> ld_Confidence d < Fin (3 / 4))"
proof -
  have "ld_Decision (ApplyToDecision r) \<in> {''ALLOW_MARKET'', ''ALLOW_LIMIT_RETEST'', ''REDUCE_SIZE'', ''BLOCK''}"
    if "parseVetoJSON raw = Inr r" for r
    using that
    by (auto simp: parseVetoJSON_def ApplyToDecision_def ValidReviewActions_def Let_def split: option.splits)
  then show ?thesis
    using assms
    by (auto simp: ParseVetoResponse_def blocked_def isValidLLMDecision_def valid_multiplier_def
        validSizeMultipliers_def Let_def split: sum.splits if_splits)
qed

text \<open>A multiplier of zero, which the prompt allows, is read as the full size.\<close>

lemma zero_multiplier_is_full_size:
  "resp_SizeMultiplier r = Fin 0 \<Longrightarrow> resp_Action r = ''APPROVE'' \<Longrightarrow> ld_SizeMultiplier (ApplyToDecision r) = Fin 1"
  by (simp add: ApplyToDecision_def Let_def)

text \<open>A number that JSON cannot write empties the whole context.\<close>

lemma veto_context_of_NaN:
  "vt_StopLoss v = NaN \<Longrightarrow> BuildVetoContext v = []"
  by (simp add: BuildVetoContext_def veto_fields_def isNaN_def)

end
