(* ===== verification/MarketParse.thy ===== *)
theory MarketParse
  imports GoJson Indicators Config
begin

text \<open>
  Reading the exchange's messages (\<open>internal/marketdata/parser.go\<close>), its candle replies and interval names
  (\<open>backfill.go\<close>), and the validation of candle batches (\<open>validator.go\<close>). A payload is its text.
\<close>

section \<open>Intervals\<close>

definition timeframeDuration :: "string \<Rightarrow> duration option" where
  "timeframeDuration tf =
    map_of [(''1'', minutes 1), (''1m'', minutes 1), (''5'', minutes 5), (''5m'', minutes 5), (''15'', minutes 15),
            (''15m'', minutes 15), (''30'', minutes 30), (''30m'', minutes 30), (''60'', minutes 60), (''1H'', minutes 60),
            (''240'', minutes 240), (''4H'', minutes 240), (''D'', minutes 1440), (''1d'', minutes 1440)] tf"

text \<open>The pairs of a configured timeframe and the exchange's interval.\<close>

definition interval_names :: "(string \<times> string) list" where
  "interval_names =
    [(''1m'', ''1''), (''5m'', ''5''), (''15m'', ''15''), (''30m'', ''30''), (''1H'', ''60''), (''4H'', ''240''), (''1d'', ''D'')]"

definition mapTimeframeToBybit :: "string \<Rightarrow> string" where
  "mapTimeframeToBybit tf = (case map_of interval_names tf of Some b \<Rightarrow> b | None \<Rightarrow> tf)"

definition mapBybitToTimeframe :: "string \<Rightarrow> string" where
  "mapBybitToTimeframe tf = (case map_of (map (\<lambda>(t, b). (b, t)) interval_names) tf of Some t \<Rightarrow> t | None \<Rightarrow> tf)"

definition milliseconds :: "duration \<Rightarrow> int" where
  "milliseconds d = (if 0 \<le> d then d div 10 ^ 6 else - ((- d) div 10 ^ 6))"

section \<open>Fields\<close>

text \<open>Why a message is refused; the texts of the standard library's errors are left out.\<close>

datatype parse_error =
    BadMessage string
  | BadTopic string
  | BadData string
  | MissingField string
  | InvalidField string
  | ExchangeError int string

fun splitTopic :: "string \<Rightarrow> string list" where
  "splitTopic [] = [[]]"
| "splitTopic (c # cs) =
    (if c = CHR ''.'' then [] # splitTopic cs
     else (case splitTopic cs of [] \<Rightarrow> [[c]] | p # ps \<Rightarrow> (c # p) # ps))"

text \<open>The entry of a decoded map: the last one with the key.\<close>

definition map_entry :: "json_map \<Rightarrow> string \<Rightarrow> json option" where
  "map_entry m k = map_of (rev m) k"

definition getString :: "json_map \<Rightarrow> string \<Rightarrow> string option" where
  "getString m k = map_option sprint (map_entry m k)"

definition getFloat :: "json_map \<Rightarrow> string \<Rightarrow> parse_error + f64" where
  "getFloat m k =
    (case getString m k of
       None \<Rightarrow> Inl (MissingField k)
     | Some s \<Rightarrow>
         (case ParseFloat s of
            (f, None) \<Rightarrow> if isNaN f \<or> isInf f then Inl (InvalidField k) else Inr f
          | (_, Some _) \<Rightarrow> Inl (InvalidField k)))"

definition getInt64 :: "json_map \<Rightarrow> string \<Rightarrow> parse_error + int" where
  "getInt64 m k =
    (case getString m k of
       None \<Rightarrow> Inl (MissingField k)
     | Some s \<Rightarrow>
         (case ParseInt s of
            (i, None) \<Rightarrow> Inr i
          | (_, Some _) \<Rightarrow>
              (case ParseFloat s of (f, None) \<Rightarrow> Inr (f64_to_int64 f) | (_, Some _) \<Rightarrow> Inl (InvalidField k))))"

text \<open>A raw value decoded into a map, and into a slice of maps; there must be one.\<close>

definition unmarshalMap :: "json option \<Rightarrow> json_map option" where
  "unmarshalMap j = json_object j"

definition unmarshalMapSlice :: "json option \<Rightarrow> json_map list option" where
  "unmarshalMapSlice j = (case j of None \<Rightarrow> None | Some _ \<Rightarrow> json_list json_object j)"

text \<open>The envelope of a message: topic, type, time stamp and the raw data, of which a parser reads the named fields.\<close>

record ws_message =
  wm_Topic :: string
  wm_Type :: string
  wm_Ts :: int
  wm_Data :: "json option"

definition unmarshal_message :: "string list \<Rightarrow> string \<Rightarrow> ws_message option" where
  "unmarshal_message names payload =
    Option.bind (json_Unmarshal payload) (\<lambda>j. Option.bind (json_struct (Some j)) (\<lambda>m.
      let fld = (\<lambda>n. if n \<in> set names then json_field names n m else None)
      in case (json_string (fld ''topic''), json_string (fld ''type''), json_int64 (fld ''ts'')) of
           (Some topic, Some ty, Some ts) \<Rightarrow>
             Some \<lparr> wm_Topic = topic, wm_Type = ty, wm_Ts = ts, wm_Data = fld ''data'' \<rparr>
         | _ \<Rightarrow> None))"

definition kline_names :: "string list" where
  "kline_names = [''topic'', ''data'']"

definition stamped_names :: "string list" where
  "stamped_names = [''topic'', ''type'', ''ts'', ''data'']"

definition typed_names :: "string list" where
  "typed_names = [''topic'', ''type'', ''data'']"

section \<open>Candles\<close>

definition confirm_flag :: "json option \<Rightarrow> bool" where
  "confirm_flag j =
    (case j of
       Some (JBool b) \<Rightarrow> b
     | Some (JString s) \<Rightarrow> s = ''true'' \<or> s = ''1''
     | Some (JNumber n) \<Rightarrow> n \<noteq> ''0''
     | _ \<Rightarrow> False)"

definition turnover_field :: "json_map \<Rightarrow> f64" where
  "turnover_field m =
    (case getFloat m ''turnover'' of
       Inr v \<Rightarrow> v
     | Inl _ \<Rightarrow> (case getFloat m ''turnOver'' of Inr v \<Rightarrow> v | Inl _ \<Rightarrow> Fin 0))"

definition mapToCandle :: "string \<Rightarrow> string \<Rightarrow> json_map \<Rightarrow> parse_error + candle" where
  "mapToCandle symbol timeframe m =
    ebind (getInt64 m ''start'') (\<lambda>start.
    ebind (getFloat m ''open'') (\<lambda>op.
    ebind (getFloat m ''high'') (\<lambda>hi.
    ebind (getFloat m ''low'') (\<lambda>lo.
    ebind (getFloat m ''close'') (\<lambda>cl.
    ebind (getFloat m ''volume'') (\<lambda>vol.
      Inr \<lparr> c_Symbol = symbol, c_Timeframe = timeframe, c_OpenTime = start, c_Open = op, c_High = hi, c_Low = lo,
            c_Close = cl, c_Volume = vol, c_TurnOver = turnover_field m,
            c_Confirmed = confirm_flag (map_entry m ''confirm'') \<rparr>))))))"

primrec all_right :: "('e + 'a) list \<Rightarrow> 'e + 'a list" where
  "all_right [] = Inr []"
| "all_right (x # xs) = ebind x (\<lambda>y. ebind (all_right xs) (\<lambda>ys. Inr (y # ys)))"

definition kline_items :: "json option \<Rightarrow> json_map list option" where
  "kline_items d =
    (case unmarshalMapSlice d of
       Some items \<Rightarrow> Some items
     | None \<Rightarrow> map_option (\<lambda>m. [m]) (unmarshalMap d))"

definition parseKlineMessages :: "string \<Rightarrow> parse_error + (string \<times> string \<times> candle list)" where
  "parseKlineMessages payload =
    (case unmarshal_message kline_names payload of
       None \<Rightarrow> Inl (BadMessage ''kline'')
     | Some msg \<Rightarrow>
         (case splitTopic (wm_Topic msg) of
            [kind, interval, symbol] \<Rightarrow>
              if kind \<noteq> ''kline'' then Inl (BadTopic (wm_Topic msg))
              else
                (case kline_items (wm_Data msg) of
                   None \<Rightarrow> Inl (BadData ''kline'')
                 | Some [] \<Rightarrow> Inl (BadData ''empty kline data'')
                 | Some items \<Rightarrow>
                     let tf = mapBybitToTimeframe interval
                     in ebind (all_right (map (mapToCandle symbol tf) items)) (\<lambda>cs. Inr (symbol, tf, cs)))
          | _ \<Rightarrow> Inl (BadTopic (wm_Topic msg))))"

definition parseKlineMessage :: "string \<Rightarrow> parse_error + (string \<times> string \<times> candle)" where
  "parseKlineMessage payload =
    ebind (parseKlineMessages payload) (\<lambda>(symbol, tf, cs).
      case cs of [] \<Rightarrow> Inl (BadData ''empty kline data'') | c # _ \<Rightarrow> Inr (symbol, tf, c))"

section \<open>Tickers\<close>

text \<open>The symbol and, unless the message is a delta without a price, the price and its time.\<close>

definition message_time :: "time \<Rightarrow> int \<Rightarrow> time" where
  "message_time now ts = (if 0 < ts then unix_milli ts else now)"

definition ticker_object :: "json option \<Rightarrow> parse_error + json_map" where
  "ticker_object d =
    (case unmarshalMap d of
       Some m \<Rightarrow> Inr m
     | None \<Rightarrow>
         (case unmarshalMapSlice d of
            None \<Rightarrow> Inl (BadData ''ticker'') | Some [] \<Rightarrow> Inl (BadData ''empty ticker data'') | Some (m # _) \<Rightarrow> Inr m))"

definition parseTickerMessage :: "time \<Rightarrow> string \<Rightarrow> parse_error + (string \<times> (f64 \<times> time) option)" where
  "parseTickerMessage now payload =
    (case unmarshal_message stamped_names payload of
       None \<Rightarrow> Inl (BadMessage ''ticker'')
     | Some msg \<Rightarrow>
         (case splitTopic (wm_Topic msg) of
            [kind, symbol] \<Rightarrow>
              if kind \<noteq> ''tickers'' then Inl (BadTopic (wm_Topic msg))
              else
                ebind (ticker_object (wm_Data msg)) (\<lambda>m.
                  case getString m ''lastPrice'' of
                    None \<Rightarrow> if wm_Type msg = ''delta'' then Inr (symbol, None) else Inl (MissingField ''lastPrice'')
                  | Some s \<Rightarrow>
                      (case ParseFloat s of
                         (price, None) \<Rightarrow> Inr (symbol, Some (price, message_time now (wm_Ts msg)))
                       | (_, Some _) \<Rightarrow> Inl (InvalidField ''lastPrice'')))
          | _ \<Rightarrow> Inl (BadTopic (wm_Topic msg))))"

section \<open>Order books\<close>

fun parseLevels :: "string list list \<Rightarrow> parse_error + order_book_level list" where
  "parseLevels [] = Inr []"
| "parseLevels ((p # s # r) # rows) =
    (case ParseFloat p of
       (_, Some _) \<Rightarrow> Inl (InvalidField ''level price'')
     | (price, None) \<Rightarrow>
         (case ParseFloat s of
            (_, Some _) \<Rightarrow> Inl (InvalidField ''level size'')
          | (sz, None) \<Rightarrow> ebind (parseLevels rows) (\<lambda>ls. Inr (\<lparr> obl_Price = price, obl_Size = sz \<rparr> # ls))))"
| "parseLevels (row # rows) = parseLevels rows"

record book_data =
  bd_Symbol :: string
  bd_Bids :: "string list list"
  bd_Asks :: "string list list"
  bd_U :: int
  bd_Seq :: int

definition book_names :: "string list" where
  "book_names = [''s'', ''b'', ''a'', ''u'', ''seq'']"

text \<open>Decoding onto a struct: a field that is absent or \<open>null\<close> keeps its value.\<close>

definition decode_onto :: "(json option \<Rightarrow> 'a option) \<Rightarrow> json option \<Rightarrow> 'a \<Rightarrow> 'a option" where
  "decode_onto dec j old = (case j of None \<Rightarrow> Some old | Some JNull \<Rightarrow> Some old | Some _ \<Rightarrow> dec j)"

definition decode_rows :: "json option \<Rightarrow> string list list option" where
  "decode_rows = json_list (json_list json_string)"

definition decode_book :: "json option \<Rightarrow> book_data \<Rightarrow> book_data option" where
  "decode_book j old =
    (case j of
       None \<Rightarrow> None
     | Some _ \<Rightarrow>
         Option.bind (json_struct j) (\<lambda>m.
           let fld = (\<lambda>n. json_field book_names n m)
           in case (decode_onto json_string (fld ''s'') (bd_Symbol old), decode_onto decode_rows (fld ''b'') (bd_Bids old),
                    decode_onto decode_rows (fld ''a'') (bd_Asks old), decode_onto json_int64 (fld ''u'') (bd_U old),
                    decode_onto json_int64 (fld ''seq'') (bd_Seq old)) of
                (Some s, Some b, Some a, Some u, Some q) \<Rightarrow>
                  Some \<lparr> bd_Symbol = s, bd_Bids = b, bd_Asks = a, bd_U = u, bd_Seq = q \<rparr>
              | _ \<Rightarrow> None))"

text \<open>A decoding that fails on the type of a field still sets the fields that fit.\<close>

definition lenient :: "(json option \<Rightarrow> 'a option) \<Rightarrow> json option \<Rightarrow> 'a \<Rightarrow> 'a" where
  "lenient dec j old = (case decode_onto dec j old of Some x \<Rightarrow> x | None \<Rightarrow> old)"

definition lenient_list :: "(json option \<Rightarrow> 'a) \<Rightarrow> json option \<Rightarrow> 'a list" where
  "lenient_list f j = (case j of Some (JArray js) \<Rightarrow> map (\<lambda>j. f (Some j)) js | _ \<Rightarrow> [])"

definition no_book :: book_data where
  "no_book = \<lparr> bd_Symbol = [], bd_Bids = [], bd_Asks = [], bd_U = 0, bd_Seq = 0 \<rparr>"

definition partial_book :: "json option \<Rightarrow> book_data" where
  "partial_book j =
    (case j of
       Some (JObject m) \<Rightarrow>
         let fld = (\<lambda>n. json_field book_names n m);
             rows = lenient_list (lenient_list (\<lambda>j. lenient json_string j []))
         in \<lparr> bd_Symbol = lenient json_string (fld ''s'') [], bd_Bids = rows (fld ''b''), bd_Asks = rows (fld ''a''),
              bd_U = lenient json_int64 (fld ''u'') 0, bd_Seq = lenient json_int64 (fld ''seq'') 0 \<rparr>
     | _ \<Rightarrow> no_book)"

text \<open>The data of a message, or the message itself when the data cannot be decoded.\<close>

definition book_of_message :: "string \<Rightarrow> json option \<Rightarrow> book_data option" where
  "book_of_message payload d =
    (case decode_book d no_book of
       Some b \<Rightarrow> Some b
     | None \<Rightarrow> Option.bind (json_Unmarshal payload) (\<lambda>j. decode_book (Some j) (partial_book d)))"

definition parseOrderBookMessage ::
  "string \<Rightarrow> parse_error + (string \<times> bool \<times> int \<times> int \<times> order_book_level list \<times> order_book_level list)" where
  "parseOrderBookMessage payload =
    (case unmarshal_message typed_names payload of
       None \<Rightarrow> Inl (BadMessage ''orderbook'')
     | Some msg \<Rightarrow>
         (case splitTopic (wm_Topic msg) of
            [kind, depth, symbol] \<Rightarrow>
              if kind \<noteq> ''orderbook'' then Inl (BadTopic (wm_Topic msg))
              else
                (case book_of_message payload (wm_Data msg) of
                   None \<Rightarrow> Inl (BadData ''orderbook'')
                 | Some b \<Rightarrow>
                     ebind (parseLevels (bd_Bids b)) (\<lambda>bids.
                     ebind (parseLevels (bd_Asks b)) (\<lambda>asks.
                       Inr (if bd_Symbol b \<noteq> [] then bd_Symbol b else symbol, wm_Type msg = ''snapshot'', bd_U b,
                            bd_Seq b, bids, asks))))
          | _ \<Rightarrow> Inl (BadTopic (wm_Topic msg))))"

section \<open>Public trades\<close>

record trade_item =
  ti_Timestamp :: int
  ti_Symbol :: string
  ti_Price :: string
  ti_Size :: string
  ti_Side :: string

definition trade_names :: "string list" where
  "trade_names = [''T'', ''s'', ''p'', ''v'', ''S'']"

definition decode_trade_item :: "json option \<Rightarrow> trade_item option" where
  "decode_trade_item j =
    (case j of
       None \<Rightarrow> None
     | Some _ \<Rightarrow>
         Option.bind (json_struct j) (\<lambda>m.
           let fld = (\<lambda>n. json_field trade_names n m)
           in case (json_int64 (fld ''T''), all_some (map (\<lambda>n. json_string (fld n)) [''s'', ''p'', ''v'', ''S''])) of
                (Some t, Some ss) \<Rightarrow>
                  Some \<lparr> ti_Timestamp = t, ti_Symbol = ss ! 0, ti_Price = ss ! 1, ti_Size = ss ! 2, ti_Side = ss ! 3 \<rparr>
              | _ \<Rightarrow> None))"

definition trade_items :: "json option \<Rightarrow> trade_item list option" where
  "trade_items d =
    (case d of
       None \<Rightarrow> None
     | Some _ \<Rightarrow>
         (case json_list decode_trade_item d of
            Some items \<Rightarrow> Some items
          | None \<Rightarrow> map_option (\<lambda>i. [i]) (decode_trade_item d)))"

text \<open>Items whose price or size is no number are skipped; a symbol in an item holds for the items after it.\<close>

definition trade_step ::
  "time \<Rightarrow> int \<Rightarrow> string \<times> public_trade list \<Rightarrow> trade_item \<Rightarrow> string \<times> public_trade list" where
  "trade_step now ts st i =
    (let (symbol, trades) = st
     in case (ParseFloat (ti_Price i), ParseFloat (ti_Size i)) of
          ((price, None), (sz, None)) \<Rightarrow>
            let stamp = (if 0 < ti_Timestamp i then unix_milli (ti_Timestamp i) else message_time now ts);
                symbol = (if ti_Symbol i \<noteq> [] then ti_Symbol i else symbol)
            in (symbol, trades @ [\<lparr> pt_Symbol = symbol, pt_Price = price, pt_Size = sz, pt_Side = ti_Side i,
                                    pt_Timestamp = stamp \<rparr>])
        | _ \<Rightarrow> (symbol, trades))"

definition parsePublicTradeMessage :: "time \<Rightarrow> string \<Rightarrow> parse_error + (string \<times> public_trade list)" where
  "parsePublicTradeMessage now payload =
    (case unmarshal_message stamped_names payload of
       None \<Rightarrow> Inl (BadMessage ''publicTrade'')
     | Some msg \<Rightarrow>
         (case splitTopic (wm_Topic msg) of
            [kind, symbol] \<Rightarrow>
              if kind \<noteq> ''publicTrade'' then Inl (BadTopic (wm_Topic msg))
              else
                (case trade_items (wm_Data msg) of
                   None \<Rightarrow> Inl (BadData ''publicTrade'')
                 | Some items \<Rightarrow> Inr (foldl (trade_step now (wm_Ts msg)) (symbol, []) items))
          | _ \<Rightarrow> Inl (BadTopic (wm_Topic msg))))"

section \<open>REST candles\<close>

definition parseKlineRESTRow :: "string \<Rightarrow> string \<Rightarrow> string list \<Rightarrow> candle option" where
  "parseKlineRESTRow symbol timeframe row =
    (case ParseInt (row ! 0) of
       (_, Some _) \<Rightarrow> None
     | (start, None) \<Rightarrow>
         (case all_some (map (\<lambda>s. case ParseFloat s of (f, None) \<Rightarrow> Some f | (_, Some _) \<Rightarrow> None) (take 5 (drop 1 row))) of
            None \<Rightarrow> None
          | Some fs \<Rightarrow>
              Some \<lparr> c_Symbol = symbol, c_Timeframe = timeframe, c_OpenTime = start, c_Open = fs ! 0, c_High = fs ! 1,
                     c_Low = fs ! 2, c_Close = fs ! 3, c_Volume = fs ! 4,
                     c_TurnOver = (if 6 < length row then fst (ParseFloat (row ! 6)) else Fin 0),
                     c_Confirmed = False \<rparr>))"

definition decode_kline_reply :: "json \<Rightarrow> (int \<times> string \<times> string list list) option" where
  "decode_kline_reply j =
    Option.bind (json_struct (Some j)) (\<lambda>m.
      let names = [''retCode'', ''retMsg'', ''result'']
      in case (json_int64 (json_field names ''retCode'' m), json_string (json_field names ''retMsg'' m),
               Option.bind (json_struct (json_field names ''result'' m))
                 (\<lambda>r. json_list (json_list json_string) (json_field [''list''] ''list'' r))) of
           (Some code, Some msg, Some rows) \<Rightarrow> Some (code, msg, rows)
         | _ \<Rightarrow> None)"

text \<open>Rows that are too short or cannot be read are skipped; the candles come in increasing order of time.\<close>

definition parseKlineRESTResponse :: "string \<Rightarrow> string \<Rightarrow> string \<Rightarrow> parse_error + candle list" where
  "parseKlineRESTResponse symbol timeframe body =
    (case Option.bind (json_Unmarshal body) decode_kline_reply of
       None \<Rightarrow> Inl (BadMessage ''kline response'')
     | Some (code, msg, rows) \<Rightarrow>
         if code \<noteq> 0 then Inl (ExchangeError code msg)
         else Inr (insertion_sort (\<lambda>a b. c_OpenTime a < c_OpenTime b)
                (List.map_filter (\<lambda>row. if length row < 6 then None else parseKlineRESTRow symbol timeframe row) rows)))"

section \<open>Validation of a batch\<close>

definition invalidPositiveValue :: "f64 \<Rightarrow> bool" where
  "invalidPositiveValue v \<longleftrightarrow> isNaN v \<or> isInf v \<or> v \<le> Fin 0"

definition invalidNonNegativeValue :: "f64 \<Rightarrow> bool" where
  "invalidNonNegativeValue v \<longleftrightarrow> isNaN v \<or> isInf v \<or> v < Fin 0"

definition invalidOHLCV :: "candle \<Rightarrow> bool" where
  "invalidOHLCV c \<longleftrightarrow>
    invalidPositiveValue (c_Open c) \<or> invalidPositiveValue (c_High c) \<or> invalidPositiveValue (c_Low c) \<or>
    invalidPositiveValue (c_Close c) \<or> invalidNonNegativeValue (c_Volume c)"

record candle_validation_input =
  cv_Symbol :: string
  cv_Timeframe :: string
  cv_Candles :: "candle list"
  cv_MinRequired :: int
  cv_MaxDataAgeSeconds :: int
  cv_RequireClosedLatest :: bool
  cv_Now :: time

record candle_validation_result =
  cvr_Symbol :: string
  cvr_Timeframe :: string
  cvr_Candles :: "candle list"
  cvr_ClosedCandles :: "candle list"
  cvr_InProgressCandle :: "candle option"
  cvr_LatestCandle :: candle
  cvr_LatestIsClosed :: bool

datatype batch_error =
    EmptyBatch
  | UnsupportedTimeframe string
  | OnlyInProgress
  | InsufficientCandles int int
  | InvalidOHLCV nat int
  | NonMonotonic nat int int
  | InProgressBeforeLatest nat
  | StaleData duration int

text \<open>The scan of the batch from an index on: the closed candles, and the one in progress.\<close>

fun scan_batch :: "nat \<Rightarrow> int option \<Rightarrow> candle list \<Rightarrow> batch_error + (candle list \<times> candle option)" where
  "scan_batch i prev [] = Inr ([], None)"
| "scan_batch i prev (c # cs) =
    (let late = (case prev of Some p \<Rightarrow> fail_if (c_OpenTime c \<le> p) (NonMonotonic i p (c_OpenTime c)) | None \<Rightarrow> None)
     in if invalidOHLCV c then Inl (InvalidOHLCV i (c_OpenTime c))
        else
          (case late of
             Some e \<Rightarrow> Inl e
           | None \<Rightarrow>
               if c_Confirmed c then
                 ebind (scan_batch (i + 1) (Some (c_OpenTime c)) cs) (\<lambda>(closed, ip). Inr (c # closed, ip))
               else if cs \<noteq> [] then Inl (InProgressBeforeLatest i)
               else Inr ([], Some c)))"

text \<open>The candles that are validated: without the latest when it is in progress and a closed one is required.\<close>

definition stripped :: "candle_validation_input \<Rightarrow> candle list" where
  "stripped i =
    (if cv_RequireClosedLatest i \<and> \<not> c_Confirmed (last (cv_Candles i)) then butlast (cv_Candles i) else cv_Candles i)"

definition data_age :: "time \<Rightarrow> duration \<Rightarrow> time \<Rightarrow> candle \<Rightarrow> duration" where
  "data_age now interval ref latest =
    time_sub (if IsZero ref then now else ref) (unix_milli (wrap64 (c_OpenTime latest + milliseconds interval)))"

definition ValidateCandleBatch ::
  "data_validation_config \<Rightarrow> time \<Rightarrow> candle_validation_input \<Rightarrow> batch_error + candle_validation_result" where
  "ValidateCandleBatch cfg now i =
    (if cv_Candles i = [] then Inl EmptyBatch
     else
       (case timeframeDuration (cv_Timeframe i) of
          None \<Rightarrow> Inl (UnsupportedTimeframe (cv_Timeframe i))
        | Some interval \<Rightarrow>
            let cs = stripped i;
                minRequired = (if 0 < cv_MinRequired i then cv_MinRequired i else MinCandlesOrDefault cfg);
                maxAge = (if 0 < cv_MaxDataAgeSeconds i then cv_MaxDataAgeSeconds i
                          else MaxDataAgeSecondsFor cfg (cv_Timeframe i))
            in if cs = [] then Inl OnlyInProgress
               else if int (length cs) < minRequired then Inl (InsufficientCandles (int (length cs)) minRequired)
               else
                 ebind (scan_batch 0 None cs) (\<lambda>(closed, ip).
                   let latest = last cs; age = data_age now interval (cv_Now i) latest
                   in if seconds_of maxAge < age then Inl (StaleData age maxAge)
                      else Inr \<lparr> cvr_Symbol = cv_Symbol i, cvr_Timeframe = cv_Timeframe i, cvr_Candles = cs,
                                 cvr_ClosedCandles = closed, cvr_InProgressCandle = ip, cvr_LatestCandle = latest,
                                 cvr_LatestIsClosed = c_Confirmed latest \<rparr>)))"

end
