(* ===== verification/MarketService.thy ===== *)
theory MarketService
  imports MarketParse MarketData Store
begin

text \<open>
  The market data service (\<open>internal/marketdata/bybit_ws.go\<close>, \<open>backfill.go\<close>): the handlers of the exchange's
  messages, the queries with their fallbacks, the health of a symbol, the backfill over REST with its retries, and
  the reconnecting loop. The sockets and the HTTP transport are arguments: what each request is answered with and
  when the context is cancelled. Locks make every operation atomic, the clock is read once per operation.
\<close>

section \<open>State\<close>

text \<open>The repository may be nil; \<open>ms_cancelled\<close> is the state of the service's context.\<close>

record market_service =
  ms_config :: market_data_config
  ms_hasRepo :: bool
  ms_candleCache :: candle_cache
  ms_priceCache :: price_cache
  ms_orderBooks :: order_book_store
  ms_tradeFlows :: trade_flow_store
  ms_running :: bool
  ms_cancelled :: bool
  ms_staleThreshold :: duration
  ms_gapLogLast :: "time gomap"
  ms_dynamicSymbols :: "string list"
  ms_startTimeout :: duration

definition NewBybitWSMarketDataService :: "market_data_config \<Rightarrow> bool \<Rightarrow> market_service" where
  "NewBybitWSMarketDataService cfg hasRepo =
    (let stale = seconds_of (md_StaleDataThresholdSeconds cfg)
     in \<lparr> ms_config = cfg, ms_hasRepo = hasRepo, ms_candleCache = newCandleCache,
          ms_priceCache = \<lparr> prc_prices = [], prc_updates = [] \<rparr>, ms_orderBooks = newOrderBookStore stale,
          ms_tradeFlows = newTradeFlowStore (md_TradeFlowWindows cfg) stale, ms_running = False, ms_cancelled = False,
          ms_staleThreshold = stale, ms_gapLogLast = [], ms_dynamicSymbols = [],
          ms_startTimeout =
            (if 0 < md_StartTimeoutSeconds cfg then seconds_of (md_StartTimeoutSeconds cfg) else seconds 900) \<rparr>)"

definition service_symbols :: "market_service \<Rightarrow> string list" where
  "service_symbols s =
    (if sy_Mode (md_Symbols (ms_config s)) = ''explicit'' then sy_ExplicitList (md_Symbols (ms_config s))
     else ms_dynamicSymbols s)"

definition SetSymbols :: "string list \<Rightarrow> market_service \<Rightarrow> market_service" where
  "SetSymbols symbols s = s\<lparr>ms_dynamicSymbols := symbols\<rparr>"

section \<open>Topics\<close>

definition kline_topic :: "string \<Rightarrow> string \<Rightarrow> string" where
  "kline_topic tf symbol = ''kline.'' @ mapTimeframeToBybit tf @ ''.'' @ symbol"

definition symbol_topics :: "market_data_config \<Rightarrow> string \<Rightarrow> string list" where
  "symbol_topics cfg symbol =
    map (\<lambda>tf. kline_topic tf symbol) (md_Timeframes cfg) @ [''tickers.'' @ symbol] @
    code_if (0 < md_OrderbookDepth cfg) (''orderbook.'' @ show_int (md_OrderbookDepth cfg) @ ''.'' @ symbol) @
    [''publicTrade.'' @ symbol]"

definition buildTopics :: "market_service \<Rightarrow> string list" where
  "buildTopics s = concat (map (symbol_topics (ms_config s)) (service_symbols s))"

section \<open>Messages\<close>

definition cache_candle :: "time \<Rightarrow> string \<Rightarrow> string \<Rightarrow> candle \<Rightarrow> market_service \<Rightarrow> market_service" where
  "cache_candle now symbol tf c s = s\<lparr>ms_candleCache := cache_update now symbol tf c (ms_candleCache s)\<rparr>"

text \<open>A candle goes to the cache; a confirmed one is also stored, a failure to store it is only logged.\<close>

definition kline_step ::
  "time \<Rightarrow> string \<Rightarrow> string \<Rightarrow> market_service \<times> store \<Rightarrow> candle \<Rightarrow> market_service \<times> store" where
  "kline_step now symbol tf st c =
    (let (s, db) = st; s = cache_candle now symbol tf c s
     in if c_Confirmed c \<and> ms_hasRepo s then (s, fst (candle_Insert c db)) else (s, db))"

definition handleKlineMessage ::
  "time \<Rightarrow> string \<Rightarrow> market_service \<times> store \<Rightarrow> (market_service \<times> store) \<times> parse_error option" where
  "handleKlineMessage now payload st =
    (if \<not> ms_running (fst st) then (st, None)
     else
       (case parseKlineMessages payload of
          Inl e \<Rightarrow> (st, Some e)
        | Inr (symbol, tf, cs) \<Rightarrow>
            if ms_cancelled (fst st) then (st, None) else (foldl (kline_step now symbol tf) st cs, None)))"

definition handleTickerMessage :: "time \<Rightarrow> string \<Rightarrow> market_service \<Rightarrow> market_service \<times> parse_error option" where
  "handleTickerMessage now payload s =
    (if \<not> ms_running s then (s, None)
     else
       (case parseTickerMessage now payload of
          Inl e \<Rightarrow> (s, Some e)
        | Inr (symbol, None) \<Rightarrow> (s, None)
        | Inr (symbol, Some (price, ts)) \<Rightarrow> (s\<lparr>ms_priceCache := price_set symbol price ts (ms_priceCache s)\<rparr>, None)))"

definition handleOrderBookMessage :: "time \<Rightarrow> string \<Rightarrow> market_service \<Rightarrow> market_service \<times> parse_error option" where
  "handleOrderBookMessage now payload s =
    (if \<not> ms_running s then (s, None)
     else
       (case parseOrderBookMessage payload of
          Inl e \<Rightarrow> (s, Some e)
        | Inr (symbol, isSnapshot, updateID, sq, bids, asks) \<Rightarrow>
            if isSnapshot then
              (s\<lparr>ms_orderBooks := book_reset now symbol updateID sq bids asks (ms_orderBooks s)\<rparr>, None)
            else
              (let (books, ok) = applyDelta now symbol updateID sq bids asks (ms_orderBooks s);
                   s = s\<lparr>ms_orderBooks := books\<rparr>
               in if ok then (s, None)
                  else
                    (let shouldLog = (case map_of (ms_gapLogLast s) symbol of
                                        None \<Rightarrow> True | Some t \<Rightarrow> seconds 5 < since now t)
                     in (if shouldLog then s\<lparr>ms_gapLogLast := AList.update symbol now (ms_gapLogLast s)\<rparr> else s, None)))))"

definition trade_of :: "string \<Rightarrow> public_trade \<Rightarrow> public_trade" where
  "trade_of symbol t = (if pt_Symbol t = [] then t\<lparr>pt_Symbol := symbol\<rparr> else t)"

definition handlePublicTradeMessage :: "time \<Rightarrow> string \<Rightarrow> market_service \<Rightarrow> market_service \<times> parse_error option" where
  "handlePublicTradeMessage now payload s =
    (if \<not> ms_running s then (s, None)
     else
       (case parsePublicTradeMessage now payload of
          Inl e \<Rightarrow> (s, Some e)
        | Inr (symbol, trades) \<Rightarrow>
            (s\<lparr>ms_tradeFlows := foldl (\<lambda>fl t. flow_add now (trade_of symbol t) fl) (ms_tradeFlows s) trades\<rparr>, None)))"

text \<open>The operation of a message, when it has one, and its topic.\<close>

definition unmarshal_dispatch :: "string \<Rightarrow> (string \<times> string) option" where
  "unmarshal_dispatch payload =
    Option.bind (json_Unmarshal payload) (\<lambda>j. Option.bind (json_struct (Some j)) (\<lambda>m.
      let names = [''topic'', ''op'']
      in case (json_string (json_field names ''topic'' m), json_string (json_field names ''op'' m)) of
           (Some topic, Some op) \<Rightarrow> Some (topic, op)
         | _ \<Rightarrow> None))"

definition dispatchMessage ::
  "time \<Rightarrow> string \<Rightarrow> market_service \<times> store \<Rightarrow> (market_service \<times> store) \<times> parse_error option" where
  "dispatchMessage now payload st =
    (let (s, db) = st
     in case unmarshal_dispatch payload of
          None \<Rightarrow> (st, Some (BadMessage ''message''))
        | Some (topic, op) \<Rightarrow>
            if op = ''pong'' \<or> topic = [] then (st, None)
            else
              (let kind = hd (splitTopic topic)
               in if kind = ''kline'' then handleKlineMessage now payload st
                  else if kind = ''tickers'' then (let (s, e) = handleTickerMessage now payload s in ((s, db), e))
                  else if kind = ''orderbook'' then (let (s, e) = handleOrderBookMessage now payload s in ((s, db), e))
                  else if kind = ''publicTrade'' then (let (s, e) = handlePublicTradeMessage now payload s in ((s, db), e))
                  else (st, None)))"

section \<open>Backfill\<close>

text \<open>
  An attempt of a request: the context is cancelled before it, the request fails, is answered with a status and a
  text, or with one that cannot be read. A failure is transient or not.
\<close>

datatype rest_attempt = RestCancelled | RestFailed bool | RestUnread bool | RestReply int string

datatype backfill_error =
    ContextCancelled
  | RequestFailed
  | ReadFailed
  | BackfillStatus int string
  | BackfillParse parse_error
  | BackfillTimeframe string
  | BackfillInsert db_error
  | BackfillExhausted string

definition maxBackfillRetries :: nat where "maxBackfillRetries = 3"

definition isRateLimitError :: "parse_error \<Rightarrow> bool" where
  "isRateLimitError e =
    (case e of ExchangeError code msg \<Rightarrow> Contains (''bybit error '' @ show_int code @ '': '' @ msg) ''bybit error 10006'' | _ \<Rightarrow> False)"

text \<open>The candles of a reply that are over, marked as confirmed and stored in order.\<close>

definition candle_over :: "time \<Rightarrow> duration \<Rightarrow> candle \<Rightarrow> bool" where
  "candle_over now interval c \<longleftrightarrow> wrap64 (c_OpenTime c + milliseconds interval) \<le> milliseconds now + 500"

primrec store_candles :: "bool \<Rightarrow> candle list \<Rightarrow> store \<Rightarrow> store \<times> (db_error + unit)" where
  "store_candles hasRepo [] db = (db, Inr ())"
| "store_candles hasRepo (c # cs) db =
    (if \<not> hasRepo then (db, Inr ())
     else
       (case candle_Insert c db of
          (db, Inl e) \<Rightarrow> (db, Inl e)
        | (db, Inr _) \<Rightarrow> store_candles hasRepo cs db))"

definition take_reply ::
  "time \<Rightarrow> bool \<Rightarrow> string \<Rightarrow> candle list \<Rightarrow> store \<Rightarrow> store \<times> (backfill_error + candle list)" where
  "take_reply now hasRepo tf cs db =
    (case timeframeDuration tf of
       None \<Rightarrow> (db, Inl (BackfillTimeframe tf))
     | Some interval \<Rightarrow>
         let closed = map (c_Confirmed_update (\<lambda>_. True)) [c \<leftarrow> cs. candle_over now interval c]
         in (case store_candles hasRepo closed db of
               (db, Inl e) \<Rightarrow> (db, Inl (BackfillInsert e)) | (db, Inr _) \<Rightarrow> (db, Inr closed)))"

text \<open>The attempts from \<open>k\<close> on; the fuel is the number of attempts left.\<close>

primrec backfill_attempts ::
  "time \<Rightarrow> bool \<Rightarrow> string \<Rightarrow> string \<Rightarrow> (nat \<Rightarrow> rest_attempt) \<Rightarrow> nat \<Rightarrow> nat \<Rightarrow> store
    \<Rightarrow> nat \<times> store \<times> (backfill_error + candle list)" where
  "backfill_attempts now hasRepo symbol tf net 0 k db = (k, db, Inl (BackfillExhausted symbol))"
| "backfill_attempts now hasRepo symbol tf net (Suc n) k db =
    (let retry = k < maxBackfillRetries; again = backfill_attempts now hasRepo symbol tf net n (k + 1) db
     in case net k of
          RestCancelled \<Rightarrow> (k, db, Inl ContextCancelled)
        | RestFailed transient \<Rightarrow> if transient \<and> retry then again else (k + 1, db, Inl RequestFailed)
        | RestUnread transient \<Rightarrow> if transient \<and> retry then again else (k + 1, db, Inl ReadFailed)
        | RestReply status body \<Rightarrow>
            if status \<noteq> 200 then
              (let text = take 4096 body
               in if Contains text ''10006'' \<and> retry then again else (k + 1, db, Inl (BackfillStatus status text)))
            else
              (case parseKlineRESTResponse symbol tf body of
                 Inl e \<Rightarrow> if isRateLimitError e \<and> retry then again else (k + 1, db, Inl (BackfillParse e))
               | Inr cs \<Rightarrow> (k + 1, take_reply now hasRepo tf cs db)))"

definition backfillCandles ::
  "time \<Rightarrow> bool \<Rightarrow> string \<Rightarrow> string \<Rightarrow> (nat \<Rightarrow> rest_attempt) \<Rightarrow> int \<Rightarrow> store
    \<Rightarrow> store \<times> (backfill_error + candle list)" where
  "backfillCandles now hasRepo symbol tf net limit db =
    (if limit \<le> 0 then (db, Inr [])
     else snd (backfill_attempts now hasRepo symbol tf net (maxBackfillRetries + 1) 0 db))"

text \<open>The wait before attempt \<open>k > 0\<close>, for a jitter below half of the base.\<close>

definition backfill_wait :: "nat \<Rightarrow> duration \<Rightarrow> duration" where
  "backfill_wait k jitter =
    (let base = 2 ^ (k - 1) * seconds 1 in if k mod 2 = 0 then base + jitter else base - jitter)"

definition backfillAndWarm ::
  "time \<Rightarrow> (nat \<Rightarrow> rest_attempt) \<Rightarrow> string \<Rightarrow> string \<Rightarrow> int \<Rightarrow> market_service \<times> store
    \<Rightarrow> (market_service \<times> store) \<times> backfill_error option" where
  "backfillAndWarm now net symbol tf limit st =
    (let (s, db) = st
     in case backfillCandles now (ms_hasRepo s) symbol tf net limit db of
          (db, Inl e) \<Rightarrow> ((s, db), Some e)
        | (db, Inr cs) \<Rightarrow> ((foldl (\<lambda>s c. cache_candle now symbol tf c s) s cs, db), None))"

section \<open>Queries\<close>

text \<open>The cache, then the repository, whose candles warm the cache, then the exchange.\<close>

definition GetCandles ::
  "time \<Rightarrow> (nat \<Rightarrow> rest_attempt) \<Rightarrow> string \<Rightarrow> string \<Rightarrow> int \<Rightarrow> market_service \<times> store
    \<Rightarrow> (market_service \<times> store) \<times> (backfill_error + candle list)" where
  "GetCandles now net symbol tf limit st =
    (let (s, db) = st; cached = cache_get symbol tf limit (ms_candleCache s);
         (db, stored) = (if ms_hasRepo s then candle_GetBySymbolTimeframe symbol tf limit db else (db, Inr []))
     in if cached \<noteq> [] then (st, Inr cached)
        else
          (case stored of
             Inr (c # cs) \<Rightarrow> ((foldl (\<lambda>s c. cache_candle now symbol tf c s) s (c # cs), db), Inr (c # cs))
           | _ \<Rightarrow>
               (case backfillAndWarm now net symbol tf limit (s, db) of
                  (st, Some e) \<Rightarrow> (st, Inl e)
                | (st, None) \<Rightarrow> (st, Inr (cache_get symbol tf limit (ms_candleCache (fst st)))))))"

definition last_close :: "string \<Rightarrow> string \<Rightarrow> market_service \<Rightarrow> f64 option" where
  "last_close symbol tf s =
    (case cache_get symbol tf 1 (ms_candleCache s) of
       [] \<Rightarrow> None | cs \<Rightarrow> if Fin 0 < c_Close (last cs) then Some (c_Close (last cs)) else None)"

definition GetLatestPrice :: "string \<Rightarrow> market_service \<Rightarrow> f64 option" where
  "GetLatestPrice symbol s =
    (let candle_price = (case last_close symbol ''15m'' s of Some p \<Rightarrow> Some p | None \<Rightarrow> last_close symbol ''1H'' s)
     in case price_get symbol (ms_priceCache s) of
          Some (p, _) \<Rightarrow> if Fin 0 < p then Some p else candle_price
        | None \<Rightarrow> candle_price)"

definition GetOrderBookSummary :: "time \<Rightarrow> string \<Rightarrow> f64 \<Rightarrow> string \<Rightarrow> market_service \<Rightarrow> order_book_summary" where
  "GetOrderBookSummary now symbol target sd s = book_summary now symbol target sd (ms_orderBooks s)"

definition GetTradeFlow :: "time \<Rightarrow> string \<Rightarrow> market_service \<Rightarrow> trade_flow list" where
  "GetTradeFlow now symbol s = flow_of now symbol (ms_tradeFlows s)"

section \<open>Health\<close>

definition fresh :: "time \<Rightarrow> market_service \<Rightarrow> time \<Rightarrow> bool" where
  "fresh now s t \<longleftrightarrow> IsZero t \<or> time_sub now t \<le> ms_staleThreshold s"

definition candles_fresh :: "string list \<Rightarrow> time \<Rightarrow> string \<Rightarrow> market_service \<Rightarrow> bool" where
  "candles_fresh ord now symbol s \<longleftrightarrow>
    (let t = cache_lastUpdateAny ord symbol (ms_candleCache s)
     in fresh now s t \<and>
        (IsZero t \<or>
         list_all (\<lambda>tf. let u = cache_lastUpdate symbol tf (ms_candleCache s)
                        in \<not> IsZero u \<and> time_sub now u \<le> ms_staleThreshold s) (md_Timeframes (ms_config s))))"

definition LastUpdate :: "string list \<Rightarrow> string \<Rightarrow> market_service \<Rightarrow> time" where
  "LastUpdate ord symbol s =
    foldl max (price_lastUpdate symbol (ms_priceCache s))
      [cache_lastUpdateAny ord symbol (ms_candleCache s), book_lastUpdate symbol (ms_orderBooks s),
       flow_lastUpdate symbol (ms_tradeFlows s)]"

definition HealthStatus :: "string list \<Rightarrow> time \<Rightarrow> string \<Rightarrow> market_service \<Rightarrow> market_data_health" where
  "HealthStatus ord now symbol s =
    (let price = price_lastUpdate symbol (ms_priceCache s);
         cand = cache_lastUpdateAny ord symbol (ms_candleCache s);
         book = book_lastUpdate symbol (ms_orderBooks s);
         flow = flow_lastUpdate symbol (ms_tradeFlows s);
         candlesHealthy = candles_fresh ord now symbol s;
         nothing = (IsZero price \<and> IsZero cand \<and> IsZero book);
         healthy = (\<not> nothing \<and> fresh now s price \<and> candlesHealthy \<and> fresh now s book \<and> fresh now s flow);
         reasons =
           code_if (\<not> fresh now s price) ''stale_price'' @
           code_if (\<not> IsZero cand \<and> \<not> candlesHealthy) ''stale_candles'' @
           code_if (\<not> fresh now s book) ''stale_orderbook'' @
           code_if (\<not> fresh now s flow) ''stale_trade_flow'' @
           code_if nothing ''no_data''
     in \<lparr> h_Symbol = symbol, h_Healthy = healthy, h_LastUpdate = LastUpdate ord symbol s,
          h_StaleReason = (if healthy then [] else join '','' reasons), h_CandlesHealthy = candlesHealthy,
          h_OrderBookHealthy = fresh now s book, h_PriceHealthy = fresh now s price \<rparr>)"

definition IsHealthy :: "string list \<Rightarrow> time \<Rightarrow> string \<Rightarrow> market_service \<Rightarrow> bool" where
  "IsHealthy ord now symbol s = h_Healthy (HealthStatus ord now symbol s)"

section \<open>Start and stop\<close>

text \<open>
  Starting: every pair of a symbol and a timeframe is backfilled, by five workers whose jobs touch different series,
  here one after the other; the service fails closed when every backfill failed. The wait for the workers ends with
  their last job; a cancelled or timed out wait cancels the service like a failed start.
\<close>

datatype start_error = NoSymbols | AllBackfillsFailed int | StartCancelled

definition backfill_jobs :: "market_service \<Rightarrow> (string \<times> string) list" where
  "backfill_jobs s =
    (if 0 < md_BackfillCandles (ms_config s)
     then concat (map (\<lambda>symbol. map (\<lambda>tf. (symbol, tf)) (md_Timeframes (ms_config s))) (service_symbols s)) else [])"

definition backfill_job ::
  "time \<Rightarrow> (string \<Rightarrow> string \<Rightarrow> nat \<Rightarrow> rest_attempt) \<Rightarrow> (market_service \<times> store) \<times> int \<Rightarrow> string \<times> string
    \<Rightarrow> (market_service \<times> store) \<times> int" where
  "backfill_job now net acc job =
    (let (st, ok) = acc; (symbol, tf) = job;
         (st, e) = backfillAndWarm now (net symbol tf) symbol tf (md_BackfillCandles (ms_config (fst st))) st
     in (st, if e = None then ok + 1 else ok))"

definition failStart :: "market_service \<Rightarrow> market_service" where
  "failStart s = s\<lparr>ms_running := False, ms_cancelled := True\<rparr>"

definition Start ::
  "time \<Rightarrow> (string \<Rightarrow> string \<Rightarrow> nat \<Rightarrow> rest_attempt) \<Rightarrow> bool \<Rightarrow> market_service \<times> store
    \<Rightarrow> (market_service \<times> store) \<times> start_error option" where
  "Start now net interrupted st =
    (let (s, db) = st
     in if service_symbols s = [] then (st, Some NoSymbols)
        else if ms_running s then (st, None)
        else
          (let s = s\<lparr>ms_running := True, ms_cancelled := False\<rparr>; jobs = backfill_jobs s;
               ((s, db), ok) = foldl (backfill_job now net) ((s, db), 0) jobs
           in if interrupted then ((failStart s, db), Some StartCancelled)
              else if jobs \<noteq> [] \<and> ok = 0 then ((failStart s, db), Some (AllBackfillsFailed (int (length jobs))))
              else ((s, db), None)))"

definition Stop :: "market_service \<Rightarrow> market_service" where
  "Stop s = (if ms_running s then s\<lparr>ms_running := False, ms_cancelled := True\<rparr> else s)"

section \<open>A connection\<close>

text \<open>
  What reading a connection gives: a payload at a time, the deadline of the read, the peer's normal closing, or
  another failure. The list of a connection ends with its context, that of the wait for the acknowledgement with
  the wait's deadline, after the first \<open>cn_early\<close> frames.
\<close>

datatype frame = Frame time string | FrameTimeout | FrameClosed | FrameFailed

datatype ws_error = SubscribeRejected string | AckTimeout | ConnectionFailed

record connection =
  cn_dialed :: bool
  cn_subscribed :: bool
  cn_early :: nat
  cn_frames :: "frame list"

definition isSubscribeRejection :: "ws_error \<Rightarrow> bool" where
  "isSubscribeRejection e \<longleftrightarrow> (case e of SubscribeRejected _ \<Rightarrow> True | _ \<Rightarrow> False)"

text \<open>The acknowledgement a payload is: whether it succeeded and its message.\<close>

definition unmarshal_ack :: "string \<Rightarrow> (bool \<times> string) option" where
  "unmarshal_ack payload =
    Option.bind (json_Unmarshal payload) (\<lambda>j. Option.bind (json_struct (Some j)) (\<lambda>m.
      let fld = (\<lambda>n. json_field [''op'', ''success'', ''ret_msg''] n m)
      in case (json_string (fld ''op''), json_bool (fld ''success''), json_string (fld ''ret_msg'')) of
           (Some op, Some ok, Some msg) \<Rightarrow> if op = ''subscribe'' then Some (ok, msg) else None
         | _ \<Rightarrow> None))"

text \<open>The frames before the acknowledgement, in order, and those after it.\<close>

fun waitForSubscribeAck :: "nat \<Rightarrow> (time \<times> string) list \<Rightarrow> frame list \<Rightarrow> ws_error + ((time \<times> string) list \<times> frame list)" where
  "waitForSubscribeAck 0 pre frames = Inl AckTimeout"
| "waitForSubscribeAck (Suc n) pre [] = Inl AckTimeout"
| "waitForSubscribeAck (Suc n) pre (Frame t p # frames) =
    (case unmarshal_ack p of
       Some (ok, msg) \<Rightarrow> if ok then Inr (pre, frames) else Inl (SubscribeRejected msg)
     | None \<Rightarrow> waitForSubscribeAck n (pre @ [(t, p)]) frames)"
| "waitForSubscribeAck (Suc n) pre (FrameTimeout # frames) = waitForSubscribeAck n pre frames"
| "waitForSubscribeAck (Suc n) pre (_ # frames) = Inl ConnectionFailed"

definition deliver :: "market_service \<times> store \<Rightarrow> time \<times> string \<Rightarrow> market_service \<times> store" where
  "deliver st m = fst (dispatchMessage (fst m) (snd m) st)"

fun serve_frames :: "frame list \<Rightarrow> market_service \<times> store \<Rightarrow> (market_service \<times> store) \<times> ws_error option" where
  "serve_frames [] st = (st, None)"
| "serve_frames (Frame t p # frames) st =
    (if ms_cancelled (fst st) then (st, None) else serve_frames frames (deliver st (t, p)))"
| "serve_frames (FrameClosed # frames) st = (st, None)"
| "serve_frames (_ # frames) st = (st, if ms_cancelled (fst st) then None else Some ConnectionFailed)"

definition connectAndServe ::
  "connection \<Rightarrow> market_service \<times> store \<Rightarrow> (market_service \<times> store) \<times> ws_error option" where
  "connectAndServe c st =
    (if \<not> cn_dialed c \<or> ms_cancelled (fst st) \<or> \<not> cn_subscribed c then (st, Some ConnectionFailed)
     else
       (case waitForSubscribeAck (cn_early c) [] (cn_frames c) of
          Inl e \<Rightarrow> (st, Some e)
        | Inr (pre, frames) \<Rightarrow> serve_frames frames (foldl deliver st pre)))"

section \<open>Reconnecting\<close>

text \<open>
  A round of the loop: the context is done before it, how the connection ended and whether it lasted more than a
  minute, whether the context is done during the wait, and the jitter in milliseconds, below 500.
\<close>

record ws_round =
  wr_done :: bool
  wr_error :: "ws_error option"
  wr_long :: bool
  wr_interrupted :: bool
  wr_jitter :: int

definition max_reconnect :: "market_data_config \<Rightarrow> duration" where
  "max_reconnect cfg = max (seconds 1) (seconds_of (md_ReconnectIntervalSeconds cfg))"

text \<open>The wait after a connection and the number of consecutive rejections.\<close>

definition round_backoff :: "ws_round \<Rightarrow> duration \<times> int \<Rightarrow> duration \<times> int" where
  "round_backoff r st =
    (let (backoff, rejections) = st;
         (backoff, rejections) =
           (case wr_error r of
              None \<Rightarrow> (seconds 1, 0)
            | Some e \<Rightarrow>
                if isSubscribeRejection e
                then (if 5 \<le> rejections + 1 then minutes 5 else backoff, rejections + 1) else (backoff, 0))
     in if wr_long r then (seconds 1, 0) else (backoff, rejections))"

definition grow_backoff :: "market_data_config \<Rightarrow> int \<Rightarrow> duration \<times> int \<Rightarrow> duration" where
  "grow_backoff cfg jitter st =
    (let (backoff, rejections) = st;
         backoff = wrap64 (f64_to_int64 (f64_of_int backoff * Fin (3 / 2)) + jitter * 10 ^ 6);
         ceiling = (if 5 \<le> rejections then max (max_reconnect cfg) (minutes 5) else max_reconnect cfg)
     in if ceiling < backoff then ceiling else backoff)"

text \<open>The waits of the loop from round \<open>k\<close> on; a loop that never ends has no value.\<close>

partial_function (option) ws_rounds ::
  "market_data_config \<Rightarrow> (nat \<Rightarrow> ws_round) \<Rightarrow> nat \<Rightarrow> duration \<times> int \<Rightarrow> duration list option" where
  "ws_rounds cfg env k st =
    (if wr_done (env k) then Some []
     else
       (let (backoff, rejections) = round_backoff (env k) st
        in if wr_interrupted (env k) then Some [backoff]
           else Option.bind (ws_rounds cfg env (k + 1)
                  (grow_backoff cfg (wr_jitter (env k)) (backoff, rejections), rejections))
                  (\<lambda>waits. Some (backoff # waits))))"

definition runWSLoop :: "market_data_config \<Rightarrow> (nat \<Rightarrow> ws_round) \<Rightarrow> duration list option" where
  "runWSLoop cfg env = ws_rounds cfg env 0 (seconds 1, 0)"

end
