(* ===== verification/MarketServiceSpec.thy ===== *)
theory MarketServiceSpec
  imports MarketService MarketDataSpec
begin

text \<open>
  What the market data service promises: the topics it subscribes to are read back as the series they stand for,
  what the parsers accept is well typed and the cached series stay sorted and bounded, a validated batch is sound,
  and the reconnecting loop ends exactly when its context does, with bounded waits.
\<close>

section \<open>Topics\<close>

lemma splitTopic_nonempty [simp]: "splitTopic s \<noteq> []"
  by (induction s rule: splitTopic.induct) (auto split: list.split)

lemma splitTopic_plain: "CHR ''.'' \<notin> set s \<Longrightarrow> splitTopic s = [s]"
  by (induction s rule: splitTopic.induct) auto

lemma splitTopic_append: "CHR ''.'' \<notin> set p \<Longrightarrow> splitTopic (p @ CHR ''.'' # s) = p # splitTopic s"
  by (induction p) auto

lemma intervals_inverse:
  assumes "tf \<in> set validTimeframes"
  shows "mapBybitToTimeframe (mapTimeframeToBybit tf) = tf" "CHR ''.'' \<notin> set (mapTimeframeToBybit tf)"
  using assms by (auto simp: validTimeframes_def mapBybitToTimeframe_def mapTimeframeToBybit_def interval_names_def)

lemma split_kline_topic:
  assumes "tf \<in> set validTimeframes" "CHR ''.'' \<notin> set symbol"
  shows "splitTopic (kline_topic tf symbol) = [''kline'', mapTimeframeToBybit tf, symbol]"
  using splitTopic_append [of "''kline''" "mapTimeframeToBybit tf @ ''.'' @ symbol"]
    splitTopic_append [of "mapTimeframeToBybit tf" symbol] intervals_inverse(2) [OF assms(1)] splitTopic_plain [OF assms(2)]
  by (simp add: kline_topic_def)

lemma kline_parsed:
  assumes "parseKlineMessages payload = Inr (symbol, tf, cs)"
  obtains msg interval items where "unmarshal_message kline_names payload = Some msg"
    "splitTopic (wm_Topic msg) = [''kline'', interval, symbol]" "tf = mapBybitToTimeframe interval" "items \<noteq> []"
    "all_right (map (mapToCandle symbol tf) items) = Inr cs"
  using assms that
  by (auto simp: parseKlineMessages_def Let_def simp del: all_right.simps list.map split: option.splits list.splits if_splits)

lemma all_right_Inr:
  "all_right xs = Inr ys \<longleftrightarrow> length ys = length xs \<and> (\<forall>i<length xs. xs ! i = Inr (ys ! i))"
proof (induction xs arbitrary: ys)
  case (Cons x xs)
  show ?case
  proof
    assume "all_right (x # xs) = Inr ys"
    then obtain y zs where "x = Inr y" "all_right xs = Inr zs" "ys = y # zs" by auto
    then show "length ys = length (x # xs) \<and> (\<forall>i<length (x # xs). (x # xs) ! i = Inr (ys ! i))"
      using Cons by (auto simp: nth_Cons split: nat.split)
  next
    assume a: "length ys = length (x # xs) \<and> (\<forall>i<length (x # xs). (x # xs) ! i = Inr (ys ! i))"
    then obtain y zs where ys: "ys = y # zs" by (cases ys) auto
    have "x = Inr y" using a ys by (metis length_greater_0_conv list.discI nth_Cons_0)
    moreover have "all_right xs = Inr zs"
      unfolding Cons using a ys by (auto simp: nth_Cons split: nat.splits)
    ultimately show "all_right (x # xs) = Inr ys" by (simp add: ys)
  qed
qed auto

lemma all_right_all: "all_right (map f xs) = Inr ys \<Longrightarrow> (\<And>x y. f x = Inr y \<Longrightarrow> P y) \<Longrightarrow> \<forall>y\<in>set ys. P y"
  unfolding all_right_Inr by (metis in_set_conv_nth length_map nth_map)

lemma candle_names: "mapToCandle symbol tf m = Inr c \<Longrightarrow> c_Symbol c = symbol \<and> c_Timeframe c = tf"
  by (auto simp: mapToCandle_def)

text \<open>
  For the timeframes an accepted configuration can contain and symbols without a dot, a candle topic the service
  subscribes to is split into its three parts and the interval is mapped back to the configured timeframe; different
  pairs have different topics; and every candle message on the topic that is accepted is filed under the symbol and
  the configured timeframe, as are all its candles.
\<close>

theorem subscribed_topics_read_back:
  assumes "tf \<in> set validTimeframes" and "CHR ''.'' \<notin> set symbol"
  shows "splitTopic (kline_topic tf symbol) = [''kline'', mapTimeframeToBybit tf, symbol] \<and>
    mapBybitToTimeframe (mapTimeframeToBybit tf) = tf \<and>
    (\<forall>tf' symbol'. tf' \<in> set validTimeframes \<and> CHR ''.'' \<notin> set symbol' \<and> kline_topic tf' symbol' = kline_topic tf symbol \<longrightarrow>
       tf' = tf \<and> symbol' = symbol) \<and>
    (\<forall>payload msg s t cs. unmarshal_message kline_names payload = Some msg \<and> wm_Topic msg = kline_topic tf symbol \<and>
       parseKlineMessages payload = Inr (s, t, cs) \<longrightarrow>
       s = symbol \<and> t = tf \<and> cs \<noteq> [] \<and> (\<forall>c\<in>set cs. c_Symbol c = symbol \<and> c_Timeframe c = tf))"
proof (intro conjI allI impI)
  note sp = split_kline_topic [OF assms]
  show "splitTopic (kline_topic tf symbol) = [''kline'', mapTimeframeToBybit tf, symbol]" by (rule sp)
  show "mapBybitToTimeframe (mapTimeframeToBybit tf) = tf" by (rule intervals_inverse(1) [OF assms(1)])
  fix tf' symbol'
  assume a: "tf' \<in> set validTimeframes \<and> CHR ''.'' \<notin> set symbol' \<and> kline_topic tf' symbol' = kline_topic tf symbol"
  then have "mapTimeframeToBybit tf' = mapTimeframeToBybit tf \<and> symbol' = symbol"
    using sp split_kline_topic [of tf' symbol'] by simp
  then show "tf' = tf" "symbol' = symbol" using a intervals_inverse(1) assms(1) by metis+
next
  fix payload msg s t cs
  assume a: "unmarshal_message kline_names payload = Some msg \<and> wm_Topic msg = kline_topic tf symbol \<and>
      parseKlineMessages payload = Inr (s, t, cs)"
  then obtain items where k: "s = symbol" "t = tf" "items \<noteq> []" "all_right (map (mapToCandle symbol tf) items) = Inr cs"
    using split_kline_topic [OF assms] intervals_inverse(1) [OF assms(1)] by (auto elim!: kline_parsed)
  then show "s = symbol" "t = tf" "cs \<noteq> []" by (auto simp: all_right_Inr)
  show "\<forall>c\<in>set cs. c_Symbol c = symbol \<and> c_Timeframe c = tf"
    by (rule all_right_all [OF k(4)]) (rule candle_names)
qed

theorem subscribed_topics_read_back_witness:
  "splitTopic (kline_topic ''15m'' ''BTCUSDT'') = [''kline'', ''15'', ''BTCUSDT''] \<and> mapBybitToTimeframe ''15'' = ''15m''"
proof -
  have m: "mapTimeframeToBybit ''15m'' = ''15''" by code_simp
  show ?thesis
    using subscribed_topics_read_back [of "''15m''" "''BTCUSDT''"] unfolding m by (simp add: validTimeframes_def)
qed

section \<open>Typed messages\<close>

definition int64 :: "int \<Rightarrow> bool" where
  "int64 n \<longleftrightarrow> - (2 ^ 63) \<le> n \<and> n < 2 ^ 63"

definition finite_f64 :: "f64 \<Rightarrow> bool" where
  "finite_f64 x \<longleftrightarrow> is_f64 x \<and> x \<noteq> NaN \<and> \<not> isInf x"

definition typed_candle :: "candle \<Rightarrow> bool" where
  "typed_candle c \<longleftrightarrow> int64 (c_OpenTime c) \<and> finite_f64 (c_Open c) \<and> finite_f64 (c_High c) \<and> finite_f64 (c_Low c) \<and>
    finite_f64 (c_Close c) \<and> finite_f64 (c_Volume c) \<and> finite_f64 (c_TurnOver c)"

definition typed_level :: "order_book_level \<Rightarrow> bool" where
  "typed_level l \<longleftrightarrow> is_f64 (obl_Price l) \<and> is_f64 (obl_Size l)"

lemma int64_f64: "int64 (f64_to_int64 x)"
  by (simp add: f64_to_int64_def int64_def Let_def)

lemma int64_ParseInt: "int64 (fst (ParseInt s))"
  by (auto simp: ParseInt_def int64_def Let_def split: prod.split)

lemma int64_getInt64: "getInt64 m k = Inr n \<Longrightarrow> int64 n"
  using int64_ParseInt int64_f64
  by (auto simp: getInt64_def split: option.splits prod.splits) (metis fst_conv)

lemma finite_getFloat: "getFloat m k = Inr x \<Longrightarrow> finite_f64 x"
  using is_f64_ParseFloat
  by (auto simp: getFloat_def finite_f64_def isNaN_def split: option.splits prod.splits if_splits) (metis fst_conv)

lemma finite_zero: "finite_f64 (Fin 0)"
  by (simp add: finite_f64_def is_f64_Fin isInf_def)

lemma typed_mapToCandle: "mapToCandle symbol tf m = Inr c \<Longrightarrow> typed_candle c"
  by (auto simp: mapToCandle_def typed_candle_def turnover_field_def finite_zero int64_getInt64 finite_getFloat split: sum.split)

lemma typed_parseLevels: "parseLevels rows = Inr ls \<Longrightarrow> \<forall>l\<in>set ls. typed_level l"
proof (induction rows arbitrary: ls rule: parseLevels.induct)
  case (2 p s r rows)
  have "is_f64 (fst (ParseFloat p))" "is_f64 (fst (ParseFloat s))" by (rule is_f64_ParseFloat)+
  with 2 show ?case by (auto simp: typed_level_def split: prod.splits option.splits)
qed auto

lemma int64_json: "json_int64 j = Some n \<Longrightarrow> int64 n"
  using int64_ParseInt
  by (auto simp: json_int64_def int64_def split: option.splits json.splits prod.splits) (metis fst_conv)+

lemma int64_onto: "decode_onto json_int64 j old = Some n \<Longrightarrow> int64 old \<Longrightarrow> int64 n"
  by (auto simp: decode_onto_def int64_json split: option.splits json.splits)

lemma int64_lenient: "int64 old \<Longrightarrow> int64 (lenient json_int64 j old)"
  by (auto simp: lenient_def int64_onto split: option.split)

lemma int64_book:
  assumes "book_of_message payload d = Some b"
  shows "int64 (bd_U b)" "int64 (bd_Seq b)"
proof -
  have zero: "int64 0" by (simp add: int64_def)
  have dec: "int64 (bd_U b) \<and> int64 (bd_Seq b)" if "decode_book j old = Some b" "int64 (bd_U old)" "int64 (bd_Seq old)" for j old b
    using that by (auto simp: decode_book_def Let_def int64_onto split: option.splits bind_splits)
  have "int64 (bd_U (partial_book d)) \<and> int64 (bd_Seq (partial_book d))"
    by (auto simp: partial_book_def no_book_def zero int64_lenient Let_def split: option.split json.split)
  then have "int64 (bd_U b) \<and> int64 (bd_Seq b)"
    using assms dec [of d no_book] dec [of _ "partial_book d"] zero
    by (auto simp: book_of_message_def no_book_def split: option.splits bind_splits)
  then show "int64 (bd_U b)" "int64 (bd_Seq b)" by simp_all
qed

lemma typed_trades:
  assumes "foldl (trade_step now ts) (symbol, []) items = (s, trades)"
  shows "\<forall>t\<in>set trades. is_f64 (pt_Price t) \<and> is_f64 (pt_Size t)"
proof -
  have step: "\<forall>t\<in>set (snd (trade_step now ts st i)). is_f64 (pt_Price t) \<and> is_f64 (pt_Size t)"
    if "\<forall>t\<in>set (snd st). is_f64 (pt_Price t) \<and> is_f64 (pt_Size t)" for st i
    using that is_f64_ParseFloat [of "ti_Price i"] is_f64_ParseFloat [of "ti_Size i"]
    by (auto simp: trade_step_def Let_def split: prod.splits option.splits)
  have "\<forall>t\<in>set (snd (foldl (trade_step now ts) (symbol, []) items)). is_f64 (pt_Price t) \<and> is_f64 (pt_Size t)"
    by (rule foldl_invariant) (simp, rule step)
  then show ?thesis by (simp add: assms)
qed

section \<open>The cached series\<close>

text \<open>
  Every series of the cache is strictly increasing in time, has at most 500 candles and holds only candles with
  positive prices; every level of a book and every cached price is a 64-bit number.
\<close>

definition cache_ok :: "candle_cache \<Rightarrow> bool" where
  "cache_ok cc \<longleftrightarrow> (\<forall>k cs. map_of (cc_candles cc) k = Some cs \<longrightarrow>
    series cs \<and> length cs \<le> 500 \<and> (\<forall>c\<in>set cs. cacheable c))"

lemma cache_ok_at: "cache_ok cc \<Longrightarrow> series (list_at k (cc_candles cc)) \<and> (\<forall>c\<in>set (list_at k (cc_candles cc)). cacheable c)"
  by (auto simp: cache_ok_def list_at_def split: option.split)

lemma cache_ok_new: "cache_ok newCandleCache"
  by (simp add: cache_ok_def newCandleCache_def)

lemma cache_ok_update:
  assumes "cache_ok cc"
  shows "cache_ok (cache_update now symbol tf c cc)"
proof (cases "cacheable c")
  case True
  let ?k = "candleKey symbol tf"
  note at = cache_ok_at [OF assms, of ?k]
  have w: "series (put_candle c (list_at ?k (cc_candles cc)))" "length (put_candle c (list_at ?k (cc_candles cc))) \<le> 500"
    using at by (simp_all add: put_candle_write series_drop series_write)
  have "set (put_candle c xs) \<subseteq> insert c (set xs)" if "series xs" for xs
    using that by (auto simp: put_candle_write write_series_def dest!: in_set_dropD)
  with at have "\<forall>d\<in>set (put_candle c (list_at ?k (cc_candles cc))). cacheable d" using True by blast
  with w assms True show ?thesis by (auto simp: cache_update_def Let_def cache_ok_def)
qed (simp add: cache_update_def assms)

lemma kline_step_frame:
  "cache_ok (ms_candleCache (fst (kline_step now symbol tf st c)))" if "cache_ok (ms_candleCache (fst st))"
  using that by (auto simp: kline_step_def cache_candle_def Let_def cache_ok_update split: prod.split)

lemma kline_fold_ok:
  "cache_ok (ms_candleCache (fst st)) \<Longrightarrow> cache_ok (ms_candleCache (fst (foldl (kline_step now symbol tf) st cs)))"
  by (rule foldl_invariant [of "\<lambda>st. cache_ok (ms_candleCache (fst st))"]) (auto intro: kline_step_frame)

lemma cache_candle_ok: "cache_ok (ms_candleCache s) \<Longrightarrow> cache_ok (ms_candleCache (cache_candle now symbol tf c s))"
  by (simp add: cache_candle_def cache_ok_update)

lemma warm_fold_ok:
  "cache_ok (ms_candleCache s) \<Longrightarrow> cache_ok (ms_candleCache (foldl (\<lambda>s c. cache_candle now symbol tf c s) s cs))"
  by (rule foldl_invariant [of "\<lambda>s. cache_ok (ms_candleCache s)"]) (auto intro: cache_candle_ok)

lemma dispatch_cache_ok:
  assumes "cache_ok (ms_candleCache (fst st))"
  shows "cache_ok (ms_candleCache (fst (fst (dispatchMessage now payload st))))"
proof -
  have "ms_candleCache (fst (handleTickerMessage now payload s)) = ms_candleCache s"
    "ms_candleCache (fst (handleOrderBookMessage now payload s)) = ms_candleCache s"
    "ms_candleCache (fst (handlePublicTradeMessage now payload s)) = ms_candleCache s" for s
    by (auto simp: handleTickerMessage_def handleOrderBookMessage_def handlePublicTradeMessage_def Let_def
        split: sum.split option.split prod.split)
  moreover have "cache_ok (ms_candleCache (fst (fst (handleKlineMessage now payload st))))"
    using assms by (auto simp: handleKlineMessage_def kline_fold_ok split: sum.split)
  ultimately show ?thesis
    using assms by (simp add: dispatchMessage_def Let_def split_beta split: option.split)
qed

lemma backfill_cache_ok:
  "cache_ok (ms_candleCache (fst st)) \<Longrightarrow> cache_ok (ms_candleCache (fst (fst (backfillAndWarm now net symbol tf limit st))))"
  by (auto simp: backfillAndWarm_def Let_def warm_fold_ok split: prod.split sum.split)

lemma GetCandles_cache_ok:
  assumes "cache_ok (ms_candleCache (fst st))"
  shows "cache_ok (ms_candleCache (fst (fst (GetCandles now net symbol tf limit st))))"
proof -
  have "cache_ok (ms_candleCache (fst (fst (backfillAndWarm now net symbol tf limit (fst st, db)))))" for db
    using backfill_cache_ok [of "(fst st, db)"] assms by simp
  then show ?thesis
    using assms backfill_cache_ok [OF assms, of now net symbol tf limit]
    by (simp add: GetCandles_def Let_def split_beta warm_fold_ok cache_candle_ok split: sum.split list.split option.split)
qed

lemma job_cache_ok:
  "cache_ok (ms_candleCache (fst (fst a))) \<Longrightarrow> cache_ok (ms_candleCache (fst (fst (backfill_job now net a job))))"
  by (simp add: backfill_job_def Let_def split_beta backfill_cache_ok)

lemma Start_cache_ok:
  assumes "cache_ok (ms_candleCache (fst st))"
  shows "cache_ok (ms_candleCache (fst (fst (Start now net interrupted st))))"
proof -
  have "cache_ok (ms_candleCache (fst (fst (foldl (backfill_job now net) (st', 0) jobs))))"
    if "cache_ok (ms_candleCache (fst st'))" for st' jobs
    using that by (intro foldl_invariant [of "\<lambda>a. cache_ok (ms_candleCache (fst (fst a)))"] job_cache_ok) simp_all
  then show ?thesis
    using assms by (simp add: Start_def Let_def split_beta failStart_def)
qed

lemma cacheable_pos: "cacheable c \<Longrightarrow> Fin 0 < c_Open c \<and> Fin 0 < c_High c \<and> Fin 0 < c_Low c \<and> Fin 0 < c_Close c"
proof -
  have "\<not> x \<le> Fin 0 \<Longrightarrow> \<not> isNaN x \<Longrightarrow> Fin 0 < x" for x by (cases x) (auto simp: isNaN_def)
  then show "cacheable c \<Longrightarrow> ?thesis" by (simp add: cacheable_def not_finite_def)
qed

lemma serve_cache_ok:
  "cache_ok (ms_candleCache (fst st)) \<Longrightarrow> cache_ok (ms_candleCache (fst (fst (serve_frames frames st))))"
  by (induction frames st rule: serve_frames.induct) (auto simp: deliver_def dispatch_cache_ok)

lemma connection_cache_ok:
  assumes "cache_ok (ms_candleCache (fst st))"
  shows "cache_ok (ms_candleCache (fst (fst (connectAndServe c st))))"
proof -
  have "cache_ok (ms_candleCache (fst (foldl deliver st pre)))" for pre
    by (rule foldl_invariant [of "\<lambda>st. cache_ok (ms_candleCache (fst st))"])
      (use assms in \<open>auto simp: deliver_def dispatch_cache_ok\<close>)
  then show ?thesis
    using assms by (auto simp: connectAndServe_def serve_cache_ok split: sum.split)
qed

section \<open>The service over its operations\<close>

text \<open>What can happen to a service, with its store: messages, whole connections, queries, and its being started, stopped and given symbols.\<close>

inductive service_reachable :: "market_data_config \<Rightarrow> bool \<Rightarrow> market_service \<times> store \<Rightarrow> bool"
  for cfg hasRepo where
  new: "service_reachable cfg hasRepo (NewBybitWSMarketDataService cfg hasRepo, db)"
| message: "service_reachable cfg hasRepo st \<Longrightarrow> service_reachable cfg hasRepo (fst (dispatchMessage now payload st))"
| connection: "service_reachable cfg hasRepo st \<Longrightarrow> service_reachable cfg hasRepo (fst (connectAndServe c st))"
| query: "service_reachable cfg hasRepo st \<Longrightarrow> service_reachable cfg hasRepo (fst (GetCandles now net symbol tf limit st))"
| backfill: "service_reachable cfg hasRepo st \<Longrightarrow>
    service_reachable cfg hasRepo (fst (backfillAndWarm now net symbol tf limit st))"
| start: "service_reachable cfg hasRepo st \<Longrightarrow> service_reachable cfg hasRepo (fst (Start now jobs interrupted st))"
| stop: "service_reachable cfg hasRepo st \<Longrightarrow> service_reachable cfg hasRepo (Stop (fst st), snd st)"
| symbols: "service_reachable cfg hasRepo st \<Longrightarrow> service_reachable cfg hasRepo (SetSymbols ss (fst st), snd st)"

lemma service_cache_ok: "service_reachable cfg hasRepo st \<Longrightarrow> cache_ok (ms_candleCache (fst st))"
  by (induction rule: service_reachable.induct)
    (simp_all add: NewBybitWSMarketDataService_def Let_def cache_ok_new dispatch_cache_ok connection_cache_ok GetCandles_cache_ok
      backfill_cache_ok Start_cache_ok Stop_def SetSymbols_def)

lemma stopped_handlers:
  assumes "\<not> ms_running s"
  shows "fst (handleKlineMessage now payload (s, db)) = (s, db)" "fst (handleTickerMessage now payload s) = s"
    "fst (handleOrderBookMessage now payload s) = s" "fst (handlePublicTradeMessage now payload s) = s"
  using assms
  by (simp_all add: handleKlineMessage_def handleTickerMessage_def handleOrderBookMessage_def handlePublicTradeMessage_def)

lemma stopped_ignores: "\<not> ms_running s \<Longrightarrow> fst (dispatchMessage now payload (s, db)) = (s, db)"
  by (simp add: dispatchMessage_def Let_def split_beta stopped_handlers split: option.split)

text \<open>
  C27: whatever messages and connections arrive, candles are asked for or backfilled, and however often the service is started and stopped, every
  cached candle series is strictly increasing in time, holds at most 500 candles, and only candles with positive open,
  high, low and close prices; and a service that is not running leaves its state and the store as they are whatever
  message it gets.
\<close>

theorem service_cache_sound:
  assumes "service_reachable cfg hasRepo (s, db)"
  shows "(\<forall>symbol tf cs. map_of (cc_candles (ms_candleCache s)) (candleKey symbol tf) = Some cs \<longrightarrow>
      sorted_wrt (\<lambda>a b. c_OpenTime a < c_OpenTime b) cs \<and> length cs \<le> 500 \<and>
      (\<forall>c\<in>set cs. Fin 0 < c_Open c \<and> Fin 0 < c_High c \<and> Fin 0 < c_Low c \<and> Fin 0 < c_Close c)) \<and>
    (\<forall>now payload. \<not> ms_running s \<longrightarrow> fst (dispatchMessage now payload (s, db)) = (s, db))"
proof (intro conjI allI impI)
  have "cache_ok (ms_candleCache s)" using service_cache_ok [OF assms] by simp
  moreover fix symbol tf cs
  assume "map_of (cc_candles (ms_candleCache s)) (candleKey symbol tf) = Some cs"
  ultimately have "series cs \<and> length cs \<le> 500 \<and> (\<forall>c\<in>set cs. cacheable c)" by (auto simp: cache_ok_def)
  then show "sorted_wrt (\<lambda>a b. c_OpenTime a < c_OpenTime b) cs" "length cs \<le> 500"
    "\<forall>c\<in>set cs. Fin 0 < c_Open c \<and> Fin 0 < c_High c \<and> Fin 0 < c_Low c \<and> Fin 0 < c_Close c"
    by (auto simp: sorted_wrt_map cacheable_pos)
qed (rule stopped_ignores)

definition demo_market :: market_data_config where
  "demo_market =
    \<lparr> md_Provider = ''bybit'', md_Symbols = \<lparr> sy_Mode = ''explicit'', sy_ExplicitList = [''BTCUSDT''] \<rparr>, md_WSURL = [],
      md_RESTURL = [], md_ReconnectIntervalSeconds = 30, md_StaleDataThresholdSeconds = 60, md_BackfillCandles = 0,
      md_StartTimeoutSeconds = 0, md_Timeframes = [''15m''], md_OrderbookDepth = 50, md_TradeFlowWindows = [60] \<rparr>"

definition demo_candle :: candle where
  "demo_candle =
    \<lparr> c_Symbol = ''BTCUSDT'', c_Timeframe = ''15m'', c_OpenTime = 900, c_Open = Fin 10, c_High = Fin 12, c_Low = Fin 9,
      c_Close = Fin 11, c_Volume = Fin 5, c_TurnOver = Fin 0, c_Confirmed = False \<rparr>"

definition demo_message :: string where
  \<open>demo_message = ''{"topic":"kline.15.BTCUSDT","data":{"start":900,"open":"10","high":"12","low":"9","close":"11","volume":"5"}}''\<close>

definition demo_fields :: json_map where
  "demo_fields =
    [(''start'', JNumber ''900''), (''open'', JString ''10''), (''high'', JString ''12''), (''low'', JString ''9''),
     (''close'', JString ''11''), (''volume'', JString ''5'')]"

lemma demo_unmarshalled:
  "unmarshal_message kline_names demo_message =
    Some \<lparr> wm_Topic = ''kline.15.BTCUSDT'', wm_Type = [], wm_Ts = 0, wm_Data = Some (JObject demo_fields) \<rparr>"
  by code_simp

lemma demo_dispatched: "unmarshal_dispatch demo_message = Some (''kline.15.BTCUSDT'', [])"
  by code_simp

lemma demo_split: "splitTopic ''kline.15.BTCUSDT'' = [''kline'', ''15'', ''BTCUSDT'']" "mapBybitToTimeframe ''15'' = ''15m''"
  by code_simp+

lemma demo_items: "kline_items (Some (JObject demo_fields)) = Some [demo_fields]"
  by code_simp

lemma demo_mapped: "mapToCandle ''BTCUSDT'' ''15m'' demo_fields = Inr demo_candle"
  by code_simp

lemma demo_parsed: "parseKlineMessages demo_message = Inr (''BTCUSDT'', ''15m'', [demo_candle])"
  by (simp add: parseKlineMessages_def demo_unmarshalled demo_split demo_items demo_mapped)

definition demo_service :: "market_service \<times> store" where
  "demo_service =
    fst (dispatchMessage 1 demo_message
      (fst (Start 0 (\<lambda>s t k. RestCancelled) False (NewBybitWSMarketDataService demo_market False, empty_store []))))"

lemma demo_cacheable: "cacheable demo_candle"
  by code_simp

lemma put_first: "put_candle c [] = [c]"
  by (simp add: put_candle_write write_series_def)

lemma demo_started:
  "fst (Start now net False (NewBybitWSMarketDataService demo_market False, db)) =
    (NewBybitWSMarketDataService demo_market False\<lparr>ms_running := True\<rparr>, db)"
  by (simp add: Start_def service_symbols_def backfill_jobs_def NewBybitWSMarketDataService_def Let_def demo_market_def)

lemma demo_service_cached:
  "map_of (cc_candles (ms_candleCache (fst demo_service))) (candleKey ''BTCUSDT'' ''15m'') = Some [demo_candle]"
proof -
  have "ms_candleCache (fst demo_service) = cache_update 1 ''BTCUSDT'' ''15m'' demo_candle newCandleCache"
    unfolding demo_service_def demo_started
    by (simp add: dispatchMessage_def demo_dispatched demo_split handleKlineMessage_def demo_parsed
        kline_step_def cache_candle_def NewBybitWSMarketDataService_def Let_def demo_market_def)
  then show ?thesis
    by (simp add: cache_update_def demo_cacheable newCandleCache_def list_at_def put_first Let_def)
qed
lemma demo_service_reachable: "service_reachable demo_market False demo_service"
  unfolding demo_service_def by (intro service_reachable.intros)

theorem service_cache_sound_witness:
  "map_of (cc_candles (ms_candleCache (fst demo_service))) (candleKey ''BTCUSDT'' ''15m'') = Some [demo_candle] \<and>
   Fin 0 < c_Open demo_candle \<and> Fin 0 < c_Close demo_candle"
proof -
  have "service_reachable demo_market False (fst demo_service, snd demo_service)" using demo_service_reachable by simp
  from service_cache_sound [OF this] show ?thesis using demo_service_cached by auto
qed

text \<open>A confirmed candle that the cache refuses, with a zero price for instance, is stored all the same.\<close>

lemma refused_candle_is_stored:
  "\<not> cacheable c \<Longrightarrow> c_Confirmed c \<Longrightarrow> ms_hasRepo s \<Longrightarrow> kline_step now symbol tf (s, db) c = (s, fst (candle_Insert c db))"
  by (simp add: kline_step_def cache_candle_def cache_update_def Let_def)

section \<open>What is accepted\<close>

lemma order_book_parsed:
  assumes "parseOrderBookMessage payload = Inr (symbol, snap, u, q, bids, asks)"
  obtains d b where "book_of_message payload d = Some b" "u = bd_U b" "q = bd_Seq b"
    "parseLevels (bd_Bids b) = Inr bids" "parseLevels (bd_Asks b) = Inr asks"
  using assms that
  by (auto simp: parseOrderBookMessage_def split: option.splits list.splits if_splits)

lemma ticker_price:
  "(case ParseFloat s of (price, None) \<Rightarrow> Inr (t, Some (price, ts)) | (_, Some _) \<Rightarrow> Inl e) = Inr (t', Some (p, ts')) \<Longrightarrow>
    is_f64 p"
  using is_f64_ParseFloat [of s] by (auto split: prod.splits option.splits)

text \<open>
  C28: what the parsers accept has the types of the source's structs: a candle message gives candles of the message's
  own symbol and timeframe with 64-bit times and finite prices, volume and turnover; an order book message gives
  64-bit update and sequence numbers and levels whose prices and sizes are 64-bit floats; a public trade message gives
  trades with 64-bit float prices and sizes; a price message gives a 64-bit float.
\<close>

theorem accepted_messages_typed:
  "(parseKlineMessages payload = Inr (symbol, tf, cs) \<longrightarrow>
      cs \<noteq> [] \<and> (\<forall>c\<in>set cs. c_Symbol c = symbol \<and> c_Timeframe c = tf \<and> typed_candle c)) \<and>
    (parseOrderBookMessage payload = Inr (symbol, snap, u, q, bids, asks) \<longrightarrow>
      int64 u \<and> int64 q \<and> (\<forall>l\<in>set (bids @ asks). typed_level l)) \<and>
    (parsePublicTradeMessage now payload = Inr (symbol, trades) \<longrightarrow>
      (\<forall>t\<in>set trades. is_f64 (pt_Price t) \<and> is_f64 (pt_Size t))) \<and>
    (parseTickerMessage now payload = Inr (symbol, Some (price, ts)) \<longrightarrow> is_f64 price)"
proof (intro conjI impI)
  assume a: "parseKlineMessages payload = Inr (symbol, tf, cs)"
  obtain items where i: "items \<noteq> []" "all_right (map (mapToCandle symbol tf) items) = Inr cs"
    by (rule kline_parsed [OF a])
  then show "cs \<noteq> []" by (auto simp: all_right_Inr)
  show "\<forall>c\<in>set cs. c_Symbol c = symbol \<and> c_Timeframe c = tf \<and> typed_candle c"
    using i(2) by (rule all_right_all) (auto dest: candle_names typed_mapToCandle)
next
  assume a: "parseOrderBookMessage payload = Inr (symbol, snap, u, q, bids, asks)"
  obtain d b where b: "book_of_message payload d = Some b" "u = bd_U b" "q = bd_Seq b"
    "parseLevels (bd_Bids b) = Inr bids" "parseLevels (bd_Asks b) = Inr asks" by (rule order_book_parsed [OF a])
  show "int64 u" "int64 q" using int64_book [OF b(1)] b by simp_all
  show "\<forall>l\<in>set (bids @ asks). typed_level l"
    using typed_parseLevels [OF b(4)] typed_parseLevels [OF b(5)] by auto
next
  assume "parsePublicTradeMessage now payload = Inr (symbol, trades)"
  then obtain ts s items where "foldl (trade_step now ts) (s, []) items = (symbol, trades)"
    by (auto simp: parsePublicTradeMessage_def split: option.splits list.splits if_splits)
  then show "\<forall>t\<in>set trades. is_f64 (pt_Price t) \<and> is_f64 (pt_Size t)" by (rule typed_trades)
next
  assume "parseTickerMessage now payload = Inr (symbol, Some (price, ts))"
  then show "is_f64 price"
    by (auto simp: parseTickerMessage_def split: option.splits list.splits if_splits dest: ticker_price)
qed

theorem accepted_messages_typed_witness:
  "typed_candle demo_candle \<and> c_Timeframe demo_candle = ''15m''"
  using accepted_messages_typed [of demo_message "''BTCUSDT''" "''15m''" "[demo_candle]"] demo_parsed by simp

section \<open>Validated batches\<close>

lemma scan_batch_Cons:
  "scan_batch i prev (c # cs) = Inr (cl, ip) \<longleftrightarrow>
    \<not> invalidOHLCV c \<and> (\<forall>p. prev = Some p \<longrightarrow> p < c_OpenTime c) \<and>
    (if c_Confirmed c then \<exists>cl'. scan_batch (i + 1) (Some (c_OpenTime c)) cs = Inr (cl', ip) \<and> cl = c # cl'
     else cs = [] \<and> cl = [] \<and> ip = Some c)"
  by (cases prev; cases "scan_batch (i + 1) (Some (c_OpenTime c)) cs") (auto simp: Let_def fail_if_def)

declare scan_batch.simps(2) [simp del]

text \<open>The scan accepts increasing times, valid prices, and nothing in progress before the last candle.\<close>

lemma scan_batch_Inr:
  "scan_batch i prev cs = Inr (cl, ip) \<Longrightarrow>
    (\<forall>c\<in>set cs. \<not> invalidOHLCV c) \<and> sorted_wrt (\<lambda>a b. c_OpenTime a < c_OpenTime b) cs \<and>
    (\<forall>p. prev = Some p \<longrightarrow> (\<forall>c\<in>set cs. p < c_OpenTime c)) \<and> (\<forall>c\<in>set (butlast cs). c_Confirmed c) \<and>
    cl = filter c_Confirmed cs \<and> ip = (if cs \<noteq> [] \<and> \<not> c_Confirmed (last cs) then Some (last cs) else None)"
proof (induction cs arbitrary: i prev cl ip)
  case (Cons c cs)
  then show ?case
  proof (cases "c_Confirmed c")
    case True
    then obtain cl' where r: "scan_batch (i + 1) (Some (c_OpenTime c)) cs = Inr (cl', ip)" "cl = c # cl'"
      "\<not> invalidOHLCV c" "\<And>p. prev = Some p \<Longrightarrow> p < c_OpenTime c" using Cons.prems by (auto simp: scan_batch_Cons)
    note IH = Cons.IH [OF r(1)]
    show ?thesis
    proof (intro conjI)
      show "\<forall>p. prev = Some p \<longrightarrow> (\<forall>d\<in>set (c # cs). p < c_OpenTime d)"
        using IH r(4) by (auto dest: less_trans)
    qed (use IH r True in auto)
  qed (auto simp: scan_batch_Cons)
qed simp

lemma scan_batch_accepts:
  "\<forall>c\<in>set cs. \<not> invalidOHLCV c \<Longrightarrow> sorted_wrt (\<lambda>a b. c_OpenTime a < c_OpenTime b) cs \<Longrightarrow>
    \<forall>p. prev = Some p \<longrightarrow> (\<forall>c\<in>set cs. p < c_OpenTime c) \<Longrightarrow> \<forall>c\<in>set (butlast cs). c_Confirmed c \<Longrightarrow>
    \<exists>r. scan_batch i prev cs = Inr r"
proof (induction cs arbitrary: i prev)
  case (Cons c cs)
  show ?case
  proof (cases "c_Confirmed c")
    case True
    have "\<exists>r. scan_batch (i + 1) (Some (c_OpenTime c)) cs = Inr r"
      by (rule Cons.IH) (use Cons.prems in \<open>auto split: if_splits\<close>)
    then show ?thesis using Cons.prems True by (auto simp: scan_batch_Cons)
  next
    case False
    then have "cs = []" using Cons.prems by (cases cs) auto
    then show ?thesis using Cons.prems False by (auto simp: scan_batch_Cons)
  qed
qed simp

definition max_age :: "data_validation_config \<Rightarrow> candle_validation_input \<Rightarrow> int" where
  "max_age cfg i =
    (if 0 < cv_MaxDataAgeSeconds i then cv_MaxDataAgeSeconds i else MaxDataAgeSecondsFor cfg (cv_Timeframe i))"

definition min_required :: "data_validation_config \<Rightarrow> candle_validation_input \<Rightarrow> int" where
  "min_required cfg i = (if 0 < cv_MinRequired i then cv_MinRequired i else MinCandlesOrDefault cfg)"

lemma validate_folded:
  "ValidateCandleBatch cfg now i =
    (if cv_Candles i = [] then Inl EmptyBatch
     else
       (case timeframeDuration (cv_Timeframe i) of
          None \<Rightarrow> Inl (UnsupportedTimeframe (cv_Timeframe i))
        | Some interval \<Rightarrow>
            if stripped i = [] then Inl OnlyInProgress
            else if int (length (stripped i)) < min_required cfg i
            then Inl (InsufficientCandles (int (length (stripped i))) (min_required cfg i))
            else
              ebind (scan_batch 0 None (stripped i)) (\<lambda>(cl, ip).
                if seconds_of (max_age cfg i) < data_age now interval (cv_Now i) (last (stripped i))
                then Inl (StaleData (data_age now interval (cv_Now i) (last (stripped i))) (max_age cfg i))
                else Inr \<lparr> cvr_Symbol = cv_Symbol i, cvr_Timeframe = cv_Timeframe i, cvr_Candles = stripped i,
                           cvr_ClosedCandles = cl, cvr_InProgressCandle = ip, cvr_LatestCandle = last (stripped i),
                           cvr_LatestIsClosed = c_Confirmed (last (stripped i)) \<rparr>)))"
  unfolding ValidateCandleBatch_def Let_def min_required_def max_age_def by (rule refl)

text \<open>
  C29: a batch is accepted exactly when it is not empty, its timeframe is known, and, after its latest candle is
  dropped when that is in progress and a closed one is asked for, there are enough candles, and at least one, all with valid
  prices and volume and strictly increasing times, none but the last in progress, and the last one closes no longer ago
  than the limit; the accepted candles are these, split into the confirmed ones and a last one in progress. Nothing
  asks that consecutive candles be one interval apart: a batch with a gap is accepted.
\<close>

theorem validated_batch_sound:
  fixes cfg :: data_validation_config and now :: time and i :: candle_validation_input
  defines "cs \<equiv> stripped i"
  shows "((\<exists>r. ValidateCandleBatch cfg now i = Inr r) \<longleftrightarrow>
      cv_Candles i \<noteq> [] \<and> cs \<noteq> [] \<and> min_required cfg i \<le> int (length cs) \<and> (\<forall>c\<in>set cs. \<not> invalidOHLCV c) \<and>
      sorted_wrt (\<lambda>a b. c_OpenTime a < c_OpenTime b) cs \<and> (\<forall>c\<in>set (butlast cs). c_Confirmed c) \<and>
      (\<exists>interval. timeframeDuration (cv_Timeframe i) = Some interval \<and>
         data_age now interval (cv_Now i) (last cs) \<le> seconds_of (max_age cfg i))) \<and>
    (\<forall>r. ValidateCandleBatch cfg now i = Inr r \<longrightarrow>
      cvr_Candles r = cs \<and> cvr_ClosedCandles r = filter c_Confirmed cs \<and> cvr_LatestCandle r = last cs \<and>
      cvr_LatestIsClosed r = c_Confirmed (last cs) \<and>
      cvr_InProgressCandle r = (if c_Confirmed (last cs) then None else Some (last cs)))"
proof (intro conjI allI impI)
  have accepted: "ValidateCandleBatch cfg now i = Inr r \<longleftrightarrow>
      cv_Candles i \<noteq> [] \<and> cs \<noteq> [] \<and> min_required cfg i \<le> int (length cs) \<and>
      (\<exists>interval cl ip. timeframeDuration (cv_Timeframe i) = Some interval \<and> scan_batch 0 None cs = Inr (cl, ip) \<and>
         data_age now interval (cv_Now i) (last cs) \<le> seconds_of (max_age cfg i) \<and>
         r = \<lparr> cvr_Symbol = cv_Symbol i, cvr_Timeframe = cv_Timeframe i, cvr_Candles = cs, cvr_ClosedCandles = cl,
               cvr_InProgressCandle = ip, cvr_LatestCandle = last cs, cvr_LatestIsClosed = c_Confirmed (last cs) \<rparr>)" for r
    by (cases "scan_batch 0 None cs")
      (auto simp: validate_folded cs_def split: option.split if_splits)
  have scan: "(\<exists>r. scan_batch 0 None cs = Inr r) \<longleftrightarrow>
      (\<forall>c\<in>set cs. \<not> invalidOHLCV c) \<and> sorted_wrt (\<lambda>a b. c_OpenTime a < c_OpenTime b) cs \<and>
      (\<forall>c\<in>set (butlast cs). c_Confirmed c)"
    using scan_batch_Inr [of 0 None cs] scan_batch_accepts [of cs None 0] by auto
  show "(\<exists>r. ValidateCandleBatch cfg now i = Inr r) \<longleftrightarrow>
      cv_Candles i \<noteq> [] \<and> cs \<noteq> [] \<and> min_required cfg i \<le> int (length cs) \<and> (\<forall>c\<in>set cs. \<not> invalidOHLCV c) \<and>
      sorted_wrt (\<lambda>a b. c_OpenTime a < c_OpenTime b) cs \<and> (\<forall>c\<in>set (butlast cs). c_Confirmed c) \<and>
      (\<exists>interval. timeframeDuration (cv_Timeframe i) = Some interval \<and>
         data_age now interval (cv_Now i) (last cs) \<le> seconds_of (max_age cfg i))"
    unfolding accepted using scan by auto
  fix r assume "ValidateCandleBatch cfg now i = Inr r"
  then obtain cl ip where s: "scan_batch 0 None cs = Inr (cl, ip)" "cs \<noteq> []" and
    r: "cvr_Candles r = cs" "cvr_ClosedCandles r = cl" "cvr_InProgressCandle r = ip" "cvr_LatestCandle r = last cs"
      "cvr_LatestIsClosed r = c_Confirmed (last cs)"
    unfolding accepted by auto
  then show "cvr_Candles r = cs" "cvr_ClosedCandles r = filter c_Confirmed cs" "cvr_LatestCandle r = last cs"
    "cvr_LatestIsClosed r = c_Confirmed (last cs)"
    "cvr_InProgressCandle r = (if c_Confirmed (last cs) then None else Some (last cs))"
    using scan_batch_Inr [OF s(1)] by simp_all
qed

definition demo_batch :: "bool list \<Rightarrow> candle_validation_input" where
  "demo_batch confirmed =
    \<lparr> cv_Symbol = ''BTCUSDT'', cv_Timeframe = ''1m'',
      cv_Candles = map (\<lambda>(k, b). demo_candle\<lparr>c_OpenTime := 120000 * int k, c_Confirmed := b\<rparr>) (enumerate 0 confirmed),
      cv_MinRequired = 2, cv_MaxDataAgeSeconds = 60, cv_RequireClosedLatest = True, cv_Now = unix_milli 300000 \<rparr>"

text \<open>
  With a closed latest candle asked for and two candles in progress at the end, only one is dropped: the accepted
  latest candle is still in progress. Every second minute is missing from these candles of a minute.
\<close>

theorem validated_batch_sound_witness:
  "\<exists>r. ValidateCandleBatch \<lparr> dv_MinCandles = 0, dv_MaxDataAgeSeconds = [] \<rparr> 0 (demo_batch [True, True, False, False]) = Inr r \<and>
     map c_OpenTime (cvr_Candles r) = [0, 120000, 240000] \<and> \<not> cvr_LatestIsClosed r"
proof -
  let ?i = "demo_batch [True, True, False, False]"
  have cs: "stripped ?i = map (\<lambda>(k, b). demo_candle\<lparr>c_OpenTime := 120000 * int k, c_Confirmed := b\<rparr>) [(0, True), (1, True), (2, False)]"
    by (simp add: stripped_def demo_batch_def)
  have valid: "\<not> invalidOHLCV (demo_candle\<lparr>c_OpenTime := t, c_Confirmed := b\<rparr>)" for t b
    by (simp add: invalidOHLCV_def demo_candle_def invalidPositiveValue_def invalidNonNegativeValue_def isNaN_def isInf_def)
  have age: "time_sub (if IsZero (unix_milli 300000) then 0 else unix_milli 300000)
      (unix_milli (wrap64 (240000 + milliseconds (minutes 1)))) \<le> seconds_of 60" by code_simp
  show ?thesis
    using validated_batch_sound [of "\<lparr> dv_MinCandles = 0, dv_MaxDataAgeSeconds = [] \<rparr>" 0 ?i]
    unfolding cs
    by (simp add: valid min_required_def max_age_def demo_batch_def timeframeDuration_def data_age_def age) auto
qed

section \<open>Reconnecting\<close>

lemma between_Fin:
  assumes "Fin a \<le> x" "x \<le> Fin b" "0 < a"
  obtains q where "x = Fin q" "a \<le> q" "q \<le> b"
  using assms that by (cases x) auto

lemma repr_nanos: "repr 1000000000" "repr 1500000000" "repr 1000000000000000000" "repr 1500000000000000000"
proof -
  have "repr (of_int m * 2 powi k)" if "\<bar>m\<bar> < 2 ^ 53" "- 1074 \<le> k" "k \<le> 971" for m k
    unfolding repr_def using that by blast
  from this [of "5 ^ 18" 18] this [of "15 * 5 ^ 17" 17]
  show "repr 1000000000000000000" "repr 1500000000000000000" by (simp_all add: power_int_def)
qed (simp_all add: repr_numeral)

lemma grown:
  assumes "10 ^ 9 \<le> b" "b \<le> 10 ^ 18"
  shows "1500000000 \<le> f64_to_int64 (f64_of_int b * Fin (3 / 2))"
    "f64_to_int64 (f64_of_int b * Fin (3 / 2)) \<le> 1500000000000000000"
proof -
  have b: "(1000000000 :: rat) \<le> of_int b" "(of_int b :: rat) \<le> 1000000000000000000" using assms by simp_all
  obtain p where p: "f64_of_int b = Fin p" "1000000000 \<le> p" "p \<le> 1000000000000000000"
    unfolding f64_of_int_def
    by (rule between_Fin [OF rnd_ge [OF b(1) repr_nanos(1)] rnd_le [OF b(2) repr_nanos(3)]]) simp
  have "1500000000 \<le> p * (3 / 2)" "p * (3 / 2) \<le> 1500000000000000000" using p by simp_all
  then obtain q where "rnd (p * (3 / 2)) = Fin q" "1500000000 \<le> q" "q \<le> 1500000000000000000"
    using between_Fin [OF rnd_ge [OF _ repr_nanos(2)] rnd_le [OF _ repr_nanos(4)]] by (metis zero_less_numeral)
  moreover from this have "1500000000 \<le> \<lfloor>q\<rfloor>" "\<lfloor>q\<rfloor> \<le> 1500000000000000000" by linarith+
  ultimately show "1500000000 \<le> f64_to_int64 (f64_of_int b * Fin (3 / 2))"
    "f64_to_int64 (f64_of_int b * Fin (3 / 2)) \<le> 1500000000000000000"
    using p by (simp_all add: times_Fin f64_to_int64_def is_fin_def isNaN_def isInf_def)
qed

text \<open>The waits of a configuration lie between a second and the longer of its limit and five minutes.\<close>

definition longest_wait :: "market_data_config \<Rightarrow> duration" where
  "longest_wait cfg = max (max_reconnect cfg) (minutes 5)"

definition wait_ok :: "market_data_config \<Rightarrow> duration \<Rightarrow> bool" where
  "wait_ok cfg w \<longleftrightarrow> seconds 1 \<le> w \<and> w \<le> longest_wait cfg"

lemma longest_wait_bound:
  assumes "0 \<le> md_ReconnectIntervalSeconds cfg" "md_ReconnectIntervalSeconds cfg \<le> 10 ^ 9"
  shows "longest_wait cfg \<le> 10 ^ 18" "seconds 1 \<le> max_reconnect cfg"
  using assms by (simp_all add: longest_wait_def max_reconnect_def seconds_of_def minutes_def seconds_def)

lemma round_wait: "wait_ok cfg b \<Longrightarrow> wait_ok cfg (fst (round_backoff r (b, n)))"
  by (auto simp: wait_ok_def round_backoff_def longest_wait_def minutes_def seconds_def Let_def split: option.split)

lemma grow_wait:
  assumes "wait_ok cfg b" "0 \<le> md_ReconnectIntervalSeconds cfg" "md_ReconnectIntervalSeconds cfg \<le> 10 ^ 9"
    "0 \<le> j" "j < 500"
  shows "wait_ok cfg (grow_backoff cfg j (b, n))"
proof -
  note l = longest_wait_bound [OF assms(2,3)]
  have b: "10 ^ 9 \<le> b" "b \<le> 10 ^ 18" using assms(1) l by (auto simp: wait_ok_def seconds_def)
  let ?g = "f64_to_int64 (f64_of_int b * Fin (3 / 2)) + j * 10 ^ 6"
  have g: "1500000000 \<le> ?g" "?g \<le> 1500000000000000000 + 499 * 10 ^ 6" using grown [OF b] assms(4,5) by auto
  then have "wrap64 ?g = ?g" by (intro wrap64_id) auto
  then show ?thesis
    using g l by (auto simp: grow_backoff_def Let_def wait_ok_def longest_wait_def seconds_def)
qed

definition round_ends :: "ws_round \<Rightarrow> bool" where
  "round_ends r \<longleftrightarrow> wr_done r \<or> wr_interrupted r"

lemma ws_rounds_returns:
  assumes "round_ends (env (k + n))"
  shows "\<exists>waits. ws_rounds cfg env k st = Some waits \<and> length waits \<le> n + 1"
  using assms
proof (induction n arbitrary: k st)
  case 0
  then show ?case by (subst ws_rounds.simps) (auto simp: round_ends_def Let_def split: prod.split)
next
  case (Suc n)
  then have IH: "\<exists>waits. ws_rounds cfg env (k + 1) st = Some waits \<and> length waits \<le> n + 1" for st by simp
  obtain b r where br: "round_backoff (env k) st = (b, r)" by (cases "round_backoff (env k) st") auto
  obtain waits where "ws_rounds cfg env (k + 1) (grow_backoff cfg (wr_jitter (env k)) (b, r), r) = Some waits" "length waits \<le> n + 1"
    using IH by blast
  then show ?case by (subst ws_rounds.simps) (simp add: br)
qed

lemma ws_rounds_sound:
  assumes "ws_rounds cfg env k st = Some waits"
  shows "(\<exists>n. round_ends (env n)) \<and>
    (0 \<le> md_ReconnectIntervalSeconds cfg \<and> md_ReconnectIntervalSeconds cfg \<le> 10 ^ 9 \<and>
     (\<forall>n. 0 \<le> wr_jitter (env n) \<and> wr_jitter (env n) < 500) \<and> wait_ok cfg (fst st) \<longrightarrow> (\<forall>w\<in>set waits. wait_ok cfg w))"
proof (rule ws_rounds.raw_induct [OF _ assms, where P = "\<lambda>cfg env k st waits. (\<exists>n. round_ends (env n)) \<and>
    (0 \<le> md_ReconnectIntervalSeconds cfg \<and> md_ReconnectIntervalSeconds cfg \<le> 10 ^ 9 \<and>
     (\<forall>n. 0 \<le> wr_jitter (env n) \<and> wr_jitter (env n) < 500) \<and> wait_ok cfg (fst st) \<longrightarrow> (\<forall>w\<in>set waits. wait_ok cfg w))"], goal_cases)
  case (1 f cfg env k st waits)
  obtain b r where br: "round_backoff (env k) st = (b, r)" by (cases "round_backoff (env k) st") auto
  have wb: "wait_ok cfg b" if "wait_ok cfg (fst st)"
    using round_wait [of cfg "fst st" "env k" "snd st"] that br by simp
  show ?case
  proof (cases "round_ends (env k)")
    case True
    then show ?thesis using 1(2) br wb by (auto simp: round_ends_def split: if_splits)
  next
    case False
    then obtain rest where rest: "f cfg env (k + 1) (grow_backoff cfg (wr_jitter (env k)) (b, r), r) = Some rest"
      "waits = b # rest"
      using 1(2) br by (auto simp: round_ends_def split: bind_splits)
    note IH = 1(1) [OF rest(1)]
    have "wait_ok cfg (grow_backoff cfg (wr_jitter (env k)) (b, r))"
      if "0 \<le> md_ReconnectIntervalSeconds cfg \<and> md_ReconnectIntervalSeconds cfg \<le> 10 ^ 9 \<and>
        (\<forall>n. 0 \<le> wr_jitter (env n) \<and> wr_jitter (env n) < 500) \<and> wait_ok cfg (fst st)"
      using that wb by (intro grow_wait) blast+
    then show ?thesis using IH rest(2) wb by (metis fst_conv set_ConsD)
  qed
qed

text \<open>
  C30: the reconnecting loop returns exactly when some round finds its context done, before it or during its wait; it
  then has waited at most once in every round up to that one. For a reconnect interval up to a billion seconds,
  every wait is at least a second, jitter and rounding included, and at most the longer of the configured
  interval and five minutes.
\<close>

theorem reconnect_loop_terminates:
  "(runWSLoop cfg env \<noteq> None \<longleftrightarrow> (\<exists>n. round_ends (env n))) \<and>
    (\<forall>n. round_ends (env n) \<longrightarrow> (\<exists>waits. runWSLoop cfg env = Some waits \<and> length waits \<le> n + 1)) \<and>
    (\<forall>waits. runWSLoop cfg env = Some waits \<and> 0 \<le> md_ReconnectIntervalSeconds cfg \<and>
       md_ReconnectIntervalSeconds cfg \<le> 10 ^ 9 \<and> (\<forall>n. 0 \<le> wr_jitter (env n) \<and> wr_jitter (env n) < 500) \<longrightarrow>
       (\<forall>w\<in>set waits. seconds 1 \<le> w \<and> w \<le> max (max_reconnect cfg) (minutes 5)))"
proof (intro conjI allI impI)
  have returns: "\<exists>waits. runWSLoop cfg env = Some waits \<and> length waits \<le> n + 1" if "round_ends (env n)" for n
    using ws_rounds_returns [of env 0 n] that by (simp add: runWSLoop_def)
  then show "round_ends (env n) \<Longrightarrow> \<exists>waits. runWSLoop cfg env = Some waits \<and> length waits \<le> n + 1" for n .
  show "runWSLoop cfg env \<noteq> None \<longleftrightarrow> (\<exists>n. round_ends (env n))"
    using returns ws_rounds_sound [of cfg env 0 "(seconds 1, 0)"] unfolding runWSLoop_def by (metis not_Some_eq)
  fix waits
  assume a: "runWSLoop cfg env = Some waits \<and> 0 \<le> md_ReconnectIntervalSeconds cfg \<and>
       md_ReconnectIntervalSeconds cfg \<le> 10 ^ 9 \<and> (\<forall>n. 0 \<le> wr_jitter (env n) \<and> wr_jitter (env n) < 500)"
  have "wait_ok cfg (fst (seconds 1, 0))" by (simp add: wait_ok_def longest_wait_def minutes_def seconds_def)
  then have "\<forall>w\<in>set waits. wait_ok cfg w"
    using ws_rounds_sound [of cfg env 0 "(seconds 1, 0)" waits] a unfolding runWSLoop_def by blast
  then show "\<forall>w\<in>set waits. seconds 1 \<le> w \<and> w \<le> max (max_reconnect cfg) (minutes 5)"
    by (simp only: wait_ok_def longest_wait_def)
qed

definition demo_rounds :: "nat \<Rightarrow> ws_round" where
  "demo_rounds n =
    \<lparr> wr_done = (2 \<le> n), wr_error = Some ConnectionFailed, wr_long = False, wr_interrupted = False, wr_jitter = 0 \<rparr>"

theorem reconnect_loop_terminates_witness:
  "\<exists>waits. runWSLoop demo_market demo_rounds = Some waits \<and> length waits \<le> 3 \<and> (\<forall>w\<in>set waits. seconds 1 \<le> w)"
proof -
  have "round_ends (demo_rounds 2)" "0 \<le> md_ReconnectIntervalSeconds demo_market"
    "md_ReconnectIntervalSeconds demo_market \<le> 10 ^ 9"
    "\<forall>n. 0 \<le> wr_jitter (demo_rounds n) \<and> wr_jitter (demo_rounds n) < 500"
    by (simp_all add: round_ends_def demo_rounds_def demo_market_def)
  then show ?thesis using reconnect_loop_terminates [of demo_market demo_rounds] by fastforce
qed

end
