(* ===== verification/Screener.thy ===== *)
theory Screener
  imports MarketParse Universe Metrics TrendPullback BreakoutRetest Scoring
begin

text \<open>
  The screener (\<open>internal/screener/screener.go\<close>): the universe's symbols are validated, given indicators, a regime
  and a setup, scored and filtered, and a context is built for those that go on. The market data provider is the
  collection of its answers, which do not change during a run; the clock is read once. An error is its text, a
  printed number left out.
\<close>

section \<open>Data\<close>

text \<open>The provider; \<open>sm_TradeFlow\<close> and a price that cannot be had are empty and 0, as the ignored errors leave them.\<close>

record screener_md = scan_market +
  sm_GetCandles :: "string \<Rightarrow> string \<Rightarrow> int \<Rightarrow> string + candle list"
  sm_TradeFlow :: "string \<Rightarrow> trade_flow list"

text \<open>What a run takes from outside: the clock, the order of map iterations, the bytes of identifiers.\<close>

record screen_env =
  se_now :: time
  se_ord :: "string list"
  se_rand :: "string \<Rightarrow> string \<Rightarrow> side \<Rightarrow> 8 word list option"

record strategy_rejection =
  sj_Symbol :: string
  sj_Strategy :: string
  sj_Reason :: string
  sj_Code :: string
  sj_NearMiss :: bool

datatype evaluate_error = Infra string | NoSetup "strategy_rejection list"

record ob_context =
  oc_SpreadBps :: f64
  oc_BidDepth :: f64
  oc_AskDepth :: f64
  oc_SlippageBps :: f64

record flow_context =
  fx_BuySellRatio :: f64
  fx_TradeCount :: int

record regime_context =
  rx_Regime :: string
  rx_EMA200 :: f64
  rx_PriceVsEMA :: f64
  rx_ATR :: f64
  rx_ATRPct :: f64

record cost_context =
  kx_EstimatedFee :: f64
  kx_EstimatedSlippage :: f64
  kx_TotalCost :: f64
  kx_CostBps :: f64

record risk_context =
  ky_DailyLossPct :: f64
  ky_OpenPositions :: int
  ky_MaxOpenPositions :: int
  ky_DuplicateSymbol :: bool

record candidate_context =
  cx_Symbol :: string
  cx_Side :: side
  cx_SetupType :: string
  cx_Regime :: string
  cx_EntryType :: entry_type
  cx_ProposedEntry :: f64
  cx_StopLoss :: f64
  cx_TakeProfit :: f64
  cx_RR :: f64
  cx_SetupScore :: f64
  cx_ExpectedMove :: f64
  cx_OrderBook :: "ob_context option"
  cx_TradeFlow :: "flow_context option"
  cx_RegimeSummary :: "regime_context option"
  cx_CostSummary :: "cost_context option"
  cx_RiskSummary :: risk_context
  cx_WatchlistContext :: "watchlist_context option"

record screen_result =
  sn_Candidates :: "candidate list"
  sn_LLMContexts :: "candidate_context gomap"
  sn_NonEligible :: "candidate list"
  sn_TradeCandidates :: "trade_candidate gomap"
  sn_ScoreResults :: "score_result gomap"
  sn_RegimeSnapshots :: "regime_snapshot gomap"
  sn_Snapshots15m :: "indicator_snapshot gomap"
  sn_Snapshots1h :: "indicator_snapshot gomap"
  sn_StrategyRejections :: "strategy_rejection list"
  sn_SymbolInfos :: "symbol_info gomap"

section \<open>Rejection codes\<close>

definition containsFold :: "string \<Rightarrow> string \<Rightarrow> bool" where
  "containsFold s p \<longleftrightarrow> Contains (ToLower s) (ToLower p)"

definition rejectionCode :: "string \<Rightarrow> string" where
  "rejectionCode reason =
    (let has = containsFold reason
     in if has ''no valid breakout'' \<or> has ''retest condition failed'' \<or> has ''closed below broken resistance'' \<or>
           has ''closed above broken support'' \<or> has ''bullish confirmation missing'' \<or> has ''bearish confirmation missing''
        then ''NO_BREAKOUT''
        else if has ''pullback distance'' \<or> has ''reaction candle'' \<or> has ''structure condition'' then ''STRUCTURE_REJECT''
        else if has ''volume'' \<and> has ''volume_ma'' then ''LOW_VOLUME''
        else if has ''rr'' \<and> has ''<'' then ''RR_TOO_LOW''
        else if has ''rsi'' then ''RSI_REJECT''
        else if has ''macd'' then ''MACD_REJECT''
        else if has ''validation'' \<or> has ''snapshot'' \<or> has ''market regime'' then ''DATA_ERROR''
        else if has ''get'' \<and> has ''candle'' then ''DATA_ERROR''
        else if has ''htf trend'' \<or> has ''strongly bearish'' \<or> has ''strongly bullish'' then ''REGIME_MISMATCH''
        else if has ''regime'' then ''REGIME_MISMATCH''
        else if has ''insufficient'' \<or> has ''unavailable'' then ''INSUFFICIENT_DATA''
        else if has ''invalid risk'' \<or> has ''risk distance'' then ''RISK_REJECT''
        else if has ''no phase3'' \<or> has ''no setup'' then ''NO_STRATEGY_CANDIDATE''
        else ''OTHER_REJECT'')"

fun message_text :: "message \<Rightarrow> string" where
  "message_text (Message s xs) = s"

section \<open>Error texts\<close>

text \<open>The texts of the errors of the validator, the indicators and the regime; the numbers are left out.\<close>

fun batch_text :: "batch_error \<Rightarrow> string" where
  "batch_text EmptyBatch = ''validation failed: empty candle batch''"
| "batch_text (UnsupportedTimeframe tf) = ''validation failed: unsupported timeframe '' @ tf"
| "batch_text OnlyInProgress = ''validation failed: latest candle is in-progress but no closed candles available''"
| "batch_text (InsufficientCandles h n) = ''validation failed: insufficient candles: have need''"
| "batch_text (InvalidOHLCV i t) = ''validation failed: invalid OHLCV at index open_time''"
| "batch_text (NonMonotonic i p c) = ''validation failed: non-monotonic timestamp at index prev current''"
| "batch_text (InProgressBeforeLatest i) = ''validation failed: in-progress candle appears before latest at index''"
| "batch_text (StaleData a m) = ''validation failed: stale data age max''"

fun ind_text :: "ind_error \<Rightarrow> string" where
  "ind_text EmptyCandleInput = ''empty candle input''"
| "ind_text (InvalidCandleValues i) = ''invalid candle values at index''"
| "ind_text (NonMonotonicTimestamps i) = ''non-monotonic candle timestamps at index''"
| "ind_text (PeriodNotPositive s) = s @ '' period must be > 0''"
| "ind_text (ind_error.InsufficientCandles s h n) = ''insufficient candles for '' @ s @ '': have need''"
| "ind_text MacdFastNotBelowSlow = ''macd fast period must be < slow period''"
| "ind_text InvalidCandleSpacing = ''invalid candle spacing''"
| "ind_text SnapshotNotFinite = ''snapshot contains NaN/Inf''"

fun regime_text :: "regime_error \<Rightarrow> string" where
  "regime_text CandlesRequired = ''relative strength: target/btc candles required''"
| "regime_text (InsufficientAligned n) = ''relative strength: insufficient aligned candles: have need at least 25''"
| "regime_text NonMonotonicAligned = ''relative strength: non-monotonic aligned candles at index''"
| "regime_text HoursNotPositive = ''relative strength: hours must be > 0''"
| "regime_text (NeedAligned h n) = ''relative strength: need aligned candles, have''"
| "regime_text InvalidStartClose = ''relative strength: invalid start close''"
| "regime_text RSNotFinite = ''relative strength: relative strength contains NaN/Inf''"
| "regime_text (BtcCandlesUnavailable s) = s @ '' candles unavailable''"
| "regime_text SnapshotsUnavailable = ''btc indicator snapshots unavailable''"

definition wrap_text :: "string \<Rightarrow> ('e \<Rightarrow> string) \<Rightarrow> 'e + 'a \<Rightarrow> evaluate_error + 'a" where
  "wrap_text prefix text r = (case r of Inl e \<Rightarrow> Inl (Infra (prefix @ '': '' @ text e)) | Inr x \<Rightarrow> Inr x)"

section \<open>Candles of a symbol\<close>

definition setup_timeframe :: "user_config \<Rightarrow> string" where
  "setup_timeframe cfg = default_str ''15m'' (tm_Setup (sg_Timeframes (uc_Strategy cfg)))"

definition context_timeframe :: "user_config \<Rightarrow> string" where
  "context_timeframe cfg = default_str ''1H'' (tm_Context (sg_Timeframes (uc_Strategy cfg)))"

definition closedCandleRawLimit :: "int \<Rightarrow> int" where
  "closedCandleRawLimit minRequired = (if minRequired \<le> 0 then 0 else minRequired + 1)"

definition maxInt :: "int \<Rightarrow> int \<Rightarrow> int" where
  "maxInt a b = (if b < a then a else b)"

definition min_indicator_candles :: "user_config \<Rightarrow> int" where
  "min_indicator_candles cfg =
    maxInt (maxInt (MinCandlesOrDefault (uc_DataValidation cfg)) 250)
      (ie_EMA200Period (IndicatorEngineConfig_WithDefaults (uc_IndicatorEngine cfg)) + 50)"

definition snapshot_config_of :: "user_config \<Rightarrow> snapshot_config" where
  "snapshot_config_of cfg =
    (let c = IndicatorEngineConfig_WithDefaults (uc_IndicatorEngine cfg)
     in \<lparr> sn_EMA20Period = ie_EMA20Period c, sn_EMA50Period = ie_EMA50Period c, sn_EMA200Period = ie_EMA200Period c,
          sn_RSIPeriod = ie_RSIPeriod c, sn_MACDFastPeriod = ie_MACDFastPeriod c,
          sn_MACDSlowPeriod = ie_MACDSlowPeriod c, sn_MACDSignalPeriod = ie_MACDSignalPeriod c,
          sn_ATRPeriod = ie_ATRPeriod c, sn_VolumeMAPeriod = ie_VolumeMAPeriod c,
          sn_SwingLookback = ie_SwingLookback c, sn_RecentSwingCount = ie_RecentSwingCount c,
          sn_SupportResistanceATRTol = ie_SupportResistanceATRTol c \<rparr>)"

definition validate_candles ::
  "user_config \<Rightarrow> time \<Rightarrow> string \<Rightarrow> string \<Rightarrow> int \<Rightarrow> candle list \<Rightarrow> batch_error + candle_validation_result" where
  "validate_candles cfg now symbol tf need raw =
    ValidateCandleBatch (uc_DataValidation cfg) now
      \<lparr> cv_Symbol = symbol, cv_Timeframe = tf, cv_Candles = raw, cv_MinRequired = need,
        cv_MaxDataAgeSeconds = MaxDataAgeSecondsFor (uc_DataValidation cfg) tf, cv_RequireClosedLatest = True,
        cv_Now = zero_time \<rparr>"

text \<open>Candles that must be there, with the texts of the two ways they may not be, and candles that may be missing.\<close>

definition required_candles ::
  "user_config \<Rightarrow> screener_md \<Rightarrow> time \<Rightarrow> string \<Rightarrow> string \<Rightarrow> int \<Rightarrow> string \<Rightarrow> string \<Rightarrow> evaluate_error + candle list" where
  "required_candles cfg md now symbol tf need getText invalidText =
    ebind (wrap_text getText (\<lambda>e. e) (sm_GetCandles md symbol tf (closedCandleRawLimit need))) (\<lambda>raw.
    ebind (wrap_text invalidText batch_text (validate_candles cfg now symbol tf need raw)) (\<lambda>r.
      Inr (cvr_Candles r)))"

definition optional_candles ::
  "user_config \<Rightarrow> screener_md \<Rightarrow> time \<Rightarrow> string \<Rightarrow> string \<Rightarrow> int \<Rightarrow> candle list option" where
  "optional_candles cfg md now symbol tf need =
    (case sm_GetCandles md symbol tf (closedCandleRawLimit need) of
       Inl _ \<Rightarrow> None
     | Inr raw \<Rightarrow> (case validate_candles cfg now symbol tf need raw of Inl _ \<Rightarrow> None | Inr r \<Rightarrow> Some (cvr_Candles r)))"

record symbol_data =
  sd_Setup :: "candle list"
  sd_Context :: "candle list"
  sd_SetupSnap :: indicator_snapshot
  sd_ContextSnap :: indicator_snapshot
  sd_4HSnap :: indicator_snapshot

definition symbol_data_of :: "user_config \<Rightarrow> screener_md \<Rightarrow> time \<Rightarrow> string \<Rightarrow> evaluate_error + symbol_data" where
  "symbol_data_of cfg md now symbol =
    (let st = setup_timeframe cfg; ct = context_timeframe cfg; need = min_indicator_candles cfg;
         snap = (\<lambda>tf cs. wrap_text (''build '' @ tf @ '' indicator snapshot'') ind_text
                   (BuildSnapshot symbol tf cs (snapshot_config_of cfg)))
     in ebind (required_candles cfg md now symbol st need (''get '' @ st @ '' candles'') ''setup candle validation failed'') (\<lambda>setup.
        ebind (required_candles cfg md now symbol ct need (''get '' @ ct @ '' candles'') ''context candle validation failed'') (\<lambda>context.
        ebind (required_candles cfg md now symbol ''4H'' need ''get 4H candles'' ''4h candle validation failed'') (\<lambda>long.
        ebind (snap st setup) (\<lambda>setupSnap.
        ebind (snap ct context) (\<lambda>contextSnap.
        ebind (snap ''4H'' long) (\<lambda>longSnap.
          Inr \<lparr> sd_Setup = setup, sd_Context = context, sd_SetupSnap = setupSnap, sd_ContextSnap = contextSnap,
                sd_4HSnap = longSnap \<rparr>)))))))"

section \<open>BTC and the regime\<close>

record btc_data =
  bd_5m :: "candle list"
  bd_15m :: "candle list"
  bd_1h :: "candle list"
  bd_1hSnap :: indicator_snapshot
  bd_4hSnap :: indicator_snapshot

definition btc_data_of :: "user_config \<Rightarrow> screener_md \<Rightarrow> time \<Rightarrow> evaluate_error + btc_data" where
  "btc_data_of cfg md now =
    (let need = min_indicator_candles cfg; btc = ''BTCUSDT'';
         five = (case optional_candles cfg md now btc ''5m'' 2 of None \<Rightarrow> [] | Some cs \<Rightarrow> cs);
         snap = (\<lambda>tf cs. wrap_text (''build btc '' @ tf @ '' snapshot'') ind_text
                   (BuildSnapshot btc tf cs (snapshot_config_of cfg)))
     in ebind (required_candles cfg md now btc ''15m'' 2 ''get btc 15m candles'' ''validate btc 15m candles'') (\<lambda>fifteen.
        ebind (required_candles cfg md now btc ''1H'' need ''get btc 1H candles'' ''validate btc 1H candles'') (\<lambda>hour.
        ebind (required_candles cfg md now btc ''4H'' need ''get btc 4H candles'' ''validate btc 4H candles'') (\<lambda>four.
        ebind (snap ''1H'' hour) (\<lambda>hourSnap.
        ebind (snap ''4H'' four) (\<lambda>fourSnap.
          Inr \<lparr> bd_5m = five, bd_15m = fifteen, bd_1h = hour, bd_1hSnap = hourSnap, bd_4hSnap = fourSnap \<rparr>))))))"

definition dominance_snapshot :: "user_config \<Rightarrow> screener_md \<Rightarrow> time \<Rightarrow> string \<Rightarrow> indicator_snapshot option" where
  "dominance_snapshot cfg md now tf =
    (case optional_candles cfg md now ''BTCD'' tf (min_indicator_candles cfg) of
       None \<Rightarrow> None
     | Some cs \<Rightarrow> (case BuildSnapshot ''BTCD'' tf cs (snapshot_config_of cfg) of Inl _ \<Rightarrow> None | Inr s \<Rightarrow> Some s))"

definition regime_filters_of :: "user_config \<Rightarrow> regime_filter_config" where
  "regime_filters_of cfg =
    (let c = MarketRegimeConfig_WithDefaults (uc_MarketRegime cfg);
         rs = RelativeStrengthConfig_WithDefaults (mr_RelativeStrength c)
     in \<lparr> rf_BTCDumpShortThresholdPct = mr_BTCDumpShortPct c, rf_BTCDumpMediumThresholdPct = mr_BTCDumpMediumPct c,
          rf_BTCNearLevelATRBuffer = mr_BTCNearLevelATRBuffer c, rf_BTCDRisingFastThresholdPct = mr_BTCDRisingFastPct c,
          rf_RelativeStrength =
            \<lparr> rs_StrongOutperformPct = rsc_StrongOutperformPct rs, rs_StrongUnderperformPct = rsc_StrongUnderperformPct rs,
              rs_NeutralBandPct = rsc_NeutralBandPct rs, rs_SmoothedEMAPeriod = rsc_SmoothedEMAPeriod rs \<rparr>,
          rf_Btc5mStaleness = \<lparr> sl_WarnCycles = 0, sl_CriticalCycles = 0 \<rparr>,
          rf_RangingATRMultiplier = mr_RangingATRMultiplier c, rf_RangingLookbackCandles = mr_RangingLookbackCandles c,
          rf_ReduceNewPositionsWhenRanging = mr_ReduceNewPositionsWhenRanging c \<rparr>)"

definition regime_of ::
  "user_config \<Rightarrow> screener_md \<Rightarrow> screen_env \<Rightarrow> string \<Rightarrow> symbol_data \<Rightarrow> btc_data \<Rightarrow> evaluate_error + regime_snapshot" where
  "regime_of cfg md env symbol sd btc =
    (let now = se_now env
     in wrap_text ''build market regime snapshot'' regime_text
          (BuildRegimeSnapshot (se_ord env) now
            \<lparr> ri_Now = now, ri_BTC5mCandles = bd_5m btc, ri_BTC15mCandles = bd_15m btc, ri_BTC1hCandles = bd_1h btc,
              ri_BTC1hSnapshot = bd_1hSnap btc, ri_BTC4hSnapshot = bd_4hSnap btc, ri_BTC5mStaleCounter = 0,
              ri_Target1hCandles = (if symbol = ''BTCUSDT'' then bd_1h btc else sd_Context sd),
              ri_BTCD1hCandles = (case optional_candles cfg md now ''BTCD'' ''1H'' 2 of None \<Rightarrow> [] | Some cs \<Rightarrow> cs),
              ri_BTCD1hSnapshot = dominance_snapshot cfg md now ''1H'',
              ri_BTCD4hSnapshot = dominance_snapshot cfg md now ''4H'', ri_Config = regime_filters_of cfg \<rparr>))"

section \<open>Setups\<close>

definition unix_seconds :: "time \<Rightarrow> int" where
  "unix_seconds t = t div 10 ^ 9"

definition minimum_rr :: "user_config \<Rightarrow> f64" where
  "minimum_rr cfg = default_f64 (lit (14 / 10)) (rc_MinRR (uc_Risk cfg))"

definition indicator_ref :: "string \<Rightarrow> string \<Rightarrow> indicator_snapshot \<Rightarrow> string" where
  "indicator_ref symbol tf s = symbol @ '':'' @ tf @ '':'' @ show_int (unix_seconds (is_LastCloseTime s))"

definition regime_ref :: "string \<Rightarrow> regime_snapshot \<Rightarrow> string" where
  "regime_ref symbol r = symbol @ '':'' @ show_int (unix_seconds (rg_Timestamp r))"

definition trend_setup ::
  "user_config \<Rightarrow> screen_env \<Rightarrow> universe_symbol \<Rightarrow> symbol_data \<Rightarrow> regime_snapshot \<Rightarrow> rejected_candidate + trade_candidate" where
  "trend_setup cfg env u sd rg =
    (let tf = setup_timeframe cfg; ind = IndicatorsConfig_WithDefaults (sg_Indicators (uc_Strategy cfg)); now = se_now env
     in GenerateTrendPullback now (se_rand env (si_Symbol u) StrategyTrendPullback)
          \<lparr> pb_Now = now, pb_Symbol = si_Symbol u, pb_Timeframe = tf, pb_TickSize = si_TickSize u,
            pb_Candles15m = sd_Setup sd, pb_Snapshot15m = sd_SetupSnap sd, pb_Snapshot1h = sd_ContextSnap sd,
            pb_Snapshot4h = sd_4HSnap sd, pb_IndicatorSnapshotRef = indicator_ref (si_Symbol u) tf (sd_SetupSnap sd),
            pb_RegimeSnapshotRef = regime_ref (si_Symbol u) rg,
            pb_MinSLDistanceATRMultiplier = ic_MinSLDistanceATRMultiplier ind,
            pb_MinSLDistancePct = ic_MinSLDistancePct ind, pb_MinRR = minimum_rr cfg \<rparr>)"

definition breakout_setup ::
  "user_config \<Rightarrow> screen_env \<Rightarrow> universe_symbol \<Rightarrow> symbol_data \<Rightarrow> regime_snapshot \<Rightarrow> rejected_candidate + trade_candidate" where
  "breakout_setup cfg env u sd rg =
    (let tf = setup_timeframe cfg; ind = IndicatorsConfig_WithDefaults (sg_Indicators (uc_Strategy cfg)); now = se_now env
     in GenerateBreakoutRetest now (se_rand env (si_Symbol u) StrategyBreakoutRetest)
          \<lparr> bo_Now = now, bo_Symbol = si_Symbol u, bo_Timeframe = tf, bo_TickSize = si_TickSize u,
            bo_Candles15m = sd_Setup sd, bo_Snapshot15m = sd_SetupSnap sd, bo_Snapshot1h = sd_ContextSnap sd,
            bo_IndicatorSnapshotRef = indicator_ref (si_Symbol u) tf (sd_SetupSnap sd),
            bo_RegimeSnapshotRef = regime_ref (si_Symbol u) rg,
            bo_MinSLDistanceATRMultiplier = ic_MinSLDistanceATRMultiplier ind,
            bo_MinSLDistancePct = ic_MinSLDistancePct ind, bo_MinRR = minimum_rr cfg \<rparr>)"

definition rejection_of :: "string \<Rightarrow> string \<Rightarrow> rejected_candidate + trade_candidate \<Rightarrow> strategy_rejection list" where
  "rejection_of symbol strategy r =
    (case r of
       Inr _ \<Rightarrow> []
     | Inl rej \<Rightarrow>
         [\<lparr> sj_Symbol = symbol, sj_Strategy = strategy, sj_Reason = message_text (rj_FailedOn rej),
            sj_Code = rejectionCode (message_text (rj_FailedOn rej)), sj_NearMiss = rj_NearMiss rej \<rparr>])"

text \<open>The setup with the better ratio of reward to risk, the pullback on a tie.\<close>

definition choose_setup ::
  "rejected_candidate + trade_candidate \<Rightarrow> rejected_candidate + trade_candidate \<Rightarrow> trade_candidate option" where
  "choose_setup trend breakout =
    (case (trend, breakout) of
       (Inr t, Inr b) \<Rightarrow> Some (if tc_RiskRewardRatio b \<le> tc_RiskRewardRatio t then t else b)
     | (Inr t, Inl _) \<Rightarrow> Some t
     | (Inl _, Inr b) \<Rightarrow> Some b
     | (Inl _, Inl _) \<Rightarrow> None)"

section \<open>Scores\<close>

definition scr_max :: "f64 \<Rightarrow> f64 \<Rightarrow> f64" where
  "scr_max a b = (if b < a then a else b)"

definition scr_min :: "f64 \<Rightarrow> f64 \<Rightarrow> f64" where
  "scr_min a b = (if a < b then a else b)"

definition scr_abs :: "f64 \<Rightarrow> f64" where
  "scr_abs x = (if x < Fin 0 then - x else x)"

definition scr_clamp :: "f64 \<Rightarrow> f64 \<Rightarrow> f64 \<Rightarrow> f64" where
  "scr_clamp v lo hi = (if v < lo then lo else if hi < v then hi else v)"

definition computeScoresFromOB :: "order_book_summary \<Rightarrow> f64 \<Rightarrow> f64 \<Rightarrow> f64 \<times> f64 \<times> f64" where
  "computeScoresFromOB ob atr price =
    (if not_finite (ob_SpreadBps ob) then (Fin 0, Fin 0, Fin 0)
     else
       let depth = ob_BidDepth ob + ob_AskDepth ob;
           l1 = (if Fin 0 < ob_SpreadBps ob
                 then Fin 30 + Fin 40 * scr_max (Fin 0) (Fin 1 - ob_SpreadBps ob / Fin 100) else Fin 30);
           l2 = (if Fin 0 < depth then l1 + Fin 30 * scr_min (Fin 1) (depth / Fin 10000) else l1);
           e = (if Fin 0 < ob_EstimatedSlippageBps ob
                then Fin 80 * scr_max (Fin 0) (Fin 1 - ob_EstimatedSlippageBps ob / Fin 200) else Fin 80);
           atrPct = atr / price * Fin 100;
           v = (if Fin 0 < price \<and> Fin 0 < atr then
                  (if lit (2 / 10) \<le> atrPct \<and> atrPct \<le> Fin 5
                   then Fin 50 + Fin 50 * (Fin 1 - scr_abs (atrPct - Fin (5 / 2)) / Fin (5 / 2))
                   else if atrPct < lit (2 / 10) then Fin 50 * (atrPct / lit (2 / 10)) else Fin 50)
                else Fin 50)
       in (scr_clamp l2 (Fin 0) (Fin 100), scr_clamp e (Fin 0) (Fin 100), scr_clamp v (Fin 0) (Fin 100)))"

definition screen_eligibility ::
  "candidate \<Rightarrow> order_book_summary \<Rightarrow> universe_filters_config \<Rightarrow> llm_routing_config \<Rightarrow> strategy_config \<Rightarrow> candidate" where
  "screen_eligibility c ob filters llm strategy =
    (let minScore = default_f64 (Fin 75) (lr_MinCandidateScore llm);
         minRR = default_f64 (Fin 2) (ic_MinRR (sg_Indicators strategy))
     in if not_finite (cand_CandidateScore c)
        then c\<lparr>cand_LLMEligible := False, cand_LLMRoutingReasonCodes := [''candidate_score_non_finite'']\<rparr>
        else
          let reasons =
                code_if (cand_CandidateScore c < minScore) ''candidate_score_below_threshold'' @
                (if lr_RequireExecutionOk llm
                 then code_if (Fin 0 < uf_MaxSpreadBps filters \<and> uf_MaxSpreadBps filters < ob_SpreadBps ob) ''spread_too_wide'' @
                      code_if (Fin 100 \<le> ob_EstimatedSlippageBps ob) ''slippage_too_high''
                 else []) @
                code_if (lr_RequireLiquidityOk llm \<and> ob_DepthToPositionSizeRatio ob \<le> Fin 0) ''insufficient_depth'' @
                code_if (Fin 0 < t_RR c \<and> t_RR c < minRR) ''rr_below_min'' @
                code_if (Fin 0 < t_EstimatedTotalCost c \<and>
                         (t_ExpectedMove c \<le> Fin 0 \<or> t_ExpectedMove c \<le> Fin 3 * t_EstimatedTotalCost c))
                  ''expected_move_too_small''
          in c\<lparr>cand_LLMEligible := (reasons = []), cand_LLMRoutingReasonCodes := reasons\<rparr>)"

section \<open>A symbol\<close>

fun action_text :: "action \<Rightarrow> string" where
  "action_text ActionAllowMarket = ''ALLOW_MARKET''"
| "action_text ActionAllowRetestOnly = ''ALLOW_RETEST_ONLY''"
| "action_text ActionReduceSize = ''REDUCE_SIZE''"
| "action_text ActionReject = ''REJECT''"

definition screen_order_book :: "user_config \<Rightarrow> screener_md \<Rightarrow> string \<Rightarrow> side \<Rightarrow> order_book_summary option" where
  "screen_order_book cfg md symbol sd =
    (let target = ComputeTargetNotional cfg
     in if Fin 0 < target then sk_OrderBook md symbol target (side_text sd) else None)"

definition screen_price :: "screener_md \<Rightarrow> string \<Rightarrow> f64" where
  "screen_price md symbol = (case sk_LatestPrice md symbol of Some p \<Rightarrow> p | None \<Rightarrow> Fin 0)"

text \<open>The candidate before its eligibility is looked at.\<close>

definition raw_candidate ::
  "user_config \<Rightarrow> screener_md \<Rightarrow> string \<Rightarrow> string \<Rightarrow> symbol_data \<Rightarrow> regime_snapshot \<Rightarrow> trade_candidate \<Rightarrow> score_result
    \<Rightarrow> candidate" where
  "raw_candidate cfg md cycleID symbol sd rg tc sr =
    (let (liq, exec, vol) =
           (case screen_order_book cfg md symbol (tc_Side tc) of
              None \<Rightarrow> (Fin 50, Fin 50, Fin 50)
            | Some ob \<Rightarrow> computeScoresFromOB ob (is_ATR14 (sd_SetupSnap sd)) (screen_price md symbol));
         tp1 = tpt_Price (tc_TakeProfits tc ! 0)
     in \<lparr> t_Symbol = symbol, t_Side = tc_Side tc, t_SetupType = tc_Strategy tc,
          t_Regime = rs_Classification (rg_RelativeStrength rg),
          t_EntryType = (if tc_EntryType tc = CandidateEntryLimitRetest then EntryTypeLimitRetest else EntryTypeMarket),
          t_ProposedEntry = tc_EntryPrice tc, t_ProposedStopLoss = tc_StopLoss tc, t_ProposedTakeProfit = tp1,
          t_StopLossPct = Fin 0, t_TakeProfitPct = Fin 0, t_RR = tc_RiskRewardRatio tc,
          t_InvalidationLevel = tc_InvalidationLevel tc,
          t_ReasonCodes = [action_text (sr_Action sr), message_text (ta_Trigger (tc_TAReasoning tc))],
          t_SetupScore = sco_SetupQuality (sr_Components sr), t_ExpectedMove = \<bar>tp1 - tc_EntryPrice tc\<bar>,
          t_EstimatedTotalCost = tc_EntryPrice tc * lit (55 / 100000) + tc_EntryPrice tc * lit (5 / 10000),
          cand_CycleID = cycleID, cand_CandidateScore = sr_ScoreTotal sr, cand_LiquidityScore = liq,
          cand_ExecutionScore = exec, cand_VolatilityScore = vol, cand_LLMEligible = (sr_Action sr \<noteq> ActionReject),
          cand_LLMRoutingReasonCodes = [] \<rparr>)"

definition screened_candidate ::
  "user_config \<Rightarrow> screener_md \<Rightarrow> string \<Rightarrow> string \<Rightarrow> symbol_data \<Rightarrow> regime_snapshot \<Rightarrow> trade_candidate \<Rightarrow> score_result
    \<Rightarrow> candidate" where
  "screened_candidate cfg md cycleID symbol sd rg tc sr =
    (let c = raw_candidate cfg md cycleID symbol sd rg tc sr;
         c = (case screen_order_book cfg md symbol (tc_Side tc) of
                Some ob \<Rightarrow> screen_eligibility c ob (un_Filters (uc_Universe cfg)) (uc_LLMRouting cfg) (uc_Strategy cfg)
              | None \<Rightarrow> c\<lparr>cand_LLMRoutingReasonCodes := [''no_orderbook'']\<rparr>)
     in if sr_Action sr = ActionReject
        then c\<lparr>cand_LLMEligible := False,
               cand_LLMRoutingReasonCodes := cand_LLMRoutingReasonCodes c @ [''scoring_reject'']\<rparr>
        else c)"

definition evaluateSymbol ::
  "user_config \<Rightarrow> screener_md \<Rightarrow> screen_env \<Rightarrow> string \<Rightarrow> universe_symbol
    \<Rightarrow> evaluate_error + (candidate \<times> trade_candidate \<times> score_result \<times> regime_snapshot)" where
  "evaluateSymbol cfg md env cycleID u =
    (let symbol = si_Symbol u; now = se_now env
     in ebind (symbol_data_of cfg md now symbol) (\<lambda>sd.
        ebind (btc_data_of cfg md now) (\<lambda>btc.
        ebind (regime_of cfg md env symbol sd btc) (\<lambda>rg.
          let trend = trend_setup cfg env u sd rg; breakout = breakout_setup cfg env u sd rg
          in case choose_setup trend breakout of
               None \<Rightarrow>
                 Inl (NoSetup (rejection_of symbol ''trend_pullback'' trend @ rejection_of symbol ''breakout_retest'' breakout))
             | Some tc \<Rightarrow>
                 let sr = Score \<lparr> in_Candidate = tc, in_Snapshot15m = sd_SetupSnap sd, in_Snapshot1h = sd_ContextSnap sd,
                                  in_Snapshot4h = sd_4HSnap sd, in_RegimeSnapshot = rg \<rparr>
                            (ScoringConfig_WithDefaults (uc_Scoring cfg))
                 in Inr (screened_candidate cfg md cycleID symbol sd rg tc sr, tc, sr, rg)))))"

section \<open>Contexts\<close>

text \<open>Why no context is built: the value that is out of order.\<close>

datatype context_error = InvalidValue string f64

definition sanitizeFloat :: "f64 \<Rightarrow> f64" where
  "sanitizeFloat v = (if not_finite v then Fin 0 else v)"

definition sanitize_fibonacci :: "fibonacci_context \<Rightarrow> fibonacci_context" where
  "sanitize_fibonacci f =
    f\<lparr>fc_SwingHigh := sanitizeFloat (fc_SwingHigh f), fc_SwingLow := sanitizeFloat (fc_SwingLow f),
      fc_Fib05 := sanitizeFloat (fc_Fib05 f), fc_Fib0618 := sanitizeFloat (fc_Fib0618 f),
      fc_Fib0786 := sanitizeFloat (fc_Fib0786 f), fc_CurrentPrice := sanitizeFloat (fc_CurrentPrice f),
      fc_DistanceToNearestFibPct := sanitizeFloat (fc_DistanceToNearestFibPct f)\<rparr>"

definition sanitizeContext :: "candidate_context \<Rightarrow> candidate_context" where
  "sanitizeContext c =
    c\<lparr>cx_ProposedEntry := sanitizeFloat (cx_ProposedEntry c), cx_StopLoss := sanitizeFloat (cx_StopLoss c),
      cx_TakeProfit := sanitizeFloat (cx_TakeProfit c), cx_RR := sanitizeFloat (cx_RR c),
      cx_SetupScore := sanitizeFloat (cx_SetupScore c), cx_ExpectedMove := sanitizeFloat (cx_ExpectedMove c),
      cx_OrderBook := map_option (\<lambda>b.
        \<lparr> oc_SpreadBps = sanitizeFloat (oc_SpreadBps b), oc_BidDepth = sanitizeFloat (oc_BidDepth b),
          oc_AskDepth = sanitizeFloat (oc_AskDepth b), oc_SlippageBps = sanitizeFloat (oc_SlippageBps b) \<rparr>) (cx_OrderBook c),
      cx_TradeFlow := map_option (\<lambda>t. t\<lparr>fx_BuySellRatio := sanitizeFloat (fx_BuySellRatio t)\<rparr>) (cx_TradeFlow c),
      cx_RegimeSummary := map_option (\<lambda>r.
        r\<lparr>rx_EMA200 := sanitizeFloat (rx_EMA200 r), rx_PriceVsEMA := sanitizeFloat (rx_PriceVsEMA r),
          rx_ATR := sanitizeFloat (rx_ATR r), rx_ATRPct := sanitizeFloat (rx_ATRPct r)\<rparr>) (cx_RegimeSummary c),
      cx_CostSummary := map_option (\<lambda>k.
        \<lparr> kx_EstimatedFee = sanitizeFloat (kx_EstimatedFee k), kx_EstimatedSlippage = sanitizeFloat (kx_EstimatedSlippage k),
          kx_TotalCost = sanitizeFloat (kx_TotalCost k), kx_CostBps = sanitizeFloat (kx_CostBps k) \<rparr>) (cx_CostSummary c),
      cx_WatchlistContext := map_option (\<lambda>w.
        w\<lparr>wl_Fibonacci := sanitize_fibonacci (wl_Fibonacci w),
          wl_ConfluenceScoreDelta := sanitizeFloat (wl_ConfluenceScoreDelta w)\<rparr>) (cx_WatchlistContext c)\<rparr>"

text \<open>The floats of a context, all of which \<open>json.Marshal\<close> must be able to write.\<close>

definition context_floats :: "candidate_context \<Rightarrow> f64 list" where
  "context_floats c =
    [cx_ProposedEntry c, cx_StopLoss c, cx_TakeProfit c, cx_RR c, cx_SetupScore c, cx_ExpectedMove c] @
    (case cx_OrderBook c of None \<Rightarrow> [] | Some b \<Rightarrow> [oc_SpreadBps b, oc_BidDepth b, oc_AskDepth b, oc_SlippageBps b]) @
    (case cx_TradeFlow c of None \<Rightarrow> [] | Some t \<Rightarrow> [fx_BuySellRatio t]) @
    (case cx_RegimeSummary c of None \<Rightarrow> [] | Some r \<Rightarrow> [rx_EMA200 r, rx_PriceVsEMA r, rx_ATR r, rx_ATRPct r]) @
    (case cx_CostSummary c of None \<Rightarrow> [] | Some k \<Rightarrow> [kx_EstimatedFee k, kx_EstimatedSlippage k, kx_TotalCost k, kx_CostBps k]) @
    [ky_DailyLossPct (cx_RiskSummary c)] @
    (case cx_WatchlistContext c of
       None \<Rightarrow> []
     | Some w \<Rightarrow>
         let f = wl_Fibonacci w
         in [fc_SwingHigh f, fc_SwingLow f, fc_Fib05 f, fc_Fib0618 f, fc_Fib0786 f, fc_CurrentPrice f,
             fc_DistanceToNearestFibPct f, wl_ConfluenceScoreDelta w])"

text \<open>The last volume over the average of up to 20 candles before it, summed from the newest to the oldest.\<close>

definition volume_ratio :: "candle list \<Rightarrow> f64" where
  "volume_ratio cs =
    (let vols = map c_Volume (take 20 (rev (butlast cs))); total = fsum vols; avg = total / f64_of_int (int (length vols))
     in if length cs \<le> 1 \<or> vols = [] \<or> \<not> Fin 0 < total \<or> \<not> Fin 0 < avg then Fin 0
        else c_Volume (last cs) / avg)"

definition no_fibonacci :: fibonacci_context where
  "no_fibonacci =
    \<lparr> fc_SwingHigh = Fin 0, fc_SwingLow = Fin 0, fc_ImpulseDirection = '''', fc_Fib05 = Fin 0, fc_Fib0618 = Fin 0,
      fc_Fib0786 = Fin 0, fc_CurrentPrice = Fin 0, fc_ZoneLabel = '''', fc_DistanceToNearestFibPct = Fin 0,
      fc_Valid = False, fc_ReasonCodes = [] \<rparr>"

definition buildWatchlistContext :: "user_config \<Rightarrow> screener_md \<Rightarrow> candidate \<Rightarrow> f64 \<Rightarrow> f64 \<Rightarrow> watchlist_context" where
  "buildWatchlistContext cfg md c atr price =
    (let wc = WatchlistContextConfig_WithDefaults (uc_WatchlistContext cfg); fb = wc_Fibonacci wc; symbol = t_Symbol c;
         lookback = default_int 80 (fb_LookbackCandles fb);
         fib = (if \<not> fb_Enabled fb then no_fibonacci
                else (case sm_GetCandles md symbol (setup_timeframe cfg) (lookback + 20) of
                        Inl _ \<Rightarrow> no_fibonacci
                      | Inr cs \<Rightarrow> if int (length cs) < lookback then no_fibonacci
                                 else ComputeFibonacciContext cs (t_Side c) lookback (fb_ZoneTolerancePct fb)));
         atrPct = (if Fin 0 < price \<and> Fin 0 < atr then atr / price * Fin 100 else Fin 0);
         setup = tm_Setup (sg_Timeframes (uc_Strategy cfg));
         ratio = (if setup = [] then Fin 0
                  else (case sm_GetCandles md symbol setup 30 of Inl _ \<Rightarrow> Fin 0 | Inr cs \<Rightarrow> volume_ratio cs))
     in BuildWatchlistContext fib symbol ratio atrPct wc)"

definition finite_nonnegative :: "f64 \<Rightarrow> bool" where
  "finite_nonnegative v \<longleftrightarrow> \<not> not_finite v \<and> Fin 0 \<le> v"

definition finite_positive :: "f64 \<Rightarrow> bool" where
  "finite_positive v \<longleftrightarrow> \<not> not_finite v \<and> Fin 0 < v"

definition context_guard :: "candidate \<Rightarrow> context_error option" where
  "context_guard c =
    first_err
      [fail_if (\<not> finite_positive (t_ProposedEntry c)) (InvalidValue ''proposed entry'' (t_ProposedEntry c)),
       fail_if (\<not> finite_positive (t_ProposedStopLoss c)) (InvalidValue ''stop loss'' (t_ProposedStopLoss c)),
       fail_if (Fin 0 < t_ProposedTakeProfit c \<and> not_finite (t_ProposedTakeProfit c))
         (InvalidValue ''take profit'' (t_ProposedTakeProfit c)),
       fail_if (\<not> finite_nonnegative (t_SetupScore c)) (InvalidValue ''setup score'' (t_SetupScore c)),
       fail_if (\<not> finite_nonnegative (t_ExpectedMove c)) (InvalidValue ''expected move'' (t_ExpectedMove c))]"

definition market_guard :: "f64 \<Rightarrow> f64 \<Rightarrow> f64 \<Rightarrow> context_error option" where
  "market_guard atr ema200 price =
    first_err
      [fail_if (\<not> finite_nonnegative atr) (InvalidValue ''ATR'' atr),
       fail_if (Fin 0 < ema200 \<and> \<not> finite_positive ema200) (InvalidValue ''EMA200'' ema200),
       fail_if (Fin 0 < price \<and> \<not> finite_positive price) (InvalidValue ''latest price'' price)]"

definition cost_of_price :: "f64 \<Rightarrow> cost_context" where
  "cost_of_price price =
    (let fee = price * lit (55 / 100000); slip = price * lit (5 / 10000)
     in \<lparr> kx_EstimatedFee = fee, kx_EstimatedSlippage = slip, kx_TotalCost = fee + slip,
          kx_CostBps = (fee + slip) / price * Fin 10000 \<rparr>)"

definition context_of ::
  "user_config \<Rightarrow> screener_md \<Rightarrow> candidate \<Rightarrow> f64 \<Rightarrow> f64 \<Rightarrow> f64 \<Rightarrow> candidate_context" where
  "context_of cfg md c atr ema200 price =
    \<lparr> cx_Symbol = t_Symbol c, cx_Side = t_Side c, cx_SetupType = t_SetupType c, cx_Regime = t_Regime c,
      cx_EntryType = t_EntryType c, cx_ProposedEntry = t_ProposedEntry c, cx_StopLoss = t_ProposedStopLoss c,
      cx_TakeProfit = t_ProposedTakeProfit c, cx_RR = t_RR c, cx_SetupScore = t_SetupScore c,
      cx_ExpectedMove = t_ExpectedMove c,
      cx_OrderBook =
        (case screen_order_book cfg md (t_Symbol c) (t_Side c) of
           None \<Rightarrow> None
         | Some ob \<Rightarrow>
             if Fin 0 < ob_BestBid ob \<or> Fin 0 < ob_BestAsk ob
             then Some \<lparr> oc_SpreadBps = ob_SpreadBps ob, oc_BidDepth = ob_BidDepth ob, oc_AskDepth = ob_AskDepth ob,
                         oc_SlippageBps = ob_EstimatedSlippageBps ob \<rparr>
             else None),
      cx_TradeFlow =
        (case sm_TradeFlow md (t_Symbol c) of
           [] \<Rightarrow> None | t # _ \<Rightarrow> Some \<lparr> fx_BuySellRatio = tf_BuySellRatio t, fx_TradeCount = tf_TradeCount t \<rparr>),
      cx_RegimeSummary =
        (if Fin 0 < price \<and> Fin 0 < ema200
         then Some \<lparr> rx_Regime = t_Regime c, rx_EMA200 = ema200, rx_PriceVsEMA = (price - ema200) / ema200 * Fin 100,
                     rx_ATR = atr, rx_ATRPct = atr / price * Fin 100 \<rparr>
         else None),
      cx_CostSummary = (if Fin 0 < price then Some (cost_of_price price) else None),
      cx_RiskSummary =
        \<lparr> ky_DailyLossPct = Fin 0, ky_OpenPositions = 0, ky_MaxOpenPositions = pr_MaxOpenPositions (uc_PortfolioRisk cfg),
          ky_DuplicateSymbol = False \<rparr>,
      cx_WatchlistContext =
        (if wc_Enabled (uc_WatchlistContext cfg) then Some (buildWatchlistContext cfg md c atr price) else None) \<rparr>"

text \<open>The context that is marshalled; marshalling fails on a float that is not finite.\<close>

definition buildContext :: "user_config \<Rightarrow> screener_md \<Rightarrow> candidate \<Rightarrow> context_error + candidate_context" where
  "buildContext cfg md c =
    (case context_guard c of
       Some e \<Rightarrow> Inl e
     | None \<Rightarrow>
         let price = screen_price md (t_Symbol c);
             hourly = (case sm_GetCandles md (t_Symbol c) ''1H'' 210 of Inl _ \<Rightarrow> [] | Inr cs \<Rightarrow> cs);
             atr = ATR hourly (ic_ATRPeriod (sg_Indicators (uc_Strategy cfg))); ema200 = EMA hourly 200
         in case market_guard atr ema200 price of
              Some e \<Rightarrow> Inl e
            | None \<Rightarrow>
                let ctx = sanitizeContext (context_of cfg md c atr ema200 price)
                in case filter not_finite (context_floats ctx) of
                     v # _ \<Rightarrow> Inl (InvalidValue ''marshal'' v)
                   | [] \<Rightarrow> Inr ctx)"

section \<open>The screen\<close>

definition screen_symbol ::
  "user_config \<Rightarrow> screener_md \<Rightarrow> screen_env \<Rightarrow> string \<Rightarrow> candidate list \<times> screen_result \<Rightarrow> universe_symbol
    \<Rightarrow> candidate list \<times> screen_result" where
  "screen_symbol cfg md env cycleID acc u =
    (let (cs, r) = acc; symbol = si_Symbol u
     in if us_Blacklist u then acc
        else
          (case evaluateSymbol cfg md env cycleID u of
             Inl (NoSetup rejections) \<Rightarrow> (cs, r\<lparr>sn_StrategyRejections := sn_StrategyRejections r @ rejections\<rparr>)
           | Inl (Infra text) \<Rightarrow>
               (cs, r\<lparr>sn_StrategyRejections := sn_StrategyRejections r @
                  [\<lparr> sj_Symbol = symbol, sj_Strategy = ''infra'', sj_Reason = text, sj_Code = rejectionCode text,
                     sj_NearMiss = False \<rparr>]\<rparr>)
           | Inr (c, tc, sr, rg) \<Rightarrow>
               (cs @ [c],
                r\<lparr>sn_TradeCandidates := AList.update symbol tc (sn_TradeCandidates r),
                  sn_ScoreResults := AList.update symbol sr (sn_ScoreResults r),
                  sn_RegimeSnapshots := AList.update symbol rg (sn_RegimeSnapshots r),
                  sn_SymbolInfos := AList.update symbol (symbol_info.truncate u) (sn_SymbolInfos r)\<rparr>)))"

text \<open>The indicators of a symbol from its candles as they are cached, the last one in progress included.\<close>

definition cached_snapshot ::
  "user_config \<Rightarrow> screener_md \<Rightarrow> string \<Rightarrow> indicator_snapshot gomap \<Rightarrow> string \<Rightarrow> indicator_snapshot gomap" where
  "cached_snapshot cfg md tf m symbol =
    (case sm_GetCandles md symbol tf 250 of
       Inl _ \<Rightarrow> m
     | Inr cs \<Rightarrow>
         if length cs \<le> 50 then m
         else (case BuildSnapshot symbol tf cs (snapshot_config_of cfg) of Inl _ \<Rightarrow> m | Inr s \<Rightarrow> AList.update symbol s m))"

definition add_context ::
  "user_config \<Rightarrow> screener_md \<Rightarrow> candidate_context gomap \<Rightarrow> candidate \<Rightarrow> candidate_context gomap" where
  "add_context cfg md m c =
    (case buildContext cfg md c of Inl _ \<Rightarrow> m | Inr ctx \<Rightarrow> AList.update (t_Symbol c) ctx m)"

definition no_screen :: screen_result where
  "no_screen =
    \<lparr> sn_Candidates = [], sn_LLMContexts = [], sn_NonEligible = [], sn_TradeCandidates = [], sn_ScoreResults = [],
      sn_RegimeSnapshots = [], sn_Snapshots15m = [], sn_Snapshots1h = [], sn_StrategyRejections = [],
      sn_SymbolInfos = [] \<rparr>"

definition screen_of ::
  "user_config \<Rightarrow> screener_md \<Rightarrow> screen_env \<Rightarrow> string \<Rightarrow> universe_symbol list \<Rightarrow> screen_result" where
  "screen_of cfg md env cycleID symbols =
    (let (cs, r) = foldl (screen_symbol cfg md env cycleID) ([], no_screen) symbols;
         listed = map si_Symbol (filter (\<lambda>x. \<not> us_Blacklist x) symbols);
         eligible = filter cand_LLMEligible cs
     in r\<lparr>sn_Candidates := eligible,
          sn_LLMContexts := foldl (add_context cfg md) [] eligible,
          sn_NonEligible := filter (\<lambda>c. \<not> cand_LLMEligible c) cs,
          sn_Snapshots15m := foldl (cached_snapshot cfg md (setup_timeframe cfg)) [] listed,
          sn_Snapshots1h := foldl (cached_snapshot cfg md (context_timeframe cfg)) [] listed\<rparr>)"

definition Screen ::
  "user_config \<Rightarrow> screener_md \<Rightarrow> screen_env \<Rightarrow> string \<Rightarrow> store \<Rightarrow> store \<times> (db_error + screen_result)" where
  "Screen cfg md env cycleID s =
    (case universe_GetAll s of
       (s, Inl e) \<Rightarrow> (s, Inl e)
     | (s, Inr symbols) \<Rightarrow> (s, Inr (screen_of cfg md env cycleID symbols)))"

end
