(* ===== verification/ScreenerSpec.thy ===== *)
theory ScreenerSpec
  imports Screener StrategySpec
begin

text \<open>
  What the screener guarantees: no symbol is lost (each that is not blacklisted ends as a candidate or as a recorded
  rejection, under its own name), the levels of a candidate are those of a protected trade, eligibility is decided
  exactly by the documented checks, and a context is built for every candidate whose figures are in order, with
  floats that JSON can carry.
\<close>

section \<open>Accounting\<close>

definition screened :: "user_config \<Rightarrow> screener_md \<Rightarrow> screen_env \<Rightarrow> string \<Rightarrow> universe_symbol \<Rightarrow> candidate option" where
  "screened cfg md env cid u =
    (case evaluateSymbol cfg md env cid u of Inl _ \<Rightarrow> None | Inr (c, _) \<Rightarrow> Some c)"

lemma ebind_Inl: "ebind m f = Inl e \<longleftrightarrow> m = Inl e \<or> (\<exists>y. m = Inr y \<and> f y = Inl e)"
  by (cases m) (auto simp: ebind_def)

lemma wrap_text_Infra [simp]: "wrap_text p t r \<noteq> Inl (NoSetup xs)"
  by (cases r) (auto simp: wrap_text_def)

lemma required_candles_Infra [simp]: "required_candles cfg md now s tf n a b \<noteq> Inl (NoSetup xs)"
  by (simp add: required_candles_def ebind_Inl)

lemma symbol_data_Infra [simp]: "symbol_data_of cfg md now s \<noteq> Inl (NoSetup xs)"
  by (simp add: symbol_data_of_def ebind_Inl Let_def)

lemma btc_data_Infra [simp]: "btc_data_of cfg md now \<noteq> Inl (NoSetup xs)"
  by (simp add: btc_data_of_def ebind_Inl Let_def)

lemma regime_Infra [simp]: "regime_of cfg md env s sd btc \<noteq> Inl (NoSetup xs)"
  by (simp add: regime_of_def Let_def)

lemma choose_setup_None: "choose_setup t b = None \<longleftrightarrow> isl t \<and> isl b"
  by (cases t; cases b) (auto simp: choose_setup_def)

text \<open>A symbol without a setup leaves a rejection per strategy, under its own name.\<close>

lemma no_setup_recorded:
  assumes "evaluateSymbol cfg md env cid u = Inl (NoSetup xs)"
  shows "sj_Symbol ` set xs = {si_Symbol u}"
proof -
  obtain sd rg where n: "choose_setup (trend_setup cfg env u sd rg) (breakout_setup cfg env u sd rg) = None"
    and x: "xs = rejection_of (si_Symbol u) ''trend_pullback'' (trend_setup cfg env u sd rg) @
      rejection_of (si_Symbol u) ''breakout_retest'' (breakout_setup cfg env u sd rg)"
    using assms by (auto simp: evaluateSymbol_def ebind_Inl Let_def split: option.splits)
  from n show ?thesis
    unfolding x choose_setup_None by (auto simp: isl_def rejection_of_def)
qed

lemma no_setup_symbol:
  "evaluateSymbol cfg md env cid u = Inl (NoSetup xs) \<Longrightarrow> x \<in> set xs \<Longrightarrow> sj_Symbol x = si_Symbol u"
  using no_setup_recorded by blast

lemma screened_candidate_symbol [simp]: "t_Symbol (screened_candidate cfg md cid s sd rg tc sr) = s"
  by (simp add: screened_candidate_def raw_candidate_def screen_eligibility_def Let_def split_beta split: option.split)

lemma evaluate_Inr:
  assumes "evaluateSymbol cfg md env cid u = Inr (c, tc, sr, rg)"
  obtains sd btc where "symbol_data_of cfg md (se_now env) (si_Symbol u) = Inr sd"
    and "btc_data_of cfg md (se_now env) = Inr btc" and "regime_of cfg md env (si_Symbol u) sd btc = Inr rg"
    and "choose_setup (trend_setup cfg env u sd rg) (breakout_setup cfg env u sd rg) = Some tc"
    and "c = screened_candidate cfg md cid (si_Symbol u) sd rg tc sr"
  using assms by (auto simp: evaluateSymbol_def ebind_Inr Let_def split: option.splits)

lemma screened_symbol: "screened cfg md env cid u = Some c \<Longrightarrow> t_Symbol c = si_Symbol u"
  by (auto simp: screened_def split: sum.splits elim!: evaluate_Inr)

definition map_keys :: "'a gomap \<Rightarrow> string list" where
  "map_keys m = map fst m"

lemma map_keys_update [simp]: "set (map_keys (AList.update k v m)) = insert k (set (map_keys m))"
  by (auto simp: map_keys_def update_keys)

text \<open>One symbol: what it adds to the candidates, to the maps and to the rejections.\<close>

lemma screen_symbol_step:
  fixes r :: screen_result
  assumes "screen_symbol cfg md env cid (cs, r) u = (cs', r')"
  shows "us_Blacklist u \<Longrightarrow> cs' = cs \<and> r' = r"
    and "\<not> us_Blacklist u \<Longrightarrow> screened cfg md env cid u = Some c \<Longrightarrow>
      cs' = cs @ [c] \<and> sn_StrategyRejections r' = sn_StrategyRejections r \<and>
      set (map_keys (sn_TradeCandidates r')) = insert (si_Symbol u) (set (map_keys (sn_TradeCandidates r))) \<and>
      set (map_keys (sn_ScoreResults r')) = insert (si_Symbol u) (set (map_keys (sn_ScoreResults r))) \<and>
      set (map_keys (sn_RegimeSnapshots r')) = insert (si_Symbol u) (set (map_keys (sn_RegimeSnapshots r))) \<and>
      set (map_keys (sn_SymbolInfos r')) = insert (si_Symbol u) (set (map_keys (sn_SymbolInfos r)))"
    and "\<not> us_Blacklist u \<Longrightarrow> screened cfg md env cid u = None \<Longrightarrow>
      cs' = cs \<and> sn_TradeCandidates r' = sn_TradeCandidates r \<and> sn_ScoreResults r' = sn_ScoreResults r \<and>
      sn_RegimeSnapshots r' = sn_RegimeSnapshots r \<and> sn_SymbolInfos r' = sn_SymbolInfos r \<and>
      sj_Symbol ` set (sn_StrategyRejections r') = insert (si_Symbol u) (sj_Symbol ` set (sn_StrategyRejections r))"
  using assms
  by (auto simp: screen_symbol_def screened_def Let_def image_Un no_setup_recorded dest: no_setup_symbol
      split: sum.splits evaluate_error.splits)

lemma screen_fold:
  assumes "foldl (screen_symbol cfg md env cid) (cs, r) symbols = (cs', r')"
  defines "listed \<equiv> filter (\<lambda>u. \<not> us_Blacklist u) symbols"
  defines "found \<equiv> filter (\<lambda>u. screened cfg md env cid u \<noteq> None) listed"
    and "lost \<equiv> filter (\<lambda>u. screened cfg md env cid u = None) listed"
  shows "cs' = cs @ map (\<lambda>u. the (screened cfg md env cid u)) found \<and>
    sj_Symbol ` set (sn_StrategyRejections r') = sj_Symbol ` set (sn_StrategyRejections r) \<union> si_Symbol ` set lost \<and>
    set (map_keys (sn_TradeCandidates r')) = set (map_keys (sn_TradeCandidates r)) \<union> si_Symbol ` set found \<and>
    set (map_keys (sn_ScoreResults r')) = set (map_keys (sn_ScoreResults r)) \<union> si_Symbol ` set found \<and>
    set (map_keys (sn_RegimeSnapshots r')) = set (map_keys (sn_RegimeSnapshots r)) \<union> si_Symbol ` set found \<and>
    set (map_keys (sn_SymbolInfos r')) = set (map_keys (sn_SymbolInfos r)) \<union> si_Symbol ` set found"
  using assms(1) unfolding listed_def found_def lost_def
proof (induction symbols arbitrary: cs r)
  case (Cons u us)
  obtain cs1 r1 where s: "screen_symbol cfg md env cid (cs, r) u = (cs1, r1)" by fastforce
  have f: "foldl (screen_symbol cfg md env cid) (cs1, r1) us = (cs', r')" using Cons.prems s by simp
  note ih = Cons.IH [OF f]
  show ?case
  proof (cases "us_Blacklist u")
    case True
    then show ?thesis using ih screen_symbol_step(1) [OF s] by simp
  next
    case False
    show ?thesis
    proof (cases "screened cfg md env cid u")
      case None
      then show ?thesis using ih screen_symbol_step(3) [OF s False] False by simp
    next
      case (Some c)
      then show ?thesis using ih screen_symbol_step(2) [OF s False Some] False by simp
    qed
  qed
qed simp


lemma screened_names:
  "(\<lambda>u. t_Symbol (the (screened cfg md env cid u))) ` {u \<in> A. \<exists>c. screened cfg md env cid u = Some c} =
   si_Symbol ` {u \<in> A. \<exists>c. screened cfg md env cid u = Some c}"
  by (rule image_cong) (auto dest: screened_symbol)

lemma add_context_fold:
  "set (map_keys (foldl (add_context cfg md) m cs)) =
   set (map_keys m) \<union> t_Symbol ` {c \<in> set cs. \<not> isl (buildContext cfg md c)}"
proof (induction cs arbitrary: m)
  case (Cons c cs)
  then show ?case by (cases "buildContext cfg md c") (auto simp: add_context_def)
qed simp

text \<open>The indicators of a symbol over the candles of a timeframe in the cache, where there are more than 50.\<close>

definition snapshot_of_cache ::
  "user_config \<Rightarrow> screener_md \<Rightarrow> string \<Rightarrow> string \<Rightarrow> indicator_snapshot option" where
  "snapshot_of_cache cfg md tf s =
    (case sm_GetCandles md s tf 250 of
       Inl _ \<Rightarrow> None
     | Inr cs \<Rightarrow>
         if 50 < length cs
         then (case BuildSnapshot s tf cs (snapshot_config_of cfg) of Inl _ \<Rightarrow> None | Inr x \<Rightarrow> Some x) else None)"

lemma cached_snapshot_fold:
  "map_of (foldl (cached_snapshot cfg md tf) m ss) s =
    (if s \<in> set ss \<and> snapshot_of_cache cfg md tf s \<noteq> None then snapshot_of_cache cfg md tf s else map_of m s)"
proof (induction ss arbitrary: m)
  case (Cons x ss)
  have "map_of (cached_snapshot cfg md tf m x) s =
      (if s = x \<and> snapshot_of_cache cfg md tf x \<noteq> None then snapshot_of_cache cfg md tf x else map_of m s)"
    by (auto simp: cached_snapshot_def snapshot_of_cache_def update_conv split: sum.split)
  with Cons.IH [of "cached_snapshot cfg md tf m x"] show ?case by auto
qed simp

text \<open>
  C31: the screen loses no symbol and invents none. The candidates handed on are the eligible ones and the others are
  kept apart; together with the recorded rejections they name exactly the symbols of the universe that are not
  blacklisted; the four maps of trade candidates, scores, regimes and symbol data are keyed by exactly the symbols with a
  candidate; contexts are kept for exactly the eligible candidates for which one can be built; and the two maps of
  indicator snapshots hold, for exactly the listed symbols with more than 50 cached candles, candidate or not, the
  snapshot of these candles where one can be built.
\<close>

theorem screen_accounts_for_symbols:
  "(let r = screen_of cfg md env cid symbols; cs = sn_Candidates r @ sn_NonEligible r;
        listed = si_Symbol ` {u \<in> set symbols. \<not> us_Blacklist u}
    in list_all cand_LLMEligible (sn_Candidates r) \<and> list_all (\<lambda>c. \<not> cand_LLMEligible c) (sn_NonEligible r) \<and>
       t_Symbol ` set cs \<union> sj_Symbol ` set (sn_StrategyRejections r) = listed \<and>
       length cs = length (filter (\<lambda>u. \<not> us_Blacklist u \<and> \<not> isl (evaluateSymbol cfg md env cid u)) symbols) \<and>
       fst ` set (sn_TradeCandidates r) = t_Symbol ` set cs \<and> fst ` set (sn_ScoreResults r) = t_Symbol ` set cs \<and>
       fst ` set (sn_RegimeSnapshots r) = t_Symbol ` set cs \<and> fst ` set (sn_SymbolInfos r) = t_Symbol ` set cs \<and>
       fst ` set (sn_LLMContexts r) = t_Symbol ` {c \<in> set (sn_Candidates r). \<not> isl (buildContext cfg md c)} \<and>
       map_of (sn_Snapshots15m r) = snapshot_of_cache cfg md (setup_timeframe cfg) |` listed \<and>
       map_of (sn_Snapshots1h r) = snapshot_of_cache cfg md (context_timeframe cfg) |` listed)"
proof -
  obtain cs r where f: "foldl (screen_symbol cfg md env cid) ([], no_screen) symbols = (cs, r)" by fastforce
  note a = screen_fold [OF f, unfolded map_keys_def no_screen_def, simplified]
  define F where "F = si_Symbol ` {u \<in> set symbols. \<not> us_Blacklist u \<and> (\<exists>c. screened cfg md env cid u = Some c)}"
  have n: "screened cfg md env cid u = None \<longleftrightarrow> isl (evaluateSymbol cfg md env cid u)" for u
    by (auto simp: screened_def split: sum.splits)
  have x: "t_Symbol ` set cs = F"
    using a screened_names [of cfg md env cid "{u \<in> set symbols. \<not> us_Blacklist u}"]
    by (auto simp: image_image F_def)
  have len: "length cs = length (filter (\<lambda>u. \<not> us_Blacklist u \<and> \<not> isl (evaluateSymbol cfg md env cid u)) symbols)"
    using a by (simp flip: n)
  have rej: "F \<union> sj_Symbol ` set (sn_StrategyRejections r) = si_Symbol ` {u \<in> set symbols. \<not> us_Blacklist u}"
  proof -
    have "sj_Symbol ` set (sn_StrategyRejections r) =
      si_Symbol ` {u \<in> set symbols. \<not> us_Blacklist u \<and> screened cfg md env cid u = None}" using a by simp
    then show ?thesis unfolding F_def by (simp only: image_Un [symmetric]) (rule arg_cong [where f = "(`) si_Symbol"], auto)
  qed
  have keys: "fst ` set (sn_TradeCandidates r) = F" "fst ` set (sn_ScoreResults r) = F"
    "fst ` set (sn_RegimeSnapshots r) = F" "fst ` set (sn_SymbolInfos r) = F"
    using a unfolding F_def by auto
  obtain M N where M: "filter cand_LLMEligible cs = M" and N: "filter (\<lambda>c. \<not> cand_LLMEligible c) cs = N" by blast
  have split: "set M \<union> set N = set cs" unfolding M [symmetric] N [symmetric] by auto
  have sum: "length M + length N = length cs" unfolding M [symmetric] N [symmetric] by (rule sum_length_filter_compl)
  have el: "\<forall>c\<in>set M. cand_LLMEligible c" "\<forall>c\<in>set N. \<not> cand_LLMEligible c"
    unfolding M [symmetric] N [symmetric] by auto
  have snap: "map_of (foldl (cached_snapshot cfg md tf) [] (map si_Symbol (filter (\<lambda>u. \<not> us_Blacklist u) symbols))) =
      snapshot_of_cache cfg md tf |` (si_Symbol ` {u \<in> set symbols. \<not> us_Blacklist u})" for tf
    by (auto simp: cached_snapshot_fold restrict_map_def fun_eq_iff)
  show ?thesis
    using add_context_fold [of cfg md "[]" M] el rej len
    by (simp add: screen_of_def f Let_def list_all_iff M N split sum x keys map_keys_def snap)
qed

section \<open>Eligibility\<close>

lemma code_if_nil [simp]: "code_if b s = [] \<longleftrightarrow> \<not> b"
  by (simp add: code_if_def)

lemma raw_candidate_fields [simp]:
  "cand_CandidateScore (raw_candidate cfg md cid s sd rg tc sr) = sr_ScoreTotal sr"
  "t_RR (raw_candidate cfg md cid s sd rg tc sr) = tc_RiskRewardRatio tc"
  "t_ExpectedMove (raw_candidate cfg md cid s sd rg tc sr) = \<bar>tpt_Price (tc_TakeProfits tc ! 0) - tc_EntryPrice tc\<bar>"
  "t_EstimatedTotalCost (raw_candidate cfg md cid s sd rg tc sr) =
     tc_EntryPrice tc * lit (55 / 100000) + tc_EntryPrice tc * lit (5 / 10000)"
  "cand_LLMEligible (raw_candidate cfg md cid s sd rg tc sr) = (sr_Action sr \<noteq> ActionReject)"
  by (simp_all add: raw_candidate_def split_beta Let_def)

text \<open>The screener and the universe scanner decide eligibility alike, although each has its own copy of the code.\<close>

lemma screener_agrees_with_scanner: "screen_eligibility c ob f l st = evaluateLLMEligibility c ob f l st"
  by (auto simp: screen_eligibility_def evaluateLLMEligibility_def Let_def code_if_def)

text \<open>
  C32: when the screener hands a candidate to the reviewer: scoring did not reject it and, where an order book can be
  had, its score is finite and high enough, spread, slippage and depth pass the checks that are switched on, its ratio
  is not below the minimum, and the move to the first target is more than three times the costs. Without an order
  book (or with a target notional that is not positive) none of these checks is made. Codes other than the missing
  order book are kept for exactly the candidates that are not handed on.
\<close>

theorem screening_eligibility_exact:
  "(let c = screened_candidate cfg md cid symbol sd rg tc sr; cost = tc_EntryPrice tc * lit (55 / 100000) + tc_EntryPrice tc * lit (5 / 10000);
        move = \<bar>tpt_Price (tc_TakeProfits tc ! 0) - tc_EntryPrice tc\<bar>; llm = uc_LLMRouting cfg;
        maxSpread = uf_MaxSpreadBps (un_Filters (uc_Universe cfg))
    in cand_LLMEligible c =
         (sr_Action sr \<noteq> ActionReject \<and>
          (case if Fin 0 < ComputeTargetNotional cfg
                then sk_OrderBook md symbol (ComputeTargetNotional cfg) (side_text (tc_Side tc)) else None of
             None \<Rightarrow> True
           | Some ob \<Rightarrow>
               \<not> not_finite (sr_ScoreTotal sr) \<and>
               \<not> sr_ScoreTotal sr < default_f64 (Fin 75) (lr_MinCandidateScore llm) \<and>
               \<not> (lr_RequireExecutionOk llm \<and> Fin 0 < maxSpread \<and> maxSpread < ob_SpreadBps ob) \<and>
               \<not> (lr_RequireExecutionOk llm \<and> Fin 100 \<le> ob_EstimatedSlippageBps ob) \<and>
               \<not> (lr_RequireLiquidityOk llm \<and> ob_DepthToPositionSizeRatio ob \<le> Fin 0) \<and>
               \<not> (Fin 0 < tc_RiskRewardRatio tc \<and>
                  tc_RiskRewardRatio tc < default_f64 (Fin 2) (ic_MinRR (sg_Indicators (uc_Strategy cfg)))) \<and>
               \<not> (Fin 0 < cost \<and> (move \<le> Fin 0 \<or> move \<le> Fin 3 * cost)))) \<and>
       cand_LLMEligible c = (set (cand_LLMRoutingReasonCodes c) \<subseteq> {''no_orderbook''}))"
proof (cases "screen_order_book cfg md symbol (tc_Side tc)")
  case None
  then show ?thesis
    by (simp add: screened_candidate_def Let_def flip: screen_order_book_def [unfolded Let_def])
next
  case (Some ob)
  have e: "set xs \<subseteq> {''no_orderbook''} \<longleftrightarrow> xs = []" if "''no_orderbook'' \<notin> set xs" for xs
    using that by (cases xs) auto
  from Some show ?thesis
    by (simp add: screened_candidate_def Let_def screen_eligibility_def e code_if_def
        flip: screen_order_book_def [unfolded Let_def])
qed

section \<open>Levels\<close>

lemma trend_setup_levels:
  assumes "trend_setup cfg env u sd rg = Inr tc" "is_f64 (c_Close (last (sd_Setup sd)))"
  shows "levels_ordered (tc_Side tc) (tc_EntryPrice tc) (tc_StopLoss tc) (tpt_Price (hd (tc_TakeProfits tc)))
    \<and> \<not> tc_RiskRewardRatio tc < minimum_rr cfg"
  using assms(1) unfolding trend_setup_def Let_def GenerateTrendPullback_def
  by (auto dest!: first_side_Inr pullback_levels simp: assms(2) minimum_rr_def default_f64_def)

lemma breakout_setup_levels:
  assumes "breakout_setup cfg env u sd rg = Inr tc"
  shows "levels_ordered (tc_Side tc) (tc_EntryPrice tc) (tc_StopLoss tc) (tpt_Price (hd (tc_TakeProfits tc)))
    \<and> \<not> tc_RiskRewardRatio tc < minimum_rr cfg"
  using assms unfolding breakout_setup_def Let_def GenerateBreakoutRetest_def
  by (auto dest!: first_side_Inr breakout_levels_ordered simp: minimum_rr_def default_f64_def)

lemma chosen_setup_levels:
  assumes "choose_setup (trend_setup cfg env u sd rg) (breakout_setup cfg env u sd rg) = Some tc"
    and "is_f64 (c_Close (last (sd_Setup sd)))"
  shows "levels_ordered (tc_Side tc) (tc_EntryPrice tc) (tc_StopLoss tc) (tpt_Price (hd (tc_TakeProfits tc)))
    \<and> \<not> tc_RiskRewardRatio tc < minimum_rr cfg"
proof -
  have "trend_setup cfg env u sd rg = Inr tc \<or> breakout_setup cfg env u sd rg = Inr tc"
    using assms(1) by (auto simp: choose_setup_def split: sum.splits if_splits)
  then show ?thesis using trend_setup_levels [OF _ assms(2)] breakout_setup_levels by blast
qed

lemma trend_targets: "trend_setup cfg env u sd rg = Inr tc \<Longrightarrow> tc_TakeProfits tc \<noteq> []"
  unfolding trend_setup_def Let_def GenerateTrendPullback_def
  by (auto dest!: first_side_Inr simp: generateTrendPullbackForSide_def pullback_candidate_def Let_def split_beta
      split: option.splits if_splits)

lemma breakout_targets: "breakout_setup cfg env u sd rg = Inr tc \<Longrightarrow> tc_TakeProfits tc \<noteq> []"
  unfolding breakout_setup_def Let_def GenerateBreakoutRetest_def
  by (auto dest!: first_side_Inr breakout_Inr simp: breakout_levels_def breakout_candidate_def Let_def split_beta
      split: option.splits if_splits)

lemma screened_levels_fields:
  "t_Side (screened_candidate cfg md cid s sd rg tc sr) = tc_Side tc"
  "t_ProposedEntry (screened_candidate cfg md cid s sd rg tc sr) = tc_EntryPrice tc"
  "t_ProposedStopLoss (screened_candidate cfg md cid s sd rg tc sr) = tc_StopLoss tc"
  "t_ProposedTakeProfit (screened_candidate cfg md cid s sd rg tc sr) = tpt_Price (tc_TakeProfits tc ! 0)"
  "t_RR (screened_candidate cfg md cid s sd rg tc sr) = tc_RiskRewardRatio tc"
  by (simp_all add: screened_candidate_def raw_candidate_def screen_eligibility_def Let_def split_beta split: option.split)

lemma screened_levels:
  assumes "choose_setup (trend_setup cfg env u sd rg) (breakout_setup cfg env u sd rg) = Some tc"
    and "is_f64 (c_Close (last (sd_Setup sd)))"
    and "c = screened_candidate cfg md cid (si_Symbol u) sd rg tc sr"
  shows "levels_ordered (t_Side c) (t_ProposedEntry c) (t_ProposedStopLoss c) (t_ProposedTakeProfit c)
    \<and> \<not> t_RR c < minimum_rr cfg"
proof -
  have "trend_setup cfg env u sd rg = Inr tc \<or> breakout_setup cfg env u sd rg = Inr tc"
    using assms(1) by (auto simp: choose_setup_def split: sum.splits if_splits)
  then have "tc_TakeProfits tc \<noteq> []" using trend_targets breakout_targets by blast
  then show ?thesis
    using chosen_setup_levels [OF assms(1,2)] unfolding assms(3) screened_levels_fields
    by (simp add: hd_conv_nth)
qed

text \<open>
  C33: whichever strategy wins, the candidate made of its setup keeps the levels of a protected trade: a long has its
  stop below and its target above the entry, a short the other way round, and the ratio carried to the risk engine is
  not below the configured minimum.
\<close>

theorem screened_levels_protected:
  assumes "choose_setup (trend_setup cfg env u sd rg) (breakout_setup cfg env u sd rg) = Some tc"
    and "is_f64 (c_Close (last (sd_Setup sd)))"
    and "c = screened_candidate cfg md cid (si_Symbol u) sd rg tc sr"
  shows "(t_Side c = SideLong \<and> t_ProposedStopLoss c < t_ProposedEntry c \<and> t_ProposedEntry c < t_ProposedTakeProfit c
      \<or> t_Side c = SideShort \<and> t_ProposedTakeProfit c < t_ProposedEntry c \<and> t_ProposedEntry c < t_ProposedStopLoss c)
    \<and> \<not> t_RR c < minimum_rr cfg"
  using screened_levels [OF assms] unfolding levels_ordered_def .

definition demo_symbol :: universe_symbol where
  "demo_symbol =
    \<lparr> si_Symbol = ''BTCUSDT'', si_Status = ''Trading'', si_QuoteAsset = ''USDT'', si_BaseAsset = ''BTC'',
      si_MinNotional = Fin 5, si_TickSize = Fin (1 / 2), si_LotSize = Fin (1 / 1000), si_MaxLeverage = Fin 50,
      us_Blacklist = False, us_ForceInclude = False, us_LiquidityScore = Fin 80, us_LastScanAt = 0 \<rparr>"

definition demo_symbol_data :: symbol_data where
  "demo_symbol_data =
    \<lparr> sd_Setup = bo_Candles15m demo_breakout, sd_Context = [], sd_SetupSnap = bo_Snapshot15m demo_breakout,
      sd_ContextSnap = demo_snapshot, sd_4HSnap = demo_snapshot \<rparr>"

definition demo_env :: screen_env where
  "demo_env = \<lparr> se_now = 1, se_ord = [], se_rand = (\<lambda>_ _ _. Some (replicate 16 0)) \<rparr>"

definition empty_provider :: screener_md where
  "empty_provider =
    \<lparr> sk_OrderBook = (\<lambda>_ _ _. None), sk_LatestPrice = (\<lambda>_. None), sm_GetCandles = (\<lambda>_ _ _. Inl ''no data''),
      sm_TradeFlow = (\<lambda>_. []) \<rparr>"

definition demo_screen_input :: breakout_input where
  "demo_screen_input =
    (let ind = IndicatorsConfig_WithDefaults (sg_Indicators (uc_Strategy demo_user_config))
     in demo_breakout\<lparr>bo_Now := 1, bo_IndicatorSnapshotRef := indicator_ref ''BTCUSDT'' ''15m'' (bo_Snapshot15m demo_breakout),
          bo_RegimeSnapshotRef := regime_ref ''BTCUSDT'' demo_regime,
          bo_MinSLDistanceATRMultiplier := ic_MinSLDistanceATRMultiplier ind,
          bo_MinSLDistancePct := ic_MinSLDistancePct ind, bo_MinRR := minimum_rr demo_user_config\<rparr>)"

lemma demo_screen_input:
  "breakout_setup demo_user_config demo_env demo_symbol demo_symbol_data demo_regime =
    GenerateBreakoutRetest 1 (\<lambda>_. Some (replicate 16 0)) demo_screen_input"
proof -
  have "setup_timeframe demo_user_config = ''15m''" by code_simp
  then show ?thesis
    by (simp add: breakout_setup_def demo_screen_input_def demo_env_def demo_symbol_def demo_symbol_data_def
        demo_breakout_def Let_def)
qed

lemma demo_setup:
  "\<exists>tc. choose_setup (trend_setup demo_user_config demo_env demo_symbol demo_symbol_data demo_regime)
       (breakout_setup demo_user_config demo_env demo_symbol demo_symbol_data demo_regime) = Some tc"
proof -
  have "breakout_preconditions demo_screen_input SideLong = None"
    and "findBreakout (bo_Candles15m demo_screen_input) (bo_Snapshot15m demo_screen_input) SideLong =
      Some (Fin 102, 22, Fin 0)"
    and "findRetest (bo_Candles15m demo_screen_input) 22 (Fin 102) (is_ATR14 (bo_Snapshot15m demo_screen_input)) SideLong
      = Some (Fin 101)"
    and "confirmation_error demo_screen_input SideLong (Fin 102) = None"
    and "\<not> isl (breakout_levels 1 (\<lambda>_. Some (replicate 16 0)) demo_screen_input SideLong (Fin 102) (Fin 0) (Fin 101))"
    by code_simp+
  then have "\<not> isl (generateBreakoutRetestForSide 1 (\<lambda>_. Some (replicate 16 0)) demo_screen_input SideLong)"
    by (simp add: generateBreakoutRetestForSide_def)
  then show ?thesis
    unfolding demo_screen_input by (auto simp: choose_setup_def GenerateBreakoutRetest_def first_side_def split: sum.splits)
qed

lemma screened_levels_protected_witness:
  "\<exists>tc. choose_setup (trend_setup demo_user_config demo_env demo_symbol demo_symbol_data demo_regime)
       (breakout_setup demo_user_config demo_env demo_symbol demo_symbol_data demo_regime) = Some tc \<and>
     \<not> t_RR (screened_candidate demo_user_config empty_provider ''c1'' (si_Symbol demo_symbol) demo_symbol_data
       demo_regime tc (Score (demo_score_input (tc_RiskRewardRatio tc)) demo_scoring)) < minimum_rr demo_user_config"
proof -
  obtain tc where t: "choose_setup (trend_setup demo_user_config demo_env demo_symbol demo_symbol_data demo_regime)
       (breakout_setup demo_user_config demo_env demo_symbol demo_symbol_data demo_regime) = Some tc"
    using demo_setup ..
  have "is_f64 (c_Close (last (sd_Setup demo_symbol_data)))" by code_simp
  from screened_levels_protected [OF t this refl] t show ?thesis by blast
qed

text \<open>The same for every candidate of a whole screen, when the provider's prices are machine numbers.\<close>

lemma validated_candles:
  "validate_candles cfg now s tf n raw = Inr r \<Longrightarrow> cvr_Candles r \<noteq> [] \<and> set (cvr_Candles r) \<subseteq> set raw"
  unfolding validate_candles_def ValidateCandleBatch_def stripped_def
  by (auto simp: Let_def split_beta dest: in_set_butlastD split: if_splits option.splits)

lemma required_candles_sub:
  "required_candles cfg md now s tf n a b = Inr cs \<Longrightarrow>
    \<exists>raw. sm_GetCandles md s tf (closedCandleRawLimit n) = Inr raw \<and> cs \<noteq> [] \<and> set cs \<subseteq> set raw"
  by (auto simp: required_candles_def wrap_text_def dest: validated_candles split: sum.splits)

lemma symbol_data_close:
  assumes "symbol_data_of cfg md now s = Inr sd"
    and "\<And>s tf n cs k. sm_GetCandles md s tf n = Inr cs \<Longrightarrow> k \<in> set cs \<Longrightarrow> is_f64 (c_Close k)"
  shows "is_f64 (c_Close (last (sd_Setup sd)))"
  using assms(1)
  by (auto simp: symbol_data_of_def Let_def dest!: required_candles_sub intro!: assms(2))

lemma screen_levels:
  assumes "\<And>s tf n cs k. sm_GetCandles md s tf n = Inr cs \<Longrightarrow> k \<in> set cs \<Longrightarrow> is_f64 (c_Close k)"
    and "c \<in> set (sn_Candidates (screen_of cfg md env cid symbols) @ sn_NonEligible (screen_of cfg md env cid symbols))"
  shows "levels_ordered (t_Side c) (t_ProposedEntry c) (t_ProposedStopLoss c) (t_ProposedTakeProfit c)
    \<and> \<not> t_RR c < minimum_rr cfg"
proof -
  obtain cs r where f: "foldl (screen_symbol cfg md env cid) ([], no_screen) symbols = (cs, r)" by fastforce
  from assms(2) have "c \<in> set cs" by (auto simp: screen_of_def f Let_def)
  then obtain u where "screened cfg md env cid u = Some c" using screen_fold [OF f] by auto
  then obtain tc sr rg where "evaluateSymbol cfg md env cid u = Inr (c, tc, sr, rg)"
    by (auto simp: screened_def split: sum.splits)
  then show ?thesis
  proof (rule evaluate_Inr)
    fix sd btc
    assume sd: "symbol_data_of cfg md (se_now env) (si_Symbol u) = Inr sd"
      and ch: "choose_setup (trend_setup cfg env u sd rg) (breakout_setup cfg env u sd rg) = Some tc"
      and c: "c = screened_candidate cfg md cid (si_Symbol u) sd rg tc sr"
    show ?thesis by (rule screened_levels [OF ch symbol_data_close [OF sd assms(1)] c])
  qed
qed

section \<open>Contexts\<close>

lemma sanitizeFloat_finite [simp]: "\<not> not_finite (sanitizeFloat v)"
  by (simp add: sanitizeFloat_def not_finite_def isNaN_def isInf_def)

lemma sanitizeFloat_id: "\<not> not_finite v \<Longrightarrow> sanitizeFloat v = v"
  by (simp add: sanitizeFloat_def)

lemma not_finite_Fin: "\<not> not_finite (Fin q)"
  by (simp add: not_finite_def isNaN_def isInf_def)

lemma sanitized_floats: "filter not_finite (context_floats (sanitizeContext (context_of cfg md c atr ema price))) = []"
  by (auto simp: context_floats_def sanitizeContext_def context_of_def sanitize_fibonacci_def Let_def not_finite_Fin
      split: option.split list.split)

text \<open>
  C34: a context is built exactly when the figures it rests on are in order; marshalling it never fails, since
  every float in it is finite. The entry, the stop and the scores go out as they are; a target that is not above 0
  is let through, and one that is no number goes out as 0.
\<close>

theorem context_always_marshals:
  "(let price = screen_price md (t_Symbol c);
        hourly = (case sm_GetCandles md (t_Symbol c) ''1H'' 210 of Inl _ \<Rightarrow> [] | Inr cs \<Rightarrow> cs);
        broken = first_err [context_guard c,
          market_guard (ATR hourly (ic_ATRPeriod (sg_Indicators (uc_Strategy cfg)))) (EMA hourly 200) price]
    in case buildContext cfg md c of
         Inl e \<Rightarrow> broken = Some e
       | Inr ctx \<Rightarrow>
           broken = None \<and> list_all (\<lambda>v. \<not> not_finite v) (context_floats ctx) \<and> cx_Symbol ctx = t_Symbol c \<and>
           cx_ProposedEntry ctx = t_ProposedEntry c \<and> cx_StopLoss ctx = t_ProposedStopLoss c \<and>
           Fin 0 < cx_ProposedEntry ctx \<and> Fin 0 < cx_StopLoss ctx \<and> cx_SetupScore ctx = t_SetupScore c \<and>
           cx_ExpectedMove ctx = t_ExpectedMove c \<and> cx_TakeProfit ctx = sanitizeFloat (t_ProposedTakeProfit c) \<and>
           (cx_WatchlistContext ctx = None) = (\<not> wc_Enabled (uc_WatchlistContext cfg)))"
proof (cases "context_guard c")
  case (Some e)
  then show ?thesis by (simp add: buildContext_def Let_def)
next
  case None
  have g: "finite_positive (t_ProposedEntry c)" "finite_positive (t_ProposedStopLoss c)"
    "finite_nonnegative (t_SetupScore c)" "finite_nonnegative (t_ExpectedMove c)"
    using None by (auto simp: context_guard_def)
  define hourly where "hourly = (case sm_GetCandles md (t_Symbol c) ''1H'' 210 of Inl _ \<Rightarrow> [] | Inr cs \<Rightarrow> cs)"
  define m where "m = market_guard (ATR hourly (ic_ATRPeriod (sg_Indicators (uc_Strategy cfg)))) (EMA hourly 200)
    (screen_price md (t_Symbol c))"
  show ?thesis
  proof (cases m)
    case (Some e)
    then show ?thesis using None by (simp add: buildContext_def Let_def m_def hourly_def)
  next
    case m: None
    have s: "filter not_finite xs = [] \<Longrightarrow> list_all (\<lambda>v. \<not> not_finite v) xs" for xs
      by (simp add: filter_empty_conv list_all_iff)
    show ?thesis
      using None m g unfolding m_def hourly_def
      by (simp add: buildContext_def Let_def sanitized_floats s [OF sanitized_floats])
         (simp add: sanitizeContext_def context_of_def finite_positive_def finite_nonnegative_def sanitizeFloat_id)
  qed
qed

section \<open>Rejection codes\<close>

text \<open>The strategies' own rejection for a risk distance is not recognised as one.\<close>

lemma risk_distance_code: "rejectionCode ''invalid_risk_distance'' = ''OTHER_REJECT''"
  by code_simp

end
