(* ===== verification/DecisionLog.thy ===== *)
theory DecisionLog
  imports Screener HardBlocks Risk Safety LLMReview
begin

text \<open>
  The decision log of a cycle (\<open>internal/scheduler/decision_log.go\<close>): the fields that are collected for a candidate and
  the row they become. What \<open>json.Marshal\<close> writes for a value is given by a collection of functions, one per type
  that is marshalled; a value it refuses gives the empty text there, as the ignored error leaves it.
\<close>

section \<open>Fields\<close>

record safety_json =
  sj_Safe :: bool
  sj_FailedChecks :: "string list"
  sj_Reasons :: "string list"
  sj_RecommendedAction :: string

record log_candidate =
  lk_symbol :: string
  lk_side :: string
  lk_entry :: f64
  lk_sl :: f64
  lk_rr :: f64

record log_codec =
  lc_indicator :: "indicator_snapshot \<Rightarrow> string"
  lc_regime :: "regime_snapshot \<Rightarrow> string"
  lc_candidate :: "log_candidate \<Rightarrow> string"
  lc_score :: "score_result \<Rightarrow> string"
  lc_risk :: "risk_validation_result \<Rightarrow> string"
  lc_safety :: "safety_json \<Rightarrow> string"
  lc_plan :: "order_plan \<Rightarrow> string"
  lc_review :: "review_outcome \<Rightarrow> string"
  lc_names :: "string list \<Rightarrow> string"

record decision_log_fields =
  lf_DecisionID :: string
  lf_IndicatorSnapshot :: string
  lf_RegimeSnapshot :: string
  lf_StrategyAttempted :: string
  lf_Candidate :: string
  lf_ScoreBreakdown :: string
  lf_NearMisses :: string
  lf_RiskValidation :: string
  lf_SafetyValidation :: string
  lf_OrderPlan :: string
  lf_DataValidationResult :: string
  lf_BlocksTriggered :: string
  lf_ScoringVersion :: string
  lf_RiskConfigVersion :: string
  lf_LLMPromptVersion :: string
  lf_LLMReview :: string
  lf_LLMModeActive :: bool
  lf_LLMReviewAction :: string

definition no_fields :: decision_log_fields where
  "no_fields =
    \<lparr> lf_DecisionID = '''', lf_IndicatorSnapshot = '''', lf_RegimeSnapshot = '''', lf_StrategyAttempted = '''',
      lf_Candidate = '''', lf_ScoreBreakdown = '''', lf_NearMisses = '''', lf_RiskValidation = '''',
      lf_SafetyValidation = '''', lf_OrderPlan = '''', lf_DataValidationResult = '''', lf_BlocksTriggered = '''',
      lf_ScoringVersion = '''', lf_RiskConfigVersion = '''', lf_LLMPromptVersion = '''', lf_LLMReview = '''',
      lf_LLMModeActive = False, lf_LLMReviewAction = '''' \<rparr>"

definition WithIndicatorSnapshot :: "log_codec \<Rightarrow> indicator_snapshot \<Rightarrow> decision_log_fields \<Rightarrow> decision_log_fields" where
  "WithIndicatorSnapshot J s f = f\<lparr>lf_IndicatorSnapshot := lc_indicator J s\<rparr>"

definition WithRegimeSnapshot :: "log_codec \<Rightarrow> regime_snapshot \<Rightarrow> decision_log_fields \<Rightarrow> decision_log_fields" where
  "WithRegimeSnapshot J s f = f\<lparr>lf_RegimeSnapshot := lc_regime J s\<rparr>"

definition WithStrategyAttempted :: "log_codec \<Rightarrow> string list \<Rightarrow> decision_log_fields \<Rightarrow> decision_log_fields" where
  "WithStrategyAttempted J names f = f\<lparr>lf_StrategyAttempted := lc_names J names\<rparr>"

definition log_candidate_of :: "trade_candidate \<Rightarrow> log_candidate" where
  "log_candidate_of tc =
    \<lparr> lk_symbol = tc_Symbol tc, lk_side = side_text (tc_Side tc), lk_entry = tc_EntryPrice tc, lk_sl = tc_StopLoss tc,
      lk_rr = tc_RiskRewardRatio tc \<rparr>"

definition WithCandidate :: "log_codec \<Rightarrow> log_candidate \<Rightarrow> decision_log_fields \<Rightarrow> decision_log_fields" where
  "WithCandidate J c f = f\<lparr>lf_Candidate := lc_candidate J c\<rparr>"

definition WithScoreBreakdown :: "log_codec \<Rightarrow> score_result \<Rightarrow> decision_log_fields \<Rightarrow> decision_log_fields" where
  "WithScoreBreakdown J sr f = f\<lparr>lf_ScoreBreakdown := lc_score J sr\<rparr>"

definition WithNearMisses :: "log_codec \<Rightarrow> string list \<Rightarrow> decision_log_fields \<Rightarrow> decision_log_fields" where
  "WithNearMisses J names f = f\<lparr>lf_NearMisses := lc_names J names\<rparr>"

definition WithRiskValidation :: "log_codec \<Rightarrow> risk_validation_result \<Rightarrow> decision_log_fields \<Rightarrow> decision_log_fields" where
  "WithRiskValidation J rv f = f\<lparr>lf_RiskValidation := lc_risk J rv\<rparr>"

definition WithSafetyValidation ::
  "log_codec \<Rightarrow> bool \<Rightarrow> string list \<Rightarrow> string list \<Rightarrow> decision_log_fields \<Rightarrow> decision_log_fields" where
  "WithSafetyValidation J safe checks reasons f =
    f\<lparr>lf_SafetyValidation := lc_safety J
       \<lparr> sj_Safe = safe, sj_FailedChecks = checks, sj_Reasons = reasons, sj_RecommendedAction = '''' \<rparr>\<rparr>"

definition WithOrderPlan :: "log_codec \<Rightarrow> order_plan option \<Rightarrow> decision_log_fields \<Rightarrow> decision_log_fields" where
  "WithOrderPlan J plan f = (case plan of None \<Rightarrow> f | Some p \<Rightarrow> f\<lparr>lf_OrderPlan := lc_plan J p\<rparr>)"

definition WithDataValidationResult :: "string \<Rightarrow> decision_log_fields \<Rightarrow> decision_log_fields" where
  "WithDataValidationResult r f = f\<lparr>lf_DataValidationResult := r\<rparr>"

definition WithBlocksTriggered :: "log_codec \<Rightarrow> string list \<Rightarrow> decision_log_fields \<Rightarrow> decision_log_fields" where
  "WithBlocksTriggered J blocks f = f\<lparr>lf_BlocksTriggered := lc_names J blocks\<rparr>"

definition WithLLMReview :: "log_codec \<Rightarrow> review_outcome option \<Rightarrow> decision_log_fields \<Rightarrow> decision_log_fields" where
  "WithLLMReview J out f = (case out of None \<Rightarrow> f | Some x \<Rightarrow> f\<lparr>lf_LLMReview := lc_review J x\<rparr>)"

definition WithLLMModeActive :: "bool \<Rightarrow> decision_log_fields \<Rightarrow> decision_log_fields" where
  "WithLLMModeActive active f = f\<lparr>lf_LLMModeActive := active\<rparr>"

fun firstNonEmpty :: "string list \<Rightarrow> string" where
  "firstNonEmpty [] = ''''"
| "firstNonEmpty (v # vs) = (if v \<noteq> '''' then v else firstNonEmpty vs)"

section \<open>Rows\<close>

text \<open>The identifier is the next one that is drawn, unless the fields have one.\<close>

definition ToDomain ::
  "string \<Rightarrow> time \<Rightarrow> decision_log_fields \<Rightarrow> string \<Rightarrow> string \<Rightarrow> string \<Rightarrow> string \<Rightarrow> int \<Rightarrow> string \<Rightarrow> string \<Rightarrow> decision_log" where
  "ToDomain uuid now f cycleID mode symbol timeframe candleCount action reason =
    \<lparr> dl_DecisionID = (if lf_DecisionID f = '''' then uuid else lf_DecisionID f), dl_CycleID = cycleID,
      dl_Timestamp = now, dl_Mode = mode, dl_Symbol = symbol, dl_Timeframe = timeframe, dl_CandleCount = candleCount,
      dl_DataValidationResult = firstNonEmpty [lf_DataValidationResult f, ''passed''],
      dl_IndicatorSnapshot = lf_IndicatorSnapshot f, dl_RegimeSnapshot = lf_RegimeSnapshot f,
      dl_StrategyAttempted = lf_StrategyAttempted f, dl_Candidate = lf_Candidate f,
      dl_ScoreBreakdown = lf_ScoreBreakdown f, dl_NearMisses = lf_NearMisses f,
      dl_RiskValidation = lf_RiskValidation f, dl_SafetyValidation = lf_SafetyValidation f,
      dl_OrderPlan = lf_OrderPlan f, dl_LLMReview = lf_LLMReview f, dl_LLMModeActive = lf_LLMModeActive f,
      dl_FinalAction = action, dl_FinalActionReason = reason, dl_EngineVersion = ''v2.1'',
      dl_ScoringVersion = lf_ScoringVersion f, dl_RiskConfigVersion = lf_RiskConfigVersion f,
      dl_LLMPromptVersion = lf_LLMPromptVersion f \<rparr>"

end
