(* ===== verification/Scheduler.thy ===== *)
theory Scheduler
  imports DecisionLog Monitor Executor Simulator Shadow Routing LLMClient
begin

text \<open>
  The trading cycle (\<open>internal/scheduler/scheduler.go\<close>): the screen's candidates are capped, checked against the hard
  blocks, routed, put to the language model where that is asked for, validated by the risk engine, reviewed, ranked,
  validated again with their order plan, checked for execution safety and then logged, filled by the simulator or
  handed to the executor. The state is the scheduler with the components it owns and the database; a cycle reads the
  clock once. The answers of the market data may differ between the screen and each candidate.
\<close>

section \<open>State\<close>

text \<open>A repository that is not wired is a flag that is off.\<close>

record scheduler =
  sh_cfg :: user_config
  sh_mode :: string
  sh_scanner :: scanner
  sh_monitor :: position_monitor
  sh_safety :: safety_engine
  sh_llm :: openAI_client
  sh_reviewer :: "review_http_client reviewer option"
  sh_sim :: "store simulator option"
  sh_tracker :: bool
  sh_alerts :: "string list option"
  sh_llmRepo :: bool
  sh_riskRepo :: bool
  sh_usageRepo :: bool
  sh_cycleRepo :: bool
  sh_candidateRepo :: bool
  sh_logRepo :: bool
  sh_running :: bool
  sh_cycleSeq :: int
  sh_llmCallsToday :: int
  sh_llmCallsDate :: "time option"
  sh_lastDailyResetDay :: "time option"
  sh_staleness :: staleness_tracker
  sh_consecutiveLosses :: int
  sh_cooldownUntil :: "time option"
  sh_slCooldown :: "time gomap"
  sh_uuids :: nat

record cycle_result =
  cr_CycleID :: string
  cr_StartedAt :: time
  cr_EndedAt :: time
  cr_Candidates :: int
  cr_LLMCalls :: int
  cr_Executions :: int
  cr_Skips :: "(string \<times> string) list"
  cr_ReasonCodes :: "string list"
  cr_RejectedPreLLM :: int
  cr_LLMSkippedHighScore :: int
  cr_LLMVetoCalled :: int
  cr_LLMApprove :: int
  cr_LLMReject :: int
  cr_LLMReduceSize :: int
  cr_RiskRejected :: int
  cr_SafetyRejected :: int

text \<open>What a cycle takes from outside. The provider as the i-th candidate sees it is \<open>ce_at i\<close>.\<close>

record cycle_env =
  ce_screen :: screen_env
  ce_stamp :: string
  ce_localDay :: time
  ce_md :: screener_md
  ce_at :: "nat \<Rightarrow> screener_md"
  ce_monitor :: md_provider
  ce_feed :: price_feed
  ce_instruments :: http_reply
  ce_tickers :: http_reply
  ce_getenv :: "string \<Rightarrow> string"
  ce_veto :: "string \<Rightarrow> chat_transport"
  ce_review :: "string \<Rightarrow> chat_transport"
  ce_uuid :: "nat \<Rightarrow> string"
  ce_json :: log_codec

record cycle_state =
  cs_sched :: scheduler
  cs_store :: store
  cs_result :: cycle_result

abbreviation ce_now :: "cycle_env \<Rightarrow> time" where
  "ce_now env \<equiv> se_now (ce_screen env)"

definition NewScheduler :: "user_config \<Rightarrow> scanner \<Rightarrow> openAI_client \<Rightarrow> safety_engine \<Rightarrow> position_monitor \<Rightarrow> scheduler" where
  "NewScheduler cfg sc client safety m =
    \<lparr> sh_cfg = cfg, sh_mode = '''', sh_scanner = sc, sh_monitor = m, sh_safety = safety, sh_llm = client,
      sh_reviewer = None, sh_sim = None, sh_tracker = False, sh_alerts = None, sh_llmRepo = False, sh_riskRepo = False,
      sh_usageRepo = False, sh_cycleRepo = False, sh_candidateRepo = False, sh_logRepo = False, sh_running = False,
      sh_cycleSeq = 0, sh_llmCallsToday = 0, sh_llmCallsDate = None, sh_lastDailyResetDay = None,
      sh_staleness = NewStalenessTracker
        \<lparr> sl_WarnCycles = bs_WarnCycles (mr_Btc5mStaleness (uc_MarketRegime cfg)),
          sl_CriticalCycles = bs_CriticalCycles (mr_Btc5mStaleness (uc_MarketRegime cfg)) \<rparr>,
      sh_consecutiveLosses = 0, sh_cooldownUntil = None, sh_slCooldown = [], sh_uuids = 0 \<rparr>"

definition SetMode :: "string \<Rightarrow> scheduler \<Rightarrow> scheduler" where
  "SetMode mode s = s\<lparr>sh_mode := mode\<rparr>"

text \<open>Wiring: what is not set stays off.\<close>

definition sched_SetAlertService :: "scheduler \<Rightarrow> scheduler" where
  "sched_SetAlertService s = s\<lparr>sh_alerts := Some (case sh_alerts s of None \<Rightarrow> [] | Some xs \<Rightarrow> xs)\<rparr>"

definition SetLLMDecisionRepo :: "bool \<Rightarrow> scheduler \<Rightarrow> scheduler" where
  "SetLLMDecisionRepo wired s = s\<lparr>sh_llmRepo := wired\<rparr>"

definition SetLLMReviewer :: "review_http_client reviewer option \<Rightarrow> scheduler \<Rightarrow> scheduler" where
  "SetLLMReviewer r s = s\<lparr>sh_reviewer := r\<rparr>"

definition SetRiskDecisionRepo :: "bool \<Rightarrow> scheduler \<Rightarrow> scheduler" where
  "SetRiskDecisionRepo wired s = s\<lparr>sh_riskRepo := wired\<rparr>"

definition SetLLMUsageRepo :: "bool \<Rightarrow> scheduler \<Rightarrow> scheduler" where
  "SetLLMUsageRepo wired s = s\<lparr>sh_usageRepo := wired\<rparr>"

definition SetCycleRepo :: "bool \<Rightarrow> scheduler \<Rightarrow> scheduler" where
  "SetCycleRepo wired s = s\<lparr>sh_cycleRepo := wired\<rparr>"

definition SetCandidateRepo :: "bool \<Rightarrow> scheduler \<Rightarrow> scheduler" where
  "SetCandidateRepo wired s = s\<lparr>sh_candidateRepo := wired\<rparr>"

definition SetDecisionLogRepo :: "bool \<Rightarrow> scheduler \<Rightarrow> scheduler" where
  "SetDecisionLogRepo wired s = s\<lparr>sh_logRepo := wired\<rparr>"

definition SetPaperSimulator :: "store simulator option \<Rightarrow> scheduler \<Rightarrow> scheduler" where
  "SetPaperSimulator m s = s\<lparr>sh_sim := m\<rparr>"

definition SetCounterfactualTracker :: "bool \<Rightarrow> scheduler \<Rightarrow> scheduler" where
  "SetCounterfactualTracker wired s = s\<lparr>sh_tracker := wired\<rparr>"

definition IsPaper :: "string \<Rightarrow> bool" where
  "IsPaper mode \<longleftrightarrow> mode = ModePaper"

definition IsShadow :: "string \<Rightarrow> bool" where
  "IsShadow mode \<longleftrightarrow> mode = ModeShadow"

definition effectiveLeverage :: "user_config \<Rightarrow> f64" where
  "effectiveLeverage cfg =
    default_f64 (default_f64 (default_f64 (Fin 3) (pc_DefaultLeverage (bk_Paper (uc_Broker cfg))))
      (pr_MaxLeverage (uc_PortfolioRisk cfg))) (sz_MaxLeverage (uc_Sizing cfg))"

section \<open>The result of a cycle\<close>

definition new_result :: "string \<Rightarrow> time \<Rightarrow> cycle_result" where
  "new_result cycleID now =
    \<lparr> cr_CycleID = cycleID, cr_StartedAt = now, cr_EndedAt = zero_time, cr_Candidates = 0, cr_LLMCalls = 0,
      cr_Executions = 0, cr_Skips = [], cr_ReasonCodes = [], cr_RejectedPreLLM = 0, cr_LLMSkippedHighScore = 0,
      cr_LLMVetoCalled = 0, cr_LLMApprove = 0, cr_LLMReject = 0, cr_LLMReduceSize = 0, cr_RiskRejected = 0,
      cr_SafetyRejected = 0 \<rparr>"

definition with_result :: "(cycle_result \<Rightarrow> cycle_result) \<Rightarrow> cycle_state \<Rightarrow> cycle_state" where
  "with_result f st = st\<lparr>cs_result := f (cs_result st)\<rparr>"

definition skip :: "string \<Rightarrow> string \<Rightarrow> cycle_state \<Rightarrow> cycle_state" where
  "skip symbol reason = with_result (\<lambda>r. r\<lparr>cr_Skips := cr_Skips r @ [(symbol, reason)]\<rparr>)"

definition add_codes :: "string list \<Rightarrow> cycle_state \<Rightarrow> cycle_state" where
  "add_codes codes = with_result (\<lambda>r. r\<lparr>cr_ReasonCodes := cr_ReasonCodes r @ codes\<rparr>)"

definition end_cycle :: "time \<Rightarrow> cycle_state \<Rightarrow> cycle_state" where
  "end_cycle now = with_result (\<lambda>r. r\<lparr>cr_EndedAt := now\<rparr>)"

definition with_sched :: "(scheduler \<Rightarrow> scheduler) \<Rightarrow> cycle_state \<Rightarrow> cycle_state" where
  "with_sched f st = st\<lparr>cs_sched := f (cs_sched st)\<rparr>"

text \<open>A write to the database whose error is only logged.\<close>

definition write_if :: "bool \<Rightarrow> 'a io \<Rightarrow> cycle_state \<Rightarrow> cycle_state" where
  "write_if wired w st = (if wired then st\<lparr>cs_store := fst (w (cs_store st))\<rparr> else st)"

section \<open>Persistence\<close>

definition insertCycleRunning :: "string \<Rightarrow> time \<Rightarrow> cycle_state \<Rightarrow> cycle_state" where
  "insertCycleRunning cycleID startedAt st =
    write_if (sh_cycleRepo (cs_sched st))
      (cycle_Insert \<lparr> cy_ID = 0, cy_CycleID = cycleID, cy_StartedAt = startedAt, cy_EndedAt = None,
         cy_Status = ''running'', cy_ReasonCodes = [] \<rparr>) st"

definition containsAny :: "string list \<Rightarrow> string list \<Rightarrow> bool" where
  "containsAny haystack needles \<longleftrightarrow> list_ex (\<lambda>h. List.member needles h) haystack"

definition final_status :: "bool \<Rightarrow> string list \<Rightarrow> string" where
  "final_status failed codes =
    (if failed then ''failed'' else if containsAny codes [''BOT_HALTED'', ''NO_CANDIDATE''] then ''skipped''
     else ''completed'')"

text \<open>The row is updated, and inserted when the update reports an error.\<close>

definition updateCycleFinal :: "bool \<Rightarrow> cycle_state \<Rightarrow> cycle_state" where
  "updateCycleFinal failed st =
    (let r = cs_result st;
         row = \<lparr> cy_ID = 0, cy_CycleID = cr_CycleID r, cy_StartedAt = cr_StartedAt r,
                 cy_EndedAt = (if IsZero (cr_EndedAt r) then None else Some (cr_EndedAt r)),
                 cy_Status = final_status failed (cr_ReasonCodes r), cy_ReasonCodes = cr_ReasonCodes r \<rparr>
     in write_if (sh_cycleRepo (cs_sched st))
          (\<lambda>s. case cycle_Update row s of (s, Inl e) \<Rightarrow> cycle_Insert row s | (s, Inr _) \<Rightarrow> (s, Inr 0)) st)"

definition persist_candidate :: "store \<times> int gomap \<Rightarrow> candidate \<Rightarrow> store \<times> int gomap" where
  "persist_candidate acc c =
    (case candidate_Insert c (fst acc) of
       (s, Inl _) \<Rightarrow> (s, snd acc)
     | (s, Inr n) \<Rightarrow> (s, AList.update (t_Symbol c) n (snd acc)))"

definition persistCandidates :: "candidate list \<Rightarrow> candidate list \<Rightarrow> cycle_state \<Rightarrow> cycle_state \<times> int gomap" where
  "persistCandidates eligible nonEligible st =
    (if sh_candidateRepo (cs_sched st)
     then let (s, ids) = foldl persist_candidate (cs_store st, []) (eligible @ nonEligible) in (st\<lparr>cs_store := s\<rparr>, ids)
     else (st, []))"

definition saveLLMDecision :: "time \<Rightarrow> llm_decision \<Rightarrow> int \<Rightarrow> string \<Rightarrow> cycle_state \<Rightarrow> cycle_state" where
  "saveLLMDecision now d candidateID cycleID st =
    write_if (sh_llmRepo (cs_sched st)) (llm_decision_Insert now d candidateID cycleID) st"

definition saveRiskDecision :: "time \<Rightarrow> validate_output \<Rightarrow> int \<Rightarrow> string \<Rightarrow> cycle_state \<Rightarrow> cycle_state" where
  "saveRiskDecision now d candidateID cycleID st =
    write_if (sh_riskRepo (cs_sched st))
      (risk_decision_Insert now
         \<lparr> rd_ID = 0, rd_CandidateID = 0, rd_CycleID = '''', rd_Approved = vo_Approved d,
           rd_FinalPositionNotional = vo_FinalPositionNotional d, rd_RequiredMargin = vo_RequiredMargin d,
           rd_EstimatedLoss = vo_EstimatedLoss d, rd_ReasonCodes = vo_ReasonCodes d,
           rd_PortfolioRank = vo_PortfolioRank d, rd_PortfolioRejectReason = vo_PortfolioRejectReason d,
           rd_CreatedAt = zero_time \<rparr> candidateID cycleID) st"

text \<open>Identifiers are drawn one after the other.\<close>

definition draw_uuid :: "cycle_env \<Rightarrow> cycle_state \<Rightarrow> string \<times> cycle_state" where
  "draw_uuid env st =
    (ce_uuid env (sh_uuids (cs_sched st)), with_sched (\<lambda>s. s\<lparr>sh_uuids := sh_uuids s + 1\<rparr>) st)"

definition saveDecisionLog :: "decision_log \<Rightarrow> cycle_state \<Rightarrow> cycle_state" where
  "saveDecisionLog dl st = write_if (sh_logRepo (cs_sched st)) (decision_log_Insert dl) st"

definition trackCounterfactual :: "string \<Rightarrow> candidate \<Rightarrow> cycle_state \<Rightarrow> cycle_state" where
  "trackCounterfactual decisionID c st =
    write_if (sh_tracker (cs_sched st))
      (TrackCandidate (Some postgres_outcomes) decisionID (t_Symbol c) (t_Side c) (t_ProposedEntry c)
         (t_ProposedStopLoss c) [t_ProposedTakeProfit c]) st"

text \<open>A row of the decision log: what every decision writes, and what most of them track as well.\<close>

definition log_decision ::
  "cycle_env \<Rightarrow> decision_log_fields \<Rightarrow> candidate \<Rightarrow> string \<Rightarrow> int \<Rightarrow> string \<Rightarrow> string \<Rightarrow> cycle_state \<Rightarrow> string \<times> cycle_state" where
  "log_decision env f c timeframe n action reason st =
    (let (uuid, st) = draw_uuid env st;
         dl = ToDomain uuid (ce_now env) f (cr_CycleID (cs_result st)) (sh_mode (cs_sched st)) (t_Symbol c) timeframe
                n action reason
     in (dl_DecisionID dl, saveDecisionLog dl st))"

definition log_and_track ::
  "cycle_env \<Rightarrow> decision_log_fields \<Rightarrow> candidate \<Rightarrow> string \<Rightarrow> int \<Rightarrow> string \<Rightarrow> string \<Rightarrow> cycle_state \<Rightarrow> cycle_state" where
  "log_and_track env f c timeframe n action reason st =
    (let (decisionID, st) = log_decision env f c timeframe n action reason st in trackCounterfactual decisionID c st)"

definition with_score :: "log_codec \<Rightarrow> screen_result \<Rightarrow> string \<Rightarrow> decision_log_fields \<Rightarrow> decision_log_fields" where
  "with_score J sr symbol f =
    (case map_of (sn_ScoreResults sr) symbol of
       None \<Rightarrow> f
     | Some s \<Rightarrow> (WithScoreBreakdown J s f)\<lparr>lf_ScoringVersion := sr_ScoringVersion s\<rparr>)"

text \<open>The fields of a candidate that did not get past the screen or the hard blocks: scores go with a setup only.\<close>

definition setup_fields :: "log_codec \<Rightarrow> screen_result \<Rightarrow> string \<Rightarrow> decision_log_fields \<Rightarrow> decision_log_fields" where
  "setup_fields J sr symbol f =
    (case map_of (sn_TradeCandidates sr) symbol of
       None \<Rightarrow> f
     | Some tc \<Rightarrow> with_score J sr symbol (WithCandidate J (log_candidate_of tc) f))"

definition buildBaseFields :: "log_codec \<Rightarrow> screen_result \<Rightarrow> candidate \<Rightarrow> decision_log_fields" where
  "buildBaseFields J sr c =
    (let symbol = t_Symbol c; f = WithDataValidationResult ''passed'' no_fields;
         f = (case map_of (sn_TradeCandidates sr) symbol of
                None \<Rightarrow> f | Some tc \<Rightarrow> WithCandidate J (log_candidate_of tc) f);
         f = with_score J sr symbol f
     in case map_of (sn_RegimeSnapshots sr) symbol of None \<Rightarrow> f | Some rg \<Rightarrow> WithRegimeSnapshot J rg f)"

definition buildTradeCandidateFromDomain :: "candidate \<Rightarrow> log_candidate" where
  "buildTradeCandidateFromDomain c =
    \<lparr> lk_symbol = t_Symbol c, lk_side = side_text (t_Side c), lk_entry = t_ProposedEntry c,
      lk_sl = t_ProposedStopLoss c, lk_rr = Fin 0 \<rparr>"

text \<open>\<open>%.2f\<close>: the exact value to two decimals, ties to even.\<close>

definition show_fixed2 :: "f64 \<Rightarrow> string" where
  "show_fixed2 x =
    (case x of
       NaN \<Rightarrow> ''NaN'' | PInf \<Rightarrow> ''+Inf'' | NInf \<Rightarrow> ''-Inf'' | NZero \<Rightarrow> ''-0.00''
     | Fin q \<Rightarrow>
         let n = nat (rne (\<bar>q\<bar> * 100))
         in (if q < 0 then ''-'' else []) @ show_nat (n div 100) @ ''.'' @ [digit (n div 10 mod 10), digit (n mod 10)])"

definition marshalLLMDecision :: "llm_decision \<Rightarrow> string" where
  "marshalLLMDecision d =
    ''LLM_BLOCK reason=['' @ join '' '' (ld_ReasonCodes d) @ ''] confidence='' @ show_fixed2 (ld_Confidence d)"

definition joinReasons :: "string list \<Rightarrow> string" where
  "joinReasons reasons = join ''; '' reasons"

fun reason_text :: "HardBlocks.reason \<Rightarrow> string" where
  "reason_text (HardBlocks.reason.Reason s xs ns) = s"

section \<open>Days, halts and call counts\<close>

definition isHalted :: "scheduler \<Rightarrow> bool" where
  "isHalted s = monitor_IsHalted (sh_monitor s)"

definition utc_day :: "time \<Rightarrow> time" where
  "utc_day now = now div (86400 * 10 ^ 9)"

text \<open>Resetting the reviewer's costs goes through its client, whose transport plays no part.\<close>

definition checkDailyReset :: "cycle_env \<Rightarrow> scheduler \<Rightarrow> scheduler" where
  "checkDailyReset env s =
    (let today = utc_day (ce_now env); client = http_client (ce_getenv env) (ce_review env '''')
     in if sh_lastDailyResetDay s = Some today then s
        else s\<lparr>sh_lastDailyResetDay := Some today, sh_monitor := ResetDaily (ce_now env) (sh_monitor s),
               sh_reviewer := map_option (\<lambda>r. if IsEnabled r then reviewer_ResetDailyCost client r else r)
                                (sh_reviewer s)\<rparr>)"

definition on_local_day :: "time \<Rightarrow> scheduler \<Rightarrow> scheduler" where
  "on_local_day today s =
    (if sh_llmCallsDate s = Some today then s else s\<lparr>sh_llmCallsDate := Some today, sh_llmCallsToday := 0\<rparr>)"

definition set_cap :: "int \<times> string \<Rightarrow> int \<times> string \<Rightarrow> int \<times> string" where
  "set_cap eff c = (if 0 < fst c \<and> (fst eff = 0 \<or> fst c < fst eff) then c else eff)"

definition effective_cap :: "llm_routing_config \<Rightarrow> int \<Rightarrow> int \<times> string" where
  "effective_cap cfg callsToday =
    (let eff = set_cap (0, ''LLM_HARD_CAP'') (lr_HardCapCandidatesPerCycle cfg, ''LLM_HARD_CAP'');
         eff = set_cap eff (lr_MaxCallsPerCycle cfg, ''LLM_CALL_CAP_PER_CYCLE'')
     in if 0 < lr_MaxCallsPerDay cfg
        then set_cap eff (lr_MaxCallsPerDay cfg - callsToday, ''LLM_CALL_CAP_PER_DAY'') else eff)"

definition score_above :: "candidate \<Rightarrow> candidate \<Rightarrow> bool" where
  "score_above a b \<longleftrightarrow> cand_CandidateScore b < cand_CandidateScore a"

definition applyLLMCaps ::
  "time \<Rightarrow> candidate list \<Rightarrow> scheduler \<Rightarrow> scheduler \<times> candidate list \<times> (string \<times> string) list" where
  "applyLLMCaps today cs s =
    (if cs = [] then (s, cs, [])
     else
       let s = on_local_day today s; cfg = lr_MaxCallsPerDay (uc_LLMRouting (sh_cfg s));
           (eff, reason) = effective_cap (uc_LLMRouting (sh_cfg s)) (sh_llmCallsToday s);
           sorted = exchange_sort score_above cs
       in if 0 < cfg \<and> cfg \<le> sh_llmCallsToday s
          then (s, [], map (\<lambda>c. (t_Symbol c, ''LLM_CALL_CAP_PER_DAY'')) cs)
          else if eff \<le> 0 then (s, cs, [])
          else (s, take (nat eff) sorted, map (\<lambda>c. (t_Symbol c, reason)) (drop (nat eff) sorted)))"

definition loadLLMUsage :: "time \<Rightarrow> cycle_state \<Rightarrow> cycle_state" where
  "loadLLMUsage today st =
    (if \<not> sh_usageRepo (cs_sched st) then with_sched (on_local_day today) st
     else
       (case usage_Get today (cs_store st) of
          (s, Inl _) \<Rightarrow> with_sched (on_local_day today) (st\<lparr>cs_store := s\<rparr>)
        | (s, Inr usage) \<Rightarrow>
            with_sched (\<lambda>x. x\<lparr>sh_llmCallsDate := Some today,
                sh_llmCallsToday := (case usage of None \<Rightarrow> 0 | Some u \<Rightarrow> lu_Calls u)\<rparr>) (st\<lparr>cs_store := s\<rparr>)))"

definition trackLLMCall :: "cycle_env \<Rightarrow> cycle_state \<Rightarrow> cycle_state" where
  "trackLLMCall env st =
    (let today = ce_localDay env;
         st = with_sched (\<lambda>s. let s = on_local_day today s in s\<lparr>sh_llmCallsToday := sh_llmCallsToday s + 1\<rparr>) st
     in write_if (sh_usageRepo (cs_sched st))
          (usage_IncrementCalls (ce_now env) today 1 (oai_DailyCost (sh_llm (cs_sched st)))) st)"

section \<open>After trades\<close>

definition update_cooldown :: "time \<Rightarrow> scheduler \<Rightarrow> scheduler" where
  "update_cooldown now s =
    (let cfg = pr_CooldownAfterLosses (uc_PortfolioRisk (sh_cfg s));
         s = (if cd_Enabled cfg \<and> cd_ConsecutiveLosses cfg \<le> sh_consecutiveLosses s \<and> sh_cooldownUntil s = None
              then s\<lparr>sh_cooldownUntil := Some (now + minutes_of (cd_CooldownMinutes cfg))\<rparr> else s)
     in if sh_consecutiveLosses s = 0 then s\<lparr>sh_cooldownUntil := None\<rparr> else s)"

definition sl_cooldown_step :: "time \<Rightarrow> duration \<Rightarrow> time gomap \<Rightarrow> paper_trade \<Rightarrow> time gomap" where
  "sl_cooldown_step now cooldown m t =
    (if tr_ExitReason t \<noteq> ''sl'' \<or> tr_ClosedAt t = None then m
     else
       (case map_of m (tr_Symbol t) of
          None \<Rightarrow> AList.update (tr_Symbol t) (now + cooldown) m
        | Some until \<Rightarrow> if until < now then AList.update (tr_Symbol t) (now + cooldown) m else m))"

definition updatePostTradeState :: "time \<Rightarrow> cycle_state \<Rightarrow> cycle_state" where
  "updatePostTradeState now st =
    (case sh_sim (cs_sched st) of
       None \<Rightarrow> st
     | Some m \<Rightarrow>
         let st = with_sched (\<lambda>s. update_cooldown now (s\<lparr>sh_consecutiveLosses := sim_consecutiveLosses m\<rparr>)) st;
             cfg = pr_PerSymbolSLCooldown (uc_PortfolioRisk (sh_cfg (cs_sched st)));
             expire = with_sched (\<lambda>s. s\<lparr>sh_slCooldown := filter (\<lambda>kv. now < snd kv) (sh_slCooldown s)\<rparr>)
         in if \<not> ps_Enabled cfg then expire st
            else
              (case GetRecentClosedTrades (now - 3600 * 10 ^ 9) m (cs_store st) of
                 (s, Inl _) \<Rightarrow> st\<lparr>cs_store := s\<rparr>
               | (s, Inr trades) \<Rightarrow>
                   expire (with_sched (\<lambda>x. x\<lparr>sh_slCooldown :=
                       foldl (sl_cooldown_step now (minutes_of (ps_CooldownMinutes cfg))) (sh_slCooldown x) trades\<rparr>)
                     (st\<lparr>cs_store := s\<rparr>))))"
section \<open>Before the language model\<close>

definition inject_staleness :: "staleness_tracker \<Rightarrow> regime_snapshot \<Rightarrow> regime_snapshot" where
  "inject_staleness t rg =
    (let rg = InjectWarning t rg
     in if 0 < st_counter t
        then rg\<lparr>rg_BTCDataStale := True,
                rg_Warnings := (if List.member (rg_Warnings rg) ''BTC_DATA_STALE'' then rg_Warnings rg
                                else rg_Warnings rg @ [''BTC_DATA_STALE''])\<rparr>
        else rg)"

definition log_non_eligible :: "cycle_env \<Rightarrow> screen_result \<Rightarrow> cycle_state \<Rightarrow> candidate \<Rightarrow> cycle_state" where
  "log_non_eligible env sr st c =
    (let J = ce_json env;
         f = setup_fields J sr (t_Symbol c)
               (WithCandidate J (buildTradeCandidateFromDomain c) (WithDataValidationResult ''passed'' no_fields))
     in snd (log_decision env f c (setup_timeframe (sh_cfg (cs_sched st))) 0 ''REJECTED_SCORE''
          ''candidate below LLM eligibility threshold'' st))"

definition no_candidate_reasons :: "screen_result \<Rightarrow> string list" where
  "no_candidate_reasons sr =
    ''NO_CANDIDATE'' # foldl (\<lambda>acc c. if List.member acc c then acc else acc @ [c]) [] (map sj_Code (sn_StrategyRejections sr))"

definition computeBTC5mReturn :: "screener_md \<Rightarrow> scheduler \<Rightarrow> scheduler \<times> f64" where
  "computeBTC5mReturn md s =
    (let cs = (case sm_GetCandles md ''BTCUSDT'' ''5m'' 2 of Inl _ \<Rightarrow> [] | Inr cs \<Rightarrow> cs); n = length cs
     in if n < 2 then (s\<lparr>sh_staleness := fst (RecordFailure (sh_staleness s))\<rparr>, Fin 0)
        else
          let s = s\<lparr>sh_staleness := RecordSuccess (sh_staleness s)\<rparr>; prev = c_Close (cs ! (n - 2)); lst = c_Close (last cs)
          in if prev \<le> Fin 0 then (s, Fin 0) else (s, (lst - prev) / prev * Fin 100))"

definition scheduler_timeframe :: "string \<Rightarrow> duration option" where
  "scheduler_timeframe tf =
    map_of [(''1m'', minutes 1), (''5m'', minutes 5), (''15m'', minutes 15), (''30m'', minutes 30), (''1H'', minutes 60),
            (''4H'', minutes 240), (''1d'', minutes 1440)] tf"

definition latestCandleCloseTime :: "candle list \<Rightarrow> string \<Rightarrow> time" where
  "latestCandleCloseTime cs timeframe =
    (case scheduler_timeframe timeframe of
       None \<Rightarrow> zero_time
     | Some interval \<Rightarrow> if cs = [] then zero_time else unix_milli (c_OpenTime (last cs)) + interval)"

definition toPositionState :: "position list \<Rightarrow> position_key list" where
  "toPositionState ps = map (\<lambda>p. \<lparr> pk_Symbol = p_Symbol p, pk_Side = p_Side p, pk_Size = p_Size p \<rparr>) ps"

definition zero_order_book :: order_book_summary where
  "zero_order_book =
    \<lparr> ob_Symbol = '''', ob_BestBid = Fin 0, ob_BestAsk = Fin 0, ob_SpreadBps = Fin 0, ob_BidDepth = Fin 0,
      ob_AskDepth = Fin 0, ob_DepthToPositionSizeRatio = Fin 0, ob_EstimatedSlippageBps = Fin 0,
      ob_LastUpdate = zero_time, ob_Stale = False \<rparr>"

text \<open>A candidate on its way through the cycle.\<close>

record cycle_candidate =
  cc_cand :: candidate
  cc_route :: route_result
  cc_ob :: order_book_summary
  cc_obErr :: bool
  cc_price :: f64
  cc_priceErr :: bool
  cc_candles :: "candle list"
  cc_setupTF :: string
  cc_decision :: llm_decision
  cc_llmErr :: bool

definition hard_block_input ::
  "user_config \<Rightarrow> bool \<Rightarrow> time gomap \<Rightarrow> monitor_status \<Rightarrow> string \<Rightarrow> order_book_summary \<Rightarrow> f64 \<Rightarrow> candle list \<Rightarrow> f64
    \<Rightarrow> block_input" where
  "hard_block_input cfg halted slCooldown ms symbol ob price cs btcReturn =
    (let hb = uc_HardBlocks cfg; tf = setup_timeframe cfg; local = toPositionState (ms_OpenPositions ms);
         stamp = (if IsZero (ob_LastUpdate ob) then latestCandleCloseTime cs tf else ob_LastUpdate ob)
     in \<lparr> bi_Symbol = symbol, bi_Price = price,
          bi_Snapshot = \<lparr> ds_Price = price, ds_SpreadPct = ob_SpreadBps ob / Fin 100, ds_FundingRatePct = Fin 0,
            ds_LastDataAt = stamp, ds_Numbers = [] \<rparr>,
          bi_Candles = cs, bi_MinRequiredCandles = MinCandlesOrDefault (uc_DataValidation cfg), bi_OrderBook = ob,
          bi_MaxSpreadPct = MaxSpreadPctOrDefault hb, bi_FundingRatePct = Fin 0,
          bi_MaxFundingAbsPct = MaxFundingAbsPctOrDefault hb, bi_PendingOrders = ms_OpenOrders ms,
          bi_CurrentPositions = ms_OpenPositions ms, bi_TodayPnL = - a_DailyLoss (ms_AccountState ms),
          bi_DailyMaxLossPct = DailyMaxLossPctOrDefault hb, bi_Equity = a_Equity (ms_AccountState ms),
          bi_RecentTrades = [], bi_MaxConsecutiveLosses = MaxConsecutiveLossesOrDefault hb, bi_LastTradeTime = None,
          bi_Cooldown = \<lparr> tcd_Enabled = (0 < hb_CooldownAfterLossMin hb \<or> 0 < hb_CooldownAfterWinMin hb),
            tcd_AfterLoss = minutes_of (hb_CooldownAfterLossMin hb),
            tcd_AfterWin = minutes_of (hb_CooldownAfterWinMin hb), tcd_LastTradeWasLoss = False \<rparr>,
          bi_EmergencyStop = \<lparr> bes_Active = halted, bes_Reason = ''monitor halted'' \<rparr>,
          bi_BTC5mReturnPct = btcReturn, bi_BTCFlashCrash5mPct = BTCFlashCrash5mPctOrDefault hb,
          bi_LocalPositions = local, bi_ExchangePositions = local,
          bi_MaxDataAge = seconds_of (MaxDataAgeSecondsFor (uc_DataValidation cfg) tf),
          bi_PerSymbolSLCooldown = slCooldown \<rparr>)"

text \<open>The flags of a candidate that has a setup, a regime and both snapshots; the score is there with the setup.\<close>

definition candidate_flags :: "screen_result \<Rightarrow> string \<Rightarrow> ambiguity_flags" where
  "candidate_flags sr symbol =
    (case (map_of (sn_TradeCandidates sr) symbol, map_of (sn_RegimeSnapshots sr) symbol,
           map_of (sn_Snapshots15m sr) symbol, map_of (sn_Snapshots1h sr) symbol, map_of (sn_ScoreResults sr) symbol) of
       (Some tc, Some rg, Some s15, Some s1, Some score) \<Rightarrow> DetectAmbiguity s15 s1 rg score tc
     | _ \<Rightarrow> no_flags)"

definition candidate_route :: "user_config \<Rightarrow> screen_result \<Rightarrow> int \<Rightarrow> candidate \<Rightarrow> route_result" where
  "candidate_route cfg sr calls c =
    (let rg = map_of (sn_RegimeSnapshots sr) (t_Symbol c);
         flag = (\<lambda>p. case rg of None \<Rightarrow> False | Some r \<Rightarrow> p r)
     in RouteCandidate DefaultRoutingEngine (cand_CandidateScore c) (candidate_flags sr (t_Symbol c)) calls
          (lr_MaxCallsPerCycle (uc_LLMRouting cfg)) (flag rg_IsRanging) (flag rg_BTCDataStale))"

definition skip_decision :: "candidate \<Rightarrow> llm_decision" where
  "skip_decision c =
    no_decision\<lparr>ld_Decision := (if t_EntryType c = EntryTypeLimitRetest then ''ALLOW_LIMIT_RETEST'' else ''ALLOW_MARKET''),
      ld_Confidence := Fin 1, ld_SizeMultiplier := Fin 1, ld_ReasonCodes := [''HIGH_SCORE_SKIP_LLM''],
      ld_ValidationStatus := ''high_score_skip''\<rparr>"

definition needs_veto :: "cycle_candidate \<Rightarrow> bool" where
  "needs_veto x \<longleftrightarrow> rr_Route (cc_route x) = RouteLLMVeto"

text \<open>Where a candidate goes that is not blocked.\<close>

definition route_candidate ::
  "cycle_candidate \<Rightarrow> user_config \<Rightarrow> cycle_state \<times> cycle_candidate list \<Rightarrow> cycle_state \<times> cycle_candidate list" where
  "route_candidate x cfg acc =
    (let (st, items) = acc; c = cc_cand x; cap = lr_MaxCallsPerCycle (uc_LLMRouting cfg)
     in case rr_Route (cc_route x) of
          RouteRejectPreLLM \<Rightarrow>
            (skip (t_Symbol c) (''PRE_LLM_REJECTED:'' @ rr_Reason (cc_route x))
               (with_result (\<lambda>r. r\<lparr>cr_RejectedPreLLM := cr_RejectedPreLLM r + 1\<rparr>) st), items)
        | RouteSkipLLM \<Rightarrow>
            (with_result (\<lambda>r. r\<lparr>cr_LLMSkippedHighScore := cr_LLMSkippedHighScore r + 1\<rparr>) st,
             items @ [x\<lparr>cc_decision := skip_decision c\<rparr>])
        | RouteLLMVeto \<Rightarrow>
            if 0 < cap \<and> cap \<le> int (length (filter needs_veto items))
            then (skip (t_Symbol c) ''LLM_CALL_CAP_PER_CYCLE''
                    (with_result (\<lambda>r. r\<lparr>cr_RejectedPreLLM := cr_RejectedPreLLM r + 1\<rparr>) st), items)
            else (with_result (\<lambda>r. r\<lparr>cr_LLMVetoCalled := cr_LLMVetoCalled r + 1\<rparr>) st, items @ [x]))"

definition examine ::
  "cycle_env \<Rightarrow> screen_result \<Rightarrow> monitor_status \<Rightarrow> cycle_state \<times> cycle_candidate list \<Rightarrow> nat \<times> candidate
    \<Rightarrow> cycle_state \<times> cycle_candidate list" where
  "examine env sr ms acc ic =
    (let (st, items) = acc; (i, c) = ic; symbol = t_Symbol c; cfg = sh_cfg (cs_sched st); md = ce_at env i;
         tf = setup_timeframe cfg
     in if map_of (sn_LLMContexts sr) symbol = None then (skip symbol ''NO_CONTEXT'' st, items)
        else
          let book = sk_OrderBook md symbol (ComputeTargetNotional cfg) (side_text (t_Side c));
              ob = (case book of None \<Rightarrow> zero_order_book | Some b \<Rightarrow> b);
              price = sk_LatestPrice md symbol; p = (case price of None \<Rightarrow> Fin 0 | Some p \<Rightarrow> p);
              cs = (case sm_GetCandles md symbol tf (MinCandlesOrDefault (uc_DataValidation cfg)) of
                      Inl _ \<Rightarrow> [] | Inr cs \<Rightarrow> cs);
              (s, btcReturn) = computeBTC5mReturn md (cs_sched st); st = st\<lparr>cs_sched := s\<rparr>;
              block = EvaluateHardBlocks (se_ord (ce_screen env)) (ce_now env)
                        (hard_block_input cfg (isHalted s) (sh_slCooldown s) ms symbol ob p cs btcReturn)
          in if br_Blocked block
             then (log_and_track env
                     (setup_fields (ce_json env) sr symbol
                        (WithBlocksTriggered (ce_json env) (br_BlocksTriggered block)
                          (WithDataValidationResult ''blocks_triggered'' no_fields)))
                     c tf (int (length cs)) ''BLOCKED_HARD''
                     (case br_FirstBlockReason block of None \<Rightarrow> '''' | Some r \<Rightarrow> reason_text r)
                     (skip symbol ''HARD_BLOCK'' st), items)
             else route_candidate
                    \<lparr> cc_cand = c, cc_route = candidate_route cfg sr (cr_LLMCalls (cs_result st)) c, cc_ob = ob,
                      cc_obErr = (book = None), cc_price = p, cc_priceErr = (price = None), cc_candles = cs,
                      cc_setupTF = tf, cc_decision = no_decision, cc_llmErr = False \<rparr> cfg (st, items))"

section \<open>The language model\<close>

text \<open>The veto calls of a cycle, which the code makes at the same time, one after the other.\<close>

definition veto_call ::
  "cycle_env \<Rightarrow> cycle_state \<times> cycle_candidate list \<Rightarrow> cycle_candidate \<Rightarrow> cycle_state \<times> cycle_candidate list" where
  "veto_call env acc x =
    (let (st, items) = acc
     in if needs_veto x
        then (let (client, d, err) = VetoRequest (ce_getenv env) (ce_veto env (t_Symbol (cc_cand x))) (sh_llm (cs_sched st))
              in (with_sched (\<lambda>s. s\<lparr>sh_llm := client\<rparr>) st, items @ [x\<lparr>cc_decision := d, cc_llmErr := err\<rparr>]))
        else (st, items @ [x]))"
section \<open>The reviewer\<close>

fun entry_type_text :: "entry_type \<Rightarrow> string" where
  "entry_type_text EntryTypeMarket = ''MARKET''"
| "entry_type_text EntryTypeLimitRetest = ''LIMIT_RETEST''"
| "entry_type_text (OtherEntryType s) = s"

definition classifyBTCDTrend :: "regime_snapshot \<Rightarrow> string" where
  "classifyBTCDTrend rg =
    (case filter (\<lambda>f. f = ''BTCDominanceRisingFast'' \<or> f = ''BTCDominanceFalling'') (rg_BTCDFiltersTriggered rg) of
       [] \<Rightarrow> ''stable'' | f # _ \<Rightarrow> if f = ''BTCDominanceRisingFast'' then ''rising'' else ''falling'')"

definition review_input_of ::
  "user_config \<Rightarrow> screen_result \<Rightarrow> candidate \<Rightarrow> validate_output \<Rightarrow> string \<Rightarrow> review_input" where
  "review_input_of cfg sr c out timeframe =
    (let rg = map_of (sn_RegimeSnapshots sr) (t_Symbol c); score = map_of (sn_ScoreResults sr) (t_Symbol c)
     in \<lparr> rin_Symbol = t_Symbol c, rin_Side = side_text (t_Side c), rin_StrategyName = t_SetupType c,
          rin_Timeframe = timeframe, rin_EntryType = entry_type_text (t_EntryType c),
          rin_EntryPrice = t_ProposedEntry c, rin_StopLoss = t_ProposedStopLoss c,
          rin_TakeProfits = [\<lparr> rtp_Price = t_ProposedTakeProfit c, rtp_SizePct = Fin 100 \<rparr>], rin_RRRatio = t_RR c,
          rin_TAReasoning = JNull, rin_TotalScore = (case score of None \<Rightarrow> Fin 0 | Some s \<Rightarrow> sr_ScoreTotal s),
          rin_ScoreComponents = [], rin_ScoringVersion = (case score of None \<Rightarrow> '''' | Some s \<Rightarrow> sr_ScoringVersion s),
          rin_Trend15m = '''', rin_Trend1h = '''', rin_Trend4h = '''', rin_RSI14 = Fin 0, rin_RSIState = '''',
          rin_MACDHistogram = Fin 0, rin_MACDDirection = '''', rin_ATRPct = Fin 0, rin_VolumeRatio = Fin 0,
          rin_EMAAlignment = [], rin_BTCTrend1h = '''', rin_BTCTrend4h = '''',
          rin_BTCFiltersTrig = (case rg of None \<Rightarrow> [] | Some r \<Rightarrow> rg_BTCFiltersTriggered r),
          rin_BTCDTrend = (case rg of None \<Rightarrow> '''' | Some r \<Rightarrow> classifyBTCDTrend r),
          rin_BTCDAvailable = (case rg of None \<Rightarrow> False | Some r \<Rightarrow> rg_BTCDAvailable r),
          rin_RelativeStrength = (case rg of None \<Rightarrow> Fin 0 | Some r \<Rightarrow> rs_RS4H (rg_RelativeStrength r)),
          rin_RSClass = (case rg of None \<Rightarrow> '''' | Some r \<Rightarrow> rs_Classification (rg_RelativeStrength r)),
          rin_Qty = vo_FinalPositionNotional out / t_ProposedEntry c, rin_Leverage = effectiveLeverage cfg,
          rin_RiskAmountUSD = vo_EstimatedLoss out, rin_RiskPct = Fin (1 / 2),
          rin_ModifiersApplied = vo_ReasonCodes out \<rparr>)"

text \<open>A review draws the identifiers of its request and of its decision.\<close>

definition runLLMReview ::
  "cycle_env \<Rightarrow> screen_result \<Rightarrow> candidate \<Rightarrow> validate_output \<Rightarrow> string \<Rightarrow> cycle_state \<Rightarrow> cycle_state \<times> review_outcome option" where
  "runLLMReview env sr c out timeframe st =
    (case sh_reviewer (cs_sched st) of
       None \<Rightarrow> (st, None)
     | Some r \<Rightarrow>
         if \<not> IsEnabled r then (st, None)
         else
           let (requestID, st) = draw_uuid env st; (decisionID, st) = draw_uuid env st;
               (r, verdict) = Review (http_client (ce_getenv env) (ce_review env (t_Symbol c))) requestID decisionID
                 (ce_now env) (review_input_of (sh_cfg (cs_sched st)) sr c out timeframe) r
           in (with_sched (\<lambda>s. s\<lparr>sh_reviewer := Some r\<rparr>) st, Some verdict))"

section \<open>After the language model\<close>

record risk_candidate =
  ri_cand :: candidate
  ri_output :: validate_output
  ri_id :: int
  ri_price :: f64
  ri_ob :: order_book_summary

definition running_bot :: bot_state where
  "running_bot =
    \<lparr> bot_Mode = '''', bot_Running = True, bot_LastCycleAt = None, bot_DailyResetAt = None, bot_Halted = False,
      bot_HaltReason = '''' \<rparr>"

definition no_symbol_info :: symbol_info where
  "no_symbol_info =
    \<lparr> si_Symbol = '''', si_Status = '''', si_QuoteAsset = '''', si_BaseAsset = '''', si_MinNotional = Fin 0,
      si_TickSize = Fin 0, si_LotSize = Fin 0, si_MaxLeverage = Fin 0 \<rparr>"

definition cycle_portfolio :: "scheduler \<Rightarrow> monitor_status \<Rightarrow> int \<Rightarrow> portfolio_state" where
  "cycle_portfolio s ms executions =
    \<lparr> ps_OpenPositions = ms_OpenPositions ms, ps_OpenOrders = ms_OpenOrders ms, ps_NewPositionsThisCycle = executions,
      ps_DailyLoss = Fin 0, ps_ConsecutiveLosses = sh_consecutiveLosses s, ps_CooldownUntil = sh_cooldownUntil s,
      ps_PerSymbolSLCooldown = sh_slCooldown s \<rparr>"

definition risk_input_of :: "scheduler \<Rightarrow> monitor_status \<Rightarrow> int \<Rightarrow> cycle_candidate \<Rightarrow> validate_input" where
  "risk_input_of s ms executions x =
    (let c = cc_cand x; ob = cc_ob x
     in \<lparr> vi_ProposedTrade = proposed_trade.truncate c, vi_SymbolInfo = no_symbol_info, vi_LLMDecision = cc_decision x,
          vi_AccountState = ms_AccountState ms,
          vi_MarketState = \<lparr> rm_Symbol = t_Symbol c, rm_Price = cc_price x, rm_SpreadBps = ob_SpreadBps ob,
            rm_SlippageBps = ob_EstimatedSlippageBps ob, rm_DepthRatio = ob_DepthToPositionSizeRatio ob,
            rm_LastUpdate = ob_LastUpdate ob, rm_Stale = ob_Stale ob \<rparr>,
          vi_Portfolio = cycle_portfolio s ms executions, vi_BotState = running_bot \<rparr>)"

definition reject_output :: "string \<Rightarrow> validate_output" where
  "reject_output code =
    \<lparr> vo_Approved = False, vo_FinalPositionNotional = Fin 0, vo_RequiredMargin = Fin 0, vo_EstimatedLoss = Fin 0,
      vo_ReasonCodes = [code], vo_PortfolioRank = 0, vo_PortfolioRejectReason = '''' \<rparr>"

text \<open>A rejection by the risk engine, or for want of a book or a price.\<close>

definition reject_risk ::
  "cycle_env \<Rightarrow> screen_result \<Rightarrow> int \<Rightarrow> cycle_candidate \<Rightarrow> validate_output \<Rightarrow> string \<Rightarrow> cycle_state \<Rightarrow> cycle_state" where
  "reject_risk env sr candID x out reason st =
    (let c = cc_cand x;
         st = skip (t_Symbol c) ''RISK_REJECTED'' (saveRiskDecision (ce_now env) out candID (cr_CycleID (cs_result st)) st)
     in log_and_track env (buildBaseFields (ce_json env) sr c) c (cc_setupTF x) (int (length (cc_candles x)))
          ''REJECTED_RISK'' reason st)"

definition unusable_price :: "cycle_candidate \<Rightarrow> bool" where
  "unusable_price x \<longleftrightarrow> cc_priceErr x \<or> cc_price x \<le> Fin 0 \<or> not_finite (cc_price x)"

text \<open>The candidate that the risk engine approved goes to the reviewer, where only a rejection changes anything.\<close>

definition review_step ::
  "cycle_env \<Rightarrow> screen_result \<Rightarrow> int \<Rightarrow> cycle_candidate \<Rightarrow> validate_output \<Rightarrow> cycle_state \<times> risk_candidate list
    \<Rightarrow> cycle_state \<times> risk_candidate list" where
  "review_step env sr candID x out acc =
    (let (st, approved) = acc; c = cc_cand x; (st, verdict) = runLLMReview env sr c out (cc_setupTF x) st;
         item = \<lparr> ri_cand = c, ri_output = out, ri_id = candID, ri_price = cc_price x, ri_ob = cc_ob x \<rparr>
     in case verdict of
          None \<Rightarrow> (st, approved @ [item])
        | Some outc \<Rightarrow>
            if out_Action outc = ''REJECT''
            then (log_and_track env (WithLLMReview (ce_json env) (Some outc) (buildBaseFields (ce_json env) sr c)) c
                    (cc_setupTF x) (int (length (cc_candles x))) ''REJECTED_LLM_REVIEW'' (out_ReasonSummary outc)
                    (skip (t_Symbol c) ''LLM_REVIEW_REJECTED'' st), approved)
            else (st, approved @ [item]))"

text \<open>The candidate with its decision: a block ends it, and so do a missing book, a missing price and the risk engine.\<close>

definition decided_step ::
  "cycle_env \<Rightarrow> screen_result \<Rightarrow> monitor_status \<Rightarrow> int \<Rightarrow> cycle_candidate \<Rightarrow> cycle_state \<times> risk_candidate list
    \<Rightarrow> cycle_state \<times> risk_candidate list" where
  "decided_step env sr ms candID x acc =
    (let (st, approved) = acc; c = cc_cand x; d = cc_decision x; n = int (length (cc_candles x))
     in if ld_Decision d = ''BLOCK''
        then (log_and_track env (buildBaseFields (ce_json env) sr c) c (cc_setupTF x) n ''REJECTED_LLM''
                (marshalLLMDecision d)
                (skip (t_Symbol c) ''LLM_BLOCK'' (with_result (\<lambda>r. r\<lparr>cr_LLMReject := cr_LLMReject r + 1\<rparr>) st)), approved)
        else if cc_obErr x
        then (reject_risk env sr candID x (reject_output ''MARKET_DATA_UNAVAILABLE'') ''MARKET_DATA_UNAVAILABLE'' st, approved)
        else if unusable_price x
        then (reject_risk env sr candID x (reject_output ''PRICE_UNAVAILABLE'') ''PRICE_UNAVAILABLE'' st, approved)
        else
          let out = Validate (sh_cfg (cs_sched st)) (ce_now env)
                      (risk_input_of (cs_sched st) ms (cr_Executions (cs_result st)) x)
          in if \<not> vo_Approved out
             then (reject_risk env sr candID x out (joinReasons (vo_ReasonCodes out))
                     (with_result (\<lambda>r. r\<lparr>cr_RiskRejected := cr_RiskRejected r + 1\<rparr>) st), approved)
             else review_step env sr candID x out (st, approved))"

definition judge ::
  "cycle_env \<Rightarrow> screen_result \<Rightarrow> monitor_status \<Rightarrow> int gomap \<Rightarrow> cycle_state \<times> risk_candidate list \<Rightarrow> cycle_candidate
    \<Rightarrow> cycle_state \<times> risk_candidate list" where
  "judge env sr ms ids acc x =
    (let (st, approved) = acc; symbol = t_Symbol (cc_cand x);
         n = (case map_of ids symbol of None \<Rightarrow> 0 | Some i \<Rightarrow> i); candID = (if n = 0 then -1 else n);
         save = (\<lambda>st. saveLLMDecision (ce_now env) (cc_decision x) candID (cr_CycleID (cs_result st)) st)
     in if needs_veto x \<and> cc_llmErr x then (skip symbol ''LLM_ERROR'' st, approved)
        else
          let st = (if needs_veto x then trackLLMCall env (with_result (\<lambda>r. r\<lparr>cr_LLMCalls := cr_LLMCalls r + 1\<rparr>) st)
                    else st)
          in decided_step env sr ms candID x (save st, approved))"
section \<open>Ranking and execution\<close>

definition rank_approved :: "risk_candidate list \<Rightarrow> risk_candidate list" where
  "rank_approved items = insertion_sort (\<lambda>a b. score_above (ri_cand a) (ri_cand b)) items"

text \<open>How many new positions the cycle may open, fewer when a regime is ranging.\<close>

definition max_new_positions :: "user_config \<Rightarrow> screen_result \<Rightarrow> nat \<Rightarrow> int" where
  "max_new_positions cfg sr approved =
    (let n = pr_MaxNewPositionsPerCycle (uc_PortfolioRisk cfg); n = (if n \<le> 0 then int approved else n)
     in if list_ex (\<lambda>kv. rg_IsRanging (snd kv)) (sn_RegimeSnapshots sr)
        then ComputeReduceNewPositions n 1 True
               (mr_ReduceNewPositionsWhenRanging (MarketRegimeConfig_WithDefaults (uc_MarketRegime cfg)))
        else n)"

definition default_symbol_info :: "string \<Rightarrow> symbol_info" where
  "default_symbol_info symbol =
    \<lparr> si_Symbol = symbol, si_Status = '''', si_QuoteAsset = '''', si_BaseAsset = '''', si_MinNotional = Fin 10,
      si_TickSize = lit (1 / 100), si_LotSize = lit (1 / 1000), si_MaxLeverage = Fin 100 \<rparr>"

text \<open>The second validation, with the order plan.\<close>

definition phase4 :: "cycle_env \<Rightarrow> screen_result \<Rightarrow> monitor_status \<Rightarrow> scheduler \<Rightarrow> int \<Rightarrow> candidate \<Rightarrow> risk_validation_result" where
  "phase4 env sr ms s executions c =
    (case (map_of (sn_TradeCandidates sr) (t_Symbol c), map_of (sn_ScoreResults sr) (t_Symbol c),
           map_of (sn_RegimeSnapshots sr) (t_Symbol c)) of
       (Some tc, Some score, Some rg) \<Rightarrow>
         ValidateCandidate (sh_cfg s) (ce_now env)
           \<lparr> cri_Candidate = tc, cri_ScoreResult = score, cri_RegimeSnapshot = rg,
             cri_SymbolInfo = (case map_of (sn_SymbolInfos sr) (t_Symbol c) of
                                 None \<Rightarrow> default_symbol_info (t_Symbol c) | Some si \<Rightarrow> si),
             cri_AccountState = ms_AccountState ms, cri_Portfolio = cycle_portfolio s ms executions,
             cri_BotState = running_bot \<rparr>
     | _ \<Rightarrow>
         \<lparr> rv_CandidateID = t_Symbol c, rv_Approved = False, rv_RejectionReasons = [''MISSING_PHASE3_DATA''],
           rv_OrderPlan = None, rv_ModifiersApplied = [], rv_RiskConfigVersion = '''' \<rparr>)"

definition safety_market :: "risk_candidate \<Rightarrow> safety_market_state" where
  "safety_market item =
    (let ob = ri_ob item
     in \<lparr> sm_Symbol = t_Symbol (ri_cand item), sm_Price = ri_price item, sm_OrderBook = ob,
          sm_SpreadPct = ob_SpreadBps ob / Fin 100, sm_SlippagePct = ob_EstimatedSlippageBps ob / Fin 100,
          sm_ExchangeHealthy = True, sm_ExchangeLatency = 0, sm_ExchangeErrorRate = Fin 0 \<rparr>)"

definition executed :: "cycle_state \<Rightarrow> cycle_state" where
  "executed = with_result (\<lambda>r. r\<lparr>cr_Executions := cr_Executions r + 1\<rparr>)"

text \<open>The plan is logged in shadow mode, filled by the simulator in paper mode, and logged by the executor otherwise.\<close>

definition shadow_step ::
  "cycle_env \<Rightarrow> decision_log_fields \<Rightarrow> candidate \<Rightarrow> string \<Rightarrow> cycle_state \<Rightarrow> cycle_state" where
  "shadow_step env f c tf st =
    executed (log_and_track env f c tf 0 ''EXECUTED_SHADOW'' ''shadow mode: order plan validated, not submitted'' st)"

definition paper_step ::
  "cycle_env \<Rightarrow> decision_log_fields \<Rightarrow> candidate \<Rightarrow> string \<Rightarrow> order_plan \<Rightarrow> store simulator \<Rightarrow> cycle_state \<Rightarrow> cycle_state" where
  "paper_step env f c tf plan m st =
    (let (decisionID, st) = log_decision env f c tf 0 ''EXECUTED_PAPER'' ''paper mode: simulated fill'' st;
         (tradeID, st) = draw_uuid env st;
         (m, s, r) = SimulateFill (ce_feed env) tradeID (ce_now env) decisionID plan m (cs_store st);
         st = with_sched (\<lambda>x. x\<lparr>sh_sim := Some m\<rparr>) (st\<lparr>cs_store := s\<rparr>)
     in case r of
          Inl _ \<Rightarrow> skip (t_Symbol c) ''PAPER_SIM_FAILED'' st
        | Inr _ \<Rightarrow> executed (trackCounterfactual decisionID c st))"

definition plan_step ::
  "cycle_env \<Rightarrow> decision_log_fields \<Rightarrow> candidate \<Rightarrow> string \<Rightarrow> risk_validation_result \<Rightarrow> execution_safety_result
    \<Rightarrow> cycle_state \<Rightarrow> cycle_state" where
  "plan_step env f c tf p safety st =
    (case ExecutePlan p safety of
       Some e \<Rightarrow>
         if er_Success e
         then log_and_track env f c tf 0 ''EXECUTED_SHADOW'' ''order plan logged (no simulator)'' (executed st)
         else skip (t_Symbol c) ''EXECUTION_FAILED'' st
     | None \<Rightarrow> st)"

definition send_alert :: "candidate \<Rightarrow> cycle_state \<Rightarrow> cycle_state" where
  "send_alert c st =
    (if IsShadow (sh_mode (cs_sched st)) \<or> sh_sim (cs_sched st) = None
     then with_sched (\<lambda>s. s\<lparr>sh_alerts := map_option (\<lambda>xs. xs @ [t_Symbol c]) (sh_alerts s)\<rparr>) st else st)"

definition submit ::
  "cycle_env \<Rightarrow> screen_result \<Rightarrow> candidate \<Rightarrow> risk_validation_result \<Rightarrow> order_plan \<Rightarrow> execution_safety_result
    \<Rightarrow> cycle_state \<Rightarrow> cycle_state" where
  "submit env sr c p plan safety st =
    (let J = ce_json env; tf = setup_timeframe (sh_cfg (cs_sched st)); mode = sh_mode (cs_sched st);
         f = (WithOrderPlan J (Some plan) (WithSafetyValidation J True [] []
               (WithRiskValidation J p (buildBaseFields J sr c))))\<lparr>lf_RiskConfigVersion := rv_RiskConfigVersion p\<rparr>
     in if IsShadow mode then send_alert c (shadow_step env f c tf st)
        else if IsPaper mode \<and> sh_sim (cs_sched st) \<noteq> None
        then paper_step env f c tf plan (the (sh_sim (cs_sched st))) st
        else send_alert c (plan_step env f c tf p safety st))"

text \<open>A validated plan is checked for safety. Dereferencing a plan that is not there panics; an approved one is there.\<close>

definition check_and_submit ::
  "cycle_env \<Rightarrow> screen_result \<Rightarrow> monitor_status \<Rightarrow> risk_candidate \<Rightarrow> risk_validation_result \<Rightarrow> order_plan
    \<Rightarrow> cycle_state \<Rightarrow> cycle_state" where
  "check_and_submit env sr ms item p plan st =
    (let c = ri_cand item; J = ce_json env;
         (safety, eng) = EvaluateExecutionSafety (ce_now env) plan (safety_market item)
           \<lparr> sa_OpenPositions = ms_OpenPositions ms, sa_OpenOrders = ms_OpenOrders ms \<rparr> (sh_safety (cs_sched st));
         st = with_sched (\<lambda>s. s\<lparr>sh_safety := eng\<rparr>) st; reasons = map reason_text (es_Reasons safety)
     in if \<not> es_Safe safety
        then log_and_track env
               (WithOrderPlan J (Some plan) (WithSafetyValidation J False (es_FailedChecks safety) reasons
                  (WithRiskValidation J p (buildBaseFields J sr c))))
               c (setup_timeframe (sh_cfg (cs_sched st))) 0 ''REJECTED_SAFETY'' (joinReasons reasons)
               (skip (t_Symbol c) ''EXECUTION_SAFETY_FAILED''
                 (with_result (\<lambda>r. r\<lparr>cr_SafetyRejected := cr_SafetyRejected r + 1\<rparr>) st))
        else submit env sr c p plan safety st)"

definition execute_item ::
  "cycle_env \<Rightarrow> screen_result \<Rightarrow> monitor_status \<Rightarrow> int \<Rightarrow> cycle_state \<Rightarrow> nat \<times> risk_candidate \<Rightarrow> cycle_state" where
  "execute_item env sr ms remaining st ix =
    (let (i, item) = ix; c = ri_cand item; out = ri_output item; J = ce_json env;
         save = (\<lambda>out st. saveRiskDecision (ce_now env) out (ri_id item) (cr_CycleID (cs_result st)) st);
         tf = setup_timeframe (sh_cfg (cs_sched st))
     in if remaining \<le> int i
        then log_and_track env (buildBaseFields J sr c) c tf 0 ''REJECTED_RISK'' ''PORTFOLIO_RISK_LIMIT''
               (skip (t_Symbol c) ''PORTFOLIO_RISK_LIMIT''
                 (save (out\<lparr>vo_Approved := False, vo_PortfolioRejectReason := ''PORTFOLIO_RISK_LIMIT'',
                             vo_ReasonCodes := vo_ReasonCodes out @ [''PORTFOLIO_RISK_LIMIT'']\<rparr>) st))
        else
          let st = save (out\<lparr>vo_PortfolioRank := int i + 1\<rparr>) st;
              p = phase4 env sr ms (cs_sched st) (cr_Executions (cs_result st)) c
          in if \<not> rv_Approved p
             then log_and_track env (WithRiskValidation J p (buildBaseFields J sr c)) c tf 0 ''REJECTED_RISK''
                    (joinReasons (rv_RejectionReasons p)) (skip (t_Symbol c) ''PHASE4_RISK_REJECTED'' st)
             else
               (case rv_OrderPlan p of
                  None \<Rightarrow> st
                | Some plan \<Rightarrow> check_and_submit env sr ms item p plan st))"

section \<open>The cycle\<close>

text \<open>The state of the account and the positions that the cycle works on, in paper mode with the simulator's.\<close>

definition cycle_status :: "cycle_env \<Rightarrow> cycle_state \<Rightarrow> cycle_state \<times> monitor_status option" where
  "cycle_status env st =
    (let s = cs_sched st; ms = Status (se_ord (ce_screen env)) (ce_now env) (sh_monitor s)
     in case (if IsPaper (sh_mode s) then sh_sim s else None) of
          None \<Rightarrow> (st, Some ms)
        | Some m \<Rightarrow>
            (case sim_GetOpenPositions m (cs_store st) of
               (db, Inl _) \<Rightarrow> (st\<lparr>cs_store := db\<rparr>, None)
             | (db, Inr ps) \<Rightarrow>
                 let acc = sim_AccountState m; a = ms_AccountState ms
                 in (st\<lparr>cs_store := db\<rparr>,
                     Some (ms\<lparr>ms_OpenPositions := ms_OpenPositions ms @ ps,
                              ms_AccountState := a\<lparr>a_Equity := a_Equity acc, a_Balance := a_Balance acc,
                                a_RealizedPnL := a_RealizedPnL acc,
                                a_AvailableBalance := (if a_AvailableBalance a \<le> Fin 0
                                  then a_Equity acc - a_UsedMargin acc else a_AvailableBalance a)\<rparr>\<rparr>)))) "

definition check_paper_positions :: "cycle_env \<Rightarrow> cycle_state \<Rightarrow> cycle_state" where
  "check_paper_positions env st =
    (case (if IsPaper (sh_mode (cs_sched st)) then sh_sim (cs_sched st) else None) of
       None \<Rightarrow> st
     | Some m \<Rightarrow>
         (case CheckOpenPositions (ce_feed env) (ce_now env) m (cs_store st) of
            (m, s, _) \<Rightarrow> updatePostTradeState (ce_now env) (with_sched (\<lambda>x. x\<lparr>sh_sim := Some m\<rparr>) (st\<lparr>cs_store := s\<rparr>))))"

text \<open>The phases of the candidates, from the hard blocks to the execution.\<close>

definition run_phases ::
  "cycle_env \<Rightarrow> screen_result \<Rightarrow> monitor_status \<Rightarrow> int gomap \<Rightarrow> candidate list \<Rightarrow> cycle_state \<Rightarrow> cycle_state" where
  "run_phases env sr ms ids kept st =
    (let (st, items) = foldl (examine env sr ms) (st, []) (enumerate 0 kept);
         (st, items) = foldl (veto_call env) (st, []) items;
         (st, approved) = foldl (judge env sr ms ids) (st, []) items;
         ranked = rank_approved approved;
         maxNew = max_new_positions (sh_cfg (cs_sched st)) sr (length ranked);
         remaining = max 0 (maxNew - cr_Executions (cs_result st));
         st = foldl (execute_item env sr ms remaining) st (enumerate 0 ranked)
     in add_codes [''CYCLE_COMPLETE''] (end_cycle (ce_now env) st))"

definition trade_candidates ::
  "cycle_env \<Rightarrow> screen_result \<Rightarrow> int gomap \<Rightarrow> cycle_state \<Rightarrow> cycle_state" where
  "trade_candidates env sr ids st =
    (let st = loadLLMUsage (ce_localDay env) (check_paper_positions env st);
         (s, kept, skips) = applyLLMCaps (ce_localDay env) (sn_Candidates sr) (cs_sched st);
         st = with_result (\<lambda>r. r\<lparr>cr_Skips := cr_Skips r @ skips\<rparr>) (st\<lparr>cs_sched := s\<rparr>)
     in case cycle_status env st of
          (st, None) \<Rightarrow> end_cycle (ce_now env) (add_codes [''PAPER_STATE_UNAVAILABLE''] st)
        | (st, Some ms) \<Rightarrow> run_phases env sr ms ids kept st)"

definition after_screen :: "cycle_env \<Rightarrow> screen_result \<Rightarrow> cycle_state \<Rightarrow> cycle_state" where
  "after_screen env sr st =
    (let now = ce_now env
     in if ShouldCritical (sh_staleness (cs_sched st)) then end_cycle now (add_codes [''BTC_STALE_CRITICAL''] st)
        else
          let sr = sr\<lparr>sn_RegimeSnapshots :=
                        map (\<lambda>kv. (fst kv, inject_staleness (sh_staleness (cs_sched st)) (snd kv))) (sn_RegimeSnapshots sr)\<rparr>;
              st = with_result (\<lambda>r. r\<lparr>cr_Candidates := int (length (sn_Candidates sr))\<rparr>) st;
              st = foldl (log_non_eligible env sr) st (sn_NonEligible sr);
              st = (if IsPaper (sh_mode (cs_sched st)) then st
                    else with_sched (\<lambda>s. s\<lparr>sh_monitor := CheckAllPositions (se_ord (ce_screen env)) now (ce_monitor env)
                                            (sh_monitor s)\<rparr>) st);
              (st, ids) = persistCandidates (sn_Candidates sr) (sn_NonEligible sr) st
          in if sn_Candidates sr = [] then end_cycle now (add_codes (no_candidate_reasons sr) st)
             else trade_candidates env sr ids st)"

definition refresh_universe :: "cycle_env \<Rightarrow> cycle_state \<Rightarrow> cycle_state" where
  "refresh_universe env st =
    (case RefreshUniverse (sh_scanner (cs_sched st)) (ce_instruments env) (ce_tickers env) (ce_now env) (cs_store st) of
       (s, None) \<Rightarrow> st\<lparr>cs_store := s\<rparr>
     | (s, Some _) \<Rightarrow> add_codes [''UNIVERSE_REFRESH_FAILED''] (st\<lparr>cs_store := s\<rparr>))"

definition cycle_body :: "cycle_env \<Rightarrow> cycle_state \<Rightarrow> cycle_state \<times> db_error option" where
  "cycle_body env st =
    (if isHalted (cs_sched st) then (end_cycle (ce_now env) (add_codes [''BOT_HALTED''] st), None)
     else
       let st = refresh_universe env (with_sched (checkDailyReset env) st)
       in case Screen (sh_cfg (cs_sched st)) (ce_md env) (ce_screen env) (cr_CycleID (cs_result st)) (cs_store st) of
            (s, Inl e) \<Rightarrow> (end_cycle (ce_now env) (add_codes [''SCREEN_FAILED''] (st\<lparr>cs_store := s\<rparr>)), Some e)
          | (s, Inr sr) \<Rightarrow> (after_screen env sr (st\<lparr>cs_store := s\<rparr>), None))"

datatype run_error = AlreadyRunning | ScreenFailed db_error

definition cycle_id :: "int \<Rightarrow> string \<Rightarrow> string" where
  "cycle_id n stamp = ''cycle-'' @ show_int n @ ''-'' @ stamp"

definition RunOnce ::
  "cycle_env \<Rightarrow> scheduler \<times> store \<Rightarrow> (scheduler \<times> store) \<times> cycle_result option \<times> run_error option" where
  "RunOnce env w =
    (let (s, db) = w
     in if sh_running s then (w, None, Some AlreadyRunning)
        else
          let seq = sh_cycleSeq s + 1; cid = cycle_id seq (ce_stamp env); now = ce_now env;
              st = insertCycleRunning cid now
                     \<lparr> cs_sched = s\<lparr>sh_running := True, sh_cycleSeq := seq\<rparr>, cs_store = db, cs_result = new_result cid now \<rparr>;
              (st, err) = cycle_body env st;
              st = updateCycleFinal (err \<noteq> None)
                     (if IsZero (cr_EndedAt (cs_result st)) then end_cycle now st else st)
          in (((cs_sched st)\<lparr>sh_running := False\<rparr>, cs_store st), Some (cs_result st), map_option ScreenFailed err))"

text \<open>The loop: a cycle at the start and one per tick, until the context ends; the errors are logged.\<close>

definition scheduler_Run :: "cycle_env \<Rightarrow> cycle_env list \<Rightarrow> scheduler \<times> store \<Rightarrow> scheduler \<times> store" where
  "scheduler_Run env ticks w = foldl (\<lambda>w env. fst (RunOnce env w)) w (env # ticks)"

end
