(* ===== verification/SchedulerSpec.thy ===== *)
theory SchedulerSpec
  imports Scheduler RiskSpec
begin

text \<open>
  What a trading cycle guarantees: every candidate of the screen is accounted for, an execution has passed every gate,
  the broker's positions are touched only by the check of open positions, the caps hold, and a feed of BTC candles
  that has become critical stays so, since nothing but a cycle that is no longer run can clear it.
\<close>

section \<open>Frames\<close>

lemma with_frame [simp]:
  "cs_sched (with_result f st) = cs_sched st" "cs_store (with_result f st) = cs_store st"
  "cs_result (with_result f st) = f (cs_result st)"
  "cs_sched (with_sched g st) = g (cs_sched st)" "cs_store (with_sched g st) = cs_store st"
  "cs_result (with_sched g st) = cs_result st"
  by (simp_all add: with_result_def with_sched_def)

lemma write_if_frame [simp]: "cs_sched (write_if b w st) = cs_sched st" "cs_result (write_if b w st) = cs_result st"
  by (simp_all add: write_if_def)

lemma save_frame [simp]:
  "cs_sched (saveLLMDecision now d n cid st) = cs_sched st" "cs_result (saveLLMDecision now d n cid st) = cs_result st"
  "cs_sched (saveRiskDecision now out n cid st) = cs_sched st" "cs_result (saveRiskDecision now out n cid st) = cs_result st"
  "cs_sched (saveDecisionLog dl st) = cs_sched st" "cs_result (saveDecisionLog dl st) = cs_result st"
  "cs_sched (trackCounterfactual did c st) = cs_sched st" "cs_result (trackCounterfactual did c st) = cs_result st"
  "cs_sched (insertCycleRunning cid t st) = cs_sched st" "cs_result (insertCycleRunning cid t st) = cs_result st"
  "cs_sched (updateCycleFinal b st) = cs_sched st" "cs_result (updateCycleFinal b st) = cs_result st"
  by (simp_all add: saveLLMDecision_def saveRiskDecision_def saveDecisionLog_def trackCounterfactual_def
      insertCycleRunning_def updateCycleFinal_def Let_def)

lemma draw_frame [simp]:
  "cs_sched (snd (draw_uuid env st)) = (cs_sched st)\<lparr>sh_uuids := sh_uuids (cs_sched st) + 1\<rparr>"
  "cs_result (snd (draw_uuid env st)) = cs_result st"
  by (simp_all add: draw_uuid_def)

lemma log_frame [simp]:
  "cs_sched (snd (log_decision env f c tf n a r st)) = (cs_sched st)\<lparr>sh_uuids := sh_uuids (cs_sched st) + 1\<rparr>"
  "cs_result (snd (log_decision env f c tf n a r st)) = cs_result st"
  "cs_sched (log_and_track env f c tf n a r st) = (cs_sched st)\<lparr>sh_uuids := sh_uuids (cs_sched st) + 1\<rparr>"
  "cs_result (log_and_track env f c tf n a r st) = cs_result st"
  by (simp_all add: log_decision_def log_and_track_def split_beta Let_def)

lemma persist_frame [simp]:
  "cs_sched (fst (persistCandidates xs ys st)) = cs_sched st" "cs_result (fst (persistCandidates xs ys st)) = cs_result st"
  by (simp_all add: persistCandidates_def split_beta Let_def)

lemma usage_frame [simp]:
  "cs_result (loadLLMUsage today st) = cs_result st" "cs_result (trackLLMCall env st) = cs_result st"
  "cs_result (updatePostTradeState now st) = cs_result st"
  by (simp_all add: loadLLMUsage_def trackLLMCall_def updatePostTradeState_def Let_def split_beta
      split: prod.split sum.split option.split)

section \<open>Accounting\<close>

text \<open>A phase handles its candidates one by one, and each adds one to what is counted.\<close>

locale counting_phase =
  fixes weigh :: "'s \<Rightarrow> int" and step :: "'s \<Rightarrow> 'a \<Rightarrow> 's"
  assumes step_one: "weigh (step s x) = weigh s + 1"
begin

lemma weigh_fold: "weigh (foldl step s xs) = weigh s + int (length xs)"
  by (induction xs arbitrary: s) (simp_all add: step_one)

end

definition tally :: "cycle_state \<Rightarrow> int" where
  "tally st = int (length (cr_Skips (cs_result st))) + cr_Executions (cs_result st)"

definition weigh_items :: "cycle_state \<times> 'a list \<Rightarrow> int" where
  "weigh_items acc = tally (fst acc) + int (length (snd acc))"

lemma tally_simps [simp]:
  "tally (skip s r st) = tally st + 1" "tally (executed st) = tally st + 1" "tally (add_codes cs st) = tally st"
  "tally (end_cycle now st) = tally st" "tally (with_sched g st) = tally st"
  by (simp_all add: tally_def skip_def executed_def add_codes_def end_cycle_def)

lemma tally_result: "cs_result st = cs_result st' \<Longrightarrow> tally st = tally st'"
  by (simp add: tally_def)

lemma tally_frame [simp]:
  "tally (log_and_track env f c tf n a r st) = tally st" "tally (snd (log_decision env f c tf n a r st)) = tally st"
  "tally (snd (draw_uuid env st)) = tally st" "tally (saveLLMDecision now d k cid st) = tally st"
  "tally (saveRiskDecision now out k cid st) = tally st" "tally (trackCounterfactual did c st) = tally st"
  "tally (trackLLMCall env st) = tally st" "tally (st\<lparr>cs_sched := s\<rparr>) = tally st" "tally (st\<lparr>cs_store := db\<rparr>) = tally st"
  by (rule tally_result, simp)+

lemma tally_counters [simp]:
  "tally (with_result (\<lambda>r. r\<lparr>cr_RejectedPreLLM := f r\<rparr>) st) = tally st"
  "tally (with_result (\<lambda>r. r\<lparr>cr_LLMSkippedHighScore := f r\<rparr>) st) = tally st"
  "tally (with_result (\<lambda>r. r\<lparr>cr_LLMVetoCalled := f r\<rparr>) st) = tally st"
  "tally (with_result (\<lambda>r. r\<lparr>cr_LLMReject := f r\<rparr>) st) = tally st"
  "tally (with_result (\<lambda>r. r\<lparr>cr_LLMCalls := f r\<rparr>) st) = tally st"
  "tally (with_result (\<lambda>r. r\<lparr>cr_RiskRejected := f r\<rparr>) st) = tally st"
  "tally (with_result (\<lambda>r. r\<lparr>cr_SafetyRejected := f r\<rparr>) st) = tally st"
  by (simp_all add: tally_def)

lemma route_candidate_one: "weigh_items (route_candidate x cfg acc) = weigh_items acc + 1"
  by (simp add: route_candidate_def weigh_items_def split_beta Let_def split: route.split)

lemma examine_one: "weigh_items (examine env sr ms acc ic) = weigh_items acc + 1"
proof -
  have "weigh_items (st\<lparr>cs_sched := s\<rparr>, items) = weigh_items (st, items)" for st s and items :: "cycle_candidate list"
    by (simp add: weigh_items_def)
  then show ?thesis
    by (cases acc; cases ic) (simp add: examine_def split_beta Let_def route_candidate_one; simp add: weigh_items_def)
qed

interpretation examining: counting_phase weigh_items "examine env sr ms" for env sr ms
  by unfold_locales (rule examine_one)

interpretation vetoing: counting_phase weigh_items "veto_call env" for env
  by unfold_locales (simp add: veto_call_def weigh_items_def split_beta Let_def)

lemma review_step_one: "weigh_items (review_step env sr n x out acc) = weigh_items acc + 1"
proof -
  have t: "tally (fst (runLLMReview env sr c out tf st)) = tally st" for c tf st
    by (simp add: runLLMReview_def split_beta Let_def split: option.split)
  show ?thesis
    by (simp add: review_step_def weigh_items_def split_beta Let_def t split: option.split)
qed

lemma decided_step_one: "weigh_items (decided_step env sr ms n x acc) = weigh_items acc + 1"
  by (cases acc)
     (simp add: decided_step_def Let_def review_step_one; simp add: weigh_items_def reject_risk_def Let_def)

interpretation judging: counting_phase weigh_items "judge env sr ms ids" for env sr ms ids
  by unfold_locales
     (simp add: judge_def split_beta Let_def decided_step_one; simp add: weigh_items_def)

section \<open>Execution\<close>

lemma approved_has_plan:
  "rv_Approved (ValidateCandidate ucfg now i) \<Longrightarrow> rv_OrderPlan (ValidateCandidate ucfg now i) \<noteq> None"
  by (auto simp: ValidateCandidate_def rejected_candidate_result_def Let_def split_beta split: option.splits if_splits)

lemma phase4_plan: "rv_Approved (phase4 env sr ms s n c) \<Longrightarrow> rv_OrderPlan (phase4 env sr ms s n c) \<noteq> None"
  by (auto simp: phase4_def split: option.splits dest: approved_has_plan)

text \<open>The plan is executed or skipped, never both and never neither.\<close>

lemma submit_one:
  assumes "rv_OrderPlan p = Some plan"
  shows "tally (submit env sr c p plan safety st) = tally st + 1"
proof -
  have "tally (send_alert c st') = tally st'" for st' by (simp add: send_alert_def)
  moreover have "tally (shadow_step env f c tf st) = tally st + 1" for f tf by (simp add: shadow_step_def)
  moreover have "tally (paper_step env f c tf plan m st) = tally st + 1" for f tf m
    by (simp add: paper_step_def split_beta Let_def split: sum.split)
  moreover have "tally (plan_step env f c tf p safety st) = tally st + 1" for f tf
    using assms by (simp add: plan_step_def ExecutePlan_def Let_def)
  ultimately show ?thesis by (simp add: submit_def Let_def)
qed

lemma check_and_submit_one:
  "rv_OrderPlan p = Some plan \<Longrightarrow> tally (check_and_submit env sr ms item p plan st) = tally st + 1"
  by (simp add: check_and_submit_def split_beta Let_def submit_one)

lemma execute_item_one: "tally (execute_item env sr ms remaining st ix) = tally st + 1"
proof -
  obtain i item where ix: "ix = (i, item)" by fastforce
  let ?st = "saveRiskDecision (ce_now env) ((ri_output item)\<lparr>vo_PortfolioRank := int i + 1\<rparr>) (ri_id item)
    (cr_CycleID (cs_result st)) st"
  let ?p = "phase4 env sr ms (cs_sched ?st) (cr_Executions (cs_result ?st)) (ri_cand item)"
  show ?thesis
    using phase4_plan [of env sr ms "cs_sched ?st" "cr_Executions (cs_result ?st)" "ri_cand item"]
    by (auto simp: ix execute_item_def Let_def check_and_submit_one split: option.split)
qed

interpretation executing: counting_phase tally "execute_item env sr ms remaining" for env sr ms remaining
  by unfold_locales (rule execute_item_one)

lemma length_rank [simp]: "length (rank_approved xs) = length xs"
  by (simp add: rank_approved_def)

lemma run_phases_count: "tally (run_phases env sr ms ids chosen st) = tally st + int (length chosen)"
proof -
  obtain st1 items where a: "foldl (examine env sr ms) (st, []) (enumerate 0 chosen) = (st1, items)" by fastforce
  obtain st2 items2 where b: "foldl (veto_call env) (st1, []) items = (st2, items2)" by fastforce
  obtain st3 approved where c: "foldl (judge env sr ms ids) (st2, []) items2 = (st3, approved)" by fastforce
  have "tally st1 + int (length items) = tally st + int (length chosen)"
    using examining.weigh_fold [of env sr ms "(st, [])" "enumerate 0 chosen"] by (simp add: a weigh_items_def)
  moreover have "tally st2 + int (length items2) = tally st1 + int (length items)"
    using vetoing.weigh_fold [of env "(st1, [])" items] by (simp add: b weigh_items_def)
  moreover have "tally st3 + int (length approved) = tally st2 + int (length items2)"
    using judging.weigh_fold [of env sr ms ids "(st2, [])" items2] by (simp add: c weigh_items_def)
  ultimately show ?thesis
    by (simp add: run_phases_def a b c Let_def executing.weigh_fold)
qed

section \<open>Caps\<close>

lemma exchange_sort_length [simp]: "length (exchange_sort gt xs) = length xs"
  by (metis mset_exchange_sort size_mset)

lemma caps_count:
  assumes "applyLLMCaps today cs s = (s', chosen, skips)"
  shows "length chosen + length skips = length cs"
  using assms by (auto simp: applyLLMCaps_def split_beta Let_def split: if_splits)

section \<open>What the phases leave alone\<close>

locale framed_phase =
  fixes keep :: "'s \<Rightarrow> 'k" and step :: "'s \<Rightarrow> 'a \<Rightarrow> 's"
  assumes step_keeps: "keep (step s x) = keep s"
begin

lemma fold_keeps: "keep (foldl step s xs) = keep s"
  by (induction xs arbitrary: s) (simp_all add: step_keeps)

end

text \<open>The monitor with its broker, the mode, the configuration and the number of candidates.\<close>

definition fixed_part :: "cycle_state \<Rightarrow> position_monitor \<times> string \<times> user_config \<times> int" where
  "fixed_part st =
    (sh_monitor (cs_sched st), sh_mode (cs_sched st), sh_cfg (cs_sched st), cr_Candidates (cs_result st))"

definition fixed_until_execution ::
  "cycle_state \<times> 'a list \<Rightarrow> (position_monitor \<times> string \<times> user_config \<times> int) \<times> int" where
  "fixed_until_execution acc = (fixed_part (fst acc), cr_Executions (cs_result (fst acc)))"

lemma fixed_part_simps [simp]:
  "fixed_part (skip name r st) = fixed_part st" "fixed_part (executed st) = fixed_part st"
  "fixed_part (add_codes cs st) = fixed_part st" "fixed_part (end_cycle now st) = fixed_part st"
  "fixed_part (log_and_track env f c tf n a r st) = fixed_part st"
  "fixed_part (snd (log_decision env f c tf n a r st)) = fixed_part st"
  "fixed_part (snd (draw_uuid env st)) = fixed_part st" "fixed_part (saveLLMDecision now d k cid st) = fixed_part st"
  "fixed_part (saveRiskDecision now out k cid st) = fixed_part st"
  "fixed_part (trackCounterfactual did c st) = fixed_part st" "fixed_part (st\<lparr>cs_store := db\<rparr>) = fixed_part st"
  "fixed_part (send_alert c st) = fixed_part st"
  by (simp_all add: fixed_part_def skip_def executed_def add_codes_def end_cycle_def send_alert_def)

lemma local_day_fixed [simp]:
  "sh_monitor (on_local_day t s) = sh_monitor s" "sh_mode (on_local_day t s) = sh_mode s"
  "sh_cfg (on_local_day t s) = sh_cfg s" "sh_staleness (on_local_day t s) = sh_staleness s"
  by (simp_all add: on_local_day_def)

lemma fixed_part_sched:
  "sh_monitor (g s) = sh_monitor s \<Longrightarrow> sh_mode (g s) = sh_mode s \<Longrightarrow> sh_cfg (g s) = sh_cfg s \<Longrightarrow> s = cs_sched st \<Longrightarrow>
    fixed_part (with_sched g st) = fixed_part st"
  by (simp add: fixed_part_def)

lemma fixed_part_write [simp]: "fixed_part (write_if b w st) = fixed_part st"
  by (simp add: fixed_part_def)

lemma cooldown_fixed [simp]:
  "sh_monitor (update_cooldown now s) = sh_monitor s" "sh_mode (update_cooldown now s) = sh_mode s"
  "sh_cfg (update_cooldown now s) = sh_cfg s" "sh_staleness (update_cooldown now s) = sh_staleness s"
  by (simp_all add: update_cooldown_def Let_def)

lemma track_fixed [simp]: "fixed_part (trackLLMCall env st) = fixed_part st"
  by (simp add: trackLLMCall_def Let_def fixed_part_sched)

lemma load_fixed [simp]: "fixed_part (loadLLMUsage today st) = fixed_part st"
  by (simp add: loadLLMUsage_def fixed_part_sched split: prod.split sum.split)

lemma post_trade_fixed [simp]: "fixed_part (updatePostTradeState now st) = fixed_part st"
  by (simp add: updatePostTradeState_def Let_def fixed_part_sched split: option.split prod.split sum.split)

lemma btc_return_fixed [simp]:
  "sh_monitor (fst (computeBTC5mReturn md s)) = sh_monitor s" "sh_mode (fst (computeBTC5mReturn md s)) = sh_mode s"
  "sh_cfg (fst (computeBTC5mReturn md s)) = sh_cfg s"
  by (simp_all add: computeBTC5mReturn_def Let_def)

lemma counted_fixed [simp]:
  "fixed_part (with_result (\<lambda>r. r\<lparr>cr_RejectedPreLLM := f r\<rparr>) st) = fixed_part st"
  "fixed_part (with_result (\<lambda>r. r\<lparr>cr_LLMSkippedHighScore := f r\<rparr>) st) = fixed_part st"
  "fixed_part (with_result (\<lambda>r. r\<lparr>cr_LLMVetoCalled := f r\<rparr>) st) = fixed_part st"
  "fixed_part (with_result (\<lambda>r. r\<lparr>cr_LLMReject := f r\<rparr>) st) = fixed_part st"
  "fixed_part (with_result (\<lambda>r. r\<lparr>cr_LLMCalls := f r\<rparr>) st) = fixed_part st"
  "fixed_part (with_result (\<lambda>r. r\<lparr>cr_RiskRejected := f r\<rparr>) st) = fixed_part st"
  "fixed_part (with_result (\<lambda>r. r\<lparr>cr_SafetyRejected := f r\<rparr>) st) = fixed_part st"
  by (simp_all add: fixed_part_def)

lemma skip_executions [simp]: "cr_Executions (cs_result (skip name r st)) = cr_Executions (cs_result st)"
  by (simp add: skip_def)

lemma route_candidate_fixed: "fixed_until_execution (route_candidate x cfg acc) = fixed_until_execution acc"
  by (simp add: route_candidate_def fixed_until_execution_def split_beta Let_def split: route.split)

lemma examine_fixed: "fixed_until_execution (examine env sr ms acc ic) = fixed_until_execution acc"
proof -
  have b: "fixed_part (st\<lparr>cs_sched := fst (computeBTC5mReturn md (cs_sched st))\<rparr>) = fixed_part st" for md st
    by (simp add: fixed_part_def)
  show ?thesis
    by (cases acc; cases ic)
       (simp add: examine_def split_beta Let_def route_candidate_fixed; simp add: fixed_until_execution_def b)
qed

interpretation examining_frame: framed_phase fixed_until_execution "examine env sr ms" for env sr ms
  by unfold_locales (rule examine_fixed)

interpretation vetoing_frame: framed_phase fixed_until_execution "veto_call env" for env
  by unfold_locales (simp add: veto_call_def fixed_until_execution_def fixed_part_def split_beta Let_def)

lemma review_fixed [simp]:
  "fixed_part (fst (runLLMReview env sr c out tf st)) = fixed_part st"
  "cr_Executions (cs_result (fst (runLLMReview env sr c out tf st))) = cr_Executions (cs_result st)"
  by (simp_all add: runLLMReview_def fixed_part_def split_beta Let_def split: option.split)

lemma review_step_fixed: "fixed_until_execution (review_step env sr n x out acc) = fixed_until_execution acc"
  by (simp add: review_step_def fixed_until_execution_def split_beta Let_def split: option.split)

lemma decided_step_fixed: "fixed_until_execution (decided_step env sr ms n x acc) = fixed_until_execution acc"
  by (cases acc)
     (simp add: decided_step_def Let_def review_step_fixed; simp add: fixed_until_execution_def reject_risk_def Let_def)

interpretation judging_frame: framed_phase fixed_until_execution "judge env sr ms ids" for env sr ms ids
  by unfold_locales
     (simp add: judge_def split_beta Let_def decided_step_fixed; simp add: fixed_until_execution_def)

lemma submit_fixed [simp]: "fixed_part (submit env sr c p plan safety st) = fixed_part st"
proof -
  have "fixed_part (with_sched (\<lambda>x. x\<lparr>sh_sim := m\<rparr>) st') = fixed_part st'" for m st' by (simp add: fixed_part_def)
  then have "fixed_part (paper_step env f c tf plan m st) = fixed_part st" for f tf m
    by (simp add: paper_step_def split_beta Let_def split: sum.split)
  then show ?thesis
    by (simp add: submit_def Let_def shadow_step_def plan_step_def split: option.split)
qed

lemma execute_fixed: "fixed_part (execute_item env sr ms remaining st ix) = fixed_part st"
proof -
  have "fixed_part (with_sched (\<lambda>s. s\<lparr>sh_safety := e\<rparr>) st') = fixed_part st'" for e st' by (simp add: fixed_part_def)
  then show ?thesis
    by (simp add: execute_item_def check_and_submit_def split_beta Let_def split: option.split)
qed

interpretation executing_frame: framed_phase fixed_part "execute_item env sr ms remaining" for env sr ms remaining
  by unfold_locales (rule execute_fixed)

section \<open>Gates\<close>

lemma executions_of [simp]:
  "cr_Executions (cs_result (executed st)) = cr_Executions (cs_result st) + 1"
  "cr_Executions (cs_result (send_alert c st)) = cr_Executions (cs_result st)"
  "sh_sim (cs_sched (skip name r st)) = sh_sim (cs_sched st)"
  by (simp_all add: executed_def send_alert_def skip_def)

lemma submit_executions:
  "cr_Executions (cs_result (submit env sr c p plan safety st)) \<in>
    {cr_Executions (cs_result st), cr_Executions (cs_result st) + 1}"
proof -
  have "cr_Executions (cs_result (shadow_step env f c tf st)) = cr_Executions (cs_result st) + 1" for f tf
    by (simp add: shadow_step_def)
  moreover have "cr_Executions (cs_result (paper_step env f c tf plan m st)) \<in>
    {cr_Executions (cs_result st), cr_Executions (cs_result st) + 1}" for f tf m
    by (simp add: paper_step_def split_beta Let_def split: sum.split)
  moreover have "cr_Executions (cs_result (plan_step env f c tf p safety st)) \<in>
    {cr_Executions (cs_result st), cr_Executions (cs_result st) + 1}" for f tf
    by (simp add: plan_step_def split: option.split)
  ultimately show ?thesis by (simp add: submit_def Let_def)
qed

text \<open>
  C36: what a cycle executes has passed every gate. Handling a ranked candidate leaves the count of executions and the
  paper simulator alone, unless the candidate is within the positions that may still be opened, the second
  validation approves it with an order plan, and the execution safety checks pass that plan; then at most one execution
  is counted.
\<close>

theorem execution_passes_gates:
  "(let p = phase4 env sr ms (cs_sched st) (cr_Executions (cs_result st)) (ri_cand item);
        account = \<lparr> sa_OpenPositions = ms_OpenPositions ms, sa_OpenOrders = ms_OpenOrders ms \<rparr>;
        st' = execute_item env sr ms remaining st (i, item); n = cr_Executions (cs_result st); n' = cr_Executions (cs_result st')
    in n' = n \<and> sh_sim (cs_sched st') = sh_sim (cs_sched st) \<or>
       n' \<in> {n, n + 1} \<and> int i < remaining \<and> rv_Approved p \<and>
       (\<exists>plan. rv_OrderPlan p = Some plan \<and>
         es_Safe (fst (EvaluateExecutionSafety (ce_now env) plan (safety_market item) account (sh_safety (cs_sched st))))))"
proof -
  let ?p = "phase4 env sr ms (cs_sched st) (cr_Executions (cs_result st)) (ri_cand item)"
  show ?thesis
  proof (cases "int i < remaining \<and> rv_Approved ?p")
    case False
    then show ?thesis by (auto simp: execute_item_def Let_def)
  next
    case True
    then obtain plan where plan: "rv_OrderPlan ?p = Some plan" using phase4_plan by blast
    let ?eval = "EvaluateExecutionSafety (ce_now env) plan (safety_market item)
      \<lparr> sa_OpenPositions = ms_OpenPositions ms, sa_OpenOrders = ms_OpenOrders ms \<rparr> (sh_safety (cs_sched st))"
    show ?thesis
    proof (cases "es_Safe (fst ?eval)")
      case False
      then show ?thesis
        using True plan by (simp add: execute_item_def check_and_submit_def Let_def split_beta)
    next
      case safe: True
      let ?st = "with_sched (\<lambda>s. s\<lparr>sh_safety := snd ?eval\<rparr>)
        (saveRiskDecision (ce_now env) ((ri_output item)\<lparr>vo_PortfolioRank := int i + 1\<rparr>) (ri_id item)
          (cr_CycleID (cs_result st)) st)"
      have "execute_item env sr ms remaining st (i, item) = submit env sr (ri_cand item) ?p plan (fst ?eval) ?st"
        using True plan safe by (simp add: execute_item_def check_and_submit_def Let_def split_beta)
      then show ?thesis
        using True plan safe submit_executions [of env sr "ri_cand item" ?p plan "fst ?eval" ?st]
        by (simp add: Let_def)
    qed
  qed
qed

lemma execute_executions:
  "cr_Executions (cs_result (execute_item env sr ms remaining st (i, item))) \<in>
    {cr_Executions (cs_result st), cr_Executions (cs_result st) + (if int i < remaining then 1 else 0)}"
proof (cases "int i < remaining")
  case False
  then show ?thesis by (simp add: execute_item_def Let_def)
next
  case True
  have "cr_Executions (cs_result (check_and_submit env sr ms item p plan st')) \<in>
    {cr_Executions (cs_result st'), cr_Executions (cs_result st') + 1}" for p plan st'
    using submit_executions
      [of env sr "ri_cand item" p plan _ "with_sched g st'" for g] by (auto simp: check_and_submit_def Let_def split_beta)
  from this [of _ _ "saveRiskDecision (ce_now env) ((ri_output item)\<lparr>vo_PortfolioRank := int i + 1\<rparr>) (ri_id item)
      (cr_CycleID (cs_result st)) st"] True show ?thesis
    by (auto simp: execute_item_def Let_def split: option.split)
qed

lemma executions_fold:
  "cr_Executions (cs_result st) \<le> cr_Executions (cs_result (foldl (execute_item env sr ms remaining) st (enumerate k xs))) \<and>
   cr_Executions (cs_result (foldl (execute_item env sr ms remaining) st (enumerate k xs))) \<le>
     cr_Executions (cs_result st) + min (int (length xs)) (max 0 (remaining - int k))"
proof (induction xs arbitrary: k st)
  case (Cons x xs)
  let ?st = "execute_item env sr ms remaining st (k, x)"
  have "cr_Executions (cs_result ?st) \<in>
    {cr_Executions (cs_result st), cr_Executions (cs_result st) + (if int k < remaining then 1 else 0)}"
    by (rule execute_executions)
  with Cons.IH [of ?st "Suc k"] show ?case by (auto split: if_splits)
qed simp

section \<open>Bounds\<close>

lemma wrap64_pred: "0 \<le> x \<Longrightarrow> wrap64 x \<le> x"
  using wrap64_range(2) [of x] by (cases "x < 2 ^ 63") simp_all

lemma fold_length:
  assumes "\<And>acc x. length (snd (f acc x)) \<le> Suc (length (snd acc))"
  shows "length (snd (foldl f acc xs)) \<le> length (snd acc) + length xs"
proof (induction xs arbitrary: acc)
  case (Cons x xs)
  show ?case using Cons.IH [of "f acc x"] assms [of acc x] by simp
qed simp

lemma phase_lengths:
  "length (snd (examine env sr ms acc ic)) \<le> Suc (length (snd acc))"
  "length (snd (veto_call env acc x)) \<le> Suc (length (snd acc))"
  "length (snd (judge env sr ms ids bcc x)) \<le> Suc (length (snd bcc))"
proof -
  have r: "length (snd (route_candidate y cfg (st, xs))) \<le> Suc (length xs)" for y cfg st and xs :: "cycle_candidate list"
    by (simp add: route_candidate_def Let_def split: route.split)
  show "length (snd (examine env sr ms acc ic)) \<le> Suc (length (snd acc))"
    by (cases acc; cases ic) (simp add: examine_def Let_def split_beta r)
  show "length (snd (veto_call env acc x)) \<le> Suc (length (snd acc))"
    by (simp add: veto_call_def Let_def split_beta)
  have v: "length (snd (review_step env sr n y out (st, xs))) \<le> Suc (length xs)" for n y out st xs
    by (simp add: review_step_def Let_def split_beta split: option.split)
  have d: "length (snd (decided_step env sr ms n y (st, xs))) \<le> Suc (length xs)" for n y st xs
    by (simp add: decided_step_def Let_def v)
  show "length (snd (judge env sr ms ids bcc x)) \<le> Suc (length (snd bcc))"
    by (cases bcc) (simp add: judge_def Let_def d)
qed

lemma max_new_bound: "0 < pr_MaxNewPositionsPerCycle (uc_PortfolioRisk cfg) \<Longrightarrow>
    max_new_positions cfg sr n \<le> pr_MaxNewPositionsPerCycle (uc_PortfolioRisk cfg)"
  using wrap64_pred [of "pr_MaxNewPositionsPerCycle (uc_PortfolioRisk cfg) - 1"]
  by (auto simp: max_new_positions_def ComputeReduceNewPositions_def Let_def)

lemma run_phases_executions:
  assumes "cr_Executions (cs_result st) = 0" and r_def: "r = cs_result (run_phases env sr ms ids chosen st)"
    and limit_def: "limit = pr_MaxNewPositionsPerCycle (uc_PortfolioRisk (sh_cfg (cs_sched st)))"
  shows "0 \<le> cr_Executions r" "cr_Executions r \<le> int (length chosen)" "0 < limit \<Longrightarrow> cr_Executions r \<le> limit"
proof -
  obtain st1 items where a: "foldl (examine env sr ms) (st, []) (enumerate 0 chosen) = (st1, items)" by fastforce
  obtain st2 items2 where b: "foldl (veto_call env) (st1, []) items = (st2, items2)" by fastforce
  obtain st3 approved where c: "foldl (judge env sr ms ids) (st2, []) items2 = (st3, approved)" by fastforce
  have f1: "fixed_until_execution (st1, items) = fixed_until_execution (st, [] :: cycle_candidate list)"
    using examining_frame.fold_keeps [of env sr ms "(st, [])" "enumerate 0 chosen"] by (simp add: a)
  have f2: "fixed_until_execution (st2, items2) = fixed_until_execution (st1, [] :: cycle_candidate list)"
    using vetoing_frame.fold_keeps [of env "(st1, [])" items] by (simp add: b)
  have f3: "fixed_until_execution (st3, approved) = fixed_until_execution (st2, [] :: risk_candidate list)"
    using judging_frame.fold_keeps [of env sr ms ids "(st2, [])" items2] by (simp add: c)
  have zero: "cr_Executions (cs_result st3) = 0" and cfg: "sh_cfg (cs_sched st3) = sh_cfg (cs_sched st)"
    using f1 f2 f3 assms(1) by (simp_all add: fixed_until_execution_def fixed_part_def)
  let ?n = "max_new_positions (sh_cfg (cs_sched st3)) sr (length approved)"
  have e: "cr_Executions r = cr_Executions (cs_result (foldl (execute_item env sr ms (max 0 ?n)) st3
      (enumerate 0 (rank_approved approved))))"
    unfolding r_def by (simp add: run_phases_def a b c Let_def zero add_codes_def end_cycle_def)
  show "0 \<le> cr_Executions r"
    using executions_fold [of st3 env sr ms "max 0 ?n" 0 "rank_approved approved"] by (simp add: e zero)
  show "0 < limit \<Longrightarrow> cr_Executions r \<le> limit"
    using executions_fold [of st3 env sr ms "max 0 ?n" 0 "rank_approved approved"]
      max_new_bound [of "sh_cfg (cs_sched st3)" sr "length approved"]
    by (auto simp: e zero cfg limit_def max_def split: if_splits)
  have "length items \<le> length chosen" "length items2 \<le> length items" "length approved \<le> length items2"
    using fold_length [of "examine env sr ms" "(st, [])" "enumerate 0 chosen"] fold_length [of "veto_call env" "(st1, [])" items]
      fold_length [of "judge env sr ms ids" "(st2, [])" items2] by (simp_all add: a b c phase_lengths)
  then show "cr_Executions r \<le> int (length chosen)"
    using executions_fold [of st3 env sr ms "max 0 ?n" 0 "rank_approved approved"] by (simp add: e zero)
qed

lemma set_cap_cases:
  "0 \<le> fst eff \<Longrightarrow> 0 \<le> fst (set_cap eff c) \<and> (0 < fst eff \<longrightarrow> 0 < fst (set_cap eff c) \<and> fst (set_cap eff c) \<le> fst eff) \<and>
    (0 < fst c \<longrightarrow> 0 < fst (set_cap eff c) \<and> fst (set_cap eff c) \<le> fst c)"
  by (auto simp: set_cap_def)

lemma effective_cap_bound:
  fixes cfg :: llm_routing_config and calls :: int
  defines "e \<equiv> fst (effective_cap cfg calls)"
  shows "0 < lr_HardCapCandidatesPerCycle cfg \<Longrightarrow> 0 < e \<and> e \<le> lr_HardCapCandidatesPerCycle cfg"
    and "0 < lr_MaxCallsPerCycle cfg \<Longrightarrow> 0 < e \<and> e \<le> lr_MaxCallsPerCycle cfg"
    and "0 < lr_MaxCallsPerDay cfg \<Longrightarrow> calls < lr_MaxCallsPerDay cfg \<Longrightarrow> 0 < e \<and> e \<le> lr_MaxCallsPerDay cfg - calls"
proof -
  define a where "a = set_cap (0, ''LLM_HARD_CAP'') (lr_HardCapCandidatesPerCycle cfg, ''LLM_HARD_CAP'')"
  define b where "b = set_cap a (lr_MaxCallsPerCycle cfg, ''LLM_CALL_CAP_PER_CYCLE'')"
  define c where "c = set_cap b (lr_MaxCallsPerDay cfg - calls, ''LLM_CALL_CAP_PER_DAY'')"
  note x = set_cap_cases [of "(0, ''LLM_HARD_CAP'')" "(lr_HardCapCandidatesPerCycle cfg, ''LLM_HARD_CAP'')", folded a_def, simplified]
  note y = set_cap_cases [of a "(lr_MaxCallsPerCycle cfg, ''LLM_CALL_CAP_PER_CYCLE'')", folded b_def, simplified]
  note z = set_cap_cases [of b "(lr_MaxCallsPerDay cfg - calls, ''LLM_CALL_CAP_PER_DAY'')", folded c_def, simplified]
  have e: "e = (if 0 < lr_MaxCallsPerDay cfg then fst c else fst b)"
    by (simp add: e_def effective_cap_def a_def b_def c_def Let_def)
  show "0 < lr_HardCapCandidatesPerCycle cfg \<Longrightarrow> 0 < e \<and> e \<le> lr_HardCapCandidatesPerCycle cfg"
    "0 < lr_MaxCallsPerCycle cfg \<Longrightarrow> 0 < e \<and> e \<le> lr_MaxCallsPerCycle cfg"
    "0 < lr_MaxCallsPerDay cfg \<Longrightarrow> calls < lr_MaxCallsPerDay cfg \<Longrightarrow> 0 < e \<and> e \<le> lr_MaxCallsPerDay cfg - calls"
    using x y z by (auto simp: e split: if_splits)
qed

lemma caps_bound:
  assumes "applyLLMCaps today cs s = (s', chosen, skips)" and cfg_def: "cfg = uc_LLMRouting (sh_cfg s)"
  shows "0 < lr_HardCapCandidatesPerCycle cfg \<Longrightarrow> int (length chosen) \<le> lr_HardCapCandidatesPerCycle cfg"
    and "0 < lr_MaxCallsPerCycle cfg \<Longrightarrow> int (length chosen) \<le> lr_MaxCallsPerCycle cfg"
    and "0 < lr_MaxCallsPerDay cfg \<Longrightarrow>
      int (length chosen) \<le> max 0 (lr_MaxCallsPerDay cfg - sh_llmCallsToday (on_local_day today s))"
proof -
  let ?s = "on_local_day today s"
  note e = effective_cap_bound [of cfg "sh_llmCallsToday ?s"]
  have l: "chosen = cs \<and> (cs = [] \<or> fst (effective_cap cfg (sh_llmCallsToday ?s)) \<le> 0 \<and>
        \<not> (0 < lr_MaxCallsPerDay cfg \<and> lr_MaxCallsPerDay cfg \<le> sh_llmCallsToday ?s)) \<or>
      chosen = [] \<or>
      chosen = take (nat (fst (effective_cap cfg (sh_llmCallsToday ?s)))) (exchange_sort score_above cs) \<and>
        0 < fst (effective_cap cfg (sh_llmCallsToday ?s)) \<and>
        \<not> (0 < lr_MaxCallsPerDay cfg \<and> lr_MaxCallsPerDay cfg \<le> sh_llmCallsToday ?s)"
    using assms by (auto simp: applyLLMCaps_def split_beta Let_def cfg_def split: if_splits)
  show "0 < lr_HardCapCandidatesPerCycle cfg \<Longrightarrow> int (length chosen) \<le> lr_HardCapCandidatesPerCycle cfg"
    using l e(1) by auto
  show "0 < lr_MaxCallsPerCycle cfg \<Longrightarrow> int (length chosen) \<le> lr_MaxCallsPerCycle cfg"
    using l e(2) by auto
  show "0 < lr_MaxCallsPerDay cfg \<Longrightarrow>
      int (length chosen) \<le> max 0 (lr_MaxCallsPerDay cfg - sh_llmCallsToday ?s)"
    using l e(3) by auto
qed

section \<open>A cycle\<close>

lemma run_phases_fixed: "fixed_part (run_phases env sr ms ids chosen st) = fixed_part st"
proof -
  obtain st1 items where a: "foldl (examine env sr ms) (st, []) (enumerate 0 chosen) = (st1, items)" by fastforce
  obtain st2 items2 where b: "foldl (veto_call env) (st1, []) items = (st2, items2)" by fastforce
  obtain st3 approved where c: "foldl (judge env sr ms ids) (st2, []) items2 = (st3, approved)" by fastforce
  show ?thesis
    using examining_frame.fold_keeps [of env sr ms "(st, [])" "enumerate 0 chosen"]
      vetoing_frame.fold_keeps [of env "(st1, [])" items] judging_frame.fold_keeps [of env sr ms ids "(st2, [])" items2]
    by (simp add: run_phases_def a b c Let_def executing_frame.fold_keeps fixed_until_execution_def)
qed

lemma run_phases_complete: "''CYCLE_COMPLETE'' \<in> set (cr_ReasonCodes (cs_result (run_phases env sr ms ids chosen st)))"
  by (simp add: run_phases_def add_codes_def end_cycle_def Let_def split_beta)

definition fresh :: "cycle_state \<Rightarrow> bool" where
  "fresh st \<longleftrightarrow> cr_Skips (cs_result st) = [] \<and> cr_Executions (cs_result st) = 0 \<and>
    ''CYCLE_COMPLETE'' \<notin> set (cr_ReasonCodes (cs_result st))"

text \<open>A result that accounts for its candidates and respects the caps.\<close>

definition sound_result :: "user_config \<Rightarrow> cycle_result \<Rightarrow> bool" where
  "sound_result cfg r \<longleftrightarrow>
    (if ''CYCLE_COMPLETE'' \<in> set (cr_ReasonCodes r)
     then int (length (cr_Skips r)) + cr_Executions r = cr_Candidates r else cr_Executions r = 0) \<and>
    0 \<le> cr_Executions r \<and>
    list_all (\<lambda>cap. cap \<le> 0 \<or> cr_Executions r \<le> cap)
      [pr_MaxNewPositionsPerCycle (uc_PortfolioRisk cfg), lr_HardCapCandidatesPerCycle (uc_LLMRouting cfg),
       lr_MaxCallsPerCycle (uc_LLMRouting cfg)]"

lemma unexecuted_sound:
  "cr_Executions r = 0 \<Longrightarrow> ''CYCLE_COMPLETE'' \<notin> set (cr_ReasonCodes r) \<Longrightarrow> sound_result cfg r"
  by (auto simp: sound_result_def)

lemma caps_sched:
  assumes "applyLLMCaps today cs s = (s', chosen, skips)"
  shows "s' = s \<or> s' = on_local_day today s"
  using assms by (auto simp: applyLLMCaps_def split_beta Let_def split: if_splits)

lemma cycle_status_frame [simp]:
  "cs_sched (fst (cycle_status env st)) = cs_sched st" "cs_result (fst (cycle_status env st)) = cs_result st"
  by (simp_all add: cycle_status_def Let_def split: option.split prod.split sum.split)

lemma paper_check_frame [simp]:
  "cs_result (check_paper_positions env st) = cs_result st"
  "fixed_part (check_paper_positions env st) = fixed_part st"
proof -
  have "fixed_part (with_sched (\<lambda>x. x\<lparr>sh_sim := m\<rparr>) st') = fixed_part st'" for m st' by (simp add: fixed_part_def)
  then show "fixed_part (check_paper_positions env st) = fixed_part st"
    by (simp add: check_paper_positions_def split: option.split prod.split)
qed (simp add: check_paper_positions_def split: option.split prod.split)

lemma trade_candidates_sound:
  assumes "fresh st" "cr_Candidates (cs_result st) = int (length (sn_Candidates sr))"
    and out_def: "out = trade_candidates env sr ids st"
  shows "sound_result (sh_cfg (cs_sched st)) (cs_result out)" and "fixed_part out = fixed_part st"
proof -
  define st1 where "st1 = loadLLMUsage (ce_localDay env) (check_paper_positions env st)"
  obtain s chosen skips where caps: "applyLLMCaps (ce_localDay env) (sn_Candidates sr) (cs_sched st1) = (s, chosen, skips)"
    using prod_cases3 by blast
  define st2 where "st2 = with_result (\<lambda>r. r\<lparr>cr_Skips := cr_Skips r @ skips\<rparr>) (st1\<lparr>cs_sched := s\<rparr>)"
  obtain st3 ms where status: "cycle_status env st2 = (st3, ms)" by fastforce
  have f1: "fixed_part st1 = fixed_part st" by (simp add: st1_def)
  have f2: "fixed_part st2 = fixed_part st1"
    using caps_sched [OF caps] by (auto simp: st2_def fixed_part_def)
  have f3: "cs_sched st3 = cs_sched st2" "cs_result st3 = cs_result st2"
    using cycle_status_frame [of env st2] by (simp_all add: status)
  then have fx: "fixed_part st3 = fixed_part st" using f1 f2 by (simp add: fixed_part_def)
  have r: "cs_result st1 = cs_result st" by (simp add: st1_def)
  have zero: "cr_Executions (cs_result st3) = 0" and codes: "''CYCLE_COMPLETE'' \<notin> set (cr_ReasonCodes (cs_result st3))"
    and t: "tally st3 = int (length skips)"
    using assms(1) r by (simp_all add: f3 st2_def fresh_def tally_def)
  have out: "out = (case ms of None \<Rightarrow> end_cycle (ce_now env) (add_codes [''PAPER_STATE_UNAVAILABLE''] st3)
      | Some m \<Rightarrow> run_phases env sr m ids chosen st3)"
    by (simp add: out_def trade_candidates_def st1_def [symmetric] caps st2_def [symmetric] status Let_def
        split: option.split)
  have cfg: "sh_cfg (cs_sched st1) = sh_cfg (cs_sched st)" "sh_cfg (cs_sched st3) = sh_cfg (cs_sched st)"
    using f1 fx by (simp_all add: fixed_part_def)
  show "fixed_part out = fixed_part st" by (cases ms) (simp_all add: out fx run_phases_fixed)
  show "sound_result (sh_cfg (cs_sched st)) (cs_result out)"
  proof (cases ms)
    case None
    then show ?thesis using zero codes by (intro unexecuted_sound) (simp_all add: out add_codes_def end_cycle_def)
  next
    case (Some m)
    note e = run_phases_executions [OF zero refl refl, of env sr m ids chosen]
    have "fixed_part out = fixed_part st" using \<open>fixed_part out = fixed_part st\<close> .
    then have n: "cr_Candidates (cs_result out) = int (length (sn_Candidates sr))"
      using assms(2) by (simp add: fixed_part_def)
    have "tally out = cr_Candidates (cs_result out)"
      using run_phases_count [of env sr m ids chosen st3] caps_count [OF caps] n by (simp add: out Some t)
    moreover have "pr_MaxNewPositionsPerCycle (uc_PortfolioRisk (sh_cfg (cs_sched st))) \<le> 0 \<or>
        cr_Executions (cs_result out) \<le> pr_MaxNewPositionsPerCycle (uc_PortfolioRisk (sh_cfg (cs_sched st)))"
      using e(3) by (fastforce simp: out Some cfg)
    moreover have "lr_HardCapCandidatesPerCycle (uc_LLMRouting (sh_cfg (cs_sched st))) \<le> 0 \<or>
        cr_Executions (cs_result out) \<le> lr_HardCapCandidatesPerCycle (uc_LLMRouting (sh_cfg (cs_sched st)))"
      using e(2) caps_bound(1) [OF caps refl] by (fastforce simp: out Some cfg)
    moreover have "lr_MaxCallsPerCycle (uc_LLMRouting (sh_cfg (cs_sched st))) \<le> 0 \<or>
        cr_Executions (cs_result out) \<le> lr_MaxCallsPerCycle (uc_LLMRouting (sh_cfg (cs_sched st)))"
      using e(2) caps_bound(2) [OF caps refl] by (fastforce simp: out Some cfg)
    ultimately show ?thesis
      using e(1) run_phases_complete by (simp add: sound_result_def out Some tally_def)
  qed
qed

interpretation logging: framed_phase "\<lambda>st. (cs_result st, fixed_part st)" "log_non_eligible env sr" for env sr
  by unfold_locales (simp add: log_non_eligible_def Let_def)

text \<open>The monitor after a screen: in paper mode untouched, otherwise with its open positions checked, or untouched.\<close>

definition checked_monitor :: "cycle_env \<Rightarrow> string \<Rightarrow> position_monitor \<Rightarrow> position_monitor \<Rightarrow> bool" where
  "checked_monitor env mode m m' \<longleftrightarrow>
    m' = m \<or> mode \<noteq> ModePaper \<and> m' = CheckAllPositions (se_ord (ce_screen env)) (ce_now env) (ce_monitor env) m"

lemma after_screen_sound:
  assumes "fresh st" and out_def: "out = after_screen env sr st"
  shows "sound_result (sh_cfg (cs_sched st)) (cs_result out) \<and>
    checked_monitor env (sh_mode (cs_sched st)) (sh_monitor (cs_sched st)) (sh_monitor (cs_sched out)) \<and>
    sh_mode (cs_sched out) = sh_mode (cs_sched st) \<and> sh_cfg (cs_sched out) = sh_cfg (cs_sched st)"
proof (cases "ShouldCritical (sh_staleness (cs_sched st))")
  case True
  then show ?thesis
    using assms(1)
    by (simp add: out_def after_screen_def Let_def fresh_def add_codes_def end_cycle_def checked_monitor_def unexecuted_sound)
next
  case False
  define sr' where "sr' = sr\<lparr>sn_RegimeSnapshots :=
    map (\<lambda>kv. (fst kv, inject_staleness (sh_staleness (cs_sched st)) (snd kv))) (sn_RegimeSnapshots sr)\<rparr>"
  define st1 where "st1 = with_result (\<lambda>r. r\<lparr>cr_Candidates := int (length (sn_Candidates sr))\<rparr>) st"
  define st2 where "st2 = foldl (log_non_eligible env sr') st1 (sn_NonEligible sr)"
  define st3 where "st3 = (if IsPaper (sh_mode (cs_sched st2)) then st2 else
    with_sched (\<lambda>s. s\<lparr>sh_monitor := CheckAllPositions (se_ord (ce_screen env)) (ce_now env) (ce_monitor env) (sh_monitor s)\<rparr>) st2)"
  obtain st4 ids where p: "persistCandidates (sn_Candidates sr) (sn_NonEligible sr) st3 = (st4, ids)" by fastforce
  have c: "sn_Candidates sr' = sn_Candidates sr" "sn_NonEligible sr' = sn_NonEligible sr" by (simp_all add: sr'_def)
  have l: "cs_result st2 = cs_result st1" "fixed_part st2 = fixed_part st1"
    using logging.fold_keeps [of env sr' st1 "sn_NonEligible sr"] by (simp_all add: st2_def)
  have p4: "cs_sched st4 = cs_sched st3" "cs_result st4 = cs_result st3"
    using persist_frame [of "sn_Candidates sr" "sn_NonEligible sr" st3] by (simp_all add: p)
  have r: "cs_result st4 = (cs_result st)\<lparr>cr_Candidates := int (length (sn_Candidates sr))\<rparr>"
    by (simp add: p4 st3_def l st1_def)
  have s2: "sh_mode (cs_sched st2) = sh_mode (cs_sched st)" "sh_cfg (cs_sched st2) = sh_cfg (cs_sched st)"
    "sh_monitor (cs_sched st2) = sh_monitor (cs_sched st)"
    using l by (simp_all add: fixed_part_def st1_def)
  then have m: "sh_mode (cs_sched st4) = sh_mode (cs_sched st)" "sh_cfg (cs_sched st4) = sh_cfg (cs_sched st)"
    "checked_monitor env (sh_mode (cs_sched st)) (sh_monitor (cs_sched st)) (sh_monitor (cs_sched st4))"
    by (simp_all add: p4 st3_def checked_monitor_def IsPaper_def)
  have fresh4: "fresh st4" using assms(1) by (simp add: fresh_def r)
  have out: "out = (if sn_Candidates sr = [] then end_cycle (ce_now env) (add_codes (no_candidate_reasons sr') st4)
      else trade_candidates env sr' ids st4)"
    unfolding out_def after_screen_def Let_def
    by (simp only: False if_False sr'_def [symmetric] c st1_def [symmetric] st2_def [symmetric] st3_def [symmetric]
        p prod.case)
  show ?thesis
  proof (cases "sn_Candidates sr = []")
    case True
    then show ?thesis
      using m r assms(1) by (simp add: out sound_result_def add_codes_def end_cycle_def fresh_def linear)
  next
    case False
    have n: "cr_Candidates (cs_result st4) = int (length (sn_Candidates sr'))" by (simp add: r c)
    note t = trade_candidates_sound [OF fresh4 n refl, of env ids]
    from False t m show ?thesis by (simp add: out fixed_part_def)
  qed
qed

definition reset_monitor :: "cycle_env \<Rightarrow> scheduler \<Rightarrow> position_monitor" where
  "reset_monitor env s =
    (if sh_lastDailyResetDay s = Some (utc_day (ce_now env)) then sh_monitor s else ResetDaily (ce_now env) (sh_monitor s))"

lemma daily_reset_fields:
  "sh_monitor (checkDailyReset env s) = reset_monitor env s" "sh_mode (checkDailyReset env s) = sh_mode s"
  "sh_cfg (checkDailyReset env s) = sh_cfg s" "sh_staleness (checkDailyReset env s) = sh_staleness s"
  by (simp_all add: checkDailyReset_def reset_monitor_def Let_def)

lemma refresh_frame [simp]:
  "cs_sched (refresh_universe env st) = cs_sched st"
  "cr_Skips (cs_result (refresh_universe env st)) = cr_Skips (cs_result st)"
  "cr_Executions (cs_result (refresh_universe env st)) = cr_Executions (cs_result st)"
  "''CYCLE_COMPLETE'' \<in> set (cr_ReasonCodes (cs_result (refresh_universe env st))) \<longleftrightarrow>
    ''CYCLE_COMPLETE'' \<in> set (cr_ReasonCodes (cs_result st))"
  by (simp_all add: refresh_universe_def add_codes_def split: prod.split option.split)

lemma cycle_body_sound:
  assumes "fresh st" and out_def: "cycle_body env st = (out, err)"
  shows "sound_result (sh_cfg (cs_sched st)) (cs_result out) \<and>
    (if isHalted (cs_sched st) then sh_monitor (cs_sched out) = sh_monitor (cs_sched st)
     else checked_monitor env (sh_mode (cs_sched st)) (reset_monitor env (cs_sched st)) (sh_monitor (cs_sched out))) \<and>
    sh_mode (cs_sched out) = sh_mode (cs_sched st) \<and> sh_cfg (cs_sched out) = sh_cfg (cs_sched st)"
proof (cases "isHalted (cs_sched st)")
  case True
  then have "out = end_cycle (ce_now env) (add_codes [''BOT_HALTED''] st)" using out_def by (simp add: cycle_body_def)
  then show ?thesis
    using True assms(1) by (simp add: fresh_def add_codes_def end_cycle_def unexecuted_sound)
next
  case False
  define st1 where "st1 = refresh_universe env (with_sched (checkDailyReset env) st)"
  obtain s r where screen: "Screen (sh_cfg (cs_sched st1)) (ce_md env) (ce_screen env) (cr_CycleID (cs_result st1)) (cs_store st1)
    = (s, r)" by fastforce
  have f: "fresh (st1\<lparr>cs_store := s\<rparr>)" using assms(1) by (simp add: fresh_def st1_def)
  have fields: "sh_monitor (cs_sched st1) = reset_monitor env (cs_sched st)" "sh_mode (cs_sched st1) = sh_mode (cs_sched st)"
    "sh_cfg (cs_sched st1) = sh_cfg (cs_sched st)"
    by (simp_all add: st1_def daily_reset_fields)
  have out: "out = (case r of Inl e \<Rightarrow> end_cycle (ce_now env) (add_codes [''SCREEN_FAILED''] (st1\<lparr>cs_store := s\<rparr>))
      | Inr sr \<Rightarrow> after_screen env sr (st1\<lparr>cs_store := s\<rparr>))"
    using out_def False by (simp add: cycle_body_def Let_def st1_def [symmetric] screen split: sum.splits)
  show ?thesis
  proof (cases r)
    case (Inl e)
    then show ?thesis
      using False f fields
      by (simp add: out fresh_def add_codes_def end_cycle_def checked_monitor_def unexecuted_sound)
  next
    case (Inr sr)
    then show ?thesis
      using False fields after_screen_sound [OF f refl, of env sr] by (simp add: out)
  qed
qed

lemma RunOnce_busy: "sh_running s \<Longrightarrow> RunOnce env (s, db) = ((s, db), None, Some AlreadyRunning)"
  by (simp add: RunOnce_def)

lemma RunOnce_idle:
  assumes "\<not> sh_running s"
  obtains st and out :: cycle_state and err where "RunOnce env (s, db) =
      (((cs_sched out)\<lparr>sh_running := False\<rparr>, cs_store out), Some (cs_result out), map_option ScreenFailed err)"
    and "fresh st" and "sh_cfg (cs_sched st) = sh_cfg s" and "sh_mode (cs_sched st) = sh_mode s"
    and "sh_monitor (cs_sched st) = sh_monitor s" and "sh_lastDailyResetDay (cs_sched st) = sh_lastDailyResetDay s"
    and "sh_staleness (cs_sched st) = sh_staleness s" and "cr_Candidates (cs_result st) = 0"
    and "cs_sched out = cs_sched (fst (cycle_body env st))"
    and "cs_result out = (if IsZero (cr_EndedAt (cs_result (fst (cycle_body env st))))
      then (cs_result (fst (cycle_body env st)))\<lparr>cr_EndedAt := ce_now env\<rparr> else cs_result (fst (cycle_body env st)))"
proof -
  define st where "st = insertCycleRunning (cycle_id (sh_cycleSeq s + 1) (ce_stamp env)) (ce_now env)
    \<lparr> cs_sched = s\<lparr>sh_running := True, sh_cycleSeq := sh_cycleSeq s + 1\<rparr>, cs_store = db,
      cs_result = new_result (cycle_id (sh_cycleSeq s + 1) (ce_stamp env)) (ce_now env) \<rparr>"
  obtain b err where body: "cycle_body env st = (b, err)" by fastforce
  define out where "out = updateCycleFinal (err \<noteq> None)
    (if IsZero (cr_EndedAt (cs_result b)) then end_cycle (ce_now env) b else b)"
  show thesis
  proof (rule that)
    show "RunOnce env (s, db) =
      (((cs_sched out)\<lparr>sh_running := False\<rparr>, cs_store out), Some (cs_result out), map_option ScreenFailed err)"
      using assms by (simp add: RunOnce_def Let_def st_def [symmetric] body out_def)
    show "fresh st" by (simp add: st_def fresh_def new_result_def)
    show "cs_sched out = cs_sched (fst (cycle_body env st))"
      by (simp add: out_def body end_cycle_def)
    show "cs_result out = (if IsZero (cr_EndedAt (cs_result (fst (cycle_body env st))))
      then (cs_result (fst (cycle_body env st)))\<lparr>cr_EndedAt := ce_now env\<rparr> else cs_result (fst (cycle_body env st)))"
      by (simp add: out_def body end_cycle_def)
  qed (simp_all add: st_def new_result_def)
qed

lemma sound_result_ended [simp]: "sound_result cfg (r\<lparr>cr_EndedAt := t\<rparr>) = sound_result cfg r"
  by (simp add: sound_result_def)

text \<open>
  C37: a cycle accounts for every candidate. A completed cycle has as many skips and executions together as the
  screen had candidates; any other cycle executes nothing; and no cycle executes more than the configured new positions
  per cycle, than the hard cap of candidates or than the calls per cycle, where these are positive. A cycle has a result
  exactly when none was running at its start, and then none is running at its end; one that is started while
  another runs reports so and changes nothing.
\<close>

theorem cycle_accounts_for_candidates:
  "(case RunOnce env (s, db) of
      (w, None, err) \<Rightarrow> sh_running s \<and> w = (s, db) \<and> err = Some AlreadyRunning
    | (w, Some r, err) \<Rightarrow>
        \<not> sh_running s \<and> \<not> sh_running (fst w) \<and>
        (if ''CYCLE_COMPLETE'' \<in> set (cr_ReasonCodes r)
         then int (length (cr_Skips r)) + cr_Executions r = cr_Candidates r else cr_Executions r = 0) \<and>
        0 \<le> cr_Executions r \<and>
        list_all (\<lambda>cap. cap \<le> 0 \<or> cr_Executions r \<le> cap)
          [pr_MaxNewPositionsPerCycle (uc_PortfolioRisk (sh_cfg s)),
           lr_HardCapCandidatesPerCycle (uc_LLMRouting (sh_cfg s)), lr_MaxCallsPerCycle (uc_LLMRouting (sh_cfg s))])"
proof (cases "sh_running s")
  case True
  then show ?thesis by (simp add: RunOnce_busy)
next
  case False
  then show ?thesis
  proof (rule RunOnce_idle [where env = env and db = db])
    fix st and out :: cycle_state and err
    assume r: "RunOnce env (s, db) =
      (((cs_sched out)\<lparr>sh_running := False\<rparr>, cs_store out), Some (cs_result out), map_option ScreenFailed err)"
      and f: "fresh st" and cfg: "sh_cfg (cs_sched st) = sh_cfg s"
      and res: "cs_result out = (if IsZero (cr_EndedAt (cs_result (fst (cycle_body env st))))
      then (cs_result (fst (cycle_body env st)))\<lparr>cr_EndedAt := ce_now env\<rparr> else cs_result (fst (cycle_body env st)))"
    have "sound_result (sh_cfg s) (cs_result out)"
      using cycle_body_sound [OF f surjective_pairing, of env] by (simp add: res cfg)
    then show ?thesis unfolding r using \<open>\<not> sh_running s\<close> by (simp add: sound_result_def)
  qed
qed

text \<open>
  C35: a cycle places no order with the broker. Whatever the mode and whatever is decided, the monitor and
  the broker in it are at the end as they were at the start but for the daily reset, on a day not seen before and when
  the bot is not halted, and the check of the open positions against their protective orders, which paper mode
  leaves to the simulator. The mode and the configuration stay.
\<close>

theorem cycle_places_no_orders:
  "(let s' = fst (fst (RunOnce env (s, db))); m = sh_monitor s; now = ce_now env;
        m1 = (if sh_running s \<or> monitor_IsHalted m \<or> sh_lastDailyResetDay s = Some (utc_day now) then m
              else ResetDaily now m)
    in (sh_monitor s' = m1 \<or>
        sh_mode s \<noteq> ModePaper \<and> \<not> monitor_IsHalted m \<and>
        sh_monitor s' = CheckAllPositions (se_ord (ce_screen env)) now (ce_monitor env) m1) \<and>
       sh_mode s' = sh_mode s \<and> sh_cfg s' = sh_cfg s)"
proof (cases "sh_running s")
  case True
  then show ?thesis by (simp add: RunOnce_busy)
next
  case False
  then show ?thesis
  proof (rule RunOnce_idle [where env = env and db = db])
    fix st and out :: cycle_state and err
    assume r: "RunOnce env (s, db) =
      (((cs_sched out)\<lparr>sh_running := False\<rparr>, cs_store out), Some (cs_result out), map_option ScreenFailed err)"
      and f: "fresh st" and fields: "sh_cfg (cs_sched st) = sh_cfg s" "sh_mode (cs_sched st) = sh_mode s"
        "sh_monitor (cs_sched st) = sh_monitor s" "sh_lastDailyResetDay (cs_sched st) = sh_lastDailyResetDay s"
      and sched: "cs_sched out = cs_sched (fst (cycle_body env st))"
    show ?thesis
      using cycle_body_sound [OF f surjective_pairing, of env] False
      by (auto simp: r sched fields isHalted_def reset_monitor_def checked_monitor_def Let_def split: if_splits)
  qed
qed

section \<open>A feed that has become critical\<close>

lemma critical_body:
  assumes "ShouldCritical (sh_staleness (cs_sched st))" "fresh st" "cr_Candidates (cs_result st) = 0"
    and out_def: "out = fst (cycle_body env st)"
  shows "sh_staleness (cs_sched out) = sh_staleness (cs_sched st) \<and> cr_Executions (cs_result out) = 0 \<and>
    cr_Candidates (cs_result out) = 0"
proof -
  have n: "cr_Candidates (cs_result (refresh_universe env st')) = cr_Candidates (cs_result st')" for st'
    by (simp add: refresh_universe_def add_codes_def split: prod.split option.split)
  show ?thesis
    using assms(1-3)
    by (simp add: out_def cycle_body_def Let_def after_screen_def daily_reset_fields add_codes_def end_cycle_def fresh_def n
        split: prod.split sum.split)
qed

lemma critical_cycle:
  assumes "ShouldCritical (sh_staleness (fst w))"
  shows "sh_staleness (fst (fst (RunOnce env w))) = sh_staleness (fst w) \<and>
    pred_option (\<lambda>r. cr_Candidates r = 0 \<and> cr_Executions r = 0) (fst (snd (RunOnce env w)))"
proof -
  obtain s db where w: "w = (s, db)" by fastforce
  show ?thesis
  proof (cases "sh_running s")
    case True
    then show ?thesis by (simp add: w RunOnce_busy)
  next
    case False
    then show ?thesis
    proof (rule RunOnce_idle [where env = env and db = db])
      fix st and out :: cycle_state and err
      assume r: "RunOnce env (s, db) =
        (((cs_sched out)\<lparr>sh_running := False\<rparr>, cs_store out), Some (cs_result out), map_option ScreenFailed err)"
        and f: "fresh st" "sh_staleness (cs_sched st) = sh_staleness s" "cr_Candidates (cs_result st) = 0"
        and o: "cs_sched out = cs_sched (fst (cycle_body env st))"
          "cs_result out = (if IsZero (cr_EndedAt (cs_result (fst (cycle_body env st))))
            then (cs_result (fst (cycle_body env st)))\<lparr>cr_EndedAt := ce_now env\<rparr> else cs_result (fst (cycle_body env st)))"
      show ?thesis
        using critical_body [OF _ f(1,3) refl, of env] f assms by (simp add: w r o)
    qed
  qed
qed

text \<open>
  C38: once the tracker of the BTC candles has reached its critical count, it keeps it for good: whatever cycles run
  afterwards and whatever the market data then say, every later cycle ends without candidates and executions, since
  only a cycle that gets past this check asks for the candles again.
\<close>

theorem critical_staleness_is_permanent:
  assumes "ShouldCritical (sh_staleness s)"
  shows "\<forall>first ticks env. let w = scheduler_Run first ticks (s, db) in
    sh_staleness (fst w) = sh_staleness s \<and>
    pred_option (\<lambda>r. cr_Candidates r = 0 \<and> cr_Executions r = 0) (fst (snd (RunOnce env w)))"
proof -
  have run: "sh_staleness (fst (foldl (\<lambda>w env. fst (RunOnce env w)) w envs)) = sh_staleness (fst w)"
    if "ShouldCritical (sh_staleness (fst w))" for w envs
    using that by (induction envs arbitrary: w) (simp_all add: critical_cycle)
  have keep: "sh_staleness (fst (scheduler_Run first ticks (s, db))) = sh_staleness s" for first ticks
    using run [of "(s, db)" "first # ticks"] assms by (simp only: scheduler_Run_def fst_conv)
  show ?thesis using critical_cycle assms by (simp add: Let_def keep)
qed

definition demo_scheduler :: scheduler where
  "demo_scheduler =
    NewScheduler demo_user_config
      (NewScanner (uc_Universe demo_user_config) (uc_Strategy demo_user_config) (uc_LLMRouting demo_user_config) (Fin 100))
      (NewOpenRouterClient (uc_LLM demo_user_config)) (NewSafetyEngine demo_user_config)
      (NewMonitor (NewPaperBroker demo_paper_config) (uc_PortfolioRisk demo_user_config))"

definition stale_scheduler :: scheduler where
  "stale_scheduler = demo_scheduler\<lparr>sh_staleness := \<lparr> st_counter = 9, st_cfg = \<lparr> sl_WarnCycles = 3, sl_CriticalCycles = 9 \<rparr> \<rparr>\<rparr>"

lemma critical_staleness_is_permanent_witness:
  "\<forall>first ticks env. let w = scheduler_Run first ticks (stale_scheduler, empty_store []) in
    st_counter (sh_staleness (fst w)) = 9 \<and>
    pred_option (\<lambda>r. cr_Candidates r = 0 \<and> cr_Executions r = 0) (fst (snd (RunOnce env w)))"
proof -
  have "ShouldCritical (sh_staleness stale_scheduler)" by (simp add: stale_scheduler_def ShouldCritical_def)
  from critical_staleness_is_permanent [OF this, of "empty_store []"] show ?thesis
    by (simp add: Let_def stale_scheduler_def)
qed

section \<open>Caps on candidates\<close>

text \<open>
  C39: the caps on the candidates of a cycle. Those that go on and those that are skipped are together the candidates
  that came in, and as many go on as the hard cap, the calls per cycle and the calls left for the day allow at
  most, where these are configured.
\<close>

theorem caps_hold:
  "(let (s', chosen, skips) = applyLLMCaps today cs s; cfg = uc_LLMRouting (sh_cfg s)
    in mset (map t_Symbol chosen) + mset (map fst skips) = mset (map t_Symbol cs) \<and>
       (lr_HardCapCandidatesPerCycle cfg \<le> 0 \<or> int (length chosen) \<le> lr_HardCapCandidatesPerCycle cfg) \<and>
       (lr_MaxCallsPerCycle cfg \<le> 0 \<or> int (length chosen) \<le> lr_MaxCallsPerCycle cfg) \<and>
       (lr_MaxCallsPerDay cfg \<le> 0 \<or>
        int (length chosen) \<le> max 0 (lr_MaxCallsPerDay cfg -
          (if sh_llmCallsDate s = Some today then sh_llmCallsToday s else 0))))"
proof -
  obtain s' chosen skips where caps: "applyLLMCaps today cs s = (s', chosen, skips)" using prod_cases3 by blast
  have calls: "sh_llmCallsToday (on_local_day today s) = (if sh_llmCallsDate s = Some today then sh_llmCallsToday s else 0)"
    by (simp add: on_local_day_def)
  have split: "image_mset t_Symbol (mset (take n xs)) + image_mset t_Symbol (mset (drop n xs)) = image_mset t_Symbol (mset xs)"
    for n and xs :: "candidate list"
    by (metis append_take_drop_id image_mset_union mset_append)
  have firsts: "image_mset fst {#(t_Symbol c, k). c \<in># M#} = image_mset t_Symbol M" for k :: string and M :: "candidate multiset"
    by (simp add: multiset.map_comp comp_def)
  have "mset (map t_Symbol chosen) + mset (map fst skips) = mset (map t_Symbol cs)"
    using caps
    by (auto simp: applyLLMCaps_def split_beta Let_def firsts split split: if_splits)
  then show ?thesis
    using caps_bound [OF caps refl] unfolding caps calls Let_def prod.case by fastforce
qed

section \<open>The cooldown after losses\<close>

text \<open>A cooldown that has run out is not set again while the losing streak goes on: it is cleared by a win only.\<close>

lemma cooldown_set_once:
  "sh_cooldownUntil s = Some t \<Longrightarrow> sh_consecutiveLosses s \<noteq> 0 \<Longrightarrow> sh_cooldownUntil (update_cooldown now s) = Some t"
  by (simp add: update_cooldown_def Let_def)

section \<open>What has no effect\<close>

text \<open>The reviewer's reduction or retest-only verdict leaves the approved candidate as the risk engine sized it.\<close>

lemma reviewer_reduction_ignored:
  assumes "runLLMReview env sr (cc_cand x) out (cc_setupTF x) st = (st', Some verdict)"
    and "out_Action verdict = ''REDUCE_SIZE'' \<or> out_Action verdict = ''APPROVE_RETEST_ONLY''"
  shows "review_step env sr n x out (st, approved) =
    (st', approved @ [\<lparr> ri_cand = cc_cand x, ri_output = out, ri_id = n, ri_price = cc_price x, ri_ob = cc_ob x \<rparr>])"
  using assms by (auto simp: review_step_def)

lemma blocks_are_not_logged:
  "ToDomain uuid now (WithBlocksTriggered J blocks f) = ToDomain uuid now f"
  by (simp add: ToDomain_def WithBlocksTriggered_def fun_eq_iff)

end
