(* ===== verification/Rehydrate.thy ===== *)
theory Rehydrate
  imports Broker Store
begin

text \<open>
  The restart of the paper broker (\<open>Rehydrate\<close> of \<open>internal/broker/paper.go\<close>): open positions, open orders and
  the latest account snapshot are read back from the tables, and a position without a resting stop order gets a new
  one. Here the repositories are set, so the writes act on the \<open>store\<close>; the flags say which of them are wired.
\<close>

section \<open>Loading\<close>

datatype rehydrate_error =
    LoadOpenPositions db_error
  | LoadOpenOrders db_error
  | LoadAccountSnapshot db_error
  | NoPersistedStopLoss string
  | PersistedStopWrongSide side string f64 f64
  | UpdateRehydratedOrder string db_error
  | RepairFailed string

text \<open>The text of the errors that halt the broker, without the printed prices.\<close>

definition rehydrate_text :: "rehydrate_error \<Rightarrow> string" where
  "rehydrate_text e =
    (case e of
       NoPersistedStopLoss symbol \<Rightarrow> ''persisted open position '' @ symbol @ '' has no stop loss''
     | PersistedStopWrongSide sd symbol _ _ \<Rightarrow>
         (if sd = SideLong then ''persisted LONG position '' else ''persisted SHORT position '')
         @ symbol @ '' has stop loss''
     | RepairFailed symbol \<Rightarrow> ''failed to repair protective stop for '' @ symbol
     | _ \<Rightarrow> '''')"

definition maxInt64 :: "int \<Rightarrow> int \<Rightarrow> int" where
  "maxInt64 a b = (if b < a then a else b)"

definition validatePositionStopLoss :: "position \<Rightarrow> rehydrate_error option" where
  "validatePositionStopLoss pos =
    (if p_Side pos = SideLong \<and> p_EntryPrice pos \<le> p_StopLoss pos then
       Some (PersistedStopWrongSide SideLong (p_Symbol pos) (p_StopLoss pos) (p_EntryPrice pos))
     else if p_Side pos = SideShort \<and> p_StopLoss pos \<le> p_EntryPrice pos then
       Some (PersistedStopWrongSide SideShort (p_Symbol pos) (p_StopLoss pos) (p_EntryPrice pos))
     else None)"

text \<open>The loop over the open positions: next identifier, used margin, and the map by symbol.\<close>

fun load_positions ::
  "position list \<Rightarrow> int \<Rightarrow> f64 \<Rightarrow> position gomap \<Rightarrow> rehydrate_error + int \<times> f64 \<times> position gomap" where
  "load_positions [] n m ps = Inr (n, m, ps)"
| "load_positions (p # rest) n m ps =
    (if p_StopLoss p \<le> Fin 0 then Inl (NoPersistedStopLoss (p_Symbol p))
     else case validatePositionStopLoss p of
            Some e \<Rightarrow> Inl e
          | None \<Rightarrow> load_positions rest (if n \<le> p_ID p then p_ID p + 1 else n) (m + p_Margin p)
                      (AList.update (p_Symbol p) p ps))"

definition with_broker_id :: "broker_order \<Rightarrow> broker_order" where
  "with_broker_id o' =
    (if o_BrokerOrderID o' = '''' then o'\<lparr>o_BrokerOrderID := ''paper-db-'' @ show_int (o_ID o')\<rparr> else o')"

definition naked_limit :: "broker_order \<Rightarrow> bool" where
  "naked_limit o' \<longleftrightarrow> o_OrderType o' = OrderTypeLimit \<and> o_IntendedSL o' \<le> Fin 0"

text \<open>The loop over the open orders: next identifier, the map by broker identifier, and the rows to be rewritten.\<close>

fun load_orders ::
  "time \<Rightarrow> broker_order list \<Rightarrow> int \<Rightarrow> broker_order gomap \<Rightarrow> broker_order list
   \<Rightarrow> int \<times> broker_order gomap \<times> broker_order list" where
  "load_orders now [] n os up = (n, os, up)"
| "load_orders now (o' # rest) n os up =
    (let n' = (if n \<le> o_ID o' then o_ID o' + 1 else n);
         o1 = with_broker_id o';
         up1 = (if o_BrokerOrderID o' = '''' then up @ [o1] else up)
     in if naked_limit o1 then
          load_orders now rest n' os (up1 @ [o1\<lparr>o_Status := OrderStatusCancelled, o_UpdatedAt := now\<rparr>])
        else load_orders now rest n' (AList.update (o_BrokerOrderID o1) o1 os) up1)"

fun update_orders :: "broker_order list \<Rightarrow> store \<Rightarrow> store \<times> rehydrate_error option" where
  "update_orders [] s = (s, None)"
| "update_orders (o' # rest) s =
    (case order_Update o' s of
       (s', Inl e) \<Rightarrow> (s', Some (UpdateRehydratedOrder (o_BrokerOrderID o') e))
     | (s', Inr _) \<Rightarrow> update_orders rest s')"

definition restore_account :: "account_state option \<Rightarrow> paper_broker \<Rightarrow> paper_broker" where
  "restore_account snapshot pb =
    (case snapshot of
       None \<Rightarrow> pb
     | Some a \<Rightarrow>
         pb\<lparr>pb_balance := a_Balance a, pb_realizedPnL := a_RealizedPnL a, pb_unrealizedPnL := a_UnrealizedPnL a,
            pb_totalFees := a_TotalFees a, pb_totalSlippage := a_TotalSlippage a,
            pb_dailyLoss := a_DailyLoss a\<rparr>)"

section \<open>Repairing\<close>

definition pending_stop :: "string \<Rightarrow> broker_order \<Rightarrow> bool" where
  "pending_stop symbol o' \<longleftrightarrow>
    o_Symbol o' = symbol \<and> o_OrderType o' = OrderTypeStopMarket \<and> o_Status o' = OrderStatusPending"

definition hasOpenStopOrderLocked :: "paper_broker \<Rightarrow> string \<Rightarrow> bool" where
  "hasOpenStopOrderLocked pb symbol \<longleftrightarrow>
    list_ex (\<lambda>k. case map_of (pb_openOrders pb) k of None \<Rightarrow> False | Some o' \<Rightarrow> pending_stop symbol o')
      (map fst (pb_openOrders pb))"

definition protective_of :: "position \<Rightarrow> broker_order \<Rightarrow> bool" where
  "protective_of pos o' \<longleftrightarrow>
    o_Symbol o' = p_Symbol pos \<and>
    (o_OrderType o' = OrderTypeStopMarket \<or> o_OrderType o' = OrderTypeTakeProfitMarket) \<and>
    (p_SLOrderID pos = Some (o_ID o') \<or> p_TPOrderID pos = Some (o_ID o'))"

text \<open>
  \<open>saveOrder\<close> writes the row's key into the order. A position that was just given this order points at the order's
  identifier, so that it changes with it; \<open>sl\<close> and \<open>tp\<close> are the keys of those orders.
\<close>

definition follow_ids ::
  "string option \<Rightarrow> string option \<Rightarrow> string \<Rightarrow> int \<Rightarrow> position \<Rightarrow> position" where
  "follow_ids sl tp k i pos =
    pos\<lparr>p_SLOrderID := (if sl = Some k then Some i else p_SLOrderID pos),
        p_TPOrderID := (if tp = Some k then Some i else p_TPOrderID pos)\<rparr>"

definition saveOrder ::
  "string option \<Rightarrow> string option \<Rightarrow> position \<Rightarrow> string \<Rightarrow> broker_order \<Rightarrow> paper_broker \<times> store
   \<Rightarrow> paper_broker \<times> store" where
  "saveOrder sl tp pos k o' st =
    (case order_Insert o' (snd st) of
       (s', Inl _) \<Rightarrow> (fst st, s')
     | (s', Inr i) \<Rightarrow>
         (put_position (follow_ids sl tp k i pos)
            ((fst st)\<lparr>pb_openOrders := AList.update k (o'\<lparr>o_ID := i\<rparr>) (pb_openOrders (fst st))\<rparr>), s'))"

definition saveProtectiveOrdersForPosition ::
  "string list \<Rightarrow> string option \<Rightarrow> string option \<Rightarrow> string \<Rightarrow> paper_broker \<times> store \<Rightarrow> paper_broker \<times> store" where
  "saveProtectiveOrdersForPosition ord sl tp symbol st =
    range_map (pb_openOrders \<circ> fst)
      (\<lambda>k o' st.
        case map_of (pb_openPositions (fst st)) symbol of
          None \<Rightarrow> st
        | Some pos \<Rightarrow> if protective_of pos o' then saveOrder sl tp pos k o' st else st)
      (iter_keys ord (pb_openOrders (fst st))) st"

definition updatePositionInDB :: "string \<Rightarrow> paper_broker \<times> store \<Rightarrow> paper_broker \<times> store" where
  "updatePositionInDB symbol st =
    (case map_of (pb_openPositions (fst st)) symbol of
       None \<Rightarrow> st
     | Some pos \<Rightarrow> (fst st, fst (position_Update pos (snd st))))"

definition repair_position ::
  "string list \<Rightarrow> time \<Rightarrow> position \<Rightarrow> paper_broker \<times> store \<Rightarrow> (paper_broker \<times> store) \<times> bool" where
  "repair_position ord now pos st =
    (let n = pb_nextOrderID (fst st);
         (pb1, _, ok) = createProtectiveOrdersForPosition ord now pos (p_StopLoss pos) (p_TakeProfit pos) (fst st);
         sl = (if Fin 0 < p_StopLoss pos then Some (paper_key n) else None);
         tp = (if Fin 0 < p_TakeProfit pos \<and> \<not> invalid_TP_side pos (p_TakeProfit pos)
               then Some (paper_key (pb_nextOrderID pb1 - 1)) else None)
     in if \<not> ok then ((pb1, snd st), False)
        else (updatePositionInDB (p_Symbol pos)
                (saveProtectiveOrdersForPosition ord sl tp (p_Symbol pos) (pb1, snd st)), True))"

fun repair_positions ::
  "string list \<Rightarrow> time \<Rightarrow> string list \<Rightarrow> paper_broker \<times> store \<Rightarrow> (paper_broker \<times> store) \<times> rehydrate_error option" where
  "repair_positions ord now [] st = (st, None)"
| "repair_positions ord now (k # ks) st =
    (case map_of (pb_openPositions (fst st)) k of
       None \<Rightarrow> repair_positions ord now ks st
     | Some pos \<Rightarrow>
         if hasOpenStopOrderLocked (fst st) (p_Symbol pos) then repair_positions ord now ks st
         else case repair_position ord now pos st of
                (st', True) \<Rightarrow> repair_positions ord now ks st'
              | (st', False) \<Rightarrow>
                  ((SetHalted (rehydrate_text (RepairFailed (p_Symbol pos))) (fst st'), snd st'),
                   Some (RepairFailed (p_Symbol pos))))"

section \<open>Rehydrate\<close>

text \<open>The state that is swapped in once everything has been read.\<close>

definition adopt ::
  "account_state option \<Rightarrow> int \<times> f64 \<times> position gomap \<Rightarrow> int \<times> broker_order gomap \<Rightarrow> paper_broker \<Rightarrow> paper_broker" where
  "adopt snapshot loaded orders pb =
    (case loaded of (nextPositionID, usedMargin, positions) \<Rightarrow>
       (restore_account snapshot pb)
         \<lparr>pb_usedMargin := usedMargin, pb_openPositions := positions, pb_openOrders := snd orders,
          pb_nextOrderID := maxInt64 (fst orders) (pb_nextOrderID pb),
          pb_nextPositionID := maxInt64 nextPositionID (pb_nextPositionID pb)\<rparr>)"

definition load_snapshot :: "bool \<Rightarrow> account_state option io" where
  "load_snapshot hasSnapRepo s = (if hasSnapRepo then snapshot_GetLatest s else (s, Inr None))"

definition Rehydrate ::
  "bool \<Rightarrow> bool \<Rightarrow> bool \<Rightarrow> string list \<Rightarrow> time \<Rightarrow> paper_broker \<times> store
   \<Rightarrow> (paper_broker \<times> store) \<times> rehydrate_error option" where
  "Rehydrate hasPosRepo hasOrdRepo hasSnapRepo ord now st =
    (if \<not> hasPosRepo \<or> \<not> hasOrdRepo then (st, None)
     else case position_GetOpen (snd st) of
       (s1, Inl e) \<Rightarrow> ((fst st, s1), Some (LoadOpenPositions e))
     | (s1, Inr positions) \<Rightarrow>
         (case order_GetOpen s1 of
            (s2, Inl e) \<Rightarrow> ((fst st, s2), Some (LoadOpenOrders e))
          | (s2, Inr orders) \<Rightarrow>
              (case load_snapshot hasSnapRepo s2 of
                 (s3, Inl e) \<Rightarrow> ((fst st, s3), Some (LoadAccountSnapshot e))
               | (s3, Inr snapshot) \<Rightarrow>
                   (case load_positions positions 1 (Fin 0) [] of
                      Inl e \<Rightarrow> ((SetHalted (rehydrate_text e) (fst st), s3), Some e)
                    | Inr loaded \<Rightarrow>
                        (case load_orders now orders 1 [] [] of (nextOrderID, openOrders, up) \<Rightarrow>
                           (case update_orders up s3 of
                              (s4, Some e) \<Rightarrow> ((fst st, s4), Some e)
                            | (s4, None) \<Rightarrow>
                                (let pb1 = adopt snapshot loaded (nextOrderID, openOrders) (fst st)
                                 in repair_positions ord now (iter_keys ord (pb_openPositions pb1)) (pb1, s4))))))))"

end
