(* ===== verification/RehydrateSpec.thy ===== *)
theory RehydrateSpec
  imports Rehydrate BrokerInv
begin

text \<open>
  What a restart of the paper broker guarantees: every position that is read back has a resting stop order again, an
  error leaves the account as it was, and where a repaired order can take the place of a stored one.
\<close>

section \<open>Stops and free keys\<close>


definition free_keys :: "paper_broker \<Rightarrow> bool" where
  "free_keys pb \<longleftrightarrow> 0 \<le> pb_nextOrderID pb \<and> (\<forall>i\<ge>pb_nextOrderID pb. map_of (pb_openOrders pb) (paper_key i) = None)"

definition same_trade :: "position \<Rightarrow> position \<Rightarrow> bool" where
  "same_trade p q \<longleftrightarrow> q\<lparr>p_SLOrderID := None, p_TPOrderID := None\<rparr> = p\<lparr>p_SLOrderID := None, p_TPOrderID := None\<rparr>"

lemma same_trade_refl [simp]: "same_trade p p"
  by (simp add: same_trade_def)


lemma same_trade_ids [simp]:
  "same_trade p (p\<lparr>p_SLOrderID := a\<rparr>)" "same_trade p (p\<lparr>p_TPOrderID := b\<rparr>)"
  "same_trade p (p\<lparr>p_SLOrderID := a, p_TPOrderID := b\<rparr>)" "same_trade p (follow_ids sl tp k i p)"
  by (simp_all add: same_trade_def follow_ids_def)


text \<open>What the repairs may do to the broker: add orders and change the order identifiers of positions.\<close>

definition repaired :: "paper_broker \<Rightarrow> paper_broker \<Rightarrow> bool" where
  "repaired pb pb' \<longleftrightarrow>
    (free_keys pb \<longrightarrow> free_keys pb' \<and> (\<forall>symbol. hasOpenStopOrderLocked pb symbol \<longrightarrow> hasOpenStopOrderLocked pb' symbol)) \<and>
    (\<forall>k. map_of (pb_openPositions pb') k = None \<longleftrightarrow> map_of (pb_openPositions pb) k = None) \<and>
    (\<forall>k p q. map_of (pb_openPositions pb) k = Some p \<longrightarrow> map_of (pb_openPositions pb') k = Some q \<longrightarrow> same_trade p q) \<and>
    pb_halted pb' = pb_halted pb \<and> pb_usedMargin pb' = pb_usedMargin pb \<and> pb_balance pb' = pb_balance pb"

lemma repaired_refl [simp]: "repaired pb pb"
  by (simp add: repaired_def)







section \<open>A repair adds a stop\<close>

lemma has_stop_put_position [simp]: "hasOpenStopOrderLocked (put_position q pb) s \<longleftrightarrow> hasOpenStopOrderLocked pb s"
  by (simp add: put_position_def hasOpenStopOrderLocked_def)






lemma fst_updatePositionInDB [simp]: "fst (updatePositionInDB s st) = fst st"
  by (simp add: updatePositionInDB_def split: option.split)






section \<open>What is read back\<close>








definition ids_behind_rows :: "store \<Rightarrow> bool" where
  "ids_behind_rows s \<longleftrightarrow>
    (\<forall>r\<in>set (tb_rows (db_orders s)). \<forall>i. open_status (snd r) \<longrightarrow> o_BrokerOrderID (snd r) = paper_key i \<longrightarrow> i \<le> fst r)"





section \<open>A repaired order in the place of a stored one\<close>

text \<open>
  The counter restarts one above the largest row key, not above the numbers in the identifiers. Refused orders
  use up numbers without a row, so an identifier can be ahead of its row. Here the stop of BTC is
  row 3 with the identifier \<open>paper-5\<close>: the target of ETH becomes \<open>paper-5\<close> and takes its place.
\<close>

definition saved_position :: "string \<Rightarrow> int option \<Rightarrow> position" where
  "saved_position symbol slid =
    zero_position\<lparr>p_Symbol := symbol, p_Side := SideLong, p_EntryPrice := Fin 100, p_Size := Fin 1,
      p_StopLoss := Fin 90, p_TakeProfit := Fin 120, p_SLOrderID := slid, p_Status := PositionStatusOpen\<rparr>"

definition saved_rows :: "int \<Rightarrow> store" where
  "saved_rows number = (empty_store [])
    \<lparr>db_positions := \<lparr> tb_rows = [(1, saved_position ''BTC'' (Some 3)), (2, saved_position ''ETH'' None)], tb_seq = 2 \<rparr>,
     db_orders := \<lparr> tb_rows = [(3, (protective_order 0 (saved_position ''BTC'' None) OrderTypeStopMarket (Fin 90) number)
        \<lparr>o_BrokerOrderID := paper_key number\<rparr>)], tb_seq = 3 \<rparr>\<rparr>"

definition fresh_broker :: paper_broker where
  "fresh_broker = NewPaperBroker
    \<lparr> pc_StartingBalanceUSD = Fin 1000, pc_FeeMakerBps = Fin 2, pc_FeeTakerBps = Fin 5, pc_SlippageModel = ''fixed'',
      pc_SlippageBps = Fin 5, pc_DefaultLeverage = Fin 5 \<rparr>"

definition after_restart :: "int \<Rightarrow> paper_broker" where
  "after_restart number = fst (fst (Rehydrate True True False [] 0 (fresh_broker, saved_rows number)))"


lemma rehydrate_overwrites_stop:
  "\<not> ids_behind_rows (saved_rows 5)"
  "map_option p_StopLoss (map_of (pb_openPositions (after_restart 5)) ''BTC'') = Some (Fin 90)"
  "\<not> hasOpenStopOrderLocked (after_restart 5) ''BTC''"
  "hasOpenStopOrderLocked (after_restart 3) ''BTC''"
proof -
  show "\<not> ids_behind_rows (saved_rows 5)"
    by (auto simp: ids_behind_rows_def saved_rows_def open_status_def protective_order_def)
qed code_simp+


end
