(* ===== verification/Spec2Isabelle.thy ===== *)
theory Spec2Isabelle
  imports BrokerSpec IndicatorSpec RegimeSpec ConfigSpec ScoringSpec RiskSpec HardBlocksSpec SafetySpec StrategySpec
    RoutingSpec StoreSpec SimulatorSpec ShadowSpec MarketDataSpec MonitorSpec ExecutorSpec MetricsSpec UniverseSpec LLMSpec
    MarketServiceSpec ScreenerSpec SchedulerSpec
    RehydrateSpec
begin

section \<open>The program and its model\<close>

text \<open>
  A verification development for botsurv, a Go trading bot for USDT perpetual futures.

  The program. A long-running process (\<open>bot run\<close>) keeps market data of an exchange, and on a timer runs a cycle:
  scan the universe of symbols, screen them (indicators, market regime, two strategies, a deterministic score),
  remove what a hard block forbids, route the rest to a chat model or around it, validate risk, check the
  execution, and hand an order plan to a paper broker or a paper simulator. A monitor watches open positions, a
  counterfactual tracker watches what was not traded, and everything is written to PostgreSQL tables. The
  components call each other in that order and share state only through the broker, the market data caches and
  the tables.

  Which theory models which file of \<open>src/\<close> (paths below \<open>internal/\<close> unless they start elsewhere).

  \<^item> Foundations: \<open>Float64\<close> (binary64 arithmetic of Go's \<open>float64\<close>), \<open>Rounding\<close> and \<open>FloatEval\<close> (its laws and
    its evaluation), \<open>Prelude\<close> (64-bit integers, times, Go maps as association lists, loops over them),
    \<open>GoParse\<close> and \<open>GoJson\<close> (\<open>strconv\<close> and \<open>encoding/json\<close> as the source uses them), \<open>Repository\<close> (the
    contract of a row update as a locale).
  \<^item> Data: \<open>Domain\<close> (\<open>domain/domain.go\<close>), \<open>ConfigTypes\<close> and \<open>Config\<close> (\<open>app/config.go\<close>, \<open>modes.go\<close>,
    \<open>live_readiness.go\<close>). A struct is a record with the fields in the source's order, a string enumeration a
    datatype with one constructor per constant and one for any other text where such a text can arrive.
  \<^item> Market data: \<open>MarketData\<close> (\<open>marketdata/orderbook.go\<close>, \<open>cache.go\<close>, \<open>trade_flow.go\<close>), \<open>MarketParse\<close>
    (\<open>parser.go\<close>, \<open>validator.go\<close>, the replies of \<open>backfill.go\<close>), \<open>MarketService\<close> (\<open>bybit_ws.go\<close>,
    \<open>backfill.go\<close>), \<open>Universe\<close> (\<open>universe/\<close>).
  \<^item> Signals: \<open>Indicators\<close> (\<open>indicator/\<close>), \<open>Regime\<close> (\<open>regime/\<close>), \<open>Strategy\<close>, \<open>Candidate\<close>,
    \<open>TrendPullback\<close>, \<open>BreakoutRetest\<close> (\<open>strategy/\<close>), \<open>Scoring\<close> (\<open>scoring/\<close>), \<open>Screener\<close>
    (\<open>screener/screener.go\<close>).
  \<^item> Decisions: \<open>HardBlocks\<close> and \<open>Risk\<close> (\<open>risk/\<close>), \<open>Routing\<close> (\<open>routing/routing.go\<close>), \<open>LLMReview\<close> and
    \<open>LLMClient\<close> (\<open>llm/\<close>), \<open>Safety\<close> (\<open>execution/safety.go\<close>).
  \<^item> Execution: \<open>Broker\<close> (\<open>broker/\<close>), \<open>Rehydrate\<close> (its restart), \<open>Executor\<close> (\<open>executor/executor.go\<close>), \<open>Simulator\<close>
    (\<open>execution/paper/simulator.go\<close>), \<open>Monitor\<close> (\<open>monitor/monitor.go\<close>).
  \<^item> Records: \<open>Store\<close> (\<open>db/postgres_impl.go\<close>, \<open>repositories.go\<close>), \<open>Metrics\<close> (\<open>metrics/paper.go\<close>),
    \<open>Shadow\<close> (\<open>shadow/\<close>), \<open>DecisionLog\<close> (\<open>scheduler/decision_log.go\<close>).
  \<^item> The cycle: \<open>Scheduler\<close> (\<open>scheduler/scheduler.go\<close>), which composes all of the above.

  A component \<open>X\<close> has its properties in \<open>XSpec\<close>; \<open>BrokerInv\<close> and \<open>BrokerFrame\<close> hold the invariant and the
  frame of the broker that \<open>BrokerSpec\<close>, \<open>ExecutorSpec\<close>, \<open>MonitorSpec\<close> and \<open>SchedulerSpec\<close> build on.
\<close>

section \<open>How the code is read\<close>

text \<open>
  A method is a function from the state of its receiver to its result and the new state, with the guards and early
  returns in the order of the code; an \<open>error\<close> is a value of a datatype that keeps which error was returned. The
  following reading is used throughout.

  \<^item> \<open>float64\<close> is IEEE binary64 with infinities, NaN and signed zeros; every sum, product and quotient is rounded as
    the code rounds it. \<open>int\<close> and \<open>int64\<close> wrap at 64 bits where a value comes from outside or from a clock;
    counters that would need \<open>2 ^ 63\<close> calls to wrap are unbounded.
  \<^item> A method that holds a mutex is one atomic step; interleavings of goroutines are sequences of such steps. The
    veto calls of a cycle and the backfill workers run one after the other.
  \<^item> A handler reads the clock once: its time is an argument, as are random bytes, the iteration order of a map where
    it can be observed (\<open>ord\<close>), the replies of HTTP requests and the frames of a socket.
  \<^item> A Go map is an association list with distinct keys; \<open>sort.Slice\<close> and \<open>sort.SliceStable\<close> are insertion sort,
    which is stable as the second promises and one of the results that the first allows.
  \<^item> Strings are lists of characters compared bytewise; the case functions act on ASCII letters. Messages keep their
    fixed text; numbers printed into a message are left out unless the message is read again or names a row.
  \<^item> The tables of the database are lists of rows in a record \<open>Store\<close>; every statement consumes one entry of a list
    of driver failures, so a property that is proved for all such lists covers every pattern of failing
    statements. The constraints of the tables (keys, uniqueness, foreign keys) are those of the migrations. What a
    \<open>NUMERIC\<close> column gives back for a number of a candle is a function \<open>db_numeric\<close> of the store, of which nothing is
    assumed; the numbers of other rows come back as written.
  \<^item> The JSON parser recurses with fuel, the length of its input, which bounds every nesting; \<open>ParseFloat\<close> reads
    decimal notation and the names of infinities and NaN, not hexadecimal mantissas. The texts that
    \<open>json.Marshal\<close> writes into the decision log are functions of the marshalled values.
  \<^item> The broker runs with its repositories and alert sender unset, as \<open>bot simulate\<close> runs it, and keeps what it
    would hand to them in a log. Its restart (\<open>Rehydrate\<close>) reads and writes the tables themselves.
  \<^item> What the scheduler asks of the market data service, the chat model and the universe during a cycle is a record of
    answers (\<open>cycle_env\<close>, per candidate where the code asks per candidate).
\<close>

section \<open>What is proved\<close>

text \<open>
  \<^item> Broker: every reachable open position has a pending stop order of its own; a refused order changes nothing but the
    order counter; a halted broker stays halted, whatever is called, and refuses entries that carry no stop price; a candle closes at the stop first; an emergency close leaves it
    flat. Also what goes wrong: a stop that a gapping candle skips, a reduce-only order that opens a position, a
    failed change of the protective orders that strips the stop, a profit that equity counts twice. A
    restart reads back exactly the open rows and gives each a stop, or reports an error and changes nothing but
    the halt flag, provided that no stored identifier is ahead of its row; with one that is, a repaired order can replace a
    stored stop.
  \<^item> Market data: the order book is the replay of its messages and the candle cache a sorted, bounded series of the
    latest candles (refinements); parsed messages are well typed; the reconnecting loop ends exactly with its context.
  \<^item> Signals: accepted candles are exactly the well-formed ones (gaps are not looked for), indicator and score values stay in their ranges, the
    total agrees with the action, every candidate of a strategy is protected and has the required ratio, the
    screener loses no symbol and decides eligibility exactly by its checks.
  \<^item> Decisions: the evaluator reports exactly the blocks that fire, an approved trade satisfies the limits (but those that a high confidence overrides), the
    routing is a function of score, flags and budget, the veto client fails closed, a plan that is called safe passed
    every check, and an emergency stop lasts as long as its cooldown.
  \<^item> Execution and records: executor and monitor keep the broker's invariant, and an execution is at most one order, of the
    size and levels of the candidate; the simulator closes exactly the trades that reached a level and keeps its accounts
    over any repositories that keep their contract; written candles are read back in their series; and each figure of
    the metrics is given as a formula over the closed trades.
  \<^item> The cycle (\<open>SchedulerSpec\<close>): it places no orders itself, an execution has passed every gate, every candidate is
    accounted for in the result, no cycle starts while one runs, the caps hold, and a feed that has become critically stale is never cleared.
  \<^item> Interfaces are locales, interpreted on the model: the repositories of the simulator and the tracker on \<open>Store\<close>,
    the broker of the executor and the frames of the broker (its updates, every call but the reset of the daily loss,
    every call) on \<open>Broker\<close>, and the row updates on every table.

  Where the code does not do what it means to do, the property states what it does, and the manifest lists it as a
  finding.
\<close>

section \<open>What is not modelled\<close>

text \<open>
  \<^item> The command line (\<open>cmd/bot\<close>, \<open>cli/\<close>): flags, wiring and printing around the modelled operations.
  \<^item> Alerts and logging (\<open>alert/\<close>, \<open>logger/\<close>): messages to Telegram and to log files, best effort and without a
    result that the callers read.
  \<^item> The database connection and its migrations (\<open>db/connection.go\<close>, \<open>migrations.go\<close>): the driver and SQL text.
  \<^item> Reading the configuration file and substituting environment variables (library calls), the clients that stand in
    for the chat model in tests, sockets, timers and goroutine start-up.
  \<^item> The row keys that the tables assign to the orders of a running broker.
\<close>

end
